(* ===== verification/Go_Base.thy ===== *)
theory Go_Base
  imports Complex_Main "HOL-Library.Word" "HOL-Library.Sublist" "HOL-Library.Char_ord" "HOL-Library.List_Lexorder"
begin

text \<open>
  The prelude of the development: what the control plane's Go code uses of the language and its
  standard library, and the lemmas every component shares.

  \<^item> Go strings are byte sequences, modelled as \<^typ>\<open>string\<close> (a list of bytes). \<open>TrimSpace\<close> is
    \<^verbatim>\<open>strings.TrimSpace\<close>: it strips the UTF-8 encodings of every rune that \<^verbatim>\<open>unicode.IsSpace\<close>
    accepts, on both ends. \<open>ToLower\<close> and \<open>EqualFold\<close> are exact on ASCII and on the few other runes
    whose lower case or case folding is an ASCII letter; every other byte is kept, which is exact
    for comparisons with the constants of the source (ASCII words, and Han words, which have no
    case).
  \<^item> Dynamic values (\<^verbatim>\<open>any\<close>, as \<^verbatim>\<open>encoding/json\<close> decodes them) are the datatype \<open>gval\<close>; a Go map
    is an association list read with \<^const>\<open>map_of\<close>. A number carries its value and the text that
    \<^verbatim>\<open>fmt.Sprint\<close> gives it, so no float formatting is made up.
  \<^item> \<^verbatim>\<open>uuid.UUID\<close> is a 128-bit word; \<^verbatim>\<open>uuid.Parse\<close> and \<^verbatim>\<open>UUID.String\<close> belong to a third-party
    package and are the record \<open>uuid_lib\<close>, a parameter of the definitions that use them.
\<close>

named_theorems go_defs \<open>unfolding rules of the small model functions\<close>

section \<open>Strings\<close>

definition byte_string :: "nat list \<Rightarrow> string" where
  "byte_string ns = map char_of ns"

text \<open>The UTF-8 encodings of the runes that \<^verbatim>\<open>unicode.IsSpace\<close> accepts.\<close>

definition go_spaces :: "string list" where
  "go_spaces =
     [[CHR 0x09], [CHR 0x0A], [CHR 0x0B], [CHR 0x0C], [CHR 0x0D], [CHR 0x20],
      [CHR 0xC2, CHR 0x85], [CHR 0xC2, CHR 0xA0],
      [CHR 0xE1, CHR 0x9A, CHR 0x80],
      [CHR 0xE2, CHR 0x80, CHR 0x80], [CHR 0xE2, CHR 0x80, CHR 0x81], [CHR 0xE2, CHR 0x80, CHR 0x82],
      [CHR 0xE2, CHR 0x80, CHR 0x83], [CHR 0xE2, CHR 0x80, CHR 0x84], [CHR 0xE2, CHR 0x80, CHR 0x85],
      [CHR 0xE2, CHR 0x80, CHR 0x86], [CHR 0xE2, CHR 0x80, CHR 0x87], [CHR 0xE2, CHR 0x80, CHR 0x88],
      [CHR 0xE2, CHR 0x80, CHR 0x89], [CHR 0xE2, CHR 0x80, CHR 0x8A], [CHR 0xE2, CHR 0x80, CHR 0xA8],
      [CHR 0xE2, CHR 0x80, CHR 0xA9], [CHR 0xE2, CHR 0x80, CHR 0xAF], [CHR 0xE2, CHR 0x81, CHR 0x9F],
      [CHR 0xE3, CHR 0x80, CHR 0x80]]"

text \<open>Remove listed words from the front of a string until none of them is a prefix.\<close>

function strip_words :: "string list \<Rightarrow> string \<Rightarrow> string" where
  "strip_words ws s =
     (case find (\<lambda>w. w \<noteq> [] \<and> prefix w s) ws of
        None \<Rightarrow> s
      | Some w \<Rightarrow> strip_words ws (drop (length w) s))"
  by pat_completeness auto
termination
proof (relation "measure (\<lambda>(ws, s). length s)", goal_cases)
  case (2 ws s w)
  then have "w \<noteq> []" "prefix w s" by (auto simp: find_Some_iff)
  then show ?case by (cases w) (auto simp: prefix_def)
qed simp

declare strip_words.simps [simp del]

definition TrimSpace :: "string \<Rightarrow> string" where
  "TrimSpace s = rev (strip_words (map rev go_spaces) (rev (strip_words go_spaces s)))"

definition blank :: "string \<Rightarrow> bool" where
  "blank s \<longleftrightarrow> TrimSpace s = []"

definition untrimmed :: "string \<Rightarrow> bool" where
  "untrimmed s \<longleftrightarrow> s \<noteq> TrimSpace s"

lemma strip_words_Nil [simp]: "strip_words ws [] = []"
proof -
  have "find (\<lambda>w. w \<noteq> [] \<and> prefix w []) ws = None"
    by (auto simp: find_None_iff)
  then show ?thesis by (simp add: strip_words.simps [of ws "[]"])
qed

lemma strip_words_suffix: "suffix (strip_words ws s) s"
proof (induction ws s rule: strip_words.induct)
  case (1 ws s)
  show ?case
  proof (cases "find (\<lambda>w. w \<noteq> [] \<and> prefix w s) ws")
    case None
    then show ?thesis by (simp add: strip_words.simps [of ws s])
  next
    case (Some w)
    with "1.IH" have "suffix (strip_words ws (drop (length w) s)) (drop (length w) s)"
      by simp
    then have "suffix (strip_words ws (drop (length w) s)) s"
      by (rule suffix_order.trans) (rule suffix_drop)
    with Some show ?thesis by (simp add: strip_words.simps [of ws s])
  qed
qed

lemma strip_words_stuck: "find (\<lambda>w. w \<noteq> [] \<and> prefix w (strip_words ws s)) ws = None"
proof (induction ws s rule: strip_words.induct)
  case (1 ws s)
  show ?case
  proof (cases "find (\<lambda>w. w \<noteq> [] \<and> prefix w s) ws")
    case None
    then have "strip_words ws s = s" by (simp add: strip_words.simps [of ws s])
    with None show ?thesis by simp
  next
    case (Some w)
    then have "strip_words ws s = strip_words ws (drop (length w) s)"
      by (simp add: strip_words.simps [of ws s])
    with "1.IH" [OF Some] show ?thesis by simp
  qed
qed

lemma strip_words_fixed:
  assumes "find (\<lambda>w. w \<noteq> [] \<and> prefix w s) ws = None"
  shows "strip_words ws s = s"
  using assms by (simp add: strip_words.simps [of ws s])

lemma strip_words_idem [simp]: "strip_words ws (strip_words ws s) = strip_words ws s"
  by (rule strip_words_fixed) (rule strip_words_stuck)

lemma strip_words_prefix_fixed:
  assumes "prefix v (strip_words ws s)"
  shows "strip_words ws v = v"
proof (rule strip_words_fixed)
  show "find (\<lambda>w. w \<noteq> [] \<and> prefix w v) ws = None"
    using strip_words_stuck [of ws s] assms
    by (auto simp: find_None_iff intro: prefix_order.trans)
qed

lemma TrimSpace_Nil [simp]: "TrimSpace [] = []"
  by (simp add: TrimSpace_def)

lemma TrimSpace_idem [simp]: "TrimSpace (TrimSpace s) = TrimSpace s"
proof -
  let ?u = "strip_words go_spaces s" and ?R = "map rev go_spaces"
  have "prefix (rev (strip_words ?R (rev ?u))) ?u"
    using strip_words_suffix [of ?R "rev ?u"] by (simp add: suffix_to_prefix)
  then have "strip_words go_spaces (rev (strip_words ?R (rev ?u))) = rev (strip_words ?R (rev ?u))"
    by (rule strip_words_prefix_fixed)
  then show ?thesis by (simp add: TrimSpace_def)
qed

lemma blank_Nil [simp]: "blank []"
  by (simp add: blank_def)

lemma blank_TrimSpace [simp]: "blank (TrimSpace s) = blank s"
  by (simp add: blank_def)

lemma not_untrimmed_TrimSpace [simp]: "\<not> untrimmed (TrimSpace s)"
  by (simp add: untrimmed_def)

text \<open>
  Case conversion. \<^verbatim>\<open>unicode.ToLower\<close> sends two runes outside ASCII to ASCII letters: U+0130 (bytes
  C4 B0) to \<^verbatim>\<open>i\<close> and U+212A (bytes E2 84 AA) to \<^verbatim>\<open>k\<close>. \<^verbatim>\<open>strings.EqualFold\<close> folds U+017F (bytes
  C5 BF) to \<^verbatim>\<open>s\<close> and U+212A to \<^verbatim>\<open>k\<close>.
\<close>

definition lower_char :: "char \<Rightarrow> char" where
  "lower_char c = (let n = (of_char c :: nat) in if 65 \<le> n \<and> n \<le> 90 then char_of (n + 32) else c)"

lemma lower_char_code [code]:
  "lower_char (Char b0 b1 b2 b3 b4 b5 b6 b7) =
     (if \<not> b7 \<and> b6 \<and> \<not> b5 \<and> (b0 \<or> b1 \<or> b2 \<or> b3 \<or> b4) \<and> \<not> (b4 \<and> b3 \<and> (b2 \<or> b1 \<and> b0))
      then Char b0 b1 b2 b3 b4 True b6 b7 else Char b0 b1 b2 b3 b4 b5 b6 b7)"
  by (cases b0; cases b1; cases b2; cases b3; cases b4; cases b5; cases b6; cases b7; simp add: lower_char_def char_of_def bit_0)

fun ToLower :: "string \<Rightarrow> string" where
  "ToLower [] = []"
| "ToLower (a # s) =
     (if a = CHR 0xC4 \<and> s \<noteq> [] \<and> hd s = CHR 0xB0 then CHR ''i'' # ToLower (tl s)
      else if a = CHR 0xE2 \<and> take 2 s = [CHR 0x84, CHR 0xAA] then CHR ''k'' # ToLower (drop 2 s)
      else lower_char a # ToLower s)"

fun fold_case :: "string \<Rightarrow> string" where
  "fold_case [] = []"
| "fold_case (a # s) =
     (if a = CHR 0xC5 \<and> s \<noteq> [] \<and> hd s = CHR 0xBF then CHR ''s'' # fold_case (tl s)
      else if a = CHR 0xE2 \<and> take 2 s = [CHR 0x84, CHR 0xAA] then CHR ''k'' # fold_case (drop 2 s)
      else lower_char a # fold_case s)"

definition EqualFold :: "string \<Rightarrow> string \<Rightarrow> bool" where
  "EqualFold s t \<longleftrightarrow> fold_case s = fold_case t"

lemma EqualFold_refl [simp]: "EqualFold s s"
  by (simp add: EqualFold_def)

text \<open>Code equations that stop at the first difference.\<close>

lemma EqualFold_code [code]:
  "EqualFold [] [] = True"
  "EqualFold (a # s) [] = False"
  "EqualFold [] (b # t) = False"
  "EqualFold (a # s) (b # t) =
     (if a \<noteq> CHR 0xC5 \<and> a \<noteq> CHR 0xE2 \<and> b \<noteq> CHR 0xC5 \<and> b \<noteq> CHR 0xE2
      then (a = b \<or> lower_char a = lower_char b) \<and> EqualFold s t else fold_case (a # s) = fold_case (b # t))"
  by (auto simp: EqualFold_def)

text \<open>
  Runes. \<open>rune_width s\<close> is the length of the well-formed UTF-8 encoding at the front of \<open>s\<close>, or 0
  where there is none; \<open>runes\<close> is the conversion \<^verbatim>\<open>[]rune(s)\<close>, each rune as its encoding, a byte that
  starts no well-formed encoding as U+FFFD. \<^verbatim>\<open>string(runes[:n])\<close> is then \<open>concat (take n (runes s))\<close>.
\<close>

definition byte_in :: "nat \<Rightarrow> nat \<Rightarrow> char \<Rightarrow> bool" where
  "byte_in lo hi c \<longleftrightarrow> (let n = (of_char c :: nat) in lo \<le> n \<and> n \<le> hi)"

definition rune_width :: "string \<Rightarrow> nat" where
  "rune_width s =
     (let cont = (\<lambda>i. i < length s \<and> byte_in 128 191 (s ! i));
          snd_in = (\<lambda>lo hi. 1 < length s \<and> byte_in lo hi (s ! 1))
      in case s of
           [] \<Rightarrow> 0
         | b # _ \<Rightarrow>
             (if byte_in 0 127 b then 1
              else if byte_in 194 223 b then (if cont 1 then 2 else 0)
              else if byte_in 224 239 b then
                (if (if byte_in 224 224 b then snd_in 160 191
                     else if byte_in 237 237 b then snd_in 128 159 else cont 1) \<and> cont 2
                 then 3 else 0)
              else if byte_in 240 244 b then
                (if (if byte_in 240 240 b then snd_in 144 191
                     else if byte_in 244 244 b then snd_in 128 143 else cont 1) \<and> cont 2 \<and> cont 3
                 then 4 else 0)
              else 0))"

function runes :: "string \<Rightarrow> string list" where
  "runes s =
     (if s = [] then []
      else if rune_width s = 0 then [CHR 0xEF, CHR 0xBF, CHR 0xBD] # runes (tl s)
      else take (rune_width s) s # runes (drop (rune_width s) s))"
  by pat_completeness auto
termination
  by (relation "measure length") auto

declare runes.simps [simp del]

text \<open>\<^verbatim>\<open>strings.HasPrefix\<close> is \<^const>\<open>prefix\<close> with its arguments swapped; \<^verbatim>\<open>strings.Join\<close> and
  \<^verbatim>\<open>strings.Contains\<close> follow.\<close>

abbreviation HasPrefix :: "string \<Rightarrow> string \<Rightarrow> bool" where
  "HasPrefix s p \<equiv> prefix p s"

fun Join :: "string list \<Rightarrow> string \<Rightarrow> string" where
  "Join [] sep = []"
| "Join [x] sep = x"
| "Join (x # xs) sep = x @ sep @ Join xs sep"

definition Contains :: "string \<Rightarrow> string \<Rightarrow> bool" where
  "Contains s p \<longleftrightarrow> list_ex (prefix p) (suffixes s)"

text \<open>\<^verbatim>\<open>strings.Split\<close> at a one-byte separator.\<close>

fun Split :: "string \<Rightarrow> char \<Rightarrow> string list" where
  "Split [] c = [[]]"
| "Split (x # xs) c = (if x = c then [] # Split xs c else (case Split xs c of [] \<Rightarrow> [[x]] | w # ws \<Rightarrow> (x # w) # ws))"

text \<open>Decimal digits of a natural number, as \<^verbatim>\<open>strconv.Itoa\<close> and \<^verbatim>\<open>%d\<close> print it.\<close>

fun nat_text :: "nat \<Rightarrow> string" where
  "nat_text n =
     (if n < 10 then [char_of (48 + n)] else nat_text (n div 10) @ [char_of (48 + n mod 10)])"

declare nat_text.simps [simp del]

lemma digit_chars [simp]:
  "char_of (48::nat) = CHR ''0''" "char_of (49::nat) = CHR ''1''" "char_of (50::nat) = CHR ''2''"
  "char_of (51::nat) = CHR ''3''" "char_of (52::nat) = CHR ''4''" "char_of (53::nat) = CHR ''5''"
  "char_of (54::nat) = CHR ''6''" "char_of (55::nat) = CHR ''7''" "char_of (56::nat) = CHR ''8''"
  "char_of (57::nat) = CHR ''9''"
  by code_simp+

definition Itoa :: "int \<Rightarrow> string" where
  "Itoa i = (if i < 0 then CHR ''-'' # nat_text (nat (- i)) else nat_text (nat i))"

section \<open>Identifiers\<close>

type_synonym uuid = "128 word"

abbreviation uuid_Nil :: uuid where
  "uuid_Nil \<equiv> 0"

record uuid_lib =
  uuid_Parse :: "string \<Rightarrow> uuid option"
  uuid_String :: "uuid \<Rightarrow> string"

text \<open>Documented behaviour of the package: the printed form of an identifier parses back to it.\<close>

definition uuid_roundtrip :: "uuid_lib \<Rightarrow> bool" where
  "uuid_roundtrip U \<longleftrightarrow> (\<forall>u. uuid_Parse U (uuid_String U u) = Some u)"

text \<open>The printed form has no surrounding blanks: it consists of hexadecimal digits and hyphens.\<close>

definition uuid_trimmed :: "uuid_lib \<Rightarrow> bool" where
  "uuid_trimmed U \<longleftrightarrow> (\<forall>u. TrimSpace (uuid_String U u) = uuid_String U u)"

text \<open>A concrete instance of the identifier package, with decimal printed forms.\<close>

fun digits_val :: "nat \<Rightarrow> string \<Rightarrow> nat option" where
  "digits_val acc [] = Some acc"
| "digits_val acc (c # s) =
     (let n = (of_char c :: nat) in
      if 48 \<le> n \<and> n \<le> 57 then digits_val (acc * 10 + (n - 48)) s else None)"

lemma digits_val_nat_text: "digits_val 0 (nat_text n @ s) = digits_val n s"
proof (induction n arbitrary: s rule: nat_text.induct)
  case (1 n)
  show ?case
  proof (cases "n < 10")
    case True
    then show ?thesis by (simp add: nat_text.simps [of n] of_char_of)
  next
    case False
    have "digits_val 0 (nat_text n @ s) = digits_val 0 (nat_text (n div 10) @ (char_of (48 + n mod 10) # s))"
      using False by (simp add: nat_text.simps [of n])
    also have "\<dots> = digits_val (n div 10) (char_of (48 + n mod 10) # s)"
      using "1.IH" [OF False] .
    also have "\<dots> = digits_val n s"
    proof -
      have "n mod 10 \<le> 9" by simp
      moreover from this have "(of_char (char_of (48 + n mod 10) :: char) :: nat) = 48 + n mod 10"
        by (simp add: of_char_of)
      ultimately show ?thesis by (simp add: Let_def)
    qed
    finally show ?thesis .
  qed
qed

definition decimal_uuid_lib :: uuid_lib where
  "decimal_uuid_lib =
     \<lparr>uuid_Parse = (\<lambda>s. if s = [] then None else map_option word_of_nat (digits_val 0 s)),
      uuid_String = (\<lambda>u. nat_text (unat u))\<rparr>"

lemma nat_text_not_Nil [simp]: "nat_text n \<noteq> []"
  by (simp add: nat_text.simps [of n])

lemma decimal_uuid_roundtrip: "uuid_roundtrip decimal_uuid_lib"
  using digits_val_nat_text [of _ "[]"] by (simp add: uuid_roundtrip_def decimal_uuid_lib_def)

text \<open>A string of digits is left alone.\<close>

lemma strip_words_other:
  assumes "\<And>w. w \<in> set ws \<Longrightarrow> w \<noteq> [] \<and> hd w \<noteq> c"
  shows "strip_words ws (c # s) = c # s"
proof -
  have "find (\<lambda>w. w \<noteq> [] \<and> prefix w (c # s)) ws = None"
    using assms by (fastforce simp: find_None_iff prefix_Cons)
  then show ?thesis by (simp add: strip_words.simps)
qed

text \<open>A code equation that leaves a string alone when its ends are plainly no blanks: bytes from 0x40 to 0x7F,
  and digits.\<close>

definition plain_char :: "char \<Rightarrow> bool" where
  "plain_char c \<longleftrightarrow> \<not> digit7 c \<and> (digit6 c \<or> digit5 c \<and> digit4 c)"

lemma spaces_not_plain: "w \<in> set go_spaces \<Longrightarrow> w \<noteq> [] \<and> \<not> plain_char (hd w) \<and> \<not> plain_char (last w)"
  by (auto simp: go_spaces_def plain_char_def)

lemma strip_words_plain:
  assumes "\<And>w. w \<in> set ws \<Longrightarrow> w \<noteq> [] \<and> \<not> plain_char (hd w)" "plain_char c"
  shows "strip_words ws (c # s) = c # s"
  by (rule strip_words_other) (use assms in blast)

lemma TrimSpace_code [code]:
  "TrimSpace s =
     (case s of [] \<Rightarrow> [] | c # _ \<Rightarrow>
        if plain_char c \<and> plain_char (last s) then s
        else rev (strip_words (map rev go_spaces) (rev (strip_words go_spaces s))))"
proof (cases s)
  case (Cons c t)
  have "strip_words (map rev go_spaces) (rev s) = rev s" if "plain_char (last s)"
  proof -
    have "rev s = last s # rev (butlast s)" using Cons by (metis append_butlast_last_id list.distinct(1) rev_eq_Cons_iff rev_rev_ident)
    moreover have "w \<noteq> [] \<and> \<not> plain_char (hd w)" if "w \<in> set (map rev go_spaces)" for w
      using that spaces_not_plain by (auto simp: hd_rev)
    ultimately show ?thesis using strip_words_plain \<open>plain_char (last s)\<close> by metis
  qed
  moreover have "strip_words go_spaces s = s" if "plain_char c"
    using strip_words_plain [of go_spaces c t] that spaces_not_plain Cons by auto
  ultimately show ?thesis using Cons by (simp add: TrimSpace_def)
qed simp

lemma space_ends:
  assumes "48 \<le> (of_char c :: nat)" "(of_char c :: nat) \<le> 57"
  shows "\<And>w. w \<in> set go_spaces \<Longrightarrow> w \<noteq> [] \<and> hd w \<noteq> c"
    and "\<And>w. w \<in> set (map rev go_spaces) \<Longrightarrow> w \<noteq> [] \<and> hd w \<noteq> c"
  using assms by (auto simp: go_spaces_def)

lemma digits_trimmed:
  assumes "\<forall>c \<in> set s. 48 \<le> (of_char c :: nat) \<and> (of_char c :: nat) \<le> 57"
  shows "TrimSpace s = s"
proof -
  have strip: "strip_words go_spaces s = s" using assms
    by (cases s) (auto intro!: strip_words_other dest: space_ends(1))
  have "strip_words (map rev go_spaces) (rev s) = rev s"
  proof (cases s rule: rev_cases)
    case (snoc ys y)
    with assms show ?thesis by (auto intro!: strip_words_other dest: space_ends(2) simp del: set_map)
  qed simp
  with strip show ?thesis by (simp add: TrimSpace_def)
qed

lemma nat_text_digits: "\<forall>c \<in> set (nat_text n). 48 \<le> (of_char c :: nat) \<and> (of_char c :: nat) \<le> 57"
proof (induction n rule: nat_text.induct)
  case (1 n)
  have "n mod 10 \<le> 9" by simp
  then have "(of_char (char_of (48 + n mod 10) :: char) :: nat) = 48 + n mod 10" by (simp add: of_char_of)
  with 1 show ?case by (auto simp: nat_text.simps [of n] of_char_of)
qed

lemma decimal_uuid_trimmed: "uuid_trimmed decimal_uuid_lib"
  using digits_trimmed nat_text_digits by (simp add: uuid_trimmed_def decimal_uuid_lib_def)

text \<open>Printed identifiers consist of hexadecimal digits and hyphens: they contain no colon.\<close>

definition uuid_plain :: "uuid_lib \<Rightarrow> bool" where
  "uuid_plain U \<longleftrightarrow> (\<forall>u. CHR '':'' \<notin> set (uuid_String U u))"

lemma split_at_first:
  assumes "c \<notin> set xs" "c \<notin> set xs'"
  shows "xs @ c # ys = xs' @ c # ys' \<longleftrightarrow> xs = xs' \<and> ys = ys'"
  using assms
proof (induction xs arbitrary: xs')
  case Nil
  then show ?case by (cases xs') auto
next
  case (Cons a xs)
  then show ?case by (cases xs') auto
qed

lemma nat_text_plain: "CHR '':'' \<notin> set (nat_text n)" "CHR ''-'' \<notin> set (nat_text n)"
  using nat_text_digits [of n] by (auto dest: bspec)

lemma Itoa_no_colon: "CHR '':'' \<notin> set (Itoa i)"
  by (simp add: Itoa_def nat_text_plain)

lemma nat_text_eq: "nat_text a = nat_text b \<longleftrightarrow> a = b"
proof
  assume "nat_text a = nat_text b"
  then have "digits_val 0 (nat_text a @ []) = digits_val 0 (nat_text b @ [])" by simp
  then show "a = b" unfolding digits_val_nat_text by simp
qed simp

lemma Itoa_eq: "Itoa i = Itoa j \<longleftrightarrow> i = j"
proof -
  have "nat_text n \<noteq> CHR ''-'' # nat_text m" for n m using nat_text_plain(2) by (metis list.set_intros(1))
  from this this [symmetric] show ?thesis by (auto simp: Itoa_def nat_text_eq)
qed

lemma uuid_String_eq: "uuid_roundtrip U \<Longrightarrow> uuid_String U a = uuid_String U b \<longleftrightarrow> a = b"
  unfolding uuid_roundtrip_def by (metis option.inject)

lemma decimal_uuid_plain: "uuid_plain decimal_uuid_lib"
  by (simp add: uuid_plain_def decimal_uuid_lib_def nat_text_plain)

section \<open>Dynamic values\<close>

datatype gval =
    GNil
  | GBool bool
  | GStr string
  | GNum rat string
  | GStrs "string list"
  | GList "gval list"
  | GMap "(string \<times> gval) list"
  | GSMap "(string \<times> string) list"
  | GMaps "(string \<times> gval) list list"

type_synonym gmap = "(string \<times> gval) list"

text \<open>\<^verbatim>\<open>fmt.Sprint\<close> of a dynamic value: lists in brackets separated by blanks, maps with their keys
  in increasing order.\<close>

fun sprint :: "gval \<Rightarrow> string" where
  "sprint GNil = ''<nil>''"
| "sprint (GBool b) = (if b then ''true'' else ''false'')"
| "sprint (GStr s) = s"
| "sprint (GNum _ t) = t"
| "sprint (GStrs ss) = ''['' @ Join ss '' '' @ '']''"
| "sprint (GList vs) = ''['' @ Join (map sprint vs) '' '' @ '']''"
| "sprint (GMap kvs) =
     ''map['' @
     Join (map (\<lambda>(k, t). k @ '':'' @ t) (sort_key fst (map (\<lambda>(k, v). (k, sprint v)) kvs))) '' '' @ '']''"
| "sprint (GSMap kvs) = ''map['' @ Join (map (\<lambda>(k, v). k @ '':'' @ v) (sort_key fst kvs)) '' '' @ '']''"
| "sprint (GMaps ms) =
     ''['' @ Join (map (\<lambda>kvs. ''map['' @
       Join (map (\<lambda>(k, t). k @ '':'' @ t) (sort_key fst (map (\<lambda>(k, v). (k, sprint v)) kvs))) '' '' @ '']'') ms) '' ''
       @ '']''"

text \<open>Type assertions \<^verbatim>\<open>v.(string)\<close>, \<^verbatim>\<open>v.(bool)\<close>, \<^verbatim>\<open>v.([]any)\<close>, \<^verbatim>\<open>v.(map[string]any)\<close> on a map entry; a missing key
  is the nil value, for which every assertion fails.\<close>

definition gget :: "gmap \<Rightarrow> string \<Rightarrow> gval" where
  "gget m k = (case map_of m k of None \<Rightarrow> GNil | Some v \<Rightarrow> v)"

fun as_str :: "gval \<Rightarrow> string option" where
  "as_str (GStr s) = Some s"
| "as_str _ = None"

fun as_bool :: "gval \<Rightarrow> bool option" where
  "as_bool (GBool b) = Some b"
| "as_bool _ = None"

fun as_list :: "gval \<Rightarrow> gval list option" where
  "as_list (GList vs) = Some vs"
| "as_list _ = None"

fun as_map :: "gval \<Rightarrow> gmap option" where
  "as_map (GMap m) = Some m"
| "as_map _ = None"

section \<open>Lists and options\<close>

text \<open>The first error of a loop that returns at the first failing element.\<close>

fun first_error :: "('a \<Rightarrow> 'e option) \<Rightarrow> 'a list \<Rightarrow> 'e option" where
  "first_error f [] = None"
| "first_error f (x # xs) = (case f x of Some e \<Rightarrow> Some e | None \<Rightarrow> first_error f xs)"

lemma first_error_None: "first_error f xs = None \<longleftrightarrow> (\<forall>x \<in> set xs. f x = None)"
  by (induction xs) (auto split: option.splits)

lemma first_error_Some: "first_error f xs = Some e \<Longrightarrow> \<exists>x \<in> set xs. f x = Some e"
  by (induction xs) (auto split: option.splits)

text \<open>Sequencing of checks that return an error or nil.\<close>

fun or_else :: "'e option \<Rightarrow> 'e option \<Rightarrow> 'e option" where
  "or_else (Some e) _ = Some e"
| "or_else None r = r"

lemma or_else_None [simp]: "or_else a b = None \<longleftrightarrow> a = None \<and> b = None"
  by (cases a) auto

text \<open>\<^verbatim>\<open>if cond { return err }\<close>.\<close>

definition fail_if :: "bool \<Rightarrow> 'e \<Rightarrow> 'e option" where
  "fail_if b e = (if b then Some e else None)"

lemma fail_if_None [simp]: "fail_if b e = None \<longleftrightarrow> \<not> b"
  by (simp add: fail_if_def)

lemma fail_if_simps [simp]: "fail_if True e = Some e" "fail_if False e = None"
  by (simp_all add: fail_if_def)

text \<open>A loop that decodes every element or fails.\<close>

lemma those_Some_nth: "those xs = Some ys \<longleftrightarrow> xs = map Some ys"
proof (induction xs arbitrary: ys)
  case (Cons x xs)
  then show ?case by (cases x; cases ys) (auto split: option.splits)
qed auto

lemma those_map_Some_all:
  assumes "those (map f vs) = Some ys" "\<And>v y. v \<in> set vs \<Longrightarrow> f v = Some y \<Longrightarrow> P y"
  shows "\<forall>y \<in> set ys. P y"
proof
  fix y assume "y \<in> set ys"
  then obtain i where i: "i < length ys" "ys ! i = y" by (auto simp: in_set_conv_nth)
  from assms(1) have eq: "map f vs = map Some ys" by (simp add: those_Some_nth)
  then have len: "length vs = length ys" by (metis length_map)
  from eq i len have "f (vs ! i) = Some y" by (metis nth_map)
  with i len show "P y" by (intro assms(2) [of "vs ! i"]) auto
qed

lemma find_unique:
  "x \<in> set xs \<Longrightarrow> P x \<Longrightarrow> (\<And>y. y \<in> set xs \<Longrightarrow> P y \<Longrightarrow> y = x) \<Longrightarrow> find P xs = Some x"
proof (induction xs)
  case (Cons a xs)
  show ?case
  proof (cases "P a")
    case True
    then have "a = x" by (intro Cons.prems(3)) auto
    with True show ?thesis by simp
  next
    case False
    with Cons.prems(1,2) have "x \<in> set xs" by auto
    then have "find P xs = Some x" using Cons.prems(2) by (rule Cons.IH) (rule Cons.prems(3), auto)
    with False show ?thesis by simp
  qed
qed simp

lemma find_SomeD: "find P xs = Some x \<Longrightarrow> x \<in> set xs \<and> P x"
  by (auto simp: find_Some_iff)

end
