(* ===== verification/Authz_Types.thy ===== *)
theory Authz_Types
  imports Go_Base
begin

text \<open>
  The vocabulary of the authorization component
  (\<^verbatim>\<open>apps/control-plane/internal/authz/types.go\<close>, \<^verbatim>\<open>repository.go\<close>, \<^verbatim>\<open>openfga_mapping.go\<close>): actions,
  roles, resource and actor types as datatypes with one constructor per string constant of the
  source and a last constructor for every other string; requests, decisions and the records kept of
  them as records.
\<close>

section \<open>Enumerations\<close>

text \<open>
  The action constants, grouped by the object they act on; every other action string is
  \<open>OtherAction\<close>. The abbreviations give each constant its name in the source.
\<close>

datatype general_action =
    ConsoleAccess | TenantAccess | TeamAccess | RuntimeScopeManage | AuthzCenterRead |
    UserProjectTeamScopeRead | UserProjectTeamScopeManage | CredentialRead | CredentialCreate |
    CredentialDelete | MCPRegistryRead | MCPRegistryManage | ScenarioTemplateRead |
    ScenarioTemplateManage | SystemConfigRead | SystemConfigManage | ManageSystemTemplates |
    AuditRead

datatype skill_action =
    SkillRead | SkillUpload | SkillDelete | SkillInstall | SkillArchiveReplace

datatype employee_action =
    EmployeeCreate | EmployeeRead | EmployeeStatusUpdate | EmployeeTeamUpdate |
    EmployeeProfileUpdate | EmployeeDelete | EmployeeExecutionBind | EmployeeConfigCreate |
    EmployeeConfigPreview | EmployeeConfigApprove | EmployeeCapabilityEdit | EmployeeRunCreate |
    EmployeeRunStop | EmployeeRunLogRead

datatype team_action =
    TeamCreate | TeamRead | TeamUpdate | TeamDelete | TeamMemberAdd | TeamMemberRemove |
    TeamMemberChangeRole | TeamMemberRequestPrivilegedRole | TeamMemberApprovePrivilegedRole |
    TeamGovernanceRead | TeamGovernanceEdit | TeamGovernanceApprove | TeamCapabilityBind |
    TeamCapabilityUnbind | TeamCapabilityManage | TeamAuditRead

datatype project_action =
    ProjectCreate | ProjectRead | ProjectUpdate | ProjectArchive | ProjectDelete |
    ProjectMemberRead | ProjectMemberManage | ProjectDemandRead | ProjectDemandSubmit |
    ProjectTaskRead | ProjectEventRead | ProjectDecisionRead | ProjectDecisionResolve |
    ProjectEvidenceRead | ProjectEvidenceCreate | ProjectEvidenceUpdate | ProjectArtifactRead |
    ProjectReportRead | ProjectBudgetRead | ProjectAcceptanceCreate | ProjectAcceptanceRead |
    ProjectConfigRead | ProjectConfigEdit

datatype action =
    AdminAction general_action
  | SkillAction skill_action
  | EmployeeAction employee_action
  | TeamAction team_action
  | ProjectAction project_action
  | OtherAction string

abbreviation "ActionConsoleAccess \<equiv> AdminAction ConsoleAccess"
abbreviation "ActionTenantAccess \<equiv> AdminAction TenantAccess"
abbreviation "ActionTeamAccess \<equiv> AdminAction TeamAccess"
abbreviation "ActionRuntimeScopeManage \<equiv> AdminAction RuntimeScopeManage"
abbreviation "ActionAuthzCenterRead \<equiv> AdminAction AuthzCenterRead"
abbreviation "ActionUserProjectTeamScopeRead \<equiv> AdminAction UserProjectTeamScopeRead"
abbreviation "ActionUserProjectTeamScopeManage \<equiv> AdminAction UserProjectTeamScopeManage"
abbreviation "ActionCredentialRead \<equiv> AdminAction CredentialRead"
abbreviation "ActionCredentialCreate \<equiv> AdminAction CredentialCreate"
abbreviation "ActionCredentialDelete \<equiv> AdminAction CredentialDelete"
abbreviation "ActionMCPRegistryRead \<equiv> AdminAction MCPRegistryRead"
abbreviation "ActionMCPRegistryManage \<equiv> AdminAction MCPRegistryManage"
abbreviation "ActionScenarioTemplateRead \<equiv> AdminAction ScenarioTemplateRead"
abbreviation "ActionScenarioTemplateManage \<equiv> AdminAction ScenarioTemplateManage"
abbreviation "ActionSystemConfigRead \<equiv> AdminAction SystemConfigRead"
abbreviation "ActionSystemConfigManage \<equiv> AdminAction SystemConfigManage"
abbreviation "ActionManageSystemTemplates \<equiv> AdminAction ManageSystemTemplates"
abbreviation "ActionAuditRead \<equiv> AdminAction AuditRead"

abbreviation "ActionSkillRead \<equiv> SkillAction SkillRead"
abbreviation "ActionSkillUpload \<equiv> SkillAction SkillUpload"
abbreviation "ActionSkillDelete \<equiv> SkillAction SkillDelete"
abbreviation "ActionSkillInstall \<equiv> SkillAction SkillInstall"
abbreviation "ActionSkillArchiveReplace \<equiv> SkillAction SkillArchiveReplace"

abbreviation "ActionEmployeeCreate \<equiv> EmployeeAction EmployeeCreate"
abbreviation "ActionEmployeeRead \<equiv> EmployeeAction EmployeeRead"
abbreviation "ActionEmployeeStatusUpdate \<equiv> EmployeeAction EmployeeStatusUpdate"
abbreviation "ActionEmployeeTeamUpdate \<equiv> EmployeeAction EmployeeTeamUpdate"
abbreviation "ActionEmployeeProfileUpdate \<equiv> EmployeeAction EmployeeProfileUpdate"
abbreviation "ActionEmployeeDelete \<equiv> EmployeeAction EmployeeDelete"
abbreviation "ActionEmployeeExecutionBind \<equiv> EmployeeAction EmployeeExecutionBind"
abbreviation "ActionEmployeeConfigCreate \<equiv> EmployeeAction EmployeeConfigCreate"
abbreviation "ActionEmployeeConfigPreview \<equiv> EmployeeAction EmployeeConfigPreview"
abbreviation "ActionEmployeeConfigApprove \<equiv> EmployeeAction EmployeeConfigApprove"
abbreviation "ActionEmployeeCapabilityEdit \<equiv> EmployeeAction EmployeeCapabilityEdit"
abbreviation "ActionEmployeeRunCreate \<equiv> EmployeeAction EmployeeRunCreate"
abbreviation "ActionEmployeeRunStop \<equiv> EmployeeAction EmployeeRunStop"
abbreviation "ActionEmployeeRunLogRead \<equiv> EmployeeAction EmployeeRunLogRead"

abbreviation "ActionTeamCreate \<equiv> TeamAction TeamCreate"
abbreviation "ActionTeamRead \<equiv> TeamAction TeamRead"
abbreviation "ActionTeamUpdate \<equiv> TeamAction TeamUpdate"
abbreviation "ActionTeamDelete \<equiv> TeamAction TeamDelete"
abbreviation "ActionTeamMemberAdd \<equiv> TeamAction TeamMemberAdd"
abbreviation "ActionTeamMemberRemove \<equiv> TeamAction TeamMemberRemove"
abbreviation "ActionTeamMemberChangeRole \<equiv> TeamAction TeamMemberChangeRole"
abbreviation "ActionTeamMemberRequestPrivilegedRole \<equiv> TeamAction TeamMemberRequestPrivilegedRole"
abbreviation "ActionTeamMemberApprovePrivilegedRole \<equiv> TeamAction TeamMemberApprovePrivilegedRole"
abbreviation "ActionTeamGovernanceRead \<equiv> TeamAction TeamGovernanceRead"
abbreviation "ActionTeamGovernanceEdit \<equiv> TeamAction TeamGovernanceEdit"
abbreviation "ActionTeamGovernanceApprove \<equiv> TeamAction TeamGovernanceApprove"
abbreviation "ActionTeamCapabilityBind \<equiv> TeamAction TeamCapabilityBind"
abbreviation "ActionTeamCapabilityUnbind \<equiv> TeamAction TeamCapabilityUnbind"
abbreviation "ActionTeamCapabilityManage \<equiv> TeamAction TeamCapabilityManage"
abbreviation "ActionTeamAuditRead \<equiv> TeamAction TeamAuditRead"

abbreviation "ActionProjectCreate \<equiv> ProjectAction ProjectCreate"
abbreviation "ActionProjectRead \<equiv> ProjectAction ProjectRead"
abbreviation "ActionProjectUpdate \<equiv> ProjectAction ProjectUpdate"
abbreviation "ActionProjectArchive \<equiv> ProjectAction ProjectArchive"
abbreviation "ActionProjectDelete \<equiv> ProjectAction ProjectDelete"
abbreviation "ActionProjectMemberRead \<equiv> ProjectAction ProjectMemberRead"
abbreviation "ActionProjectMemberManage \<equiv> ProjectAction ProjectMemberManage"
abbreviation "ActionProjectDemandRead \<equiv> ProjectAction ProjectDemandRead"
abbreviation "ActionProjectDemandSubmit \<equiv> ProjectAction ProjectDemandSubmit"
abbreviation "ActionProjectTaskRead \<equiv> ProjectAction ProjectTaskRead"
abbreviation "ActionProjectEventRead \<equiv> ProjectAction ProjectEventRead"
abbreviation "ActionProjectDecisionRead \<equiv> ProjectAction ProjectDecisionRead"
abbreviation "ActionProjectDecisionResolve \<equiv> ProjectAction ProjectDecisionResolve"
abbreviation "ActionProjectEvidenceRead \<equiv> ProjectAction ProjectEvidenceRead"
abbreviation "ActionProjectEvidenceCreate \<equiv> ProjectAction ProjectEvidenceCreate"
abbreviation "ActionProjectEvidenceUpdate \<equiv> ProjectAction ProjectEvidenceUpdate"
abbreviation "ActionProjectArtifactRead \<equiv> ProjectAction ProjectArtifactRead"
abbreviation "ActionProjectReportRead \<equiv> ProjectAction ProjectReportRead"
abbreviation "ActionProjectBudgetRead \<equiv> ProjectAction ProjectBudgetRead"
abbreviation "ActionProjectAcceptanceCreate \<equiv> ProjectAction ProjectAcceptanceCreate"
abbreviation "ActionProjectAcceptanceRead \<equiv> ProjectAction ProjectAcceptanceRead"
abbreviation "ActionProjectConfigRead \<equiv> ProjectAction ProjectConfigRead"
abbreviation "ActionProjectConfigEdit \<equiv> ProjectAction ProjectConfigEdit"

datatype role = RoleOwner | RoleAdmin | RoleApprover | RoleMember | RoleViewer | RoleOther string

fun role_text :: "role \<Rightarrow> string" where
  "role_text RoleOwner = ''owner''"
| "role_text RoleAdmin = ''admin''"
| "role_text RoleApprover = ''approver''"
| "role_text RoleMember = ''member''"
| "role_text RoleViewer = ''viewer''"
| "role_text (RoleOther s) = s"

text \<open>Reading a role from its stored text; the inverse of \<open>role_text\<close>.\<close>

definition role_of_text :: "string \<Rightarrow> role" where
  "role_of_text s =
     (if s = ''owner'' then RoleOwner else if s = ''admin'' then RoleAdmin
      else if s = ''approver'' then RoleApprover else if s = ''member'' then RoleMember
      else if s = ''viewer'' then RoleViewer else RoleOther s)"

lemma role_text_of_text [simp]: "role_text (role_of_text s) = s"
  by (simp add: role_of_text_def)

datatype actor_kind = ActorUser | ActorRuntimeNode | ActorEmployee | ActorService | ActorOther string

fun actor_kind_text :: "actor_kind \<Rightarrow> string" where
  "actor_kind_text ActorUser = ''user''"
| "actor_kind_text ActorRuntimeNode = ''runtime_node''"
| "actor_kind_text ActorEmployee = ''employee''"
| "actor_kind_text ActorService = ''service_account''"
| "actor_kind_text (ActorOther s) = s"

datatype resource_kind =
    ResourceConsole | ResourceTenant | ResourceTeam | ResourceProject | ResourceEmployee
  | ResourceSkill | ResourceCredential | ResourceOther string

fun resource_kind_text :: "resource_kind \<Rightarrow> string" where
  "resource_kind_text ResourceConsole = ''console''"
| "resource_kind_text ResourceTenant = ''tenant''"
| "resource_kind_text ResourceTeam = ''team''"
| "resource_kind_text ResourceProject = ''project''"
| "resource_kind_text ResourceEmployee = ''employee''"
| "resource_kind_text ResourceSkill = ''skill''"
| "resource_kind_text ResourceCredential = ''credential''"
| "resource_kind_text (ResourceOther s) = s"

datatype reason =
    ReasonEmpty
  | ReasonAllowed | ReasonNoMembership | ReasonInvalidActor | ReasonInvalidResource
  | ReasonUnsupportedAction | ReasonPrivilegedRoleRequiresApproval | ReasonLastTeamOwner
  | ReasonNotConfigured | ReasonOpenFGAFailed | ReasonShadowDiffers

fun reason_text :: "reason \<Rightarrow> string" where
  "reason_text ReasonEmpty = []"
| "reason_text ReasonAllowed = ''allowed''"
| "reason_text ReasonNoMembership = ''no active membership''"
| "reason_text ReasonInvalidActor = ''invalid actor''"
| "reason_text ReasonInvalidResource = ''invalid resource''"
| "reason_text ReasonUnsupportedAction = ''unsupported action''"
| "reason_text ReasonPrivilegedRoleRequiresApproval = ''privileged role requires approval''"
| "reason_text ReasonLastTeamOwner = ''cannot remove last team owner''"
| "reason_text ReasonNotConfigured = ''authorizer is not configured''"
| "reason_text ReasonOpenFGAFailed = ''openfga check failed''"
| "reason_text ReasonShadowDiffers = ''openfga shadow decision differs from db decision''"

datatype authz_error = ErrNoMembership | ErrUnsupportedAction | ErrStore string | ErrRecorder string

section \<open>Requests and decisions\<close>

record ActorRef =
  actor_Type :: actor_kind
  actor_ID :: string

record ResourceRef =
  res_Type :: resource_kind
  res_ID :: string

record CheckRequest =
  req_Actor :: ActorRef
  req_Action :: action
  req_Resource :: ResourceRef
  req_TenantID :: uuid
  req_TeamID :: "uuid option"
  req_Context :: gmap
  req_AuditReason :: string

record BulkTeamActionsRequest =
  bulk_Actor :: ActorRef
  bulk_TenantID :: uuid
  bulk_TeamID :: uuid
  bulk_Actions :: "action list"

record Decision =
  Allowed :: bool
  Reason :: reason
  MatchedRule :: string
  RequiresAudit :: bool
  Snapshot :: "(string \<times> gval) list"

definition zero_Decision :: Decision where
  "zero_Decision = \<lparr>Allowed = False, Reason = ReasonEmpty, MatchedRule = [], RequiresAudit = False, Snapshot = []\<rparr>"

record DecisionRecord =
  rec_TenantID :: uuid
  rec_TeamID :: "uuid option"
  rec_ActorType :: actor_kind
  rec_ActorID :: string
  rec_Action :: action
  rec_ResourceType :: resource_kind
  rec_ResourceID :: string
  rec_Allowed :: bool
  rec_Reason :: reason
  rec_MatchedRule :: string
  rec_Engine :: string
  rec_Snapshot :: "(string \<times> gval) list"

record EngineStatus =
  Engine :: string
  Status :: string
  EngineVersion :: string
  OpenFGAStoreID :: string
  OpenFGAModelID :: string
  RecentDiffCount :: int

text \<open>The result \<^verbatim>\<open>(Decision, error)\<close> of a check; both parts can be present.\<close>

type_synonym verdict = "Decision \<times> authz_error option"

definition allow :: "string \<Rightarrow> role \<Rightarrow> Decision" where
  "allow rule r =
     \<lparr>Allowed = True, Reason = ReasonAllowed, MatchedRule = rule, RequiresAudit = False,
      Snapshot = [(''engine'', GStr ''db''), (''role'', GStr (role_text r))]\<rparr>"

definition deny :: "reason \<Rightarrow> Decision" where
  "deny r =
     \<lparr>Allowed = False, Reason = r, MatchedRule = [], RequiresAudit = True,
      Snapshot = [(''engine'', GStr ''db'')]\<rparr>"

definition not_configured :: Decision where
  "not_configured =
     \<lparr>Allowed = False, Reason = ReasonNotConfigured, MatchedRule = [], RequiresAudit = True, Snapshot = []\<rparr>"

lemma allow_simps [simp]:
  "Allowed (allow rule r)" "Reason (allow rule r) = ReasonAllowed" "\<not> RequiresAudit (allow rule r)"
  "MatchedRule (allow rule r) = rule"
  by (simp_all add: allow_def)

lemma deny_simps [simp]:
  "\<not> Allowed (deny r)" "Reason (deny r) = r" "RequiresAudit (deny r)"
  by (simp_all add: deny_def)

lemma other_decision_simps [simp]:
  "\<not> Allowed zero_Decision" "\<not> RequiresAudit zero_Decision"
  "\<not> Allowed not_configured" "RequiresAudit not_configured"
  by (simp_all add: zero_Decision_def not_configured_def)

section \<open>Repository and recorder\<close>

record Membership =
  mem_TenantID :: uuid
  mem_TeamID :: "uuid option"
  mem_PrincipalType :: actor_kind
  mem_PrincipalID :: uuid
  mem_Role :: role
  mem_Status :: string

record DigitalEmployeeAuthzScope =
  scope_TenantID :: uuid
  scope_EmployeeID :: uuid
  scope_OwnerUserID :: uuid
  scope_TeamID :: "uuid option"

record ProjectAuthzFacts =
  HumanOwnerUserIDs :: "uuid list"
  IsMember :: bool
  facts_TeamID :: "uuid option"

text \<open>The interface \<^verbatim>\<open>Repository\<close>: one field per method, taking the method's parameter struct in
  curried form.\<close>

record Repository =
  GetActiveTenantMembership :: "uuid \<Rightarrow> actor_kind \<Rightarrow> uuid \<Rightarrow> authz_error + Membership"
  GetActiveTeamMembership :: "uuid \<Rightarrow> uuid \<Rightarrow> actor_kind \<Rightarrow> uuid \<Rightarrow> authz_error + Membership"
  GetDigitalEmployeeAuthzScope :: "uuid \<Rightarrow> uuid \<Rightarrow> authz_error + DigitalEmployeeAuthzScope"
  GetProjectAuthzFacts :: "uuid \<Rightarrow> uuid \<Rightarrow> uuid \<Rightarrow> authz_error + ProjectAuthzFacts"

text \<open>The interface \<^verbatim>\<open>DecisionRecorder\<close>: a call either fails or appends to the operation log.\<close>

type_synonym decision_log = "DecisionRecord list"
type_synonym recorder = "DecisionRecord \<Rightarrow> decision_log \<Rightarrow> authz_error + decision_log"

end
