(* ===== verification/Authz_Repository.thy ===== *)
theory Authz_Repository
  imports Authz_Types
begin

text \<open>
  The repository of the authorization component: the interface contract as the locale
  \<open>authz_repository\<close>, and its implementation \<^verbatim>\<open>authz/pg_repository.go\<close> over the tables that
  \<^verbatim>\<open>storage/queries/authz.sql\<close> reads, as an interpretation of it. A store may fail on any query
  (\<open>store_fault\<close>), as the database driver may.
\<close>

section \<open>The contract\<close>

text \<open>
  What the authorizer relies on: a membership that comes back belongs to the tenant, the team and
  the principal that were asked for, and is active; an employee scope belongs to the tenant and the
  employee asked for.
\<close>

locale authz_repository =
  fixes R :: Repository
  assumes tenant_membership_sound:
      "GetActiveTenantMembership R t pt p = Inr m \<Longrightarrow>
        mem_TenantID m = t \<and> mem_TeamID m = None \<and>
        actor_kind_text (mem_PrincipalType m) = actor_kind_text pt \<and>
        mem_PrincipalID m = p \<and> mem_Status m = ''active''"
    and team_membership_sound:
      "GetActiveTeamMembership R t g pt p = Inr m \<Longrightarrow>
        mem_TenantID m = t \<and> mem_TeamID m = Some g \<and>
        actor_kind_text (mem_PrincipalType m) = actor_kind_text pt \<and>
        mem_PrincipalID m = p \<and> mem_Status m = ''active''"
    and employee_scope_sound:
      "GetDigitalEmployeeAuthzScope R t e = Inr s \<Longrightarrow> scope_TenantID s = t \<and> scope_EmployeeID s = e"
begin

text \<open>The client's view: the role a principal acts with in a tenant or a team, if any.\<close>

definition tenant_role :: "uuid \<Rightarrow> uuid \<Rightarrow> role option" where
  "tenant_role t p =
     (case GetActiveTenantMembership R t ActorUser p of Inl _ \<Rightarrow> None | Inr m \<Rightarrow> Some (mem_Role m))"

lemma tenant_role_Some:
  "tenant_role t p = Some r \<longleftrightarrow> (\<exists>m. GetActiveTenantMembership R t ActorUser p = Inr m \<and> mem_Role m = r)"
  by (auto simp: tenant_role_def split: sum.splits)

end

section \<open>The tables\<close>

record tenant_member_row =
  tm_tenant_id :: uuid
  tm_team_id :: "uuid option"
  tm_principal_type :: string
  tm_principal_id :: uuid
  tm_role :: string
  tm_status :: string
  tm_disabled :: bool

record digital_employee_row =
  de_tenant_id :: uuid
  de_id :: uuid
  de_owner_user_id :: uuid
  de_team_id :: "uuid option"
  de_deleted :: bool

record project_row =
  pr_tenant_id :: uuid
  pr_id :: uuid
  pr_human_owner_user_ids :: "uuid list"
  pr_team_id :: "uuid option"
  pr_deleted :: bool

record project_member_row =
  pm_project_id :: uuid
  pm_principal_type :: string
  pm_principal_id :: uuid
  pm_status :: string

datatype authz_query = QTenantMembership | QTeamMembership | QEmployeeScope | QProjectFacts

record authz_store =
  tenant_members :: "tenant_member_row list"
  digital_employees :: "digital_employee_row list"
  projects :: "project_row list"
  project_members :: "project_member_row list"
  store_fault :: "authz_query \<Rightarrow> string option"

section \<open>The queries\<close>

text \<open>The error of a \<^verbatim>\<open>:one\<close> query: no row, or a failure of the driver.\<close>

datatype query_error = ErrNoRows | QueryFailed string

definition run_one :: "authz_store \<Rightarrow> authz_query \<Rightarrow> 'a list \<Rightarrow> query_error + 'a" where
  "run_one S q rows =
     (case store_fault S q of
        Some e \<Rightarrow> Inl (QueryFailed e)
      | None \<Rightarrow> (case rows of [] \<Rightarrow> Inl ErrNoRows | r # _ \<Rightarrow> Inr r))"

text \<open>\<^verbatim>\<open>ORDER BY CASE role WHEN 'owner' THEN 1 ...\<close>\<close>

definition role_order :: "string \<Rightarrow> nat" where
  "role_order s =
     (if s = ''owner'' then 1 else if s = ''admin'' then 2 else if s = ''approver'' then 3
      else if s = ''member'' then 4 else if s = ''viewer'' then 5 else 6)"

definition q_active_tenant_membership ::
  "authz_store \<Rightarrow> uuid \<Rightarrow> string \<Rightarrow> uuid \<Rightarrow> query_error + tenant_member_row" where
  "q_active_tenant_membership S t pt p =
     run_one S QTenantMembership
       (sort_key (\<lambda>r. role_order (tm_role r))
         (filter (\<lambda>r. tm_tenant_id r = t \<and> tm_team_id r = None \<and> tm_principal_type r = pt \<and>
            tm_principal_id r = p \<and> tm_status r = ''active'' \<and> \<not> tm_disabled r) (tenant_members S)))"

definition q_active_team_membership ::
  "authz_store \<Rightarrow> uuid \<Rightarrow> uuid \<Rightarrow> string \<Rightarrow> uuid \<Rightarrow> query_error + tenant_member_row" where
  "q_active_team_membership S t g pt p =
     run_one S QTeamMembership
       (sort_key (\<lambda>r. role_order (tm_role r))
         (filter (\<lambda>r. tm_tenant_id r = t \<and> tm_team_id r = Some g \<and> tm_principal_type r = pt \<and>
            tm_principal_id r = p \<and> tm_status r = ''active'' \<and> \<not> tm_disabled r) (tenant_members S)))"

definition q_digital_employee_authz_scope ::
  "authz_store \<Rightarrow> uuid \<Rightarrow> uuid \<Rightarrow> query_error + digital_employee_row" where
  "q_digital_employee_authz_scope S t e =
     run_one S QEmployeeScope
       (filter (\<lambda>r. de_tenant_id r = t \<and> de_id r = e \<and> \<not> de_deleted r) (digital_employees S))"

definition q_project_authz_facts ::
  "authz_store \<Rightarrow> uuid \<Rightarrow> uuid \<Rightarrow> uuid \<Rightarrow> string \<Rightarrow> query_error + (uuid list \<times> bool \<times> uuid option)" where
  "q_project_authz_facts S t p u pt =
     run_one S QProjectFacts
       (map (\<lambda>r. (pr_human_owner_user_ids r,
                  list_ex (\<lambda>m. pm_project_id m = pr_id r \<and> pm_principal_id m = u \<and>
                     pm_principal_type m = pt \<and> pm_status m = ''active'') (project_members S),
                  pr_team_id r))
         (filter (\<lambda>r. pr_tenant_id r = t \<and> pr_id r = p \<and> \<not> pr_deleted r) (projects S)))"

section \<open>PgRepository\<close>

fun mapMembershipError :: "query_error \<Rightarrow> authz_error" where
  "mapMembershipError ErrNoRows = ErrNoMembership"
| "mapMembershipError (QueryFailed e) = ErrStore e"

text \<open>The principal type column is text; only \<^verbatim>\<open>user\<close> is ever asked for.\<close>

definition actor_kind_of_text :: "string \<Rightarrow> actor_kind" where
  "actor_kind_of_text s =
     (if s = ''user'' then ActorUser else if s = ''runtime_node'' then ActorRuntimeNode
      else if s = ''employee'' then ActorEmployee else if s = ''service_account'' then ActorService
      else ActorOther s)"

definition membershipFromTenantMember :: "tenant_member_row \<Rightarrow> Membership" where
  "membershipFromTenantMember r =
     \<lparr>mem_TenantID = tm_tenant_id r, mem_TeamID = tm_team_id r,
      mem_PrincipalType = actor_kind_of_text (tm_principal_type r), mem_PrincipalID = tm_principal_id r,
      mem_Role = role_of_text (tm_role r), mem_Status = tm_status r\<rparr>"

definition pg_GetActiveTenantMembership ::
  "authz_store \<Rightarrow> uuid \<Rightarrow> actor_kind \<Rightarrow> uuid \<Rightarrow> authz_error + Membership" where
  "pg_GetActiveTenantMembership S t pt p =
     (case q_active_tenant_membership S t (actor_kind_text pt) p of
        Inl e \<Rightarrow> Inl (mapMembershipError e)
      | Inr r \<Rightarrow> Inr (membershipFromTenantMember r))"

definition pg_GetActiveTeamMembership ::
  "authz_store \<Rightarrow> uuid \<Rightarrow> uuid \<Rightarrow> actor_kind \<Rightarrow> uuid \<Rightarrow> authz_error + Membership" where
  "pg_GetActiveTeamMembership S t g pt p =
     (case q_active_team_membership S t g (actor_kind_text pt) p of
        Inl e \<Rightarrow> Inl (mapMembershipError e)
      | Inr r \<Rightarrow> Inr (membershipFromTenantMember r))"

definition pg_GetDigitalEmployeeAuthzScope ::
  "authz_store \<Rightarrow> uuid \<Rightarrow> uuid \<Rightarrow> authz_error + DigitalEmployeeAuthzScope" where
  "pg_GetDigitalEmployeeAuthzScope S t e =
     (case q_digital_employee_authz_scope S t e of
        Inl x \<Rightarrow> Inl (mapMembershipError x)
      | Inr r \<Rightarrow> Inr \<lparr>scope_TenantID = de_tenant_id r, scope_EmployeeID = de_id r,
                      scope_OwnerUserID = de_owner_user_id r, scope_TeamID = de_team_id r\<rparr>)"

definition pg_GetProjectAuthzFacts ::
  "authz_store \<Rightarrow> uuid \<Rightarrow> uuid \<Rightarrow> uuid \<Rightarrow> authz_error + ProjectAuthzFacts" where
  "pg_GetProjectAuthzFacts S t p u =
     (case q_project_authz_facts S t p u (actor_kind_text ActorUser) of
        Inl x \<Rightarrow> Inl (mapMembershipError x)
      | Inr (owners, is_member, team) \<Rightarrow>
          Inr \<lparr>HumanOwnerUserIDs = owners, IsMember = is_member, facts_TeamID = team\<rparr>)"

definition PgRepository :: "authz_store \<Rightarrow> Repository" where
  "PgRepository S =
     \<lparr>GetActiveTenantMembership = pg_GetActiveTenantMembership S,
      GetActiveTeamMembership = pg_GetActiveTeamMembership S,
      GetDigitalEmployeeAuthzScope = pg_GetDigitalEmployeeAuthzScope S,
      GetProjectAuthzFacts = pg_GetProjectAuthzFacts S\<rparr>"

lemma PgRepository_simps [simp]:
  "GetActiveTenantMembership (PgRepository S) = pg_GetActiveTenantMembership S"
  "GetActiveTeamMembership (PgRepository S) = pg_GetActiveTeamMembership S"
  "GetDigitalEmployeeAuthzScope (PgRepository S) = pg_GetDigitalEmployeeAuthzScope S"
  "GetProjectAuthzFacts (PgRepository S) = pg_GetProjectAuthzFacts S"
  by (simp_all add: PgRepository_def)

section \<open>The implementation meets the contract\<close>

lemma run_one_Inr: "run_one S q rows = Inr r \<Longrightarrow> r \<in> set rows"
  by (auto simp: run_one_def split: option.splits list.splits)

lemma run_one_ErrNoRows: "run_one S q rows = Inl ErrNoRows \<longleftrightarrow> store_fault S q = None \<and> rows = []"
  by (auto simp: run_one_def split: option.splits list.splits)

lemma actor_kind_text_of_text [simp]: "actor_kind_text (actor_kind_of_text s) = s"
  by (simp add: actor_kind_of_text_def)

lemma pg_tenant_membership_row:
  assumes "pg_GetActiveTenantMembership S t pt p = Inr m"
  shows "\<exists>r \<in> set (tenant_members S). m = membershipFromTenantMember r \<and> tm_tenant_id r = t \<and>
           tm_team_id r = None \<and> tm_principal_type r = actor_kind_text pt \<and> tm_principal_id r = p \<and>
           tm_status r = ''active'' \<and> \<not> tm_disabled r"
  using assms
  by (auto simp: pg_GetActiveTenantMembership_def q_active_tenant_membership_def
      split: sum.splits dest!: run_one_Inr)

lemma pg_team_membership_row:
  assumes "pg_GetActiveTeamMembership S t g pt p = Inr m"
  shows "\<exists>r \<in> set (tenant_members S). m = membershipFromTenantMember r \<and> tm_tenant_id r = t \<and>
           tm_team_id r = Some g \<and> tm_principal_type r = actor_kind_text pt \<and> tm_principal_id r = p \<and>
           tm_status r = ''active'' \<and> \<not> tm_disabled r"
  using assms
  by (auto simp: pg_GetActiveTeamMembership_def q_active_team_membership_def
      split: sum.splits dest!: run_one_Inr)

lemma pg_employee_scope_row:
  assumes "pg_GetDigitalEmployeeAuthzScope S t e = Inr s"
  shows "scope_TenantID s = t \<and> scope_EmployeeID s = e \<and>
    (\<exists>r \<in> set (digital_employees S). de_tenant_id r = t \<and> de_id r = e \<and> \<not> de_deleted r \<and>
       de_owner_user_id r = scope_OwnerUserID s)"
  using assms
  by (auto simp: pg_GetDigitalEmployeeAuthzScope_def q_digital_employee_authz_scope_def
      split: sum.splits dest!: run_one_Inr)

text \<open>
  The implementation meets the contract on every store: a row that comes back is a row of the table
  that satisfies the \<^verbatim>\<open>WHERE\<close> clause.
\<close>

interpretation pg: authz_repository "PgRepository S" for S
proof (unfold_locales, goal_cases)
  case (1 t pt p m)
  then show ?case by (auto simp: membershipFromTenantMember_def dest!: pg_tenant_membership_row)
next
  case (2 t g pt p m)
  then show ?case by (auto simp: membershipFromTenantMember_def dest!: pg_team_membership_row)
next
  case (3 t e s)
  then show ?case by (auto dest!: pg_employee_scope_row)
qed

end
