(* ===== verification/Authz_DB.thy ===== *)
theory Authz_DB
  imports Authz_Repository
begin

text \<open>
  The database-backed authorizer, \<^verbatim>\<open>authz/authorizer.go\<close>: the role tables, the checks they are used
  in, \<open>Check\<close> with its dispatch over the actions and its recording of every decision that requires
  audit, and the bulk variant \<open>CheckBulkTeamActions\<close>.
\<close>

section \<open>Role tables\<close>

fun roleAllowsTenantAccess :: "role \<Rightarrow> bool" where
  "roleAllowsTenantAccess r \<longleftrightarrow> r \<in> {RoleOwner, RoleAdmin, RoleMember, RoleViewer}"

fun roleAllowsTenantAdminAccess :: "role \<Rightarrow> bool" where
  "roleAllowsTenantAdminAccess r \<longleftrightarrow> r \<in> {RoleOwner, RoleAdmin}"

fun roleAllowsTeamRead :: "role \<Rightarrow> bool" where
  "roleAllowsTeamRead r \<longleftrightarrow> r \<in> {RoleOwner, RoleAdmin, RoleApprover, RoleMember, RoleViewer}"

fun roleAllowsTeamManagement :: "role \<Rightarrow> bool" where
  "roleAllowsTeamManagement r \<longleftrightarrow> r \<in> {RoleOwner, RoleAdmin}"

definition roleAllowsTeamAction :: "action \<Rightarrow> role \<Rightarrow> bool" where
  "roleAllowsTeamAction a r =
     (if a \<in> {ActionTeamRead, ActionTeamGovernanceRead} then roleAllowsTeamRead r
      else if a \<in> {ActionTeamUpdate, ActionTeamMemberAdd, ActionTeamMemberRemove,
                   ActionTeamMemberChangeRole, ActionTeamMemberRequestPrivilegedRole,
                   ActionTeamGovernanceEdit, ActionTeamCapabilityBind, ActionTeamCapabilityUnbind,
                   ActionTeamCapabilityManage, ActionTeamAuditRead} then roleAllowsTeamManagement r
      else if a = ActionTeamMemberApprovePrivilegedRole then r = RoleOwner
      else if a = ActionTeamGovernanceApprove then r = RoleOwner \<or> r = RoleApprover
      else False)"

definition teamActionRequiresOrdinaryRoleTarget :: "action \<Rightarrow> bool" where
  "teamActionRequiresOrdinaryRoleTarget a \<longleftrightarrow> a \<in> {ActionTeamMemberAdd, ActionTeamMemberChangeRole}"

definition teamActionCanRemoveOwner :: "action \<Rightarrow> bool" where
  "teamActionCanRemoveOwner a \<longleftrightarrow> a \<in> {ActionTeamMemberRemove, ActionTeamMemberChangeRole}"

definition isProjectAction :: "action \<Rightarrow> bool" where
  "isProjectAction a \<longleftrightarrow> a \<in>
     {ActionProjectCreate, ActionProjectRead, ActionProjectUpdate, ActionProjectArchive, ActionProjectDelete,
      ActionProjectMemberRead, ActionProjectMemberManage,
      ActionProjectDemandRead, ActionProjectDemandSubmit,
      ActionProjectTaskRead, ActionProjectEventRead,
      ActionProjectDecisionRead, ActionProjectDecisionResolve,
      ActionProjectEvidenceRead, ActionProjectEvidenceCreate, ActionProjectEvidenceUpdate,
      ActionProjectArtifactRead, ActionProjectReportRead,
      ActionProjectBudgetRead, ActionProjectAcceptanceCreate, ActionProjectAcceptanceRead,
      ActionProjectConfigRead, ActionProjectConfigEdit}"

definition isAuditAction :: "action \<Rightarrow> bool" where
  "isAuditAction a \<longleftrightarrow> a = ActionAuditRead"

definition projectActionAllowedForMember :: "action \<Rightarrow> bool" where
  "projectActionAllowedForMember a \<longleftrightarrow> a \<in>
     {ActionProjectRead, ActionProjectMemberRead,
      ActionProjectDemandRead, ActionProjectDemandSubmit,
      ActionProjectTaskRead, ActionProjectEventRead,
      ActionProjectDecisionRead, ActionProjectDecisionResolve,
      ActionProjectEvidenceRead, ActionProjectEvidenceCreate,
      ActionProjectArtifactRead, ActionProjectReportRead,
      ActionProjectBudgetRead, ActionProjectAcceptanceRead,
      ActionProjectConfigRead}"

section \<open>Helpers\<close>

definition parseUUIDActor :: "uuid_lib \<Rightarrow> ActorRef \<Rightarrow> actor_kind \<Rightarrow> uuid option" where
  "parseUUIDActor U a k = (if actor_Type a \<noteq> k then None else uuid_Parse U (actor_ID a))"

definition validResource :: "ResourceRef \<Rightarrow> resource_kind \<Rightarrow> bool" where
  "validResource r k \<longleftrightarrow> res_Type r = k \<and> res_ID r \<noteq> []"

definition resourceMatchesUUID :: "uuid_lib \<Rightarrow> ResourceRef \<Rightarrow> resource_kind \<Rightarrow> uuid \<Rightarrow> bool" where
  "resourceMatchesUUID U r k u =
     (if res_Type r \<noteq> k then False else uuid_Parse U (res_ID r) = Some u)"

definition validUUIDResource :: "uuid_lib \<Rightarrow> ResourceRef \<Rightarrow> resource_kind \<Rightarrow> bool" where
  "validUUIDResource U r k = (if res_Type r \<noteq> k then False else uuid_Parse U (res_ID r) \<noteq> None)"

definition contextString :: "gmap \<Rightarrow> string \<Rightarrow> string option" where
  "contextString c k = as_str (gget c k)"

definition contextBool :: "gmap \<Rightarrow> string \<Rightarrow> bool" where
  "contextBool c k = (as_bool (gget c k) = Some True)"

definition isPrivilegedTargetRole :: "gmap \<Rightarrow> bool" where
  "isPrivilegedTargetRole c =
     (case contextString c ''target_role'' of
        None \<Rightarrow> False
      | Some r \<Rightarrow> role_of_text r \<in> {RoleOwner, RoleAdmin, RoleApprover})"

section \<open>The checks\<close>

definition checkTenantAccess :: "uuid_lib \<Rightarrow> Repository \<Rightarrow> CheckRequest \<Rightarrow> verdict" where
  "checkTenantAccess U R q =
     (case parseUUIDActor U (req_Actor q) ActorUser of
        None \<Rightarrow> (deny ReasonInvalidActor, None)
      | Some p \<Rightarrow>
         (case GetActiveTenantMembership R (req_TenantID q) ActorUser p of
            Inl e \<Rightarrow> if e = ErrNoMembership then (deny ReasonNoMembership, None) else (zero_Decision, Some e)
          | Inr m \<Rightarrow>
              if roleAllowsTenantAccess (mem_Role m)
              then (allow (''tenant.'' @ role_text (mem_Role m)) (mem_Role m), None)
              else (deny ReasonNoMembership, None)))"

definition checkTeamAccess :: "uuid_lib \<Rightarrow> Repository \<Rightarrow> CheckRequest \<Rightarrow> verdict" where
  "checkTeamAccess U R q =
     (case req_TeamID q of
        None \<Rightarrow> checkTenantAccess U R q
      | Some g \<Rightarrow>
         (case parseUUIDActor U (req_Actor q) ActorUser of
            None \<Rightarrow> (deny ReasonInvalidActor, None)
          | Some p \<Rightarrow>
             (case GetActiveTeamMembership R (req_TenantID q) g ActorUser p of
                Inr m \<Rightarrow>
                  if roleAllowsTenantAccess (mem_Role m)
                  then (allow (''team.'' @ role_text (mem_Role m)) (mem_Role m), None)
                  else checkTenantAccess U R q
              | Inl e \<Rightarrow> if e \<noteq> ErrNoMembership then (zero_Decision, Some e) else checkTenantAccess U R q)))"

definition checkTenantAdminAccess :: "uuid_lib \<Rightarrow> Repository \<Rightarrow> CheckRequest \<Rightarrow> verdict" where
  "checkTenantAdminAccess U R q =
     (case parseUUIDActor U (req_Actor q) ActorUser of
        None \<Rightarrow> (deny ReasonInvalidActor, None)
      | Some p \<Rightarrow>
         (case GetActiveTenantMembership R (req_TenantID q) ActorUser p of
            Inl e \<Rightarrow> if e = ErrNoMembership then (deny ReasonNoMembership, None) else (zero_Decision, Some e)
          | Inr m \<Rightarrow>
              if roleAllowsTenantAdminAccess (mem_Role m)
              then (allow (''tenant.'' @ role_text (mem_Role m)) (mem_Role m), None)
              else (deny ReasonNoMembership, None)))"

definition checkEmployeeOwnerAction :: "uuid_lib \<Rightarrow> Repository \<Rightarrow> CheckRequest \<Rightarrow> verdict" where
  "checkEmployeeOwnerAction U R q =
     (case checkTenantAdminAccess U R q of (admin, e1) \<Rightarrow>
        if e1 \<noteq> None \<or> Allowed admin \<or> Reason admin \<noteq> ReasonNoMembership then (admin, e1)
        else case checkTenantAccess U R q of (tenant, e2) \<Rightarrow>
          if e2 \<noteq> None \<or> \<not> Allowed tenant then (tenant, e2)
          else case parseUUIDActor U (req_Actor q) ActorUser of
              None \<Rightarrow> (deny ReasonInvalidActor, None)
            | Some p \<Rightarrow>
               (case uuid_Parse U (res_ID (req_Resource q)) of
                  None \<Rightarrow> (deny ReasonInvalidResource, None)
                | Some emp \<Rightarrow>
                   (case GetDigitalEmployeeAuthzScope R (req_TenantID q) emp of
                      Inl e \<Rightarrow> if e = ErrNoMembership then (deny ReasonNoMembership, None) else (zero_Decision, Some e)
                    | Inr s \<Rightarrow>
                        if scope_OwnerUserID s = p
                        then (allow ''employee.owner'' RoleOwner, None)
                        else (deny ReasonNoMembership, None))))"

definition checkCredentialSelfOrTenantAdmin :: "uuid_lib \<Rightarrow> Repository \<Rightarrow> CheckRequest \<Rightarrow> verdict" where
  "checkCredentialSelfOrTenantAdmin U R q =
     (case parseUUIDActor U (req_Actor q) ActorUser of
        None \<Rightarrow> (deny ReasonInvalidActor, None)
      | Some p \<Rightarrow>
         (case uuid_Parse U (res_ID (req_Resource q)) of
            None \<Rightarrow> (deny ReasonInvalidResource, None)
          | Some c \<Rightarrow>
             if c = p
             then (case checkTenantAccess U R q of (d, e) \<Rightarrow>
                     if e \<noteq> None \<or> \<not> Allowed d then (d, e)
                     else (allow ''credential.self'' (RoleOther ''self''), None))
             else checkTenantAdminAccess U R q))"

definition checkTeamManagementAction :: "uuid_lib \<Rightarrow> Repository \<Rightarrow> CheckRequest \<Rightarrow> verdict" where
  "checkTeamManagementAction U R q =
     (case req_TeamID q of
        None \<Rightarrow> (deny ReasonInvalidResource, None)
      | Some g \<Rightarrow>
         if teamActionRequiresOrdinaryRoleTarget (req_Action q) \<and> isPrivilegedTargetRole (req_Context q)
         then (deny ReasonPrivilegedRoleRequiresApproval, None)
         else if teamActionCanRemoveOwner (req_Action q) \<and> contextBool (req_Context q) ''last_team_owner''
         then (deny ReasonLastTeamOwner, None)
         else case parseUUIDActor U (req_Actor q) ActorUser of
             None \<Rightarrow> (deny ReasonInvalidActor, None)
           | Some p \<Rightarrow>
              (let team =
                 (case GetActiveTeamMembership R (req_TenantID q) g ActorUser p of
                    Inl e \<Rightarrow> if e = ErrNoMembership then (deny ReasonNoMembership, None) else (zero_Decision, Some e)
                  | Inr m \<Rightarrow>
                      if roleAllowsTeamAction (req_Action q) (mem_Role m)
                      then (allow (''team.'' @ role_text (mem_Role m)) (mem_Role m), None)
                      else (deny ReasonNoMembership, None))
               in case GetActiveTenantMembership R (req_TenantID q) ActorUser p of
                  Inr m \<Rightarrow>
                    if roleAllowsTenantAdminAccess (mem_Role m)
                    then (allow (''tenant.'' @ role_text (mem_Role m)) (mem_Role m), None)
                    else team
                | Inl e \<Rightarrow> if e \<noteq> ErrNoMembership then (zero_Decision, Some e) else team))"

definition checkProjectAccess :: "uuid_lib \<Rightarrow> Repository \<Rightarrow> CheckRequest \<Rightarrow> verdict" where
  "checkProjectAccess U R q =
     (if res_Type (req_Resource q) = ResourceTenant then checkTenantAccess U R q
      else if res_Type (req_Resource q) \<noteq> ResourceProject \<or> res_ID (req_Resource q) = []
      then (deny ReasonInvalidResource, None)
      else case parseUUIDActor U (req_Actor q) ActorUser of
          None \<Rightarrow> (deny ReasonInvalidActor, None)
        | Some p \<Rightarrow>
           (case checkTenantAdminAccess U R q of (d, err) \<Rightarrow>
              if err = None \<and> Allowed d then (d, None)
              else if err \<noteq> None \<and> err \<noteq> Some ErrNoMembership then (zero_Decision, err)
              else case uuid_Parse U (res_ID (req_Resource q)) of
                  None \<Rightarrow> (deny ReasonInvalidResource, None)
                | Some pid \<Rightarrow>
                   (case GetProjectAuthzFacts R (req_TenantID q) pid p of
                      Inl e \<Rightarrow> if e = ErrNoMembership then (deny ReasonNoMembership, None) else (zero_Decision, Some e)
                    | Inr f \<Rightarrow>
                        if p \<in> set (HumanOwnerUserIDs f) then (allow ''project.owner'' RoleOwner, None)
                        else if IsMember f \<and> projectActionAllowedForMember (req_Action q)
                        then (allow ''project.member'' RoleMember, None)
                        else (deny ReasonNoMembership, None))))"

definition checkAuditAccess :: "uuid_lib \<Rightarrow> Repository \<Rightarrow> CheckRequest \<Rightarrow> verdict" where
  "checkAuditAccess U R q =
     (case parseUUIDActor U (req_Actor q) ActorUser of
        None \<Rightarrow> (deny ReasonInvalidActor, None)
      | Some p \<Rightarrow>
         (case checkTenantAdminAccess U R q of (d, err) \<Rightarrow>
            if err = None \<and> Allowed d then (d, None)
            else if err \<noteq> None \<and> err \<noteq> Some ErrNoMembership then (zero_Decision, err)
            else if res_Type (req_Resource q) = ResourceProject \<and> res_ID (req_Resource q) \<noteq> []
            then (case uuid_Parse U (res_ID (req_Resource q)) of
                    None \<Rightarrow> (deny ReasonInvalidResource, None)
                  | Some pid \<Rightarrow>
                     (case GetProjectAuthzFacts R (req_TenantID q) pid p of
                        Inl e \<Rightarrow> if e = ErrNoMembership then (deny ReasonNoMembership, None) else (zero_Decision, Some e)
                      | Inr f \<Rightarrow>
                          if p \<in> set (HumanOwnerUserIDs f) \<or> IsMember f
                          then (allow ''audit.project_member'' RoleMember, None)
                          else (deny ReasonNoMembership, None)))
            else (deny ReasonNoMembership, None)))"

section \<open>Check and CheckBulkTeamActions\<close>

record DBAuthorizer =
  repository :: "Repository option"
  recorder_of :: "recorder option"

text \<open>The switch of \<^verbatim>\<open>Check\<close>; the unsupported case returns its error as the others do.\<close>

definition check_switch :: "uuid_lib \<Rightarrow> Repository \<Rightarrow> CheckRequest \<Rightarrow> verdict" where
  "check_switch U R q =
     (let a = req_Action q; res = req_Resource q;
          bad = (deny ReasonInvalidResource, None);
          tenant_res = resourceMatchesUUID U res ResourceTenant (req_TenantID q);
          team_res = (case req_TeamID q of None \<Rightarrow> False | Some g \<Rightarrow> resourceMatchesUUID U res ResourceTeam g)
      in
      if a = ActionConsoleAccess then
        (if \<not> validResource res ResourceConsole then bad else checkTenantAccess U R q)
      else if a = ActionTenantAccess then
        (if \<not> tenant_res then bad else checkTenantAccess U R q)
      else if a = ActionTeamAccess then
        (if \<not> team_res then bad else checkTeamAccess U R q)
      else if a \<in> {ActionRuntimeScopeManage, ActionAuthzCenterRead,
                   ActionUserProjectTeamScopeRead, ActionUserProjectTeamScopeManage, ActionEmployeeCreate} then
        (if \<not> tenant_res then bad else checkTenantAdminAccess U R q)
      else if a = ActionEmployeeRead then
        (if tenant_res then checkTenantAdminAccess U R q
         else if \<not> validUUIDResource U res ResourceEmployee then bad
         else checkEmployeeOwnerAction U R q)
      else if a \<in> {ActionEmployeeStatusUpdate, ActionEmployeeTeamUpdate, ActionEmployeeDelete,
                   ActionEmployeeExecutionBind, ActionEmployeeRunCreate, ActionEmployeeRunStop,
                   ActionEmployeeRunLogRead} then
        (if \<not> validUUIDResource U res ResourceEmployee then bad else checkTenantAdminAccess U R q)
      else if a \<in> {ActionEmployeeConfigCreate, ActionEmployeeConfigPreview, ActionEmployeeConfigApprove,
                   ActionEmployeeCapabilityEdit, ActionEmployeeProfileUpdate} then
        (if \<not> validUUIDResource U res ResourceEmployee then bad else checkEmployeeOwnerAction U R q)
      else if a \<in> {ActionCredentialRead, ActionCredentialCreate, ActionCredentialDelete} then
        (if \<not> validUUIDResource U res ResourceCredential then bad
         else checkCredentialSelfOrTenantAdmin U R q)
      else if a \<in> {ActionMCPRegistryRead, ActionMCPRegistryManage, ActionScenarioTemplateRead,
                   ActionScenarioTemplateManage, ActionSystemConfigRead, ActionSystemConfigManage} then
        (if \<not> tenant_res then bad else checkTenantAdminAccess U R q)
      else if a = ActionSkillRead then
        (if tenant_res then checkTenantAdminAccess U R q
         else if \<not> validUUIDResource U res ResourceSkill then bad
         else checkTenantAdminAccess U R q)
      else if a = ActionSkillUpload then
        (if \<not> tenant_res then bad else checkTenantAdminAccess U R q)
      else if a \<in> {ActionSkillDelete, ActionSkillInstall, ActionSkillArchiveReplace} then
        (if \<not> validUUIDResource U res ResourceSkill then bad else checkTenantAdminAccess U R q)
      else if a = ActionTeamCreate then
        (if \<not> tenant_res then bad else checkTenantAdminAccess U R q)
      else if a = ActionTeamRead then
        (if tenant_res \<and> req_TeamID q = None then checkTenantAdminAccess U R q
         else if \<not> team_res then bad
         else checkTeamManagementAction U R q)
      else if a \<in> {ActionTeamUpdate, ActionTeamDelete, ActionTeamMemberAdd, ActionTeamMemberRemove,
                   ActionTeamMemberChangeRole, ActionTeamMemberRequestPrivilegedRole,
                   ActionTeamMemberApprovePrivilegedRole, ActionTeamGovernanceRead,
                   ActionTeamGovernanceEdit, ActionTeamGovernanceApprove, ActionTeamCapabilityBind,
                   ActionTeamCapabilityUnbind, ActionTeamCapabilityManage, ActionTeamAuditRead} then
        (if \<not> team_res then bad else checkTeamManagementAction U R q)
      else if isProjectAction a then checkProjectAccess U R q
      else if isAuditAction a then checkAuditAccess U R q
      else (\<lparr>Allowed = False, Reason = ReasonUnsupportedAction, MatchedRule = [],
             RequiresAudit = True, Snapshot = []\<rparr>, Some ErrUnsupportedAction))"

definition decision_record :: "CheckRequest \<Rightarrow> Decision \<Rightarrow> string \<Rightarrow> DecisionRecord" where
  "decision_record q d engine =
     \<lparr>rec_TenantID = req_TenantID q, rec_TeamID = req_TeamID q,
      rec_ActorType = actor_Type (req_Actor q), rec_ActorID = actor_ID (req_Actor q),
      rec_Action = req_Action q, rec_ResourceType = res_Type (req_Resource q),
      rec_ResourceID = res_ID (req_Resource q), rec_Allowed = Allowed d, rec_Reason = Reason d,
      rec_MatchedRule = MatchedRule d, rec_Engine = engine, rec_Snapshot = Snapshot d\<rparr>"

definition db_record ::
  "DBAuthorizer \<Rightarrow> CheckRequest \<Rightarrow> Decision \<Rightarrow> decision_log \<Rightarrow> authz_error option \<times> decision_log" where
  "db_record A q d lg =
     (case recorder_of A of
        None \<Rightarrow> (None, lg)
      | Some r \<Rightarrow>
         (case r (decision_record q d ''db'') lg of
            Inl e \<Rightarrow> (Some e, lg)
          | Inr lg' \<Rightarrow> (None, lg')))"

definition Check ::
  "uuid_lib \<Rightarrow> DBAuthorizer option \<Rightarrow> CheckRequest \<Rightarrow> decision_log \<Rightarrow> verdict \<times> decision_log" where
  "Check U au q lg =
     (case au of
        None \<Rightarrow> ((not_configured, None), lg)
      | Some A \<Rightarrow>
         (case repository A of
            None \<Rightarrow> ((not_configured, None), lg)
          | Some R \<Rightarrow>
             (case check_switch U R q of (d, err) \<Rightarrow>
                if err \<noteq> None then ((d, err), lg)
                else if RequiresAudit d then
                  (case db_record A q d lg of
                     (Some e, lg') \<Rightarrow> ((zero_Decision, Some e), lg')
                   | (None, lg') \<Rightarrow> ((d, None), lg'))
                else ((d, None), lg))))"

text \<open>The second half of \<^verbatim>\<open>CheckBulkTeamActions\<close>: the team role is read only when the actor is no
  tenant administrator, and stays empty without a team membership.\<close>

definition bulk_team_filter ::
  "Repository \<Rightarrow> BulkTeamActionsRequest \<Rightarrow> uuid \<Rightarrow> bool \<Rightarrow> authz_error + action list" where
  "bulk_team_filter R q p isTenantAdmin =
     (let teamRole =
        (if isTenantAdmin then Inr (RoleOther [])
         else case GetActiveTeamMembership R (bulk_TenantID q) (bulk_TeamID q) ActorUser p of
             Inl e \<Rightarrow> if e \<noteq> ErrNoMembership then Inl e else Inr (RoleOther [])
           | Inr m \<Rightarrow> Inr (mem_Role m))
      in case teamRole of
          Inl e \<Rightarrow> Inl e
        | Inr r \<Rightarrow> Inr (filter (\<lambda>a. isTenantAdmin \<or> roleAllowsTeamAction a r) (bulk_Actions q)))"

definition CheckBulkTeamActions ::
  "uuid_lib \<Rightarrow> DBAuthorizer option \<Rightarrow> BulkTeamActionsRequest \<Rightarrow> authz_error + action list" where
  "CheckBulkTeamActions U au q =
     (case au of
        None \<Rightarrow> Inr []
      | Some A \<Rightarrow>
         (case repository A of
            None \<Rightarrow> Inr []
          | Some R \<Rightarrow>
             (case parseUUIDActor U (bulk_Actor q) ActorUser of
                None \<Rightarrow> Inr []
              | Some p \<Rightarrow>
                 if bulk_TenantID q = uuid_Nil \<or> bulk_TeamID q = uuid_Nil then Inr []
                 else let tenant = GetActiveTenantMembership R (bulk_TenantID q) ActorUser p in
                   case tenant of
                     Inl e \<Rightarrow> if e \<noteq> ErrNoMembership then Inl e else bulk_team_filter R q p False
                   | Inr m \<Rightarrow> bulk_team_filter R q p (roleAllowsTenantAdminAccess (mem_Role m)))))"

lemmas authz_check_defs =
  checkTenantAccess_def checkTeamAccess_def checkTenantAdminAccess_def checkEmployeeOwnerAction_def
  checkCredentialSelfOrTenantAdmin_def checkTeamManagementAction_def checkProjectAccess_def
  checkAuditAccess_def

end
