(* ===== verification/Authz_Safety.thy ===== *)
theory Authz_Safety
  imports Authz_DB
begin

text \<open>
  What the database-backed authorizer guarantees: every verdict is well formed (a denial is audited,
  an error is no allowance), every allowance rests on a row of the store, the bulk check agrees with
  the single checks, and the guards on privileged roles and last owners hold for every caller.
\<close>

section \<open>What an allowed decision rests on\<close>

lemma checkTenantAccess_allowed:
  assumes "Allowed (fst (checkTenantAccess U R q))"
  shows "\<exists>p m. parseUUIDActor U (req_Actor q) ActorUser = Some p \<and>
           GetActiveTenantMembership R (req_TenantID q) ActorUser p = Inr m \<and>
           roleAllowsTenantAccess (mem_Role m)"
  using assms by (auto simp: checkTenantAccess_def split: option.splits sum.splits if_splits)

lemma checkTenantAdminAccess_allowed:
  assumes "Allowed (fst (checkTenantAdminAccess U R q))"
  shows "\<exists>p m. parseUUIDActor U (req_Actor q) ActorUser = Some p \<and>
           GetActiveTenantMembership R (req_TenantID q) ActorUser p = Inr m \<and>
           roleAllowsTenantAdminAccess (mem_Role m)"
  using assms by (auto simp: checkTenantAdminAccess_def split: option.splits sum.splits if_splits)

text \<open>Every decision that is returned without an error is an allowance that needs no audit, or a
  denial that does; an error never comes with an allowance.\<close>

definition well_formed_verdict :: "verdict \<Rightarrow> bool" where
  "well_formed_verdict v \<longleftrightarrow>
     (case snd v of None \<Rightarrow> RequiresAudit (fst v) = (\<not> Allowed (fst v)) | Some _ \<Rightarrow> \<not> Allowed (fst v))"

lemma wf_intros [simp]:
  "well_formed_verdict (allow r x, None)" "well_formed_verdict (deny y, None)"
  "well_formed_verdict (zero_Decision, Some e)"
  by (simp_all add: well_formed_verdict_def)

lemma wf_checkTenantAccess [simp]: "well_formed_verdict (checkTenantAccess U R q)"
  by (auto simp: checkTenantAccess_def split: option.splits sum.splits)

lemma wf_checkTenantAdminAccess [simp]: "well_formed_verdict (checkTenantAdminAccess U R q)"
  by (auto simp: checkTenantAdminAccess_def split: option.splits sum.splits)

lemma wf_checkTeamAccess [simp]: "well_formed_verdict (checkTeamAccess U R q)"
  by (auto simp: checkTeamAccess_def split: option.splits sum.splits)

lemma wf_tenant_pair: "checkTenantAccess U R q = (d, e) \<Longrightarrow> well_formed_verdict (d, e)"
  by (metis wf_checkTenantAccess)

lemma wf_admin_pair: "checkTenantAdminAccess U R q = (d, e) \<Longrightarrow> well_formed_verdict (d, e)"
  by (metis wf_checkTenantAdminAccess)

lemma wf_checkEmployeeOwnerAction [simp]: "well_formed_verdict (checkEmployeeOwnerAction U R q)"
  by (auto simp: checkEmployeeOwnerAction_def intro: wf_tenant_pair wf_admin_pair
      split: option.splits sum.splits prod.splits)

lemma wf_checkCredential [simp]: "well_formed_verdict (checkCredentialSelfOrTenantAdmin U R q)"
  by (auto simp: checkCredentialSelfOrTenantAdmin_def intro: wf_tenant_pair
      split: option.splits sum.splits prod.splits)

lemma wf_checkTeamManagementAction [simp]: "well_formed_verdict (checkTeamManagementAction U R q)"
  by (auto simp: checkTeamManagementAction_def Let_def split: option.splits sum.splits)

lemma wf_checkProjectAccess [simp]: "well_formed_verdict (checkProjectAccess U R q)"
  by (auto simp: checkProjectAccess_def intro: wf_admin_pair split: option.splits sum.splits prod.splits)

lemma wf_checkAuditAccess [simp]: "well_formed_verdict (checkAuditAccess U R q)"
  by (auto simp: checkAuditAccess_def intro: wf_admin_pair split: option.splits sum.splits prod.splits)

lemma wf_unsupported [simp]:
  "well_formed_verdict (\<lparr>Allowed = False, Reason = r, MatchedRule = m, RequiresAudit = x, Snapshot = s\<rparr>, Some e)"
  by (simp add: well_formed_verdict_def)

lemma wf_check_switch: "well_formed_verdict (check_switch U R q)"
  unfolding check_switch_def Let_def by simp

lemma Check_cases:
  assumes "Check U (Some A) q lg = ((d, e), lg')" "repository A = Some R"
  obtains (allowed) "e = None" "Allowed d" "lg' = lg" "check_switch U R q = (d, None)"
  | (denied) "e = None" "\<not> Allowed d" "check_switch U R q = (d, None)" "db_record A q d lg = (None, lg')"
  | (failed) x where "e = Some x" "\<not> Allowed d"
  using assms wf_check_switch [of U R q]
  by (auto simp: Check_def well_formed_verdict_def split: prod.splits if_splits option.splits)

text \<open>The actions a team can be asked for, and the single check the bulk call stands for.\<close>

definition team_management_actions :: "action set" where
  "team_management_actions =
     {ActionTeamRead, ActionTeamUpdate, ActionTeamDelete, ActionTeamMemberAdd, ActionTeamMemberRemove,
      ActionTeamMemberChangeRole, ActionTeamMemberRequestPrivilegedRole,
      ActionTeamMemberApprovePrivilegedRole, ActionTeamGovernanceRead, ActionTeamGovernanceEdit,
      ActionTeamGovernanceApprove, ActionTeamCapabilityBind, ActionTeamCapabilityUnbind,
      ActionTeamCapabilityManage, ActionTeamAuditRead}"

definition team_request :: "uuid_lib \<Rightarrow> ActorRef \<Rightarrow> uuid \<Rightarrow> uuid \<Rightarrow> action \<Rightarrow> CheckRequest" where
  "team_request U actor t g a =
     \<lparr>req_Actor = actor, req_Action = a, req_Resource = \<lparr>res_Type = ResourceTeam, res_ID = uuid_String U g\<rparr>,
      req_TenantID = t, req_TeamID = Some g, req_Context = [], req_AuditReason = []\<rparr>"

lemma team_request_simps [simp]:
  "req_Actor (team_request U actor t g a) = actor" "req_Action (team_request U actor t g a) = a"
  "req_Resource (team_request U actor t g a) = \<lparr>res_Type = ResourceTeam, res_ID = uuid_String U g\<rparr>"
  "req_TenantID (team_request U actor t g a) = t" "req_TeamID (team_request U actor t g a) = Some g"
  "req_Context (team_request U actor t g a) = []"
  by (simp_all add: team_request_def)

lemma empty_context [simp]: "\<not> isPrivilegedTargetRole []" "\<not> contextBool [] k"
  by (simp_all add: isPrivilegedTargetRole_def contextString_def contextBool_def gget_def)

lemma check_switch_team_request:
  assumes "uuid_roundtrip U" "a \<in> team_management_actions"
  shows "check_switch U R (team_request U actor t g a) =
    checkTeamManagementAction U R (team_request U actor t g a)"
  using assms unfolding team_management_actions_def
  by (auto simp: check_switch_def resourceMatchesUUID_def uuid_roundtrip_def)

lemma Check_decides:
  assumes "repository A = Some R"
  shows "Allowed (fst (fst (Check U (Some A) q lg))) = Allowed (fst (check_switch U R q))"
  using assms wf_check_switch [of U R q]
  by (auto simp: Check_def well_formed_verdict_def split: prod.splits option.splits)

lemma Check_error:
  assumes "repository A = Some R" "snd (check_switch U R q) = Some e"
  shows "snd (fst (Check U (Some A) q lg)) = Some e"
  using assms by (cases "check_switch U R q") (simp add: Check_def)

lemma roleAllowsTeamAction_empty [simp]: "\<not> roleAllowsTeamAction a (RoleOther [])"
  by (simp add: roleAllowsTeamAction_def)

lemma checkTeamManagementAction_request:
  "checkTeamManagementAction U R (team_request U actor t g a) =
     (case parseUUIDActor U actor ActorUser of
        None \<Rightarrow> (deny ReasonInvalidActor, None)
      | Some p \<Rightarrow>
         (let team =
            (case GetActiveTeamMembership R t g ActorUser p of
               Inl e \<Rightarrow> if e = ErrNoMembership then (deny ReasonNoMembership, None) else (zero_Decision, Some e)
             | Inr m \<Rightarrow>
                 if roleAllowsTeamAction a (mem_Role m)
                 then (allow (''team.'' @ role_text (mem_Role m)) (mem_Role m), None)
                 else (deny ReasonNoMembership, None))
          in case GetActiveTenantMembership R t ActorUser p of
             Inr m \<Rightarrow>
               if roleAllowsTenantAdminAccess (mem_Role m)
               then (allow (''tenant.'' @ role_text (mem_Role m)) (mem_Role m), None)
               else team
           | Inl e \<Rightarrow> if e \<noteq> ErrNoMembership then (zero_Decision, Some e) else team))"
  by (simp add: checkTeamManagementAction_def Let_def cong: option.case_cong sum.case_cong)

section \<open>Safety\<close>

lemma check_switch_team_action:
  assumes "Allowed (fst (check_switch U R q))" "req_Action q \<in> team_management_actions - {ActionTeamRead}"
  shows "Allowed (fst (checkTeamManagementAction U R q))"
  using assms by (auto simp: check_switch_def team_management_actions_def Let_def split: if_splits)

lemma privileged_target_denied:
  assumes "req_Action q \<in> {ActionTeamMemberAdd, ActionTeamMemberChangeRole}"
    "isPrivilegedTargetRole (req_Context q)"
  shows "\<not> Allowed (fst (check_switch U R q))"
proof
  assume "Allowed (fst (check_switch U R q))"
  then have "Allowed (fst (checkTeamManagementAction U R q))"
    by (rule check_switch_team_action) (use assms(1) in \<open>auto simp: team_management_actions_def\<close>)
  moreover have "teamActionRequiresOrdinaryRoleTarget (req_Action q)"
    using assms(1) by (simp add: teamActionRequiresOrdinaryRoleTarget_def)
  ultimately show False
    using assms(2) by (simp add: checkTeamManagementAction_def split: option.splits)
qed

lemma last_owner_denied:
  assumes "req_Action q \<in> {ActionTeamMemberRemove, ActionTeamMemberChangeRole}"
    "contextBool (req_Context q) ''last_team_owner''"
  shows "\<not> Allowed (fst (check_switch U R q))"
proof
  assume "Allowed (fst (check_switch U R q))"
  then have "Allowed (fst (checkTeamManagementAction U R q))"
    by (rule check_switch_team_action) (use assms(1) in \<open>auto simp: team_management_actions_def\<close>)
  moreover have "teamActionCanRemoveOwner (req_Action q)"
    using assms(1) by (simp add: teamActionCanRemoveOwner_def)
  ultimately show False
    using assms(2) by (simp add: checkTeamManagementAction_def split: option.splits if_splits)
qed

lemma team_delete_admin:
  assumes "Allowed (fst (check_switch U R q))" "req_Action q = ActionTeamDelete"
  shows "\<exists>p m. parseUUIDActor U (req_Actor q) ActorUser = Some p \<and>
      GetActiveTenantMembership R (req_TenantID q) ActorUser p = Inr m \<and> roleAllowsTenantAdminAccess (mem_Role m)"
proof -
  from assms(1) have "Allowed (fst (checkTeamManagementAction U R q))"
    by (rule check_switch_team_action) (simp add: assms(2) team_management_actions_def)
  with assms(2) show ?thesis
    by (auto simp: checkTeamManagementAction_def roleAllowsTeamAction_def Let_def
        split: option.splits sum.splits if_splits)
qed

text \<open>Where an allowance can come from, for any repository.\<close>

definition access_grounds :: "uuid_lib \<Rightarrow> Repository \<Rightarrow> CheckRequest \<Rightarrow> bool" where
  "access_grounds U R q \<longleftrightarrow>
     (\<exists>p. parseUUIDActor U (req_Actor q) ActorUser = Some p \<and>
        ((\<exists>m. GetActiveTenantMembership R (req_TenantID q) ActorUser p = Inr m) \<or>
         (\<exists>g m. req_TeamID q = Some g \<and> GetActiveTeamMembership R (req_TenantID q) g ActorUser p = Inr m) \<or>
         (\<exists>pid f. GetProjectAuthzFacts R (req_TenantID q) pid p = Inr f \<and>
            (p \<in> set (HumanOwnerUserIDs f) \<or> IsMember f))))"

lemma grounds_tenant: "Allowed (fst (checkTenantAccess U R q)) \<Longrightarrow> access_grounds U R q"
  by (auto simp: access_grounds_def dest!: checkTenantAccess_allowed)

lemma grounds_admin: "Allowed (fst (checkTenantAdminAccess U R q)) \<Longrightarrow> access_grounds U R q"
  by (auto simp: access_grounds_def dest!: checkTenantAdminAccess_allowed)

lemma grounds_tenant_pair: "checkTenantAccess U R q = (d, e) \<Longrightarrow> Allowed d \<Longrightarrow> access_grounds U R q"
  by (rule grounds_tenant) simp

lemma grounds_admin_pair: "checkTenantAdminAccess U R q = (d, e) \<Longrightarrow> Allowed d \<Longrightarrow> access_grounds U R q"
  by (rule grounds_admin) simp

lemma grounds_team: "Allowed (fst (checkTeamAccess U R q)) \<Longrightarrow> access_grounds U R q"
  by (auto simp: checkTeamAccess_def access_grounds_def
      split: option.splits sum.splits if_splits dest!: checkTenantAccess_allowed)

lemma grounds_employee: "Allowed (fst (checkEmployeeOwnerAction U R q)) \<Longrightarrow> access_grounds U R q"
  by (auto simp: checkEmployeeOwnerAction_def intro: grounds_tenant_pair grounds_admin_pair
      split: prod.splits option.splits sum.splits if_splits)

lemma grounds_credential: "Allowed (fst (checkCredentialSelfOrTenantAdmin U R q)) \<Longrightarrow> access_grounds U R q"
  by (auto simp: checkCredentialSelfOrTenantAdmin_def intro: grounds_tenant_pair grounds_admin
      split: prod.splits option.splits sum.splits if_splits)

lemma grounds_team_management: "Allowed (fst (checkTeamManagementAction U R q)) \<Longrightarrow> access_grounds U R q"
  by (auto simp: checkTeamManagementAction_def access_grounds_def Let_def
      split: option.splits sum.splits if_splits)

lemma grounds_project: 
  assumes "Allowed (fst (checkProjectAccess U R q))"
  shows "access_grounds U R q"
proof (cases "Allowed (fst (checkTenantAdminAccess U R q)) \<or> Allowed (fst (checkTenantAccess U R q))")
  case True
  then show ?thesis by (auto intro: grounds_admin grounds_tenant)
next
  case False
  with assms show ?thesis
    by (auto simp: checkProjectAccess_def access_grounds_def split: prod.splits option.splits sum.splits if_splits)
qed

lemma grounds_audit: 
  assumes "Allowed (fst (checkAuditAccess U R q))"
  shows "access_grounds U R q"
proof (cases "Allowed (fst (checkTenantAdminAccess U R q))")
  case True
  then show ?thesis by (rule grounds_admin)
next
  case False
  with assms show ?thesis
    by (auto simp: checkAuditAccess_def access_grounds_def split: prod.splits option.splits sum.splits if_splits)
qed

lemmas grounds_intros = grounds_tenant grounds_admin grounds_team grounds_employee grounds_credential
  grounds_team_management grounds_project grounds_audit

lemma check_switch_grounds: "Allowed (fst (check_switch U R q)) \<Longrightarrow> access_grounds U R q"
  unfolding check_switch_def Let_def by (auto split: if_splits dest: grounds_intros)

section \<open>Tenant isolation\<close>

text \<open>
  A repository together with the relation ``this principal belongs to this tenant'' that its answers
  respect. Inside, the client's lemma: an allowed request comes from a user who belongs to the
  tenant the request names.
\<close>

locale tenant_directory = authz_repository +
  fixes belongs :: "uuid \<Rightarrow> uuid \<Rightarrow> bool"
  assumes tenant_belongs: "GetActiveTenantMembership R t ActorUser p = Inr m \<Longrightarrow> belongs t p"
    and team_belongs: "GetActiveTeamMembership R t g ActorUser p = Inr m \<Longrightarrow> belongs t p"
    and project_belongs: "GetProjectAuthzFacts R t pid p = Inr f \<Longrightarrow>
          p \<in> set (HumanOwnerUserIDs f) \<or> IsMember f \<Longrightarrow> belongs t p"
begin

lemma allowed_belongs:
  assumes "Allowed (fst (check_switch U R q))"
  shows "\<exists>p. parseUUIDActor U (req_Actor q) ActorUser = Some p \<and> belongs (req_TenantID q) p"
  using check_switch_grounds [OF assms]
  by (auto simp: access_grounds_def dest: tenant_belongs team_belongs project_belongs)

end

text \<open>Belonging, read off the tables: an active membership row of the tenant, or an owner or an
  active member of a live project of the tenant.\<close>

definition belongs_to_tenant :: "authz_store \<Rightarrow> uuid \<Rightarrow> uuid \<Rightarrow> bool" where
  "belongs_to_tenant S t p \<longleftrightarrow>
     list_ex (\<lambda>r. tm_tenant_id r = t \<and> tm_principal_type r = ''user'' \<and> tm_principal_id r = p \<and>
        tm_status r = ''active'' \<and> \<not> tm_disabled r) (tenant_members S) \<or>
     list_ex (\<lambda>r. pr_tenant_id r = t \<and> \<not> pr_deleted r \<and>
        (p \<in> set (pr_human_owner_user_ids r) \<or>
         list_ex (\<lambda>m. pm_project_id m = pr_id r \<and> pm_principal_id m = p \<and>
            pm_principal_type m = ''user'' \<and> pm_status m = ''active'') (project_members S))) (projects S)"

lemma pg_project_facts_row:
  assumes "pg_GetProjectAuthzFacts S t pid p = Inr f" "p \<in> set (HumanOwnerUserIDs f) \<or> IsMember f"
  shows "belongs_to_tenant S t p"
proof -
  obtain r where "r \<in> set (projects S)" "pr_tenant_id r = t" "\<not> pr_deleted r"
    "p \<in> set (pr_human_owner_user_ids r) \<or>
     list_ex (\<lambda>m. pm_project_id m = pr_id r \<and> pm_principal_id m = p \<and>
            pm_principal_type m = ''user'' \<and> pm_status m = ''active'') (project_members S)"
    using assms
    by (auto simp: pg_GetProjectAuthzFacts_def q_project_authz_facts_def
        split: sum.splits prod.splits dest!: run_one_Inr)
  then show ?thesis
    unfolding belongs_to_tenant_def list_ex_iff by blast
qed

interpretation pg_dir: tenant_directory "PgRepository S" "belongs_to_tenant S" for S
proof (unfold_locales, goal_cases)
  case (1 t p m)
  then show ?case by (auto simp: belongs_to_tenant_def list_ex_iff dest!: pg_tenant_membership_row)
next
  case (2 t g p m)
  then show ?case by (auto simp: belongs_to_tenant_def list_ex_iff dest!: pg_team_membership_row)
next
  case (3 t pid p f)
  then show ?case by (auto intro: pg_project_facts_row)
qed

section \<open>Administrator-only actions\<close>

definition admin_only_actions :: "action set" where
  "admin_only_actions =
     {ActionRuntimeScopeManage, ActionAuthzCenterRead, ActionUserProjectTeamScopeRead,
      ActionUserProjectTeamScopeManage, ActionEmployeeCreate, ActionEmployeeStatusUpdate,
      ActionEmployeeTeamUpdate, ActionEmployeeDelete, ActionEmployeeExecutionBind,
      ActionEmployeeRunCreate, ActionEmployeeRunStop, ActionEmployeeRunLogRead,
      ActionMCPRegistryRead, ActionMCPRegistryManage, ActionScenarioTemplateRead,
      ActionScenarioTemplateManage, ActionSystemConfigRead, ActionSystemConfigManage,
      ActionSkillRead, ActionSkillUpload, ActionSkillDelete, ActionSkillInstall,
      ActionSkillArchiveReplace, ActionTeamCreate, ActionTeamDelete}"

lemma check_switch_admin_only:
  assumes "Allowed (fst (check_switch U R q))" "req_Action q \<in> admin_only_actions"
  shows "\<exists>p m. parseUUIDActor U (req_Actor q) ActorUser = Some p \<and>
      GetActiveTenantMembership R (req_TenantID q) ActorUser p = Inr m \<and> roleAllowsTenantAdminAccess (mem_Role m)"
proof (cases "req_Action q = ActionTeamDelete")
  case True
  with assms(1) show ?thesis by (rule team_delete_admin)
next
  case False
  with assms have "Allowed (fst (checkTenantAdminAccess U R q))"
    by (auto simp: check_switch_def admin_only_actions_def Let_def split: if_splits)
  then show ?thesis by (rule checkTenantAdminAccess_allowed)
qed

definition tenant_admin_row :: "authz_store \<Rightarrow> uuid \<Rightarrow> uuid \<Rightarrow> bool" where
  "tenant_admin_row S t p \<longleftrightarrow>
     list_ex (\<lambda>r. tm_tenant_id r = t \<and> tm_team_id r = None \<and> tm_principal_type r = ''user'' \<and>
        tm_principal_id r = p \<and> tm_status r = ''active'' \<and> \<not> tm_disabled r \<and>
        tm_role r \<in> {''owner'', ''admin''}) (tenant_members S)"

lemma role_of_text_admin: "roleAllowsTenantAdminAccess (role_of_text s) \<longleftrightarrow> s \<in> {''owner'', ''admin''}"
  by (simp add: role_of_text_def)

section \<open>A concrete store\<close>

definition example_store :: authz_store where
  "example_store =
     \<lparr>tenant_members =
        [\<lparr>tm_tenant_id = 7, tm_team_id = None, tm_principal_type = ''user'', tm_principal_id = 1,
          tm_role = ''admin'', tm_status = ''active'', tm_disabled = False\<rparr>,
         \<lparr>tm_tenant_id = 7, tm_team_id = Some 9, tm_principal_type = ''user'', tm_principal_id = 2,
          tm_role = ''member'', tm_status = ''active'', tm_disabled = False\<rparr>],
      digital_employees = [], projects = [], project_members = [], store_fault = (\<lambda>_. None)\<rparr>"

definition example_authorizer :: DBAuthorizer where
  "example_authorizer =
     \<lparr>repository = Some (PgRepository example_store), recorder_of = Some (\<lambda>x l. Inr (l @ [x]))\<rparr>"

definition user_ref :: "string \<Rightarrow> ActorRef" where
  "user_ref s = \<lparr>actor_Type = ActorUser, actor_ID = s\<rparr>"

lemmas authz_eval =
  example_store_def example_authorizer_def user_ref_def decimal_uuid_lib_def
  Check_def check_switch_def Let_def resourceMatchesUUID_def validUUIDResource_def
  checkTeamManagementAction_def checkTenantAdminAccess_def checkTenantAccess_def
  teamActionRequiresOrdinaryRoleTarget_def teamActionCanRemoveOwner_def isPrivilegedTargetRole_def
  contextString_def contextBool_def gget_def parseUUIDActor_def
  pg_GetActiveTenantMembership_def q_active_tenant_membership_def
  pg_GetActiveTeamMembership_def q_active_team_membership_def run_one_def role_order_def
  membershipFromTenantMember_def role_of_text_def roleAllowsTeamAction_def
  CheckBulkTeamActions_def bulk_team_filter_def db_record_def decision_record_def
  nat_text.simps

section \<open>The properties\<close>

text \<open>
  Every denial that the authorizer returns was handed to the recorder, and the log it leaves is
  the one the recorder returned; an allowance leaves the log as it was.
\<close>

theorem check_audits_every_denial:
  assumes "repository A = Some R" and "recorder_of A = Some r"
    and "Check U (Some A) q lg = ((d, None), lg')"
  shows "if Allowed d then lg' = lg else r (decision_record q d ''db'') lg = Inr lg'"
  using assms(3,1)
proof (cases rule: Check_cases)
  case denied
  with assms(2) show ?thesis by (auto simp: db_record_def split: sum.splits)
qed simp_all

theorem check_audits_every_denial_witness:
  "\<exists>d lg'. Check decimal_uuid_lib (Some example_authorizer)
      (team_request decimal_uuid_lib (user_ref ''2'') 7 9 ActionTeamDelete) [] = ((d, None), lg') \<and>
    \<not> Allowed d \<and>
    lg' = [decision_record (team_request decimal_uuid_lib (user_ref ''2'') 7 9 ActionTeamDelete) d ''db'']"
proof -
  have c: "Check decimal_uuid_lib (Some example_authorizer)
     (team_request decimal_uuid_lib (user_ref ''2'') 7 9 ActionTeamDelete) [] =
     ((deny ReasonNoMembership, None),
      [decision_record (team_request decimal_uuid_lib (user_ref ''2'') 7 9 ActionTeamDelete) (deny ReasonNoMembership) ''db''])"
    by (simp add: authz_eval)
  show ?thesis
    using check_audits_every_denial [OF _ _ c, of "PgRepository example_store" "\<lambda>x l. Inr (l @ [x])"] c
    by (auto simp: example_authorizer_def)
qed

text \<open>
  A check that ends in an error (a failing store, a failing recorder, an unsupported action) never
  comes with an allowance.
\<close>

theorem check_fails_closed:
  assumes "Check U au q lg = ((d, Some e), lg')"
  shows "\<not> Allowed d"
proof (cases au)
  case None
  with assms show ?thesis by (simp add: Check_def)
next
  case (Some A)
  show ?thesis
  proof (cases "repository A")
    case None
    with Some assms show ?thesis by (simp add: Check_def)
  next
    case (Some R)
    with assms \<open>au = Some A\<close> show ?thesis by (auto elim: Check_cases)
  qed
qed

theorem check_fails_closed_witness:
  "\<exists>d. Check decimal_uuid_lib (Some example_authorizer)
      (team_request decimal_uuid_lib (user_ref ''1'') 7 9 (OtherAction ''x'')) [] = ((d, Some ErrUnsupportedAction), []) \<and>
    \<not> Allowed d"
proof -
  have "Check decimal_uuid_lib (Some example_authorizer)
      (team_request decimal_uuid_lib (user_ref ''1'') 7 9 (OtherAction ''x'')) [] =
      ((\<lparr>Allowed = False, Reason = ReasonUnsupportedAction, MatchedRule = [], RequiresAudit = True,
         Snapshot = []\<rparr>, Some ErrUnsupportedAction), [])"
    by (simp add: authz_eval isProjectAction_def isAuditAction_def)
  then show ?thesis using check_fails_closed by blast
qed

text \<open>
  The bulk check over team actions returns exactly the actions that a single \<open>Check\<close> on the team
  allows, in their order; when it fails, each single check fails with the same error. (The identifier
  package is assumed to parse back what it prints.)
\<close>

theorem bulk_equals_single_checks:
  assumes "uuid_roundtrip U" and "repository A = Some R"
    and "set acts \<subseteq> team_management_actions" and "t \<noteq> uuid_Nil" and "g \<noteq> uuid_Nil"
  shows "case CheckBulkTeamActions U (Some A) \<lparr>bulk_Actor = actor, bulk_TenantID = t, bulk_TeamID = g, bulk_Actions = acts\<rparr> of
      Inr allowed \<Rightarrow>
        allowed = filter (\<lambda>a. Allowed (fst (fst (Check U (Some A) (team_request U actor t g a) lg)))) acts
    | Inl e \<Rightarrow> \<forall>a \<in> set acts. snd (fst (Check U (Some A) (team_request U actor t g a) lg)) = Some e"
proof -
  have single: "check_switch U R (team_request U actor t g a) =
      checkTeamManagementAction U R (team_request U actor t g a)" if "a \<in> set acts" for a
    using that assms(1,3) by (auto intro: check_switch_team_request)
  have decided: "Allowed (fst (fst (Check U (Some A) (team_request U actor t g a) lg))) =
      Allowed (fst (checkTeamManagementAction U R (team_request U actor t g a)))" if "a \<in> set acts" for a
    using that by (simp add: Check_decides [OF assms(2)] single)
  have errs: "snd (fst (Check U (Some A) (team_request U actor t g a) lg)) = Some e"
    if "a \<in> set acts" "snd (checkTeamManagementAction U R (team_request U actor t g a)) = Some e" for a e
    using that by (auto intro: Check_error [OF assms(2)] simp: single)
  have "filter (\<lambda>a. Allowed (fst (fst (Check U (Some A) (team_request U actor t g a) lg)))) acts =
      filter (\<lambda>a. Allowed (fst (checkTeamManagementAction U R (team_request U actor t g a)))) acts"
    by (rule filter_cong) (auto simp: decided)
  then show ?thesis
    using assms(2,4,5)
    by (auto simp: CheckBulkTeamActions_def bulk_team_filter_def Let_def checkTeamManagementAction_request
        split: option.splits sum.splits intro!: errs)
qed

theorem bulk_equals_single_checks_witness:
  "CheckBulkTeamActions decimal_uuid_lib (Some example_authorizer)
     \<lparr>bulk_Actor = user_ref ''2'', bulk_TenantID = 7, bulk_TeamID = 9,
      bulk_Actions = [ActionTeamRead, ActionTeamUpdate, ActionTeamDelete]\<rparr> =
   Inr (filter (\<lambda>a. Allowed (fst (fst (Check decimal_uuid_lib (Some example_authorizer)
          (team_request decimal_uuid_lib (user_ref ''2'') 7 9 a) []))))
        [ActionTeamRead, ActionTeamUpdate, ActionTeamDelete])"
proof -
  have "CheckBulkTeamActions decimal_uuid_lib (Some example_authorizer)
     \<lparr>bulk_Actor = user_ref ''2'', bulk_TenantID = 7, bulk_TeamID = 9,
      bulk_Actions = [ActionTeamRead, ActionTeamUpdate, ActionTeamDelete]\<rparr> = Inr [ActionTeamRead]"
    by (simp add: authz_eval)
  then show ?thesis
    using bulk_equals_single_checks [OF decimal_uuid_roundtrip, of example_authorizer
        "PgRepository example_store" "[ActionTeamRead, ActionTeamUpdate, ActionTeamDelete]" 7 9
        "user_ref ''2''" "[]"]
    by (simp add: example_authorizer_def team_management_actions_def)
qed

text \<open>
  Claim C8: tenant isolation over the stored tables: an allowed request comes from a user with an active,
  not disabled membership row of the tenant it names, or from an owner or active member of a live
  project of that tenant.
\<close>

theorem allowed_implies_tenant_link:
  assumes "repository A = Some (PgRepository S)" and "Allowed (fst (fst (Check U (Some A) q lg)))"
  shows "\<exists>p. parseUUIDActor U (req_Actor q) ActorUser = Some p \<and> belongs_to_tenant S (req_TenantID q) p"
  using assms pg_dir.allowed_belongs [of U S q] by (simp add: Check_decides)

theorem allowed_implies_tenant_link_witness:
  "\<exists>p. parseUUIDActor decimal_uuid_lib (user_ref ''1'') ActorUser = Some p \<and>
     belongs_to_tenant example_store 7 p"
  using allowed_implies_tenant_link [of example_authorizer example_store decimal_uuid_lib
      "team_request decimal_uuid_lib (user_ref ''1'') 7 9 ActionTeamDelete" "[]"]
  by (simp add: authz_eval)

text \<open>
  The administrator actions (deleting a team among them, whatever the team role) are allowed only
  to a user with an active tenant-level owner or admin row.
\<close>

theorem admin_actions_need_admin_row:
  assumes "repository A = Some (PgRepository S)" and "req_Action q \<in> admin_only_actions"
    and "Allowed (fst (fst (Check U (Some A) q lg)))"
  shows "\<exists>p. parseUUIDActor U (req_Actor q) ActorUser = Some p \<and> tenant_admin_row S (req_TenantID q) p"
proof -
  from assms(1,3) have "Allowed (fst (check_switch U (PgRepository S) q))"
    by (simp add: Check_decides)
  from check_switch_admin_only [OF this assms(2)] obtain p m
    where p: "parseUUIDActor U (req_Actor q) ActorUser = Some p"
      and m: "pg_GetActiveTenantMembership S (req_TenantID q) ActorUser p = Inr m"
      and role: "roleAllowsTenantAdminAccess (mem_Role m)"
    by auto
  from pg_tenant_membership_row [OF m] role have "tenant_admin_row S (req_TenantID q) p"
    unfolding tenant_admin_row_def list_ex_iff
    by (metis (no_types, lifting) actor_kind_text.simps(1) membershipFromTenantMember_def
        Membership.select_convs(5) role_of_text_admin)
  with p show ?thesis by blast
qed

theorem admin_actions_need_admin_row_witness:
  "\<exists>p. parseUUIDActor decimal_uuid_lib (user_ref ''1'') ActorUser = Some p \<and>
     tenant_admin_row example_store 7 p"
  using admin_actions_need_admin_row [of example_authorizer example_store
      "team_request decimal_uuid_lib (user_ref ''1'') 7 9 ActionTeamDelete" decimal_uuid_lib "[]"]
  by (simp add: authz_eval admin_only_actions_def)

text \<open>
  Claim C9: adding a member or changing a role with a privileged target role (owner, admin, approver) is
  denied to every caller, tenant owners included: such a role needs the approval actions.
\<close>

theorem no_privilege_escalation:
  assumes "repository A = Some R" and "req_Action q \<in> {ActionTeamMemberAdd, ActionTeamMemberChangeRole}"
    and "isPrivilegedTargetRole (req_Context q)"
  shows "\<not> Allowed (fst (fst (Check U (Some A) q lg)))"
  using assms by (simp add: Check_decides privileged_target_denied)

theorem no_privilege_escalation_witness:
  "\<not> Allowed (fst (fst (Check decimal_uuid_lib (Some example_authorizer)
      ((team_request decimal_uuid_lib (user_ref ''1'') 7 9 ActionTeamMemberAdd)
        \<lparr>req_Context := [(''target_role'', GStr ''approver'')]\<rparr>) [])))"
  by (rule no_privilege_escalation [where R = "PgRepository example_store"])
     (simp_all add: example_authorizer_def isPrivilegedTargetRole_def contextString_def gget_def role_of_text_def)

text \<open>
  Removing a member or changing a role is denied to every caller when the request marks the target
  as the last owner of the team.
\<close>

theorem last_team_owner_stays:
  assumes "repository A = Some R" and "req_Action q \<in> {ActionTeamMemberRemove, ActionTeamMemberChangeRole}"
    and "contextBool (req_Context q) ''last_team_owner''"
  shows "\<not> Allowed (fst (fst (Check U (Some A) q lg)))"
  using assms by (simp add: Check_decides last_owner_denied)

theorem last_team_owner_stays_witness:
  "\<not> Allowed (fst (fst (Check decimal_uuid_lib (Some example_authorizer)
      ((team_request decimal_uuid_lib (user_ref ''1'') 7 9 ActionTeamMemberRemove)
        \<lparr>req_Context := [(''last_team_owner'', GBool True)]\<rparr>) [])))"
  by (rule last_team_owner_stays [where R = "PgRepository example_store"])
     (simp_all add: example_authorizer_def contextBool_def gget_def)

text \<open>
  The action \<^verbatim>\<open>system.templates.manage\<close>, which the prompt template handler asks for, has no case
  in \<open>Check\<close>: whoever asks, the answer is the error \<^verbatim>\<open>unsupported action\<close>, so no caller is ever
  recognised as an administrator of system templates.
\<close>

theorem manage_system_templates_unsupported:
  "repository A = Some R \<Longrightarrow> req_Action q = ActionManageSystemTemplates \<Longrightarrow>
     snd (fst (Check U (Some A) q lg)) = Some ErrUnsupportedAction \<and>
     \<not> Allowed (fst (fst (Check U (Some A) q lg)))"
  by (simp add: Check_def check_switch_def isProjectAction_def isAuditAction_def)

theorem manage_system_templates_unsupported_witness:
  "snd (fst (Check decimal_uuid_lib (Some example_authorizer)
      \<lparr>req_Actor = user_ref ''1'', req_Action = ActionManageSystemTemplates,
       req_Resource = \<lparr>res_Type = ResourceTenant, res_ID = ''7''\<rparr>, req_TenantID = 7, req_TeamID = None,
       req_Context = [], req_AuditReason = []\<rparr> [])) = Some ErrUnsupportedAction"
  using manage_system_templates_unsupported [of example_authorizer "PgRepository example_store"
      "\<lparr>req_Actor = user_ref ''1'', req_Action = ActionManageSystemTemplates,
       req_Resource = \<lparr>res_Type = ResourceTenant, res_ID = ''7''\<rparr>, req_TenantID = 7, req_TeamID = None,
       req_Context = [], req_AuditReason = []\<rparr>" decimal_uuid_lib "[]"]
  by (simp add: example_authorizer_def)

end
