(* ===== verification/Authz_OpenFGA.thy ===== *)
theory Authz_OpenFGA
  imports Authz_Safety
begin

text \<open>
  The relationship-based engine beside the database authorizer: the mapping of requests, memberships
  and project scopes to OpenFGA checks and tuples (\<^verbatim>\<open>authz/openfga_mapping.go\<close>), the tuple syncer
  (\<^verbatim>\<open>authz/openfga_sync.go\<close>) with the tenant membership change that drives it
  (\<^verbatim>\<open>auth/service.go\<close>), the direct authorizer (\<^verbatim>\<open>authz/openfga_authorizer.go\<close>) and the shadow
  authorizer (\<^verbatim>\<open>authz/shadow_authorizer.go\<close>). The OpenFGA server is not part of the repository: its
  check and its tuple writes are parameters.
\<close>

section \<open>Mapping\<close>

record OpenFGACheck =
  fga_User :: string
  fga_Relation :: string
  fga_Object :: string

type_synonym OpenFGATuple = OpenFGACheck

definition openFGAUser :: "string \<Rightarrow> string \<Rightarrow> string" where
  "openFGAUser actorType actorID = actorType @ '':'' @ actorID"

definition openFGAObject :: "string \<Rightarrow> string \<Rightarrow> string" where
  "openFGAObject resourceType resourceID = resourceType @ '':'' @ resourceID"

definition openFGARelationForAction :: "action \<Rightarrow> string option" where
  "openFGARelationForAction a =
     (if a \<in> {ActionConsoleAccess, ActionTenantAccess, ActionTeamAccess, ActionTeamRead,
              ActionTeamGovernanceRead} then Some ''viewer''
      else if a \<in> {ActionRuntimeScopeManage, ActionAuthzCenterRead, ActionUserProjectTeamScopeRead,
                   ActionUserProjectTeamScopeManage, ActionEmployeeCreate, ActionEmployeeDelete,
                   ActionTeamCreate, ActionTeamUpdate, ActionTeamDelete, ActionTeamMemberAdd,
                   ActionTeamMemberRemove, ActionTeamMemberChangeRole,
                   ActionTeamMemberRequestPrivilegedRole, ActionTeamCapabilityBind,
                   ActionTeamCapabilityUnbind, ActionTeamCapabilityManage, ActionTeamAuditRead,
                   ActionSkillInstall} then Some ''admin''
      else if a = ActionTeamMemberApprovePrivilegedRole then Some ''owner''
      else if a = ActionTeamGovernanceApprove then Some ''approver''
      else None)"

fun openFGARelationForRole :: "role \<Rightarrow> string option" where
  "openFGARelationForRole RoleOwner = Some ''owner''"
| "openFGARelationForRole RoleAdmin = Some ''admin''"
| "openFGARelationForRole RoleApprover = Some ''approver''"
| "openFGARelationForRole RoleMember = Some ''member''"
| "openFGARelationForRole RoleViewer = Some ''viewer''"
| "openFGARelationForRole (RoleOther _) = None"

definition openFGAObjectForRequest :: "uuid_lib \<Rightarrow> CheckRequest \<Rightarrow> string option" where
  "openFGAObjectForRequest U q =
     (let id = res_ID (req_Resource q) in
      case res_Type (req_Resource q) of
        ResourceTenant \<Rightarrow> if id = [] then None else Some (openFGAObject ''tenant'' id)
      | ResourceTeam \<Rightarrow> if id = [] then None else Some (openFGAObject ''team'' id)
      | ResourceSkill \<Rightarrow>
          if req_Action q = ActionSkillInstall
          then (if req_TenantID q = uuid_Nil then None
                else Some (openFGAObject ''tenant'' (uuid_String U (req_TenantID q))))
          else if id = [] then None else Some (openFGAObject ''skill'' id)
      | ResourceConsole \<Rightarrow>
          if req_TenantID q = uuid_Nil then None
          else Some (openFGAObject ''tenant'' (uuid_String U (req_TenantID q)))
      | _ \<Rightarrow> None)"

definition OpenFGACheckForRequest :: "uuid_lib \<Rightarrow> CheckRequest \<Rightarrow> OpenFGACheck option" where
  "OpenFGACheckForRequest U q =
     (if actor_Type (req_Actor q) \<noteq> ActorUser \<or> blank (actor_ID (req_Actor q)) then None
      else case openFGARelationForAction (req_Action q) of
          None \<Rightarrow> None
        | Some rel \<Rightarrow>
           (case openFGAObjectForRequest U q of
              None \<Rightarrow> None
            | Some obj \<Rightarrow>
                Some \<lparr>fga_User = openFGAUser ''user'' (actor_ID (req_Actor q)),
                      fga_Relation = rel, fga_Object = obj\<rparr>))"

definition OpenFGATupleForMembership :: "uuid_lib \<Rightarrow> Membership \<Rightarrow> OpenFGATuple option" where
  "OpenFGATupleForMembership U m =
     (if mem_PrincipalType m \<noteq> ActorUser \<or> mem_PrincipalID m = uuid_Nil \<or> mem_TenantID m = uuid_Nil then None
      else case openFGARelationForRole (mem_Role m) of
          None \<Rightarrow> None
        | Some rel \<Rightarrow>
            if mem_Status m \<noteq> ''active'' then None
            else Some \<lparr>fga_User = openFGAUser ''user'' (uuid_String U (mem_PrincipalID m)),
                       fga_Relation = rel,
                       fga_Object =
                         (case mem_TeamID m of
                            Some g \<Rightarrow> if g \<noteq> uuid_Nil then openFGAObject ''team'' (uuid_String U g)
                                     else openFGAObject ''tenant'' (uuid_String U (mem_TenantID m))
                          | None \<Rightarrow> openFGAObject ''tenant'' (uuid_String U (mem_TenantID m)))\<rparr>)"

definition OpenFGATupleForProjectTeamScope ::
  "uuid_lib \<Rightarrow> uuid \<Rightarrow> uuid \<Rightarrow> uuid \<Rightarrow> string \<Rightarrow> OpenFGATuple option" where
  "OpenFGATupleForProjectTeamScope U tenantID userID teamID status =
     (if tenantID = uuid_Nil \<or> userID = uuid_Nil \<or> teamID = uuid_Nil \<or> status \<noteq> ''active'' then None
      else Some \<lparr>fga_User = openFGAUser ''user'' (uuid_String U userID),
                 fga_Relation = ''project_scope_user'',
                 fga_Object = openFGAObject ''team'' (uuid_String U teamID)\<rparr>)"

section \<open>Tuple synchronisation\<close>

text \<open>The writer: requests to write and to delete tuples, against the server's tuple set.\<close>

type_synonym tuple_writer = "OpenFGATuple list \<Rightarrow> OpenFGATuple list \<Rightarrow> OpenFGATuple set \<Rightarrow> string + OpenFGATuple set"

definition SyncMembership ::
  "uuid_lib \<Rightarrow> tuple_writer option \<Rightarrow> Membership \<Rightarrow> OpenFGATuple set \<Rightarrow> string + OpenFGATuple set" where
  "SyncMembership U w m T =
     (case w of
        None \<Rightarrow> Inr T
      | Some write \<Rightarrow>
         (case OpenFGATupleForMembership U m of
            Some t \<Rightarrow> write [t] [] T
          | None \<Rightarrow>
             (case OpenFGATupleForMembership U (m\<lparr>mem_Status := ''active''\<rparr>) of
                None \<Rightarrow> Inr T
              | Some t \<Rightarrow> write [] [t] T)))"

definition SyncProjectTeamScope ::
  "uuid_lib \<Rightarrow> tuple_writer option \<Rightarrow> uuid \<Rightarrow> uuid \<Rightarrow> uuid \<Rightarrow> string \<Rightarrow> OpenFGATuple set \<Rightarrow>
   string + OpenFGATuple set" where
  "SyncProjectTeamScope U w tenantID userID teamID status T =
     (case w of
        None \<Rightarrow> Inr T
      | Some write \<Rightarrow>
         (case OpenFGATupleForProjectTeamScope U tenantID userID teamID status of
            Some t \<Rightarrow> write [t] [] T
          | None \<Rightarrow>
             (case OpenFGATupleForProjectTeamScope U tenantID userID teamID ''active'' of
                None \<Rightarrow> Inr T
              | Some t \<Rightarrow> write [] [t] T)))"

text \<open>\<^verbatim>\<open>Backfill\<close> writes the tuples of all memberships and scopes that the source lists.\<close>

definition ListOpenFGATuples ::
  "uuid_lib \<Rightarrow> Membership list \<Rightarrow> (uuid \<times> uuid \<times> uuid \<times> string) list \<Rightarrow> OpenFGATuple list" where
  "ListOpenFGATuples U members scopes =
     List.map_filter (OpenFGATupleForMembership U) members @
     List.map_filter (\<lambda>(t, u, g, st). OpenFGATupleForProjectTeamScope U t u g st) scopes"

definition Backfill ::
  "tuple_writer option \<Rightarrow> (string + OpenFGATuple list) option \<Rightarrow> OpenFGATuple set \<Rightarrow> string + OpenFGATuple set" where
  "Backfill w source T =
     (case w of
        None \<Rightarrow> Inr T
      | Some write \<Rightarrow>
         (case source of
            None \<Rightarrow> Inr T
          | Some (Inl e) \<Rightarrow> Inl e
          | Some (Inr tuples) \<Rightarrow> write tuples [] T))"

text \<open>A change of a tenant-level membership, from the service that manages users; a failed
  synchronisation is only logged, so the tuple set stays as it was.\<close>

record TenantLevelMembership =
  tl_TenantID :: uuid
  tl_UserID :: uuid
  tl_Role :: role
  tl_Status :: string

definition tenant_membership_of :: "TenantLevelMembership \<Rightarrow> string \<Rightarrow> Membership" where
  "tenant_membership_of m status =
     \<lparr>mem_TenantID = tl_TenantID m, mem_TeamID = None, mem_PrincipalType = ActorUser,
      mem_PrincipalID = tl_UserID m, mem_Role = tl_Role m, mem_Status = status\<rparr>"

definition or_keep :: "'a \<Rightarrow> (string + 'a) \<Rightarrow> 'a" where
  "or_keep T r = (case r of Inl _ \<Rightarrow> T | Inr T' \<Rightarrow> T')"

definition syncTenantMembership ::
  "uuid_lib \<Rightarrow> tuple_writer option \<Rightarrow> TenantLevelMembership option \<Rightarrow> TenantLevelMembership option \<Rightarrow>
   OpenFGATuple set \<Rightarrow> OpenFGATuple set" where
  "syncTenantMembership U w previous current T =
     (let T1 =
        (case previous of
           None \<Rightarrow> T
         | Some p \<Rightarrow>
             if (case current of None \<Rightarrow> True
                 | Some c \<Rightarrow> tl_Role p \<noteq> tl_Role c \<or> tl_Status p \<noteq> tl_Status c)
             then or_keep T (SyncMembership U w (tenant_membership_of p ''disabled'') T)
             else T)
      in case current of
          None \<Rightarrow> T1
        | Some c \<Rightarrow>
            if tl_Status c = ''active''
            then or_keep T1 (SyncMembership U w (tenant_membership_of c (tl_Status c)) T1)
            else T1)"

section \<open>The direct authorizer\<close>

type_synonym fga_checker = "OpenFGACheck \<Rightarrow> string + bool"

record OpenFGAAuthorizer =
  fga_checker_of :: "fga_checker option"
  fga_recorder :: "recorder option"
  fga_StoreID :: string
  fga_ModelID :: string

definition fga_snapshot :: "OpenFGAAuthorizer \<Rightarrow> (string \<times> gval) list \<Rightarrow> (string \<times> gval) list" where
  "fga_snapshot A extra =
     extra @ [(''engine'', GStr ''openfga''), (''openfga_store_id'', GStr (fga_StoreID A)),
              (''openfga_model_id'', GStr (fga_ModelID A))]"

definition fga_decide :: "uuid_lib \<Rightarrow> OpenFGAAuthorizer \<Rightarrow> CheckRequest \<Rightarrow> Decision" where
  "fga_decide U A q =
     (case fga_checker_of A of
        None \<Rightarrow> \<lparr>Allowed = False, Reason = ReasonNotConfigured, MatchedRule = [], RequiresAudit = True,
                Snapshot = fga_snapshot A []\<rparr>
      | Some checker \<Rightarrow>
         (case OpenFGACheckForRequest U q of
            None \<Rightarrow> \<lparr>Allowed = False, Reason = ReasonUnsupportedAction, MatchedRule = [], RequiresAudit = True,
                    Snapshot = fga_snapshot A []\<rparr>
          | Some chk \<Rightarrow>
             (let about = [(''openfga_relation'', GStr (fga_Relation chk)), (''openfga_object'', GStr (fga_Object chk))]
              in case checker chk of
                Inl e \<Rightarrow> \<lparr>Allowed = False, Reason = ReasonOpenFGAFailed, MatchedRule = [], RequiresAudit = True,
                         Snapshot = fga_snapshot A [(''openfga_error'', GStr e)]\<rparr>
              | Inr True \<Rightarrow> \<lparr>Allowed = True, Reason = ReasonAllowed, MatchedRule = ''openfga.'' @ fga_Relation chk,
                            RequiresAudit = False, Snapshot = fga_snapshot A about\<rparr>
              | Inr False \<Rightarrow> \<lparr>Allowed = False, Reason = ReasonNoMembership, MatchedRule = ''openfga.'' @ fga_Relation chk,
                            RequiresAudit = True, Snapshot = fga_snapshot A about\<rparr>)))"

definition fga_Check ::
  "uuid_lib \<Rightarrow> OpenFGAAuthorizer option \<Rightarrow> CheckRequest \<Rightarrow> decision_log \<Rightarrow> verdict \<times> decision_log" where
  "fga_Check U au q lg =
     (case au of
        None \<Rightarrow> ((not_configured, None), lg)
      | Some A \<Rightarrow>
         (let d = fga_decide U A q in
          case fga_recorder A of
            None \<Rightarrow> ((d, None), lg)
          | Some r \<Rightarrow>
             (case r (decision_record q d ''openfga'') lg of
                Inl e \<Rightarrow> ((zero_Decision, Some e), lg)
              | Inr lg' \<Rightarrow> ((d, None), lg'))))"

text \<open>The bulk check of the direct engine: one check per action, stopping at the first error.\<close>

fun fga_CheckBulkTeamActions ::
  "uuid_lib \<Rightarrow> OpenFGAAuthorizer \<Rightarrow> ActorRef \<Rightarrow> uuid \<Rightarrow> uuid \<Rightarrow> action list \<Rightarrow> decision_log \<Rightarrow>
   (authz_error + action list) \<times> decision_log" where
  "fga_CheckBulkTeamActions U A actor t g [] lg = (Inr [], lg)"
| "fga_CheckBulkTeamActions U A actor t g (a # acts) lg =
     (case fga_Check U (Some A) (team_request U actor t g a) lg of
        ((_, Some e), lg') \<Rightarrow> (Inl e, lg')
      | ((d, None), lg') \<Rightarrow>
         (case fga_CheckBulkTeamActions U A actor t g acts lg' of
            (Inl e, lg'') \<Rightarrow> (Inl e, lg'')
          | (Inr allowed, lg'') \<Rightarrow> (Inr (if Allowed d then a # allowed else allowed), lg'')))"

section \<open>The shadow authorizer\<close>

type_synonym authorizer_check = "CheckRequest \<Rightarrow> decision_log \<Rightarrow> verdict \<times> decision_log"

record ShadowAuthorizer =
  shadow_primary :: "authorizer_check option"
  shadow_checker :: "fga_checker option"
  shadow_recorder :: "recorder option"
  shadow_StoreID :: string
  shadow_ModelID :: string

definition shadow_record ::
  "ShadowAuthorizer \<Rightarrow> CheckRequest \<Rightarrow> Decision \<Rightarrow> bool \<Rightarrow> string \<Rightarrow> decision_log \<Rightarrow> decision_log" where
  "shadow_record A q d fga err lg =
     (case shadow_recorder A of
        None \<Rightarrow> lg
      | Some r \<Rightarrow>
         (let snap =
            (if err \<noteq> [] then [(''openfga_error'', GStr err), (''diff'', GBool True)]
             else [(''diff'', GBool (Allowed d \<noteq> fga))]) @
            [(''db_allowed'', GBool (Allowed d)), (''openfga_allowed'', GBool fga),
             (''openfga_store_id'', GStr (shadow_StoreID A)), (''openfga_model_id'', GStr (shadow_ModelID A)),
             (''db_reason'', GStr (reason_text (Reason d))), (''db_matched_rule'', GStr (MatchedRule d)), (''shadow_engine_mode'', GStr ''openfga_shadow'')]
          in case r (decision_record q
                 \<lparr>Allowed = fga, Reason = ReasonShadowDiffers, MatchedRule = ''openfga.shadow'',
                  RequiresAudit = True, Snapshot = snap\<rparr> ''openfga_shadow'') lg of
               Inl _ \<Rightarrow> lg
             | Inr lg' \<Rightarrow> lg'))"

definition shadow_Check :: "uuid_lib \<Rightarrow> ShadowAuthorizer option \<Rightarrow> authorizer_check" where
  "shadow_Check U au q lg =
     (case au of
        None \<Rightarrow> ((not_configured, None), lg)
      | Some A \<Rightarrow>
         (case shadow_primary A of
            None \<Rightarrow> ((not_configured, None), lg)
          | Some primary \<Rightarrow>
             (case primary q lg of
                ((d, Some e), lg') \<Rightarrow> ((d, Some e), lg')
              | ((d, None), lg') \<Rightarrow>
                 (case shadow_checker A of
                    None \<Rightarrow> ((d, None), lg')
                  | Some checker \<Rightarrow>
                     (case OpenFGACheckForRequest U q of
                        None \<Rightarrow> ((d, None), lg')
                      | Some chk \<Rightarrow>
                         (case checker chk of
                            Inl e \<Rightarrow> ((d, None), shadow_record A q d False e lg')
                          | Inr allowed \<Rightarrow>
                              if allowed \<noteq> Allowed d then ((d, None), shadow_record A q d allowed [] lg')
                              else ((d, None), lg')))))))"

section \<open>The authorizer interface\<close>

text \<open>
  What a caller of the interface \<^verbatim>\<open>Authorizer\<close> relies on, whichever engine is configured: verdicts
  are well formed. The client lemmas follow from it, and the three engines are interpretations.
\<close>

locale authorizer =
  fixes chk :: authorizer_check
  assumes verdicts: "well_formed_verdict (fst (chk q lg))"
begin

lemma error_is_denied: "snd (fst (chk q lg)) = Some e \<Longrightarrow> \<not> Allowed (fst (fst (chk q lg)))"
  using verdicts [of q lg] by (simp add: well_formed_verdict_def)

lemma denial_requires_audit:
  "snd (fst (chk q lg)) = None \<Longrightarrow> \<not> Allowed (fst (fst (chk q lg))) \<Longrightarrow> RequiresAudit (fst (fst (chk q lg)))"
  using verdicts [of q lg] by (simp add: well_formed_verdict_def)

end

lemma wf_not_configured [simp]: "well_formed_verdict (not_configured, None)"
  by (simp add: well_formed_verdict_def)

lemma wf_Check: "well_formed_verdict (fst (Check U au q lg))"
proof (cases "\<exists>A R. au = Some A \<and> repository A = Some R")
  case True
  then obtain A R where "au = Some A" "repository A = Some R" by blast
  with wf_check_switch [of U R q] show ?thesis
    by (auto simp: Check_def split: prod.splits option.splits)
next
  case False
  then show ?thesis by (auto simp: Check_def split: option.splits)
qed

lemma wf_fga_decide: "RequiresAudit (fga_decide U A q) = (\<not> Allowed (fga_decide U A q))"
  by (auto simp: fga_decide_def Let_def split: option.splits sum.splits bool.splits)

lemma wf_fga_Check: "well_formed_verdict (fst (fga_Check U au q lg))"
  by (auto simp: fga_Check_def Let_def well_formed_verdict_def wf_fga_decide
      split: option.splits sum.splits)

lemma shadow_transparent_verdict:
  assumes "shadow_primary A = Some primary"
  shows "fst (shadow_Check U (Some A) q lg) = fst (primary q lg)"
  using assms by (auto simp: shadow_Check_def split: prod.splits option.splits sum.splits)

interpretation db_engine: authorizer "Check U au" for U au
  by unfold_locales (rule wf_Check)

interpretation fga_engine: authorizer "fga_Check U au" for U au
  by unfold_locales (rule wf_fga_Check)

text \<open>A shadow over a well-behaved engine is one again.\<close>

locale shadowed = authorizer primary for primary +
  fixes U :: uuid_lib and A :: ShadowAuthorizer
  assumes over: "shadow_primary A = Some primary"

sublocale shadowed \<subseteq> shadow: authorizer "shadow_Check U (Some A)"
  by unfold_locales (simp add: shadow_transparent_verdict [OF over] verdicts)

interpretation db_shadow: shadowed "Check U au" U
    "\<lparr>shadow_primary = Some (Check U au), shadow_checker = c, shadow_recorder = r,
      shadow_StoreID = s, shadow_ModelID = m\<rparr>" for U au c r s m
  by unfold_locales simp

section \<open>Tuple synchronisation\<close>

text \<open>Documented behaviour of the tuple service: a successful call removes the deleted tuples and
  adds the written ones.\<close>

definition tuple_write_law :: "tuple_writer \<Rightarrow> bool" where
  "tuple_write_law w \<longleftrightarrow> (\<forall>ws ds T. w ws ds T = Inr ((T - set ds) \<union> set ws))"

text \<open>The tuples that speak about one user and one tenant, and the ones a membership stands for.\<close>

definition tenant_user_tuples :: "uuid_lib \<Rightarrow> uuid \<Rightarrow> uuid \<Rightarrow> OpenFGATuple set \<Rightarrow> OpenFGATuple set" where
  "tenant_user_tuples U t u T =
     {x \<in> T. fga_User x = openFGAUser ''user'' (uuid_String U u) \<and>
             fga_Object x = openFGAObject ''tenant'' (uuid_String U t)}"

definition membership_tuples :: "uuid_lib \<Rightarrow> TenantLevelMembership option \<Rightarrow> OpenFGATuple set" where
  "membership_tuples U m =
     (case m of None \<Rightarrow> {} | Some x \<Rightarrow> set_option (OpenFGATupleForMembership U (tenant_membership_of x (tl_Status x))))"

definition about :: "uuid \<Rightarrow> uuid \<Rightarrow> TenantLevelMembership option \<Rightarrow> bool" where
  "about t u m \<longleftrightarrow> (case m of None \<Rightarrow> True | Some x \<Rightarrow> tl_TenantID x = t \<and> tl_UserID x = u)"

text \<open>The tuple of a role, whatever the status says.\<close>

definition role_tuple :: "uuid_lib \<Rightarrow> TenantLevelMembership \<Rightarrow> OpenFGATuple option" where
  "role_tuple U m = OpenFGATupleForMembership U (tenant_membership_of m ''active'')"

lemma tuple_status:
  "OpenFGATupleForMembership U (tenant_membership_of m s) = (if s = ''active'' then role_tuple U m else None)"
  by (auto simp: role_tuple_def OpenFGATupleForMembership_def tenant_membership_of_def split: option.splits)

lemma tuple_status_update:
  "OpenFGATupleForMembership U ((tenant_membership_of m s)\<lparr>mem_Status := ''active''\<rparr>) = role_tuple U m"
  by (simp add: role_tuple_def tenant_membership_of_def)

lemma membership_tuples_status:
  "membership_tuples U (Some m) = (if tl_Status m = ''active'' then set_option (role_tuple U m) else {})"
  by (simp add: membership_tuples_def tuple_status)

lemma role_tuple_about:
  "role_tuple U m = Some x \<Longrightarrow> x \<in> tenant_user_tuples U (tl_TenantID m) (tl_UserID m) {x}"
  by (auto simp: role_tuple_def OpenFGATupleForMembership_def tenant_membership_of_def tenant_user_tuples_def
      split: option.splits if_splits)

lemma sync_active:
  assumes "tuple_write_law w"
  shows "or_keep T (SyncMembership U (Some w) (tenant_membership_of m ''active'') T) = T \<union> set_option (role_tuple U m)"
  using assms
  by (auto simp: SyncMembership_def tuple_status tuple_status_update tuple_write_law_def or_keep_def
      split: option.splits)

lemma sync_disabled:
  assumes "tuple_write_law w"
  shows "or_keep T (SyncMembership U (Some w) (tenant_membership_of m ''disabled'') T) = T - set_option (role_tuple U m)"
  using assms
  by (auto simp: SyncMembership_def tuple_status tuple_status_update tuple_write_law_def or_keep_def
      split: option.splits)

lemma tenant_user_tuples_Un:
  "tenant_user_tuples U t u (T \<union> S) = tenant_user_tuples U t u T \<union> tenant_user_tuples U t u S"
  by (auto simp: tenant_user_tuples_def)

lemma tenant_user_tuples_Diff:
  "tenant_user_tuples U t u (T - S) = tenant_user_tuples U t u T - S"
  by (auto simp: tenant_user_tuples_def)

lemma tenant_user_tuples_role:
  "tl_TenantID m = t \<Longrightarrow> tl_UserID m = u \<Longrightarrow>
   tenant_user_tuples U t u (set_option (role_tuple U m)) = set_option (role_tuple U m)"
  using role_tuple_about by (cases "role_tuple U m") (auto simp: tenant_user_tuples_def)

lemma role_tuple_cong:
  "tl_TenantID m = tl_TenantID n \<Longrightarrow> tl_UserID m = tl_UserID n \<Longrightarrow> tl_Role m = tl_Role n \<Longrightarrow>
   role_tuple U m = role_tuple U n"
  by (simp add: role_tuple_def tenant_membership_of_def)

section \<open>The properties\<close>


definition set_writer :: tuple_writer where
  "set_writer ws ds T = Inr ((T - set ds) \<union> set ws)"


text \<open>
  The shadow engine is an observer: whatever it answers, and whether its recorder fails or not, the
  verdict is the one of the primary engine; a mapped request on which the two engines disagree, or on
  which the shadow fails, is handed to the recorder, and in every other case the log is the primary's.
\<close>

theorem shadow_only_observes:
  assumes "shadow_primary A = Some primary"
  shows "fst (shadow_Check U (Some A) q lg) = fst (primary q lg) \<and>
    snd (shadow_Check U (Some A) q lg) =
      (case (snd (fst (primary q lg)), shadow_checker A, OpenFGACheckForRequest U q) of
         (None, Some checker, Some c) \<Rightarrow>
           (case checker c of
              Inl e \<Rightarrow> shadow_record A q (fst (fst (primary q lg))) False e (snd (primary q lg))
            | Inr answer \<Rightarrow>
                if answer = Allowed (fst (fst (primary q lg))) then snd (primary q lg)
                else shadow_record A q (fst (fst (primary q lg))) answer [] (snd (primary q lg)))
       | _ \<Rightarrow> snd (primary q lg))"
  using assms by (auto simp: shadow_Check_def split: prod.splits option.splits sum.splits)

theorem shadow_only_observes_witness:
  "fst (shadow_Check decimal_uuid_lib
      (Some \<lparr>shadow_primary = Some (Check decimal_uuid_lib (Some example_authorizer)),
             shadow_checker = Some (\<lambda>_. Inr True), shadow_recorder = None,
             shadow_StoreID = [], shadow_ModelID = []\<rparr>)
      (team_request decimal_uuid_lib (user_ref ''2'') 7 9 ActionTeamDelete) []) =
   (deny ReasonNoMembership, None)"
  using shadow_only_observes [of "\<lparr>shadow_primary = Some (Check decimal_uuid_lib (Some example_authorizer)),
             shadow_checker = Some (\<lambda>_. Inr True), shadow_recorder = None,
             shadow_StoreID = [], shadow_ModelID = []\<rparr>" "Check decimal_uuid_lib (Some example_authorizer)"
      decimal_uuid_lib "team_request decimal_uuid_lib (user_ref ''2'') 7 9 ActionTeamDelete" "[]"]
  by (simp add: authz_eval)

end
