(* ===== verification/Autonomy_Policy.thy ===== *)
theory Autonomy_Policy
  imports Go_Base
begin

text \<open>
  The autonomy tiers of \<^verbatim>\<open>autonomypolicy/tier.go\<close>, shared by automation rules, playbooks and
  project ceilings. A tier is a string; \<open>Effective\<close> composes the ceilings with the tier of the
  invoker. The main result gives its value on every input: full automation comes out exactly when
  the invoker asks for it and no ceiling objects.
\<close>

abbreviation TierPauseAtGate :: string where
  "TierPauseAtGate \<equiv> ''pause_at_gate''"

abbreviation TierFullAuto :: string where
  "TierFullAuto \<equiv> ''full_auto''"

definition Rank :: "string \<Rightarrow> int" where
  "Rank tier =
     (let t = TrimSpace tier in
      if t = TierPauseAtGate then 0 else if t = TierFullAuto then 1 else -1)"

datatype tier_error = ErrUnknownTier

definition Normalize :: "string \<Rightarrow> tier_error + string" where
  "Normalize raw =
     (let tier = TrimSpace raw in
      if tier = [] then Inr TierPauseAtGate
      else if Rank tier < 0 then Inl ErrUnknownTier
      else Inr tier)"

text \<open>The value that \<^verbatim>\<open>out, _ := f()\<close> binds when the error is dropped: the zero string on an error.\<close>

definition value_or_empty :: "tier_error + string \<Rightarrow> string" where
  "value_or_empty r = (case r of Inl _ \<Rightarrow> [] | Inr v \<Rightarrow> v)"

definition Min_tier :: "string \<Rightarrow> string \<Rightarrow> string" where
  "Min_tier a b =
     (let ra = Rank a; rb = Rank b;
          a' = (if ra < 0 then TierPauseAtGate else a); ra' = (if ra < 0 then 0 else ra);
          b' = (if rb < 0 then TierPauseAtGate else b); rb' = (if rb < 0 then 0 else rb)
      in if ra' \<le> rb' then a' else b')"

definition Effective :: "string \<Rightarrow> string \<Rightarrow> string \<Rightarrow> string" where
  "Effective playbookCeiling projectCeiling invokerTier =
     (let out0 = value_or_empty (Normalize invokerTier);
          c1 = TrimSpace playbookCeiling;
          out1 = (if c1 \<noteq> [] then Min_tier out0 c1 else out0);
          c2 = TrimSpace projectCeiling
      in if c2 \<noteq> [] then Min_tier out1 c2 else out1)"

definition CoordinationPolicyCeiling :: "gmap \<Rightarrow> string" where
  "CoordinationPolicyCeiling policy =
     (let raw = TrimSpace (case as_str (gget policy ''autonomy_ceiling'') of None \<Rightarrow> [] | Some s \<Rightarrow> s)
      in if Rank raw < 0 then [] else raw)"

section \<open>Tiers as an order\<close>

lemma Rank_cases: "Rank t = -1 \<or> Rank t = 0 \<or> Rank t = 1"
  by (simp add: Rank_def Let_def)

lemma Rank_TrimSpace [simp]: "Rank (TrimSpace t) = Rank t"
  by (simp add: Rank_def)

lemma tier_trimmed [simp]:
  "TrimSpace TierPauseAtGate = TierPauseAtGate" "TrimSpace TierFullAuto = TierFullAuto"
  by code_simp+

lemma Rank_tiers [simp]: "Rank TierPauseAtGate = 0" "Rank TierFullAuto = 1" "Rank [] = -1"
  by (simp_all add: Rank_def)

lemma Rank_full_iff: "Rank t = 1 \<longleftrightarrow> TrimSpace t = TierFullAuto"
  by (simp add: Rank_def Let_def)

lemma Rank_unknown_iff:
  "Rank t < 0 \<longleftrightarrow> TrimSpace t \<noteq> TierPauseAtGate \<and> TrimSpace t \<noteq> TierFullAuto"
  by (simp add: Rank_def Let_def)

text \<open>\<open>Min_tier\<close> is the minimum of the two ranks, an unknown tier counting as a pause.\<close>

lemma Rank_Min_tier: "Rank (Min_tier a b) = min (max 0 (Rank a)) (max 0 (Rank b))"
  by (auto simp: Min_tier_def Let_def)

lemma Min_tier_known:
  assumes "TrimSpace a = a" "TrimSpace b = b"
  shows "Min_tier a b = (if Rank a = 1 \<and> Rank b = 1 then TierFullAuto else TierPauseAtGate)"
  using assms Rank_cases [of a] Rank_cases [of b]
  by (auto simp: Min_tier_def Let_def Rank_def split: if_splits)

lemma Normalize_value:
  "value_or_empty (Normalize t) =
     (if blank t then TierPauseAtGate
      else if Rank t < 0 then [] else TrimSpace t)"
  by (simp add: Normalize_def value_or_empty_def blank_def Let_def)

lemma CoordinationPolicyCeiling_known:
  "CoordinationPolicyCeiling p \<in> {[], TierPauseAtGate, TierFullAuto}"
  by (auto simp: CoordinationPolicyCeiling_def Let_def Rank_unknown_iff split: if_splits)

section \<open>The effective tier\<close>

text \<open>
  The value of \<open>Effective\<close> on every input. The result is full automation exactly when the
  invoker's tier is \<^verbatim>\<open>full_auto\<close> and each ceiling is absent or \<^verbatim>\<open>full_auto\<close> itself, so no unknown,
  empty or misspelt value ever raises the autonomy. In every other case it is \<^verbatim>\<open>pause_at_gate\<close>,
  except that an unknown invoker tier under no ceiling at all gives the empty string, which is not a
  tier.
\<close>

theorem effective_tier:
  "Effective playbook project invoker =
     (if TrimSpace invoker = TierFullAuto \<and>
         (blank playbook \<or> TrimSpace playbook = TierFullAuto) \<and>
         (blank project \<or> TrimSpace project = TierFullAuto)
      then TierFullAuto
      else if \<not> blank invoker \<and> Rank invoker < 0 \<and> blank playbook \<and> blank project
      then []
      else TierPauseAtGate)"
proof -
  have out: "TrimSpace (value_or_empty (Normalize invoker)) = value_or_empty (Normalize invoker)"
    by (simp add: Normalize_value)
  have min: "Min_tier a (TrimSpace b) =
      (if TrimSpace a = TierFullAuto \<and> TrimSpace b = TierFullAuto then TierFullAuto else TierPauseAtGate)"
    if "TrimSpace a = a" for a b
    using Min_tier_known [of a "TrimSpace b"] that by (simp add: Rank_full_iff)
  have full: "Min_tier TierFullAuto TierFullAuto = TierFullAuto"
    by (simp add: Min_tier_def)
  show ?thesis
    by (auto simp: Effective_def Let_def min out blank_def)
      (auto simp: Normalize_value blank_def Rank_unknown_iff full split: if_splits)
qed

end
