(* ===== verification/Scenario_Spec.thy ===== *)
theory Scenario_Spec
  imports Autonomy_Policy
begin

text \<open>
  Scenario template specifications, after \<^verbatim>\<open>scenariotemplate/spec.go\<close>: the typed specification,
  its decoding from the stored JSON document, the normalisation of the legacy shape, and the
  validation that every registered template has passed.

  A raw document is a \<^typ>\<open>gmap\<close>, the value that \<^verbatim>\<open>encoding/json\<close> decoded from a request body or
  from the JSONB column: its numbers are float64 values and its strings are valid UTF-8, on which
  marshalling and unmarshalling again is the identity. \<^verbatim>\<open>json.Unmarshal\<close> into a struct matches keys
  up to letter case (\<open>jfield\<close>) while an index expression \<^verbatim>\<open>raw["k"]\<close> matches exactly (\<open>gget\<close>);
  documents in which two keys of one object differ only in case are outside the model. The
  destinations decoded into are fresh, so a JSON null leaves the zero value.
\<close>

section \<open>The typed specification\<close>

record SpecProduce =
  produce_Name :: string
  produce_Kind :: string

record SpecRole =
  srole_Key :: string
  srole_Title :: string
  srole_RequiredCapabilities :: "string list"

record SpecRequiredInput =
  input_Name :: string
  input_Kind :: string
  input_Required :: "bool option"

record SpecNote =
  note_Name :: string
  note_Description :: string

record SpecSkeletonStep =
  Step :: string
  step_Role :: string
  step_Title :: string
  DependsOn :: "string list"
  ProducesDefaults :: "SpecProduce list"
  RequiredInputsDefaults :: "SpecRequiredInput list"
  NotesDefaults :: "SpecNote list"

record SpecExit =
  exit_Deliverable :: string
  exit_Label :: string

record SpecConstraintWhen =
  ExitAtOrBeyond :: string

record SpecConstraint =
  con_Kind :: string
  con_Roles :: "string list"
  con_Step :: string
  con_Target :: string
  con_When :: SpecConstraintWhen

record SpecCollapseRule =
  rule_Roles :: "string list"

record SpecAcceptanceCriterion =
  crit_Statement :: string
  AppliesFromExit :: string
  crit_VerificationMethod :: string
  crit_Severity :: string

record SpecV2 =
  SpecVersion :: int
  Roles :: "SpecRole list"
  Skeleton :: "SpecSkeletonStep list"
  Exits :: "SpecExit list"
  Constraints :: "SpecConstraint list"
  CollapseRules :: "SpecCollapseRule list"
  DefaultAcceptanceCriteria :: "SpecAcceptanceCriterion list"
  FeasibilityThresholds :: "(string \<times> rat) list"
  BudgetProfile :: gmap
  AutonomyDefault :: string
  AutonomyCeiling :: string

definition zero_spec :: SpecV2 where
  "zero_spec =
     \<lparr>SpecVersion = 0, Roles = [], Skeleton = [], Exits = [], Constraints = [], CollapseRules = [],
      DefaultAcceptanceCriteria = [], FeasibilityThresholds = [], BudgetProfile = [],
      AutonomyDefault = [], AutonomyCeiling = []\<rparr>"

datatype spec_error =
    ErrUnmarshalSpec
  | ErrEmptyInputName string
  | ErrDuplicateInput string string
  | ErrEmptyNoteName string
  | ErrDuplicateNote string string
  | ErrUnknownConstraintKind string
  | ErrConstraintExit string string
  | ErrAutonomyDefault tier_error
  | ErrAutonomyCeiling tier_error
  | ErrAutonomyExceeds string string
  | ErrCriterionMethod nat string
  | ErrCriterionSeverity nat string
  | ErrCriterionExit nat string
  | ErrNotDeclaredExit string
  | ErrNoStepProduces string
  | ErrPinnedExit string

definition knownConstraintKinds :: "string list" where
  "knownConstraintKinds = [''role_independence'', ''stage_required'', ''human_gate'']"

text \<open>The loop with its index: the position of the first exit with that deliverable, or -1.\<close>

fun exit_index_from :: "int \<Rightarrow> SpecExit list \<Rightarrow> string \<Rightarrow> int" where
  "exit_index_from i [] d = -1"
| "exit_index_from i (e # es) d = (if exit_Deliverable e = d then i else exit_index_from (i + 1) es d)"

definition ExitIndex :: "SpecV2 \<Rightarrow> string \<Rightarrow> int" where
  "ExitIndex s deliverable = exit_index_from 0 (Exits s) deliverable"

definition StepByProduce :: "SpecV2 \<Rightarrow> string \<Rightarrow> SpecSkeletonStep option" where
  "StepByProduce s name =
     find (\<lambda>step. list_ex (\<lambda>p. produce_Name p = name) (ProducesDefaults step)) (Skeleton s)"

section \<open>Reading a raw document\<close>

definition toAnySlice :: "gval \<Rightarrow> gval list" where
  "toAnySlice v = (case as_list v of None \<Rightarrow> [] | Some vs \<Rightarrow> vs)"

definition toStringSlice :: "gval \<Rightarrow> string list" where
  "toStringSlice v = (case as_list v of None \<Rightarrow> [] | Some arr \<Rightarrow> List.map_filter as_str arr)"

definition asString :: "gval \<Rightarrow> string" where
  "asString v = (case as_str v of None \<Rightarrow> [] | Some s \<Rightarrow> s)"

text \<open>Conversion of a float64 to an int: towards zero.\<close>

definition trunc_rat :: "rat \<Rightarrow> int" where
  "trunc_rat q = (if 0 \<le> q then \<lfloor>q\<rfloor> else \<lceil>q\<rceil>)"

definition specVersion :: "gmap \<Rightarrow> int" where
  "specVersion raw = (case gget raw ''spec_version'' of GNum q _ \<Rightarrow> trunc_rat q | _ \<Rightarrow> 0)"

definition v2OnlyTopLevelKeys :: "string list" where
  "v2OnlyTopLevelKeys = [''constraints'', ''exits'', ''collapse_rules'']"

text \<open>The words "object entries" that the messages carry, in their UTF-8 bytes.\<close>

definition object_entries_text :: string where
  "object_entries_text = byte_string [229, 175, 185, 232, 177, 161, 230, 157, 161, 231, 155, 174]"

definition MissingSpecVersionForV2Shape :: "gmap \<Rightarrow> bool \<times> string list" where
  "MissingSpecVersionForV2Shape raw =
     (if specVersion raw \<ge> 2 then (False, [])
      else
        let keys = filter (\<lambda>k. map_of raw k \<noteq> None) v2OnlyTopLevelKeys;
            crit = (if list_ex (\<lambda>c. as_str c = None) (toAnySlice (gget raw ''default_acceptance_criteria''))
                    then [''default_acceptance_criteria('' @ object_entries_text @ '')''] else []);
            offending = keys @ crit
        in (offending \<noteq> [], offending))"

definition step_has_notes :: "gval \<Rightarrow> bool" where
  "step_has_notes stepAny =
     (case as_map stepAny of None \<Rightarrow> False
      | Some stepMap \<Rightarrow> toAnySlice (gget stepMap ''notes_defaults'') \<noteq> [])"

definition step_has_object_input :: "gval \<Rightarrow> bool" where
  "step_has_object_input stepAny =
     (case as_map stepAny of None \<Rightarrow> False
      | Some stepMap \<Rightarrow>
          list_ex (\<lambda>entry. as_map entry \<noteq> None) (toAnySlice (gget stepMap ''required_inputs_defaults'')))"

definition MissingSpecVersionForV3Shape :: "gmap \<Rightarrow> bool \<times> string list" where
  "MissingSpecVersionForV3Shape raw =
     (if specVersion raw \<ge> 3 then (False, [])
      else
        let steps = toAnySlice (gget raw ''skeleton'');
            hasNotes = list_ex step_has_notes steps;
            hasObjectInput = list_ex step_has_object_input steps;
            offending = (if hasNotes then [''skeleton.notes_defaults''] else []) @
                        (if hasObjectInput
                         then [''skeleton.required_inputs_defaults('' @ object_entries_text @ '')''] else [])
        in (offending \<noteq> [], offending))"

section \<open>Decoding, as encoding/json does\<close>

definition jfield :: "gmap \<Rightarrow> string \<Rightarrow> gval" where
  "jfield m k = (case find (\<lambda>(k', _). EqualFold k' k) m of None \<Rightarrow> GNil | Some (_, v) \<Rightarrow> v)"

text \<open>The JSON array or object that a value marshals to.\<close>

fun json_list :: "gval \<Rightarrow> gval list option" where
  "json_list GNil = Some []"
| "json_list (GList vs) = Some vs"
| "json_list (GStrs ss) = Some (map GStr ss)"
| "json_list (GMaps ms) = Some (map GMap ms)"
| "json_list _ = None"

fun json_map :: "gval \<Rightarrow> gmap option" where
  "json_map GNil = Some []"
| "json_map (GMap m) = Some m"
| "json_map (GSMap m) = Some (map (\<lambda>(k, v). (k, GStr v)) m)"
| "json_map _ = None"

fun dec_string :: "gval \<Rightarrow> string option" where
  "dec_string GNil = Some []"
| "dec_string (GStr s) = Some s"
| "dec_string _ = None"

fun dec_bool_ptr :: "gval \<Rightarrow> bool option option" where
  "dec_bool_ptr GNil = Some None"
| "dec_bool_ptr (GBool b) = Some (Some b)"
| "dec_bool_ptr _ = None"

fun dec_int :: "gval \<Rightarrow> int option" where
  "dec_int GNil = Some 0"
| "dec_int (GNum q _) =
     (if quotient_of q = (\<lfloor>q\<rfloor>, 1) \<and> - (2 ^ 63) \<le> \<lfloor>q\<rfloor> \<and> \<lfloor>q\<rfloor> < 2 ^ 63 then Some \<lfloor>q\<rfloor> else None)"
| "dec_int _ = None"

fun dec_float :: "gval \<Rightarrow> rat option" where
  "dec_float GNil = Some 0"
| "dec_float (GNum q _) = Some q"
| "dec_float _ = None"

definition dec_slice :: "(gval \<Rightarrow> 'a option) \<Rightarrow> gval \<Rightarrow> 'a list option" where
  "dec_slice f v = (case json_list v of None \<Rightarrow> None | Some vs \<Rightarrow> those (map f vs))"

definition dec_struct :: "(gmap \<Rightarrow> 'a option) \<Rightarrow> gval \<Rightarrow> 'a option" where
  "dec_struct f v = (case json_map v of None \<Rightarrow> None | Some m \<Rightarrow> f m)"

definition dec_produce :: "gmap \<Rightarrow> SpecProduce option" where
  "dec_produce m =
     Option.bind (dec_string (jfield m ''name'')) (\<lambda>n.
     Option.bind (dec_string (jfield m ''kind'')) (\<lambda>k.
     Some \<lparr>produce_Name = n, produce_Kind = k\<rparr>))"

definition dec_role :: "gmap \<Rightarrow> SpecRole option" where
  "dec_role m =
     Option.bind (dec_string (jfield m ''Key'')) (\<lambda>k.
     Option.bind (dec_string (jfield m ''Title'')) (\<lambda>t.
     Option.bind (dec_slice dec_string (jfield m ''required_capabilities'')) (\<lambda>c.
     Some \<lparr>srole_Key = k, srole_Title = t, srole_RequiredCapabilities = c\<rparr>)))"

text \<open>\<^verbatim>\<open>SpecRequiredInput.UnmarshalJSON\<close>: a string (or null) is the old form, an object the new one.\<close>

definition UnmarshalJSON :: "gval \<Rightarrow> SpecRequiredInput option" where
  "UnmarshalJSON v =
     (case dec_string v of
        Some text \<Rightarrow> Some \<lparr>input_Name = TrimSpace text, input_Kind = [], input_Required = Some True\<rparr>
      | None \<Rightarrow>
          dec_struct (\<lambda>m.
            Option.bind (dec_string (jfield m ''name'')) (\<lambda>n.
            Option.bind (dec_string (jfield m ''kind'')) (\<lambda>k.
            Option.bind (dec_bool_ptr (jfield m ''required'')) (\<lambda>r.
            Some \<lparr>input_Name = TrimSpace n, input_Kind = k, input_Required = r\<rparr>)))) v)"

definition dec_note :: "gmap \<Rightarrow> SpecNote option" where
  "dec_note m =
     Option.bind (dec_string (jfield m ''name'')) (\<lambda>n.
     Option.bind (dec_string (jfield m ''description'')) (\<lambda>d.
     Some \<lparr>note_Name = n, note_Description = d\<rparr>))"

definition dec_step :: "gmap \<Rightarrow> SpecSkeletonStep option" where
  "dec_step m =
     Option.bind (dec_string (jfield m ''step'')) (\<lambda>s.
     Option.bind (dec_string (jfield m ''role'')) (\<lambda>r.
     Option.bind (dec_string (jfield m ''title'')) (\<lambda>t.
     Option.bind (dec_slice dec_string (jfield m ''depends_on'')) (\<lambda>d.
     Option.bind (dec_slice (dec_struct dec_produce) (jfield m ''produces_defaults'')) (\<lambda>p.
     Option.bind (dec_slice UnmarshalJSON (jfield m ''required_inputs_defaults'')) (\<lambda>i.
     Option.bind (dec_slice (dec_struct dec_note) (jfield m ''notes_defaults'')) (\<lambda>n.
     Some \<lparr>Step = s, step_Role = r, step_Title = t, DependsOn = d, ProducesDefaults = p,
           RequiredInputsDefaults = i, NotesDefaults = n\<rparr>)))))))"

definition dec_exit :: "gmap \<Rightarrow> SpecExit option" where
  "dec_exit m =
     Option.bind (dec_string (jfield m ''deliverable'')) (\<lambda>d.
     Option.bind (dec_string (jfield m ''label'')) (\<lambda>l.
     Some \<lparr>exit_Deliverable = d, exit_Label = l\<rparr>))"

definition dec_when :: "gmap \<Rightarrow> SpecConstraintWhen option" where
  "dec_when m =
     Option.bind (dec_string (jfield m ''exit_at_or_beyond'')) (\<lambda>e. Some \<lparr>ExitAtOrBeyond = e\<rparr>)"

definition dec_constraint :: "gmap \<Rightarrow> SpecConstraint option" where
  "dec_constraint m =
     Option.bind (dec_string (jfield m ''kind'')) (\<lambda>k.
     Option.bind (dec_slice dec_string (jfield m ''roles'')) (\<lambda>r.
     Option.bind (dec_string (jfield m ''step'')) (\<lambda>s.
     Option.bind (dec_string (jfield m ''target'')) (\<lambda>t.
     Option.bind (dec_struct dec_when (jfield m ''when'')) (\<lambda>w.
     Some \<lparr>con_Kind = k, con_Roles = r, con_Step = s, con_Target = t, con_When = w\<rparr>)))))"

definition dec_collapse_rule :: "gmap \<Rightarrow> SpecCollapseRule option" where
  "dec_collapse_rule m =
     Option.bind (dec_slice dec_string (jfield m ''roles'')) (\<lambda>r. Some \<lparr>rule_Roles = r\<rparr>)"

definition dec_criterion :: "gmap \<Rightarrow> SpecAcceptanceCriterion option" where
  "dec_criterion m =
     Option.bind (dec_string (jfield m ''statement'')) (\<lambda>s.
     Option.bind (dec_string (jfield m ''applies_from_exit'')) (\<lambda>a.
     Option.bind (dec_string (jfield m ''verification_method'')) (\<lambda>v.
     Option.bind (dec_string (jfield m ''severity'')) (\<lambda>y.
     Some \<lparr>crit_Statement = s, AppliesFromExit = a, crit_VerificationMethod = v, crit_Severity = y\<rparr>))))"

definition dec_thresholds :: "gval \<Rightarrow> (string \<times> rat) list option" where
  "dec_thresholds v =
     dec_struct (\<lambda>m. those (map (\<lambda>(k, x). map_option (Pair k) (dec_float x)) m)) v"

definition dec_spec :: "gmap \<Rightarrow> SpecV2 option" where
  "dec_spec m =
     Option.bind (dec_int (jfield m ''spec_version'')) (\<lambda>v.
     Option.bind (dec_slice (dec_struct dec_role) (jfield m ''roles'')) (\<lambda>r.
     Option.bind (dec_slice (dec_struct dec_step) (jfield m ''skeleton'')) (\<lambda>s.
     Option.bind (dec_slice (dec_struct dec_exit) (jfield m ''exits'')) (\<lambda>e.
     Option.bind (dec_slice (dec_struct dec_constraint) (jfield m ''constraints'')) (\<lambda>c.
     Option.bind (dec_slice (dec_struct dec_collapse_rule) (jfield m ''collapse_rules'')) (\<lambda>cr.
     Option.bind (dec_slice (dec_struct dec_criterion) (jfield m ''default_acceptance_criteria'')) (\<lambda>a.
     Option.bind (dec_thresholds (jfield m ''feasibility_thresholds'')) (\<lambda>th.
     Option.bind (json_map (jfield m ''budget_profile'')) (\<lambda>b.
     Option.bind (dec_string (jfield m ''autonomy_default'')) (\<lambda>ad.
     Option.bind (dec_string (jfield m ''autonomy_ceiling'')) (\<lambda>ac.
     Some \<lparr>SpecVersion = v, Roles = r, Skeleton = s, Exits = e, Constraints = c, CollapseRules = cr,
           DefaultAcceptanceCriteria = a, FeasibilityThresholds = th, BudgetProfile = b,
           AutonomyDefault = ad, AutonomyCeiling = ac\<rparr>)))))))))))"

section \<open>Validation\<close>

text \<open>The slot loops of \<open>validateSkeletonSlots\<close>: the set of names seen so far is the first argument.\<close>

fun check_inputs :: "string \<Rightarrow> string set \<Rightarrow> SpecRequiredInput list \<Rightarrow> spec_error option" where
  "check_inputs stp seen [] = None"
| "check_inputs stp seen (i # is) =
     (if input_Name i = [] then Some (ErrEmptyInputName stp)
      else if input_Name i \<in> seen then Some (ErrDuplicateInput stp (input_Name i))
      else check_inputs stp (insert (input_Name i) seen) is)"

fun check_notes :: "string \<Rightarrow> string set \<Rightarrow> SpecNote list \<Rightarrow> spec_error option" where
  "check_notes stp seen [] = None"
| "check_notes stp seen (n # ns) =
     (if TrimSpace (note_Name n) = [] then Some (ErrEmptyNoteName stp)
      else if note_Name n \<in> seen then Some (ErrDuplicateNote stp (note_Name n))
      else check_notes stp (insert (note_Name n) seen) ns)"

definition validateSkeletonSlots :: "SpecV2 \<Rightarrow> spec_error option" where
  "validateSkeletonSlots spec =
     first_error (\<lambda>s. or_else (check_inputs (Step s) {} (RequiredInputsDefaults s))
                              (check_notes (Step s) {} (NotesDefaults s)))
       (Skeleton spec)"

definition validateConstraints :: "SpecV2 \<Rightarrow> bool \<Rightarrow> spec_error option" where
  "validateConstraints spec skipExitCheck =
     first_error (\<lambda>c.
       if con_Kind c \<notin> set knownConstraintKinds then Some (ErrUnknownConstraintKind (con_Kind c))
       else if skipExitCheck \<or> ExitAtOrBeyond (con_When c) = [] then None
       else if ExitIndex spec (ExitAtOrBeyond (con_When c)) = -1
       then Some (ErrConstraintExit (con_Kind c) (ExitAtOrBeyond (con_When c)))
       else None)
     (Constraints spec)"

definition validateAutonomyFields :: "SpecV2 \<Rightarrow> spec_error option" where
  "validateAutonomyFields spec =
     (let def = TrimSpace (AutonomyDefault spec); ceil = TrimSpace (AutonomyCeiling spec) in
      or_else (if def \<noteq> [] then (case Normalize def of Inl e \<Rightarrow> Some (ErrAutonomyDefault e) | Inr _ \<Rightarrow> None) else None)
      (or_else (if ceil \<noteq> [] then (case Normalize ceil of Inl e \<Rightarrow> Some (ErrAutonomyCeiling e) | Inr _ \<Rightarrow> None) else None)
      (fail_if (def \<noteq> [] \<and> ceil \<noteq> [] \<and> Rank def > Rank ceil) (ErrAutonomyExceeds def ceil))))"

definition knownAcceptanceVerificationMethods :: "string list" where
  "knownAcceptanceVerificationMethods =
     [''automated_test'', ''human_judgment'', ''adversarial_review'', ''review_gate'']"

definition knownAcceptanceSeverities :: "string list" where
  "knownAcceptanceSeverities = [''blocking'', ''non_blocking'']"

definition check_criterion :: "SpecV2 \<Rightarrow> nat \<times> SpecAcceptanceCriterion \<Rightarrow> spec_error option" where
  "check_criterion spec = (\<lambda>(i, c).
     let method = TrimSpace (crit_VerificationMethod c);
         severity = TrimSpace (crit_Severity c);
         ex = TrimSpace (AppliesFromExit c)
     in or_else (fail_if (method \<noteq> [] \<and> method \<notin> set knownAcceptanceVerificationMethods) (ErrCriterionMethod i method))
        (or_else (fail_if (severity \<noteq> [] \<and> severity \<notin> set knownAcceptanceSeverities) (ErrCriterionSeverity i severity))
        (fail_if (ex \<noteq> [] \<and> ExitIndex spec ex = -1) (ErrCriterionExit i ex))))"

definition validateAcceptanceCriteria :: "SpecV2 \<Rightarrow> spec_error option" where
  "validateAcceptanceCriteria spec =
     first_error (check_criterion spec) (enumerate 0 (DefaultAcceptanceCriteria spec))"

section \<open>Normalisation of older shapes\<close>

definition requiredInputsFromStrings :: "string list \<Rightarrow> SpecRequiredInput list" where
  "requiredInputsFromStrings names =
     map (\<lambda>n. \<lparr>input_Name = TrimSpace n, input_Kind = [], input_Required = Some True\<rparr>) names"

definition sanitizePreV3Spec :: "SpecV2 \<Rightarrow> SpecV2" where
  "sanitizePreV3Spec spec =
     spec\<lparr>Skeleton := map (\<lambda>stp. stp\<lparr>NotesDefaults := [],
       RequiredInputsDefaults :=
         requiredInputsFromStrings (filter (\<lambda>n. n \<noteq> []) (map input_Name (RequiredInputsDefaults stp)))\<rparr>)
       (Skeleton spec)\<rparr>"

definition sortedPair :: "string \<Rightarrow> string \<Rightarrow> string list" where
  "sortedPair a b = (if a \<le> b then [a, b] else [b, a])"

definition collapsePairKey :: "string \<Rightarrow> string \<Rightarrow> string" where
  "collapsePairKey a b = (let pair = sortedPair a b in pair ! 0 @ [CHR 0x00] @ pair ! 1)"

fun v1_collapse_rules :: "string \<Rightarrow> string list \<Rightarrow> string list \<Rightarrow> SpecCollapseRule list \<times> string list" where
  "v1_collapse_rules key [] seen = ([], seen)"
| "v1_collapse_rules key (other # others) seen =
     (if collapsePairKey key other \<in> set seen then v1_collapse_rules key others seen
      else let (rules, seen') = v1_collapse_rules key others (collapsePairKey key other # seen)
           in (\<lparr>rule_Roles = sortedPair key other\<rparr> # rules, seen'))"

text \<open>The loop over the legacy roles: the roles, their independence constraints and their collapse
  rules, with the pairs seen so far.\<close>

fun v1_roles :: "gval list \<Rightarrow> string list \<Rightarrow> SpecRole list \<times> SpecConstraint list \<times> SpecCollapseRule list" where
  "v1_roles [] seen = ([], [], [])"
| "v1_roles (roleAny # rest) seen =
     (case as_map roleAny of
        None \<Rightarrow> v1_roles rest seen
      | Some roleMap \<Rightarrow>
          let key = asString (gget roleMap ''key'');
              r = \<lparr>srole_Key = key, srole_Title = asString (gget roleMap ''title''),
                   srole_RequiredCapabilities = toStringSlice (gget roleMap ''required_capabilities'')\<rparr>;
              cs = map (\<lambda>other. \<lparr>con_Kind = ''role_independence'', con_Roles = [key, other], con_Step = [],
                                  con_Target = [], con_When = \<lparr>ExitAtOrBeyond = []\<rparr>\<rparr>)
                     (toStringSlice (gget roleMap ''independent_from''));
              (rules, seen') = v1_collapse_rules key (toStringSlice (gget roleMap ''collapsible_with'')) seen;
              (rs, cs', rules') = v1_roles rest seen'
          in (r # rs, cs @ cs', rules @ rules'))"

definition v1_step :: "gmap \<Rightarrow> SpecSkeletonStep" where
  "v1_step stepMap =
     \<lparr>Step = asString (gget stepMap ''step''),
      step_Role = asString (gget stepMap ''role''),
      step_Title = asString (gget stepMap ''title''),
      DependsOn = toStringSlice (gget stepMap ''depends_on''),
      ProducesDefaults =
        map (\<lambda>m. \<lparr>produce_Name = asString (gget m ''name''), produce_Kind = asString (gget m ''kind'')\<rparr>)
          (List.map_filter as_map (toAnySlice (gget stepMap ''produces_defaults''))),
      RequiredInputsDefaults =
        requiredInputsFromStrings (toStringSlice (gget stepMap ''required_inputs_defaults'')),
      NotesDefaults = []\<rparr>"

definition v1_release_gate :: "gmap \<Rightarrow> SpecSkeletonStep list \<Rightarrow> SpecConstraint list" where
  "v1_release_gate raw skeleton =
     (case as_map (gget raw ''risk_policy'') of
        None \<Rightarrow> []
      | Some riskPolicy \<Rightarrow>
          if as_bool (gget riskPolicy ''release_requires_human'') = Some True
             \<and> list_ex (\<lambda>s. Step s = ''release'') skeleton
          then [\<lparr>con_Kind = ''human_gate'', con_Roles = [], con_Step = [], con_Target = ''release'',
                 con_When = \<lparr>ExitAtOrBeyond = []\<rparr>\<rparr>]
          else [])"

definition v1_thresholds :: "gmap \<Rightarrow> (string \<times> rat) list" where
  "v1_thresholds raw =
     (case as_map (gget raw ''feasibility_thresholds'') of
        None \<Rightarrow> []
      | Some m \<Rightarrow> List.map_filter (\<lambda>(k, v). case v of GNum q _ \<Rightarrow> Some (k, q) | _ \<Rightarrow> None) m)"

definition v1_spec :: "gmap \<Rightarrow> SpecV2" where
  "v1_spec raw =
     (let (roles, cs, rules) = v1_roles (toAnySlice (gget raw ''roles'')) [];
          skeleton = map v1_step (List.map_filter as_map (toAnySlice (gget raw ''skeleton'')));
          criteria = map (\<lambda>s. \<lparr>crit_Statement = s, AppliesFromExit = [], crit_VerificationMethod = [], crit_Severity = []\<rparr>)
                       (List.map_filter as_str (toAnySlice (gget raw ''default_acceptance_criteria'')))
      in zero_spec\<lparr>Roles := roles, Skeleton := skeleton, Constraints := cs @ v1_release_gate raw skeleton,
                   CollapseRules := rules, DefaultAcceptanceCriteria := criteria,
                   FeasibilityThresholds := v1_thresholds raw\<rparr>)"

definition normalizeV1 :: "gmap \<Rightarrow> spec_error + SpecV2" where
  "normalizeV1 raw =
     (let spec = v1_spec raw in
      case or_else (validateConstraints spec True) (validateSkeletonSlots spec) of
        Some e \<Rightarrow> Inl e
      | None \<Rightarrow> Inr spec)"

definition ParseSpec :: "gmap \<Rightarrow> spec_error + SpecV2" where
  "ParseSpec raw =
     (if specVersion raw < 2 then normalizeV1 raw
      else case dec_spec raw of
        None \<Rightarrow> Inl ErrUnmarshalSpec
      | Some decoded \<Rightarrow>
          let spec = (if specVersion raw < 3 then sanitizePreV3Spec decoded else decoded) in
          case or_else (validateSkeletonSlots spec)
               (or_else (validateConstraints spec False)
               (or_else (validateAutonomyFields spec) (validateAcceptanceCriteria spec))) of
            Some e \<Rightarrow> Inl e
          | None \<Rightarrow> Inr spec)"

section \<open>What validation guarantees\<close>

definition slots_wellformed :: "SpecSkeletonStep \<Rightarrow> bool" where
  "slots_wellformed s \<longleftrightarrow>
     (\<forall>i \<in> set (RequiredInputsDefaults s). input_Name i \<noteq> []) \<and>
     distinct (map input_Name (RequiredInputsDefaults s)) \<and>
     (\<forall>n \<in> set (NotesDefaults s). \<not> blank (note_Name n)) \<and>
     distinct (map note_Name (NotesDefaults s))"

definition declared_exit :: "SpecV2 \<Rightarrow> string \<Rightarrow> bool" where
  "declared_exit spec d \<longleftrightarrow> d \<in> exit_Deliverable ` set (Exits spec)"

definition constraint_wellformed :: "SpecV2 \<Rightarrow> SpecConstraint \<Rightarrow> bool" where
  "constraint_wellformed spec c \<longleftrightarrow>
     con_Kind c \<in> {''role_independence'', ''stage_required'', ''human_gate''} \<and>
     (ExitAtOrBeyond (con_When c) = [] \<or> declared_exit spec (ExitAtOrBeyond (con_When c)))"

definition autonomy_wellformed :: "SpecV2 \<Rightarrow> bool" where
  "autonomy_wellformed spec \<longleftrightarrow>
     (blank (AutonomyDefault spec) \<or> Rank (AutonomyDefault spec) \<ge> 0) \<and>
     (blank (AutonomyCeiling spec) \<or> Rank (AutonomyCeiling spec) \<ge> 0) \<and>
     (blank (AutonomyDefault spec) \<or> blank (AutonomyCeiling spec) \<or>
      Rank (AutonomyDefault spec) \<le> Rank (AutonomyCeiling spec))"

definition criterion_wellformed :: "SpecV2 \<Rightarrow> SpecAcceptanceCriterion \<Rightarrow> bool" where
  "criterion_wellformed spec c \<longleftrightarrow>
     TrimSpace (crit_VerificationMethod c) \<in>
       {[], ''automated_test'', ''human_judgment'', ''adversarial_review'', ''review_gate''} \<and>
     TrimSpace (crit_Severity c) \<in> {[], ''blocking'', ''non_blocking''} \<and>
     (blank (AppliesFromExit c) \<or> declared_exit spec (TrimSpace (AppliesFromExit c)))"

definition spec_wellformed :: "SpecV2 \<Rightarrow> bool" where
  "spec_wellformed spec \<longleftrightarrow>
     (\<forall>s \<in> set (Skeleton spec). slots_wellformed s) \<and>
     (\<forall>c \<in> set (Constraints spec). constraint_wellformed spec c) \<and>
     autonomy_wellformed spec \<and>
     (\<forall>c \<in> set (DefaultAcceptanceCriteria spec). criterion_wellformed spec c)"

lemma exit_index_from_absent:
  "0 \<le> i \<Longrightarrow> exit_index_from i es d = -1 \<longleftrightarrow> d \<notin> exit_Deliverable ` set es"
  by (induction es arbitrary: i) auto

lemma exit_index_from_nth:
  "exit_index_from i es d = j \<Longrightarrow> j \<noteq> -1 \<Longrightarrow>
     i \<le> j \<and> j < i + int (length es) \<and> exit_Deliverable (es ! nat (j - i)) = d"
proof (induction es arbitrary: i)
  case (Cons e es)
  show ?case
  proof (cases "exit_Deliverable e = d")
    case False
    with Cons.prems have "exit_index_from (i + 1) es d = j" by simp
    from Cons.IH [OF this Cons.prems(2)]
    have IH: "i + 1 \<le> j" "j < i + 1 + int (length es)" "exit_Deliverable (es ! nat (j - (i + 1))) = d"
      by auto
    from IH(1) have "nat (j - i) = Suc (nat (j - (i + 1)))" by simp
    with IH show ?thesis by simp
  qed (use Cons.prems in auto)
qed simp

lemma ExitIndex_absent: "ExitIndex spec d = -1 \<longleftrightarrow> \<not> declared_exit spec d"
  by (simp add: ExitIndex_def declared_exit_def exit_index_from_absent)

lemma ExitIndex_ge: "ExitIndex spec d \<ge> -1"
  using exit_index_from_nth [of 0 "Exits spec" d "ExitIndex spec d"]
  by (cases "ExitIndex spec d = -1") (auto simp: ExitIndex_def)

lemma ExitIndex_neg: "ExitIndex spec d < 0 \<longleftrightarrow> \<not> declared_exit spec d"
  using ExitIndex_ge [of spec d] ExitIndex_absent [of spec d] by linarith

lemma check_inputs_None:
  "check_inputs stp seen is = None \<longleftrightarrow>
     (\<forall>i \<in> set is. input_Name i \<noteq> [] \<and> input_Name i \<notin> seen) \<and> distinct (map input_Name is)"
  by (induction stp seen "is" rule: check_inputs.induct) (auto simp: image_iff)

lemma check_notes_None:
  "check_notes stp seen ns = None \<longleftrightarrow>
     (\<forall>n \<in> set ns. \<not> blank (note_Name n) \<and> note_Name n \<notin> seen) \<and> distinct (map note_Name ns)"
  by (induction stp seen ns rule: check_notes.induct) (auto simp: blank_def image_iff)

lemma validateSkeletonSlots_None:
  "validateSkeletonSlots spec = None \<longleftrightarrow> (\<forall>s \<in> set (Skeleton spec). slots_wellformed s)"
  by (auto simp: validateSkeletonSlots_def first_error_None check_inputs_None check_notes_None
      slots_wellformed_def)

lemma validateConstraints_None:
  "validateConstraints spec False = None \<longleftrightarrow> (\<forall>c \<in> set (Constraints spec). constraint_wellformed spec c)"
  unfolding validateConstraints_def first_error_None
  by (intro ball_cong refl)
    (simp add: constraint_wellformed_def knownConstraintKinds_def ExitIndex_absent)

lemma validateAutonomyFields_None: "validateAutonomyFields spec = None \<longleftrightarrow> autonomy_wellformed spec"
  by (auto simp: validateAutonomyFields_def autonomy_wellformed_def Let_def Normalize_def blank_def
      split: if_splits)

lemma check_criterion_None: "check_criterion spec (i, c) = None \<longleftrightarrow> criterion_wellformed spec c"
  by (auto simp: check_criterion_def criterion_wellformed_def Let_def blank_def ExitIndex_absent
      knownAcceptanceVerificationMethods_def knownAcceptanceSeverities_def)

lemma validateAcceptanceCriteria_None:
  "validateAcceptanceCriteria spec = None \<longleftrightarrow>
     (\<forall>c \<in> set (DefaultAcceptanceCriteria spec). criterion_wellformed spec c)"
proof -
  have "snd ` set (enumerate 0 cs) = set cs" for cs :: "SpecAcceptanceCriterion list"
    by (metis list.set_map map_snd_enumerate)
  then show ?thesis
    unfolding validateAcceptanceCriteria_def first_error_None
    by (metis (no_types, lifting) check_criterion_None image_iff prod.collapse)
qed

lemmas validators_None = validateSkeletonSlots_None validateConstraints_None
  validateAutonomyFields_None validateAcceptanceCriteria_None

text \<open>The legacy shape carries no exits, no autonomy fields and no criterion options, so its weaker
  validation gives the same guarantee.\<close>

lemma v1_roles_constraints:
  "\<forall>c \<in> set (fst (snd (v1_roles vs seen))). con_Kind c = ''role_independence'' \<and> ExitAtOrBeyond (con_When c) = []"
  by (induction vs seen rule: v1_roles.induct) (auto simp: Let_def split: option.splits prod.splits)

lemma v1_spec_fields:
  "AutonomyDefault (v1_spec raw) = []" "AutonomyCeiling (v1_spec raw) = []" "Exits (v1_spec raw) = []"
  by (auto simp: v1_spec_def zero_spec_def Let_def split: prod.splits)

lemma v1_spec_constraints: "\<forall>c \<in> set (Constraints (v1_spec raw)). constraint_wellformed spec c"
  using v1_roles_constraints [of "toAnySlice (gget raw ''roles'')" "[]"]
  by (auto simp: v1_spec_def zero_spec_def Let_def v1_release_gate_def constraint_wellformed_def
      split: prod.splits option.splits if_splits)

lemma v1_spec_criteria: "\<forall>c \<in> set (DefaultAcceptanceCriteria (v1_spec raw)). criterion_wellformed spec c"
  by (auto simp: v1_spec_def zero_spec_def Let_def criterion_wellformed_def split: prod.splits)

lemma validateConstraints_v1: "validateConstraints (v1_spec raw) True = None"
  using v1_spec_constraints [of raw "v1_spec raw"]
  by (auto simp: validateConstraints_def first_error_None knownConstraintKinds_def constraint_wellformed_def)

lemma normalizeV1_Inr: "normalizeV1 raw = Inr spec \<longleftrightarrow> spec = v1_spec raw \<and> spec_wellformed spec"
proof -
  have "spec_wellformed (v1_spec raw) \<longleftrightarrow> validateSkeletonSlots (v1_spec raw) = None"
    using v1_spec_constraints [of raw "v1_spec raw"] v1_spec_criteria [of raw "v1_spec raw"]
    by (simp add: spec_wellformed_def validators_None autonomy_wellformed_def v1_spec_fields)
  then show ?thesis
    by (auto simp: normalizeV1_def Let_def validateConstraints_v1 split: option.splits)
qed


section \<open>The version guard\<close>

text \<open>Documents as they come from the wire: only the shapes that \<^verbatim>\<open>encoding/json\<close> decodes to, and
  field names spelt as documented.\<close>

fun decoded_json :: "gval \<Rightarrow> bool" where
  "decoded_json (GList vs) \<longleftrightarrow> list_all decoded_json vs"
| "decoded_json (GMap m) \<longleftrightarrow> list_all (\<lambda>(_, v). decoded_json v) m"
| "decoded_json (GStrs _) \<longleftrightarrow> False"
| "decoded_json (GSMap _) \<longleftrightarrow> False"
| "decoded_json (GMaps _) \<longleftrightarrow> False"
| "decoded_json _ \<longleftrightarrow> True"

definition exact_key :: "string \<Rightarrow> gmap \<Rightarrow> bool" where
  "exact_key k m \<longleftrightarrow> list_all (\<lambda>(k', _). EqualFold k' k \<longrightarrow> k' = k) m"

definition plain_steps :: "gmap \<Rightarrow> bool" where
  "plain_steps raw \<longleftrightarrow>
     decoded_json (GMap raw) \<and> exact_key ''skeleton'' raw \<and>
     list_all (\<lambda>s. case s of GMap m \<Rightarrow>
       exact_key ''notes_defaults'' m \<and> exact_key ''required_inputs_defaults'' m | _ \<Rightarrow> True)
     (toAnySlice (gget raw ''skeleton''))"

lemma jfield_exact: "exact_key k m \<Longrightarrow> jfield m k = gget m k"
  by (induction m) (auto simp: jfield_def gget_def exact_key_def)

lemma decoded_gget: "decoded_json (GMap m) \<Longrightarrow> decoded_json (gget m k)"
  by (induction m) (auto simp: gget_def)

lemma decoded_json_list:
  assumes "decoded_json v" "json_list v = Some vs"
  shows "vs = toAnySlice v \<and> list_all decoded_json vs"
  using assms by (cases v) (auto simp: toAnySlice_def)

definition plain_input :: "SpecRequiredInput \<Rightarrow> bool" where
  "plain_input i \<longleftrightarrow> i = \<lparr>input_Name = TrimSpace (input_Name i), input_Kind = [], input_Required = Some True\<rparr>"

lemma UnmarshalJSON_plain:
  assumes "UnmarshalJSON v = Some i" "decoded_json v" "as_map v = None"
  shows "plain_input i"
  using assms by (cases v) (auto simp: UnmarshalJSON_def plain_input_def dec_struct_def)

lemma dec_step_plain:
  assumes "dec_step m = Some s" "decoded_json (GMap m)"
    and "exact_key ''notes_defaults'' m" "exact_key ''required_inputs_defaults'' m"
    and "\<not> step_has_notes (GMap m)" "\<not> step_has_object_input (GMap m)"
  shows "NotesDefaults s = [] \<and> (\<forall>i \<in> set (RequiredInputsDefaults s). plain_input i)"
proof -
  let ?n = "gget m ''notes_defaults''" and ?r = "gget m ''required_inputs_defaults''"
  from assms(1) jfield_exact [OF assms(3)] jfield_exact [OF assms(4)]
  have n: "dec_slice (dec_struct dec_note) ?n = Some (NotesDefaults s)"
    and r: "dec_slice UnmarshalJSON ?r = Some (RequiredInputsDefaults s)"
    by (auto simp: dec_step_def bind_eq_Some_conv)
  from n obtain ns where ns: "json_list ?n = Some ns" "those (map (dec_struct dec_note) ns) = Some (NotesDefaults s)"
    by (auto simp: dec_slice_def split: option.splits)
  from r obtain rs where rs: "json_list ?r = Some rs" "those (map UnmarshalJSON rs) = Some (RequiredInputsDefaults s)"
    by (auto simp: dec_slice_def split: option.splits)
  from ns assms(5) decoded_json_list [OF decoded_gget [OF assms(2)] ns(1)]
  have "NotesDefaults s = []" by (auto simp: step_has_notes_def)
  moreover have "\<forall>i \<in> set (RequiredInputsDefaults s). plain_input i"
  proof (rule those_map_Some_all [OF rs(2)])
    fix v y assume v: "v \<in> set rs" "UnmarshalJSON v = Some y"
    from decoded_json_list [OF decoded_gget [OF assms(2)] rs(1)] v assms(6)
    show "plain_input y"
      by (intro UnmarshalJSON_plain [of v]) (auto simp: step_has_object_input_def list_ex_iff list_all_iff)
  qed
  ultimately show ?thesis ..
qed

definition drop_blank_inputs :: "SpecSkeletonStep \<Rightarrow> SpecSkeletonStep" where
  "drop_blank_inputs s =
     s\<lparr>RequiredInputsDefaults := filter (\<lambda>i. input_Name i \<noteq> []) (RequiredInputsDefaults s)\<rparr>"

lemma sanitize_inputs:
  "\<forall>i \<in> set is. plain_input i \<Longrightarrow>
    requiredInputsFromStrings (filter (\<lambda>n. n \<noteq> []) (map input_Name is)) = filter (\<lambda>i. input_Name i \<noteq> []) is"
  by (induction "is") (auto simp: requiredInputsFromStrings_def plain_input_def)

lemma dec_struct_empty:
  "dec_struct f v = Some y \<Longrightarrow> decoded_json v \<Longrightarrow> (v = GNil \<and> f [] = Some y) \<or> (\<exists>m. v = GMap m \<and> f m = Some y)"
  by (cases v) (auto simp: dec_struct_def)

text \<open>
  The write-time guard makes the read-time clean-up harmless. A document below version 3
  that the guard \<open>MissingSpecVersionForV3Shape\<close> lets through loses nothing when
  \<open>sanitizePreV3Spec\<close> is applied to its decoding, except required inputs with an empty name, which
  cannot name a slot.
\<close>

theorem version_guard_prevents_silent_loss:
  assumes "\<not> fst (MissingSpecVersionForV3Shape raw)" "specVersion raw < 3"
    and "plain_steps raw" "dec_spec raw = Some spec"
  shows "sanitizePreV3Spec spec = spec\<lparr>Skeleton := map drop_blank_inputs (Skeleton spec)\<rparr>"
proof -
  have ex: "exact_key ''skeleton'' raw" "decoded_json (GMap raw)" using assms(3) by (auto simp: plain_steps_def)
  let ?v = "gget raw ''skeleton''"
  from assms(4) jfield_exact [OF ex(1)] have "dec_slice (dec_struct dec_step) ?v = Some (Skeleton spec)"
    by (auto simp: dec_spec_def bind_eq_Some_conv)
  then obtain vs where vs: "json_list ?v = Some vs" "those (map (dec_struct dec_step) vs) = Some (Skeleton spec)"
    by (auto simp: dec_slice_def split: option.splits)
  from decoded_json_list [OF decoded_gget [OF ex(2)] vs(1)]
  have vs_eq: "vs = toAnySlice ?v" and dec: "list_all decoded_json vs" by auto
  have none: "\<not> step_has_notes v" "\<not> step_has_object_input v" if "v \<in> set vs" for v
    using assms(1,2) that by (auto simp: MissingSpecVersionForV3Shape_def Let_def vs_eq list_ex_iff split: if_splits)
  have "\<forall>s \<in> set (Skeleton spec). NotesDefaults s = [] \<and> (\<forall>i \<in> set (RequiredInputsDefaults s). plain_input i)"
  proof (rule those_map_Some_all [OF vs(2)])
    fix v s assume v: "v \<in> set vs" "dec_struct dec_step v = Some s"
    from dec v(1) have dv: "decoded_json v" by (simp add: list_all_iff)
    from dec_struct_empty [OF v(2) dv]
    show "NotesDefaults s = [] \<and> (\<forall>i \<in> set (RequiredInputsDefaults s). plain_input i)"
    proof (elim disjE exE conjE)
      assume "dec_step [] = Some s"
      then show ?thesis by (rule dec_step_plain) (auto simp: exact_key_def step_has_notes_def step_has_object_input_def
        gget_def toAnySlice_def)
    next
      fix m assume m: "v = GMap m" "dec_step m = Some s"
      have "exact_key ''notes_defaults'' m" "exact_key ''required_inputs_defaults'' m"
        using assms(3) v(1) m(1) by (auto simp: plain_steps_def list_all_iff vs_eq)
      with m dv none [OF v(1)] show ?thesis by (intro dec_step_plain [of m s]) auto
    qed
  qed
  then have "\<forall>s \<in> set (Skeleton spec).
      s\<lparr>NotesDefaults := [], RequiredInputsDefaults :=
          requiredInputsFromStrings (filter (\<lambda>n. n \<noteq> []) (map input_Name (RequiredInputsDefaults s)))\<rparr>
      = drop_blank_inputs s"
    by (auto simp: drop_blank_inputs_def sanitize_inputs)
  then show ?thesis by (simp add: sanitizePreV3Spec_def)
qed

definition example_v2_document :: gmap where
  "example_v2_document =
     [(''spec_version'', GNum 2 ''2''),
      (''skeleton'', GList [GMap [(''step'', GStr ''build''), (''role'', GStr ''dev''),
         (''required_inputs_defaults'', GList [GStr ''brief'', GStr []])]])]"

definition example_v2_spec :: SpecV2 where
  "example_v2_spec =
     zero_spec\<lparr>SpecVersion := 2, Skeleton :=
       [\<lparr>Step = ''build'', step_Role = ''dev'', step_Title = [], DependsOn = [], ProducesDefaults = [],
         RequiredInputsDefaults =
           [\<lparr>input_Name = ''brief'', input_Kind = [], input_Required = Some True\<rparr>,
            \<lparr>input_Name = [], input_Kind = [], input_Required = Some True\<rparr>],
         NotesDefaults = []\<rparr>]\<rparr>"

lemma example_v2_decodes: "dec_spec example_v2_document = Some example_v2_spec"
  by code_simp

theorem version_guard_prevents_silent_loss_witness:
  "map (map input_Name \<circ> RequiredInputsDefaults) (Skeleton (sanitizePreV3Spec example_v2_spec)) = [[''brief'']]"
proof -
  have "sanitizePreV3Spec example_v2_spec =
      example_v2_spec\<lparr>Skeleton := map drop_blank_inputs (Skeleton example_v2_spec)\<rparr>"
    by (rule version_guard_prevents_silent_loss [OF _ _ _ example_v2_decodes]) (code_simp+)
  then show ?thesis by (simp add: example_v2_spec_def drop_blank_inputs_def zero_spec_def)
qed

end
