(* ===== verification/Scenario_Exits.thy ===== *)
theory Scenario_Exits
  imports Scenario_Spec
begin

text \<open>
  Exits of a scenario template: \<^verbatim>\<open>scenariotemplate/exit_prune.go\<close>, \<^verbatim>\<open>exit_autonomy_preview.go\<close>
  and the role projection of \<^verbatim>\<open>role_view.go\<close>. Selecting an exit prunes the skeleton to the steps
  that the exit's producer needs; conditions "at or beyond an exit" follow the declared order.
\<close>

section \<open>Pruning the skeleton\<close>

text \<open>The map \<^verbatim>\<open>byStep\<close>: a later step with the same name replaces an earlier one.\<close>

definition byStep :: "SpecSkeletonStep list \<Rightarrow> string \<Rightarrow> SpecSkeletonStep option" where
  "byStep skel n = find (\<lambda>s. Step s = n) (rev skel)"

lemma byStep_Some: "byStep skel n = Some s \<Longrightarrow> s \<in> set skel \<and> Step s = n"
  by (auto simp: byStep_def find_Some_iff) (metis nth_mem length_rev set_rev)

lemma byStep_None: "byStep skel n = None \<longleftrightarrow> n \<notin> Step ` set skel"
  by (auto simp: byStep_def find_None_iff)

text \<open>
  The closure \<^verbatim>\<open>visit\<close>, with its call stack made explicit: \<open>deps\<close> are the dependencies still to be
  looked at, in order, and \<open>included\<close> the names marked so far. A call that finds its step marked
  returns at once; otherwise it marks the step and visits the step's own dependencies before the
  rest.
\<close>

function visit :: "SpecSkeletonStep list \<Rightarrow> string list \<Rightarrow> string list \<Rightarrow> string list" where
  "visit skel [] included = included"
| "visit skel (dep # deps) included =
     (case byStep skel dep of
        None \<Rightarrow> visit skel deps included
      | Some d \<Rightarrow>
          if Step d \<in> set included then visit skel deps included
          else visit skel (DependsOn d @ deps) (Step d # included))"
  by pat_completeness auto
termination
proof (relation "measures [\<lambda>(skel, deps, inc). card (Step ` set skel - set inc), \<lambda>(skel, deps, inc). length deps]",
    goal_cases)
  case (4 skel dep deps included d)
  then have "Step d \<in> Step ` set skel - set included" by (auto dest: byStep_Some)
  then have "Step ` set skel - set (Step d # included) \<subset> Step ` set skel - set included" by auto
  then have "card (Step ` set skel - set (Step d # included)) < card (Step ` set skel - set included)"
    by (intro psubset_card_mono) auto
  then show ?case by simp
qed auto

definition PruneSkeletonForExit :: "SpecV2 \<Rightarrow> string \<Rightarrow> spec_error + SpecSkeletonStep list" where
  "PruneSkeletonForExit spec exitDeliverable =
     (if ExitIndex spec exitDeliverable < 0 then Inl (ErrNotDeclaredExit exitDeliverable)
      else case StepByProduce spec exitDeliverable of
        None \<Rightarrow> Inl (ErrNoStepProduces exitDeliverable)
      | Some target \<Rightarrow>
          let included = visit (Skeleton spec) (DependsOn target) [Step target]
          in Inr (filter (\<lambda>s. Step s \<in> set included) (Skeleton spec)))"

text \<open>The declarative reading: one step needs another when it lists it and it exists.\<close>

definition needs :: "SpecSkeletonStep list \<Rightarrow> string \<Rightarrow> string \<Rightarrow> bool" where
  "needs skel a b \<longleftrightarrow> (\<exists>s \<in> set skel. Step s = a \<and> b \<in> set (DependsOn s)) \<and> b \<in> Step ` set skel"

lemma byStep_distinct:
  assumes "distinct (map Step skel)" "s \<in> set skel"
  shows "byStep skel (Step s) = Some s"
proof -
  from assms obtain t where t: "byStep skel (Step s) = Some t"
    using byStep_None [of skel "Step s"] by (cases "byStep skel (Step s)") auto
  with byStep_Some [OF t] assms show ?thesis by (auto simp: distinct_map dest: inj_onD)
qed

lemma visit_mono: "set included \<subseteq> set (visit skel deps included)"
  by (induction skel deps included rule: visit.induct) (auto split: option.splits)

lemma visit_sound:
  "\<lbrakk>\<And>n. n \<in> set included \<Longrightarrow> R n; \<And>d. d \<in> set deps \<Longrightarrow> d \<in> Step ` set skel \<Longrightarrow> R d;
    \<And>s b. s \<in> set skel \<Longrightarrow> R (Step s) \<Longrightarrow> b \<in> set (DependsOn s) \<Longrightarrow> b \<in> Step ` set skel \<Longrightarrow> R b\<rbrakk>
   \<Longrightarrow> n \<in> set (visit skel deps included) \<Longrightarrow> R n"
proof (induction skel deps included rule: visit.induct)
  case (2 skel dep deps included)
  show ?case
  proof (cases "byStep skel dep")
    case None
    with 2 show ?thesis by auto
  next
    case (Some d)
    then have d: "d \<in> set skel" "Step d = dep" by (auto dest: byStep_Some)
    then have Rd: "R (Step d)" by (intro "2.prems"(2)) auto
    show ?thesis
    proof (cases "Step d \<in> set included")
      case True
      show ?thesis by (rule "2.IH"(2) [OF Some True]) (use Some True "2.prems" in auto)
    next
      case False
      show ?thesis
      proof (rule "2.IH"(3) [OF Some False])
        show "R b" if "b \<in> set (DependsOn d @ deps)" "b \<in> Step ` set skel" for b
          using that "2.prems"(2,3) d(1) Rd by auto
      qed (use Some False Rd "2.prems" in auto)
    qed
  qed
qed auto

text \<open>Every marked name except those given at the start has had its dependencies marked.\<close>

lemma visit_closed:
  assumes "distinct (map Step skel)"
    and "\<And>s b. s \<in> set skel \<Longrightarrow> Step s \<in> set included \<Longrightarrow> b \<in> set (DependsOn s) \<Longrightarrow>
           b \<in> Step ` set skel \<Longrightarrow> b \<in> set included \<union> set deps"
    and "s \<in> set skel" "Step s \<in> set (visit skel deps included)" "b \<in> set (DependsOn s)" "b \<in> Step ` set skel"
  shows "b \<in> set (visit skel deps included)"
  using assms
proof (induction skel deps included rule: visit.induct)
  case (2 skel dep deps included)
  show ?case
  proof (cases "byStep skel dep")
    case None
    then have "dep \<notin> Step ` set skel" by (simp add: byStep_None)
    have "b \<in> set (visit skel deps included)"
    proof (rule "2.IH"(1) [OF None "2.prems"(1) _ "2.prems"(3) _ "2.prems"(5,6)])
      show "Step s \<in> set (visit skel deps included)" using "2.prems"(4) None by simp
      show "b' \<in> set included \<union> set deps"
        if "s' \<in> set skel" "Step s' \<in> set included" "b' \<in> set (DependsOn s')" "b' \<in> Step ` set skel" for s' b'
        using "2.prems"(2) [OF that] that(4) \<open>dep \<notin> Step ` set skel\<close> by auto
    qed
    with None show ?thesis by simp
  next
    case (Some d)
    then have d: "d \<in> set skel" "Step d = dep" by (auto dest: byStep_Some)
    show ?thesis
    proof (cases "Step d \<in> set included")
      case True
      have "b \<in> set (visit skel deps included)"
      proof (rule "2.IH"(2) [OF Some True "2.prems"(1) _ "2.prems"(3) _ "2.prems"(5,6)])
        show "Step s \<in> set (visit skel deps included)" using "2.prems"(4) Some True by simp
        show "b' \<in> set included \<union> set deps"
          if "s' \<in> set skel" "Step s' \<in> set included" "b' \<in> set (DependsOn s')" "b' \<in> Step ` set skel" for s' b'
          using "2.prems"(2) [OF that] True d(2) by auto
      qed
      with Some True show ?thesis by simp
    next
      case False
      have "b \<in> set (visit skel (DependsOn d @ deps) (Step d # included))"
      proof (rule "2.IH"(3) [OF Some False "2.prems"(1) _ "2.prems"(3) _ "2.prems"(5,6)])
        show "Step s \<in> set (visit skel (DependsOn d @ deps) (Step d # included))"
          using "2.prems"(4) Some False by simp
        show "b' \<in> set (Step d # included) \<union> set (DependsOn d @ deps)"
          if a: "s' \<in> set skel" "Step s' \<in> set (Step d # included)" "b' \<in> set (DependsOn s')" "b' \<in> Step ` set skel"
          for s' b'
        proof (cases "Step s' = Step d")
          case True
          with a(1) d(1) "2.prems"(1) have "s' = d" by (auto simp: distinct_map dest: inj_onD)
          with a(3) show ?thesis by simp
        next
          case ne: False
          with a(2) have "Step s' \<in> set included" by auto
          from "2.prems"(2) [OF a(1) this a(3,4)] d(2) show ?thesis by auto
        qed
      qed
      with Some False show ?thesis by simp
    qed
  qed
qed auto

lemma visit_covers: "d \<in> set deps \<Longrightarrow> d \<in> Step ` set skel \<Longrightarrow> d \<in> set (visit skel deps included)"
proof (induction skel deps included rule: visit.induct)
  case (2 skel dep deps included)
  show ?case
  proof (cases "byStep skel dep")
    case None
    then have "dep \<notin> Step ` set skel" by (simp add: byStep_None)
    with 2 None show ?thesis by auto
  next
    case (Some s)
    then have s: "Step s = dep" by (auto dest: byStep_Some)
    then show ?thesis
      using 2 Some visit_mono [of included skel deps]
        visit_mono [of "Step s # included" skel "DependsOn s @ deps"] by auto
  qed
qed simp

lemma visit_reachable:
  assumes dist: "distinct (map Step skel)" and t: "t \<in> set skel"
  shows "n \<in> set (visit skel (DependsOn t) [Step t]) \<longleftrightarrow> (needs skel)\<^sup>*\<^sup>* (Step t) n"
proof
  assume "n \<in> set (visit skel (DependsOn t) [Step t])"
  then show "(needs skel)\<^sup>*\<^sup>* (Step t) n"
  proof (rule visit_sound [rotated -1])
    show "(needs skel)\<^sup>*\<^sup>* (Step t) b"
      if "s \<in> set skel" "(needs skel)\<^sup>*\<^sup>* (Step t) (Step s)" "b \<in> set (DependsOn s)" "b \<in> Step ` set skel" for s b
      using that(2) by (rule rtranclp.rtrancl_into_rtrancl) (use that in \<open>auto simp: needs_def\<close>)
    show "(needs skel)\<^sup>*\<^sup>* (Step t) d" if "d \<in> set (DependsOn t)" "d \<in> Step ` set skel" for d
      by (rule r_into_rtranclp) (use that t in \<open>auto simp: needs_def\<close>)
  qed auto
next
  assume "(needs skel)\<^sup>*\<^sup>* (Step t) n"
  then show "n \<in> set (visit skel (DependsOn t) [Step t])"
  proof (induction rule: rtranclp_induct)
    case base
    show ?case using visit_mono [of "[Step t]" skel "DependsOn t"] by auto
  next
    case (step a b)
    from step.hyps(2) obtain s where s: "s \<in> set skel" "Step s = a" "b \<in> set (DependsOn s)" "b \<in> Step ` set skel"
      by (auto simp: needs_def)
    show ?case
    proof (rule visit_closed [OF dist _ s(1) _ s(3,4)])
      show "Step s \<in> set (visit skel (DependsOn t) [Step t])" using step.IH s(2) by simp
      show "b' \<in> set [Step t] \<union> set (DependsOn t)"
        if "s' \<in> set skel" "Step s' \<in> set [Step t]" "b' \<in> set (DependsOn s')" for s' b'
        using that dist t by (auto simp: distinct_map dest: inj_onD)
    qed
  qed
qed

text \<open>
  Claim C13: pruning is reachability. With distinct step names, \<open>PruneSkeletonForExit\<close> fails exactly
  for an undeclared exit or one that no step produces, and otherwise returns the steps that the
  producer of the exit depends on, directly or through other steps, together with the producer
  itself, in declared order.
\<close>

theorem prune_is_reachability:
  assumes "distinct (map Step (Skeleton spec))"
  shows "PruneSkeletonForExit spec e =
    (if \<not> declared_exit spec e then Inl (ErrNotDeclaredExit e)
     else case StepByProduce spec e of
       None \<Rightarrow> Inl (ErrNoStepProduces e)
     | Some t \<Rightarrow> Inr (filter (\<lambda>s. (needs (Skeleton spec))\<^sup>*\<^sup>* (Step t) (Step s)) (Skeleton spec)))"
proof (cases "StepByProduce spec e")
  case (Some t)
  then have t: "t \<in> set (Skeleton spec)"
    by (auto simp: StepByProduce_def find_Some_iff)
  with Some show ?thesis
    by (simp add: PruneSkeletonForExit_def ExitIndex_neg visit_reachable [OF assms t])
qed (simp add: PruneSkeletonForExit_def ExitIndex_neg)

section \<open>Conditions on the chosen exit\<close>

definition ExitCondMet :: "SpecV2 \<Rightarrow> SpecConstraintWhen \<Rightarrow> string \<Rightarrow> bool" where
  "ExitCondMet spec cond ex =
     (if TrimSpace (ExitAtOrBeyond cond) = [] then True
      else
        let target = ExitIndex spec (ExitAtOrBeyond cond); current = ExitIndex spec ex in
        if target < 0 \<or> current < 0 then True else current \<ge> target)"

record ExitAutonomyPreview =
  prev_Deliverable :: string
  prev_Label :: string
  StopsHuman :: bool
  prev_Reasons :: "string list"

definition criterionIDHint :: "SpecAcceptanceCriterion \<Rightarrow> nat \<Rightarrow> string" where
  "criterionIDHint criterion index =
     (let stmt = TrimSpace (crit_Statement criterion) in
      if stmt = [] then ''criterion_'' @ Itoa (int index)
      else if length (runes stmt) > 24 then concat (take 24 (runes stmt))
      else stmt)"

text \<open>The body of the two inner loops: the reason an entry adds, if it stops a human.\<close>

definition criterion_stop :: "SpecV2 \<Rightarrow> string \<Rightarrow> nat \<times> SpecAcceptanceCriterion \<Rightarrow> string option" where
  "criterion_stop spec deliverable = (\<lambda>(i, criterion).
     let method0 = TrimSpace (crit_VerificationMethod criterion);
         method = (if method0 = [] then ''automated_test'' else method0);
         severity0 = TrimSpace (crit_Severity criterion);
         severity = (if severity0 = [] then ''blocking'' else severity0)
     in if method \<noteq> ''human_judgment'' then None
        else if severity \<noteq> ''blocking'' then None
        else if \<not> ExitCondMet spec \<lparr>ExitAtOrBeyond = AppliesFromExit criterion\<rparr> deliverable then None
        else Some (''acceptance_criterion:'' @ criterionIDHint criterion i))"

definition gate_stop :: "SpecV2 \<Rightarrow> string \<Rightarrow> SpecConstraint \<Rightarrow> string option" where
  "gate_stop spec deliverable c =
     (if TrimSpace (con_Kind c) \<noteq> ''human_gate'' then None
      else if \<not> ExitCondMet spec (con_When c) deliverable then None
      else let target = TrimSpace (con_Target c) in
           Some (''human_gate:'' @ (if target = [] then ''human_gate'' else target)))"

definition preview_exit :: "SpecV2 \<Rightarrow> SpecExit \<Rightarrow> ExitAutonomyPreview" where
  "preview_exit spec e =
     (let reasons =
        List.map_filter (criterion_stop spec (exit_Deliverable e)) (enumerate 0 (DefaultAcceptanceCriteria spec)) @
        List.map_filter (gate_stop spec (exit_Deliverable e)) (Constraints spec)
      in \<lparr>prev_Deliverable = exit_Deliverable e, prev_Label = exit_Label e,
          StopsHuman = (reasons \<noteq> []), prev_Reasons = reasons\<rparr>)"

definition PreviewExitAutonomy :: "SpecV2 \<Rightarrow> ExitAutonomyPreview list" where
  "PreviewExitAutonomy spec = map (preview_exit spec) (Exits spec)"

definition RequiresFullAutoExitPin :: "SpecV2 \<Rightarrow> bool" where
  "RequiresFullAutoExitPin spec \<longleftrightarrow> length (Exits spec) > 1"

definition ValidatePinnedExitDeliverable :: "SpecV2 \<Rightarrow> string \<Rightarrow> spec_error option" where
  "ValidatePinnedExitDeliverable spec pinned0 =
     (let pinned = TrimSpace pinned0 in
      if pinned = [] then None
      else if ExitIndex spec pinned < 0 then Some (ErrPinnedExit pinned)
      else None)"

lemma exit_index_from_distinct:
  "distinct (map exit_Deliverable es) \<Longrightarrow> k < length es \<Longrightarrow>
    exit_index_from i es (exit_Deliverable (es ! k)) = i + int k"
  by (induction es arbitrary: i k) (auto simp: nth_Cons' split: if_splits)

lemma ExitIndex_distinct:
  "distinct (map exit_Deliverable (Exits spec)) \<Longrightarrow> k < length (Exits spec) \<Longrightarrow>
    ExitIndex spec (exit_Deliverable (Exits spec ! k)) = int k"
  by (simp add: ExitIndex_def exit_index_from_distinct)

lemma ExitCondMet_later:
  assumes "distinct (map exit_Deliverable (Exits spec))" "i \<le> j" "j < length (Exits spec)"
    and "ExitCondMet spec cond (exit_Deliverable (Exits spec ! i))"
  shows "ExitCondMet spec cond (exit_Deliverable (Exits spec ! j))"
  using assms by (auto simp: ExitCondMet_def Let_def ExitIndex_distinct)

lemma map_filter_subset:
  assumes "\<And>x y. f x = Some y \<Longrightarrow> g x = Some y"
  shows "set (List.map_filter f xs) \<subseteq> set (List.map_filter g xs)"
  using assms by (force simp: map_filter_def)

text \<open>
  Going further never removes a human stop. In a template with distinct exits, every
  reason for which the preview stops a human at one exit is also a reason at each later exit; so an
  exit that stops a human is followed only by exits that do.
\<close>

theorem later_exits_keep_human_stops:
  assumes "distinct (map exit_Deliverable (Exits spec))" "i \<le> j" "j < length (Exits spec)"
  shows "set (prev_Reasons (PreviewExitAutonomy spec ! i)) \<subseteq> set (prev_Reasons (PreviewExitAutonomy spec ! j)) \<and>
         (StopsHuman (PreviewExitAutonomy spec ! i) \<longrightarrow> StopsHuman (PreviewExitAutonomy spec ! j))"
proof -
  let ?a = "exit_Deliverable (Exits spec ! i)" and ?b = "exit_Deliverable (Exits spec ! j)"
  note later = ExitCondMet_later [OF assms]
  have crit: "set (List.map_filter (criterion_stop spec ?a) xs) \<subseteq> set (List.map_filter (criterion_stop spec ?b) xs)" for xs
    by (rule map_filter_subset) (use later in \<open>auto simp: criterion_stop_def Let_def split: prod.splits if_splits\<close>)
  have gate: "set (List.map_filter (gate_stop spec ?a) xs) \<subseteq> set (List.map_filter (gate_stop spec ?b) xs)" for xs
    by (rule map_filter_subset) (use later in \<open>auto simp: gate_stop_def Let_def split: if_splits\<close>)
  have "set (prev_Reasons (preview_exit spec (Exits spec ! i))) \<subseteq>
      set (prev_Reasons (preview_exit spec (Exits spec ! j)))"
    using Un_mono [OF crit gate] by (simp add: preview_exit_def Let_def)
  moreover have "StopsHuman (preview_exit spec e) \<longleftrightarrow> set (prev_Reasons (preview_exit spec e)) \<noteq> {}" for e
    by (simp add: preview_exit_def Let_def)
  ultimately show ?thesis using assms(2,3) by (auto simp: PreviewExitAutonomy_def)
qed


text \<open>
  The condition compares the exit name as written, while validation compares it trimmed: a criterion
  that names an exit with blanks around it passes validation and then holds from the first exit on.
\<close>

lemma padded_exit_always_met:
  assumes "\<not> declared_exit spec (AppliesFromExit c)"
  shows "ExitCondMet spec \<lparr>ExitAtOrBeyond = AppliesFromExit c\<rparr> e"
  using assms by (simp add: ExitCondMet_def ExitIndex_neg)

section \<open>The role projection\<close>

record RoleViewRole =
  rv_RoleKey :: string
  rv_Title :: string
  rv_RequiredCapabilities :: "string list"
  rv_HolderCount :: int

record RoleIndependencePair =
  pair_Roles :: "string list"

record RoleViewExit =
  rve_Deliverable :: string
  rve_Label :: string
  rve_RequiredRoles :: "string list"
  rve_RoleIndependencePairs :: "RoleIndependencePair list"

record RoleView =
  rview_TemplateKey :: string
  rview_Name :: string
  rview_Roles :: "RoleViewRole list"
  rview_Exits :: "RoleViewExit list"

definition distinctRolesFromSteps :: "SpecSkeletonStep list \<Rightarrow> string list" where
  "distinctRolesFromSteps steps =
     sort (rev (foldl (\<lambda>out r. if r = [] \<or> r \<in> set out then out else r # out) []
       (map (\<lambda>s. TrimSpace (step_Role s)) steps)))"

definition independencePairsForExit :: "SpecV2 \<Rightarrow> string \<Rightarrow> string list \<Rightarrow> RoleIndependencePair list" where
  "independencePairsForExit spec ex neededRoles =
     List.map_filter (\<lambda>c.
       let roles = filter (\<lambda>r. r \<in> set neededRoles) (con_Roles c) in
       if con_Kind c \<noteq> ''role_independence'' then None
       else if \<not> ExitCondMet spec (con_When c) ex then None
       else if length roles < 2 then None
       else Some \<lparr>pair_Roles = sort roles\<rparr>)
     (Constraints spec)"

definition role_view_exit :: "SpecV2 \<Rightarrow> SpecExit \<Rightarrow> RoleViewExit" where
  "role_view_exit spec e =
     (case PruneSkeletonForExit spec (exit_Deliverable e) of
        Inl _ \<Rightarrow> \<lparr>rve_Deliverable = exit_Deliverable e, rve_Label = exit_Label e,
                  rve_RequiredRoles = [], rve_RoleIndependencePairs = []\<rparr>
      | Inr steps \<Rightarrow>
          let required = distinctRolesFromSteps steps in
          \<lparr>rve_Deliverable = exit_Deliverable e, rve_Label = exit_Label e, rve_RequiredRoles = required,
           rve_RoleIndependencePairs = independencePairsForExit spec (exit_Deliverable e) required\<rparr>)"

text \<open>\<open>counter\<close> is the optional \<^verbatim>\<open>RoleHolderCounter\<close>; its error ends the projection.\<close>

fun role_view_roles :: "(string \<Rightarrow> 'e + int) option \<Rightarrow> SpecRole list \<Rightarrow> 'e + RoleViewRole list" where
  "role_view_roles counter [] = Inr []"
| "role_view_roles counter (r # rs) =
     (case (case counter of None \<Rightarrow> Inr 0 | Some count \<Rightarrow> count (srole_Key r)) of
        Inl e \<Rightarrow> Inl e
      | Inr n \<Rightarrow>
          (case role_view_roles counter rs of
             Inl e \<Rightarrow> Inl e
           | Inr out \<Rightarrow>
               Inr (\<lparr>rv_RoleKey = srole_Key r, rv_Title = srole_Title r,
                     rv_RequiredCapabilities = srole_RequiredCapabilities r, rv_HolderCount = n\<rparr> # out)))"

definition buildRoleView :: "(string \<Rightarrow> 'e + int) option \<Rightarrow> string \<Rightarrow> string \<Rightarrow> SpecV2 \<Rightarrow> 'e + RoleView" where
  "buildRoleView counter key name spec =
     (case role_view_roles counter (Roles spec) of
        Inl e \<Rightarrow> Inl e
      | Inr roles \<Rightarrow> Inr \<lparr>rview_TemplateKey = key, rview_Name = name, rview_Roles = roles,
                          rview_Exits = map (role_view_exit spec) (Exits spec)\<rparr>)"

lemma distinct_roles_fold:
  "set (foldl (\<lambda>out r. if r = [] \<or> r \<in> set out then out else r # out) out rs) = set out \<union> {r \<in> set rs. r \<noteq> []}"
  "distinct out \<Longrightarrow> distinct (foldl (\<lambda>out r. if r = [] \<or> r \<in> set out then out else r # out) out rs)"
  by (induction rs arbitrary: out) auto

lemma distinctRolesFromSteps_set:
  "set (distinctRolesFromSteps steps) = {r. r \<noteq> [] \<and> (\<exists>s \<in> set steps. r = TrimSpace (step_Role s))}"
  by (auto simp: distinctRolesFromSteps_def distinct_roles_fold(1))

lemma distinctRolesFromSteps_distinct: "distinct (distinctRolesFromSteps steps)"
  by (simp add: distinctRolesFromSteps_def distinct_roles_fold(2))

text \<open>
  The roles an exit requires are sorted and without repetition, and are exactly the roles
  of the steps reachable from the producer of the exit; an independence pair only speaks of required
  roles, and comes from a constraint that is in force at that exit.
\<close>

theorem role_view_exit_roles:
  assumes "distinct (map Step (Skeleton spec))" "StepByProduce spec (exit_Deliverable e) = Some t"
    and "e \<in> set (Exits spec)"
  shows "sorted (rve_RequiredRoles (role_view_exit spec e)) \<and>
    distinct (rve_RequiredRoles (role_view_exit spec e)) \<and>
    (\<forall>r. r \<in> set (rve_RequiredRoles (role_view_exit spec e)) \<longleftrightarrow>
       r \<noteq> [] \<and> (\<exists>s \<in> set (Skeleton spec). (needs (Skeleton spec))\<^sup>*\<^sup>* (Step t) (Step s) \<and> TrimSpace (step_Role s) = r)) \<and>
    (\<forall>p \<in> set (rve_RoleIndependencePairs (role_view_exit spec e)).
       2 \<le> length (pair_Roles p) \<and> set (pair_Roles p) \<subseteq> set (rve_RequiredRoles (role_view_exit spec e)) \<and>
       (\<exists>c \<in> set (Constraints spec). con_Kind c = ''role_independence'' \<and>
          ExitCondMet spec (con_When c) (exit_Deliverable e) \<and> set (pair_Roles p) \<subseteq> set (con_Roles c)))"
proof -
  let ?steps = "filter (\<lambda>s. (needs (Skeleton spec))\<^sup>*\<^sup>* (Step t) (Step s)) (Skeleton spec)"
  from assms(3) have "declared_exit spec (exit_Deliverable e)" by (simp add: declared_exit_def)
  then have ind: "ExitIndex spec (exit_Deliverable e) \<ge> 0"
    using ExitIndex_neg [of spec "exit_Deliverable e"] by linarith
  have "t \<in> set (Skeleton spec)" using assms(2) by (auto simp: StepByProduce_def find_Some_iff)
  then have prune: "PruneSkeletonForExit spec (exit_Deliverable e) = Inr ?steps"
    using ind assms(2) by (simp add: PruneSkeletonForExit_def visit_reachable [OF assms(1)])
  define rs where "rs = distinctRolesFromSteps ?steps"
  have roles: "rve_RequiredRoles (role_view_exit spec e) = rs"
    and pairs: "rve_RoleIndependencePairs (role_view_exit spec e) =
      independencePairsForExit spec (exit_Deliverable e) rs"
    by (simp_all add: role_view_exit_def prune Let_def rs_def)
  show ?thesis unfolding roles pairs
  proof (intro conjI allI)
    show "sorted rs" by (simp add: rs_def distinctRolesFromSteps_def)
    show "distinct rs" by (simp add: rs_def distinctRolesFromSteps_distinct)
    show "r \<in> set rs \<longleftrightarrow> r \<noteq> [] \<and> (\<exists>s \<in> set (Skeleton spec).
        (needs (Skeleton spec))\<^sup>*\<^sup>* (Step t) (Step s) \<and> TrimSpace (step_Role s) = r)" for r
      by (auto simp: rs_def distinctRolesFromSteps_set)
    show "\<forall>p \<in> set (independencePairsForExit spec (exit_Deliverable e) rs).
      2 \<le> length (pair_Roles p) \<and> set (pair_Roles p) \<subseteq> set rs \<and>
      (\<exists>c \<in> set (Constraints spec). con_Kind c = ''role_independence'' \<and>
         ExitCondMet spec (con_When c) (exit_Deliverable e) \<and> set (pair_Roles p) \<subseteq> set (con_Roles c))"
      by (auto simp: independencePairsForExit_def map_filter_def Let_def split: if_splits)
  qed
qed

section \<open>An example template\<close>

definition example_step :: "string \<Rightarrow> string \<Rightarrow> string list \<Rightarrow> string \<Rightarrow> SpecSkeletonStep" where
  "example_step n r deps out =
     \<lparr>Step = n, step_Role = r, step_Title = [], DependsOn = deps,
      ProducesDefaults = [\<lparr>produce_Name = out, produce_Kind = []\<rparr>],
      RequiredInputsDefaults = [], NotesDefaults = []\<rparr>"

definition example_template :: SpecV2 where
  "example_template =
     zero_spec\<lparr>SpecVersion := 2,
       Skeleton := [example_step ''plan'' ''lead'' [] ''brief'', example_step ''build'' ''dev'' [''plan''] ''code'',
                    example_step ''release'' ''ops'' [''build''] ''package''],
       Exits := [\<lparr>exit_Deliverable = ''code'', exit_Label = []\<rparr>, \<lparr>exit_Deliverable = ''package'', exit_Label = []\<rparr>],
       Constraints := [\<lparr>con_Kind = ''role_independence'', con_Roles = [''dev'', ''lead''], con_Step = [], con_Target = [],
                        con_When = \<lparr>ExitAtOrBeyond = []\<rparr>\<rparr>],
       DefaultAcceptanceCriteria :=
         [\<lparr>crit_Statement = ''ok'', AppliesFromExit = ''code'', crit_VerificationMethod = ''human_judgment'', crit_Severity = []\<rparr>]\<rparr>"

theorem prune_is_reachability_witness:
  "distinct (map Step (Skeleton example_template)) \<and>
   map Step (filter (\<lambda>s. (needs (Skeleton example_template))\<^sup>*\<^sup>* ''build'' (Step s)) (Skeleton example_template)) =
     [''plan'', ''build'']"
proof -
  have d: "distinct (map Step (Skeleton example_template))" by code_simp
  have t: "StepByProduce example_template ''code'' = Some (example_step ''build'' ''dev'' [''plan''] ''code'')"
    by code_simp
  have e: "declared_exit example_template ''code''" by code_simp
  have "PruneSkeletonForExit example_template ''code'' =
      Inr [example_step ''plan'' ''lead'' [] ''brief'', example_step ''build'' ''dev'' [''plan''] ''code'']"
    by code_simp
  with prune_is_reachability [OF d, of "''code''"] t e
  have "filter (\<lambda>s. (needs (Skeleton example_template))\<^sup>*\<^sup>* ''build'' (Step s)) (Skeleton example_template) =
      [example_step ''plan'' ''lead'' [] ''brief'', example_step ''build'' ''dev'' [''plan''] ''code'']"
    by (simp add: example_step_def)
  with d show ?thesis by (simp add: example_step_def)
qed

theorem later_exits_keep_human_stops_witness:
  "StopsHuman (PreviewExitAutonomy example_template ! 0) \<and> StopsHuman (PreviewExitAutonomy example_template ! 1)"
proof -
  have "StopsHuman (PreviewExitAutonomy example_template ! 0)" by code_simp
  moreover have "distinct (map exit_Deliverable (Exits example_template))" "1 < length (Exits example_template)"
    by code_simp+
  ultimately show ?thesis using later_exits_keep_human_stops [of example_template 0 1] by simp
qed

theorem role_view_exit_roles_witness:
  "sorted (rve_RequiredRoles (role_view_exit example_template \<lparr>exit_Deliverable = ''code'', exit_Label = []\<rparr>)) \<and>
   rve_RequiredRoles (role_view_exit example_template \<lparr>exit_Deliverable = ''code'', exit_Label = []\<rparr>) = [''dev'', ''lead'']"
proof -
  let ?e = "\<lparr>exit_Deliverable = ''code'', exit_Label = []\<rparr>"
  have "distinct (map Step (Skeleton example_template))" "?e \<in> set (Exits example_template)" by code_simp+
  moreover have "StepByProduce example_template (exit_Deliverable ?e) = Some (example_step ''build'' ''dev'' [''plan''] ''code'')"
    by code_simp
  moreover have "rve_RequiredRoles (role_view_exit example_template ?e) = [''dev'', ''lead'']" by code_simp
  ultimately show ?thesis using role_view_exit_roles by blast
qed

end
