(* ===== verification/Scenario_Registry.thy ===== *)
theory Scenario_Registry
  imports Scenario_Exits
begin

text \<open>
  The registry of scenario templates: the service of \<^verbatim>\<open>scenariotemplate/service.go\<close> and
  \<^verbatim>\<open>vocabulary.go\<close> over the repository of \<^verbatim>\<open>pg_repository.go\<close>, whose statements are those of
  \<^verbatim>\<open>storage/queries/scenario_template.sql\<close> with the constraints of the migrations. The service
  runs its statements one by one, without a transaction, so a statement may fail, or its reply may
  be lost after it took effect, between any two of them (\<open>env_fault\<close>).
\<close>

section \<open>Tables and statements\<close>

record ScenarioTemplate =
  tpl_ID :: uuid
  tpl_TenantID :: uuid
  tpl_Key :: string
  tpl_Name :: string
  tpl_Description :: string
  tpl_Spec :: gmap
  tpl_Status :: string
  tpl_ActiveVersion :: int
  tpl_CreatedAt :: int
  tpl_UpdatedAt :: int

record template_row =
  row_template :: ScenarioTemplate
  row_created_by :: "uuid option"
  row_deleted :: bool

record ScenarioTemplateVersion =
  ver_ID :: uuid
  ver_TenantID :: uuid
  ver_TemplateID :: uuid
  ver_Version :: int
  ver_Spec :: gmap
  ver_CreatedBy :: "uuid option"
  ver_CreatedAt :: int

record audit_event =
  ev_TenantID :: uuid
  ev_ActorID :: string
  ev_ResourceID :: string
  ev_Action :: string
  ev_Details :: gmap
  ev_CreatedAt :: int

record registry_db =
  db_templates :: "template_row list"
  db_versions :: "ScenarioTemplateVersion list"
  db_audit :: "audit_event list"

datatype invalid_reason =
    TenantIDRequired
  | BadTemplateKey
  | NameRequired
  | KeyRequired
  | VersionlessV2Spec "string list"
  | VersionlessV3Spec "string list"
  | SpecRejected spec_error
  | UnknownCapabilityKeys "string list"
  | UnknownRoleKeys "string list"
  | UnsupportedStatus string
  | NameCannotBeBlank

datatype registry_error =
    ErrScenarioTemplateNotFound
  | ErrInvalidInput invalid_reason
  | ErrConflict
  | ErrCheckViolation
  | ErrSpec spec_error
  | ErrDatabase

datatype db_op =
    OpListTemplates | OpGetByKey | OpCreateTemplate | OpCreateVersion | OpMaxVersion | OpUpdateActiveSpec
  | OpUpdateStatus | OpSoftDelete | OpListVersions | OpAudit

datatype db_fault = Healthy | Refused | ReplyLost

text \<open>What the database supplies to one call: generated identifiers, the clock, and its failures.\<close>

record db_env =
  env_template_id :: uuid
  env_version_id :: uuid
  env_now :: int
  env_fault :: "db_op \<Rightarrow> db_fault"

type_synonym 'a db_action = "registry_db \<Rightarrow> (registry_error + 'a) \<times> registry_db"

definition stmt :: "db_env \<Rightarrow> db_op \<Rightarrow> 'a db_action \<Rightarrow> 'a db_action" where
  "stmt env op run db =
     (case env_fault env op of
        Healthy \<Rightarrow> run db
      | Refused \<Rightarrow> (Inl ErrDatabase, db)
      | ReplyLost \<Rightarrow> (Inl ErrDatabase, snd (run db)))"

text \<open>\<^verbatim>\<open>x, err := m(); if err != nil { return err }\<close>.\<close>

definition bind_db :: "'a db_action \<Rightarrow> ('a \<Rightarrow> 'b db_action) \<Rightarrow> 'b db_action" where
  "bind_db m k db = (case m db of (Inl e, db') \<Rightarrow> (Inl e, db') | (Inr x, db') \<Rightarrow> k x db')"

definition guard_db :: "registry_error option \<Rightarrow> 'a db_action \<Rightarrow> 'a db_action" where
  "guard_db err k db = (case err of Some e \<Rightarrow> (Inl e, db) | None \<Rightarrow> k db)"

definition return_db :: "'a \<Rightarrow> 'a db_action" where
  "return_db x db = (Inr x, db)"

text \<open>\<^verbatim>\<open>int32(params.Version)\<close> wraps around.\<close>

definition int32 :: "int \<Rightarrow> int" where
  "int32 i = (i + 2 ^ 31) mod 2 ^ 32 - 2 ^ 31"

text \<open>\<^verbatim>\<open>CHECK (btrim(c) <> '')\<close>: some character other than a blank.\<close>

definition btrim_not_empty :: "string \<Rightarrow> bool" where
  "btrim_not_empty s \<longleftrightarrow> list_ex (\<lambda>c. c \<noteq> CHR '' '') s"

definition row_checks :: "ScenarioTemplate \<Rightarrow> bool" where
  "row_checks t \<longleftrightarrow> btrim_not_empty (tpl_Key t) \<and> btrim_not_empty (tpl_Name t) \<and>
     tpl_Status t \<in> {''active'', ''disabled''}"

definition is_live :: "uuid \<Rightarrow> string \<Rightarrow> template_row \<Rightarrow> bool" where
  "is_live tenant key r \<longleftrightarrow>
     tpl_TenantID (row_template r) = tenant \<and> tpl_Key (row_template r) = key \<and> \<not> row_deleted r"

definition nullUUIDFromPtr :: "uuid option \<Rightarrow> uuid option" where
  "nullUUIDFromPtr p = (case p of None \<Rightarrow> None | Some u \<Rightarrow> if u = uuid_Nil then None else Some u)"

definition ListScenarioTemplates :: "db_env \<Rightarrow> uuid \<Rightarrow> ScenarioTemplate list db_action" where
  "ListScenarioTemplates env tenantID =
     stmt env OpListTemplates (\<lambda>db.
       (Inr (sort_key tpl_CreatedAt (sort_key tpl_Key (map row_template
          (filter (\<lambda>r. tpl_TenantID (row_template r) = tenantID \<and> \<not> row_deleted r) (db_templates db))))), db))"

definition GetScenarioTemplateByKey :: "db_env \<Rightarrow> uuid \<Rightarrow> string \<Rightarrow> ScenarioTemplate db_action" where
  "GetScenarioTemplateByKey env tenantID key =
     stmt env OpGetByKey (\<lambda>db.
       (case find (is_live tenantID key) (db_templates db) of
          None \<Rightarrow> Inl ErrScenarioTemplateNotFound
        | Some r \<Rightarrow> Inr (row_template r), db))"

definition new_template :: "db_env \<Rightarrow> uuid \<Rightarrow> string \<Rightarrow> string \<Rightarrow> string \<Rightarrow> gmap \<Rightarrow> ScenarioTemplate" where
  "new_template env tenantID key name description spec =
     \<lparr>tpl_ID = env_template_id env, tpl_TenantID = tenantID, tpl_Key = key, tpl_Name = name,
      tpl_Description = description, tpl_Spec = spec, tpl_Status = ''active'', tpl_ActiveVersion = 1,
      tpl_CreatedAt = env_now env, tpl_UpdatedAt = env_now env\<rparr>"

definition CreateScenarioTemplate ::
  "db_env \<Rightarrow> uuid \<Rightarrow> string \<Rightarrow> string \<Rightarrow> string \<Rightarrow> gmap \<Rightarrow> uuid option \<Rightarrow> ScenarioTemplate db_action" where
  "CreateScenarioTemplate env tenantID key name description spec createdBy =
     stmt env OpCreateTemplate (\<lambda>db.
       let t = new_template env tenantID key name description spec in
       if \<not> row_checks t then (Inl ErrCheckViolation, db)
       else if list_ex (\<lambda>r. tpl_ID (row_template r) = tpl_ID t \<or> is_live tenantID key r) (db_templates db)
       then (Inl ErrConflict, db)
       else (Inr t, db\<lparr>db_templates := db_templates db @
              [\<lparr>row_template = t, row_created_by = nullUUIDFromPtr createdBy, row_deleted = False\<rparr>]\<rparr>))"

definition CreateScenarioTemplateVersion ::
  "db_env \<Rightarrow> uuid \<Rightarrow> uuid \<Rightarrow> int \<Rightarrow> gmap \<Rightarrow> uuid option \<Rightarrow> ScenarioTemplateVersion db_action" where
  "CreateScenarioTemplateVersion env tenantID templateID version spec createdBy =
     stmt env OpCreateVersion (\<lambda>db.
       let v = \<lparr>ver_ID = env_version_id env, ver_TenantID = tenantID, ver_TemplateID = templateID,
                ver_Version = int32 version, ver_Spec = spec, ver_CreatedBy = nullUUIDFromPtr createdBy,
                ver_CreatedAt = env_now env\<rparr> in
       if list_ex (\<lambda>w. ver_ID w = ver_ID v \<or> ver_TemplateID w = templateID \<and> ver_Version w = ver_Version v)
            (db_versions db)
       then (Inl ErrConflict, db)
       else (Inr v, db\<lparr>db_versions := db_versions db @ [v]\<rparr>))"

definition versions_of :: "registry_db \<Rightarrow> uuid \<Rightarrow> uuid \<Rightarrow> ScenarioTemplateVersion list" where
  "versions_of db tenantID templateID =
     filter (\<lambda>v. ver_TenantID v = tenantID \<and> ver_TemplateID v = templateID) (db_versions db)"

text \<open>\<^verbatim>\<open>COALESCE(MAX(version), 0)\<close>.\<close>

definition coalesce_max :: "int list \<Rightarrow> int" where
  "coalesce_max ns = (case ns of [] \<Rightarrow> 0 | n # ns' \<Rightarrow> foldl max n ns')"

definition max_version :: "registry_db \<Rightarrow> uuid \<Rightarrow> uuid \<Rightarrow> int" where
  "max_version db tenantID templateID =
     coalesce_max (map ver_Version (versions_of db tenantID templateID))"

definition GetScenarioTemplateMaxVersion :: "db_env \<Rightarrow> uuid \<Rightarrow> uuid \<Rightarrow> int db_action" where
  "GetScenarioTemplateMaxVersion env tenantID templateID =
     stmt env OpMaxVersion (\<lambda>db. (Inr (max_version db tenantID templateID), db))"

text \<open>An \<^verbatim>\<open>UPDATE ... WHERE tenant_id, id, deleted_at IS NULL RETURNING *\<close>; the trigger sets \<^verbatim>\<open>updated_at\<close>.\<close>

definition row_hit :: "uuid \<Rightarrow> uuid \<Rightarrow> template_row \<Rightarrow> bool" where
  "row_hit tenantID templateID r \<longleftrightarrow>
     tpl_TenantID (row_template r) = tenantID \<and> tpl_ID (row_template r) = templateID \<and> \<not> row_deleted r"

definition touch :: "db_env \<Rightarrow> (template_row \<Rightarrow> template_row) \<Rightarrow> template_row \<Rightarrow> template_row" where
  "touch env f r = (f r)\<lparr>row_template := (row_template (f r))\<lparr>tpl_UpdatedAt := env_now env\<rparr>\<rparr>"

definition update_row ::
  "db_env \<Rightarrow> uuid \<Rightarrow> uuid \<Rightarrow> (template_row \<Rightarrow> template_row) \<Rightarrow> ScenarioTemplate db_action" where
  "update_row env tenantID templateID f db =
     (case find (row_hit tenantID templateID) (db_templates db) of
        None \<Rightarrow> (Inl ErrScenarioTemplateNotFound, db)
      | Some r \<Rightarrow>
          if \<not> row_checks (row_template (touch env f r)) then (Inl ErrCheckViolation, db)
          else (Inr (row_template (touch env f r)),
                db\<lparr>db_templates :=
                  map (\<lambda>r. if row_hit tenantID templateID r then touch env f r else r) (db_templates db)\<rparr>))"

definition UpdateScenarioTemplateActiveSpec :: "db_env \<Rightarrow> uuid \<Rightarrow> uuid \<Rightarrow> gmap \<Rightarrow> int \<Rightarrow> ScenarioTemplate db_action" where
  "UpdateScenarioTemplateActiveSpec env tenantID templateID spec version =
     stmt env OpUpdateActiveSpec (update_row env tenantID templateID (\<lambda>r.
       r\<lparr>row_template := (row_template r)\<lparr>tpl_Spec := spec, tpl_ActiveVersion := int32 version\<rparr>\<rparr>))"

definition UpdateScenarioTemplateStatus ::
  "db_env \<Rightarrow> uuid \<Rightarrow> uuid \<Rightarrow> string \<Rightarrow> string \<Rightarrow> string \<Rightarrow> ScenarioTemplate db_action" where
  "UpdateScenarioTemplateStatus env tenantID templateID status name description =
     stmt env OpUpdateStatus (update_row env tenantID templateID (\<lambda>r.
       r\<lparr>row_template := (row_template r)\<lparr>tpl_Status := status, tpl_Name := name, tpl_Description := description\<rparr>\<rparr>))"

definition SoftDeleteScenarioTemplate :: "db_env \<Rightarrow> uuid \<Rightarrow> uuid \<Rightarrow> ScenarioTemplate db_action" where
  "SoftDeleteScenarioTemplate env tenantID templateID =
     stmt env OpSoftDelete (update_row env tenantID templateID (\<lambda>r.
       r\<lparr>row_template := (row_template r)\<lparr>tpl_Status := ''disabled''\<rparr>, row_deleted := True\<rparr>))"

definition ListScenarioTemplateVersions :: "db_env \<Rightarrow> uuid \<Rightarrow> uuid \<Rightarrow> ScenarioTemplateVersion list db_action" where
  "ListScenarioTemplateVersions env tenantID templateID =
     stmt env OpListVersions (\<lambda>db. (Inr (rev (sort_key ver_Version (versions_of db tenantID templateID))), db))"

section \<open>The service\<close>

text \<open>
  Its optional collaborators: the capability vocabulary, the role vocabulary and the holder counter
  belong to other components and are functions here; \<open>svc_audit\<close> says whether a recorder is set.
\<close>

record Service =
  svc_vocabulary :: "(uuid \<Rightarrow> string list \<Rightarrow> registry_error + string list) option"
  svc_roleVocabulary :: "(uuid \<Rightarrow> string list \<Rightarrow> registry_error + string list) option"
  svc_roleHolderCounter :: "(uuid \<Rightarrow> string \<Rightarrow> registry_error + int) option"
  svc_audit :: bool
  svc_uuids :: uuid_lib

definition templateKeyPattern :: "string \<Rightarrow> bool" where
  "templateKeyPattern key \<longleftrightarrow>
     (let letter = (\<lambda>c. byte_in 65 90 c \<or> byte_in 97 122 c) in
      2 \<le> length key \<and> length key \<le> 64 \<and> letter (hd key) \<and>
      list_all (\<lambda>c. letter c \<or> byte_in 48 57 c \<or> c = CHR ''_'') (tl key))"

definition validateTemplateKey :: "string \<Rightarrow> registry_error option" where
  "validateTemplateKey key = fail_if (\<not> templateKeyPattern key) (ErrInvalidInput BadTemplateKey)"

text \<open>The loop that trims, drops blanks and keeps the first of equal keys.\<close>

definition unique_keys :: "string list \<Rightarrow> string list" where
  "unique_keys keys =
     rev (foldl (\<lambda>out k. if k = [] \<or> k \<in> set out then out else k # out) [] (map TrimSpace keys))"

text \<open>\<^verbatim>\<open>ActiveKeys\<close> returns the keys that are active.\<close>

definition ValidateCapabilityKeys :: "Service \<Rightarrow> uuid \<Rightarrow> string list \<Rightarrow> registry_error + string list" where
  "ValidateCapabilityKeys s tenantID keys =
     (case svc_vocabulary s of
        None \<Rightarrow> Inr []
      | Some activeKeys \<Rightarrow>
          let unique = unique_keys keys in
          if unique = [] then Inr []
          else case activeKeys tenantID unique of
            Inl e \<Rightarrow> Inl e
          | Inr active \<Rightarrow> Inr (sort (filter (\<lambda>k. k \<notin> set active) unique)))"

definition validateSpecVocabulary :: "Service \<Rightarrow> uuid \<Rightarrow> SpecV2 \<Rightarrow> registry_error option" where
  "validateSpecVocabulary s tenantID spec =
     (case ValidateCapabilityKeys s tenantID (concat (map srole_RequiredCapabilities (Roles spec))) of
        Inl e \<Rightarrow> Some e
      | Inr unknown \<Rightarrow> fail_if (unknown \<noteq> []) (ErrInvalidInput (UnknownCapabilityKeys unknown)))"

definition validateSpecRoles :: "Service \<Rightarrow> uuid \<Rightarrow> SpecV2 \<Rightarrow> registry_error option" where
  "validateSpecRoles s tenantID spec =
     (case svc_roleVocabulary s of
        None \<Rightarrow> None
      | Some unknownKeys \<Rightarrow>
          (case unknownKeys tenantID (map srole_Key (Roles spec) @ map step_Role (Skeleton spec)) of
             Inl e \<Rightarrow> Some e
           | Inr unknown \<Rightarrow> fail_if (unknown \<noteq> []) (ErrInvalidInput (UnknownRoleKeys unknown))))"

definition rejectVersionlessV2Spec :: "gmap \<Rightarrow> registry_error option" where
  "rejectVersionlessV2Spec spec =
     (case MissingSpecVersionForV2Shape spec of
        (missing, offending) \<Rightarrow> fail_if missing (ErrInvalidInput (VersionlessV2Spec offending)))"

definition rejectVersionlessV3Spec :: "gmap \<Rightarrow> registry_error option" where
  "rejectVersionlessV3Spec spec =
     (case MissingSpecVersionForV3Shape spec of
        (missing, offending) \<Rightarrow> fail_if missing (ErrInvalidInput (VersionlessV3Spec offending)))"

text \<open>The checks on a new specification, the same sequence in \<open>Create\<close> and \<open>CreateVersion\<close>.\<close>

definition check_new_spec :: "Service \<Rightarrow> uuid \<Rightarrow> gmap \<Rightarrow> registry_error option" where
  "check_new_spec s tenantID spec =
     or_else (rejectVersionlessV2Spec spec)
     (or_else (rejectVersionlessV3Spec spec)
     (case ParseSpec spec of
        Inl e \<Rightarrow> Some (ErrInvalidInput (SpecRejected e))
      | Inr parsedSpec \<Rightarrow>
          or_else (validateSpecVocabulary s tenantID parsedSpec) (validateSpecRoles s tenantID parsedSpec)))"

definition actorPtr :: "uuid \<Rightarrow> uuid option" where
  "actorPtr actorID = (if actorID = uuid_Nil then None else Some actorID)"

text \<open>The result of the recorder is dropped.\<close>

definition recordAudit :: "Service \<Rightarrow> db_env \<Rightarrow> uuid \<Rightarrow> string \<Rightarrow> string \<Rightarrow> uuid \<Rightarrow> gmap \<Rightarrow> registry_db \<Rightarrow> registry_db" where
  "recordAudit s env tenantID templateKey action actorID details db =
     (if \<not> svc_audit s then db
      else
        let event = \<lparr>ev_TenantID = tenantID,
              ev_ActorID = (if actorID \<noteq> uuid_Nil then uuid_String (svc_uuids s) actorID else []),
              ev_ResourceID = templateKey, ev_Action = action, ev_Details = details, ev_CreatedAt = env_now env\<rparr>
        in snd (stmt env OpAudit (\<lambda>db. (Inr (), db\<lparr>db_audit := db_audit db @ [event]\<rparr>)) db))"

definition then_audit :: "Service \<Rightarrow> db_env \<Rightarrow> uuid \<Rightarrow> string \<Rightarrow> string \<Rightarrow> uuid \<Rightarrow> gmap \<Rightarrow> 'a \<Rightarrow> 'a db_action" where
  "then_audit s env tenantID templateKey action actorID details x db =
     (Inr x, recordAudit s env tenantID templateKey action actorID details db)"

definition List_templates :: "db_env \<Rightarrow> uuid \<Rightarrow> ScenarioTemplate list db_action" where
  "List_templates env tenantID = ListScenarioTemplates env tenantID"

definition GetByKey :: "db_env \<Rightarrow> uuid \<Rightarrow> string \<Rightarrow> ScenarioTemplate db_action" where
  "GetByKey env tenantID key0 =
     (let key = TrimSpace key0 in
      guard_db (fail_if (key = []) ErrScenarioTemplateNotFound) (GetScenarioTemplateByKey env tenantID key))"

definition parse_db :: "(spec_error \<Rightarrow> registry_error) \<Rightarrow> gmap \<Rightarrow> SpecV2 db_action" where
  "parse_db wrap raw db = (case ParseSpec raw of Inl e \<Rightarrow> (Inl (wrap e), db) | Inr s \<Rightarrow> (Inr s, db))"

definition ProduceKinds :: "db_env \<Rightarrow> uuid \<Rightarrow> string \<Rightarrow> string list db_action" where
  "ProduceKinds env tenantID key =
     bind_db (GetByKey env tenantID key) (\<lambda>template.
     bind_db (parse_db ErrSpec (tpl_Spec template)) (\<lambda>spec.
     return_db (unique_keys (concat (map (map produce_Kind \<circ> ProducesDefaults) (Skeleton spec))))))"

definition RoleView_template :: "Service \<Rightarrow> db_env \<Rightarrow> uuid \<Rightarrow> string \<Rightarrow> RoleView db_action" where
  "RoleView_template s env tenantID key =
     bind_db (GetByKey env tenantID key) (\<lambda>template.
     bind_db (parse_db (ErrInvalidInput \<circ> SpecRejected) (tpl_Spec template)) (\<lambda>spec db.
       (buildRoleView (map_option (\<lambda>count. count tenantID) (svc_roleHolderCounter s))
          (tpl_Key template) (tpl_Name template) spec, db)))"

record CreateScenarioTemplateRequest =
  cr_TenantID :: uuid
  cr_ActorUserID :: uuid
  cr_Key :: string
  cr_Name :: string
  cr_Description :: string
  cr_Spec :: gmap

text \<open>The lookup that \<open>Create\<close> makes first: an error unless the key is free.\<close>

definition key_is_free :: "db_env \<Rightarrow> uuid \<Rightarrow> string \<Rightarrow> unit db_action" where
  "key_is_free env tenantID key db =
     (case GetScenarioTemplateByKey env tenantID key db of
        (Inr _, db') \<Rightarrow> (Inl ErrConflict, db')
      | (Inl ErrScenarioTemplateNotFound, db') \<Rightarrow> (Inr (), db')
      | (Inl e, db') \<Rightarrow> (Inl e, db'))"

definition Create :: "Service \<Rightarrow> db_env \<Rightarrow> CreateScenarioTemplateRequest \<Rightarrow> ScenarioTemplate db_action" where
  "Create s env req =
     (let key = TrimSpace (cr_Key req); name = TrimSpace (cr_Name req); spec = cr_Spec req in
      guard_db
        (or_else (fail_if (cr_TenantID req = uuid_Nil) (ErrInvalidInput TenantIDRequired))
        (or_else (validateTemplateKey key)
        (or_else (fail_if (name = []) (ErrInvalidInput NameRequired))
        (check_new_spec s (cr_TenantID req) spec))))
      (bind_db (key_is_free env (cr_TenantID req) key) (\<lambda>_.
       bind_db (CreateScenarioTemplate env (cr_TenantID req) key name (TrimSpace (cr_Description req)) spec
                  (actorPtr (cr_ActorUserID req))) (\<lambda>created.
       bind_db (CreateScenarioTemplateVersion env (cr_TenantID req) (tpl_ID created) 1 spec
                  (actorPtr (cr_ActorUserID req))) (\<lambda>_.
       then_audit s env (cr_TenantID req) (tpl_Key created) ''create'' (cr_ActorUserID req)
         [(''template_key'', GStr (tpl_Key created)), (''version'', GNum 1 ''1'')] created)))))"

record CreateScenarioTemplateVersionRequest =
  vr_TenantID :: uuid
  vr_ActorUserID :: uuid
  vr_Key :: string
  vr_Spec :: gmap

definition CreateVersion :: "Service \<Rightarrow> db_env \<Rightarrow> CreateScenarioTemplateVersionRequest \<Rightarrow> ScenarioTemplate db_action" where
  "CreateVersion s env req =
     (let key = TrimSpace (vr_Key req); spec = vr_Spec req in
      guard_db
        (or_else (fail_if (vr_TenantID req = uuid_Nil) (ErrInvalidInput TenantIDRequired))
        (or_else (fail_if (key = []) (ErrInvalidInput KeyRequired))
        (check_new_spec s (vr_TenantID req) spec)))
      (bind_db (GetScenarioTemplateByKey env (vr_TenantID req) key) (\<lambda>existing.
       bind_db (GetScenarioTemplateMaxVersion env (vr_TenantID req) (tpl_ID existing)) (\<lambda>maxVersion.
       bind_db (CreateScenarioTemplateVersion env (vr_TenantID req) (tpl_ID existing) (maxVersion + 1) spec
                  (actorPtr (vr_ActorUserID req))) (\<lambda>_.
       bind_db (UpdateScenarioTemplateActiveSpec env (vr_TenantID req) (tpl_ID existing) spec (maxVersion + 1)) (\<lambda>updated.
       then_audit s env (vr_TenantID req) (tpl_Key updated) ''version'' (vr_ActorUserID req)
         [(''template_key'', GStr (tpl_Key updated)),
          (''version'', GNum (of_int (maxVersion + 1)) (Itoa (maxVersion + 1)))] updated))))))"

definition ListVersions :: "db_env \<Rightarrow> uuid \<Rightarrow> string \<Rightarrow> ScenarioTemplateVersion list db_action" where
  "ListVersions env tenantID key0 =
     (let key = TrimSpace key0 in
      guard_db (fail_if (key = []) ErrScenarioTemplateNotFound)
      (bind_db (GetScenarioTemplateByKey env tenantID key) (\<lambda>template.
       ListScenarioTemplateVersions env tenantID (tpl_ID template))))"

record PatchScenarioTemplateRequest =
  pt_TenantID :: uuid
  pt_ActorUserID :: uuid
  pt_Key :: string
  pt_Status :: "string option"
  pt_Name :: "string option"
  pt_Description :: "string option"

definition knownScenarioTemplateStatuses :: "string list" where
  "knownScenarioTemplateStatuses = [''active'', ''disabled'']"

definition patched :: "string option \<Rightarrow> string \<Rightarrow> string" where
  "patched p old = (case p of None \<Rightarrow> old | Some v \<Rightarrow> TrimSpace v)"

definition patch_check :: "PatchScenarioTemplateRequest \<Rightarrow> registry_error option" where
  "patch_check req =
     or_else
       (case pt_Status req of None \<Rightarrow> None
        | Some v \<Rightarrow> fail_if (TrimSpace v \<notin> set knownScenarioTemplateStatuses) (ErrInvalidInput (UnsupportedStatus (TrimSpace v))))
       (case pt_Name req of None \<Rightarrow> None
        | Some v \<Rightarrow> fail_if (TrimSpace v = []) (ErrInvalidInput NameCannotBeBlank))"

definition Patch :: "Service \<Rightarrow> db_env \<Rightarrow> PatchScenarioTemplateRequest \<Rightarrow> ScenarioTemplate db_action" where
  "Patch s env req =
     (let key = TrimSpace (pt_Key req) in
      guard_db
        (or_else (fail_if (pt_TenantID req = uuid_Nil) (ErrInvalidInput TenantIDRequired))
                 (fail_if (key = []) (ErrInvalidInput KeyRequired)))
      (bind_db (GetScenarioTemplateByKey env (pt_TenantID req) key) (\<lambda>existing.
       guard_db (patch_check req)
       (let status = patched (pt_Status req) (tpl_Status existing);
            name = patched (pt_Name req) (tpl_Name existing);
            description = patched (pt_Description req) (tpl_Description existing)
        in bind_db (UpdateScenarioTemplateStatus env (pt_TenantID req) (tpl_ID existing) status name description) (\<lambda>updated.
           then_audit s env (pt_TenantID req) (tpl_Key updated)
             (if status \<noteq> tpl_Status existing then ''status'' else ''update'') (pt_ActorUserID req)
             ([(''template_key'', GStr (tpl_Key updated))] @
              (if status \<noteq> tpl_Status existing then [(''status'', GStrs [tpl_Status existing, status])] else []) @
              (if name \<noteq> tpl_Name existing then [(''name'', GStrs [tpl_Name existing, name])] else []) @
              (if description \<noteq> tpl_Description existing
               then [(''description'', GStrs [tpl_Description existing, description])] else []))
             updated)))))"

record DeleteScenarioTemplateRequest =
  del_TenantID :: uuid
  del_ActorUserID :: uuid
  del_Key :: string

definition Delete :: "Service \<Rightarrow> db_env \<Rightarrow> DeleteScenarioTemplateRequest \<Rightarrow> unit db_action" where
  "Delete s env req =
     (let key = TrimSpace (del_Key req) in
      guard_db
        (or_else (fail_if (del_TenantID req = uuid_Nil) (ErrInvalidInput TenantIDRequired))
                 (fail_if (key = []) (ErrInvalidInput KeyRequired)))
      (bind_db (GetScenarioTemplateByKey env (del_TenantID req) key) (\<lambda>existing.
       bind_db (SoftDeleteScenarioTemplate env (del_TenantID req) (tpl_ID existing)) (\<lambda>_.
       then_audit s env (del_TenantID req) (tpl_Key existing) ''delete'' (del_ActorUserID req)
         [(''template_key'', GStr (tpl_Key existing)), (''name'', GStr (tpl_Name existing))] ()))))"

section \<open>The invariant of the registry\<close>

datatype registry_request =
    ReqCreate CreateScenarioTemplateRequest
  | ReqCreateVersion CreateScenarioTemplateVersionRequest
  | ReqPatch PatchScenarioTemplateRequest
  | ReqDelete DeleteScenarioTemplateRequest

definition serve :: "Service \<Rightarrow> db_env \<Rightarrow> registry_request \<Rightarrow> registry_db \<Rightarrow> registry_db" where
  "serve s env req db =
     (case req of
        ReqCreate r \<Rightarrow> snd (Create s env r db)
      | ReqCreateVersion r \<Rightarrow> snd (CreateVersion s env r db)
      | ReqPatch r \<Rightarrow> snd (Patch s env r db)
      | ReqDelete r \<Rightarrow> snd (Delete s env r db))"

definition empty_registry :: registry_db where
  "empty_registry = \<lparr>db_templates = [], db_versions = [], db_audit = []\<rparr>"

text \<open>Any sequence of calls, each with any failures of the database.\<close>

inductive reachable_registry :: "Service \<Rightarrow> registry_db \<Rightarrow> bool" for s where
  initial: "reachable_registry s empty_registry"
| served: "reachable_registry s db \<Longrightarrow> reachable_registry s (serve s env req db)"

definition spec_accepted :: "gmap \<Rightarrow> bool" where
  "spec_accepted raw \<longleftrightarrow>
     \<not> fst (MissingSpecVersionForV2Shape raw) \<and> \<not> fst (MissingSpecVersionForV3Shape raw) \<and>
     (case ParseSpec raw of Inl _ \<Rightarrow> False | Inr _ \<Rightarrow> True)"

definition row_wellformed :: "template_row \<Rightarrow> bool" where
  "row_wellformed r \<longleftrightarrow>
     templateKeyPattern (tpl_Key (row_template r)) \<and> row_checks (row_template r) \<and>
     spec_accepted (tpl_Spec (row_template r))"

definition live_keys_unique :: "template_row list \<Rightarrow> bool" where
  "live_keys_unique rows \<longleftrightarrow>
     distinct (map (\<lambda>r. (tpl_TenantID (row_template r), tpl_Key (row_template r)))
       (filter (\<lambda>r. \<not> row_deleted r) rows))"

definition template_exists :: "registry_db \<Rightarrow> uuid \<Rightarrow> uuid \<Rightarrow> bool" where
  "template_exists db tenantID templateID \<longleftrightarrow>
     (\<exists>r \<in> set (db_templates db). tpl_TenantID (row_template r) = tenantID \<and> tpl_ID (row_template r) = templateID)"

definition numbered_from_one :: "registry_db \<Rightarrow> bool" where
  "numbered_from_one db \<longleftrightarrow>
     (\<forall>tn t n. 1 \<le> n \<longrightarrow> (n \<in> ver_Version ` set (versions_of db tn t)) = (n \<le> max_version db tn t))"

definition registry_inv :: "registry_db \<Rightarrow> bool" where
  "registry_inv db \<longleftrightarrow>
     distinct (map (tpl_ID \<circ> row_template) (db_templates db)) \<and>
     live_keys_unique (db_templates db) \<and>
     (\<forall>r \<in> set (db_templates db). row_wellformed r) \<and>
     distinct (map (\<lambda>v. (ver_TemplateID v, ver_Version v)) (db_versions db)) \<and>
     (\<forall>v \<in> set (db_versions db). spec_accepted (ver_Spec v) \<and> int32 (ver_Version v) = ver_Version v \<and>
        template_exists db (ver_TenantID v) (ver_TemplateID v)) \<and>
     numbered_from_one db"

lemma int32_idem [simp]: "int32 (int32 i) = int32 i"
  by (simp add: int32_def)

lemma int32_range: "- (2 ^ 31) \<le> int32 i" "int32 i < 2 ^ 31"
  by (simp_all add: int32_def)

lemma int32_id: "- (2 ^ 31) \<le> i \<Longrightarrow> i < 2 ^ 31 \<Longrightarrow> int32 i = i"
  by (simp add: int32_def mod_pos_pos_trivial)

lemma int32_wrap: "int32 (2 ^ 31) = - (2 ^ 31)"
  by (simp add: int32_def)

lemma foldl_max_append: "foldl max n (ns @ [m]) = max (foldl max n ns) m" for n m :: int
  by simp

lemma coalesce_max_append:
  "coalesce_max (ns @ [n]) = (if ns = [] then n else max (coalesce_max ns) n)"
  by (simp add: coalesce_max_def split: list.splits)

lemma coalesce_max_ge: "n \<in> set ns \<Longrightarrow> n \<le> coalesce_max ns"
  by (induction ns rule: rev_induct) (auto simp: coalesce_max_append)

lemma coalesce_max_in: "ns \<noteq> [] \<Longrightarrow> coalesce_max ns \<in> set ns"
  by (induction ns rule: rev_induct) (auto simp: coalesce_max_append max_def)

lemma versions_of_append:
  "versions_of (db\<lparr>db_versions := db_versions db @ [v]\<rparr>) tn t =
     versions_of db tn t @ (if ver_TenantID v = tn \<and> ver_TemplateID v = t then [v] else [])"
  by (simp add: versions_of_def)

lemma versions_of_other [simp]:
  "versions_of (db\<lparr>db_templates := ts\<rparr>) tn t = versions_of db tn t"
  "versions_of (db\<lparr>db_audit := a\<rparr>) tn t = versions_of db tn t"
  by (simp_all add: versions_of_def)

lemma max_version_other [simp]:
  "max_version (db\<lparr>db_templates := ts\<rparr>) tn t = max_version db tn t"
  "max_version (db\<lparr>db_audit := a\<rparr>) tn t = max_version db tn t"
  by (simp_all add: max_version_def)

lemma numbered_other [simp]:
  "numbered_from_one (db\<lparr>db_templates := ts\<rparr>) = numbered_from_one db"
  "numbered_from_one (db\<lparr>db_audit := a\<rparr>) = numbered_from_one db"
  by (simp_all add: numbered_from_one_def)

lemma max_version_int32:
  assumes "\<forall>v \<in> set (db_versions db). int32 (ver_Version v) = ver_Version v"
  shows "- (2 ^ 31) \<le> max_version db tn t" "max_version db tn t < 2 ^ 31"
proof -
  have "- (2 ^ 31) \<le> max_version db tn t \<and> max_version db tn t < 2 ^ 31"
  proof (cases "versions_of db tn t = []")
    case False
    then have "max_version db tn t \<in> ver_Version ` set (versions_of db tn t)"
      using coalesce_max_in [of "map ver_Version (versions_of db tn t)"] by (simp add: max_version_def)
    then show ?thesis using assms int32_range by (auto simp: versions_of_def) (metis, metis)
  qed (simp add: max_version_def coalesce_max_def)
  then show "- (2 ^ 31) \<le> max_version db tn t" "max_version db tn t < 2 ^ 31" by auto
qed

lemma numbered_add_version:
  assumes num: "numbered_from_one db"
    and rng: "\<forall>v \<in> set (db_versions db). int32 (ver_Version v) = ver_Version v"
    and v: "ver_Version v = int32 (max_version db (ver_TenantID v) (ver_TemplateID v) + 1)"
  shows "numbered_from_one (db\<lparr>db_versions := db_versions db @ [v]\<rparr>)"
  unfolding numbered_from_one_def
proof (intro allI impI)
  fix tn t and n :: int
  assume n: "1 \<le> n"
  let ?db = "db\<lparr>db_versions := db_versions db @ [v]\<rparr>" and ?m = "max_version db tn t"
  have old: "n \<in> ver_Version ` set (versions_of db tn t) \<longleftrightarrow> n \<le> ?m"
    using num n by (simp add: numbered_from_one_def)
  show "(n \<in> ver_Version ` set (versions_of ?db tn t)) = (n \<le> max_version ?db tn t)"
  proof (cases "ver_TenantID v = tn \<and> ver_TemplateID v = t")
    case False
    then have "versions_of ?db tn t = versions_of db tn t" by (auto simp: versions_of_append)
    then show ?thesis using old by (simp add: max_version_def)
  next
    case True
    have max: "max_version ?db tn t = (if versions_of db tn t = [] then ver_Version v else max ?m (ver_Version v))"
      using True by (simp add: max_version_def versions_of_append coalesce_max_append)
    note r = max_version_int32 [OF rng, of tn t]
    consider "?m + 1 < 2 ^ 31" | "?m = 2 ^ 31 - 1" using r by linarith
    then show ?thesis
    proof cases
      case 1
      then have "ver_Version v = ?m + 1" using v True r by (simp add: int32_id)
      moreover have "?m = 0" if "versions_of db tn t = []" using that by (simp add: max_version_def coalesce_max_def)
      ultimately show ?thesis using old True n max by (auto simp: versions_of_append)
    next
      case 2
      then have "ver_Version v = - (2 ^ 31)" using v True int32_wrap by simp
      moreover have "versions_of db tn t \<noteq> []" using 2 by (auto simp: max_version_def coalesce_max_def)
      ultimately show ?thesis using old True n max 2 by (auto simp: versions_of_append)
    qed
  qed
qed

subsection \<open>What one statement may do\<close>

lemma registry_inv_add_template:
  assumes "registry_inv db" "row_wellformed r"
    and "tpl_ID (row_template r) \<notin> (tpl_ID \<circ> row_template) ` set (db_templates db)"
    and "\<not> list_ex (is_live (tpl_TenantID (row_template r)) (tpl_Key (row_template r))) (db_templates db)"
  shows "registry_inv (db\<lparr>db_templates := db_templates db @ [r]\<rparr>)"
  using assms
  by (auto simp: registry_inv_def live_keys_unique_def template_exists_def list_ex_iff is_live_def)

lemma registry_inv_add_version:
  assumes "registry_inv db" "spec_accepted (ver_Spec v)"
    and "template_exists db (ver_TenantID v) (ver_TemplateID v)"
    and "ver_Version v = int32 (max_version db (ver_TenantID v) (ver_TemplateID v) + 1)"
    and "\<not> list_ex (\<lambda>w. ver_TemplateID w = ver_TemplateID v \<and> ver_Version w = ver_Version v) (db_versions db)"
  shows "registry_inv (db\<lparr>db_versions := db_versions db @ [v]\<rparr>)"
proof -
  have "numbered_from_one (db\<lparr>db_versions := db_versions db @ [v]\<rparr>)"
    using assms(1,4) by (intro numbered_add_version) (auto simp: registry_inv_def)
  moreover have "int32 (ver_Version v) = ver_Version v" using assms(4) by simp
  ultimately show ?thesis
    using assms by (auto simp: registry_inv_def template_exists_def list_ex_iff)
qed

text \<open>An update that keeps identity and key, and never revives a row.\<close>

definition keeps_identity :: "(template_row \<Rightarrow> template_row) \<Rightarrow> bool" where
  "keeps_identity f \<longleftrightarrow>
     (\<forall>r. tpl_ID (row_template (f r)) = tpl_ID (row_template r) \<and>
          tpl_TenantID (row_template (f r)) = tpl_TenantID (row_template r) \<and>
          tpl_Key (row_template (f r)) = tpl_Key (row_template r) \<and>
          (row_deleted r \<longrightarrow> row_deleted (f r)))"

lemma live_keys_unique_map:
  assumes "keeps_identity f" "live_keys_unique rows"
  shows "live_keys_unique (map (\<lambda>r. if hit r then f r else r) rows)"
  using assms(2)
proof (induction rows)
  case (Cons r rows)
  let ?k = "\<lambda>r. (tpl_TenantID (row_template r), tpl_Key (row_template r))"
  let ?g = "\<lambda>r. if hit r then f r else r"
  have k: "?k (?g r) = ?k r" and del: "row_deleted r \<Longrightarrow> row_deleted (?g r)" for r
    using assms(1) by (auto simp: keeps_identity_def)
  have sub: "?k ` set (filter (\<lambda>r. \<not> row_deleted r) (map ?g rows)) \<subseteq> ?k ` set (filter (\<lambda>r. \<not> row_deleted r) rows)"
    using k del by (auto simp: image_iff simp del: if_split) (metis (lifting))
  show ?case
  proof (cases "row_deleted r")
    case True
    with Cons del [OF True] show ?thesis by (simp add: live_keys_unique_def)
  next
    case False
    with Cons.prems have "?k r \<notin> ?k ` set (filter (\<lambda>r. \<not> row_deleted r) rows)" "live_keys_unique rows"
      by (simp_all add: live_keys_unique_def)
    with Cons.IH sub k [of r] show ?thesis
      unfolding live_keys_unique_def by (cases "row_deleted (?g r)") (auto simp del: if_split)
  qed
qed (simp add: live_keys_unique_def)

lemma registry_inv_update:
  assumes inv: "registry_inv db" and f: "keeps_identity f"
    and wf: "\<And>r. r \<in> set (db_templates db) \<Longrightarrow> hit r \<Longrightarrow> row_wellformed (f r)"
  shows "registry_inv (db\<lparr>db_templates := map (\<lambda>r. if hit r then f r else r) (db_templates db)\<rparr>)"
proof -
  let ?g = "\<lambda>r. if hit r then f r else r"
  have id: "tpl_ID (row_template (?g r)) = tpl_ID (row_template r)"
    and tn: "tpl_TenantID (row_template (?g r)) = tpl_TenantID (row_template r)" for r
    using f by (auto simp: keeps_identity_def)
  have "map (tpl_ID \<circ> row_template) (map ?g (db_templates db)) = map (tpl_ID \<circ> row_template) (db_templates db)"
    using id by (simp del: if_split)
  moreover have "template_exists (db\<lparr>db_templates := map ?g (db_templates db)\<rparr>) a b \<longleftrightarrow> template_exists db a b" for a b
    using id tn by (simp add: template_exists_def del: if_split if_image_distrib)
  moreover have "live_keys_unique (map ?g (db_templates db))"
    using inv by (intro live_keys_unique_map [OF f]) (simp add: registry_inv_def)
  ultimately show ?thesis using inv wf unfolding registry_inv_def by (auto simp del: map_map)
qed

lemma rows_by_id:
  assumes "registry_inv db" "r \<in> set (db_templates db)" "r' \<in> set (db_templates db)"
    and "tpl_ID (row_template r) = tpl_ID (row_template r')"
  shows "r = r'"
  using assms by (auto simp: registry_inv_def distinct_map inj_on_def)

lemma registry_inv_audit [simp]: "registry_inv (db\<lparr>db_audit := a\<rparr>) = registry_inv db"
  by (simp add: registry_inv_def template_exists_def)

lemma stmt_state: "snd (stmt env op run db) = db \<or> snd (stmt env op run db) = snd (run db)"
  by (simp add: stmt_def split: db_fault.splits)

lemma stmt_Inr: "stmt env op run db = (Inr x, db') \<Longrightarrow> run db = (Inr x, db')"
  by (auto simp: stmt_def split: db_fault.splits)

lemma stmt_read: "(\<And>db. snd (run db) = db) \<Longrightarrow> snd (stmt env op run db) = db"
  by (simp add: stmt_def split: db_fault.splits)

lemma recordAudit_state: "\<exists>a. recordAudit s env tn k act who det db = db\<lparr>db_audit := a\<rparr>"
proof -
  have "\<exists>a. db = db\<lparr>db_audit := a\<rparr>" by (rule exI [of _ "db_audit db"]) simp
  then show ?thesis by (auto simp: recordAudit_def Let_def stmt_def split: db_fault.splits)
qed

lemma registry_inv_recordAudit [simp]: "registry_inv (recordAudit s env tn k act who det db) = registry_inv db"
  using recordAudit_state [of s env tn k act who det db] by auto

lemma snd_bind_db:
  "snd (bind_db m k db) = (case m db of (Inl _, db') \<Rightarrow> db' | (Inr x, db') \<Rightarrow> snd (k x db'))"
  by (simp add: bind_db_def split: prod.splits sum.splits)

lemma bind_db_inv:
  assumes "P (snd (m db))" "\<And>x db'. m db = (Inr x, db') \<Longrightarrow> P db' \<Longrightarrow> P (snd (k x db'))"
  shows "P (snd (bind_db m k db))"
  using assms by (auto simp: bind_db_def split: prod.splits sum.splits)

lemma bind_read_inv:
  assumes "snd (m db) = db" "P db" "\<And>x. m db = (Inr x, db) \<Longrightarrow> P (snd (k x db))"
  shows "P (snd (bind_db m k db))"
  using assms by (auto simp: bind_db_def split: prod.splits sum.splits)

lemma guard_db_inv:
  assumes "P db" "err = None \<Longrightarrow> P (snd (k db))"
  shows "P (snd (guard_db err k db))"
  using assms by (simp add: guard_db_def split: option.splits)


lemma GetScenarioTemplateByKey_state: "snd (GetScenarioTemplateByKey env tn key db) = db"
  unfolding GetScenarioTemplateByKey_def by (rule stmt_read) simp

lemma GetScenarioTemplateMaxVersion_state: "snd (GetScenarioTemplateMaxVersion env tn t db) = db"
  unfolding GetScenarioTemplateMaxVersion_def by (rule stmt_read) simp

lemma key_is_free_state: "snd (key_is_free env tn key db) = db"
  using GetScenarioTemplateByKey_state [of env tn key db]
  by (cases "GetScenarioTemplateByKey env tn key db") (auto simp: key_is_free_def split: prod.splits sum.splits registry_error.splits)

lemma GetScenarioTemplateByKey_Inr:
  assumes "GetScenarioTemplateByKey env tn key db = (Inr t, db')"
  shows "db' = db \<and> (\<exists>r \<in> set (db_templates db). row_template r = t \<and> is_live tn key r)"
  using stmt_Inr [OF assms [unfolded GetScenarioTemplateByKey_def]]
  by (auto split: option.splits simp: find_Some_iff)

lemma GetScenarioTemplateMaxVersion_Inr:
  "GetScenarioTemplateMaxVersion env tn t db = (Inr n, db') \<Longrightarrow> db' = db \<and> n = max_version db tn t"
  using stmt_Inr [of env OpMaxVersion] by (fastforce simp: GetScenarioTemplateMaxVersion_def)

lemma CreateScenarioTemplate_inv:
  assumes "registry_inv db" "templateKeyPattern key" "spec_accepted spec"
  shows "registry_inv (snd (CreateScenarioTemplate env tn key name desc spec who db))"
proof -
  let ?t = "new_template env tn key name desc spec"
  let ?r = "\<lparr>row_template = ?t, row_created_by = nullUUIDFromPtr who, row_deleted = False\<rparr>"
  have "registry_inv (db\<lparr>db_templates := db_templates db @ [?r]\<rparr>)"
    if "row_checks ?t" "\<not> list_ex (\<lambda>r. tpl_ID (row_template r) = tpl_ID ?t \<or> is_live tn key r) (db_templates db)"
    using assms that
    by (intro registry_inv_add_template) (auto simp: row_wellformed_def new_template_def list_ex_iff)
  then show ?thesis
    using assms(1) by (auto simp: CreateScenarioTemplate_def stmt_def Let_def split: db_fault.splits)
qed

lemma CreateScenarioTemplate_Inr:
  assumes "CreateScenarioTemplate env tn key name desc spec who db = (Inr t, db')"
  shows "t = new_template env tn key name desc spec \<and>
    db' = db\<lparr>db_templates := db_templates db @ [\<lparr>row_template = t, row_created_by = nullUUIDFromPtr who, row_deleted = False\<rparr>]\<rparr> \<and>
    tpl_ID t \<notin> (tpl_ID \<circ> row_template) ` set (db_templates db)"
  using stmt_Inr [OF assms [unfolded CreateScenarioTemplate_def]]
  by (auto simp: Let_def list_ex_iff split: if_splits)

lemma CreateScenarioTemplateVersion_inv:
  assumes "registry_inv db" "spec_accepted spec" "template_exists db tn t"
    and "version = max_version db tn t + 1"
  shows "registry_inv (snd (CreateScenarioTemplateVersion env tn t version spec who db))"
proof -
  let ?v = "\<lparr>ver_ID = env_version_id env, ver_TenantID = tn, ver_TemplateID = t,
             ver_Version = int32 version, ver_Spec = spec, ver_CreatedBy = nullUUIDFromPtr who,
             ver_CreatedAt = env_now env\<rparr>"
  have "registry_inv (db\<lparr>db_versions := db_versions db @ [?v]\<rparr>)"
    if "\<not> list_ex (\<lambda>w. ver_ID w = ver_ID ?v \<or> ver_TemplateID w = t \<and> ver_Version w = ver_Version ?v) (db_versions db)"
    using assms that by (intro registry_inv_add_version) (auto simp: list_ex_iff)
  then show ?thesis
    using assms(1) by (auto simp: CreateScenarioTemplateVersion_def stmt_def Let_def split: db_fault.splits)
qed

lemma keeps_identity_touch: "keeps_identity f \<Longrightarrow> keeps_identity (touch env f)"
  by (simp add: keeps_identity_def touch_def)

lemma row_hit_unique:
  assumes "registry_inv db" "r \<in> set (db_templates db)" "row_hit tn t r" "r' \<in> set (db_templates db)" "row_hit tn t r'"
  shows "r = r'"
  using rows_by_id [OF assms(1,2,4)] assms(3,5) by (simp add: row_hit_def)

lemma update_row_inv:
  assumes inv: "registry_inv db" and f: "keeps_identity f"
    and acc: "\<And>r. row_wellformed r \<Longrightarrow> spec_accepted (tpl_Spec (row_template (f r)))"
  shows "registry_inv (snd (update_row env tn t f db))"
proof (cases "find (row_hit tn t) (db_templates db)")
  case (Some r0)
  then have r0: "r0 \<in> set (db_templates db)" "row_hit tn t r0" by (auto simp: find_Some_iff)
  have "row_wellformed (touch env f r)"
    if "row_checks (row_template (touch env f r0))" "r \<in> set (db_templates db)" "row_hit tn t r" for r
  proof -
    have "r = r0" using row_hit_unique [OF inv] that r0 by blast
    moreover have "row_wellformed r0" using inv r0 by (simp add: registry_inv_def)
    ultimately show ?thesis using that(1) acc [of r0] f
      by (auto simp: row_wellformed_def keeps_identity_def touch_def)
  qed
  then have "registry_inv (db\<lparr>db_templates := map (\<lambda>r. if row_hit tn t r then touch env f r else r) (db_templates db)\<rparr>)"
    if "row_checks (row_template (touch env f r0))"
    using that by (intro registry_inv_update [OF inv keeps_identity_touch [OF f]]) auto
  then show ?thesis using Some inv by (simp add: update_row_def)
qed (use inv in \<open>simp add: update_row_def\<close>)

lemma ByKey_exists:
  assumes "GetScenarioTemplateByKey env tn key db = (Inr t, db')"
  shows "db' = db" "template_exists db tn (tpl_ID t)"
  using GetScenarioTemplateByKey_Inr [OF assms] by (auto simp: template_exists_def is_live_def)

lemma check_new_spec_accepted: "check_new_spec s tn spec = None \<Longrightarrow> spec_accepted spec"
  by (auto simp: check_new_spec_def spec_accepted_def rejectVersionlessV2Spec_def rejectVersionlessV3Spec_def
      split: prod.splits sum.splits)

lemma stmt_inv: "P db \<Longrightarrow> P (snd (run db)) \<Longrightarrow> P (snd (stmt env op run db))"
  using stmt_state [of env op run db] by auto

lemma UpdateScenarioTemplateActiveSpec_inv:
  assumes "registry_inv db" "spec_accepted spec"
  shows "registry_inv (snd (UpdateScenarioTemplateActiveSpec env tn t spec version db))"
  unfolding UpdateScenarioTemplateActiveSpec_def
  by (rule stmt_inv [where P = registry_inv, OF assms(1)], rule update_row_inv [OF assms(1)])
    (simp_all add: keeps_identity_def assms)

lemma UpdateScenarioTemplateStatus_inv:
  assumes "registry_inv db"
  shows "registry_inv (snd (UpdateScenarioTemplateStatus env tn t status name desc db))"
  unfolding UpdateScenarioTemplateStatus_def
  by (rule stmt_inv [where P = registry_inv, OF assms], rule update_row_inv [OF assms])
    (simp_all add: keeps_identity_def row_wellformed_def)

lemma SoftDeleteScenarioTemplate_inv:
  assumes "registry_inv db"
  shows "registry_inv (snd (SoftDeleteScenarioTemplate env tn t db))"
  unfolding SoftDeleteScenarioTemplate_def
  by (rule stmt_inv [where P = registry_inv, OF assms], rule update_row_inv [OF assms])
    (simp_all add: keeps_identity_def row_wellformed_def)

lemma then_audit_inv [simp]:
  "registry_inv (snd (then_audit s env tn k act who det x db)) = registry_inv db"
  by (simp add: then_audit_def)

lemma max_version_new_template:
  assumes "registry_inv db" "t \<notin> (tpl_ID \<circ> row_template) ` set (db_templates db)"
  shows "max_version db tn t = 0"
proof -
  have "versions_of db tn t = []"
    using assms by (force simp: versions_of_def filter_empty_conv registry_inv_def template_exists_def)
  then show ?thesis by (simp add: max_version_def coalesce_max_def)
qed

lemma Create_inv: "registry_inv db \<Longrightarrow> registry_inv (snd (Create s env req db))"
  unfolding Create_def Let_def
proof (rule guard_db_inv [where P = registry_inv], assumption, rule bind_db_inv [where P = registry_inv], goal_cases)
  case 1 then show ?case by (simp add: key_is_free_state)
next
  case (2 x db')
  then have acc: "spec_accepted (cr_Spec req)" and key: "templateKeyPattern (TrimSpace (cr_Key req))"
    by (auto simp: validateTemplateKey_def dest: check_new_spec_accepted)
  from 2 have inv: "registry_inv db'" by simp
  show ?case
  proof (rule bind_db_inv [where P = registry_inv], goal_cases)
    case 1 show ?case by (rule CreateScenarioTemplate_inv [OF inv key acc])
  next
    case (2 t db'')
    note new = CreateScenarioTemplate_Inr [OF 2(1)]
    then have "max_version db' (cr_TenantID req) (tpl_ID t) = 0" using max_version_new_template [OF inv] by blast
    then have "max_version db'' (cr_TenantID req) (tpl_ID t) = 0" using new by simp
    moreover have "template_exists db'' (cr_TenantID req) (tpl_ID t)"
      using new by (auto simp: template_exists_def new_template_def)
    ultimately have "registry_inv (snd (CreateScenarioTemplateVersion env (cr_TenantID req) (tpl_ID t) 1 (cr_Spec req) who db''))"
      for who by (intro CreateScenarioTemplateVersion_inv 2(2) acc) simp_all
    then show ?case by (rule bind_db_inv [where P = registry_inv]) simp
  qed
qed

lemma CreateVersion_inv: "registry_inv db \<Longrightarrow> registry_inv (snd (CreateVersion s env req db))"
  unfolding CreateVersion_def Let_def
proof (rule guard_db_inv [where P = registry_inv], assumption, rule bind_db_inv [where P = registry_inv], goal_cases)
  case 1 then show ?case by (simp add: GetScenarioTemplateByKey_state)
next
  case (2 t db')
  then have acc: "spec_accepted (vr_Spec req)" by (auto dest: check_new_spec_accepted)
  note ex = ByKey_exists [OF 2(3)]
  show ?case
  proof (rule bind_read_inv [where P = registry_inv, OF GetScenarioTemplateMaxVersion_state], rule 2(4))
    fix n assume "GetScenarioTemplateMaxVersion env (vr_TenantID req) (tpl_ID t) db' = (Inr n, db')"
    then have n: "n + 1 = max_version db' (vr_TenantID req) (tpl_ID t) + 1"
      by (simp add: GetScenarioTemplateMaxVersion_Inr)
    show "registry_inv (snd (bind_db (CreateScenarioTemplateVersion env (vr_TenantID req) (tpl_ID t) (n + 1) (vr_Spec req)
         (actorPtr (vr_ActorUserID req))) (\<lambda>_.
       bind_db (UpdateScenarioTemplateActiveSpec env (vr_TenantID req) (tpl_ID t) (vr_Spec req) (n + 1)) (\<lambda>updated.
       then_audit s env (vr_TenantID req) (tpl_Key updated) ''version'' (vr_ActorUserID req)
         [(''template_key'', GStr (tpl_Key updated)), (''version'', GNum (of_int (n + 1)) (Itoa (n + 1)))] updated)) db'))"
      by (rule bind_db_inv [where P = registry_inv],
          rule CreateScenarioTemplateVersion_inv [OF 2(4) acc _ n], use ex in simp,
          rule bind_db_inv [where P = registry_inv], rule UpdateScenarioTemplateActiveSpec_inv [OF _ acc], assumption, simp)
  qed
qed

lemma Patch_inv: "registry_inv db \<Longrightarrow> registry_inv (snd (Patch s env req db))"
  unfolding Patch_def Let_def
  by (rule guard_db_inv [where P = registry_inv], assumption,
      rule bind_read_inv [where P = registry_inv, OF GetScenarioTemplateByKey_state], assumption,
      rule guard_db_inv [where P = registry_inv], assumption,
      rule bind_db_inv [where P = registry_inv], rule UpdateScenarioTemplateStatus_inv, assumption, simp)

lemma Delete_inv: "registry_inv db \<Longrightarrow> registry_inv (snd (Delete s env req db))"
  unfolding Delete_def Let_def
  by (rule guard_db_inv [where P = registry_inv], assumption,
      rule bind_read_inv [where P = registry_inv, OF GetScenarioTemplateByKey_state], assumption,
      rule bind_db_inv [where P = registry_inv], rule SoftDeleteScenarioTemplate_inv, assumption, simp)

lemma serve_inv: "registry_inv db \<Longrightarrow> registry_inv (serve s env req db)"
  by (cases req) (simp_all add: serve_def Create_inv CreateVersion_inv Patch_inv Delete_inv)


lemma reachable_registry_inv:
  assumes "reachable_registry s db"
  shows "registry_inv db"
  using assms
proof induction
  case initial
  then show ?case
    by (simp add: empty_registry_def registry_inv_def live_keys_unique_def numbered_from_one_def
        versions_of_def max_version_def coalesce_max_def)
next
  case (served db env req)
  then show ?case by (intro serve_inv)
qed

text \<open>
  Claim C11: the registry stays consistent. After any sequence of creations, version bumps, patches
  and deletions, with database failures and lost replies at any statement, template identifiers are
  unique, a tenant has at most one live template per key, every row satisfies the key grammar and
  the column constraints, every stored specification (current or historic) passed the version guards
  and parses, a version belongs to a template of its tenant, no version number is used twice for a
  template, and the version numbers from 1 to the highest are all present.
\<close>

theorem registry_stays_consistent:
  assumes "reachable_registry s db"
  shows "registry_inv db"
  using assms by (rule reachable_registry_inv)

definition example_service :: Service where
  "example_service =
     \<lparr>svc_vocabulary = None, svc_roleVocabulary = None, svc_roleHolderCounter = None, svc_audit = True,
      svc_uuids = decimal_uuid_lib\<rparr>"

definition example_env :: "uuid \<Rightarrow> int \<Rightarrow> (db_op \<Rightarrow> db_fault) \<Rightarrow> db_env" where
  "example_env i now fault = \<lparr>env_template_id = i, env_version_id = i, env_now = now, env_fault = fault\<rparr>"

definition example_create :: CreateScenarioTemplateRequest where
  "example_create =
     \<lparr>cr_TenantID = 7, cr_ActorUserID = 9, cr_Key = ''release_train'', cr_Name = ''Release train'',
      cr_Description = [], cr_Spec = []\<rparr>"

definition example_bump :: CreateScenarioTemplateVersionRequest where
  "example_bump =
     \<lparr>vr_TenantID = 7, vr_ActorUserID = 9, vr_Key = ''release_train'', vr_Spec = [(''spec_version'', GNum 2 ''2'')]\<rparr>"

definition example_registry :: registry_db where
  "example_registry =
     serve example_service (example_env 2 20 (\<lambda>_. Healthy)) (ReqCreateVersion example_bump)
       (serve example_service (example_env 1 10 (\<lambda>_. Healthy)) (ReqCreate example_create) empty_registry)"

lemma example_registry_reachable: "reachable_registry example_service example_registry"
  unfolding example_registry_def by (intro reachable_registry.intros)

theorem registry_stays_consistent_witness:
  "registry_inv example_registry \<and> map ver_Version (db_versions example_registry) = [1, 2]"
proof -
  have "map ver_Version (db_versions example_registry) = [1, 2]" by code_simp
  with registry_stays_consistent [OF example_registry_reachable] show ?thesis ..
qed

end
