(* ===== verification/Scenario_History.thy ===== *)
theory Scenario_History
  imports Scenario_Registry
begin

text \<open>
  The version history of a scenario template. The contract of a version log is the locale
  \<open>version_log\<close>, with the tables of the registry as its instance. The results: history is only ever
  appended to; a successful bump always leaves the main row equal to the newest version, whatever an
  earlier crash left behind; and without failures every main row mirrors its active version, which
  two failures in a row can break.
\<close>

section \<open>Version logs\<close>

locale version_log =
  fixes spec_at :: "'db \<Rightarrow> 'log \<Rightarrow> int \<Rightarrow> gmap option"
    and highest :: "'db \<Rightarrow> 'log \<Rightarrow> int"
    and add :: "'log \<Rightarrow> int \<Rightarrow> gmap \<Rightarrow> 'db \<Rightarrow> 'db option"
  assumes highest_bound: "spec_at db l n = Some s \<Longrightarrow> n \<le> highest db l"
    and add_free: "add l n s db = Some db' \<Longrightarrow> spec_at db l n = None"
    and add_spec_at: "add l n s db = Some db' \<Longrightarrow>
      spec_at db' l' n' = (if l' = l \<and> n' = n then Some s else spec_at db l' n')"
begin

lemma next_number_free: "spec_at db l (highest db l + 1) = None"
  using highest_bound [of db l "highest db l + 1"] by (cases "spec_at db l (highest db l + 1)") auto

lemma add_keeps: "add l n s db = Some db' \<Longrightarrow> spec_at db l' n' = Some s' \<Longrightarrow> spec_at db' l' n' = Some s'"
  using add_free add_spec_at by (metis option.distinct(1))

lemma bump_latest:
  assumes "add l (highest db l + 1) s db = Some db'"
  shows "spec_at db' l (highest db l + 1) = Some s" "highest db l < highest db' l"
proof -
  show *: "spec_at db' l (highest db l + 1) = Some s" using add_spec_at [OF assms] by simp
  show "highest db l < highest db' l" using highest_bound [OF *] by simp
qed

end

definition version_spec :: "registry_db \<Rightarrow> uuid \<times> uuid \<Rightarrow> int \<Rightarrow> gmap option" where
  "version_spec db = (\<lambda>(tn, t) n. map_option ver_Spec (find (\<lambda>v. ver_Version v = n) (versions_of db tn t)))"

text \<open>The insert of a version row with a number that fits the column.\<close>

definition insert_version :: "db_env \<Rightarrow> uuid option \<Rightarrow> uuid \<times> uuid \<Rightarrow> int \<Rightarrow> gmap \<Rightarrow> registry_db \<Rightarrow> registry_db option" where
  "insert_version env who = (\<lambda>(tn, t) n spec db.
     case CreateScenarioTemplateVersion env tn t n spec who db of
       (Inr _, db') \<Rightarrow> if int32 n = n then Some db' else None
     | _ \<Rightarrow> None)"

lemma CreateScenarioTemplateVersion_Inr:
  assumes "CreateScenarioTemplateVersion env tn t n spec who db = (Inr v, db')"
  shows "db' = db\<lparr>db_versions := db_versions db @ [v]\<rparr> \<and> ver_TenantID v = tn \<and> ver_TemplateID v = t \<and>
    ver_Version v = int32 n \<and> ver_Spec v = spec \<and>
    (\<forall>w \<in> set (db_versions db). ver_TemplateID w = t \<longrightarrow> ver_Version w \<noteq> int32 n)"
  using stmt_Inr [OF assms [unfolded CreateScenarioTemplateVersion_def]]
  by (auto simp: Let_def list_ex_iff split: if_splits)

lemma insert_version_Some:
  assumes "insert_version env who (tn, t) n s db = Some db'"
  obtains v where "CreateScenarioTemplateVersion env tn t n s who db = (Inr v, db')" "int32 n = n"
  using assms by (auto simp: insert_version_def split: prod.splits sum.splits if_splits)

lemma find_append_one:
  "find P (xs @ [y]) = (case find P xs of Some x \<Rightarrow> Some x | None \<Rightarrow> if P y then Some y else None)"
  by (induction xs) auto

interpretation pg_log: version_log version_spec "\<lambda>db (tn, t). max_version db tn t" "insert_version env who"
proof (unfold_locales, goal_cases)
  case (1 db l n s)
  then show ?case
    by (cases l) (auto simp: version_spec_def max_version_def find_Some_iff intro!: coalesce_max_ge)
next
  case (2 l n s db db')
  obtain tn t where l: "l = (tn, t)" by (cases l)
  from 2 obtain v where v: "CreateScenarioTemplateVersion env tn t n s who db = (Inr v, db')" "int32 n = n"
    unfolding l by (rule insert_version_Some)
  from CreateScenarioTemplateVersion_Inr [OF v(1)] v(2) show ?case
    by (auto simp: l version_spec_def find_None_iff versions_of_def)
next
  case (3 l n s db db' l' n')
  obtain tn t where l: "l = (tn, t)" by (cases l)
  obtain tn' t' where l': "l' = (tn', t')" by (cases l')
  from 3 obtain v where v: "CreateScenarioTemplateVersion env tn t n s who db = (Inr v, db')" "int32 n = n"
    unfolding l by (rule insert_version_Some)
  note new = CreateScenarioTemplateVersion_Inr [OF v(1)]
  have "find (\<lambda>v. ver_Version v = n) (versions_of db tn t) = None"
    using new v(2) by (auto simp: find_None_iff versions_of_def)
  with new v(2) show ?case
    by (auto simp: l l' version_spec_def versions_of_append find_append_one split: option.splits)
qed

section \<open>Outcomes of the statements\<close>

lemma bind_db_Inr:
  "bind_db m k db = (Inr y, db') \<Longrightarrow> \<exists>x db1. m db = (Inr x, db1) \<and> k x db1 = (Inr y, db')"
  by (auto simp: bind_db_def split: prod.splits sum.splits)

lemma guard_db_Inr: "guard_db err k db = (Inr y, db') \<Longrightarrow> err = None \<and> k db = (Inr y, db')"
  by (auto simp: guard_db_def split: option.splits)

lemma update_row_Inr:
  assumes "update_row env tn t f db = (Inr u, db')"
  shows "\<exists>r \<in> set (db_templates db). row_hit tn t r \<and> u = row_template (touch env f r) \<and>
    db' = db\<lparr>db_templates := map (\<lambda>r. if row_hit tn t r then touch env f r else r) (db_templates db)\<rparr>"
  using assms by (auto simp: update_row_def find_Some_iff split: option.splits if_splits)

lemma update_row_versions: "db_versions (snd (update_row env tn t f db)) = db_versions db"
  by (simp add: update_row_def split: option.splits)

lemma recordAudit_tables [simp]:
  "db_versions (recordAudit s env tn k act who det db) = db_versions db"
  "db_templates (recordAudit s env tn k act who det db) = db_templates db"
  "versions_of (recordAudit s env tn k act who det db) a b = versions_of db a b"
  using recordAudit_state [of s env tn k act who det db] by auto

text \<open>No statement but the insert of a version changes the versions.\<close>

definition extends_history :: "registry_db \<Rightarrow> registry_db \<Rightarrow> bool" where
  "extends_history db db' \<longleftrightarrow> prefix (db_versions db) (db_versions db')"

lemma extends_history_stmt:
  "(\<And>db. prefix (db_versions db) (db_versions (snd (run db)))) \<Longrightarrow>
    extends_history db0 db \<Longrightarrow> extends_history db0 (snd (stmt env op run db))"
  using stmt_state [of env op run db] unfolding extends_history_def
  by (metis prefix_order.trans)

lemma statements_extend_history:
  assumes "extends_history db0 db"
  shows "extends_history db0 (snd (CreateScenarioTemplate env tn key name desc spec who db))"
    and "extends_history db0 (snd (CreateScenarioTemplateVersion env tn t n spec who db))"
    and "extends_history db0 (snd (UpdateScenarioTemplateActiveSpec env tn t spec n db))"
    and "extends_history db0 (snd (UpdateScenarioTemplateStatus env tn t status name desc db))"
    and "extends_history db0 (snd (SoftDeleteScenarioTemplate env tn t db))"
    and "extends_history db0 (snd (then_audit s env tn k act who' det x db))"
proof -
  show "extends_history db0 (snd (CreateScenarioTemplate env tn key name desc spec who db))"
    unfolding CreateScenarioTemplate_def using assms by (rule extends_history_stmt [rotated]) (simp add: Let_def)
  show "extends_history db0 (snd (CreateScenarioTemplateVersion env tn t n spec who db))"
    unfolding CreateScenarioTemplateVersion_def using assms by (rule extends_history_stmt [rotated]) (simp add: Let_def)
  show "extends_history db0 (snd (UpdateScenarioTemplateActiveSpec env tn t spec n db))"
    unfolding UpdateScenarioTemplateActiveSpec_def using assms
    by (rule extends_history_stmt [rotated]) (simp add: update_row_versions)
  show "extends_history db0 (snd (UpdateScenarioTemplateStatus env tn t status name desc db))"
    unfolding UpdateScenarioTemplateStatus_def using assms
    by (rule extends_history_stmt [rotated]) (simp add: update_row_versions)
  show "extends_history db0 (snd (SoftDeleteScenarioTemplate env tn t db))"
    unfolding SoftDeleteScenarioTemplate_def using assms
    by (rule extends_history_stmt [rotated]) (simp add: update_row_versions)
  show "extends_history db0 (snd (then_audit s env tn k act who' det x db))"
    using assms by (simp add: then_audit_def extends_history_def)
qed

lemma serve_extends_history: "extends_history db (serve s env req db)"
proof -
  let ?P = "extends_history db"
  note rules = bind_db_inv [where P = ?P] guard_db_inv [where P = ?P]
  have P: "?P db" by (simp add: extends_history_def)
  have r1: "?P (snd (GetScenarioTemplateByKey env tn k db'))" if "?P db'" for tn k db'
    using that by (simp add: GetScenarioTemplateByKey_state)
  have r2: "?P (snd (GetScenarioTemplateMaxVersion env tn k db'))" if "?P db'" for tn k db'
    using that by (simp add: GetScenarioTemplateMaxVersion_state)
  have r3: "?P (snd (key_is_free env tn k db'))" if "?P db'" for tn k db'
    using that by (simp add: key_is_free_state)
  show ?thesis
    by (cases req)
      (simp_all add: serve_def Create_def CreateVersion_def Patch_def Delete_def Let_def,
       (intro rules statements_extend_history r1 r2 r3 P; assumption?)+)
qed

section \<open>Claims about the history\<close>

text \<open>
  Versions are immutable. Whatever the service is asked, and whatever fails, the version
  rows that exist stay as they are, in their order; new ones are only appended.
\<close>

theorem history_is_append_only:
  "prefix (db_versions db) (db_versions (serve s env req db))"
  using serve_extends_history [of db s env req] by (simp add: extends_history_def)

lemma find_live:
  assumes "registry_inv db" "r \<in> set (db_templates db)" "is_live tn key r"
  shows "find (is_live tn key) (db_templates db) = Some r"
proof -
  let ?k = "\<lambda>r. (tpl_TenantID (row_template r), tpl_Key (row_template r))"
  have "inj_on ?k (set (filter (\<lambda>r. \<not> row_deleted r) (db_templates db)))"
    using assms(1) by (simp add: registry_inv_def live_keys_unique_def distinct_map)
  then show ?thesis
    using assms by (intro find_unique) (auto simp: inj_on_def is_live_def)
qed

lemma CreateScenarioTemplateVersion_int32:
  "CreateScenarioTemplateVersion env tn t (int32 n) spec who = CreateScenarioTemplateVersion env tn t n spec who"
  by (simp add: CreateScenarioTemplateVersion_def)

text \<open>The successful run of \<open>CreateVersion\<close>, statement by statement.\<close>

lemma CreateVersion_run:
  assumes "CreateVersion s env req db = (Inr u, db')"
  shows "\<exists>t db1 db2 who.
    t \<in> set (db_templates db) \<and> is_live (vr_TenantID req) (TrimSpace (vr_Key req)) t \<and>
    spec_accepted (vr_Spec req) \<and>
    insert_version env who (vr_TenantID req, tpl_ID (row_template t))
      (int32 (max_version db (vr_TenantID req) (tpl_ID (row_template t)) + 1)) (vr_Spec req) db = Some db1 \<and>
    db_templates db1 = db_templates db \<and>
    update_row env (vr_TenantID req) (tpl_ID (row_template t)) (\<lambda>r. r\<lparr>row_template :=
      (row_template r)\<lparr>tpl_Spec := vr_Spec req, tpl_ActiveVersion :=
        int32 (max_version db (vr_TenantID req) (tpl_ID (row_template t)) + 1)\<rparr>\<rparr>) db1 = (Inr u, db2) \<and>
    (\<exists>a. db' = db2\<lparr>db_audit := a\<rparr>)"
proof -
  let ?tn = "vr_TenantID req" and ?key = "TrimSpace (vr_Key req)" and ?sp = "vr_Spec req"
  let ?who = "actorPtr (vr_ActorUserID req)"
  from guard_db_Inr [OF assms [unfolded CreateVersion_def Let_def]]
  have acc: "spec_accepted ?sp" by (auto dest: check_new_spec_accepted)
  from guard_db_Inr [OF assms [unfolded CreateVersion_def Let_def]]
  obtain e m v db1 db2 where
      e: "GetScenarioTemplateByKey env ?tn ?key db = (Inr e, db)"
    and m: "GetScenarioTemplateMaxVersion env ?tn (tpl_ID e) db = (Inr m, db)"
    and v: "CreateScenarioTemplateVersion env ?tn (tpl_ID e) (m + 1) ?sp ?who db = (Inr v, db1)"
    and u: "UpdateScenarioTemplateActiveSpec env ?tn (tpl_ID e) ?sp (m + 1) db1 = (Inr u, db2)"
    and a: "\<exists>act who det. db' = recordAudit s env ?tn (tpl_Key u) act who det db2"
    by (auto dest!: bind_db_Inr simp: then_audit_def)
       (metis ByKey_exists(1) GetScenarioTemplateMaxVersion_Inr)
  from GetScenarioTemplateByKey_Inr [OF e] obtain t where
    t: "t \<in> set (db_templates db)" "row_template t = e" "is_live ?tn ?key t" by auto
  from GetScenarioTemplateMaxVersion_Inr [OF m] have m': "m = max_version db ?tn (tpl_ID e)" by simp
  have "insert_version env ?who (?tn, tpl_ID e) (int32 (m + 1)) ?sp db = Some db1"
    using v by (simp add: insert_version_def CreateScenarioTemplateVersion_int32)
  moreover have "db_templates db1 = db_templates db" using CreateScenarioTemplateVersion_Inr [OF v] by simp
  moreover have "\<exists>a'. db' = db2\<lparr>db_audit := a'\<rparr>" using a recordAudit_state by metis
  ultimately show ?thesis
    using t acc m' stmt_Inr [OF u [unfolded UpdateScenarioTemplateActiveSpec_def]] by blast
qed

lemma version_spec_other [simp]:
  "version_spec (db\<lparr>db_templates := ts\<rparr>) l n = version_spec db l n"
  "version_spec (db\<lparr>db_audit := a\<rparr>) l n = version_spec db l n"
  by (simp_all add: version_spec_def split: prod.splits)

text \<open>
  A bump heals. When \<open>CreateVersion\<close> succeeds on a reachable registry, whatever partial
  writes an earlier failure left behind, the number it assigns is one above the highest recorded (as
  a 32-bit integer), the history holds the new specification under that number and everything it held
  before, and a lookup of the key returns the main row with that number and that specification.
\<close>

theorem version_bump_heals:
  assumes "reachable_registry s db" "CreateVersion s env req db = (Inr u, db')"
  shows "tpl_Spec u = vr_Spec req \<and>
    tpl_ActiveVersion u = int32 (max_version db (vr_TenantID req) (tpl_ID u) + 1) \<and>
    version_spec db' (vr_TenantID req, tpl_ID u) (tpl_ActiveVersion u) = Some (vr_Spec req) \<and>
    (\<forall>l n sp. version_spec db l n = Some sp \<longrightarrow> version_spec db' l n = Some sp) \<and>
    GetByKey (env\<lparr>env_fault := \<lambda>_. Healthy\<rparr>) (vr_TenantID req) (vr_Key req) db' = (Inr u, db')"
proof -
  let ?tn = "vr_TenantID req" and ?key = "TrimSpace (vr_Key req)"
  have inv: "registry_inv db" using assms(1) by (rule reachable_registry_inv)
  have inv': "registry_inv db'" using CreateVersion_inv [OF inv, of s env req] assms(2) by simp
  from CreateVersion_run [OF assms(2)] obtain t db1 db2 who where
      t: "t \<in> set (db_templates db)" "is_live ?tn ?key t"
    and v: "insert_version env who (?tn, tpl_ID (row_template t))
      (int32 (max_version db ?tn (tpl_ID (row_template t)) + 1)) (vr_Spec req) db = Some db1"
    and same: "db_templates db1 = db_templates db"
    and upd: "update_row env ?tn (tpl_ID (row_template t)) (\<lambda>r. r\<lparr>row_template :=
      (row_template r)\<lparr>tpl_Spec := vr_Spec req, tpl_ActiveVersion :=
        int32 (max_version db ?tn (tpl_ID (row_template t)) + 1)\<rparr>\<rparr>) db1 = (Inr u, db2)"
    and aud: "\<exists>a. db' = db2\<lparr>db_audit := a\<rparr>" by blast
  from update_row_Inr [OF upd] same obtain r f where
      r: "r \<in> set (db_templates db)" "row_hit ?tn (tpl_ID (row_template t)) r"
    and u: "u = row_template (touch env f r)"
    and f: "f = (\<lambda>r. r\<lparr>row_template := (row_template r)\<lparr>tpl_Spec := vr_Spec req, tpl_ActiveVersion :=
        int32 (max_version db ?tn (tpl_ID (row_template t)) + 1)\<rparr>\<rparr>)"
    and db2: "db2 = db1\<lparr>db_templates := map (\<lambda>r. if row_hit ?tn (tpl_ID (row_template t)) r then touch env f r else r)
      (db_templates db)\<rparr>" by auto
  have rt: "r = t" using rows_by_id [OF inv r(1) t(1)] r(2) by (simp add: row_hit_def)
  have id: "tpl_ID u = tpl_ID (row_template t)" by (simp add: u f touch_def rt)
  have ver: "version_spec db' l n = version_spec db1 l n" for l n using aud db2 by auto
  have live: "touch env f t \<in> set (db_templates db')" using aud db2 r by (auto simp: rt)
  moreover have "is_live ?tn ?key (touch env f t)" using t(2) by (simp add: is_live_def touch_def f)
  ultimately have "find (is_live ?tn ?key) (db_templates db') = Some (touch env f t)" by (rule find_live [OF inv'])
  moreover have "?key \<noteq> []"
    using guard_db_Inr [OF assms(2) [unfolded CreateVersion_def Let_def]] by auto
  ultimately have "GetByKey (env\<lparr>env_fault := \<lambda>_. Healthy\<rparr>) ?tn (vr_Key req) db' = (Inr u, db')"
    by (simp add: GetByKey_def Let_def guard_db_def GetScenarioTemplateByKey_def stmt_def u rt)
  moreover have "version_spec db' (?tn, tpl_ID u) (tpl_ActiveVersion u) = Some (vr_Spec req)"
    using pg_log.add_spec_at [OF v] by (simp add: ver id) (simp add: u f touch_def)
  moreover have "\<forall>l n sp. version_spec db l n = Some sp \<longrightarrow> version_spec db' l n = Some sp"
    using pg_log.add_keeps [OF v] by (simp add: ver)
  ultimately show ?thesis by (simp add: id) (simp add: u f touch_def)
qed

theorem version_bump_heals_witness:
  "\<exists>u db'. CreateVersion example_service (example_env 3 30 (\<lambda>_. Healthy)) example_bump example_registry = (Inr u, db') \<and>
     version_spec db' (7, 1) 3 = Some [(''spec_version'', GNum 2 ''2'')] \<and> version_spec db' (7, 1) 1 = Some []"
proof -
  let ?run = "CreateVersion example_service (example_env 3 30 (\<lambda>_. Healthy)) example_bump example_registry"
  have ok: "(case ?run of (Inl _, _) \<Rightarrow> False | (Inr u, _) \<Rightarrow> tpl_ID u = 1 \<and> tpl_ActiveVersion u = 3)" by code_simp
  then obtain u db' where run: "?run = (Inr u, db')" "tpl_ID u = 1" "tpl_ActiveVersion u = 3"
    by (auto split: prod.splits sum.splits)
  have old: "version_spec example_registry (7, 1) 1 = Some []" by code_simp
  have req: "vr_TenantID example_bump = 7" "vr_Spec example_bump = [(''spec_version'', GNum 2 ''2'')]"
    by (simp_all add: example_bump_def)
  from version_bump_heals [OF example_registry_reachable run(1)] run(2,3) old req
  have "version_spec db' (7, 1) 3 = Some [(''spec_version'', GNum 2 ''2'')] \<and> version_spec db' (7, 1) 1 = Some []"
    by simp
  with run(1) show ?thesis by blast
qed

section \<open>The main row mirrors its active version\<close>

definition mirrored :: "registry_db \<Rightarrow> bool" where
  "mirrored db \<longleftrightarrow>
     (\<forall>r \<in> set (db_templates db).
        version_spec db (tpl_TenantID (row_template r), tpl_ID (row_template r)) (tpl_ActiveVersion (row_template r)) =
          Some (tpl_Spec (row_template r)))"

text \<open>No statement fails, and the generated version identifier is new.\<close>

definition healthy_env :: "db_env \<Rightarrow> registry_db \<Rightarrow> bool" where
  "healthy_env env db \<longleftrightarrow> (\<forall>op. env_fault env op = Healthy) \<and> env_version_id env \<notin> ver_ID ` set (db_versions db)"

inductive fault_free_registry :: "Service \<Rightarrow> registry_db \<Rightarrow> bool" for s where
  ff_initial: "fault_free_registry s empty_registry"
| ff_served: "fault_free_registry s db \<Longrightarrow> healthy_env env db \<Longrightarrow> fault_free_registry s (serve s env req db)"

lemma fault_free_reachable: "fault_free_registry s db \<Longrightarrow> reachable_registry s db"
  by (induction rule: fault_free_registry.induct) (auto intro: reachable_registry.intros)

lemma healthy_stmt [simp]: "healthy_env env db \<Longrightarrow> stmt env op run = run"
  by (simp add: healthy_env_def stmt_def fun_eq_iff)

lemma mirrored_audit [simp]: "mirrored (db\<lparr>db_audit := a\<rparr>) = mirrored db"
  by (simp add: mirrored_def)

lemma mirrored_recordAudit [simp]: "mirrored (recordAudit s env tn k act who det db) = mirrored db"
  using recordAudit_state [of s env tn k act who det db] by auto

lemma mirrored_then_audit [simp]: "mirrored (snd (then_audit s env tn k act who det x db)) = mirrored db"
  by (simp add: then_audit_def)

text \<open>An update that leaves the specification and its number alone.\<close>

lemma mirrored_update_row:
  assumes "mirrored db"
    and "\<And>r. tpl_TenantID (row_template (f r)) = tpl_TenantID (row_template r) \<and>
      tpl_ID (row_template (f r)) = tpl_ID (row_template r) \<and>
      tpl_ActiveVersion (row_template (f r)) = tpl_ActiveVersion (row_template r) \<and>
      tpl_Spec (row_template (f r)) = tpl_Spec (row_template r)"
  shows "mirrored (snd (update_row env tn t f db))"
  using assms by (auto simp: update_row_def mirrored_def touch_def split: option.splits)

text \<open>A bump of the row \<open>t\<close>: the new version is recorded, then the row is set to it.\<close>

lemma mirrored_bump:
  assumes inv: "registry_inv db" and mir: "mirrored db" and t: "t \<in> set (db_templates db)" "row_hit tn i t"
    and add: "insert_version env who (tn, i) n sp db = Some db1" and same: "db_templates db1 = db_templates db"
    and upd: "update_row env tn i (\<lambda>r. r\<lparr>row_template :=
      (row_template r)\<lparr>tpl_Spec := sp, tpl_ActiveVersion := n\<rparr>\<rparr>) db1 = (x, db2)"
    and chk: "row_checks (row_template t)"
  shows "mirrored db2"
proof -
  have only: "r = t" if "r \<in> set (db_templates db)" "row_hit tn i r" for r
    using row_hit_unique [OF inv that t] .
  have "find (row_hit tn i) (db_templates db1) = Some t"
    unfolding same using t only by (rule find_unique)
  then have db2: "db2 = db1\<lparr>db_templates := map (\<lambda>r. if row_hit tn i r then touch env (\<lambda>r. r\<lparr>row_template :=
      (row_template r)\<lparr>tpl_Spec := sp, tpl_ActiveVersion := n\<rparr>\<rparr>) r else r) (db_templates db)\<rparr>"
    using upd chk by (auto simp: update_row_def touch_def row_checks_def same)
  have keep: "version_spec db1 l m = Some s'" if "version_spec db l m = Some s'" for l m s'
    using pg_log.add_keeps [OF add that] .
  have new: "version_spec db1 (tn, i) n = Some sp" using pg_log.add_spec_at [OF add] by simp
  show ?thesis unfolding mirrored_def db2
    using mir keep new by (auto simp: mirrored_def touch_def row_hit_def)
qed

lemma CreateVersion_mirrored:
  assumes inv: "registry_inv db" and mir: "mirrored db" and h: "healthy_env env db"
  shows "mirrored (snd (CreateVersion s env req db))"
  unfolding CreateVersion_def Let_def
proof (rule guard_db_inv [where P = mirrored, OF mir],
    rule bind_read_inv [where P = mirrored, OF GetScenarioTemplateByKey_state], rule mir,
    rule bind_read_inv [where P = mirrored, OF GetScenarioTemplateMaxVersion_state], rule mir, goal_cases)
  case (1 e m)
  let ?tn = "vr_TenantID req" and ?sp = "vr_Spec req"
  from GetScenarioTemplateByKey_Inr [OF 1(2)] obtain t where
    t: "t \<in> set (db_templates db)" "row_template t = e" "row_hit ?tn (tpl_ID e) t"
    by (auto simp: is_live_def row_hit_def)
  from inv t have chk: "row_checks (row_template t)" by (auto simp: registry_inv_def row_wellformed_def)
  show ?case
  proof (cases "CreateScenarioTemplateVersion env ?tn (tpl_ID e) (m + 1) ?sp (actorPtr (vr_ActorUserID req)) db")
    case (Pair res db1)
    show ?thesis
    proof (cases res)
      case (Inl err)
      with Pair h have "db1 = db" by (auto simp: CreateScenarioTemplateVersion_def Let_def split: if_splits)
      with Inl Pair mir show ?thesis by (simp add: bind_db_def)
    next
      case (Inr v)
      note new = CreateScenarioTemplateVersion_Inr [OF Pair [unfolded Inr]]
      have add: "insert_version env (actorPtr (vr_ActorUserID req)) (?tn, tpl_ID e) (int32 (m + 1)) ?sp db = Some db1"
        using Pair Inr by (simp add: insert_version_def CreateScenarioTemplateVersion_int32)
      have "mirrored (snd (UpdateScenarioTemplateActiveSpec env ?tn (tpl_ID e) ?sp (m + 1) db1))"
        unfolding UpdateScenarioTemplateActiveSpec_def healthy_stmt [OF h]
        using mirrored_bump [OF inv mir t(1,3) add _ prod.collapse [symmetric] chk] new by simp
      then have "mirrored (snd (bind_db (UpdateScenarioTemplateActiveSpec env ?tn (tpl_ID e) ?sp (m + 1)) (\<lambda>updated.
         then_audit s env ?tn (tpl_Key updated) ''version'' (vr_ActorUserID req)
         [(''template_key'', GStr (tpl_Key updated)), (''version'', GNum (of_int (m + 1)) (Itoa (m + 1)))] updated) db1))"
        by (rule bind_db_inv [where P = mirrored]) simp
      with Inr Pair show ?thesis by (simp add: bind_db_def)
    qed
  qed
qed

lemma Create_mirrored:
  assumes inv: "registry_inv db" and mir: "mirrored db" and h: "healthy_env env db"
  shows "mirrored (snd (Create s env req db))"
  unfolding Create_def Let_def
proof (rule guard_db_inv [where P = mirrored, OF mir],
    rule bind_read_inv [where P = mirrored, OF key_is_free_state], rule mir, goal_cases)
  case (1 x)
  let ?tn = "cr_TenantID req" and ?sp = "cr_Spec req" and ?who = "actorPtr (cr_ActorUserID req)"
  let ?new = "CreateScenarioTemplate env ?tn (TrimSpace (cr_Key req)) (TrimSpace (cr_Name req))
    (TrimSpace (cr_Description req)) ?sp ?who db"
  show ?case
  proof (cases ?new)
    case (Pair res db1)
    show ?thesis
    proof (cases res)
      case (Inl err)
      with Pair h have "db1 = db" by (auto simp: CreateScenarioTemplate_def Let_def split: if_splits)
      with Inl Pair mir show ?thesis by (simp add: bind_db_def)
    next
      case (Inr t)
      note new = CreateScenarioTemplate_Inr [OF Pair [unfolded Inr]]
      have none: "\<forall>w \<in> set (db_versions db). ver_TemplateID w \<noteq> tpl_ID t"
        using new inv by (force simp: registry_inv_def template_exists_def)
      let ?v = "\<lparr>ver_ID = env_version_id env, ver_TenantID = ?tn, ver_TemplateID = tpl_ID t,
        ver_Version = 1, ver_Spec = ?sp, ver_CreatedBy = nullUUIDFromPtr ?who, ver_CreatedAt = env_now env\<rparr>"
      have fresh: "\<forall>w \<in> set (db_versions db). ver_ID w \<noteq> env_version_id env"
        using h unfolding healthy_env_def by (metis imageI)
      have "int32 1 = 1" by (simp add: int32_def)
      then have ins: "CreateScenarioTemplateVersion env ?tn (tpl_ID t) 1 ?sp ?who db1 =
          (Inr ?v, db1\<lparr>db_versions := db_versions db1 @ [?v]\<rparr>)"
        using none new fresh by (auto simp: CreateScenarioTemplateVersion_def Let_def list_ex_iff healthy_stmt [OF h])
      have add: "insert_version env ?who (?tn, tpl_ID t) 1 ?sp db1 = Some (db1\<lparr>db_versions := db_versions db1 @ [?v]\<rparr>)"
        using ins by (simp add: insert_version_def int32_def)
      have "version_spec (db1\<lparr>db_versions := db_versions db1 @ [?v]\<rparr>) (?tn, tpl_ID t) 1 = Some ?sp"
        using pg_log.add_spec_at [OF add] by simp
      moreover have "version_spec (db1\<lparr>db_versions := db_versions db1 @ [?v]\<rparr>) l n = Some sp"
        if "version_spec db l n = Some sp" for l n sp
        using pg_log.add_keeps [OF add] that new by simp
      ultimately have "mirrored (db1\<lparr>db_versions := db_versions db1 @ [?v]\<rparr>)"
        using mir new by (auto simp: mirrored_def new_template_def)
      with Pair Inr ins show ?thesis by (simp add: bind_db_def)
    qed
  qed
qed

lemma Patch_mirrored:
  assumes "mirrored db"
  shows "mirrored (snd (Patch s env req db))"
proof -
  have upd: "mirrored (snd (UpdateScenarioTemplateStatus env tn t status name desc db))" for tn t status name desc
    unfolding UpdateScenarioTemplateStatus_def
    by (rule stmt_inv [where P = mirrored, OF assms], rule mirrored_update_row [OF assms]) simp
  show ?thesis
    unfolding Patch_def Let_def
    by (rule guard_db_inv [where P = mirrored, OF assms],
        rule bind_read_inv [where P = mirrored, OF GetScenarioTemplateByKey_state], rule assms,
        rule guard_db_inv [where P = mirrored, OF assms], rule bind_db_inv [where P = mirrored], rule upd) simp
qed

lemma Delete_mirrored:
  assumes "mirrored db"
  shows "mirrored (snd (Delete s env req db))"
proof -
  have upd: "mirrored (snd (SoftDeleteScenarioTemplate env tn t db))" for tn t
    unfolding SoftDeleteScenarioTemplate_def
    by (rule stmt_inv [where P = mirrored, OF assms], rule mirrored_update_row [OF assms]) simp
  show ?thesis
    unfolding Delete_def Let_def
    by (rule guard_db_inv [where P = mirrored, OF assms],
        rule bind_read_inv [where P = mirrored, OF GetScenarioTemplateByKey_state], rule assms,
        rule bind_db_inv [where P = mirrored], rule upd) simp
qed

text \<open>
  As long as no statement fails, the main row of every template, deleted ones included,
  carries exactly the specification that the history records under its active version number.
\<close>

theorem main_row_mirrors_active_version:
  assumes "fault_free_registry s db"
  shows "mirrored db"
  using assms
proof induction
  case ff_initial
  then show ?case by (simp add: mirrored_def empty_registry_def)
next
  case (ff_served db env req)
  then have inv: "registry_inv db" by (intro reachable_registry_inv fault_free_reachable)
  with ff_served show ?case
    by (cases req)
      (simp_all add: serve_def Create_mirrored CreateVersion_mirrored Patch_mirrored Delete_mirrored)
qed

theorem main_row_mirrors_active_version_witness:
  "mirrored example_registry \<and> length (db_templates example_registry) = 1"
proof -
  have "healthy_env (example_env 1 10 (\<lambda>_. Healthy)) empty_registry"
    by (simp add: healthy_env_def example_env_def empty_registry_def)
  moreover have "env_version_id (example_env 2 20 (\<lambda>_. Healthy)) \<notin> ver_ID `
      set (db_versions (serve example_service (example_env 1 10 (\<lambda>_. Healthy)) (ReqCreate example_create) empty_registry))"
    by code_simp
  then have "healthy_env (example_env 2 20 (\<lambda>_. Healthy))
      (serve example_service (example_env 1 10 (\<lambda>_. Healthy)) (ReqCreate example_create) empty_registry)"
    by (simp add: healthy_env_def example_env_def)
  ultimately have "fault_free_registry example_service example_registry"
    unfolding example_registry_def by (intro fault_free_registry.intros)
  moreover have "length (db_templates example_registry) = 1" by code_simp
  ultimately show ?thesis using main_row_mirrors_active_version by blast
qed

text \<open>
  Two failures break the mirror: a creation whose version insert fails leaves a main row with active
  version 1 and no history; the next bump records its specification as version 1, and when its update
  of the main row fails too, the row keeps version number 1 with the old specification.
\<close>

definition broken_registry :: registry_db where
  "broken_registry =
     serve example_service (example_env 2 20 ((\<lambda>_. Healthy)(OpUpdateActiveSpec := Refused))) (ReqCreateVersion example_bump)
       (serve example_service (example_env 1 10 ((\<lambda>_. Healthy)(OpCreateVersion := Refused))) (ReqCreate example_create)
          empty_registry)"

text \<open>
  The mirror property is not kept by failures: a registry reachable through two refused
  statements has a live main row whose specification differs from the history's version of the same
  number.
\<close>

theorem partial_writes_break_the_mirror:
  "reachable_registry example_service broken_registry \<and> \<not> mirrored broken_registry"
proof
  show "reachable_registry example_service broken_registry"
    unfolding broken_registry_def by (intro reachable_registry.intros)
  show "\<not> mirrored broken_registry" by code_simp
qed
end
