(* ===== verification/Demand_Acceptance.thy ===== *)
theory Demand_Acceptance
  imports Go_Base "HOL-Library.AList"
begin

text \<open>
  The acceptance gate of a demand, after \<^verbatim>\<open>project/demand_acceptance_gate.go\<close> and
  \<^verbatim>\<open>project/acceptance_evidence_gate.go\<close>: which verdict on a criterion counts, which blocking
  criteria still hold the demand, and when a pre-authorised policy may sign in place of a human.
  The claims give the rule of each judge: a human verdict decides, an executor's own report never
  releases an adversarial review, "not applicable" releases nothing, a violation detector holds only
  on a finding, and policy signs only on machine proof with nothing pending.
\<close>

section \<open>Records and vocabulary\<close>

record DemandAcceptanceCriterion =
  dac_CriterionID :: string
  dac_Statement :: string
  dac_VerificationMethod :: string
  dac_Severity :: string
  dac_SatisfiedBy :: "string list"
  dac_Source :: string

record DemandCriterionVerdict =
  dcv_CriterionID :: string
  dcv_Verdict :: string
  dcv_JudgeType :: string
  dcv_JudgeID :: uuid
  dcv_Reason :: string
  dcv_EvidenceRefs :: "string list"
  dcv_ProjectTaskID :: "uuid option"

abbreviation v_satisfied :: string where "v_satisfied \<equiv> ''satisfied''"
abbreviation v_unsatisfied :: string where "v_unsatisfied \<equiv> ''unsatisfied''"
abbreviation v_not_applicable :: string where "v_not_applicable \<equiv> ''not_applicable''"
abbreviation v_pending :: string where "v_pending \<equiv> ''pending''"
abbreviation judge_human :: string where "judge_human \<equiv> ''human''"
abbreviation judge_executor :: string where "judge_executor \<equiv> ''executor''"
abbreviation judge_adversarial :: string where "judge_adversarial \<equiv> ''adversarial''"
abbreviation judge_review_gate :: string where "judge_review_gate \<equiv> ''review_gate''"

section \<open>The effective verdict\<close>

text \<open>The six pointers of \<^verbatim>\<open>criterionEffectiveVerdict\<close>.\<close>

record verdict_acc =
  acc_human :: "DemandCriterionVerdict option"
  acc_adversarial :: "DemandCriterionVerdict option"
  acc_reviewGate :: "DemandCriterionVerdict option"
  acc_executorSatisfied :: "DemandCriterionVerdict option"
  acc_executorNotApplicable :: "DemandCriterionVerdict option"
  acc_executorAny :: "DemandCriterionVerdict option"

definition keep_first :: "bool \<Rightarrow> 'a \<Rightarrow> 'a option \<Rightarrow> 'a option" where
  "keep_first b v old = (if b \<and> old = None then Some v else old)"

definition acc_step :: "string \<Rightarrow> verdict_acc \<Rightarrow> DemandCriterionVerdict \<Rightarrow> verdict_acc" where
  "acc_step criterionID acc v =
     (if dcv_CriterionID v \<noteq> criterionID then acc
      else if dcv_JudgeType v = judge_human then acc\<lparr>acc_human := Some v\<rparr>
      else if dcv_JudgeType v = judge_adversarial then acc\<lparr>acc_adversarial := Some v\<rparr>
      else if dcv_JudgeType v = judge_review_gate then acc\<lparr>acc_reviewGate := Some v\<rparr>
      else acc\<lparr>acc_executorAny := keep_first True v (acc_executorAny acc),
               acc_executorSatisfied := keep_first (dcv_Verdict v = v_satisfied) v (acc_executorSatisfied acc),
               acc_executorNotApplicable :=
                 keep_first (dcv_Verdict v = v_not_applicable) v (acc_executorNotApplicable acc)\<rparr>)"

definition acc_empty :: verdict_acc where
  "acc_empty = \<lparr>acc_human = None, acc_adversarial = None, acc_reviewGate = None, acc_executorSatisfied = None,
                acc_executorNotApplicable = None, acc_executorAny = None\<rparr>"

text \<open>The result is the verdict, its judge type and its evidence, or nothing without a verdict.\<close>

definition criterionEffectiveVerdict ::
  "DemandCriterionVerdict list \<Rightarrow> string \<Rightarrow> (string \<times> string \<times> string list) option" where
  "criterionEffectiveVerdict verdicts criterionID =
     (let acc = foldl (acc_step criterionID) acc_empty verdicts in
      case acc_human acc of Some v \<Rightarrow> Some (dcv_Verdict v, judge_human, dcv_EvidenceRefs v)
      | None \<Rightarrow>
     (case acc_adversarial acc of Some v \<Rightarrow> Some (dcv_Verdict v, judge_adversarial, dcv_EvidenceRefs v)
      | None \<Rightarrow>
     (case acc_reviewGate acc of Some v \<Rightarrow> Some (dcv_Verdict v, judge_review_gate, dcv_EvidenceRefs v)
      | None \<Rightarrow>
     (case acc_executorSatisfied acc of Some v \<Rightarrow> Some (v_satisfied, judge_executor, dcv_EvidenceRefs v)
      | None \<Rightarrow>
     (case acc_executorNotApplicable acc of Some v \<Rightarrow> Some (v_not_applicable, judge_executor, dcv_EvidenceRefs v)
      | None \<Rightarrow>
     (case acc_executorAny acc of Some v \<Rightarrow> Some (dcv_Verdict v, judge_executor, dcv_EvidenceRefs v)
      | None \<Rightarrow> None))))))"

definition EffectiveCriterionVerdicts ::
  "DemandAcceptanceCriterion list \<Rightarrow> DemandCriterionVerdict list \<Rightarrow> (string \<times> string) list" where
  "EffectiveCriterionVerdicts criteria verdicts =
     foldl (\<lambda>out c. case criterionEffectiveVerdict verdicts (dac_CriterionID c) of
         Some (v, _, _) \<Rightarrow> AList.update (dac_CriterionID c) v out | None \<Rightarrow> out) [] criteria"

section \<open>Declarative and machine criteria\<close>

definition InferCriterionSource :: "string \<Rightarrow> string \<Rightarrow> string \<Rightarrow> string" where
  "InferCriterionSource criterionID verificationMethod storedSource =
     (let s = TrimSpace storedSource; i = TrimSpace criterionID in
      if s \<noteq> [] then s
      else if i = ''human_final_confirmation'' then ''platform_injected''
      else if HasPrefix i ''produces_delivered:'' then ''platform_injected''
      else if HasPrefix i ''adversarial_review:'' then ''platform_injected''
      else if HasPrefix i ''template_criterion_'' then ''template_declared''
      else if verificationMethod = ''human_judgment'' then ''planner_authored''
      else ''planner_authored'')"

definition IsDeclarativeHumanJudgment :: "DemandAcceptanceCriterion \<Rightarrow> bool" where
  "IsDeclarativeHumanJudgment c =
     (if dac_VerificationMethod c \<noteq> ''human_judgment'' then False
      else if dac_Severity c \<noteq> [] \<and> dac_Severity c \<noteq> ''blocking'' then False
      else let src = InferCriterionSource (dac_CriterionID c) (dac_VerificationMethod c) (dac_Source c)
           in src = ''template_declared'' \<or> src = ''platform_injected'')"

definition IsMachineEvidenceCriterion :: "DemandAcceptanceCriterion \<Rightarrow> bool" where
  "IsMachineEvidenceCriterion c =
     (if dac_Severity c \<noteq> [] \<and> dac_Severity c \<noteq> ''blocking'' then False
      else dac_VerificationMethod c = ''automated_test'' \<or> dac_VerificationMethod c = ''adversarial_review'')"

section \<open>The gate\<close>

text \<open>The body of the loop: does the criterion hold the demand?\<close>

definition criterion_pending :: "DemandCriterionVerdict list \<Rightarrow> DemandAcceptanceCriterion \<Rightarrow> bool" where
  "criterion_pending verdicts c =
     (if dac_Severity c \<noteq> ''blocking'' then False
      else
        let eff = criterionEffectiveVerdict verdicts (dac_CriterionID c) in
        if dac_VerificationMethod c = ''adversarial_review'' then
          (case eff of None \<Rightarrow> True
           | Some (verdict, judgeType, _) \<Rightarrow>
               (judgeType \<noteq> judge_human \<and> judgeType \<noteq> judge_adversarial) \<or> verdict \<noteq> v_satisfied)
        else if dac_VerificationMethod c = ''review_gate'' then
          (case eff of None \<Rightarrow> False | Some (verdict, _, _) \<Rightarrow> verdict \<noteq> v_satisfied)
        else
          (case eff of None \<Rightarrow> True | Some (verdict, _, _) \<Rightarrow> verdict \<noteq> v_satisfied) \<and>
          \<not> (dac_VerificationMethod c = ''human_judgment'' \<and> \<not> IsDeclarativeHumanJudgment c))"

definition ResolveUnsatisfiedBlockingCriteria ::
  "DemandAcceptanceCriterion list \<Rightarrow> DemandCriterionVerdict list \<Rightarrow> string list" where
  "ResolveUnsatisfiedBlockingCriteria criteria verdicts =
     map dac_CriterionID (filter (criterion_pending verdicts) criteria)"

text \<open>The outcomes of the evidence gate; the empty string of the source is \<open>EvidencePass\<close>.\<close>

datatype evidence_outcome =
    EvidencePass | FailNoMachineProof | FailUnsatisfied | FailIncomplete | FailDeclarativeHJ

definition proves_by_machine :: "string list \<Rightarrow> DemandCriterionVerdict list \<Rightarrow> DemandAcceptanceCriterion \<Rightarrow> bool" where
  "proves_by_machine pending verdicts c \<longleftrightarrow>
     IsMachineEvidenceCriterion c \<and> dac_CriterionID c \<notin> set pending \<and>
     (case criterionEffectiveVerdict verdicts (dac_CriterionID c) of
        None \<Rightarrow> False | Some (verdict, _, _) \<Rightarrow> verdict = v_satisfied)"

definition pending_outcome :: "DemandCriterionVerdict list \<Rightarrow> DemandAcceptanceCriterion \<Rightarrow> evidence_outcome" where
  "pending_outcome verdicts c =
     (if IsDeclarativeHumanJudgment c then FailDeclarativeHJ
      else case criterionEffectiveVerdict verdicts (dac_CriterionID c) of
        None \<Rightarrow> FailIncomplete
      | Some (verdict, _, _) \<Rightarrow>
          if verdict = v_pending \<or> verdict = ''escalate_human'' then FailIncomplete
          else if verdict = v_unsatisfied then FailUnsatisfied
          else FailIncomplete)"

definition EvaluateAcceptanceEvidenceGate ::
  "DemandAcceptanceCriterion list \<Rightarrow> DemandCriterionVerdict list \<Rightarrow> evidence_outcome" where
  "EvaluateAcceptanceEvidenceGate criteria verdicts =
     (if criteria = [] then FailNoMachineProof
      else
        let pending = ResolveUnsatisfiedBlockingCriteria criteria verdicts in
        if \<not> list_ex (proves_by_machine pending verdicts) criteria then FailNoMachineProof
        else case find (\<lambda>c. dac_CriterionID c \<in> set pending) criteria of
               None \<Rightarrow> EvidencePass
             | Some c \<Rightarrow> pending_outcome verdicts c)"

definition DemandAutonomyTierSnapshot :: "gmap \<Rightarrow> string" where
  "DemandAutonomyTierSnapshot sourceRefs =
     TrimSpace (case as_str (gget sourceRefs ''autonomy_tier_snapshot'') of None \<Rightarrow> [] | Some s \<Rightarrow> s)"

definition DemandPinnedExitDeliverable :: "gmap \<Rightarrow> string" where
  "DemandPinnedExitDeliverable sourceRefs =
     TrimSpace (case as_str (gget sourceRefs ''pinned_exit_deliverable'') of None \<Rightarrow> [] | Some s \<Rightarrow> s)"

section \<open>The effective plan revision\<close>

record PlanRevision =
  rev_ID :: uuid
  rev_Number :: int
  rev_Status :: string

definition open_revision :: "PlanRevision \<Rightarrow> bool" where
  "open_revision r \<longleftrightarrow> rev_Status r \<in> {''accepted'', ''decomposing'', ''decomposed''}"

definition CurrentEffectivePlanRevisionID :: "PlanRevision list \<Rightarrow> uuid" where
  "CurrentEffectivePlanRevisionID revisions =
     fst (foldl (\<lambda>(bestID, bestNumber) r.
       if open_revision r \<and> rev_Number r > bestNumber then (rev_ID r, rev_Number r) else (bestID, bestNumber))
       (uuid_Nil, -1) revisions)"

text \<open>The status machine of \<^verbatim>\<open>project/plan_revision.go\<close>.\<close>

definition CanTransitionPlanRevisionStatus :: "string \<Rightarrow> string \<Rightarrow> bool" where
  "CanTransitionPlanRevisionStatus from to =
     (if from = ''draft'' then to = ''validation_failed'' \<or> to = ''pending_review'' \<or> to = ''accepted''
      else if from = ''validation_failed'' then to = ''superseded''
      else if from = ''pending_review'' then to = ''accepted'' \<or> to = ''rejected'' \<or> to = ''superseded''
      else if from = ''accepted'' then to = ''decomposing''
      else if from = ''decomposing'' then to = ''decomposed''
      else if from = ''decomposed'' then to = ''decomposed''
      else False)"

definition IsAcceptedPlanRevisionStatus :: "string \<Rightarrow> bool" where
  "IsAcceptedPlanRevisionStatus status \<longleftrightarrow> status \<in> {''accepted'', ''decomposing'', ''decomposed''}"

definition IsMutablePlanRevisionStatus :: "string \<Rightarrow> bool" where
  "IsMutablePlanRevisionStatus status \<longleftrightarrow> status \<in> {''draft'', ''validation_failed'', ''pending_review''}"

section \<open>Which verdict counts\<close>

definition last_by :: "('a \<Rightarrow> bool) \<Rightarrow> 'a list \<Rightarrow> 'a option" where
  "last_by P xs = (if filter P xs = [] then None else Some (last (filter P xs)))"

lemma last_by_Nil [simp]: "last_by P [] = None"
  by (simp add: last_by_def)

lemma last_by_append [simp]: "last_by P (xs @ [x]) = (if P x then Some x else last_by P xs)"
  by (simp add: last_by_def)

lemma last_by_Some: "last_by P xs = Some x \<Longrightarrow> x \<in> set xs \<and> P x"
  by (induction xs rule: rev_induct) (auto split: if_splits)

lemma last_by_None: "last_by P xs = None \<longleftrightarrow> (\<forall>x \<in> set xs. \<not> P x)"
  by (simp add: last_by_def filter_empty_conv)

definition judged :: "string \<Rightarrow> string \<Rightarrow> DemandCriterionVerdict \<Rightarrow> bool" where
  "judged i j v \<longleftrightarrow> dcv_CriterionID v = i \<and> dcv_JudgeType v = j"

definition self_reported :: "string \<Rightarrow> DemandCriterionVerdict \<Rightarrow> bool" where
  "self_reported i v \<longleftrightarrow> dcv_CriterionID v = i \<and> dcv_JudgeType v \<notin> {judge_human, judge_adversarial, judge_review_gate}"

lemma find_append: "find P (xs @ [y]) = keep_first (P y) y (find P xs)"
  by (induction xs) (auto simp: keep_first_def)

lemma accumulated_verdicts:
  "foldl (acc_step i) acc_empty vs =
     \<lparr>acc_human = last_by (judged i judge_human) vs,
      acc_adversarial = last_by (judged i judge_adversarial) vs,
      acc_reviewGate = last_by (judged i judge_review_gate) vs,
      acc_executorSatisfied = find (\<lambda>v. self_reported i v \<and> dcv_Verdict v = v_satisfied) vs,
      acc_executorNotApplicable = find (\<lambda>v. self_reported i v \<and> dcv_Verdict v = v_not_applicable) vs,
      acc_executorAny = find (self_reported i) vs\<rparr>"
proof (induction vs rule: rev_induct)
  case Nil
  show ?case by (simp add: acc_empty_def)
next
  case (snoc v vs)
  then show ?case
    by (simp add: acc_step_def find_append judged_def self_reported_def) (auto simp: keep_first_def)
qed

lemma effective_verdict_unfold:
  "criterionEffectiveVerdict vs i =
     (case last_by (judged i judge_human) vs of Some v \<Rightarrow> Some (dcv_Verdict v, judge_human, dcv_EvidenceRefs v)
      | None \<Rightarrow>
     (case last_by (judged i judge_adversarial) vs of Some v \<Rightarrow> Some (dcv_Verdict v, judge_adversarial, dcv_EvidenceRefs v)
      | None \<Rightarrow>
     (case last_by (judged i judge_review_gate) vs of Some v \<Rightarrow> Some (dcv_Verdict v, judge_review_gate, dcv_EvidenceRefs v)
      | None \<Rightarrow>
     (case find (\<lambda>v. self_reported i v \<and> dcv_Verdict v = v_satisfied) vs of
        Some v \<Rightarrow> Some (v_satisfied, judge_executor, dcv_EvidenceRefs v)
      | None \<Rightarrow>
     (case find (\<lambda>v. self_reported i v \<and> dcv_Verdict v = v_not_applicable) vs of
        Some v \<Rightarrow> Some (v_not_applicable, judge_executor, dcv_EvidenceRefs v)
      | None \<Rightarrow>
     (case find (self_reported i) vs of Some v \<Rightarrow> Some (dcv_Verdict v, judge_executor, dcv_EvidenceRefs v)
      | None \<Rightarrow> None))))))"
  unfolding criterionEffectiveVerdict_def accumulated_verdicts Let_def verdict_acc.select_convs ..

text \<open>Behind every effective verdict is a recorded verdict of that kind of judge.\<close>

lemma effective_verdict_source:
  assumes "criterionEffectiveVerdict vs i = Some (vd, j, ev)"
  shows "\<exists>v \<in> set vs. dcv_CriterionID v = i \<and> dcv_Verdict v = vd \<and>
    (if j = judge_executor then self_reported i v else dcv_JudgeType v = j \<and> j \<in> {judge_human, judge_adversarial, judge_review_gate})"
  using assms
  by (auto simp: effective_verdict_unfold judged_def [abs_def] split: option.splits
      dest!: last_by_Some find_SomeD) (auto simp: self_reported_def)

lemma effective_verdict_None:
  "criterionEffectiveVerdict vs i = None \<longleftrightarrow> (\<forall>v \<in> set vs. dcv_CriterionID v \<noteq> i)"
proof
  assume "criterionEffectiveVerdict vs i = None"
  then have "last_by (judged i judge_human) vs = None" "last_by (judged i judge_adversarial) vs = None"
    "last_by (judged i judge_review_gate) vs = None" "find (self_reported i) vs = None"
    by (auto simp: effective_verdict_unfold split: option.splits)
  then show "\<forall>v \<in> set vs. dcv_CriterionID v \<noteq> i"
    by (auto simp: last_by_None find_None_iff judged_def self_reported_def)
next
  assume "\<forall>v \<in> set vs. dcv_CriterionID v \<noteq> i"
  then show "criterionEffectiveVerdict vs i = None"
    using effective_verdict_source [of vs i] by (cases "criterionEffectiveVerdict vs i") fastforce+
qed

lemma effective_human:
  assumes "last_by (judged i judge_human) vs = Some h"
  shows "criterionEffectiveVerdict vs i = Some (dcv_Verdict h, judge_human, dcv_EvidenceRefs h)"
  using assms by (simp add: effective_verdict_unfold)

section \<open>Claims\<close>

definition noise_criterion :: "DemandAcceptanceCriterion \<Rightarrow> bool" where
  "noise_criterion c \<longleftrightarrow> dac_VerificationMethod c = ''human_judgment'' \<and> \<not> IsDeclarativeHumanJudgment c"

text \<open>
  A human verdict is final. When a human has judged a blocking criterion, the criterion
  holds the demand exactly when the latest human verdict is not "satisfied", whatever executors,
  adversarial judges and detectors said; only a human-judgment criterion that the planner wrote
  itself never holds.
\<close>

theorem human_verdict_is_final:
  assumes "c \<in> set criteria" "dac_Severity c = ''blocking''" "distinct (map dac_CriterionID criteria)"
    and "last_by (judged (dac_CriterionID c) judge_human) verdicts = Some h"
  shows "dac_CriterionID c \<in> set (ResolveUnsatisfiedBlockingCriteria criteria verdicts) \<longleftrightarrow>
    dcv_Verdict h \<noteq> ''satisfied'' \<and> \<not> noise_criterion c"
proof -
  have "dac_CriterionID c \<in> set (ResolveUnsatisfiedBlockingCriteria criteria verdicts) \<longleftrightarrow> criterion_pending verdicts c"
    using assms(1,3) by (auto simp: ResolveUnsatisfiedBlockingCriteria_def distinct_map dest: inj_onD)
  then show ?thesis
    using assms(2) by (auto simp: criterion_pending_def effective_human [OF assms(4)] noise_criterion_def)
qed

text \<open>
  Claim C16: nothing is released without a judgment. A blocking criterion that is neither a violation
  detector nor planner-written human judgment stops holding the demand only if some verdict on it
  says "satisfied"; "not applicable" is never enough. For an adversarial review that verdict comes
  from a human or from the adversarial judges, never from an executor.
\<close>

theorem release_needs_satisfied_verdict:
  assumes "c \<in> set criteria" "dac_Severity c = ''blocking''" "dac_VerificationMethod c \<noteq> ''review_gate''"
    and "\<not> noise_criterion c"
    and "dac_CriterionID c \<notin> set (ResolveUnsatisfiedBlockingCriteria criteria verdicts)"
  shows "\<exists>v \<in> set verdicts. dcv_CriterionID v = dac_CriterionID c \<and> dcv_Verdict v = ''satisfied'' \<and>
    (dac_VerificationMethod c = ''adversarial_review'' \<longrightarrow> dcv_JudgeType v \<in> {''human'', ''adversarial''})"
proof -
  have "\<not> criterion_pending verdicts c"
    using assms(1,5) by (auto simp: ResolveUnsatisfiedBlockingCriteria_def)
  then obtain j ev where eff: "criterionEffectiveVerdict verdicts (dac_CriterionID c) = Some (v_satisfied, j, ev)"
    and j: "dac_VerificationMethod c = ''adversarial_review'' \<Longrightarrow> j \<in> {judge_human, judge_adversarial}"
    using assms(2,3,4)
    by (auto simp: criterion_pending_def Let_def noise_criterion_def split: option.splits if_splits)
  from effective_verdict_source [OF eff] j show ?thesis by (auto split: if_splits)
qed

text \<open>
  A violation detector releases by default: a blocking review-gate criterion holds the
  demand exactly when there is some verdict on it and the effective one is not "satisfied"; without
  any verdict it does not hold.
\<close>

theorem review_gate_releases_by_default:
  assumes "dac_Severity c = ''blocking''" "dac_VerificationMethod c = ''review_gate''"
  shows "criterion_pending verdicts c \<longleftrightarrow>
    (\<exists>v \<in> set verdicts. dcv_CriterionID v = dac_CriterionID c) \<and>
    map_option fst (criterionEffectiveVerdict verdicts (dac_CriterionID c)) \<noteq> Some ''satisfied''"
  using assms effective_verdict_None [of verdicts "dac_CriterionID c"]
  by (cases "criterionEffectiveVerdict verdicts (dac_CriterionID c)") (auto simp: criterion_pending_def)

text \<open>
  Policy signs only on evidence. The evidence gate passes exactly when no criterion holds
  the demand and some machine criterion (automated test or adversarial review) has "satisfied" as
  its effective verdict.
\<close>

theorem evidence_gate_passes_iff:
  "EvaluateAcceptanceEvidenceGate criteria verdicts = EvidencePass \<longleftrightarrow>
     ResolveUnsatisfiedBlockingCriteria criteria verdicts = [] \<and>
     (\<exists>c \<in> set criteria. IsMachineEvidenceCriterion c \<and>
        map_option fst (criterionEffectiveVerdict verdicts (dac_CriterionID c)) = Some ''satisfied'')"
proof -
  let ?p = "ResolveUnsatisfiedBlockingCriteria criteria verdicts"
  have fail: "pending_outcome verdicts c \<noteq> EvidencePass" for c
    by (simp add: pending_outcome_def split: option.splits)
  have find: "find (\<lambda>c. dac_CriterionID c \<in> set ?p) criteria = None \<longleftrightarrow> ?p = []"
    by (auto simp: find_None_iff ResolveUnsatisfiedBlockingCriteria_def filter_empty_conv)
  have machine: "proves_by_machine [] verdicts c \<longleftrightarrow> IsMachineEvidenceCriterion c \<and>
      map_option fst (criterionEffectiveVerdict verdicts (dac_CriterionID c)) = Some ''satisfied''" for c
    by (auto simp: proves_by_machine_def split: option.splits)
  show ?thesis
  proof (cases "?p = []")
    case True
    with find have "find (\<lambda>c. dac_CriterionID c \<in> set ?p) criteria = None" by blast
    with True show ?thesis
      by (auto simp: EvaluateAcceptanceEvidenceGate_def Let_def list_ex_iff machine)
  next
    case False
    with find obtain c where "find (\<lambda>c. dac_CriterionID c \<in> set ?p) criteria = Some c" by blast
    with False fail [of c] show ?thesis by (simp add: EvaluateAcceptanceEvidenceGate_def Let_def)
  qed
qed

lemma best_revision:
  defines "step \<equiv> \<lambda>(bestID, bestNumber) r.
      if open_revision r \<and> rev_Number r > bestNumber then (rev_ID r, rev_Number r) else (bestID, bestNumber)"
  shows "(if \<exists>r \<in> set rs. open_revision r \<and> 0 \<le> rev_Number r
     then \<exists>r \<in> set rs. open_revision r \<and> foldl step (uuid_Nil, -1) rs = (rev_ID r, rev_Number r) \<and> 0 \<le> rev_Number r \<and>
            (\<forall>r' \<in> set rs. open_revision r' \<longrightarrow> rev_Number r' \<le> rev_Number r)
     else foldl step (uuid_Nil, -1) rs = (uuid_Nil, -1))"
proof (induction rs rule: rev_induct)
  case (snoc r rs)
  show ?case
  proof (cases "\<exists>r \<in> set rs. open_revision r \<and> 0 \<le> rev_Number r")
    case True
    with snoc obtain b where b: "b \<in> set rs" "open_revision b" "foldl step (uuid_Nil, -1) rs = (rev_ID b, rev_Number b)"
      "0 \<le> rev_Number b" "\<forall>r' \<in> set rs. open_revision r' \<longrightarrow> rev_Number r' \<le> rev_Number b" by auto
    show ?thesis
    proof (cases "open_revision r \<and> rev_Number r > rev_Number b")
      case better: True
      then have "foldl step (uuid_Nil, -1) (rs @ [r]) = (rev_ID r, rev_Number r)" using b(3) by (simp add: step_def)
      moreover have "\<forall>r' \<in> set (rs @ [r]). open_revision r' \<longrightarrow> rev_Number r' \<le> rev_Number r"
        using b(5) better by auto
      ultimately show ?thesis using better b by auto
    next
      case False
      then have "foldl step (uuid_Nil, -1) (rs @ [r]) = (rev_ID b, rev_Number b)" using b(3) by (simp add: step_def)
      moreover have "\<forall>r' \<in> set (rs @ [r]). open_revision r' \<longrightarrow> rev_Number r' \<le> rev_Number b"
        using b(5) False by auto
      ultimately show ?thesis using b by auto
    qed
  next
    case False
    with snoc have "foldl step (uuid_Nil, -1) rs = (uuid_Nil, -1)" by simp
    then have step: "foldl step (uuid_Nil, -1) (rs @ [r]) =
        (if open_revision r \<and> 0 \<le> rev_Number r then (rev_ID r, rev_Number r) else (uuid_Nil, -1))"
      by (auto simp: step_def)
    have low: "rev_Number r' < 0" if "r' \<in> set rs" "open_revision r'" for r' using False that by force
    show ?thesis
    proof (cases "open_revision r \<and> 0 \<le> rev_Number r")
      case True
      then have "\<forall>r' \<in> set (rs @ [r]). open_revision r' \<longrightarrow> rev_Number r' \<le> rev_Number r"
        using low by fastforce
      with True step show ?thesis by auto
    next
      case no: False
      with step False show ?thesis by auto
    qed
  qed
qed simp

text \<open>
  The effective plan revision is the newest one in force. When a demand has an accepted,
  decomposing or decomposed revision, the identifier returned belongs to such a revision, and no
  other one in force has a higher number; otherwise it is the nil identifier.
\<close>

theorem effective_revision_is_newest_open:
  "if \<exists>r \<in> set rs. open_revision r \<and> 0 \<le> rev_Number r
   then \<exists>r \<in> set rs. open_revision r \<and> CurrentEffectivePlanRevisionID rs = rev_ID r \<and>
          (\<forall>r' \<in> set rs. open_revision r' \<longrightarrow> rev_Number r' \<le> rev_Number r)
   else CurrentEffectivePlanRevisionID rs = uuid_Nil"
  using best_revision [of rs] by (auto simp: CurrentEffectivePlanRevisionID_def split: if_splits)

definition example_criterion :: "string \<Rightarrow> string \<Rightarrow> string \<Rightarrow> DemandAcceptanceCriterion" where
  "example_criterion i method source =
     \<lparr>dac_CriterionID = i, dac_Statement = [], dac_VerificationMethod = method, dac_Severity = ''blocking'',
      dac_SatisfiedBy = [''build''], dac_Source = source\<rparr>"

definition example_verdict :: "string \<Rightarrow> string \<Rightarrow> string \<Rightarrow> DemandCriterionVerdict" where
  "example_verdict i verdict judge =
     \<lparr>dcv_CriterionID = i, dcv_Verdict = verdict, dcv_JudgeType = judge, dcv_JudgeID = 1, dcv_Reason = [],
      dcv_EvidenceRefs = [], dcv_ProjectTaskID = None\<rparr>"

theorem human_verdict_is_final_witness:
  "''a'' \<in> set (ResolveUnsatisfiedBlockingCriteria [example_criterion ''a'' ''adversarial_review'' []]
     [example_verdict ''a'' ''satisfied'' ''adversarial'', example_verdict ''a'' ''unsatisfied'' ''human''])"
  using human_verdict_is_final [of "example_criterion ''a'' ''adversarial_review'' []"
      "[example_criterion ''a'' ''adversarial_review'' []]"
      "[example_verdict ''a'' ''satisfied'' ''adversarial'', example_verdict ''a'' ''unsatisfied'' ''human'']"
      "example_verdict ''a'' ''unsatisfied'' ''human''"]
  by (simp add: example_criterion_def example_verdict_def last_by_def judged_def noise_criterion_def)

theorem release_needs_satisfied_verdict_witness:
  "\<exists>v \<in> set [example_verdict ''a'' ''satisfied'' ''adversarial''].
     dcv_Verdict v = ''satisfied'' \<and> dcv_JudgeType v \<in> {''human'', ''adversarial''}"
proof -
  let ?c = "example_criterion ''a'' ''adversarial_review'' []"
  have "dac_CriterionID ?c \<notin> set (ResolveUnsatisfiedBlockingCriteria [?c] [example_verdict ''a'' ''satisfied'' ''adversarial''])"
    by code_simp
  moreover have "\<not> noise_criterion ?c" by code_simp
  ultimately show ?thesis
    using release_needs_satisfied_verdict [of ?c "[?c]" "[example_verdict ''a'' ''satisfied'' ''adversarial'']"]
    by (simp add: example_criterion_def)
qed

theorem review_gate_releases_by_default_witness:
  "\<not> criterion_pending [] (example_criterion ''a'' ''review_gate'' []) \<and>
   criterion_pending [example_verdict ''a'' ''pending'' ''review_gate''] (example_criterion ''a'' ''review_gate'' [])"
proof -
  let ?c = "example_criterion ''a'' ''review_gate'' []"
  have "dac_Severity ?c = ''blocking''" "dac_VerificationMethod ?c = ''review_gate''"
    by (simp_all add: example_criterion_def)
  note rule = review_gate_releases_by_default [OF this]
  have "map_option fst (criterionEffectiveVerdict [example_verdict ''a'' ''pending'' ''review_gate''] (dac_CriterionID ?c))
      \<noteq> Some ''satisfied''" by code_simp
  then show ?thesis using rule by (simp add: example_criterion_def example_verdict_def)
qed

theorem evidence_gate_passes_iff_witness:
  "\<exists>c \<in> set [example_criterion ''a'' ''automated_test'' []]. IsMachineEvidenceCriterion c"
proof -
  have "EvaluateAcceptanceEvidenceGate [example_criterion ''a'' ''automated_test'' []]
      [example_verdict ''a'' ''satisfied'' ''executor''] = EvidencePass" by code_simp
  then show ?thesis using evidence_gate_passes_iff by blast
qed

theorem effective_revision_is_newest_open_witness:
  "CurrentEffectivePlanRevisionID [\<lparr>rev_ID = 5, rev_Number = 1, rev_Status = ''decomposed''\<rparr>,
     \<lparr>rev_ID = 6, rev_Number = 2, rev_Status = ''rejected''\<rparr>] = 5"
  using effective_revision_is_newest_open [of "[\<lparr>rev_ID = 5, rev_Number = 1, rev_Status = ''decomposed''\<rparr>,
     \<lparr>rev_ID = 6, rev_Number = 2, rev_Status = ''rejected''\<rparr>]"]
  by (simp add: open_revision_def)

text \<open>
  Acceptance of a plan revision is irrevocable. Along any sequence of permitted status
  changes, a revision that has been accepted stays accepted, decomposing or decomposed: it is never
  rejected, superseded or editable again.
\<close>

theorem accepted_revision_stays_accepted:
  assumes "CanTransitionPlanRevisionStatus\<^sup>*\<^sup>* from to" "IsAcceptedPlanRevisionStatus from"
  shows "IsAcceptedPlanRevisionStatus to \<and> \<not> IsMutablePlanRevisionStatus to"
  using assms
proof (induction rule: rtranclp_induct)
  case base
  then show ?case by (auto simp: IsAcceptedPlanRevisionStatus_def IsMutablePlanRevisionStatus_def)
next
  case (step y z)
  then have "y \<in> {''accepted'', ''decomposing'', ''decomposed''}" by (simp add: IsAcceptedPlanRevisionStatus_def)
  with step.hyps(2) have "z \<in> {''decomposing'', ''decomposed''}" by (auto simp: CanTransitionPlanRevisionStatus_def)
  then show ?case by (auto simp: IsAcceptedPlanRevisionStatus_def IsMutablePlanRevisionStatus_def)
qed

theorem accepted_revision_stays_accepted_witness:
  "CanTransitionPlanRevisionStatus\<^sup>*\<^sup>* ''accepted'' ''decomposing'' \<and> \<not> IsMutablePlanRevisionStatus ''decomposing''"
proof -
  have "CanTransitionPlanRevisionStatus ''accepted'' ''decomposing''" by code_simp
  then have run: "CanTransitionPlanRevisionStatus\<^sup>*\<^sup>* ''accepted'' ''decomposing''" by blast
  have "IsAcceptedPlanRevisionStatus ''accepted''" by code_simp
  from accepted_revision_stays_accepted [OF run this] run show ?thesis by blast
qed

end
