(* ===== verification/Task_Result.thy ===== *)
theory Task_Result
  imports Demand_Acceptance
begin

text \<open>
  The result contract of a task, after \<^verbatim>\<open>project/task_result_contract.go\<close>: what an executor hands in,
  its validation against the task, the decision that follows, the adapters from the older write-back
  requests and the resolution of declared deliverables. Statuses are strings because the executor
  writes them; decisions are the platform's own and a datatype. The JSON decoders of the file are not
  part of the model: the definitions start from the decoded contract. The records leave out the fields
  that no modelled operation reads.
\<close>

section \<open>Records\<close>

record TaskResultRef =
  trr_ID :: string
  trr_Kind :: string
  trr_Type :: string
  trr_Ref :: string
  trr_URI :: string
  trr_URL :: string
  trr_Title :: string
  trr_Summary :: string
  trr_Metadata :: "gmap option"

record TaskResultAcceptanceResult =
  tar_ID :: string
  tar_Criterion :: string
  tar_CriterionID :: string
  tar_Name :: string
  tar_Status :: string
  tar_Summary :: string
  tar_EvidenceRefs :: "string list"
  tar_HumanAcceptedReason :: string

record TaskResultDeliverable =
  trd_Name :: string
  trd_Kind :: string
  trd_Value :: string
  trd_Ref :: string
  trd_Summary :: string

record TaskResultVerification =
  trv_Status :: string
  trv_Type :: string
  trv_Ref :: string
  trv_Summary :: string
  trv_Method :: string
  trv_EvidenceRefs :: "TaskResultRef list"

record TaskResultRisk =
  trk_Summary :: string
  trk_Severity :: string
  trk_Level :: string
  trk_RequiresHumanReview :: bool

record TaskResultFollowUpRequest =
  tfu_Summary :: string
  tfu_RequiredBy :: string
  tfu_MissingInformation :: "TaskResultRef list"

record TaskResultHumanReviewRequest =
  thr_Reason :: string
  thr_Prompt :: string
  thr_Options :: "string list"
  thr_RequiredBy :: string
  thr_SuggestedResolutionOptions :: "string list"

record TaskResultRevisionRequest =
  tre_Reason :: string
  tre_ContractChanged :: bool

record TaskResultBlocker =
  tbl_Reason :: string
  tbl_ResolutionPrompt :: string
  tbl_RequiredBy :: string
  tbl_MissingInputs :: "string list"
  tbl_ContextRefs :: "TaskResultRef list"

record TaskResultFailure =
  tfl_ErrorFamily :: string
  tfl_Retryable :: "bool option"
  tfl_RecoveryRecommendation :: string

text \<open>The replan and cancellation requests are their reasons.\<close>

record TaskResultContract =
  trc_Status :: string
  trc_Summary :: string
  trc_AcceptanceResults :: "TaskResultAcceptanceResult list"
  trc_EvidenceRefs :: "TaskResultRef list"
  trc_ArtifactRefs :: "TaskResultRef list"
  trc_Deliverables :: "TaskResultDeliverable list"
  trc_Verification :: "TaskResultVerification list"
  trc_Risks :: "TaskResultRisk list"
  trc_FollowUpRequests :: "TaskResultFollowUpRequest list"
  trc_HumanReviewRequest :: "TaskResultHumanReviewRequest option"
  trc_RevisionRequest :: "TaskResultRevisionRequest option"
  trc_Blocker :: "TaskResultBlocker option"
  trc_Failure :: "TaskResultFailure option"
  trc_ReplanRequest :: "string option"
  trc_Cancellation :: "string option"

text \<open>The fields of a project task that the result handling reads. The counters are 32-bit integers
  that are only compared.\<close>

record ProjectTask =
  pt_ID :: uuid
  pt_DemandID :: "uuid option"
  pt_AssignedDigitalEmployeeID :: "uuid option"
  pt_RiskLevel :: "string option"
  pt_RequiresHumanApproval :: bool
  pt_PlannedTaskKey :: "string option"
  pt_ExpectedOutputs :: "gval list"
  pt_InputRequirements :: gmap
  pt_HandoffContract :: gmap
  pt_PlannerMetadata :: gmap
  pt_RevisionOfTaskID :: "uuid option"
  pt_AcceptedPlanRevisionID :: "uuid option"
  pt_AttemptCount :: int
  pt_MaxAttempts :: "int option"

datatype TaskResultDecision =
    ValidationFailed | CompleteAccepted | WaitingHumanReview | RevisionAttempt | RevisionTask
  | BlockedWaitingHuman | BlockedResolvableUpstream | FailedRetryable | FailedRecovery
  | CancelledTerminal | ReplanRequested

record TaskResultValidation =
  tvd_Valid :: bool
  tvd_Decision :: TaskResultDecision
  tvd_Errors :: "string list"

abbreviation st_completed :: string where "st_completed \<equiv> ''completed''"
abbreviation st_revision_needed :: string where "st_revision_needed \<equiv> ''revision_needed''"
abbreviation st_blocked :: string where "st_blocked \<equiv> ''blocked''"
abbreviation st_failed :: string where "st_failed \<equiv> ''failed''"
abbreviation st_cancelled :: string where "st_cancelled \<equiv> ''cancelled''"

section \<open>Dynamic values\<close>

definition stringFromMap :: "gmap \<Rightarrow> string \<Rightarrow> string" where
  "stringFromMap values key = (case gget values key of GNil \<Rightarrow> [] | v \<Rightarrow> TrimSpace (sprint v))"

fun firstNonBlankString :: "string list \<Rightarrow> string" where
  "firstNonBlankString [] = []"
| "firstNonBlankString (v # vs) = (let t = TrimSpace v in if t \<noteq> [] then t else firstNonBlankString vs)"

definition nonBlankStrings :: "string list \<Rightarrow> string list" where
  "nonBlankStrings values = filter (\<lambda>t. t \<noteq> []) (map TrimSpace values)"

fun boolFromAny :: "gval \<Rightarrow> bool option" where
  "boolFromAny (GBool b) = Some b"
| "boolFromAny (GStr s) =
     (let t = ToLower (TrimSpace s) in
      if t = ''true'' then Some True else if t = ''false'' then Some False else None)"
| "boolFromAny _ = None"

definition string_entry :: "(string \<times> string) list \<Rightarrow> string \<Rightarrow> string" where
  "string_entry m k = (case map_of m k of None \<Rightarrow> [] | Some s \<Rightarrow> s)"

definition criterion_keys :: "string list" where
  "criterion_keys = [''criterion'', ''name'', ''id'', ''key'', ''title'']"

definition stringsFromCriterionMap :: "gmap \<Rightarrow> string list" where
  "stringsFromCriterionMap m =
     (if boolFromAny (gget m ''required'') = Some False then []
      else case find (\<lambda>t. t \<noteq> []) (map (stringFromMap m) criterion_keys) of None \<Rightarrow> [] | Some t \<Rightarrow> [t])"

definition stringsFromCriterionStringMap :: "(string \<times> string) list \<Rightarrow> string list" where
  "stringsFromCriterionStringMap m =
     (if (case map_of m ''required'' of None \<Rightarrow> False | Some r \<Rightarrow> EqualFold (TrimSpace r) ''false'') then []
      else case find (\<lambda>t. t \<noteq> []) (map (\<lambda>k. TrimSpace (string_entry m k)) criterion_keys) of
             None \<Rightarrow> [] | Some t \<Rightarrow> [t])"

definition sprinted :: "gval \<Rightarrow> string list" where
  "sprinted v = (let t = TrimSpace (sprint v) in if t = [] then [] else [t])"

fun stringsFromAny :: "gval \<Rightarrow> string list" where
  "stringsFromAny GNil = []"
| "stringsFromAny (GStrs ss) = nonBlankStrings ss"
| "stringsFromAny (GList vs) = concat (map stringsFromAny vs)"
| "stringsFromAny (GMap m) = stringsFromCriterionMap m"
| "stringsFromAny (GSMap m) = stringsFromCriterionStringMap m"
| "stringsFromAny (GBool b) = sprinted (GBool b)"
| "stringsFromAny (GStr s) = sprinted (GStr s)"
| "stringsFromAny (GNum r t) = sprinted (GNum r t)"
| "stringsFromAny (GMaps ms) = sprinted (GMaps ms)"

text \<open>\<^verbatim>\<open>stringSetFromAny\<close> of \<^verbatim>\<open>service.go\<close>, as the list of its members.\<close>

definition stringSetFromAny :: "gval list \<Rightarrow> string list" where
  "stringSetFromAny values = filter (\<lambda>t. t \<noteq> []) (map TrimSpace (List.map_filter as_str values))"

fun boolFromTaskContract :: "gval \<Rightarrow> bool" where
  "boolFromTaskContract (GBool b) = b"
| "boolFromTaskContract (GStr s) = EqualFold (TrimSpace s) ''true''"
| "boolFromTaskContract _ = False"

section \<open>References\<close>

definition usableTaskResultRef :: "TaskResultRef \<Rightarrow> bool" where
  "usableTaskResultRef r =
     (TrimSpace (trr_Ref r) \<noteq> [] \<or> TrimSpace (trr_URI r) \<noteq> [] \<or> TrimSpace (trr_URL r) \<noteq> [] \<or> TrimSpace (trr_ID r) \<noteq> [])"

definition hasUsableTaskResultRef :: "TaskResultRef list \<Rightarrow> bool" where
  "hasUsableTaskResultRef refs = list_ex usableTaskResultRef refs"

definition taskResultRefBlankErrors :: "string \<Rightarrow> TaskResultRef list \<Rightarrow> string list" where
  "taskResultRefBlankErrors code refs = map (\<lambda>_. code) (filter (\<lambda>r. \<not> usableTaskResultRef r) refs)"

definition hasUsableStringRef :: "string list \<Rightarrow> bool" where
  "hasUsableStringRef refs = list_ex (\<lambda>r. TrimSpace r \<noteq> []) refs"

definition hasBlankStringRef :: "string list \<Rightarrow> bool" where
  "hasBlankStringRef refs = list_ex (\<lambda>r. TrimSpace r = []) refs"

text \<open>\<^verbatim>\<open>taskResultRefIsAttestation\<close> of \<^verbatim>\<open>service.go\<close>, with the same condition as the loop of
  \<^verbatim>\<open>verificationHasAttestationRef\<close>, which looks at the first such reference only.\<close>

definition taskResultRefIsAttestation :: "TaskResultRef \<Rightarrow> bool" where
  "taskResultRefIsAttestation r =
     (EqualFold (TrimSpace (trr_Kind r)) ''attestation'' \<or> EqualFold (TrimSpace (trr_Type r)) ''attestation'' \<or>
      HasPrefix (TrimSpace (trr_Ref r)) ''attestation:'')"

definition verificationHasAttestationRef :: "TaskResultVerification \<Rightarrow> bool" where
  "verificationHasAttestationRef v =
     (case find taskResultRefIsAttestation (trv_EvidenceRefs v) of None \<Rightarrow> False | Some r \<Rightarrow> usableTaskResultRef r)"

section \<open>Validation\<close>

definition verification_errors :: "bool \<Rightarrow> string \<Rightarrow> TaskResultVerification \<Rightarrow> string list" where
  "verification_errors attest status v =
     (if trv_Status v = ''passed'' \<or> trv_Status v = ''skipped'' then []
      else if trv_Status v = ''failed'' then (if status = st_completed then [''verification_failed''] else [])
      else [''verification_status_invalid:'' @ trv_Status v]) @
     (if status = st_completed \<and> trv_Status v = ''passed'' \<and> attest \<and> \<not> verificationHasAttestationRef v
      then [''verification_attestation_ref_required''] else [])"

definition validateTaskResultVerifications :: "ProjectTask \<Rightarrow> string \<Rightarrow> TaskResultVerification list \<Rightarrow> string list" where
  "validateTaskResultVerifications task status vs =
     concat (map (verification_errors
       (boolFromTaskContract (gget (pt_HandoffContract task) ''requires_runtime_attestation'')) status) vs)"

definition validateCompletedAcceptanceResult :: "string \<Rightarrow> TaskResultAcceptanceResult \<Rightarrow> string list" where
  "validateCompletedAcceptanceResult criterion r =
     (let evidence =
        (if hasBlankStringRef (tar_EvidenceRefs r) then [''acceptance_result_evidence_blank:'' @ criterion] else []) @
        (if \<not> hasUsableStringRef (tar_EvidenceRefs r) then [''acceptance_result_evidence_missing:'' @ criterion] else [])
      in if tar_Status r = ''passed'' \<or> tar_Status r = ''human_overridden'' then evidence
         else if tar_Status r = ''not_applicable'' then
           (if TrimSpace (tar_HumanAcceptedReason r) = []
            then [''acceptance_result_human_reason_required:'' @ criterion] else evidence)
         else [''acceptance_result_not_accepted:'' @ criterion])"

definition matchesCriterion :: "TaskResultAcceptanceResult \<Rightarrow> string \<Rightarrow> bool" where
  "matchesCriterion r criterion =
     list_ex (\<lambda>c. TrimSpace c = criterion) [tar_Criterion r, tar_CriterionID r, tar_ID r, tar_Name r]"

definition acceptanceResultForCriterion ::
  "TaskResultAcceptanceResult list \<Rightarrow> string \<Rightarrow> TaskResultAcceptanceResult option" where
  "acceptanceResultForCriterion results criterion = find (\<lambda>r. matchesCriterion r criterion) results"

definition requiredAcceptanceCriteria :: "gmap \<Rightarrow> string list" where
  "requiredAcceptanceCriteria contract =
     (if contract = [] then [] else stringsFromAny (gget contract ''acceptance_criteria''))"

definition criterion_errors :: "TaskResultContract \<Rightarrow> string \<Rightarrow> string list" where
  "criterion_errors result criterion =
     (case acceptanceResultForCriterion (trc_AcceptanceResults result) criterion of
        None \<Rightarrow> [''acceptance_result_missing:'' @ criterion]
      | Some r \<Rightarrow> validateCompletedAcceptanceResult criterion r)"

definition delivered_names :: "TaskResultContract \<Rightarrow> string list" where
  "delivered_names result =
     map (\<lambda>d. TrimSpace (trd_Name d))
       (filter (\<lambda>d. TrimSpace (trd_Name d) \<noteq> [] \<and> (TrimSpace (trd_Value d) \<noteq> [] \<or> TrimSpace (trd_Ref d) \<noteq> []))
         (trc_Deliverables result))"

fun produces_of :: "gval \<Rightarrow> string list" where
  "produces_of (GList vs) = filter (\<lambda>t. t \<noteq> []) (map TrimSpace (List.map_filter as_str vs))"
| "produces_of (GStrs ss) = filter (\<lambda>t. t \<noteq> []) (map TrimSpace ss)"
| "produces_of _ = []"

definition taskPlannerProduces :: "ProjectTask \<Rightarrow> string list" where
  "taskPlannerProduces task = produces_of (gget (pt_PlannerMetadata task) ''produces'')"

definition validateCompletedTaskResult :: "ProjectTask \<Rightarrow> TaskResultContract \<Rightarrow> string list" where
  "validateCompletedTaskResult task result =
     (let requiredOutputs = stringSetFromAny (pt_ExpectedOutputs task) in
      (if ''evidence_refs'' \<in> set requiredOutputs \<and> \<not> hasUsableTaskResultRef (trc_EvidenceRefs result)
       then [''expected_output_missing:evidence_refs''] else []) @
      (if ''artifact_refs'' \<in> set requiredOutputs \<and> \<not> hasUsableTaskResultRef (trc_ArtifactRefs result)
       then [''expected_output_missing:artifact_refs''] else []) @
      (if ''verification'' \<in> set requiredOutputs \<and> trc_Verification result = []
       then [''expected_output_missing:verification''] else []) @
      concat (map (criterion_errors result) (requiredAcceptanceCriteria (pt_HandoffContract task))) @
      map (\<lambda>name. ''handoff_deliverable_missing:'' @ name)
        (filter (\<lambda>name. name \<notin> set (delivered_names result)) (taskPlannerProduces task)))"

definition validTaskResultStatus :: "string \<Rightarrow> bool" where
  "validTaskResultStatus status =
     (status \<in> set [st_completed, st_revision_needed, st_blocked, st_failed, st_cancelled])"

text \<open>The switch over the status.\<close>

definition status_errors :: "ProjectTask \<Rightarrow> TaskResultContract \<Rightarrow> string list" where
  "status_errors task result =
     (if trc_Status result = st_completed then validateCompletedTaskResult task result
      else if trc_Status result = st_revision_needed then
        (case trc_RevisionRequest result of
           None \<Rightarrow> [''revision_reason_required'']
         | Some r \<Rightarrow> if TrimSpace (tre_Reason r) = [] then [''revision_reason_required''] else [])
      else if trc_Status result = st_blocked then
        (case trc_Blocker result of
           None \<Rightarrow> [''blocker_reason_required'', ''blocker_required_by_required'']
         | Some b \<Rightarrow>
             (if TrimSpace (tbl_Reason b) = [] then [''blocker_reason_required''] else []) @
             (if TrimSpace (tbl_RequiredBy b) = [] then [''blocker_required_by_required''] else []))
      else if trc_Status result = st_failed then
        (case trc_Failure result of
           None \<Rightarrow> [''failure_error_family_required'', ''failure_retryable_required'', ''failure_recovery_recommendation_required'']
         | Some f \<Rightarrow>
             (if TrimSpace (tfl_ErrorFamily f) = [] then [''failure_error_family_required''] else []) @
             (if tfl_Retryable f = None then [''failure_retryable_required''] else []) @
             (if TrimSpace (tfl_RecoveryRecommendation f) = [] then [''failure_recovery_recommendation_required''] else []))
      else if trc_Status result = st_cancelled then
        (case trc_Cancellation result of
           None \<Rightarrow> [''cancellation_reason_required'']
         | Some r \<Rightarrow> if TrimSpace r = [] then [''cancellation_reason_required''] else [])
      else [])"

section \<open>Decisions\<close>

definition highRiskLevel :: "string \<Rightarrow> bool" where
  "highRiskLevel value =
     (ToLower (TrimSpace value) \<in> set [''high'', ''critical'', byte_string [233, 171, 152], byte_string [233,
       171, 152, 233, 163, 142, 233, 153, 169], byte_string [228, 184, 165, 233, 135, 141]])"

definition taskResultNeedsHumanReview :: "ProjectTask \<Rightarrow> TaskResultContract \<Rightarrow> bool" where
  "taskResultNeedsHumanReview task result =
     (if pt_RequiresHumanApproval task \<or> trc_HumanReviewRequest result \<noteq> None then True
      else if list_ex (\<lambda>r. trk_RequiresHumanReview r \<or> highRiskLevel (trk_Severity r) \<or> highRiskLevel (trk_Level r)) (trc_Risks result)
      then True
      else case pt_RiskLevel task of None \<Rightarrow> False | Some l \<Rightarrow> highRiskLevel l)"

definition taskResultRetryBudgetRemains :: "ProjectTask \<Rightarrow> bool" where
  "taskResultRetryBudgetRemains task =
     (case pt_MaxAttempts task of None \<Rightarrow> True | Some n \<Rightarrow> pt_AttemptCount task < n)"

text \<open>\<^verbatim>\<open>mergeRequiredInputName\<close>: what one entry adds to the set.\<close>

definition trimmed_name :: "string option \<Rightarrow> string list" where
  "trimmed_name v = (case v of None \<Rightarrow> [] | Some s \<Rightarrow> (let t = TrimSpace s in if t \<noteq> [] then [t] else []))"

fun mergeRequiredInputName :: "gval \<Rightarrow> string list" where
  "mergeRequiredInputName (GStr s) = trimmed_name (Some s)"
| "mergeRequiredInputName (GMap m) = trimmed_name (as_str (gget m ''name''))"
| "mergeRequiredInputName _ = []"

fun requiredInputNameSet :: "gval \<Rightarrow> string list" where
  "requiredInputNameSet (GStrs ss) = concat (map (\<lambda>s. trimmed_name (Some s)) ss)"
| "requiredInputNameSet (GList vs) = concat (map mergeRequiredInputName vs)"
| "requiredInputNameSet (GMaps ms) = concat (map (\<lambda>m. mergeRequiredInputName (GMap m)) ms)"
| "requiredInputNameSet _ = []"

definition handoffNoteNameSet :: "gmap \<Rightarrow> string list" where
  "handoffNoteNameSet contract =
     (case as_list (gget contract ''notes'') of
        None \<Rightarrow> []
      | Some entries \<Rightarrow>
          concat (map (\<lambda>e. case as_map e of None \<Rightarrow> [] | Some m \<Rightarrow> trimmed_name (as_str (gget m ''name''))) entries))"

definition declared_inputs :: "ProjectTask \<Rightarrow> string list" where
  "declared_inputs task =
     requiredInputNameSet (gget (pt_InputRequirements task) ''required_inputs'') @ handoffNoteNameSet (pt_HandoffContract task)"

definition mapTaskResultDecision :: "ProjectTask \<Rightarrow> TaskResultContract \<Rightarrow> TaskResultDecision" where
  "mapTaskResultDecision task result =
     (if trc_Status result = st_completed then
        (if taskResultNeedsHumanReview task result then WaitingHumanReview else CompleteAccepted)
      else if trc_Status result = st_revision_needed then
        (case trc_RevisionRequest result of
           Some r \<Rightarrow> if tre_ContractChanged r then RevisionTask else RevisionAttempt
         | None \<Rightarrow> RevisionAttempt)
      else if trc_Status result = st_blocked then
        (case trc_Blocker result of
           None \<Rightarrow> BlockedWaitingHuman
         | Some b \<Rightarrow>
             if tbl_MissingInputs b \<noteq> [] \<and> list_all (\<lambda>m. m \<in> set (declared_inputs task)) (tbl_MissingInputs b)
             then BlockedResolvableUpstream else BlockedWaitingHuman)
      else if trc_Status result = st_failed then
        (if trc_ReplanRequest result \<noteq> None then ReplanRequested
         else case trc_Failure result of
           Some f \<Rightarrow> if tfl_Retryable f = Some True \<and> taskResultRetryBudgetRemains task then FailedRetryable else FailedRecovery
         | None \<Rightarrow> FailedRecovery)
      else if trc_Status result = st_cancelled then CancelledTerminal
      else ValidationFailed)"

definition contract_errors :: "ProjectTask \<Rightarrow> TaskResultContract \<Rightarrow> string list" where
  "contract_errors task result =
     (if \<not> validTaskResultStatus (trc_Status result) then [''status_invalid:'' @ trc_Status result] else []) @
     (if TrimSpace (trc_Summary result) = [] then [''summary_required''] else []) @
     taskResultRefBlankErrors ''evidence_ref_blank'' (trc_EvidenceRefs result) @
     taskResultRefBlankErrors ''artifact_ref_blank'' (trc_ArtifactRefs result) @
     validateTaskResultVerifications task (trc_Status result) (trc_Verification result) @
     status_errors task result"

definition ValidateTaskResultContract :: "ProjectTask \<Rightarrow> TaskResultContract \<Rightarrow> TaskResultValidation" where
  "ValidateTaskResultContract task result =
     (let errors = contract_errors task result in
      if errors \<noteq> [] then \<lparr>tvd_Valid = False, tvd_Decision = ValidationFailed, tvd_Errors = errors\<rparr>
      else \<lparr>tvd_Valid = True, tvd_Decision = mapTaskResultDecision task result, tvd_Errors = []\<rparr>)"

section \<open>Adapters from the older requests\<close>

record CompleteProjectTaskAttemptRequest =
  cta_Conclusion :: string
  cta_EvidenceRefs :: "gval list"
  cta_ArtifactRefs :: "gval list"
  cta_MissingInformation :: "gval list"
  cta_RecommendedNextAction :: string
  cta_RequiresHumanReview :: bool

record FailProjectTaskAttemptRequest =
  fta_FailureSummary :: string
  fta_FailureFamily :: string
  fta_Retryable :: "bool option"

record WaitHumanProjectTaskAttemptRequest =
  wta_Reason :: string
  wta_Summary :: string
  wta_MissingContextRefs :: "gval list"
  wta_SuggestedResolutionOptions :: "string list"

text \<open>The zero value of a contract with a status and a summary.\<close>

definition result_contract :: "string \<Rightarrow> string \<Rightarrow> TaskResultContract" where
  "result_contract status summary =
     \<lparr>trc_Status = status, trc_Summary = summary, trc_AcceptanceResults = [], trc_EvidenceRefs = [], trc_ArtifactRefs = [],
      trc_Deliverables = [], trc_Verification = [], trc_Risks = [], trc_FollowUpRequests = [],
      trc_HumanReviewRequest = None, trc_RevisionRequest = None, trc_Blocker = None, trc_Failure = None,
      trc_ReplanRequest = None, trc_Cancellation = None\<rparr>"

definition text_ref :: "string \<Rightarrow> string \<Rightarrow> TaskResultRef" where
  "text_ref kind t =
     \<lparr>trr_ID = [], trr_Kind = kind, trr_Type = kind, trr_Ref = t, trr_URI = [], trr_URL = [], trr_Title = [],
      trr_Summary = [], trr_Metadata = None\<rparr>"

definition nonblank_ref :: "TaskResultRef \<Rightarrow> TaskResultRef option" where
  "nonblank_ref r = (if TrimSpace (trr_Ref r) = [] then None else Some r)"

fun taskResultRefFromAny :: "gval \<Rightarrow> string \<Rightarrow> TaskResultRef option" where
  "taskResultRefFromAny GNil defaultKind = None"
| "taskResultRefFromAny (GMap m) defaultKind =
     (let s = stringFromMap m in
      nonblank_ref
        \<lparr>trr_ID = s ''id'', trr_Kind = firstNonBlankString [s ''kind'', s ''type'', defaultKind],
         trr_Type = firstNonBlankString [s ''type'', s ''kind'', defaultKind],
         trr_Ref = firstNonBlankString [s ''ref'', s ''id'', s ''uri'', s ''url''], trr_URI = s ''uri'', trr_URL = s ''url'',
         trr_Title = firstNonBlankString [s ''title'', s ''name''], trr_Summary = s ''summary'', trr_Metadata = Some m\<rparr>)"
| "taskResultRefFromAny (GSMap m) defaultKind =
     (let s = string_entry m in
      nonblank_ref
        \<lparr>trr_ID = TrimSpace (s ''id''), trr_Kind = firstNonBlankString [s ''kind'', s ''type'', defaultKind],
         trr_Type = firstNonBlankString [s ''type'', s ''kind'', defaultKind],
         trr_Ref = firstNonBlankString [s ''ref'', s ''id'', s ''uri'', s ''url''], trr_URI = TrimSpace (s ''uri''),
         trr_URL = TrimSpace (s ''url''), trr_Title = firstNonBlankString [s ''title'', s ''name''],
         trr_Summary = TrimSpace (s ''summary''), trr_Metadata = None\<rparr>)"
| "taskResultRefFromAny v defaultKind =
     (let t = TrimSpace (sprint v) in if t = [] then None else Some (text_ref defaultKind t))"

definition taskResultRefsFromAny :: "gval list \<Rightarrow> string \<Rightarrow> TaskResultRef list" where
  "taskResultRefsFromAny values defaultKind = List.map_filter (\<lambda>v. taskResultRefFromAny v defaultKind) values"

definition TaskResultContractFromLegacyCompletion :: "CompleteProjectTaskAttemptRequest \<Rightarrow> TaskResultContract" where
  "TaskResultContractFromLegacyCompletion req =
     (let nextAction = TrimSpace (cta_RecommendedNextAction req) in
      (result_contract st_completed (TrimSpace (cta_Conclusion req)))
        \<lparr>trc_EvidenceRefs := taskResultRefsFromAny (cta_EvidenceRefs req) ''evidence'',
         trc_ArtifactRefs := taskResultRefsFromAny (cta_ArtifactRefs req) ''artifact'',
         trc_FollowUpRequests :=
           (if nextAction \<noteq> [] then
              [\<lparr>tfu_Summary = nextAction, tfu_RequiredBy = ''human'',
                tfu_MissingInformation = taskResultRefsFromAny (cta_MissingInformation req) ''missing_information''\<rparr>]
            else []),
         trc_HumanReviewRequest :=
           (if cta_RequiresHumanReview req then
              Some \<lparr>thr_Reason = ''legacy_completion_requires_human_review'', thr_Prompt = ''Review legacy completion result'',
                    thr_Options = [], thr_RequiredBy = ''human'', thr_SuggestedResolutionOptions = []\<rparr>
            else None)\<rparr>)"

definition retryableFailureFamily :: "string \<Rightarrow> bool" where
  "retryableFailureFamily family =
     (TrimSpace family \<in> set [''transient_runtime'', ''transient_provider'', ''timeout''])"

definition TaskResultContractFromFailure :: "FailProjectTaskAttemptRequest \<Rightarrow> TaskResultContract" where
  "TaskResultContractFromFailure req =
     (let retryable = (case fta_Retryable req of Some b \<Rightarrow> b | None \<Rightarrow> retryableFailureFamily (fta_FailureFamily req)) in
      (result_contract st_failed (TrimSpace (fta_FailureSummary req)))
        \<lparr>trc_Failure := Some \<lparr>tfl_ErrorFamily = TrimSpace (fta_FailureFamily req), tfl_Retryable = Some retryable,
           tfl_RecoveryRecommendation = (if retryable then ''retry_original_attempt'' else ''manual_recovery_required'')\<rparr>\<rparr>)"

definition TaskResultContractFromWaitHuman :: "WaitHumanProjectTaskAttemptRequest \<Rightarrow> TaskResultContract" where
  "TaskResultContractFromWaitHuman req =
     (let reason = TrimSpace (wta_Reason req);
          summary = (if TrimSpace (wta_Summary req) = [] then reason else TrimSpace (wta_Summary req)) in
      (result_contract st_blocked summary)
        \<lparr>trc_Blocker := Some \<lparr>tbl_Reason = reason, tbl_ResolutionPrompt = reason, tbl_RequiredBy = ''human'',
           tbl_MissingInputs = [], tbl_ContextRefs = taskResultRefsFromAny (wta_MissingContextRefs req) ''missing_context''\<rparr>,
         trc_HumanReviewRequest := Some \<lparr>thr_Reason = reason, thr_Prompt = reason,
           thr_Options = wta_SuggestedResolutionOptions req, thr_RequiredBy = ''human'',
           thr_SuggestedResolutionOptions = wta_SuggestedResolutionOptions req\<rparr>\<rparr>)"

section \<open>Platform additions to an accepted contract\<close>

definition enrichContractWithHandoffVerification :: "ProjectTask \<Rightarrow> TaskResultContract \<Rightarrow> TaskResultContract" where
  "enrichContractWithHandoffVerification task contract =
     (if trc_Status contract \<noteq> st_completed then contract
      else contract\<lparr>trc_Verification := trc_Verification contract @
        map (\<lambda>name. \<lparr>trv_Status = ''passed'', trv_Type = ''handoff_fulfillment'', trv_Ref = [],
          trv_Summary = ''deliverable \"'' @ name @ ''\" '' @ byte_string [229, 183, 178, 228, 186, 164, 228, 187,
            152, 239, 188, 136, 229, 185, 179, 229, 143, 176, 230, 160, 184, 229, 175, 185, 239, 188, 137],
          trv_Method = ''platform_produces_check'', trv_EvidenceRefs = []\<rparr>) (taskPlannerProduces task)\<rparr>)"

text \<open>\<^verbatim>\<open>strings.IndexByte\<close> and \<^verbatim>\<open>path.Base\<close>.\<close>

fun IndexByte :: "string \<Rightarrow> char \<Rightarrow> nat option" where
  "IndexByte [] c = None"
| "IndexByte (x # xs) c = (if x = c then Some 0 else map_option Suc (IndexByte xs c))"

definition path_Base :: "string \<Rightarrow> string" where
  "path_Base p =
     (if p = [] then ''.''
      else let base = rev (takeWhile (\<lambda>c. c \<noteq> CHR ''/'') (dropWhile (\<lambda>c. c = CHR ''/'') (rev p)))
           in if base = [] then ''/'' else base)"

definition CutPrefix :: "string \<Rightarrow> string \<Rightarrow> string option" where
  "CutPrefix s p = (if HasPrefix s p then Some (drop (length p) s) else None)"

definition stripSessionDeliverablesPrefix :: "string \<Rightarrow> string option" where
  "stripSessionDeliverablesPrefix ref =
     (case CutPrefix ref ''.superteam/sessions/'' of
        None \<Rightarrow> None
      | Some rest \<Rightarrow>
          (case IndexByte rest (CHR ''/'') of
             None \<Rightarrow> None
           | Some slash \<Rightarrow> if slash = 0 then None else CutPrefix (drop (slash + 1) rest) ''deliverables/''))"

text \<open>The closure \<open>add\<close>; the seen set is the reference itself and the aliases so far.\<close>

definition add_alias :: "string \<Rightarrow> string list \<Rightarrow> string \<Rightarrow> string list" where
  "add_alias ref aliases v =
     (let t = TrimSpace v in if t = [] \<or> t = ref \<or> t \<in> set aliases then aliases else aliases @ [t])"

definition declaredDeliverableLookupAliases :: "string \<Rightarrow> string list" where
  "declaredDeliverableLookupAliases ref0 =
     (let ref = TrimSpace ref0 in
      if ref = [] then []
      else foldl (add_alias ref) []
        ((case CutPrefix ref ''deliverables/'' of None \<Rightarrow> [] | Some t \<Rightarrow> [t]) @
         (case stripSessionDeliverablesPrefix ref of None \<Rightarrow> [] | Some rest \<Rightarrow> [rest, ''deliverables/'' @ rest]) @
         (let base = path_Base ref in if base \<noteq> ''.'' \<and> base \<noteq> ''/'' \<and> base \<noteq> ref then [base] else [])))"

definition declared_lookup :: "(string \<times> uuid) list \<Rightarrow> string \<Rightarrow> uuid option" where
  "declared_lookup declared ref =
     (case map_of declared ref of
        Some i \<Rightarrow> Some i
      | None \<Rightarrow> (case List.map_filter (map_of declared) (declaredDeliverableLookupAliases ref) of [] \<Rightarrow> None | i # _ \<Rightarrow> Some i))"

definition resolve_deliverable :: "uuid_lib \<Rightarrow> (string \<times> uuid) list \<Rightarrow> TaskResultDeliverable \<Rightarrow> TaskResultDeliverable" where
  "resolve_deliverable U declared d =
     (let ref = TrimSpace (trd_Ref d) in
      if ref = [] then d
      else case declared_lookup declared ref of
          None \<Rightarrow> d
        | Some i \<Rightarrow>
            d\<lparr>trd_Ref := uuid_String U i,
              trd_Summary := (if TrimSpace (trd_Summary d) = [] then ref else trd_Summary d)\<rparr>)"

definition resolveDeclaredDeliverableRefs ::
  "uuid_lib \<Rightarrow> TaskResultContract \<Rightarrow> (string \<times> uuid) list \<Rightarrow> TaskResultContract" where
  "resolveDeclaredDeliverableRefs U contract declared =
     (if declared = [] \<or> trc_Deliverables contract = [] then contract
      else contract\<lparr>trc_Deliverables := map (resolve_deliverable U declared) (trc_Deliverables contract)\<rparr>)"

section \<open>When a contract is valid\<close>

definition accepted_result :: "TaskResultAcceptanceResult \<Rightarrow> bool" where
  "accepted_result r \<longleftrightarrow>
     (tar_Status r \<in> {''passed'', ''human_overridden''} \<or>
      tar_Status r = ''not_applicable'' \<and> \<not> blank (tar_HumanAcceptedReason r)) \<and>
     tar_EvidenceRefs r \<noteq> [] \<and> (\<forall>e \<in> set (tar_EvidenceRefs r). \<not> blank e)"

definition attestation_required :: "ProjectTask \<Rightarrow> bool" where
  "attestation_required task \<longleftrightarrow> boolFromTaskContract (gget (pt_HandoffContract task) ''requires_runtime_attestation'')"

definition complete_result :: "ProjectTask \<Rightarrow> TaskResultContract \<Rightarrow> bool" where
  "complete_result task result \<longleftrightarrow>
     \<not> blank (trc_Summary result) \<and>
     (\<forall>r \<in> set (trc_EvidenceRefs result) \<union> set (trc_ArtifactRefs result). usableTaskResultRef r) \<and>
     (\<forall>v \<in> set (trc_Verification result). trv_Status v = ''skipped'' \<or>
        trv_Status v = ''passed'' \<and> (attestation_required task \<longrightarrow> verificationHasAttestationRef v)) \<and>
     (\<forall>out \<in> set (stringSetFromAny (pt_ExpectedOutputs task)).
        (out = ''evidence_refs'' \<longrightarrow> trc_EvidenceRefs result \<noteq> []) \<and>
        (out = ''artifact_refs'' \<longrightarrow> trc_ArtifactRefs result \<noteq> []) \<and>
        (out = ''verification'' \<longrightarrow> trc_Verification result \<noteq> [])) \<and>
     (\<forall>c \<in> set (requiredAcceptanceCriteria (pt_HandoffContract task)).
        \<exists>r. acceptanceResultForCriterion (trc_AcceptanceResults result) c = Some r \<and> accepted_result r) \<and>
     (\<forall>n \<in> set (taskPlannerProduces task). \<exists>d \<in> set (trc_Deliverables result).
        TrimSpace (trd_Name d) = n \<and> (\<not> blank (trd_Value d) \<or> \<not> blank (trd_Ref d)))"

lemma no_blank_refs: "taskResultRefBlankErrors code refs = [] \<longleftrightarrow> (\<forall>r \<in> set refs. usableTaskResultRef r)"
  by (auto simp: taskResultRefBlankErrors_def filter_empty_conv)

lemma accepted_result_iff: "validateCompletedAcceptanceResult c r = [] \<longleftrightarrow> accepted_result r"
  by (auto simp: validateCompletedAcceptanceResult_def accepted_result_def hasBlankStringRef_def hasUsableStringRef_def
      blank_def list_ex_iff Let_def)

lemma criterion_errors_iff:
  "criterion_errors result c = [] \<longleftrightarrow>
     (\<exists>r. acceptanceResultForCriterion (trc_AcceptanceResults result) c = Some r \<and> accepted_result r)"
  by (simp add: criterion_errors_def accepted_result_iff split: option.split)

lemma produces_nonblank: "n \<in> set (taskPlannerProduces task) \<Longrightarrow> n \<noteq> []"
  by (cases "gget (pt_PlannerMetadata task) ''produces''") (auto simp: taskPlannerProduces_def)

lemma delivered_iff:
  "n \<noteq> [] \<Longrightarrow> n \<in> set (delivered_names result) \<longleftrightarrow>
     (\<exists>d \<in> set (trc_Deliverables result). TrimSpace (trd_Name d) = n \<and> (\<not> blank (trd_Value d) \<or> \<not> blank (trd_Ref d)))"
  by (auto simp: delivered_names_def blank_def)

lemma verifications_iff:
  "trc_Status result = st_completed \<Longrightarrow>
     validateTaskResultVerifications task (trc_Status result) (trc_Verification result) = [] \<longleftrightarrow>
     (\<forall>v \<in> set (trc_Verification result). trv_Status v = ''skipped'' \<or>
        trv_Status v = ''passed'' \<and> (attestation_required task \<longrightarrow> verificationHasAttestationRef v))"
  by (auto simp: validateTaskResultVerifications_def verification_errors_def attestation_required_def)

lemma usable_refs_some: "\<forall>r \<in> set refs. usableTaskResultRef r \<Longrightarrow> hasUsableTaskResultRef refs \<longleftrightarrow> refs \<noteq> []"
  by (cases refs) (auto simp: hasUsableTaskResultRef_def)

lemma completed_errors_iff:
  assumes "\<forall>r \<in> set (trc_EvidenceRefs result) \<union> set (trc_ArtifactRefs result). usableTaskResultRef r"
  shows "validateCompletedTaskResult task result = [] \<longleftrightarrow>
     (\<forall>out \<in> set (stringSetFromAny (pt_ExpectedOutputs task)).
        (out = ''evidence_refs'' \<longrightarrow> trc_EvidenceRefs result \<noteq> []) \<and>
        (out = ''artifact_refs'' \<longrightarrow> trc_ArtifactRefs result \<noteq> []) \<and>
        (out = ''verification'' \<longrightarrow> trc_Verification result \<noteq> [])) \<and>
     (\<forall>c \<in> set (requiredAcceptanceCriteria (pt_HandoffContract task)).
        \<exists>r. acceptanceResultForCriterion (trc_AcceptanceResults result) c = Some r \<and> accepted_result r) \<and>
     (\<forall>n \<in> set (taskPlannerProduces task). \<exists>d \<in> set (trc_Deliverables result).
        TrimSpace (trd_Name d) = n \<and> (\<not> blank (trd_Value d) \<or> \<not> blank (trd_Ref d)))"
    (is "_ \<longleftrightarrow> ?outs \<and> ?crit \<and> ?prod")
proof -
  have refs: "hasUsableTaskResultRef (trc_EvidenceRefs result) \<longleftrightarrow> trc_EvidenceRefs result \<noteq> []"
      "hasUsableTaskResultRef (trc_ArtifactRefs result) \<longleftrightarrow> trc_ArtifactRefs result \<noteq> []"
    by (rule usable_refs_some, use assms in blast)+
  have crit: "concat (map (criterion_errors result) (requiredAcceptanceCriteria (pt_HandoffContract task))) = [] \<longleftrightarrow> ?crit"
    by (simp add: criterion_errors_iff)
  have prod: "filter (\<lambda>name. name \<notin> set (delivered_names result)) (taskPlannerProduces task) = [] \<longleftrightarrow> ?prod"
    using produces_nonblank delivered_iff by (auto simp: filter_empty_conv)
  show ?thesis
    unfolding validateCompletedTaskResult_def Let_def append_is_Nil_conv map_is_Nil_conv crit prod refs
    by auto
qed

lemma completed_valid_iff:
  assumes "trc_Status result = st_completed"
  shows "contract_errors task result = [] \<longleftrightarrow> complete_result task result"
proof (cases "\<forall>r \<in> set (trc_EvidenceRefs result) \<union> set (trc_ArtifactRefs result). usableTaskResultRef r")
  case True
  then have refs: "taskResultRefBlankErrors code (trc_EvidenceRefs result) = []" "taskResultRefBlankErrors code' (trc_ArtifactRefs result) = []"
    for code code' by (simp_all add: no_blank_refs)
  have st: "validTaskResultStatus (trc_Status result)" "status_errors task result = validateCompletedTaskResult task result"
    using assms by (simp_all add: validTaskResultStatus_def status_errors_def)
  show ?thesis
    using True unfolding contract_errors_def complete_result_def refs append_is_Nil_conv verifications_iff [OF assms] st(2) completed_errors_iff [OF True]
    by (simp add: st blank_def)
next
  case False
  then show ?thesis by (auto simp: contract_errors_def complete_result_def no_blank_refs)
qed

lemma validation_simps:
  "tvd_Valid (ValidateTaskResultContract task result) \<longleftrightarrow> contract_errors task result = []"
  "tvd_Errors (ValidateTaskResultContract task result) = contract_errors task result"
  "tvd_Decision (ValidateTaskResultContract task result) =
     (if contract_errors task result = [] then mapTaskResultDecision task result else ValidationFailed)"
  by (simp_all add: ValidateTaskResultContract_def Let_def)

section \<open>What the contract guarantees\<close>

text \<open>Nothing asks for a human: not the task, not the executor, no risk.\<close>

definition autonomous_finish :: "ProjectTask \<Rightarrow> TaskResultContract \<Rightarrow> bool" where
  "autonomous_finish task result \<longleftrightarrow>
     \<not> pt_RequiresHumanApproval task \<and> trc_HumanReviewRequest result = None \<and>
     (\<forall>r \<in> set (trc_Risks result). \<not> trk_RequiresHumanReview r \<and> \<not> highRiskLevel (trk_Severity r) \<and> \<not> highRiskLevel (trk_Level r)) \<and>
     (\<forall>l. pt_RiskLevel task = Some l \<longrightarrow> \<not> highRiskLevel l)"

lemma needs_review_iff: "taskResultNeedsHumanReview task result \<longleftrightarrow> \<not> autonomous_finish task result"
  by (auto simp: taskResultNeedsHumanReview_def autonomous_finish_def list_ex_iff split: option.split)

text \<open>
  Claim C22: A result finishes its task without a human exactly if it reports completion, answers every required criterion with
  evidence, delivers everything the task is planned to produce, carries no failed or unattested
  verification and no blank reference, and neither the task nor the executor nor any reported risk
  asks for a review. If only the last part fails, the result waits for a human.
\<close>

theorem automatic_acceptance_iff:
  "(tvd_Decision (ValidateTaskResultContract task result) = CompleteAccepted \<longleftrightarrow>
      trc_Status result = st_completed \<and> complete_result task result \<and> autonomous_finish task result) \<and>
   (tvd_Decision (ValidateTaskResultContract task result) = WaitingHumanReview \<longleftrightarrow>
      trc_Status result = st_completed \<and> complete_result task result \<and> \<not> autonomous_finish task result)"
  using completed_valid_iff [of result task] needs_review_iff [of task result]
  by (auto simp: validation_simps mapTaskResultDecision_def split: option.splits if_splits)

text \<open>An empty task and a result with an answer to a criterion, for the examples.\<close>

definition plain_task :: ProjectTask where
  "plain_task =
     \<lparr>pt_ID = 7, pt_DemandID = Some 3, pt_AssignedDigitalEmployeeID = Some 5, pt_RiskLevel = None, pt_RequiresHumanApproval = False,
      pt_PlannedTaskKey = Some ''build'', pt_ExpectedOutputs = [], pt_InputRequirements = [], pt_HandoffContract = [],
      pt_PlannerMetadata = [], pt_RevisionOfTaskID = None, pt_AcceptedPlanRevisionID = Some 4, pt_AttemptCount = 1, pt_MaxAttempts = Some 3\<rparr>"

definition answer :: "string \<Rightarrow> string \<Rightarrow> string list \<Rightarrow> TaskResultAcceptanceResult" where
  "answer criterion status evidence =
     \<lparr>tar_ID = [], tar_Criterion = criterion, tar_CriterionID = [], tar_Name = [], tar_Status = status, tar_Summary = [],
      tar_EvidenceRefs = evidence, tar_HumanAcceptedReason = []\<rparr>"

definition delivery :: "string \<Rightarrow> string \<Rightarrow> TaskResultDeliverable" where
  "delivery name v = \<lparr>trd_Name = name, trd_Kind = [], trd_Value = v, trd_Ref = [], trd_Summary = []\<rparr>"

section \<open>Adapters\<close>

lemma nonblank_ref_usable: "nonblank_ref r = Some s \<Longrightarrow> usableTaskResultRef s"
  by (auto simp: nonblank_ref_def usableTaskResultRef_def split: if_splits)

lemma text_ref_usable: "(if TrimSpace t = [] then None else Some (text_ref k (TrimSpace t))) = Some r \<Longrightarrow> usableTaskResultRef r"
  by (auto simp: text_ref_def usableTaskResultRef_def split: if_splits)

lemma adapted_ref_usable: "taskResultRefFromAny v k = Some r \<Longrightarrow> usableTaskResultRef r"
  by (cases v) (simp_all only: taskResultRefFromAny.simps Let_def option.distinct nonblank_ref_usable text_ref_usable)

lemma adapted_refs_usable: "\<forall>r \<in> set (taskResultRefsFromAny vs k). usableTaskResultRef r"
  by (auto simp: taskResultRefsFromAny_def map_filter_def dest: adapted_ref_usable)

text \<open>
  A completion without a result contract never gets around the contract: the adapted result is valid only for a task
  without required criteria, planned deliverables and verification, and it is then accepted unless
  its conclusion is blank or an expected reference is missing.
\<close>

theorem legacy_completion_answers_nothing:
  assumes "tvd_Valid (ValidateTaskResultContract task (TaskResultContractFromLegacyCompletion req))"
  shows "requiredAcceptanceCriteria (pt_HandoffContract task) = [] \<and> taskPlannerProduces task = [] \<and>
         ''verification'' \<notin> set (stringSetFromAny (pt_ExpectedOutputs task)) \<and> \<not> blank (cta_Conclusion req)"
proof -
  let ?r = "TaskResultContractFromLegacyCompletion req"
  have r: "trc_Status ?r = st_completed" "trc_AcceptanceResults ?r = []" "trc_Deliverables ?r = []"
      "trc_Verification ?r = []" "trc_Summary ?r = TrimSpace (cta_Conclusion req)"
    by (simp_all add: TaskResultContractFromLegacyCompletion_def result_contract_def Let_def)
  have c: "complete_result task ?r"
    using assms completed_valid_iff [OF r(1)] by (simp add: validation_simps)
  then have "requiredAcceptanceCriteria (pt_HandoffContract task) = []"
    using r by (auto simp: complete_result_def acceptanceResultForCriterion_def)
  moreover have "taskPlannerProduces task = []" using c r by (auto simp: complete_result_def)
  moreover have "''verification'' \<notin> set (stringSetFromAny (pt_ExpectedOutputs task))"
    using c r by (auto simp: complete_result_def)
  ultimately show ?thesis using c r by (simp add: complete_result_def)
qed

definition legacy_request :: CompleteProjectTaskAttemptRequest where
  "legacy_request =
     \<lparr>cta_Conclusion = ''done'', cta_EvidenceRefs = [GStr ''log:1''], cta_ArtifactRefs = [], cta_MissingInformation = [],
      cta_RecommendedNextAction = [], cta_RequiresHumanReview = False\<rparr>"

lemma legacy_request_valid: "tvd_Valid (ValidateTaskResultContract plain_task (TaskResultContractFromLegacyCompletion legacy_request))"
  by code_simp

theorem legacy_completion_answers_nothing_witness:
  "tvd_Valid (ValidateTaskResultContract plain_task (TaskResultContractFromLegacyCompletion legacy_request)) \<and>
   requiredAcceptanceCriteria (pt_HandoffContract plain_task) = [] \<and> taskPlannerProduces plain_task = [] \<and>
   ''verification'' \<notin> set (stringSetFromAny (pt_ExpectedOutputs plain_task)) \<and> \<not> blank (cta_Conclusion legacy_request)"
  using legacy_completion_answers_nothing [OF legacy_request_valid] legacy_request_valid by blast

lemma recommendation_texts: "TrimSpace ''retry_original_attempt'' \<noteq> []" "TrimSpace ''manual_recovery_required'' \<noteq> []" "TrimSpace ''human'' \<noteq> []"
  by code_simp+

definition failure_retryable :: "FailProjectTaskAttemptRequest \<Rightarrow> bool" where
  "failure_retryable req = (case fta_Retryable req of Some b \<Rightarrow> b | None \<Rightarrow> retryableFailureFamily (fta_FailureFamily req))"

lemma failure_valid_iff:
  "tvd_Valid (ValidateTaskResultContract task (TaskResultContractFromFailure req)) \<longleftrightarrow>
     \<not> blank (fta_FailureSummary req) \<and> \<not> blank (fta_FailureFamily req)"
  by (simp add: validation_simps contract_errors_def TaskResultContractFromFailure_def result_contract_def status_errors_def
      validTaskResultStatus_def taskResultRefBlankErrors_def validateTaskResultVerifications_def blank_def recommendation_texts Let_def)

lemma wait_human_valid_iff:
  "tvd_Valid (ValidateTaskResultContract task (TaskResultContractFromWaitHuman req)) \<longleftrightarrow> \<not> blank (wta_Reason req)"
  by (simp add: validation_simps contract_errors_def TaskResultContractFromWaitHuman_def result_contract_def status_errors_def
      validTaskResultStatus_def taskResultRefBlankErrors_def validateTaskResultVerifications_def blank_def recommendation_texts Let_def)

text \<open>
  The older failure and wait requests are valid exactly if they say why, and what follows is a retry
  only for a retryable failure within the attempt budget; every other case ends with a human.
\<close>

theorem adapted_requests_are_routed:
  "tvd_Decision (ValidateTaskResultContract task (TaskResultContractFromFailure req)) =
     (if blank (fta_FailureSummary req) \<or> blank (fta_FailureFamily req) then ValidationFailed
      else if failure_retryable req \<and> taskResultRetryBudgetRemains task then FailedRetryable else FailedRecovery)"
  "tvd_Decision (ValidateTaskResultContract task (TaskResultContractFromWaitHuman wreq)) =
     (if blank (wta_Reason wreq) then ValidationFailed else BlockedWaitingHuman)"
  using failure_valid_iff [of task req] wait_human_valid_iff [of task wreq]
  by (auto simp: validation_simps mapTaskResultDecision_def TaskResultContractFromFailure_def TaskResultContractFromWaitHuman_def
      result_contract_def failure_retryable_def Let_def split: option.split)

section \<open>Resolution of declared deliverables\<close>

lemma declared_lookup_range:
  assumes "declared_lookup declared ref = Some i"
  shows "i \<in> snd ` set declared"
proof -
  have "\<exists>k. map_of declared k = Some i"
  proof (cases "map_of declared ref")
    case None
    with assms obtain js where "List.map_filter (map_of declared) (declaredDeliverableLookupAliases ref) = i # js"
      by (auto simp: declared_lookup_def split: list.splits)
    then have "i \<in> set (List.map_filter (map_of declared) (declaredDeliverableLookupAliases ref))" by simp
    then show ?thesis by (force simp: map_filter_def)
  qed (use assms in \<open>auto simp: declared_lookup_def\<close>)
  then show ?thesis by (metis map_of_SomeD image_eqI snd_conv)
qed

lemma resolve_simps [simp]:
  "trd_Name (resolve_deliverable U declared d) = trd_Name d" "trd_Value (resolve_deliverable U declared d) = trd_Value d"
  by (simp_all add: resolve_deliverable_def Let_def split: option.split)

lemma resolve_ref_blank:
  assumes "uuid_trimmed U" "\<forall>u. uuid_String U u \<noteq> []"
  shows "blank (trd_Ref (resolve_deliverable U declared d)) \<longleftrightarrow> blank (trd_Ref d)"
  using assms by (auto simp: resolve_deliverable_def blank_def uuid_trimmed_def Let_def split: option.split)

text \<open>
  Resolving the references of the declared deliverables changes nothing that the contract was accepted for: the
  delivered names and the validity of the contract stay, and every reference that changes becomes the
  identifier of an artifact the runtime has stored. Documented of the identifier package: printed
  identifiers are not blank and carry no surrounding blanks.
\<close>

theorem resolution_keeps_acceptance:
  assumes "uuid_trimmed U" "\<forall>u. uuid_String U u \<noteq> []"
  shows "ValidateTaskResultContract task (resolveDeclaredDeliverableRefs U result declared) = ValidateTaskResultContract task result \<and>
         list_all2 (\<lambda>d d'. trd_Name d' = trd_Name d \<and> trd_Value d' = trd_Value d \<and>
             (trd_Ref d' = trd_Ref d \<or> trd_Ref d' \<in> uuid_String U ` snd ` set declared))
           (trc_Deliverables result) (trc_Deliverables (resolveDeclaredDeliverableRefs U result declared))"
proof -
  let ?r = "resolveDeclaredDeliverableRefs U result declared"
  have names: "delivered_names ?r = delivered_names result"
    using resolve_ref_blank [OF assms, of declared]
    by (auto simp: delivered_names_def resolveDeclaredDeliverableRefs_def filter_map comp_def blank_def intro!: filter_cong)
  have other: "trc_Status ?r = trc_Status result" "trc_Summary ?r = trc_Summary result" "trc_EvidenceRefs ?r = trc_EvidenceRefs result"
      "trc_ArtifactRefs ?r = trc_ArtifactRefs result" "trc_Verification ?r = trc_Verification result"
      "trc_AcceptanceResults ?r = trc_AcceptanceResults result" "trc_RevisionRequest ?r = trc_RevisionRequest result"
      "trc_Blocker ?r = trc_Blocker result" "trc_Failure ?r = trc_Failure result" "trc_Cancellation ?r = trc_Cancellation result"
      "trc_ReplanRequest ?r = trc_ReplanRequest result" "trc_Risks ?r = trc_Risks result"
      "trc_HumanReviewRequest ?r = trc_HumanReviewRequest result"
    by (simp_all add: resolveDeclaredDeliverableRefs_def)
  have "criterion_errors ?r = criterion_errors result" by (rule ext) (simp only: criterion_errors_def other)
  then have "contract_errors task ?r = contract_errors task result"
    by (simp only: contract_errors_def status_errors_def validateCompletedTaskResult_def names other)
  moreover have "mapTaskResultDecision task ?r = mapTaskResultDecision task result"
    by (simp only: mapTaskResultDecision_def taskResultNeedsHumanReview_def other)
  ultimately have "ValidateTaskResultContract task ?r = ValidateTaskResultContract task result"
    by (simp only: ValidateTaskResultContract_def)
  moreover have "trd_Ref (resolve_deliverable U declared d) = trd_Ref d \<or>
      trd_Ref (resolve_deliverable U declared d) \<in> uuid_String U ` snd ` set declared" for d
    by (auto simp: resolve_deliverable_def Let_def dest: declared_lookup_range split: option.split)
  then have "list_all2 (\<lambda>d d'. trd_Name d' = trd_Name d \<and> trd_Value d' = trd_Value d \<and>
      (trd_Ref d' = trd_Ref d \<or> trd_Ref d' \<in> uuid_String U ` snd ` set declared)) (trc_Deliverables result) (trc_Deliverables ?r)"
    by (simp add: resolveDeclaredDeliverableRefs_def list.rel_map list.rel_refl)
  ultimately show ?thesis by blast
qed

definition file_result :: TaskResultContract where
  "file_result = (result_contract st_completed ''built'')
     \<lparr>trc_Deliverables := [\<lparr>trd_Name = ''report'', trd_Kind = [], trd_Value = [], trd_Ref = ''deliverables/report.md'', trd_Summary = []\<rparr>]\<rparr>"

lemma decimal_uuid_nonempty: "\<forall>u. uuid_String decimal_uuid_lib u \<noteq> []"
  by (simp add: decimal_uuid_lib_def)

theorem resolution_keeps_acceptance_witness:
  "ValidateTaskResultContract plain_task (resolveDeclaredDeliverableRefs decimal_uuid_lib file_result [(''report.md'', 42)]) =
     ValidateTaskResultContract plain_task file_result \<and>
   map trd_Ref (trc_Deliverables (resolveDeclaredDeliverableRefs decimal_uuid_lib file_result [(''report.md'', 42)])) = [''42'']"
proof -
  have "map trd_Ref (trc_Deliverables (resolveDeclaredDeliverableRefs decimal_uuid_lib file_result [(''report.md'', 42)])) = [''42'']"
    by code_simp
  then show ?thesis
    using resolution_keeps_acceptance [OF decimal_uuid_trimmed decimal_uuid_nonempty, of plain_task file_result "[(''report.md'', 42)]"]
    by blast
qed

end
