(* ===== verification/Planning_Profile.thy ===== *)
theory Planning_Profile
  imports Go_Base
begin

text \<open>
  Scoring of digital employees against a planned task, after
  \<^verbatim>\<open>workflow/projectcoordination/planning_profile.go\<close>. The score is the server-computed fact on which
  planning decisions rest; capability, permission and tool differences are only recorded, while an
  unmet runtime requirement is a hard failure that zeroes the score. Profiles are compared after
  \<open>normalizePlanningString\<close>; keys are ASCII or Han words, on which \<open>ToLower\<close> is exact. Building a
  profile from its database source is not modelled here.
\<close>

section \<open>Records\<close>

record PlanningRoleProfile =
  prp_PrimaryRole :: string
  prp_Description :: string
  prp_EmployeeType :: string

record PlanningCapability =
  pcap_Key :: string
  pcap_Level :: string
  pcap_Source :: string
  pcap_Confidence :: rat

record PlanningToolBinding =
  tool_Type :: string
  tool_Key :: string
  tool_Status :: string

record PlanningRuntimeRequirements =
  rt_ProviderTypes :: "string list"
  rt_ProviderStatus :: string
  rt_RuntimeNodeID :: string

record PlanningPermission =
  perm_Scope :: string
  perm_Resource :: string
  perm_Status :: string

record PlanningLoadState =
  load_AvailableSlots :: int
  load_InFlightTasks :: int
  load_Lendable :: bool

record PlanningReliabilitySignals =
  rel_Status :: string
  rel_SuccessRate :: rat
  rel_RecentFailureCount :: int
  rel_RecentSuccessCount :: int
  rel_RecentHumanRejectCount :: int

record DigitalEmployeePlanningProfile =
  prof_DigitalEmployeeID :: uuid
  prof_RoleProfile :: PlanningRoleProfile
  prof_Capabilities :: "PlanningCapability list"
  prof_ToolBindings :: "PlanningToolBinding list"
  prof_RuntimeRequirements :: PlanningRuntimeRequirements
  prof_Permissions :: "PlanningPermission list"
  prof_LoadState :: PlanningLoadState
  prof_ReliabilitySignals :: PlanningReliabilitySignals
  prof_HardFailures :: "string list"

record PlanningTaskRequirements =
  req_TaskType :: string
  req_RequiredCapabilities :: "string list"
  req_PermissionRequirements :: "string list"
  req_ToolRequirements :: "string list"
  req_RuntimeRequirements :: "string list"

record PlanningProfileScore =
  ps_Score :: int
  ps_MatchedCapabilities :: "string list"
  ps_MissingCapabilities :: "string list"
  ps_MatchedRuntimeRequirements :: "string list"
  ps_MissingRuntimeRequirements :: "string list"
  ps_UnrecognizedRuntimeRequirements :: "string list"
  ps_MatchedPermissions :: "string list"
  ps_MissingPermissions :: "string list"
  ps_MatchedTools :: "string list"
  ps_MissingTools :: "string list"
  ps_HardFailures :: "string list"

section \<open>Normalised strings\<close>

definition normalizePlanningString :: "string \<Rightarrow> string" where
  "normalizePlanningString value = ToLower (TrimSpace value)"

definition normalizeRequirement :: "string \<Rightarrow> string" where
  "normalizeRequirement requirement = normalizePlanningString requirement"

text \<open>\<^verbatim>\<open>strings.SplitN(s, ":", 2)\<close>, with the empty string for a missing second part.\<close>

definition splitRequirement :: "string \<Rightarrow> string \<times> string" where
  "splitRequirement requirement =
     (let s = normalizeRequirement requirement in
      (takeWhile (\<lambda>c. c \<noteq> CHR '':'') s, drop 1 (dropWhile (\<lambda>c. c \<noteq> CHR '':'') s)))"

definition appendUniqueString :: "string list \<Rightarrow> string \<Rightarrow> string list" where
  "appendUniqueString values value =
     (let v = normalizePlanningString value in if v = [] \<or> v \<in> set values then values else values @ [v])"

definition containsString :: "string list \<Rightarrow> string \<Rightarrow> bool" where
  "containsString values value \<longleftrightarrow>
     list_ex (\<lambda>candidate. normalizePlanningString candidate = normalizePlanningString value) values"

definition proportionalScore :: "int \<Rightarrow> int \<Rightarrow> int \<Rightarrow> int" where
  "proportionalScore weight matched totl = (if totl = 0 then weight else weight * matched div totl)"

text \<open>\<^verbatim>\<open>strings.FieldsFunc\<close> with the separators of \<open>tokenSet\<close>, all of them ASCII.\<close>

definition token_separator :: "char \<Rightarrow> bool" where
  "token_separator c \<longleftrightarrow> c \<in> {CHR ''_'', CHR ''-'', CHR ''.'', CHR ''/'', CHR '' ''}"

fun fields :: "string \<Rightarrow> string \<Rightarrow> string list" where
  "fields cur [] = (if cur = [] then [] else [rev cur])"
| "fields cur (c # s) =
     (if token_separator c then (if cur = [] then fields [] s else rev cur # fields [] s)
      else fields (c # cur) s)"

definition tokenSet :: "string \<Rightarrow> string list" where
  "tokenSet value = filter (\<lambda>t. t \<noteq> []) (map normalizePlanningString (fields [] value))"

definition planningRoleMatchesTask :: "string \<Rightarrow> string \<Rightarrow> bool" where
  "planningRoleMatchesTask primaryRole taskType =
     (let role = normalizePlanningString primaryRole; task = normalizePlanningString taskType in
      if role = [] \<or> task = [] then False
      else if role = task \<or> Contains task role \<or> Contains role task then True
      else
        let taskTokens = tokenSet task in
        list_ex (\<lambda>roleToken. roleToken \<in> set taskTokens \<or>
          (roleToken = ''data'' \<and> ''database'' \<in> set taskTokens) \<or>
          (roleToken = ''analyst'' \<and> ''analysis'' \<in> set taskTokens)) (tokenSet role))"

section \<open>The six parts of the score\<close>

definition runtimeProviderReady :: "string \<Rightarrow> bool" where
  "runtimeProviderReady providerStatus \<longleftrightarrow>
     normalizePlanningString providerStatus \<in> {[], ''ready'', ''active'', ''available''}"

definition knownRuntimeRequirementKind :: "string \<Rightarrow> bool" where
  "knownRuntimeRequirementKind kind \<longleftrightarrow> kind \<in> {''provider'', ''runtime_node''}"

definition runtimeRequirementSatisfied :: "PlanningRuntimeRequirements \<Rightarrow> string \<Rightarrow> string \<Rightarrow> bool" where
  "runtimeRequirementSatisfied runtime kind value =
     (if kind = ''provider'' then
        runtimeProviderReady (rt_ProviderStatus runtime) \<and> containsString (rt_ProviderTypes runtime) value
      else if kind = ''runtime_node'' then
        rt_RuntimeNodeID runtime \<noteq> [] \<and> normalizePlanningString (rt_RuntimeNodeID runtime) = value
      else False)"

definition permissionRequirementSatisfied :: "PlanningPermission list \<Rightarrow> string \<Rightarrow> bool" where
  "permissionRequirementSatisfied permissions requirement =
     (let (requiredScope, requiredResource) = splitRequirement requirement in
      list_ex (\<lambda>p. normalizePlanningString (perm_Status p) = ''granted'' \<and>
        normalizePlanningString (perm_Scope p) = requiredScope \<and>
        (requiredResource = [] \<or> normalizePlanningString (perm_Resource p) = requiredResource)) permissions)"

definition toolRequirementSatisfied :: "PlanningToolBinding list \<Rightarrow> string \<Rightarrow> bool" where
  "toolRequirementSatisfied tools requirement =
     (let (requiredType, requiredKey) = splitRequirement requirement in
      list_ex (\<lambda>t. normalizePlanningString (tool_Status t) = ''available'' \<and>
        normalizePlanningString (tool_Type t) = requiredType \<and>
        (requiredKey = [] \<or> normalizePlanningString (tool_Key t) = requiredKey)) tools)"

text \<open>Each part returns its points and the result record it has written to.\<close>

definition scoreCapabilities ::
  "DigitalEmployeePlanningProfile \<Rightarrow> PlanningTaskRequirements \<Rightarrow> PlanningProfileScore \<Rightarrow> int \<times> PlanningProfileScore" where
  "scoreCapabilities profile req result =
     (let available = filter (\<lambda>k. k \<noteq> []) (map (\<lambda>c. normalizePlanningString (pcap_Key c)) (prof_Capabilities profile));
          required = filter (\<lambda>k. k \<noteq> []) (map normalizePlanningString (req_RequiredCapabilities req))
      in (40, result\<lparr>
            ps_MatchedCapabilities := ps_MatchedCapabilities result @ filter (\<lambda>k. k \<in> set available) required,
            ps_MissingCapabilities := ps_MissingCapabilities result @ filter (\<lambda>k. k \<notin> set available) required\<rparr>))"

definition scoreRole :: "DigitalEmployeePlanningProfile \<Rightarrow> PlanningTaskRequirements \<Rightarrow> int" where
  "scoreRole profile req =
     (let primaryRole = normalizePlanningString (prp_PrimaryRole (prof_RoleProfile profile)) in
      if primaryRole = [] then 0
      else if req_TaskType req = [] \<or> planningRoleMatchesTask primaryRole (req_TaskType req) then 20
      else 10)"

definition fail_provider_status :: "PlanningProfileScore \<Rightarrow> PlanningProfileScore" where
  "fail_provider_status result =
     result\<lparr>ps_HardFailures :=
       appendUniqueString (appendUniqueString (ps_HardFailures result) ''runtime_requirement_unsatisfied'')
         ''unsatisfied_runtime:provider_status''\<rparr>"

definition score_runtime_requirement ::
  "DigitalEmployeePlanningProfile \<Rightarrow> PlanningProfileScore \<Rightarrow> string \<Rightarrow> PlanningProfileScore" where
  "score_runtime_requirement profile result requirement =
     (let (kind, value) = splitRequirement requirement; norm = normalizeRequirement requirement in
      if kind = [] then result
      else if \<not> knownRuntimeRequirementKind kind then
        result\<lparr>ps_UnrecognizedRuntimeRequirements := ps_UnrecognizedRuntimeRequirements result @ [norm]\<rparr>
      else if runtimeRequirementSatisfied (prof_RuntimeRequirements profile) kind value then
        result\<lparr>ps_MatchedRuntimeRequirements := ps_MatchedRuntimeRequirements result @ [norm]\<rparr>
      else
        result\<lparr>ps_MissingRuntimeRequirements := ps_MissingRuntimeRequirements result @ [norm],
               ps_HardFailures :=
                 appendUniqueString (ps_HardFailures result) ''runtime_requirement_unsatisfied''
                   @ [''unsatisfied_runtime:'' @ norm]\<rparr>)"

definition scoreRuntime ::
  "DigitalEmployeePlanningProfile \<Rightarrow> PlanningTaskRequirements \<Rightarrow> PlanningProfileScore \<Rightarrow> int \<times> PlanningProfileScore" where
  "scoreRuntime profile req result =
     (let ready = runtimeProviderReady (rt_ProviderStatus (prof_RuntimeRequirements profile)) in
      if req_RuntimeRequirements req = [] then
        (if ready then (15, result) else (0, fail_provider_status result))
      else
        let r1 = foldl (score_runtime_requirement profile) result (req_RuntimeRequirements req);
            r2 = (if \<not> ready then fail_provider_status r1 else r1);
            matched = int (length (ps_MatchedRuntimeRequirements r2));
            missing = int (length (ps_MissingRuntimeRequirements r2))
        in (proportionalScore 15 matched (matched + missing), r2))"

definition scorePermissionsAndTools ::
  "DigitalEmployeePlanningProfile \<Rightarrow> PlanningTaskRequirements \<Rightarrow> PlanningProfileScore \<Rightarrow> int \<times> PlanningProfileScore" where
  "scorePermissionsAndTools profile req result =
     (let perms = filter (\<lambda>k. k \<noteq> []) (map normalizeRequirement (req_PermissionRequirements req));
          tools = filter (\<lambda>k. k \<noteq> []) (map normalizeRequirement (req_ToolRequirements req));
          okp = permissionRequirementSatisfied (prof_Permissions profile);
          okt = toolRequirementSatisfied (prof_ToolBindings profile);
          totl = int (length perms + length tools);
          matched = int (length (filter okp perms) + length (filter okt tools));
          r = result\<lparr>ps_MatchedPermissions := ps_MatchedPermissions result @ filter okp perms,
                     ps_MissingPermissions := ps_MissingPermissions result @ filter (\<lambda>k. \<not> okp k) perms,
                     ps_MatchedTools := ps_MatchedTools result @ filter okt tools,
                     ps_MissingTools := ps_MissingTools result @ filter (\<lambda>k. \<not> okt k) tools\<rparr>
      in (if totl = 0 then 10 else proportionalScore 10 matched totl, r))"

definition scoreLoad :: "DigitalEmployeePlanningProfile \<Rightarrow> int" where
  "scoreLoad profile =
     (if load_Lendable (prof_LoadState profile) \<or> load_AvailableSlots (prof_LoadState profile) > 0 then 10 else 0)"

definition scoreReliability :: "DigitalEmployeePlanningProfile \<Rightarrow> int" where
  "scoreReliability profile =
     (let r = prof_ReliabilitySignals profile; status = normalizePlanningString (rel_Status r) in
      if status \<in> {''blocked'', ''unhealthy'', ''failing''} then 0
      else if rel_SuccessRate r > 0 \<and> rel_SuccessRate r < 1 / 2 then 0
      else if rel_RecentFailureCount r > 0 \<and> rel_RecentSuccessCount r = 0 then 0
      else 5)"

definition ScorePlanningProfile ::
  "DigitalEmployeePlanningProfile \<Rightarrow> PlanningTaskRequirements \<Rightarrow> PlanningProfileScore" where
  "ScorePlanningProfile profile req =
     (let r0 = \<lparr>ps_Score = 0, ps_MatchedCapabilities = [], ps_MissingCapabilities = [],
                ps_MatchedRuntimeRequirements = [], ps_MissingRuntimeRequirements = [],
                ps_UnrecognizedRuntimeRequirements = [], ps_MatchedPermissions = [], ps_MissingPermissions = [],
                ps_MatchedTools = [], ps_MissingTools = [], ps_HardFailures = prof_HardFailures profile\<rparr>;
          (cap, r1) = scoreCapabilities profile req r0;
          (run, r2) = scoreRuntime profile req r1;
          (pt, r3) = scorePermissionsAndTools profile req r2;
          score = cap + scoreRole profile req + run + pt + scoreLoad profile + scoreReliability profile
      in if ps_HardFailures r3 \<noteq> [] then r3\<lparr>ps_Score := 0\<rparr>
         else if score > 100 then r3\<lparr>ps_Score := 100\<rparr>
         else if score < 0 then r3\<lparr>ps_Score := 0\<rparr>
         else r3\<lparr>ps_Score := score\<rparr>)"

section \<open>Bounds\<close>

lemma proportionalScore_bounds:
  assumes "0 \<le> weight" "0 \<le> matched" "matched \<le> totl"
  shows "0 \<le> proportionalScore weight matched totl" "proportionalScore weight matched totl \<le> weight"
proof -
  have "totl = 0 \<or> 0 < totl" using assms by linarith
  then have "0 \<le> proportionalScore weight matched totl \<and> proportionalScore weight matched totl \<le> weight"
  proof
    assume t: "0 < totl"
    have "weight * matched div totl \<le> weight * totl div totl"
      using assms t by (intro zdiv_mono1 mult_left_mono) auto
    then show ?thesis using assms t by (simp add: proportionalScore_def pos_imp_zdiv_nonneg_iff)
  qed (use assms in \<open>simp add: proportionalScore_def\<close>)
  then show "0 \<le> proportionalScore weight matched totl" "proportionalScore weight matched totl \<le> weight" by auto
qed

lemma scoreRuntime_bounds: "0 \<le> fst (scoreRuntime profile req r)" "fst (scoreRuntime profile req r) \<le> 15"
  by (auto simp: scoreRuntime_def Let_def intro!: proportionalScore_bounds)

lemma proportionalScore_filters:
  "0 \<le> proportionalScore 10 (int (length (filter p xs) + length (filter q ys))) (int (length xs + length ys)) \<and>
   proportionalScore 10 (int (length (filter p xs) + length (filter q ys))) (int (length xs + length ys)) \<le> 10"
proof -
  have "length (filter p xs) + length (filter q ys) \<le> length xs + length ys"
    by (intro add_mono length_filter_le)
  then have "int (length (filter p xs) + length (filter q ys)) \<le> int (length xs + length ys)" by (rule zle_int [THEN iffD2])
  then show ?thesis using proportionalScore_bounds by simp
qed

lemma scorePermissionsAndTools_bounds:
  "0 \<le> fst (scorePermissionsAndTools profile req r) \<and> fst (scorePermissionsAndTools profile req r) \<le> 10"
proof (cases "int (length (filter (\<lambda>k. k \<noteq> []) (map normalizeRequirement (req_PermissionRequirements req))) +
    length (filter (\<lambda>k. k \<noteq> []) (map normalizeRequirement (req_ToolRequirements req)))) = 0")
  case True
  then show ?thesis unfolding scorePermissionsAndTools_def Let_def if_P [OF True] fst_conv by simp
next
  case False
  show ?thesis unfolding scorePermissionsAndTools_def Let_def if_not_P [OF False] fst_conv
    by (rule proportionalScore_filters)
qed

lemma scoreRole_bounds: "scoreRole profile req \<in> {0, 10, 20}"
  by (auto simp: scoreRole_def Let_def)

lemma scoreLoad_bounds: "scoreLoad profile \<in> {0, 10}"
  by (auto simp: scoreLoad_def)

lemma scoreReliability_bounds: "scoreReliability profile \<in> {0, 5}"
  by (auto simp: scoreReliability_def Let_def)

lemma appendUniqueString_not_Nil: "values \<noteq> [] \<Longrightarrow> appendUniqueString values v \<noteq> []"
  by (simp add: appendUniqueString_def Let_def)

lemma fail_provider_status_not_Nil: "ps_HardFailures (fail_provider_status r) \<noteq> []"
proof -
  have "normalizePlanningString ''runtime_requirement_unsatisfied'' \<noteq> []" by code_simp
  then have "appendUniqueString xs ''runtime_requirement_unsatisfied'' \<noteq> []" for xs
    by (cases "xs = []") (auto simp: appendUniqueString_def Let_def)
  then show ?thesis by (simp add: fail_provider_status_def appendUniqueString_not_Nil)
qed

text \<open>A runtime requirement that the platform can evaluate and that the profile does not meet.\<close>

definition unmet :: "DigitalEmployeePlanningProfile \<Rightarrow> string \<Rightarrow> bool" where
  "unmet profile requirement \<longleftrightarrow>
     (case splitRequirement requirement of (kind, value) \<Rightarrow>
        knownRuntimeRequirementKind kind \<and> \<not> runtimeRequirementSatisfied (prof_RuntimeRequirements profile) kind value)"

lemma score_runtime_requirement_failures:
  "ps_HardFailures (score_runtime_requirement profile r q) = [] \<longleftrightarrow> ps_HardFailures r = [] \<and> \<not> unmet profile q"
  by (auto simp: score_runtime_requirement_def unmet_def knownRuntimeRequirementKind_def Let_def split: prod.splits)

lemma runtime_failures:
  "ps_HardFailures (foldl (score_runtime_requirement profile) r reqs) = [] \<longleftrightarrow>
     ps_HardFailures r = [] \<and> (\<forall>q \<in> set reqs. \<not> unmet profile q)"
  by (induction reqs arbitrary: r) (auto simp: score_runtime_requirement_failures)

lemma scoreRuntime_failures:
  "ps_HardFailures (snd (scoreRuntime profile req r)) = [] \<longleftrightarrow>
     ps_HardFailures r = [] \<and> runtimeProviderReady (rt_ProviderStatus (prof_RuntimeRequirements profile)) \<and>
     (\<forall>q \<in> set (req_RuntimeRequirements req). \<not> unmet profile q)"
  using runtime_failures [of profile r "req_RuntimeRequirements req"]
  by (auto simp: scoreRuntime_def Let_def fail_provider_status_not_Nil)

text \<open>The sum before clamping.\<close>

definition raw_score :: "DigitalEmployeePlanningProfile \<Rightarrow> PlanningTaskRequirements \<Rightarrow> int \<Rightarrow> int \<Rightarrow> int" where
  "raw_score profile req run pt = 40 + scoreRole profile req + run + pt + scoreLoad profile + scoreReliability profile"

lemma ScorePlanningProfile_cases:
  "\<exists>run pt. 0 \<le> run \<and> run \<le> 15 \<and> 0 \<le> pt \<and> pt \<le> 10 \<and>
     ps_Score (ScorePlanningProfile profile req) =
       (if ps_HardFailures (ScorePlanningProfile profile req) \<noteq> [] then 0 else raw_score profile req run pt) \<and>
     (ps_HardFailures (ScorePlanningProfile profile req) = [] \<longleftrightarrow>
        prof_HardFailures profile = [] \<and> runtimeProviderReady (rt_ProviderStatus (prof_RuntimeRequirements profile)) \<and>
        (\<forall>q \<in> set (req_RuntimeRequirements req). \<not> unmet profile q))"
proof -
  let ?r0 = "\<lparr>ps_Score = 0, ps_MatchedCapabilities = [], ps_MissingCapabilities = [],
    ps_MatchedRuntimeRequirements = [], ps_MissingRuntimeRequirements = [],
    ps_UnrecognizedRuntimeRequirements = [], ps_MatchedPermissions = [], ps_MissingPermissions = [],
    ps_MatchedTools = [], ps_MissingTools = [], ps_HardFailures = prof_HardFailures profile\<rparr>"
  obtain cap r1 where c: "scoreCapabilities profile req ?r0 = (cap, r1)" by (cases "scoreCapabilities profile req ?r0")
  then have cap: "cap = 40" "ps_HardFailures r1 = prof_HardFailures profile"
    by (auto simp: scoreCapabilities_def Let_def)
  obtain run r2 where r: "scoreRuntime profile req r1 = (run, r2)" by (cases "scoreRuntime profile req r1")
  obtain pt r3 where p: "scorePermissionsAndTools profile req r2 = (pt, r3)"
    by (cases "scorePermissionsAndTools profile req r2")
  have run: "0 \<le> run" "run \<le> 15" using scoreRuntime_bounds [of profile req r1] r by auto
  have pt: "0 \<le> pt" "pt \<le> 10" using scorePermissionsAndTools_bounds [of profile req r2] p by auto
  have hf: "ps_HardFailures r3 = ps_HardFailures r2" using p by (auto simp: scorePermissionsAndTools_def Let_def)
  have bound: "0 \<le> raw_score profile req run pt" "raw_score profile req run pt \<le> 100"
    using run pt scoreRole_bounds [of profile req] scoreLoad_bounds [of profile] scoreReliability_bounds [of profile]
    by (auto simp: raw_score_def)
  have score: "ScorePlanningProfile profile req =
      (if ps_HardFailures r3 \<noteq> [] then r3\<lparr>ps_Score := 0\<rparr> else r3\<lparr>ps_Score := raw_score profile req run pt\<rparr>)"
    using bound unfolding ScorePlanningProfile_def Let_def c r p prod.case raw_score_def cap(1) by auto
  have "ps_HardFailures (ScorePlanningProfile profile req) = ps_HardFailures r2" using score hf by simp
  moreover have "ps_HardFailures r2 = [] \<longleftrightarrow> prof_HardFailures profile = [] \<and>
      runtimeProviderReady (rt_ProviderStatus (prof_RuntimeRequirements profile)) \<and>
      (\<forall>q \<in> set (req_RuntimeRequirements req). \<not> unmet profile q)"
    using scoreRuntime_failures [of profile req r1] r cap(2) by simp
  moreover have "ps_Score (ScorePlanningProfile profile req) =
      (if ps_HardFailures r2 \<noteq> [] then 0 else raw_score profile req run pt)" using score hf by simp
  ultimately show ?thesis using run pt by metis
qed

text \<open>
  The score is between 0 and 100, and it is 0 exactly when there is a hard failure, that
  is, when the profile carries one, or its provider is not ready, or a runtime requirement the
  platform can evaluate is unmet. Without a hard failure the score is at least 40: since the
  capability part is a constant, no combination of a weak role, runtime or load brings a score under
  the default threshold of 40.
\<close>

theorem score_bounds:
  "0 \<le> ps_Score (ScorePlanningProfile profile req) \<and> ps_Score (ScorePlanningProfile profile req) \<le> 100 \<and>
   (ps_Score (ScorePlanningProfile profile req) < 40 \<longleftrightarrow> ps_Score (ScorePlanningProfile profile req) = 0) \<and>
   (ps_Score (ScorePlanningProfile profile req) \<noteq> 0 \<longleftrightarrow>
      prof_HardFailures profile = [] \<and>
      runtimeProviderReady (rt_ProviderStatus (prof_RuntimeRequirements profile)) \<and>
      list_all (\<lambda>q. \<not> unmet profile q) (req_RuntimeRequirements req))"
  using ScorePlanningProfile_cases [of profile req] scoreRole_bounds [of profile req]
    scoreLoad_bounds [of profile] scoreReliability_bounds [of profile]
  by (auto simp: raw_score_def list_all_iff split: if_splits)
end
