(* ===== verification/Plan_Model.thy ===== *)
theory Plan_Model
  imports Scenario_Exits Planning_Profile
begin

text \<open>
  The route plan that the planner proposes and the platform checks: the records of
  \<^verbatim>\<open>workflow/projectcoordination/planner.go\<close> and \<^verbatim>\<open>plan_revision_payload.go\<close>, and the attribution of
  risk signals of \<^verbatim>\<open>risk_attribution.go\<close>. A nil map is \<open>None\<close> where the code tells it from an empty
  one. The result here: only platform-attributed risk flags survive the final strip.
\<close>

section \<open>Records\<close>

record PlanAcceptanceCriterion =
  pac_ID :: string
  pac_Statement :: string
  pac_SatisfiedBy :: "string list"
  pac_VerificationMethod :: string
  pac_Severity :: string
  pac_EvidenceHint :: string
  pac_AmbiguityFlag :: bool
  pac_Source :: string

record PlannedTask =
  task_Key :: string
  task_Title :: string
  task_Summary :: string
  task_SelectedEmployeeID :: uuid
  task_EmployeeSelectionReason :: string
  task_RequiredCapabilities :: "string list"
  task_MatchedCapabilities :: "string list"
  task_MissingCapabilities :: "string list"
  task_PermissionRequirements :: "string list"
  task_ToolRequirements :: "string list"
  task_RuntimeRequirements :: "string list"
  task_VerificationRequirements :: "string list"
  task_SelectionScore :: int
  task_SelectionConfidence :: rat
  task_PlanningProfileSnapshotHash :: string
  task_TaskKind :: string
  task_StageIndex :: "32 word option"
  task_RiskLevel :: string
  task_RequiresHumanApproval :: bool
  task_ExpectedOutputs :: "string list"
  task_Produces :: "string list"
  task_InputRequirements :: "gmap option"
  task_HandoffContract :: "gmap option"
  task_BlockedByKeys :: "string list"
  task_RoleKey :: string

record RiskSignalAttribution =
  risk_Kind :: string
  risk_TaskKey :: string
  risk_Source :: string

record PlanConstraintNote =
  cn_Kind :: string
  cn_Message :: string

record PlanExitOption =
  opt_Deliverable :: string
  opt_Label :: string

record RouteDecisionPlan =
  plan_Reason :: string
  plan_RequiresHumanReview :: bool
  plan_BudgetEstimate :: gmap
  plan_TemplateKey :: string
  plan_PlannerMetadata :: gmap
  plan_Criteria :: "PlanAcceptanceCriterion list"
  plan_Tasks :: "PlannedTask list"
  plan_ExitDeliverable :: string
  plan_TemplateVersion :: int
  plan_AvailableExits :: "PlanExitOption list"
  plan_ConstraintNotes :: "PlanConstraintNote list"
  plan_RiskAttribution :: "RiskSignalAttribution list"

text \<open>The snapshot a plan is made from and checked against; a nil pointer is \<open>None\<close>.\<close>

record DemandSnapshot =
  ds_ID :: uuid
  ds_Title :: string
  ds_Content :: string
  ds_ScenarioTemplateKey :: string
  ds_CoordinationMode :: string

record ProjectMemberSnapshot =
  mem_PrincipalID :: uuid
  mem_ProjectRole :: string
  mem_Status :: string
  mem_DisplayName :: string
  mem_PlanningProfile :: "DigitalEmployeePlanningProfile option"

record ScenarioTemplateSnapshot =
  tpl_Key :: string
  tpl_Name :: string
  tpl_Version :: int
  tpl_Spec :: gmap

record DemandConstraintExemption =
  exm_ConstraintKind :: string
  exm_Roles :: "string list"

record PlaybookCastingAssignment =
  cast_RoleKey :: string
  cast_DigitalEmployeeID :: uuid

record RoleVocabularyPromptEntry =
  voc_RoleKey :: string
  voc_Title :: string
  voc_Description :: string

record CoordinationSnapshot =
  snap_ProjectID :: uuid
  snap_Demand :: DemandSnapshot
  snap_DigitalEmployeePool :: "ProjectMemberSnapshot list"
  snap_CoordinationPolicy :: gmap
  snap_PreviousRouteContext :: gmap
  snap_ScenarioTemplate :: "ScenarioTemplateSnapshot option"
  snap_PinnedExitDeliverable :: string
  snap_DemandConstraintExemptions :: "DemandConstraintExemption list"
  snap_PlaybookCasting :: "PlaybookCastingAssignment list"
  snap_RoleVocabulary :: "RoleVocabularyPromptEntry list"

definition activeExecutorIDs :: "ProjectMemberSnapshot list \<Rightarrow> uuid list" where
  "activeExecutorIDs members =
     map mem_PrincipalID (filter (\<lambda>m. mem_PrincipalID m \<noteq> uuid_Nil \<and> mem_ProjectRole m = ''executor'' \<and>
       mem_Status m = ''active'') members)"

section \<open>Risk attribution\<close>

abbreviation RiskSourcePlannerSelfReported :: string where
  "RiskSourcePlannerSelfReported \<equiv> ''planner_self_reported''"
abbreviation RiskSourcePlatformPolicy :: string where
  "RiskSourcePlatformPolicy \<equiv> ''platform_derived:policy''"
abbreviation RiskSourcePlatformProfileScore :: string where
  "RiskSourcePlatformProfileScore \<equiv> ''platform_derived:profile_score''"
abbreviation RiskSourcePlatformTemplateGovernance :: string where
  "RiskSourcePlatformTemplateGovernance \<equiv> ''platform_derived:template_governance''"
abbreviation RiskSignalPlanRequiresHumanReview :: string where
  "RiskSignalPlanRequiresHumanReview \<equiv> ''plan_requires_human_review''"
abbreviation RiskSignalTaskRequiresHumanApproval :: string where
  "RiskSignalTaskRequiresHumanApproval \<equiv> ''task_requires_human_approval''"
abbreviation RiskSignalTaskRiskLevel :: string where
  "RiskSignalTaskRiskLevel \<equiv> ''task_risk_level''"
abbreviation CriterionSourceTemplateDeclared :: string where
  "CriterionSourceTemplateDeclared \<equiv> ''template_declared''"
abbreviation CriterionSourcePlatformInjected :: string where
  "CriterionSourcePlatformInjected \<equiv> ''platform_injected''"
abbreviation CriterionSourcePlannerAuthored :: string where
  "CriterionSourcePlannerAuthored \<equiv> ''planner_authored''"

fun upsert_attribution :: "string \<Rightarrow> string \<Rightarrow> string \<Rightarrow> RiskSignalAttribution list \<Rightarrow> RiskSignalAttribution list" where
  "upsert_attribution kind taskKey source [] = [\<lparr>risk_Kind = kind, risk_TaskKey = taskKey, risk_Source = source\<rparr>]"
| "upsert_attribution kind taskKey source (e # es) =
     (if risk_Kind e = kind \<and> risk_TaskKey e = taskKey then e\<lparr>risk_Source := source\<rparr> # es
      else e # upsert_attribution kind taskKey source es)"

definition setRiskAttribution :: "RouteDecisionPlan \<Rightarrow> string \<Rightarrow> string \<Rightarrow> string \<Rightarrow> RouteDecisionPlan" where
  "setRiskAttribution plan kind taskKey source =
     (if blank kind \<or> blank source then plan
      else plan\<lparr>plan_RiskAttribution :=
             upsert_attribution kind (TrimSpace taskKey) source (plan_RiskAttribution plan)\<rparr>)"

definition riskAttributionSource :: "RouteDecisionPlan \<Rightarrow> string \<Rightarrow> string \<Rightarrow> string" where
  "riskAttributionSource plan kind taskKey =
     (case find (\<lambda>e. risk_Kind e = kind \<and> risk_TaskKey e = TrimSpace taskKey) (plan_RiskAttribution plan) of
        None \<Rightarrow> [] | Some e \<Rightarrow> risk_Source e)"

definition markPlanRequiresHumanReviewPlatform :: "RouteDecisionPlan \<Rightarrow> string \<Rightarrow> RouteDecisionPlan" where
  "markPlanRequiresHumanReviewPlatform plan source =
     setRiskAttribution (plan\<lparr>plan_RequiresHumanReview := True\<rparr>) RiskSignalPlanRequiresHumanReview [] source"

text \<open>The task is a pointer into the plan: its position \<open>i\<close>.\<close>

definition markTaskRequiresHumanApprovalPlatform :: "RouteDecisionPlan \<Rightarrow> nat \<Rightarrow> string \<Rightarrow> RouteDecisionPlan" where
  "markTaskRequiresHumanApprovalPlatform plan i source =
     (if i < length (plan_Tasks plan) then
        let task = plan_Tasks plan ! i in
        setRiskAttribution (plan\<lparr>plan_Tasks := (plan_Tasks plan)[i := task\<lparr>task_RequiresHumanApproval := True\<rparr>]\<rparr>)
          RiskSignalTaskRequiresHumanApproval (TrimSpace (task_Key task)) source
      else plan)"

text \<open>Risk labels in Chinese, in their UTF-8 bytes: high, high risk, severe.\<close>

definition high_risk_labels :: "string list" where
  "high_risk_labels =
     [''high'', ''critical'', byte_string [233, 171, 152], byte_string [233, 171, 152, 233, 163, 142, 233, 153, 169],
      byte_string [228, 184, 165, 233, 135, 141]]"

definition isConstitutionalHighRiskLevel :: "string \<Rightarrow> bool" where
  "isConstitutionalHighRiskLevel value \<longleftrightarrow> ToLower (TrimSpace value) \<in> set high_risk_labels"

definition attribute_task_risk :: "RouteDecisionPlan \<Rightarrow> PlannedTask \<Rightarrow> RouteDecisionPlan" where
  "attribute_task_risk plan task =
     (let key = TrimSpace (task_Key task);
          plan1 = (if task_RequiresHumanApproval task
                   then setRiskAttribution plan RiskSignalTaskRequiresHumanApproval key RiskSourcePlannerSelfReported else plan)
      in if isConstitutionalHighRiskLevel (task_RiskLevel task)
         then setRiskAttribution plan1 RiskSignalTaskRiskLevel key RiskSourcePlannerSelfReported else plan1)"

definition attributePlannerSelfReportedRisk :: "RouteDecisionPlan \<Rightarrow> RouteDecisionPlan" where
  "attributePlannerSelfReportedRisk plan =
     (let plan0 = (if plan_RequiresHumanReview plan
                   then setRiskAttribution plan RiskSignalPlanRequiresHumanReview [] RiskSourcePlannerSelfReported else plan)
      in foldl attribute_task_risk plan0 (plan_Tasks plan0))"

definition attributePlannerAuthoredCriteria :: "PlanAcceptanceCriterion list \<Rightarrow> PlanAcceptanceCriterion list" where
  "attributePlannerAuthoredCriteria criteria =
     map (\<lambda>c. if blank (pac_Source c) then c\<lparr>pac_Source := CriterionSourcePlannerAuthored\<rparr> else c) criteria"

definition planner_only :: "string \<Rightarrow> bool" where
  "planner_only src \<longleftrightarrow> src = [] \<or> src = RiskSourcePlannerSelfReported"

definition stripPlannerOnlyRiskFlags :: "RouteDecisionPlan \<Rightarrow> RouteDecisionPlan" where
  "stripPlannerOnlyRiskFlags plan =
     (let planSrc = riskAttributionSource plan RiskSignalPlanRequiresHumanReview [];
          review = (if plan_RequiresHumanReview plan \<and> planner_only planSrc then False else plan_RequiresHumanReview plan)
      in plan\<lparr>plan_RequiresHumanReview := review,
              plan_Tasks := map (\<lambda>task.
                if task_RequiresHumanApproval task \<and>
                   planner_only (riskAttributionSource plan RiskSignalTaskRequiresHumanApproval (task_Key task))
                then task\<lparr>task_RequiresHumanApproval := False\<rparr> else task) (plan_Tasks plan)\<rparr>)"

section \<open>Properties of the attribution\<close>

lemma upsert_attribution_find:
  "find (\<lambda>e. risk_Kind e = k \<and> risk_TaskKey e = t) (upsert_attribution kind taskKey source es) =
     (if k = kind \<and> t = taskKey then Some \<lparr>risk_Kind = kind, risk_TaskKey = taskKey, risk_Source = source\<rparr>
      else find (\<lambda>e. risk_Kind e = k \<and> risk_TaskKey e = t) es)"
  by (induction es) auto

lemma setRiskAttribution_fields [simp]:
  "plan_Tasks (setRiskAttribution plan k t s) = plan_Tasks plan"
  "plan_Criteria (setRiskAttribution plan k t s) = plan_Criteria plan"
  "plan_RequiresHumanReview (setRiskAttribution plan k t s) = plan_RequiresHumanReview plan"
  by (simp_all add: setRiskAttribution_def)

text \<open>Last writer wins: a lookup returns the source that was written last.\<close>

lemma riskAttributionSource_set:
  assumes "\<not> blank kind" "\<not> blank source"
  shows "riskAttributionSource (setRiskAttribution plan kind taskKey source) k t =
    (if k = kind \<and> TrimSpace t = TrimSpace taskKey then source else riskAttributionSource plan k t)"
  using assms by (simp add: setRiskAttribution_def riskAttributionSource_def upsert_attribution_find)

text \<open>
  After the final strip, a plan asks for human review, or a task for human approval, only
  if it did before and the platform itself is recorded as the author of that signal; flags that the
  planner raised on its own never remain, and no flag is added.
\<close>

theorem only_platform_flags_survive:
  "(plan_RequiresHumanReview (stripPlannerOnlyRiskFlags plan) \<longleftrightarrow>
     plan_RequiresHumanReview plan \<and>
     riskAttributionSource plan RiskSignalPlanRequiresHumanReview [] \<notin> {[], RiskSourcePlannerSelfReported}) \<and>
   map task_RequiresHumanApproval (plan_Tasks (stripPlannerOnlyRiskFlags plan)) =
     map (\<lambda>task. task_RequiresHumanApproval task \<and>
       riskAttributionSource plan RiskSignalTaskRequiresHumanApproval (task_Key task) \<notin> {[], RiskSourcePlannerSelfReported})
     (plan_Tasks plan)"
  by (auto simp: stripPlannerOnlyRiskFlags_def planner_only_def Let_def)
end
