(* ===== verification/Acceptance_Criteria.thy ===== *)
theory Acceptance_Criteria
  imports Plan_Model
begin

text \<open>
  Plan-level acceptance criteria, after \<^verbatim>\<open>workflow/projectcoordination/acceptance_criteria.go\<close>: defaults,
  the single blocking human gate, the platform's deliverable checks, the fallback human criterion,
  the template's criteria and the semantic check. An operation on \<^verbatim>\<open>*RouteDecisionPlan\<close> takes the
  plan and returns it updated; the calls on a nil plan, which do nothing, are not modelled. Statements
  in Chinese are given by their UTF-8 bytes.
\<close>

section \<open>Constants\<close>

abbreviation VerificationMethodAutomatedTest :: string where
  "VerificationMethodAutomatedTest \<equiv> ''automated_test''"
abbreviation VerificationMethodHumanJudgment :: string where
  "VerificationMethodHumanJudgment \<equiv> ''human_judgment''"
abbreviation VerificationMethodAdversarialReview :: string where
  "VerificationMethodAdversarialReview \<equiv> ''adversarial_review''"
abbreviation VerificationMethodReviewGate :: string where
  "VerificationMethodReviewGate \<equiv> ''review_gate''"
abbreviation CriterionSeverityBlocking :: string where
  "CriterionSeverityBlocking \<equiv> ''blocking''"
abbreviation CriterionSeverityNonBlocking :: string where
  "CriterionSeverityNonBlocking \<equiv> ''non_blocking''"
abbreviation fallbackHumanJudgmentCriterionID :: string where
  "fallbackHumanJudgmentCriterionID \<equiv> ''human_final_confirmation''"

definition knownVerificationMethods :: "string list" where
  "knownVerificationMethods =
     [VerificationMethodAutomatedTest, VerificationMethodHumanJudgment,
      VerificationMethodAdversarialReview, VerificationMethodReviewGate]"

definition knownCriterionSeverities :: "string list" where
  "knownCriterionSeverities = [CriterionSeverityBlocking, CriterionSeverityNonBlocking]"

text \<open>The fallback statement: the responsible human confirms that the delivery meets the intent.\<close>

definition fallbackHumanJudgmentCriterionStatement :: string where
  "fallbackHumanJudgmentCriterionStatement = byte_string
     [228, 186, 186, 231, 177, 187, 232, 180, 159, 232, 180, 163, 228, 186, 186, 231, 161, 174, 232, 174, 164,
      228, 186, 164, 228, 187, 152, 231, 172, 166, 229, 144, 136, 233, 156, 128, 230, 177, 130, 230, 132, 143,
      229, 155, 190]"

text \<open>Vague qualifiers: as far as possible, appropriately, reasonably, optimise a bit, and so on, roughly.\<close>

definition ambiguousCriterionPhrases :: "string list" where
  "ambiguousCriterionPhrases = map byte_string
     [[229, 176, 189, 233, 135, 143], [233, 128, 130, 229, 189, 147], [229, 144, 136, 231, 144, 134],
      [228, 188, 152, 229, 140, 150, 228, 184, 128, 228, 184, 139], [231, 173, 137, 231, 173, 137],
      [229, 164, 167, 230, 166, 130]]"

section \<open>Operations\<close>

definition normalizeCriterionDefaults :: "PlanAcceptanceCriterion \<Rightarrow> PlanAcceptanceCriterion" where
  "normalizeCriterionDefaults c =
     (let m0 = TrimSpace (pac_VerificationMethod c); s0 = TrimSpace (pac_Severity c) in
      c\<lparr>pac_VerificationMethod := (if m0 = [] then VerificationMethodAutomatedTest else m0),
        pac_Severity := (if s0 = [] then CriterionSeverityBlocking else s0)\<rparr>)"

definition planTouchesHighRisk :: "RouteDecisionPlan \<Rightarrow> bool" where
  "planTouchesHighRisk plan \<longleftrightarrow>
     list_ex (\<lambda>entry. HasPrefix (risk_Source entry) ''platform_derived:'') (plan_RiskAttribution plan)"

definition requireHumanAcceptance :: "gmap \<Rightarrow> bool" where
  "requireHumanAcceptance policy =
     (case map_of policy ''require_human_acceptance'' of
        None \<Rightarrow> False
      | Some raw \<Rightarrow> (case as_bool raw of None \<Rightarrow> False | Some required \<Rightarrow> required))"

definition fallback_criterion :: PlanAcceptanceCriterion where
  "fallback_criterion =
     \<lparr>pac_ID = fallbackHumanJudgmentCriterionID, pac_Statement = fallbackHumanJudgmentCriterionStatement,
      pac_SatisfiedBy = [], pac_VerificationMethod = VerificationMethodHumanJudgment,
      pac_Severity = CriterionSeverityBlocking, pac_EvidenceHint = [], pac_AmbiguityFlag = False,
      pac_Source = CriterionSourcePlatformInjected\<rparr>"

definition ensureHumanJudgmentCriterion :: "RouteDecisionPlan \<Rightarrow> gmap \<Rightarrow> RouteDecisionPlan" where
  "ensureHumanJudgmentCriterion plan policy =
     (if list_ex (\<lambda>c. pac_VerificationMethod c = VerificationMethodHumanJudgment) (plan_Criteria plan) then plan
      else if \<not> planTouchesHighRisk plan \<and> \<not> requireHumanAcceptance policy then plan
      else plan\<lparr>plan_Criteria := plan_Criteria plan @ [fallback_criterion]\<rparr>)"

definition blocking_human :: "PlanAcceptanceCriterion \<Rightarrow> bool" where
  "blocking_human c \<longleftrightarrow> pac_VerificationMethod c = VerificationMethodHumanJudgment \<and>
     pac_Severity c = CriterionSeverityBlocking"

text \<open>The first loop of the collapse, with its index \<open>i\<close> and \<open>keepIdx\<close> (\<open>None\<close> for -1).\<close>

fun keep_index :: "nat \<Rightarrow> nat option \<Rightarrow> PlanAcceptanceCriterion list \<Rightarrow> nat option" where
  "keep_index i keepIdx [] = keepIdx"
| "keep_index i keepIdx (c # cs) =
     (if \<not> blocking_human c then keep_index (i + 1) keepIdx cs
      else if pac_ID c = fallbackHumanJudgmentCriterionID then Some i
      else keep_index (i + 1) (if keepIdx = None then Some i else keepIdx) cs)"

definition demote :: "nat \<Rightarrow> nat \<times> PlanAcceptanceCriterion \<Rightarrow> PlanAcceptanceCriterion" where
  "demote k = (\<lambda>(i, c). if i = k then c
     else if blocking_human c then c\<lparr>pac_Severity := CriterionSeverityNonBlocking\<rparr> else c)"

definition collapseBlockingHumanJudgment :: "RouteDecisionPlan \<Rightarrow> RouteDecisionPlan" where
  "collapseBlockingHumanJudgment plan =
     (case keep_index 0 None (plan_Criteria plan) of
        None \<Rightarrow> plan
      | Some k \<Rightarrow> plan\<lparr>plan_Criteria := map (demote k) (enumerate 0 (plan_Criteria plan))\<rparr>)"

definition isAmbiguousCriterionStatement :: "string \<Rightarrow> bool" where
  "isAmbiguousCriterionStatement statement =
     (let trimmed = TrimSpace statement in
      if length (runes trimmed) < 8 then True
      else list_ex (Contains trimmed) ambiguousCriterionPhrases)"

definition markAmbiguousCriteria :: "RouteDecisionPlan \<Rightarrow> RouteDecisionPlan" where
  "markAmbiguousCriteria plan =
     plan\<lparr>plan_Criteria :=
       map (\<lambda>c. c\<lparr>pac_AmbiguityFlag := isAmbiguousCriterionStatement (pac_Statement c)\<rparr>) (plan_Criteria plan)\<rparr>"

text \<open>One criterion per declared deliverable: task \<open>key\<close> has delivered \<open>name\<close>.\<close>

definition produces_id :: "string \<Rightarrow> string \<Rightarrow> string" where
  "produces_id key name = ''produces_delivered:'' @ key @ '':'' @ name"

definition produces_criterion :: "string \<Rightarrow> string \<Rightarrow> PlanAcceptanceCriterion" where
  "produces_criterion key name =
     \<lparr>pac_ID = produces_id key name,
      pac_Statement = byte_string [228, 187, 187, 229, 138, 161, 32] @ key @
        byte_string [32, 229, 183, 178, 228, 186, 164, 228, 187, 152, 32] @ name,
      pac_SatisfiedBy = [key], pac_VerificationMethod = VerificationMethodAutomatedTest,
      pac_Severity = CriterionSeverityBlocking, pac_EvidenceHint = ''platform_produces_check'',
      pac_AmbiguityFlag = False, pac_Source = CriterionSourcePlatformInjected\<rparr>"

definition ensure_deliverable ::
  "string \<Rightarrow> PlanAcceptanceCriterion list \<Rightarrow> string \<Rightarrow> PlanAcceptanceCriterion list" where
  "ensure_deliverable key cs name0 =
     (let name = TrimSpace name0 in
      if name = [] then cs
      else if produces_id key name \<in> set (map pac_ID cs) then cs
      else cs @ [produces_criterion key name])"

definition ensure_task_deliverables ::
  "PlanAcceptanceCriterion list \<Rightarrow> PlannedTask \<Rightarrow> PlanAcceptanceCriterion list" where
  "ensure_task_deliverables cs task =
     (let key = TrimSpace (task_Key task) in
      if key = [] then cs else foldl (ensure_deliverable key) cs (task_Produces task))"

definition ensureProducesDeliverableCriteria :: "RouteDecisionPlan \<Rightarrow> RouteDecisionPlan" where
  "ensureProducesDeliverableCriteria plan =
     plan\<lparr>plan_Criteria := foldl ensure_task_deliverables (plan_Criteria plan) (plan_Tasks plan)\<rparr>"

definition applyAcceptanceCriteriaDefaults :: "RouteDecisionPlan \<Rightarrow> gmap \<Rightarrow> RouteDecisionPlan" where
  "applyAcceptanceCriteriaDefaults plan policy =
     (let p1 = plan\<lparr>plan_Criteria := map normalizeCriterionDefaults (plan_Criteria plan)\<rparr>;
          p2 = collapseBlockingHumanJudgment p1;
          p3 = ensureProducesDeliverableCriteria p2;
          p4 = ensureHumanJudgmentCriterion p3 policy
      in markAmbiguousCriteria p4)"

text \<open>The template's criteria; \<open>template_entry\<close> is what the loop body appends for position \<open>i\<close>.\<close>

definition template_id :: "nat \<Rightarrow> string" where
  "template_id i = ''template_criterion_'' @ Itoa (int (i + 1))"

definition template_satisfiers :: "SpecV2 \<Rightarrow> PlannedTask list \<Rightarrow> SpecAcceptanceCriterion \<Rightarrow> string list" where
  "template_satisfiers spec tasks criterion =
     (let taskByStep = filter (\<lambda>k. k \<noteq> []) (map (\<lambda>t. TrimSpace (task_Key t)) tasks);
          satisfied = (case StepByProduce spec (AppliesFromExit criterion) of
              None \<Rightarrow> []
            | Some step \<Rightarrow> if Step step \<in> set taskByStep then [Step step] else [])
      in if satisfied = [] \<and> tasks \<noteq> [] then [task_Key (last tasks)] else satisfied)"

definition template_entry ::
  "SpecV2 \<Rightarrow> PlannedTask list \<Rightarrow> nat \<Rightarrow> SpecAcceptanceCriterion \<Rightarrow> PlanAcceptanceCriterion" where
  "template_entry spec tasks i criterion = normalizeCriterionDefaults
     \<lparr>pac_ID = template_id i, pac_Statement = crit_Statement criterion,
      pac_SatisfiedBy = template_satisfiers spec tasks criterion,
      pac_VerificationMethod = TrimSpace (crit_VerificationMethod criterion),
      pac_Severity = TrimSpace (crit_Severity criterion), pac_EvidenceHint = [], pac_AmbiguityFlag = False,
      pac_Source = CriterionSourceTemplateDeclared\<rparr>"

definition fold_template_criterion ::
  "SpecV2 \<Rightarrow> PlannedTask list \<Rightarrow> string \<Rightarrow> PlanAcceptanceCriterion list \<Rightarrow> nat \<times> SpecAcceptanceCriterion \<Rightarrow>
   PlanAcceptanceCriterion list" where
  "fold_template_criterion spec tasks ex cs = (\<lambda>(i, criterion).
     if \<not> ExitCondMet spec \<lparr>ExitAtOrBeyond = AppliesFromExit criterion\<rparr> ex then cs
     else if template_id i \<in> set (map pac_ID cs) then cs
     else cs @ [template_entry spec tasks i criterion])"

definition foldTemplateAcceptanceCriteria :: "CoordinationSnapshot \<Rightarrow> RouteDecisionPlan \<Rightarrow> RouteDecisionPlan" where
  "foldTemplateAcceptanceCriteria snapshot plan =
     (case snap_ScenarioTemplate snapshot of
        None \<Rightarrow> plan
      | Some tpl \<Rightarrow>
          (case ParseSpec (tpl_Spec tpl) of
             Inl _ \<Rightarrow> plan
           | Inr spec \<Rightarrow>
               if DefaultAcceptanceCriteria spec = [] then plan
               else
                 let ex = TrimSpace (plan_ExitDeliverable plan) in
                 if ex = [] then plan
                 else plan\<lparr>plan_Criteria :=
                   foldl (fold_template_criterion spec (plan_Tasks plan) ex) (plan_Criteria plan)
                     (enumerate 0 (DefaultAcceptanceCriteria spec))\<rparr>))"

datatype criteria_error =
    UnknownVerificationMethod string string
  | AutomatedTestRequiresSatisfiedBy string string
  | UnknownCriterionSeverity string string

definition criterion_semantics :: "PlanAcceptanceCriterion \<Rightarrow> criteria_error option" where
  "criterion_semantics c =
     (let m = TrimSpace (pac_VerificationMethod c); severity = TrimSpace (pac_Severity c) in
      or_else (fail_if (m \<noteq> [] \<and> m \<notin> set knownVerificationMethods)
                 (UnknownVerificationMethod (pac_ID c) (pac_VerificationMethod c)))
     (or_else (fail_if ((m = VerificationMethodAutomatedTest \<or> m = VerificationMethodAdversarialReview \<or>
                         m = VerificationMethodReviewGate) \<and> pac_SatisfiedBy c = [])
                 (AutomatedTestRequiresSatisfiedBy (pac_ID c) m))
              (fail_if (severity \<noteq> [] \<and> severity \<notin> set knownCriterionSeverities)
                 (UnknownCriterionSeverity (pac_ID c) (pac_Severity c)))))"

definition validateAcceptanceCriteriaSemantics :: "RouteDecisionPlan \<Rightarrow> criteria_error option" where
  "validateAcceptanceCriteriaSemantics plan = first_error criterion_semantics (plan_Criteria plan)"

section \<open>At most one blocking human gate\<close>

lemma keep_index_mono: "\<exists>y. keep_index i (Some k) cs = Some y"
  by (induction cs arbitrary: i) auto

lemma keep_index_None: "keep_index i None cs = None \<longleftrightarrow> \<not> list_ex blocking_human cs"
  by (induction cs arbitrary: i) (simp_all add: keep_index_mono)

lemma keep_index_Some:
  "keep_index i keepIdx cs = Some k \<Longrightarrow> keepIdx = Some k \<or> (i \<le> k \<and> k < i + length cs \<and> blocking_human (cs ! (k - i)))"
proof (induction i keepIdx cs rule: keep_index.induct)
  case (2 i keepIdx c cs)
  have shift: "k - i = Suc (k - Suc i)" if "Suc i \<le> k" using that by simp
  from 2 show ?case by (auto simp: shift split: if_splits)
qed simp

lemma demote_human_iff: "blocking_human (demote k (i, c)) \<longleftrightarrow> i = k \<and> blocking_human c"
  by (simp add: demote_def blocking_human_def)

lemma demote_count:
  "length (filter blocking_human (map (demote k) (enumerate i cs))) =
     (if i \<le> k \<and> k < i + length cs \<and> blocking_human (cs ! (k - i)) then 1 else 0)"
proof (induction cs arbitrary: i)
  case (Cons c cs)
  have step: "length (filter blocking_human (map (demote k) (enumerate i (c # cs)))) =
      (if i = k \<and> blocking_human c then 1 else 0) +
      length (filter blocking_human (map (demote k) (enumerate (Suc i) cs)))"
    by (simp add: demote_human_iff del: length_filter_map)
  consider "k < i" | "k = i" | "i < k" by linarith
  then show ?case
  proof cases
    case 3
    then have "k - i = Suc (k - Suc i)" by simp
    with 3 show ?thesis unfolding step Cons.IH by auto
  next
    case 1
    then show ?thesis unfolding step Cons.IH by auto
  next
    case 2
    then show ?thesis unfolding step Cons.IH by auto
  qed
qed simp

lemma collapse_criteria:
  "plan_Criteria (collapseBlockingHumanJudgment plan) =
     (case keep_index 0 None (plan_Criteria plan) of
        None \<Rightarrow> plan_Criteria plan | Some k \<Rightarrow> map (demote k) (enumerate 0 (plan_Criteria plan)))"
  by (simp add: collapseBlockingHumanJudgment_def split: option.split)

lemma collapse_count:
  "length (filter blocking_human (plan_Criteria (collapseBlockingHumanJudgment plan))) =
     (if list_ex blocking_human (plan_Criteria plan) then 1 else 0)"
proof (cases "keep_index 0 None (plan_Criteria plan)")
  case None
  then have no: "\<not> list_ex blocking_human (plan_Criteria plan)" by (simp add: keep_index_None)
  then have "filter blocking_human (plan_Criteria plan) = []" by (auto simp: list_ex_iff filter_empty_conv)
  with None no show ?thesis by (simp add: collapseBlockingHumanJudgment_def)
next
  case (Some k)
  then have ex: "list_ex blocking_human (plan_Criteria plan)"
    using keep_index_None [of 0 "plan_Criteria plan"] by auto
  from keep_index_Some [OF Some] have "k < length (plan_Criteria plan)" "blocking_human (plan_Criteria plan ! k)" by auto
  with Some ex demote_count [of k 0 "plan_Criteria plan"] show ?thesis
    by (simp add: collapseBlockingHumanJudgment_def)
qed

definition is_human :: "PlanAcceptanceCriterion \<Rightarrow> bool" where
  "is_human c \<longleftrightarrow> pac_VerificationMethod c = VerificationMethodHumanJudgment"

lemma demote_human: "map (\<lambda>c. is_human c) (map (demote k) (enumerate i cs)) = map is_human cs"
  by (induction cs arbitrary: i) (auto simp: demote_def is_human_def)

lemma list_ex_map_conv: "list_ex P xs \<longleftrightarrow> True \<in> set (map P xs)"
  by (auto simp: list_ex_iff)

lemma collapse_human [simp]:
  "list_ex is_human (plan_Criteria (collapseBlockingHumanJudgment plan)) = list_ex is_human (plan_Criteria plan)"
  by (cases "keep_index 0 None (plan_Criteria plan)")
    (simp_all only: collapse_criteria option.case list_ex_map_conv [of is_human] demote_human)

lemma collapse_fields [simp]:
  "plan_Tasks (collapseBlockingHumanJudgment plan) = plan_Tasks plan"
  "plan_RiskAttribution (collapseBlockingHumanJudgment plan) = plan_RiskAttribution plan"
  by (simp_all add: collapseBlockingHumanJudgment_def split: option.split)

lemma produces_not_human [simp]:
  "\<not> is_human (produces_criterion k n)" "\<not> blocking_human (produces_criterion k n)"
  by (simp_all add: produces_criterion_def is_human_def blocking_human_def)

text \<open>An append-only fold: every step adds criteria that satisfy \<open>Q\<close> to the end.\<close>

lemma foldl_appends:
  assumes "\<And>cs x. x \<in> set xs \<Longrightarrow> \<exists>new. f cs x = cs @ new \<and> list_all Q new"
  shows "\<exists>new. foldl f cs xs = cs @ new \<and> list_all Q new"
  using assms
proof (induction xs rule: rev_induct)
  case (snoc x xs)
  then obtain new where new: "foldl f cs xs = cs @ new" "list_all Q new" by auto
  obtain new' where "f (cs @ new) x = (cs @ new) @ new'" "list_all Q new'" using snoc.prems [of x "cs @ new"] by auto
  with new show ?case by auto
qed simp

definition declared :: "PlannedTask list \<Rightarrow> PlanAcceptanceCriterion \<Rightarrow> bool" where
  "declared tasks c \<longleftrightarrow> (\<exists>t \<in> set tasks. \<exists>n \<in> set (task_Produces t).
     c = produces_criterion (TrimSpace (task_Key t)) (TrimSpace n))"

lemma ensure_task_deliverables_appends:
  assumes "t \<in> set tasks"
  shows "\<exists>new. ensure_task_deliverables cs t = cs @ new \<and> list_all (declared tasks) new"
proof (cases "TrimSpace (task_Key t) = []")
  case False
  have "\<exists>new. foldl (ensure_deliverable (TrimSpace (task_Key t))) cs (task_Produces t) = cs @ new \<and>
      list_all (declared tasks) new"
    by (rule foldl_appends) (use assms in \<open>auto simp: ensure_deliverable_def Let_def declared_def\<close>)
  with False show ?thesis by (simp add: ensure_task_deliverables_def)
qed (simp add: ensure_task_deliverables_def)

lemma ensureProduces_appends:
  obtains new where
    "plan_Criteria (ensureProducesDeliverableCriteria plan) = plan_Criteria plan @ new"
    "list_all (declared (plan_Tasks plan)) new"
proof -
  have "\<exists>new. foldl ensure_task_deliverables (plan_Criteria plan) (plan_Tasks plan) = plan_Criteria plan @ new \<and>
      list_all (declared (plan_Tasks plan)) new"
    by (rule foldl_appends) (rule ensure_task_deliverables_appends)
  then show ?thesis using that by (auto simp: ensureProducesDeliverableCriteria_def)
qed

lemma ensureProduces_fields [simp]:
  "plan_Tasks (ensureProducesDeliverableCriteria plan) = plan_Tasks plan"
  "plan_RiskAttribution (ensureProducesDeliverableCriteria plan) = plan_RiskAttribution plan"
  by (simp_all add: ensureProducesDeliverableCriteria_def)

lemma ensureProduces_human [simp]:
  "list_ex is_human (plan_Criteria (ensureProducesDeliverableCriteria plan)) = list_ex is_human (plan_Criteria plan)"
  "length (filter blocking_human (plan_Criteria (ensureProducesDeliverableCriteria plan))) =
   length (filter blocking_human (plan_Criteria plan))"
proof -
  obtain new where new: "plan_Criteria (ensureProducesDeliverableCriteria plan) = plan_Criteria plan @ new"
    "list_all (declared (plan_Tasks plan)) new" by (rule ensureProduces_appends)
  then have "\<not> list_ex is_human new" "filter blocking_human new = []"
    by (auto simp: list_ex_iff filter_empty_conv list_all_iff declared_def)
  with new show "list_ex is_human (plan_Criteria (ensureProducesDeliverableCriteria plan)) = list_ex is_human (plan_Criteria plan)"
    "length (filter blocking_human (plan_Criteria (ensureProducesDeliverableCriteria plan))) =
     length (filter blocking_human (plan_Criteria plan))" by simp_all
qed

lemma ensureHuman_criteria:
  "plan_Criteria (ensureHumanJudgmentCriterion plan policy) =
     plan_Criteria plan @
       (if \<not> list_ex is_human (plan_Criteria plan) \<and> (planTouchesHighRisk plan \<or> requireHumanAcceptance policy)
        then [fallback_criterion] else [])"
  by (simp add: ensureHumanJudgmentCriterion_def is_human_def [abs_def])

lemma fallback_blocking [simp]: "blocking_human fallback_criterion" "is_human fallback_criterion"
  by (simp_all add: fallback_criterion_def blocking_human_def is_human_def)

lemma mark_count [simp]:
  "filter blocking_human (plan_Criteria (markAmbiguousCriteria plan)) =
     map (\<lambda>c. c\<lparr>pac_AmbiguityFlag := isAmbiguousCriterionStatement (pac_Statement c)\<rparr>)
       (filter blocking_human (plan_Criteria plan))"
proof -
  have "blocking_human (c\<lparr>pac_AmbiguityFlag := b\<rparr>) = blocking_human c" for c b
    by (simp add: blocking_human_def)
  then show ?thesis by (simp add: markAmbiguousCriteria_def filter_map o_def)
qed

text \<open>
  However many human criteria the planner proposes, a plan leaves the defaulting pipeline
  with at most one blocking human gate. There is exactly one if the planner proposed a blocking one,
  or if it proposed none at all and the platform recorded a risk or the project's policy requires
  human acceptance; in every other case there is none. In particular a plan with a platform risk
  whose planner wrote only non-blocking human criteria has no blocking human gate.
\<close>

theorem single_human_gate:
  "length (filter blocking_human (plan_Criteria (applyAcceptanceCriteriaDefaults plan policy))) =
    (let cs = map normalizeCriterionDefaults (plan_Criteria plan) in
     if list_ex blocking_human cs then 1
     else if \<not> list_ex (\<lambda>c. pac_VerificationMethod c = VerificationMethodHumanJudgment) cs \<and>
             (planTouchesHighRisk plan \<or> requireHumanAcceptance policy) then 1
     else 0)"
proof -
  have risk: "planTouchesHighRisk (ensureProducesDeliverableCriteria (collapseBlockingHumanJudgment
      (plan\<lparr>plan_Criteria := map normalizeCriterionDefaults (plan_Criteria plan)\<rparr>))) = planTouchesHighRisk plan"
    by (simp add: planTouchesHighRisk_def)
  have imp: "list_ex is_human cs" if "list_ex blocking_human cs" for cs
    using that by (auto simp: list_ex_iff is_human_def blocking_human_def)
  show ?thesis
    unfolding applyAcceptanceCriteriaDefaults_def Let_def is_human_def [symmetric]
    by (simp add: ensureHuman_criteria risk collapse_count imp)
qed

section \<open>Every deliverable is checked\<close>

lemma ensure_deliverable_has:
  assumes "TrimSpace n \<noteq> []"
  shows "produces_id key (TrimSpace n) \<in> pac_ID ` set (ensure_deliverable key cs n)"
  using assms by (auto simp: ensure_deliverable_def Let_def produces_criterion_def)

lemma foldl_has:
  assumes app: "\<And>cs x. x \<in> set xs \<Longrightarrow> \<exists>new. f cs x = cs @ new \<and> list_all Q new"
    and step: "\<And>cs. i \<in> pac_ID ` set (f cs x)" and "x \<in> set xs"
  shows "i \<in> pac_ID ` set (foldl f cs xs)"
proof -
  obtain as bs where xs: "xs = as @ x # bs" using \<open>x \<in> set xs\<close> by (meson split_list)
  have "\<exists>new. foldl f (f (foldl f cs as) x) bs = f (foldl f cs as) x @ new \<and> list_all Q new"
    by (rule foldl_appends) (rule app, simp add: xs)
  with step [of "foldl f cs as"] show ?thesis by (auto simp: xs)
qed

lemma ensureProduces_has:
  assumes "t \<in> set (plan_Tasks plan)" "n \<in> set (task_Produces t)" "\<not> blank (task_Key t)" "\<not> blank n"
  shows "produces_id (TrimSpace (task_Key t)) (TrimSpace n) \<in> pac_ID ` set (plan_Criteria (ensureProducesDeliverableCriteria plan))"
proof -
  let ?i = "produces_id (TrimSpace (task_Key t)) (TrimSpace n)"
  have n: "TrimSpace n \<noteq> []" and k: "TrimSpace (task_Key t) \<noteq> []" using assms(3,4) by (auto simp: blank_def)
  have "?i \<in> pac_ID ` set (foldl (ensure_deliverable (TrimSpace (task_Key t))) cs (task_Produces t))" for cs
    by (rule foldl_has [where Q = "\<lambda>_. True"])
      (use assms(2) ensure_deliverable_has [OF n] in \<open>auto simp: ensure_deliverable_def Let_def\<close>)
  then have "?i \<in> pac_ID ` set (ensure_task_deliverables cs t)" for cs
    using k by (simp add: ensure_task_deliverables_def)
  then show ?thesis
    unfolding ensureProducesDeliverableCriteria_def
    using foldl_has [where f = ensure_task_deliverables and x = t, OF ensure_task_deliverables_appends _ assms(1)] by simp
qed

lemma collapse_ids [simp]:
  "map pac_ID (plan_Criteria (collapseBlockingHumanJudgment plan)) = map pac_ID (plan_Criteria plan)"
proof -
  have "map pac_ID (map (demote k) (enumerate i cs)) = map pac_ID cs" for k i cs
    by (induction cs arbitrary: i) (auto simp: demote_def)
  then show ?thesis by (simp add: collapseBlockingHumanJudgment_def split: option.split)
qed

lemma normalize_id [simp]: "pac_ID (normalizeCriterionDefaults c) = pac_ID c"
  by (simp add: normalizeCriterionDefaults_def Let_def)

text \<open>
  After the defaulting pipeline, every deliverable that a task declares has a criterion
  under the platform's identifier for it. Unless the planner itself used that identifier, the
  criterion is the platform's own: blocking, decided by machine evidence, and backed by a task that
  declares a deliverable with this identifier.
\<close>

theorem every_deliverable_is_checked:
  assumes "t \<in> set (plan_Tasks plan)" "n \<in> set (task_Produces t)" "\<not> blank (task_Key t)" "\<not> blank n"
  shows "\<exists>c \<in> set (plan_Criteria (applyAcceptanceCriteriaDefaults plan policy)).
    pac_ID c = produces_id (TrimSpace (task_Key t)) (TrimSpace n) \<and>
    (pac_ID c \<in> pac_ID ` set (plan_Criteria plan) \<or>
     pac_VerificationMethod c = VerificationMethodAutomatedTest \<and> pac_Severity c = CriterionSeverityBlocking \<and>
     pac_Source c = CriterionSourcePlatformInjected \<and>
     (\<exists>t' \<in> set (plan_Tasks plan). \<exists>n' \<in> set (task_Produces t').
        pac_ID c = produces_id (TrimSpace (task_Key t')) (TrimSpace n') \<and>
        pac_SatisfiedBy c = [TrimSpace (task_Key t')]))"
proof -
  let ?i = "produces_id (TrimSpace (task_Key t)) (TrimSpace n)"
  define p2 where "p2 = collapseBlockingHumanJudgment
    (plan\<lparr>plan_Criteria := map normalizeCriterionDefaults (plan_Criteria plan)\<rparr>)"
  have "map pac_ID (plan_Criteria p2) = map pac_ID (plan_Criteria plan)" unfolding p2_def by (simp add: o_def)
  then have "set (map pac_ID (plan_Criteria p2)) = set (map pac_ID (plan_Criteria plan))" by (rule arg_cong)
  then have ids: "pac_ID ` set (plan_Criteria p2) = pac_ID ` set (plan_Criteria plan)" by simp
  have tasks: "plan_Tasks p2 = plan_Tasks plan" by (simp add: p2_def)
  have "?i \<in> pac_ID ` set (plan_Criteria (ensureProducesDeliverableCriteria p2))"
    using ensureProduces_has [of t p2 n] assms tasks by simp
  then obtain c where c: "c \<in> set (plan_Criteria (ensureProducesDeliverableCriteria p2))" "pac_ID c = ?i" by auto
  obtain new where new: "plan_Criteria (ensureProducesDeliverableCriteria p2) = plan_Criteria p2 @ new"
    "list_all (declared (plan_Tasks p2)) new" by (rule ensureProduces_appends)
  define d where "d = c\<lparr>pac_AmbiguityFlag := isAmbiguousCriterionStatement (pac_Statement c)\<rparr>"
  have d: "d \<in> set (plan_Criteria (applyAcceptanceCriteriaDefaults plan policy))" "pac_ID d = ?i"
    unfolding applyAcceptanceCriteriaDefaults_def Let_def p2_def [symmetric] d_def
    using c by (auto simp: markAmbiguousCriteria_def ensureHuman_criteria)
  have "pac_ID c \<in> pac_ID ` set (plan_Criteria plan) \<or> declared (plan_Tasks plan) c"
    using c(1) new ids tasks by (auto simp: list_all_iff)
  then show ?thesis
  proof
    assume "pac_ID c \<in> pac_ID ` set (plan_Criteria plan)"
    then have "pac_ID d \<in> pac_ID ` set (plan_Criteria plan)" by (simp add: d_def)
    with d show ?thesis by blast
  next
    assume "declared (plan_Tasks plan) c"
    then obtain t' n' where "t' \<in> set (plan_Tasks plan)" "n' \<in> set (task_Produces t')"
      "c = produces_criterion (TrimSpace (task_Key t')) (TrimSpace n')" unfolding declared_def by blast
    then show ?thesis using d
      by (intro bexI [of _ d] conjI disjI2 bexI [of _ t'] bexI [of _ n']) (auto simp: d_def produces_criterion_def)
  qed
qed

section \<open>The template's criteria\<close>

lemma template_id_inj [simp]: "template_id i = template_id j \<longleftrightarrow> i = j"
  by (auto simp: template_id_def Itoa_eq)

lemma template_entry_id [simp]: "pac_ID (template_entry spec tasks i c) = template_id i"
  by (simp add: template_entry_def)

abbreviation with_id :: "string \<Rightarrow> PlanAcceptanceCriterion list \<Rightarrow> PlanAcceptanceCriterion list" where
  "with_id i cs \<equiv> filter (\<lambda>c. pac_ID c = i) cs"

lemma with_id_Nil: "with_id i cs = [] \<longleftrightarrow> i \<notin> set (map pac_ID cs)"
  by (auto simp: filter_empty_conv)

lemma fold_step_with_id:
  "with_id (template_id k) (fold_template_criterion spec tasks ex cs (i, c)) =
     (if i = k \<and> with_id (template_id k) cs = [] \<and> ExitCondMet spec \<lparr>ExitAtOrBeyond = AppliesFromExit c\<rparr> ex
      then [template_entry spec tasks i c] else with_id (template_id k) cs)"
  by (auto simp: fold_template_criterion_def with_id_Nil)

lemma fold_template_with_id:
  "with_id (template_id k) (foldl (fold_template_criterion spec tasks ex) cs (enumerate i crits)) =
     (if i \<le> k \<and> k < i + length crits \<and> with_id (template_id k) cs = [] \<and>
         ExitCondMet spec \<lparr>ExitAtOrBeyond = AppliesFromExit (crits ! (k - i))\<rparr> ex
      then [template_entry spec tasks k (crits ! (k - i))] else with_id (template_id k) cs)"
proof (induction crits arbitrary: i cs)
  case (Cons c crits)
  have step: "foldl (fold_template_criterion spec tasks ex) cs (enumerate i (c # crits)) =
      foldl (fold_template_criterion spec tasks ex) (fold_template_criterion spec tasks ex cs (i, c)) (enumerate (Suc i) crits)"
    by simp
  consider "k < i" | "k = i" | "i < k" by linarith
  then show ?case
  proof cases
    case 1
    then show ?thesis unfolding step Cons.IH fold_step_with_id by auto
  next
    case 2
    then show ?thesis unfolding step Cons.IH fold_step_with_id by auto
  next
    case 3
    then have "k - i = Suc (k - Suc i)" by simp
    with 3 show ?thesis unfolding step Cons.IH fold_step_with_id by auto
  qed
qed simp

text \<open>
  On a plan with a chosen exit, bound to a template whose document parses, the criterion at
  position \<open>k\<close> of the template ends up in the plan exactly once under its own identifier, with the
  template's statement, method and severity and marked as declared by the template, if it applies to
  the chosen exit and no criterion of the plan has that identifier. If the planner has used the
  identifier for a criterion of its own, the template's is left out and the planner's stays alone.
\<close>

theorem template_criteria_are_folded:
  assumes "snap_ScenarioTemplate snapshot = Some tpl" "ParseSpec (tpl_Spec tpl) = Inr spec"
    and "\<not> blank (plan_ExitDeliverable plan)" "k < length (DefaultAcceptanceCriteria spec)"
  shows "filter (\<lambda>c. pac_ID c = template_id k) (plan_Criteria (foldTemplateAcceptanceCriteria snapshot plan)) =
    (let own = filter (\<lambda>c. pac_ID c = template_id k) (plan_Criteria plan);
         crit = DefaultAcceptanceCriteria spec ! k
     in if own = [] \<and> ExitCondMet spec \<lparr>ExitAtOrBeyond = AppliesFromExit crit\<rparr> (TrimSpace (plan_ExitDeliverable plan))
        then [template_entry spec (plan_Tasks plan) k crit] else own)"
proof -
  have "DefaultAcceptanceCriteria spec \<noteq> []" "TrimSpace (plan_ExitDeliverable plan) \<noteq> []"
    using assms(3,4) by (auto simp: blank_def)
  then have "plan_Criteria (foldTemplateAcceptanceCriteria snapshot plan) =
      foldl (fold_template_criterion spec (plan_Tasks plan) (TrimSpace (plan_ExitDeliverable plan))) (plan_Criteria plan)
        (enumerate 0 (DefaultAcceptanceCriteria spec))"
    using assms(1,2) by (simp add: foldTemplateAcceptanceCriteria_def)
  then show ?thesis using assms(4) by (simp add: fold_template_with_id Let_def)
qed

section \<open>The semantic check\<close>

text \<open>The pipeline's own criteria never fail the check.\<close>

lemma platform_criteria_semantics:
  "criterion_semantics fallback_criterion = None" "criterion_semantics (produces_criterion k n) = None"
proof -
  have "TrimSpace ''human_judgment'' = ''human_judgment''" "TrimSpace ''blocking'' = ''blocking''"
    "TrimSpace ''automated_test'' = ''automated_test''" by code_simp+
  then show "criterion_semantics fallback_criterion = None" "criterion_semantics (produces_criterion k n) = None"
    by (simp_all add: criterion_semantics_def fallback_criterion_def produces_criterion_def Let_def
        knownVerificationMethods_def knownCriterionSeverities_def)
qed

section \<open>Examples\<close>

definition example_task :: "string \<Rightarrow> string list \<Rightarrow> string list \<Rightarrow> PlannedTask" where
  "example_task key produces blockers =
     \<lparr>task_Key = key, task_Title = ''title'', task_Summary = ''summary'', task_SelectedEmployeeID = 1,
      task_EmployeeSelectionReason = ''fits'', task_RequiredCapabilities = [], task_MatchedCapabilities = [],
      task_MissingCapabilities = [], task_PermissionRequirements = [], task_ToolRequirements = [],
      task_RuntimeRequirements = [], task_VerificationRequirements = [], task_SelectionScore = 0,
      task_SelectionConfidence = 0, task_PlanningProfileSnapshotHash = [], task_TaskKind = [],
      task_StageIndex = None, task_RiskLevel = [], task_RequiresHumanApproval = False,
      task_ExpectedOutputs = [''out''], task_Produces = produces, task_InputRequirements = Some [],
      task_HandoffContract = Some [], task_BlockedByKeys = blockers, task_RoleKey = []\<rparr>"

definition example_plan :: "PlannedTask list \<Rightarrow> PlanAcceptanceCriterion list \<Rightarrow> string \<Rightarrow> RouteDecisionPlan" where
  "example_plan tasks criteria exit =
     \<lparr>plan_Reason = ''reason'', plan_RequiresHumanReview = False, plan_BudgetEstimate = [], plan_TemplateKey = [],
      plan_PlannerMetadata = [], plan_Criteria = criteria, plan_Tasks = tasks, plan_ExitDeliverable = exit,
      plan_TemplateVersion = 0, plan_AvailableExits = [], plan_ConstraintNotes = [], plan_RiskAttribution = []\<rparr>"

definition example_snapshot :: "ScenarioTemplateSnapshot option \<Rightarrow> ProjectMemberSnapshot list \<Rightarrow> CoordinationSnapshot" where
  "example_snapshot tpl pool =
     \<lparr>snap_ProjectID = 1,
      snap_Demand = \<lparr>ds_ID = 1, ds_Title = ''t'', ds_Content = ''c'', ds_ScenarioTemplateKey = [], ds_CoordinationMode = ''plan''\<rparr>,
      snap_DigitalEmployeePool = pool, snap_CoordinationPolicy = [], snap_PreviousRouteContext = [],
      snap_ScenarioTemplate = tpl, snap_PinnedExitDeliverable = [], snap_DemandConstraintExemptions = [],
      snap_PlaybookCasting = [], snap_RoleVocabulary = []\<rparr>"

theorem every_deliverable_is_checked_witness:
  "\<exists>c \<in> set (plan_Criteria (applyAcceptanceCriteriaDefaults
       (example_plan [example_task ''develop'' [''branch''] []] [] []) [])).
     pac_ID c = ''produces_delivered:develop:branch'' \<and> pac_Severity c = CriterionSeverityBlocking"
proof -
  let ?t = "example_task ''develop'' [''branch''] []" let ?p = "example_plan [?t] [] []"
  have "?t \<in> set (plan_Tasks ?p)" "''branch'' \<in> set (task_Produces ?t)"
    by (simp_all add: example_plan_def example_task_def)
  moreover have "\<not> blank (task_Key ?t)" "\<not> blank ''branch''" by code_simp+
  ultimately obtain c where c: "c \<in> set (plan_Criteria (applyAcceptanceCriteriaDefaults ?p []))"
    "pac_ID c = produces_id (TrimSpace (task_Key ?t)) (TrimSpace ''branch'')"
    "pac_ID c \<in> pac_ID ` set (plan_Criteria ?p) \<or> pac_Severity c = CriterionSeverityBlocking"
    using every_deliverable_is_checked [of ?t ?p "''branch''" "[]"] by blast
  have "produces_id (TrimSpace (task_Key ?t)) (TrimSpace ''branch'') = ''produces_delivered:develop:branch''" by code_simp
  moreover have "plan_Criteria ?p = []" by (simp add: example_plan_def)
  ultimately show ?thesis using c by auto
qed

definition example_gated_document :: gmap where
  "example_gated_document =
     [(''spec_version'', GNum 3 ''3''), (''exits'', GList [GMap [(''deliverable'', GStr ''report''), (''label'', GStr ''Report'')]]),
      (''default_acceptance_criteria'', GList [GMap [(''statement'', GStr ''a person signs the report''),
         (''applies_from_exit'', GStr ''report''), (''verification_method'', GStr ''human_judgment'')]])]"

definition example_gated_criterion :: SpecAcceptanceCriterion where
  "example_gated_criterion =
     \<lparr>crit_Statement = ''a person signs the report'', AppliesFromExit = ''report'',
      crit_VerificationMethod = ''human_judgment'', crit_Severity = []\<rparr>"

definition example_gated_spec :: SpecV2 where
  "example_gated_spec =
     zero_spec\<lparr>SpecVersion := 3, Exits := [\<lparr>exit_Deliverable = ''report'', exit_Label = ''Report''\<rparr>],
       DefaultAcceptanceCriteria := [example_gated_criterion]\<rparr>"

lemma example_gated_parses: "ParseSpec example_gated_document = Inr example_gated_spec"
  by code_simp

definition example_template_snapshot :: "gmap \<Rightarrow> ScenarioTemplateSnapshot" where
  "example_template_snapshot doc = \<lparr>tpl_Key = ''k'', tpl_Name = ''n'', tpl_Version = 1, tpl_Spec = doc\<rparr>"

theorem template_criteria_are_folded_witness:
  "filter (\<lambda>c. pac_ID c = template_id 0)
     (plan_Criteria (foldTemplateAcceptanceCriteria
        (example_snapshot (Some (example_template_snapshot example_gated_document)) [])
        (example_plan [example_task ''develop'' [] []] [] ''report''))) =
   [template_entry example_gated_spec [example_task ''develop'' [] []] 0 example_gated_criterion]"
proof -
  let ?p = "example_plan [example_task ''develop'' [] []] [] ''report''"
  let ?s = "example_snapshot (Some (example_template_snapshot example_gated_document)) []"
  have "\<not> blank (plan_ExitDeliverable ?p)" "ExitCondMet example_gated_spec \<lparr>ExitAtOrBeyond = ''report''\<rparr> (TrimSpace ''report'')"
    by code_simp+
  then show ?thesis
    using template_criteria_are_folded [of ?s "example_template_snapshot example_gated_document" example_gated_spec ?p 0]
    by (simp add: example_gated_parses example_template_snapshot_def example_snapshot_def example_gated_spec_def
        example_gated_criterion_def example_plan_def)
qed
end
