(* ===== verification/Plan_Graph.thy ===== *)
theory Plan_Graph
  imports Acceptance_Criteria
begin

text \<open>
  Validation of a planner's task graph, after \<^verbatim>\<open>workflow/projectcoordination/graph_validation.go\<close>, with
  \<open>plannerRequiredInputs\<close> of \<^verbatim>\<open>openai_compatible_planner.go\<close> and \<open>validateSkeletonAdherence\<close> of
  \<^verbatim>\<open>template_governance.go\<close>. The recursive closure of the cycle search takes a bound on its depth and
  returns \<open>None\<close> when the bound is too small; one more than the number of tasks is always enough. The
  text of an error is the constructor with the values it prints.
\<close>

section \<open>Cycle search\<close>

type_synonym marks = "string \<Rightarrow> nat"

text \<open>
  \<open>visit_node\<close> is the closure \<^verbatim>\<open>visit\<close>, with the marks 0 (new), 1 (on the path) and 2 (done) as its
  state; \<open>visit_nodes\<close> is the loop over blockers, and also the loop over all keys.
\<close>

fun visit_node :: "nat \<Rightarrow> (string \<Rightarrow> string list) \<Rightarrow> string \<Rightarrow> marks \<Rightarrow> (bool \<times> marks) option"
  and visit_nodes :: "nat \<Rightarrow> (string \<Rightarrow> string list) \<Rightarrow> string list \<Rightarrow> marks \<Rightarrow> (bool \<times> marks) option" where
  "visit_node 0 dependencies key st = None"
| "visit_node (Suc n) dependencies key st =
     (if st key = 1 then Some (True, st)
      else if st key = 2 then Some (False, st)
      else case visit_nodes n dependencies (dependencies key) (st(key := 1)) of
             None \<Rightarrow> None
           | Some (found, st') \<Rightarrow> Some (if found then (True, st') else (False, st'(key := 2))))"
| "visit_nodes n dependencies [] st = Some (False, st)"
| "visit_nodes n dependencies (b # bs) st =
     (case visit_node n dependencies b st of
        None \<Rightarrow> None
      | Some (found, st') \<Rightarrow> if found then Some (True, st') else visit_nodes n dependencies bs st')"

text \<open>The map \<open>dependencies\<close>: a repeated key keeps the last entry; an absent key reads as no blockers.\<close>

definition task_dependencies :: "PlannedTask list \<Rightarrow> string \<Rightarrow> string list" where
  "task_dependencies tasks key =
     (case map_of (rev (map (\<lambda>t. (task_Key t, task_BlockedByKeys t)) tasks)) key of None \<Rightarrow> [] | Some bs \<Rightarrow> bs)"

text \<open>Go ranges over the map in an arbitrary order; \<open>order\<close> is that order.\<close>

definition hasCycle_in :: "string list \<Rightarrow> PlannedTask list \<Rightarrow> bool option" where
  "hasCycle_in order tasks =
     map_option fst (visit_nodes (Suc (length tasks)) (task_dependencies tasks) order (\<lambda>_. 0))"

definition hasCycle :: "PlannedTask list \<Rightarrow> bool" where
  "hasCycle tasks = (hasCycle_in (remdups (map task_Key tasks)) tasks = Some True)"

definition hasRoot :: "PlannedTask list \<Rightarrow> bool" where
  "hasRoot tasks \<longleftrightarrow> list_ex (\<lambda>t. task_BlockedByKeys t = []) tasks"

text \<open>The dependency relation.\<close>

definition depends :: "(string \<Rightarrow> string list) \<Rightarrow> (string \<times> string) set" where
  "depends d = {(k, b). b \<in> set (d k)}"

lemma depends_iff [simp]: "(k, b) \<in> depends d \<longleftrightarrow> b \<in> set (d k)"
  by (simp add: depends_def)

text \<open>The depth bound: nodes outside \<open>N\<close> have no blockers.\<close>

definition white :: "string set \<Rightarrow> marks \<Rightarrow> string set" where
  "white N st = {k \<in> N. st k = 0}"

definition covers :: "string set \<Rightarrow> (string \<Rightarrow> string list) \<Rightarrow> bool" where
  "covers N d \<longleftrightarrow> finite N \<and> (\<forall>k. k \<notin> N \<longrightarrow> d k = [])"

lemma white_mark:
  "finite N \<Longrightarrow> k \<in> N \<Longrightarrow> st k = 0 \<Longrightarrow> card (white N (st(k := Suc i))) < card (white N st)"
  by (rule psubset_card_mono) (auto simp: white_def)

lemma white_mono: "finite N \<Longrightarrow> white N st' \<subseteq> white N st \<Longrightarrow> card (white N st') \<le> card (white N st)"
  by (rule card_mono) (auto simp: white_def)

lemma visit_enough_fuel:
  "covers N d \<Longrightarrow> card (white N st) < n \<Longrightarrow> \<forall>k. st k \<le> 2 \<Longrightarrow>
    \<exists>r st'. visit_node n d key st = Some (r, st') \<and> white N st' \<subseteq> white N st \<and> (\<forall>k. st' k \<le> 2)"
  "covers N d \<Longrightarrow> card (white N st) < n \<or> bs = [] \<Longrightarrow> \<forall>k. st k \<le> 2 \<Longrightarrow>
    \<exists>r st'. visit_nodes n d bs st = Some (r, st') \<and> white N st' \<subseteq> white N st \<and> (\<forall>k. st' k \<le> 2)"
proof (induction n d key st and n d bs st rule: visit_node_visit_nodes.induct)
  case (2 n d key st)
  show ?case
  proof (cases "st key = 0")
    case True
    have fin: "finite N" using "2.prems" by (simp add: covers_def)
    have le: "\<forall>k. (st(key := 1)) k \<le> 2" using "2.prems"(3) by simp
    have new: "st key \<noteq> 1" "st key \<noteq> 2" using True by simp_all
    have "card (white N (st(key := 1))) < n \<or> d key = []"
    proof (cases "key \<in> N")
      case True
      with white_mark [of N key st 0] fin \<open>st key = 0\<close> "2.prems"(2) show ?thesis by simp
    qed (use "2.prems"(1) in \<open>simp add: covers_def\<close>)
    then obtain r st' where r: "visit_nodes n d (d key) (st(key := 1)) = Some (r, st')"
      "white N st' \<subseteq> white N (st(key := 1))" "\<forall>k. st' k \<le> 2"
      using "2.IH" [OF new "2.prems"(1) _ le] by blast
    have "white N (st(key := 1)) \<subseteq> white N st" "white N (st'(key := 2)) \<subseteq> white N st'"
      by (auto simp: white_def split: if_splits)
    with r(2) have "white N st' \<subseteq> white N st" "white N (st'(key := 2)) \<subseteq> white N st" by auto
    with r True show ?thesis by auto
  next
    case False
    with "2.prems"(3) have "st key = 1 \<or> st key = 2"
      by (metis One_nat_def Suc_1 le_Suc_eq le_zero_eq numeral_2_eq_2)
    with "2.prems" show ?thesis by auto
  qed
next
  case (4 n d b bs st)
  have fin: "finite N" and lt: "card (white N st) < n" using "4.prems" by (auto simp: covers_def)
  from "4.IH"(1) [OF "4.prems"(1) lt "4.prems"(3)] obtain r st' where
    r: "visit_node n d b st = Some (r, st')" "white N st' \<subseteq> white N st" "\<forall>k. st' k \<le> 2" by blast
  show ?case
  proof (cases r)
    case False
    have "card (white N st') < n" using white_mono [OF fin r(2)] lt by simp
    then have "\<exists>r'' st''. visit_nodes n d bs st' = Some (r'', st'') \<and> white N st'' \<subseteq> white N st' \<and> (\<forall>k. st'' k \<le> 2)"
      using "4.IH"(2) [OF r(1) refl] False "4.prems"(1) r(3) by blast
    with r False show ?thesis by auto
  qed (use r in auto)
qed auto

text \<open>Marks that describe a finished part of the graph: done nodes lie on no cycle and lead to done nodes.\<close>

definition marks_inv :: "(string \<Rightarrow> string list) \<Rightarrow> marks \<Rightarrow> bool" where
  "marks_inv d st \<longleftrightarrow> (\<forall>k. st k = 2 \<longrightarrow> (k, k) \<notin> (depends d)\<^sup>+ \<and> (\<forall>b \<in> set (d k). st b = 2))"

lemma black_closed: "marks_inv d st \<Longrightarrow> (b, k) \<in> (depends d)\<^sup>* \<Longrightarrow> st b = 2 \<Longrightarrow> st k = 2"
  by (erule rtrancl_induct) (auto simp: marks_inv_def)

lemma finish_node:
  assumes "marks_inv d st" "st key = 1" "\<forall>b \<in> set (d key). st b = 2"
  shows "marks_inv d (st(key := 2))"
proof -
  have "(key, key) \<notin> (depends d)\<^sup>+"
  proof
    assume "(key, key) \<in> (depends d)\<^sup>+"
    then obtain b where "(key, b) \<in> depends d" "(b, key) \<in> (depends d)\<^sup>*" by (meson tranclD)
    with assms black_closed [of d st b key] show False by auto
  qed
  with assms show ?thesis by (auto simp: marks_inv_def)
qed

definition grey_reach :: "(string \<Rightarrow> string list) \<Rightarrow> marks \<Rightarrow> string \<Rightarrow> bool" where
  "grey_reach d st key \<longleftrightarrow> (\<forall>g. st g = 1 \<longrightarrow> (g, key) \<in> (depends d)\<^sup>+)"

text \<open>What a call that found nothing leaves behind.\<close>

definition extends :: "(string \<Rightarrow> string list) \<Rightarrow> marks \<Rightarrow> marks \<Rightarrow> bool" where
  "extends d st st' \<longleftrightarrow> marks_inv d st' \<and> (\<forall>k. st' k = 1 \<longleftrightarrow> st k = 1) \<and> (\<forall>k. st k = 2 \<longrightarrow> st' k = 2)"

lemma grey_reach_mark:
  assumes "grey_reach d st key" "b \<in> set (d key)"
  shows "grey_reach d (st(key := 1)) b"
  using assms by (auto simp: grey_reach_def intro: trancl_into_trancl)

lemma grey_reach_extends: "extends d st st' \<Longrightarrow> grey_reach d st' k = grey_reach d st k"
  by (simp add: grey_reach_def extends_def)

lemma visit_correct:
  "visit_node n d key st = Some (r, st') \<Longrightarrow> marks_inv d st \<Longrightarrow> \<forall>k. st k \<le> 2 \<Longrightarrow> grey_reach d st key \<Longrightarrow>
    (r \<longrightarrow> (\<exists>k. (k, k) \<in> (depends d)\<^sup>+)) \<and> (\<not> r \<longrightarrow> extends d st st' \<and> st' key = 2 \<and> (\<forall>k. st' k \<le> 2))"
  "visit_nodes n d bs st = Some (r, st') \<Longrightarrow> marks_inv d st \<Longrightarrow> \<forall>k. st k \<le> 2 \<Longrightarrow> \<forall>b \<in> set bs. grey_reach d st b \<Longrightarrow>
    (r \<longrightarrow> (\<exists>k. (k, k) \<in> (depends d)\<^sup>+)) \<and>
    (\<not> r \<longrightarrow> extends d st st' \<and> (\<forall>b \<in> set bs. st' b = 2) \<and> (\<forall>k. st' k \<le> 2))"
proof (induction n d key st and n d bs st arbitrary: r st' and r st' rule: visit_node_visit_nodes.induct)
  case (2 n d key st)
  consider "st key = 1" | "st key = 2" | "st key = 0"
    using "2.prems"(3) by (metis One_nat_def Suc_1 le_Suc_eq le_zero_eq numeral_2_eq_2)
  then show ?case
  proof cases
    case 1
    with "2.prems" show ?thesis by (auto simp: grey_reach_def)
  next
    case 2
    with "2.prems" show ?thesis by (auto simp: extends_def)
  next
    case 3
    then obtain r' s' where r': "visit_nodes n d (d key) (st(key := 1)) = Some (r', s')"
      and res: "(r, st') = (if r' then (True, s') else (False, s'(key := 2)))"
      using "2.prems"(1) by (auto split: option.splits)
    have mi: "marks_inv d (st(key := 1))" using "2.prems"(2) 3 by (auto simp: marks_inv_def)
    have le: "\<forall>k. (st(key := 1)) k \<le> 2" using "2.prems"(3) by simp
    have gr: "\<forall>b \<in> set (d key). grey_reach d (st(key := 1)) b"
      using grey_reach_mark [OF "2.prems"(4)] by simp
    have new: "st key \<noteq> 1" "st key \<noteq> 2" using 3 by simp_all
    have IH: "(r' \<longrightarrow> (\<exists>k. (k, k) \<in> (depends d)\<^sup>+)) \<and>
        (\<not> r' \<longrightarrow> extends d (st(key := 1)) s' \<and> (\<forall>b \<in> set (d key). s' b = 2) \<and> (\<forall>k. s' k \<le> 2))"
      by (rule "2.IH" [OF new r' mi le gr])
    show ?thesis
    proof (cases r')
      case False
      with IH have e: "extends d (st(key := 1)) s'" "\<forall>b \<in> set (d key). s' b = 2" "\<forall>k. s' k \<le> 2" by auto
      then have "s' key = 1" "marks_inv d s'" by (auto simp: extends_def)
      with e(2) have mi': "marks_inv d (s'(key := 2))" by (intro finish_node)
      have st': "\<not> r" "st' = s'(key := 2)" using False res by auto
      have "\<forall>k. st' k = 1 \<longleftrightarrow> st k = 1" "\<forall>k. st k = 2 \<longrightarrow> st' k = 2" "st' key = 2" "\<forall>k. st' k \<le> 2"
        using e 3 unfolding st' extends_def by auto
      moreover have "marks_inv d st'" unfolding st' by (rule mi')
      ultimately show ?thesis using st'(1) unfolding extends_def by blast
    qed (use IH res in auto)
  qed
next
  case (4 n d b bs st)
  then obtain r1 s1 where s1: "visit_node n d b st = Some (r1, s1)"
    and res: "(if r1 then Some (True, s1) else visit_nodes n d bs s1) = Some (r, st')"
    by (auto split: option.splits)
  have IH1: "(r1 \<longrightarrow> (\<exists>k. (k, k) \<in> (depends d)\<^sup>+)) \<and> (\<not> r1 \<longrightarrow> extends d st s1 \<and> s1 b = 2 \<and> (\<forall>k. s1 k \<le> 2))"
    using "4.IH"(1) [OF s1] "4.prems" by simp
  show ?case
  proof (cases r1)
    case False
    with IH1 have e: "extends d st s1" "s1 b = 2" "\<forall>k. s1 k \<le> 2" by auto
    have "\<forall>b \<in> set bs. grey_reach d s1 b" using "4.prems"(4) grey_reach_extends [OF e(1)] by simp
    moreover have "marks_inv d s1" using e(1) by (simp add: extends_def)
    ultimately have "(r \<longrightarrow> (\<exists>k. (k, k) \<in> (depends d)\<^sup>+)) \<and>
        (\<not> r \<longrightarrow> extends d s1 st' \<and> (\<forall>b \<in> set bs. st' b = 2) \<and> (\<forall>k. st' k \<le> 2))"
      using "4.IH"(2) [OF s1 refl False] res e(3) False by simp
    with e show ?thesis by (auto simp: extends_def)
  qed (use IH1 res in auto)
qed (auto simp: extends_def)

lemma finite_task_nodes: "covers (set (map task_Key tasks)) (task_dependencies tasks)"
proof -
  have "task_dependencies tasks k = []" if "k \<notin> set (map task_Key tasks)" for k
  proof -
    have "map_of (rev (map (\<lambda>t. (task_Key t, task_BlockedByKeys t)) tasks)) k = None"
      using that by (auto simp: map_of_eq_None_iff)
    then show ?thesis by (simp add: task_dependencies_def)
  qed
  then show ?thesis by (auto simp: covers_def)
qed

text \<open>Whatever the order of the keys, the search ends and decides whether the graph has a cycle.\<close>

lemma search_decides:
  assumes "covers N d" "card N \<le> n" "set order = N"
  shows "map_option fst (visit_nodes (Suc n) d order (\<lambda>_. 0)) = Some (\<not> acyclic (depends d))"
proof -
  have "card (white N (\<lambda>_. 0)) < Suc n \<or> order = []" using assms(2) by (simp add: white_def)
  then have "\<exists>r st'. visit_nodes (Suc n) d order (\<lambda>_. 0) = Some (r, st') \<and>
      white N st' \<subseteq> white N (\<lambda>_. 0) \<and> (\<forall>k. st' k \<le> 2)"
    by (rule visit_enough_fuel(2) [OF assms(1)]) simp
  then obtain r st' where r: "visit_nodes (Suc n) d order (\<lambda>_. 0) = Some (r, st')" by blast
  have "marks_inv d (\<lambda>_. 0)" "\<forall>b \<in> set order. grey_reach d (\<lambda>_. 0) b"
    by (simp_all add: marks_inv_def grey_reach_def)
  then have c: "(r \<longrightarrow> (\<exists>k. (k, k) \<in> (depends d)\<^sup>+)) \<and> (\<not> r \<longrightarrow> extends d (\<lambda>_. 0) st' \<and> (\<forall>b \<in> set order. st' b = 2))"
    using visit_correct(2) [OF r] by simp
  have "\<not> r \<longrightarrow> acyclic (depends d)"
  proof (intro impI acyclicI allI notI)
    fix k assume "\<not> r" and kk: "(k, k) \<in> (depends d)\<^sup>+"
    then obtain b where "(k, b) \<in> depends d" by (meson tranclD)
    then have "d k \<noteq> []" by auto
    then have "k \<in> set order" using assms(1,3) by (auto simp: covers_def)
    with c \<open>\<not> r\<close> kk show False by (auto simp: extends_def marks_inv_def)
  qed
  with c have "r = (\<not> acyclic (depends d))" by (auto simp: acyclic_def)
  with r show ?thesis by simp
qed

lemma hasCycle_in_iff:
  assumes "set order = set (map task_Key tasks)"
  shows "hasCycle_in order tasks = Some (\<not> acyclic (depends (task_dependencies tasks)))"
  unfolding hasCycle_in_def
  by (rule search_decides [OF finite_task_nodes _ assms]) (use card_length [of "map task_Key tasks"] in simp)

lemma hasCycle_iff: "hasCycle tasks \<longleftrightarrow> \<not> acyclic (depends (task_dependencies tasks))"
  by (simp add: hasCycle_def hasCycle_in_iff)

section \<open>Graph validation\<close>

record GraphValidationPolicy =
  MaxTasks :: int

datatype route_error =
    ReasonEmpty
  | NoTasks
  | TooManyTasks nat int
  | KeyUntrimmed string
  | KeyTitleSummaryEmpty string
  | DuplicateKey string
  | NotInPool string uuid
  | ContractMissing string
  | OutputInvalid string
  | BlockerUntrimmed string string
  | BlockerEmptyOrSelf string
  | DuplicateBlocker string string
  | BlockerUnknown string string
  | NoRoot
  | Cycle
  | ProducesEmpty string
  | ProducesClaimedTwice string string string
  | InputUnproduced string string
  | InputNotDirect string string string
  | CriterionNoSatisfier string
  | SatisfierUnknown string string
  | CriteriaSemantics criteria_error
  | TemplateKeyMismatch string string
  | SpecUnparsable spec_error
  | ExitRequired "string list"
  | InvalidExit string spec_error
  | SkeletonMissing string string
  | PinnedExitMismatch string string
  | SelectionReasonEmpty string
  | RequirementInvalid string
  | NoPlanningProfile string uuid

definition uuidSet :: "uuid list \<Rightarrow> uuid set" where
  "uuidSet ids = set (filter (\<lambda>i. i \<noteq> uuid_Nil) ids)"

text \<open>The name of a required input, in its string form or its object form.\<close>

fun required_input_text :: "gval \<Rightarrow> string" where
  "required_input_text (GStr s) = s"
| "required_input_text (GMap m) = (case as_str (gget m ''name'') of None \<Rightarrow> [] | Some name \<Rightarrow> name)"
| "required_input_text _ = []"

definition plannerRequiredInputs :: "gmap option \<Rightarrow> string list" where
  "plannerRequiredInputs raw =
     (case raw of
        None \<Rightarrow> []
      | Some m \<Rightarrow>
          (case as_list (gget m ''required_inputs'') of
             None \<Rightarrow> []
           | Some values \<Rightarrow> filter (\<lambda>s. s \<noteq> []) (map (\<lambda>v. TrimSpace (required_input_text v)) values)))"

text \<open>The loop over tasks, with the keys seen so far.\<close>

definition check_task :: "uuid set \<Rightarrow> string list \<Rightarrow> PlannedTask \<Rightarrow> route_error option" where
  "check_task pool seen task =
     (let key = task_Key task in
      or_else (fail_if (key \<noteq> TrimSpace key) (KeyUntrimmed key))
     (or_else (fail_if (key = [] \<or> TrimSpace (task_Title task) = [] \<or> TrimSpace (task_Summary task) = []) (KeyTitleSummaryEmpty key))
     (or_else (fail_if (key \<in> set seen) (DuplicateKey key))
     (or_else (fail_if (task_SelectedEmployeeID task \<notin> pool) (NotInPool key (task_SelectedEmployeeID task)))
     (or_else (fail_if (task_ExpectedOutputs task = [] \<or> task_InputRequirements task = None \<or> task_HandoffContract task = None)
                 (ContractMissing key))
              (fail_if (list_ex (\<lambda>out. out = [] \<or> out \<noteq> TrimSpace out) (task_ExpectedOutputs task)) (OutputInvalid key)))))))"

fun check_tasks :: "uuid set \<Rightarrow> string list \<Rightarrow> PlannedTask list \<Rightarrow> route_error option" where
  "check_tasks pool seen [] = None"
| "check_tasks pool seen (t # ts) = or_else (check_task pool seen t) (check_tasks pool (task_Key t # seen) ts)"

fun check_blockers :: "string \<Rightarrow> string set \<Rightarrow> string list \<Rightarrow> string list \<Rightarrow> route_error option" where
  "check_blockers taskKey keys seen [] = None"
| "check_blockers taskKey keys seen (b # bs) =
     or_else (fail_if (b \<noteq> TrimSpace b) (BlockerUntrimmed taskKey b))
    (or_else (fail_if (b = [] \<or> b = taskKey) (BlockerEmptyOrSelf taskKey))
    (or_else (fail_if (b \<in> set seen) (DuplicateBlocker taskKey b))
    (or_else (fail_if (b \<notin> keys) (BlockerUnknown taskKey b))
             (check_blockers taskKey keys (b # seen) bs))))"

definition produced_pairs :: "PlannedTask list \<Rightarrow> (string \<times> string) list" where
  "produced_pairs tasks = concat (map (\<lambda>t. map (\<lambda>k. (TrimSpace k, task_Key t)) (task_Produces t)) tasks)"

fun check_producers :: "(string \<times> string) list \<Rightarrow> (string \<times> string) list \<Rightarrow> route_error option" where
  "check_producers producers [] = None"
| "check_producers producers ((k, key) # ps) =
     or_else (fail_if (k = []) (ProducesEmpty key))
       (case map_of producers k of
          Some owner \<Rightarrow> Some (ProducesClaimedTwice k owner key)
        | None \<Rightarrow> check_producers ((k, key) # producers) ps)"

definition check_input :: "(string \<times> string) list \<Rightarrow> PlannedTask \<Rightarrow> string \<Rightarrow> route_error option" where
  "check_input producers task required =
     (case map_of producers required of
        None \<Rightarrow> Some (InputUnproduced (task_Key task) required)
      | Some producer \<Rightarrow> fail_if (producer \<notin> set (task_BlockedByKeys task)) (InputNotDirect (task_Key task) required producer))"

definition check_satisfiers :: "string set \<Rightarrow> PlanAcceptanceCriterion \<Rightarrow> route_error option" where
  "check_satisfiers taskKeys c =
     or_else (fail_if (pac_VerificationMethod c \<noteq> VerificationMethodHumanJudgment \<and> pac_SatisfiedBy c = []) (CriterionNoSatisfier (pac_ID c)))
       (first_error (\<lambda>s. fail_if (s \<notin> taskKeys) (SatisfierUnknown (pac_ID c) s)) (pac_SatisfiedBy c))"

definition ValidateRouteDecisionGraph :: "RouteDecisionPlan \<Rightarrow> uuid list \<Rightarrow> GraphValidationPolicy \<Rightarrow> route_error option" where
  "ValidateRouteDecisionGraph plan poolIDs policy =
     (let tasks = plan_Tasks plan;
          max_tasks = (if MaxTasks policy \<le> 0 then 12 else MaxTasks policy);
          keys = set (map task_Key tasks);
          producers = produced_pairs tasks
      in or_else (fail_if (TrimSpace (plan_Reason plan) = []) ReasonEmpty)
        (or_else (fail_if (tasks = []) NoTasks)
        (or_else (fail_if (int (length tasks) > max_tasks) (TooManyTasks (length tasks) max_tasks))
        (or_else (check_tasks (uuidSet poolIDs) [] tasks)
        (or_else (first_error (\<lambda>t. check_blockers (task_Key t) keys [] (task_BlockedByKeys t)) tasks)
        (or_else (fail_if (\<not> hasRoot tasks) NoRoot)
        (or_else (fail_if (hasCycle tasks) Cycle)
        (or_else (check_producers [] producers)
        (or_else (first_error (\<lambda>t. first_error (check_input producers t) (plannerRequiredInputs (task_InputRequirements t))) tasks)
        (or_else (first_error (check_satisfiers keys) (plan_Criteria plan))
                 (map_option CriteriaSemantics (validateAcceptanceCriteriaSemantics plan))))))))))))"

definition ValidateRouteDecision :: "RouteDecisionPlan \<Rightarrow> uuid list \<Rightarrow> route_error option" where
  "ValidateRouteDecision decision poolIDs = ValidateRouteDecisionGraph decision poolIDs \<lparr>MaxTasks = 0\<rparr>"

section \<open>What an accepted plan is\<close>

definition task_wellformed :: "uuid list \<Rightarrow> PlannedTask \<Rightarrow> bool" where
  "task_wellformed poolIDs t \<longleftrightarrow>
     \<not> untrimmed (task_Key t) \<and> task_Key t \<noteq> [] \<and> \<not> blank (task_Title t) \<and> \<not> blank (task_Summary t) \<and>
     task_SelectedEmployeeID t \<in> set poolIDs \<and> task_SelectedEmployeeID t \<noteq> uuid_Nil \<and>
     task_ExpectedOutputs t \<noteq> [] \<and> task_InputRequirements t \<noteq> None \<and> task_HandoffContract t \<noteq> None \<and>
     (\<forall>out \<in> set (task_ExpectedOutputs t). out \<noteq> [] \<and> \<not> untrimmed out)"

definition blockers_wellformed :: "PlannedTask list \<Rightarrow> PlannedTask \<Rightarrow> bool" where
  "blockers_wellformed tasks t \<longleftrightarrow>
     distinct (task_BlockedByKeys t) \<and> set (task_BlockedByKeys t) \<subseteq> set (map task_Key tasks) - {task_Key t}"

definition criterion_grounded :: "PlannedTask list \<Rightarrow> PlanAcceptanceCriterion \<Rightarrow> bool" where
  "criterion_grounded tasks c \<longleftrightarrow>
     (pac_SatisfiedBy c = [] \<longrightarrow> pac_VerificationMethod c = VerificationMethodHumanJudgment) \<and>
     set (pac_SatisfiedBy c) \<subseteq> set (map task_Key tasks) \<and> criterion_semantics c = None"

definition inputs_supplied :: "PlannedTask list \<Rightarrow> PlannedTask \<Rightarrow> bool" where
  "inputs_supplied tasks t \<longleftrightarrow>
     (\<forall>i \<in> set (plannerRequiredInputs (task_InputRequirements t)). \<exists>u \<in> set tasks.
        i \<in> TrimSpace ` set (task_Produces u) \<and> task_Key u \<in> set (task_BlockedByKeys t))"

definition graph_wellformed :: "RouteDecisionPlan \<Rightarrow> uuid list \<Rightarrow> GraphValidationPolicy \<Rightarrow> bool" where
  "graph_wellformed plan poolIDs policy \<longleftrightarrow>
     (let tasks = plan_Tasks plan in
      \<not> blank (plan_Reason plan) \<and> tasks \<noteq> [] \<and>
      int (length tasks) \<le> (if MaxTasks policy \<le> 0 then 12 else MaxTasks policy) \<and>
      distinct (map task_Key tasks) \<and> (\<forall>t \<in> set tasks. task_wellformed poolIDs t) \<and>
      (\<forall>t \<in> set tasks. blockers_wellformed tasks t) \<and>
      acyclic {(task_Key t, b) | t b. t \<in> set tasks \<and> b \<in> set (task_BlockedByKeys t)} \<and>
      distinct (concat (map (\<lambda>t. map TrimSpace (task_Produces t)) tasks)) \<and>
      (\<forall>t \<in> set tasks. \<forall>p \<in> set (task_Produces t). \<not> blank p) \<and>
      (\<forall>t \<in> set tasks. inputs_supplied tasks t) \<and>
      (\<forall>c \<in> set (plan_Criteria plan). criterion_grounded tasks c))"

lemma check_task_None:
  "check_task (uuidSet poolIDs) seen t = None \<longleftrightarrow> task_wellformed poolIDs t \<and> task_Key t \<notin> set seen"
  by (auto simp: check_task_def task_wellformed_def Let_def uuidSet_def untrimmed_def blank_def list_ex_iff)

lemma check_tasks_None:
  "check_tasks (uuidSet poolIDs) seen ts = None \<longleftrightarrow>
     (\<forall>t \<in> set ts. task_wellformed poolIDs t) \<and> distinct (map task_Key ts) \<and> set (map task_Key ts) \<inter> set seen = {}"
  by (induction ts arbitrary: seen) (auto simp: check_task_None)

lemma check_blockers_None:
  assumes "\<forall>k \<in> keys. \<not> untrimmed k \<and> k \<noteq> []"
  shows "check_blockers key keys seen bs = None \<longleftrightarrow> distinct bs \<and> set bs \<subseteq> keys - {key} \<and> set bs \<inter> set seen = {}"
  using assms by (induction bs arbitrary: seen) (auto simp: untrimmed_def)

lemma check_producers_None:
  "check_producers producers ps = None \<longleftrightarrow>
     [] \<notin> set (map fst ps) \<and> distinct (map fst ps) \<and> set (map fst ps) \<inter> set (map fst producers) = {}"
proof (induction producers ps rule: check_producers.induct)
  case (2 producers k key ps)
  show ?case
  proof (cases "map_of producers k")
    case None
    then have k: "k \<notin> set (map fst producers)" by (simp add: map_of_eq_None_iff)
    have "check_producers producers ((k, key) # ps) = None \<longleftrightarrow>
        k \<noteq> [] \<and> check_producers ((k, key) # producers) ps = None" using None by simp
    also have "\<dots> \<longleftrightarrow> k \<noteq> [] \<and> [] \<notin> set (map fst ps) \<and> distinct (map fst ps) \<and>
        set (map fst ps) \<inter> set (map fst ((k, key) # producers)) = {}" using "2.IH" [OF None] by simp
    finally show ?thesis using k by auto
  next
    case (Some owner)
    then have "k \<in> set (map fst producers)" by (force dest: map_of_SomeD)
    with Some show ?thesis by auto
  qed
qed simp

lemma produced_names: "map fst (produced_pairs tasks) = concat (map (\<lambda>t. map TrimSpace (task_Produces t)) tasks)"
  by (simp add: produced_pairs_def map_concat o_def)

lemma check_input_None:
  assumes "distinct (map fst producers)"
  shows "check_input producers t i = None \<longleftrightarrow> (\<exists>p. (i, p) \<in> set producers \<and> p \<in> set (task_BlockedByKeys t))"
proof (cases "map_of producers i")
  case None
  then have "(i, p) \<notin> set producers" for p by (force simp: map_of_eq_None_iff)
  with None show ?thesis by (simp add: check_input_def)
next
  case (Some q)
  then have "map_of producers i = Some p \<longleftrightarrow> p = q" for p by auto
  then have "(i, p) \<in> set producers \<longleftrightarrow> p = q" for p unfolding map_of_eq_Some_iff [OF assms] .
  with Some show ?thesis by (simp add: check_input_def)
qed

lemma produced_pairs_iff:
  "(i, p) \<in> set (produced_pairs tasks) \<longleftrightarrow> (\<exists>u \<in> set tasks. i \<in> TrimSpace ` set (task_Produces u) \<and> p = task_Key u)"
  by (auto simp: produced_pairs_def)

lemma depends_distinct:
  assumes "distinct (map task_Key tasks)"
  shows "depends (task_dependencies tasks) = {(task_Key t, b) | t b. t \<in> set tasks \<and> b \<in> set (task_BlockedByKeys t)}"
proof -
  have m: "map_of (rev (map (\<lambda>t. (task_Key t, task_BlockedByKeys t)) tasks)) k = Some bs \<longleftrightarrow>
      (\<exists>t \<in> set tasks. task_Key t = k \<and> task_BlockedByKeys t = bs)" for k bs
    using assms by (subst map_of_eq_Some_iff) (auto simp: o_def rev_map [symmetric])
  have "b \<in> set (task_dependencies tasks k) \<longleftrightarrow> (\<exists>t \<in> set tasks. task_Key t = k \<and> b \<in> set (task_BlockedByKeys t))" for k b
  proof -
    have "b \<in> set (task_dependencies tasks k) \<longleftrightarrow>
        (\<exists>cs. map_of (rev (map (\<lambda>t. (task_Key t, task_BlockedByKeys t)) tasks)) k = Some cs \<and> b \<in> set cs)"
      by (cases "map_of (rev (map (\<lambda>t. (task_Key t, task_BlockedByKeys t)) tasks)) k") (simp_all add: task_dependencies_def)
    then show ?thesis unfolding m by blast
  qed
  then show ?thesis by (auto simp: depends_def)
qed

text \<open>An acyclic, non-empty, closed dependency relation has a task without blockers.\<close>

lemma acyclic_minimal:
  assumes "finite K" "acyclic (depends d)" "S \<subseteq> K" "S \<noteq> {}"
  shows "\<exists>k \<in> S. set (d k) \<inter> S = {}"
proof -
  let ?r = "depends d \<inter> S \<times> S"
  have "finite ?r" using assms(1,3) by (meson finite_Int finite_SigmaI finite_subset)
  moreover have "acyclic ?r" using assms(2) by (rule acyclic_subset) auto
  ultimately have "wf (?r\<inverse>)" by (rule finite_acyclic_wf_converse)
  moreover obtain a where "a \<in> S" using assms(4) by blast
  ultimately obtain k where k: "k \<in> S" "\<And>y. (y, k) \<in> ?r\<inverse> \<Longrightarrow> y \<notin> S" by (rule wfE_min) blast
  have "y \<notin> S" if "y \<in> set (d k)" for y
  proof
    assume "y \<in> S"
    with that k(1) have "(y, k) \<in> ?r\<inverse>" by simp
    with \<open>y \<in> S\<close> show False using k(2) by blast
  qed
  with k(1) show ?thesis by blast
qed

lemma hasRoot_acyclic:
  assumes "distinct (map task_Key tasks)" "acyclic (depends (task_dependencies tasks))" "tasks \<noteq> []"
    "\<forall>t \<in> set tasks. set (task_BlockedByKeys t) \<subseteq> set (map task_Key tasks)"
  shows "hasRoot tasks"
proof -
  from assms(3) have ne: "set (map task_Key tasks) \<noteq> {}" by simp
  obtain k where k: "k \<in> set (map task_Key tasks)"
    "set (task_dependencies tasks k) \<inter> set (map task_Key tasks) = {}"
    using acyclic_minimal [OF finite_set assms(2) subset_refl ne] by blast
  then obtain t where t: "t \<in> set tasks" "task_Key t = k" by auto
  have "b \<in> set (task_dependencies tasks k)" if "b \<in> set (task_BlockedByKeys t)" for b
    using depends_distinct [OF assms(1)] t that by (auto simp: depends_def set_eq_iff)
  with k(2) assms(4) t(1) have "b \<notin> set (task_BlockedByKeys t)" for b by (meson disjoint_iff subsetD)
  then have "task_BlockedByKeys t = []" by (cases "task_BlockedByKeys t") auto
  with t(1) show ?thesis by (auto simp: hasRoot_def list_ex_iff)
qed

text \<open>Conjunctions of checks, each equivalent to its specification when the earlier ones hold.\<close>

lemma conj_chain:
  assumes "W \<Longrightarrow> B \<longleftrightarrow> B'" "P \<Longrightarrow> I \<longleftrightarrow> I'" "X \<and> Y \<longleftrightarrow> Z" "D \<Longrightarrow> N \<Longrightarrow> B' \<Longrightarrow> R \<and> \<not> C \<longleftrightarrow> G"
  shows "(r \<and> N \<and> m \<and> (D \<and> W) \<and> B \<and> R \<and> \<not> C \<and> (P \<and> Q) \<and> I \<and> X \<and> Y) \<longleftrightarrow>
    (r \<and> N \<and> m \<and> D \<and> W \<and> B' \<and> G \<and> P \<and> Q \<and> I' \<and> Z)"
  using assms by blast

lemma validator_iff_wellformed:
  "ValidateRouteDecisionGraph plan poolIDs policy = None \<longleftrightarrow> graph_wellformed plan poolIDs policy"
proof -
  let ?tasks = "plan_Tasks plan" and ?keys = "set (map task_Key (plan_Tasks plan))"
  have tasks: "check_tasks (uuidSet poolIDs) [] ?tasks = None \<longleftrightarrow>
      distinct (map task_Key ?tasks) \<and> (\<forall>t \<in> set ?tasks. task_wellformed poolIDs t)"
    by (auto simp: check_tasks_None)
  have blockers: "first_error (\<lambda>t. check_blockers (task_Key t) ?keys [] (task_BlockedByKeys t)) ?tasks = None \<longleftrightarrow>
      (\<forall>t \<in> set ?tasks. blockers_wellformed ?tasks t)" if "\<forall>t \<in> set ?tasks. task_wellformed poolIDs t"
  proof -
    have "\<forall>k \<in> ?keys. \<not> untrimmed k \<and> k \<noteq> []" using that by (auto simp: task_wellformed_def)
    then show ?thesis by (simp add: first_error_None check_blockers_None blockers_wellformed_def)
  qed
  have producers: "check_producers [] (produced_pairs ?tasks) = None \<longleftrightarrow>
      distinct (concat (map (\<lambda>t. map TrimSpace (task_Produces t)) ?tasks)) \<and>
      (\<forall>t \<in> set ?tasks. \<forall>p \<in> set (task_Produces t). \<not> blank p)"
    unfolding check_producers_None produced_names by (simp add: blank_def image_iff) metis
  have inputs: "first_error (\<lambda>t. first_error (check_input (produced_pairs ?tasks) t)
        (plannerRequiredInputs (task_InputRequirements t))) ?tasks = None \<longleftrightarrow> (\<forall>t \<in> set ?tasks. inputs_supplied ?tasks t)"
    if "distinct (concat (map (\<lambda>t. map TrimSpace (task_Produces t)) ?tasks))"
    using that unfolding produced_names [symmetric]
    by (simp add: first_error_None check_input_None produced_pairs_iff inputs_supplied_def) blast
  have criteria: "first_error (check_satisfiers ?keys) (plan_Criteria plan) = None \<and> validateAcceptanceCriteriaSemantics plan = None
      \<longleftrightarrow> (\<forall>c \<in> set (plan_Criteria plan). criterion_grounded ?tasks c)"
    by (auto simp: first_error_None check_satisfiers_def validateAcceptanceCriteriaSemantics_def criterion_grounded_def)
  have graph: "hasRoot ?tasks \<and> \<not> hasCycle ?tasks \<longleftrightarrow>
      acyclic {(task_Key t, b) | t b. t \<in> set ?tasks \<and> b \<in> set (task_BlockedByKeys t)}"
    if "distinct (map task_Key ?tasks)" "?tasks \<noteq> []" "\<forall>t \<in> set ?tasks. blockers_wellformed ?tasks t"
    using hasRoot_acyclic [OF that(1) _ that(2)] that(3)
    by (auto simp: hasCycle_iff depends_distinct [OF that(1)] blockers_wellformed_def)
  show ?thesis
    unfolding ValidateRouteDecisionGraph_def graph_wellformed_def Let_def or_else_None fail_if_None option.map_disc_iff
      tasks producers blank_def not_not not_less
    using blockers inputs criteria graph by (intro conj_chain)
qed

text \<open>
  Claim C14: the validator accepts a plan exactly if it is well formed: it has a reason and between one
  and the permitted number of tasks; keys are trimmed, non-empty and distinct; every task is assigned
  to an executor of the pool and has its contract; blockers are distinct other tasks of the plan and
  the dependency graph has no cycle; every deliverable has one producer; every required input is
  produced by a direct blocker; and every acceptance criterion is grounded in tasks of the plan and
  uses known methods and severities. The separate check for a root task never decides.
\<close>

theorem validator_accepts_exactly_wellformed:
  "ValidateRouteDecisionGraph plan poolIDs policy = None \<longleftrightarrow> graph_wellformed plan poolIDs policy"
  by (rule validator_iff_wellformed)

text \<open>
  Claim C15: the cycle search always ends within a depth of one more than the number of tasks, and
  whatever order the runtime enumerates the keys in, it reports a cycle exactly if there is one.
\<close>

theorem cycle_search_is_exact:
  assumes "set order = set (map task_Key tasks)"
  shows "hasCycle_in order tasks = Some (\<not> acyclic (depends (task_dependencies tasks)))"
  using assms by (rule hasCycle_in_iff)

text \<open>
  A plan that the validator accepts cannot get stuck. Whatever set of tasks is finished, as long as one
  is not, there is an unfinished task whose blockers are all finished, and every input it requires is
  produced by a finished task.
\<close>

lemma never_stuck:
  assumes "ValidateRouteDecisionGraph plan poolIDs policy = None"
    and "t \<in> set (plan_Tasks plan)" "task_Key t \<notin> finished"
  shows "\<exists>u \<in> set (plan_Tasks plan). task_Key u \<notin> finished \<and> set (task_BlockedByKeys u) \<subseteq> finished \<and>
    (\<forall>i \<in> set (plannerRequiredInputs (task_InputRequirements u)). \<exists>v \<in> set (plan_Tasks plan).
       task_Key v \<in> finished \<and> i \<in> TrimSpace ` set (task_Produces v))"
proof -
  let ?tasks = "plan_Tasks plan"
  have w: "graph_wellformed plan poolIDs policy" using assms(1) validator_iff_wellformed by blast
  then have dist: "distinct (map task_Key ?tasks)" and ac: "acyclic (depends (task_dependencies ?tasks))"
    and bl: "\<forall>t \<in> set ?tasks. blockers_wellformed ?tasks t" and inp: "\<forall>t \<in> set ?tasks. inputs_supplied ?tasks t"
    by (auto simp: graph_wellformed_def Let_def depends_distinct)
  let ?open = "set (map task_Key ?tasks) - finished"
  have "?open \<noteq> {}" using assms(2,3) by auto
  then obtain k where k: "k \<in> ?open" "set (task_dependencies ?tasks k) \<inter> ?open = {}"
    using acyclic_minimal [OF finite_set ac Diff_subset] by blast
  then obtain u where u: "u \<in> set ?tasks" "task_Key u = k" by auto
  have dep: "b \<in> set (task_dependencies ?tasks k)" if "b \<in> set (task_BlockedByKeys u)" for b
    using depends_distinct [OF dist] u that by (auto simp: depends_def set_eq_iff)
  have key: "b \<in> set (map task_Key ?tasks)" if "b \<in> set (task_BlockedByKeys u)" for b
    using bl u(1) that unfolding blockers_wellformed_def by blast
  have "b \<in> finished" if "b \<in> set (task_BlockedByKeys u)" for b
    using dep [OF that] key [OF that] k(2) by blast
  then have sub: "set (task_BlockedByKeys u) \<subseteq> finished" by auto
  have "\<forall>i \<in> set (plannerRequiredInputs (task_InputRequirements u)). \<exists>v \<in> set ?tasks.
      task_Key v \<in> finished \<and> i \<in> TrimSpace ` set (task_Produces v)"
    using inp u(1) sub unfolding inputs_supplied_def by blast
  with u k(1) sub show ?thesis by (intro bexI [of _ u]) auto
qed

section \<open>Plan validation\<close>

definition hasInvalidRequirementString :: "string list \<Rightarrow> bool" where
  "hasInvalidRequirementString values \<longleftrightarrow> list_ex (\<lambda>v. v = [] \<or> v \<noteq> TrimSpace v) values"

text \<open>A map filled in order: the last entry of a key counts.\<close>

definition planningProfilesByEmployeeID :: "ProjectMemberSnapshot list \<Rightarrow> uuid \<Rightarrow> DigitalEmployeePlanningProfile option" where
  "planningProfilesByEmployeeID members =
     map_of (rev (List.map_filter (\<lambda>m. map_option (Pair (mem_PrincipalID m)) (mem_PlanningProfile m)) members))"

definition planningTaskRequirements :: "PlannedTask \<Rightarrow> PlanningTaskRequirements" where
  "planningTaskRequirements task =
     \<lparr>req_TaskType = task_TaskKind task, req_RequiredCapabilities = task_RequiredCapabilities task,
      req_PermissionRequirements = task_PermissionRequirements task, req_ToolRequirements = task_ToolRequirements task,
      req_RuntimeRequirements = task_RuntimeRequirements task\<rparr>"

definition normalizedStringSet :: "string list \<Rightarrow> string set" where
  "normalizedStringSet values = set (filter (\<lambda>v. v \<noteq> []) (map normalizePlanningString values))"

definition stringSetsEqual :: "string list \<Rightarrow> string list \<Rightarrow> bool" where
  "stringSetsEqual left right =
     (let l = normalizedStringSet left; r = normalizedStringSet right in
      if card l \<noteq> card r then False else l \<subseteq> r)"

text \<open>The thresholds. A \<^verbatim>\<open>json.Number\<close> that parses and a float64 are both numbers of the model.\<close>

definition policy_number :: "gmap \<Rightarrow> string \<Rightarrow> (rat \<Rightarrow> bool) \<Rightarrow> rat \<Rightarrow> rat" where
  "policy_number policy key ok dflt =
     (case map_of policy key of Some (GNum v _) \<Rightarrow> if ok v then v else dflt | _ \<Rightarrow> dflt)"

definition selectionConfidenceThreshold :: "gmap \<Rightarrow> rat" where
  "selectionConfidenceThreshold policy =
     policy_number policy ''selection_confidence_threshold'' (\<lambda>v. v > 0 \<and> v \<le> 1) (7 / 10)"

definition selectionScoreThreshold :: "gmap \<Rightarrow> rat" where
  "selectionScoreThreshold policy =
     policy_number policy ''selection_score_threshold'' (\<lambda>v. v \<ge> 0 \<and> v \<le> 100) 40"

definition validateSkeletonAdherence :: "SpecV2 \<Rightarrow> RouteDecisionPlan \<Rightarrow> route_error option" where
  "validateSkeletonAdherence spec plan =
     (if Skeleton spec = [] then None
      else if Exits spec \<noteq> [] \<and> TrimSpace (plan_ExitDeliverable plan) = [] then
        Some (ExitRequired (map exit_Deliverable (Exits spec)))
      else
        let check = (\<lambda>steps.
              let produced = concat (map task_Produces (plan_Tasks plan)) in
              first_error (\<lambda>step. first_error
                (\<lambda>p. fail_if (produce_Name p \<notin> set produced) (SkeletonMissing (Step step) (produce_Name p)))
                (ProducesDefaults step)) steps)
        in if Exits spec \<noteq> [] then
             (case PruneSkeletonForExit spec (plan_ExitDeliverable plan) of
                Inl err \<Rightarrow> Some (InvalidExit (plan_ExitDeliverable plan) err)
              | Inr pruned \<Rightarrow> check pruned)
           else check (Skeleton spec))"

definition check_template :: "CoordinationSnapshot \<Rightarrow> RouteDecisionPlan \<Rightarrow> route_error option" where
  "check_template snapshot plan =
     (case snap_ScenarioTemplate snapshot of
        None \<Rightarrow> None
      | Some tpl \<Rightarrow>
          or_else (fail_if (TrimSpace (tpl_Key tpl) \<noteq> [] \<and> plan_TemplateKey plan \<noteq> tpl_Key tpl)
                     (TemplateKeyMismatch (plan_TemplateKey plan) (tpl_Key tpl)))
            (case ParseSpec (tpl_Spec tpl) of
               Inl err \<Rightarrow> Some (SpecUnparsable err)
             | Inr spec \<Rightarrow>
                 or_else (validateSkeletonAdherence spec plan)
                   (fail_if (snap_PinnedExitDeliverable snapshot \<noteq> [] \<and>
                             plan_ExitDeliverable plan \<noteq> snap_PinnedExitDeliverable snapshot)
                      (PinnedExitMismatch (plan_ExitDeliverable plan) (snap_PinnedExitDeliverable snapshot)))))"

definition usable_profile ::
  "(uuid \<Rightarrow> DigitalEmployeePlanningProfile option) \<Rightarrow> uuid \<Rightarrow> DigitalEmployeePlanningProfile option" where
  "usable_profile profiles employee =
     (case profiles employee of
        None \<Rightarrow> None
      | Some profile \<Rightarrow>
          if prof_DigitalEmployeeID profile = uuid_Nil \<or> prof_DigitalEmployeeID profile \<noteq> employee then None
          else Some profile)"

definition check_plan_task ::
  "(uuid \<Rightarrow> DigitalEmployeePlanningProfile option) \<Rightarrow> PlannedTask \<Rightarrow> route_error option" where
  "check_plan_task profiles task =
     or_else (fail_if (TrimSpace (task_EmployeeSelectionReason task) = []) (SelectionReasonEmpty (task_Key task)))
    (or_else (fail_if (hasInvalidRequirementString (task_RequiredCapabilities task) \<or>
                       hasInvalidRequirementString (task_MatchedCapabilities task) \<or>
                       hasInvalidRequirementString (task_MissingCapabilities task) \<or>
                       hasInvalidRequirementString (task_PermissionRequirements task) \<or>
                       hasInvalidRequirementString (task_ToolRequirements task) \<or>
                       hasInvalidRequirementString (task_RuntimeRequirements task) \<or>
                       hasInvalidRequirementString (task_VerificationRequirements task))
                (RequirementInvalid (task_Key task)))
             (fail_if (usable_profile profiles (task_SelectedEmployeeID task) = None)
                (NoPlanningProfile (task_Key task) (task_SelectedEmployeeID task))))"

definition ValidateRouteDecisionPlan ::
  "CoordinationSnapshot \<Rightarrow> RouteDecisionPlan \<Rightarrow> GraphValidationPolicy \<Rightarrow> route_error option" where
  "ValidateRouteDecisionPlan snapshot plan policy =
     or_else (ValidateRouteDecisionGraph plan (activeExecutorIDs (snap_DigitalEmployeePool snapshot)) policy)
    (or_else (check_template snapshot plan)
       (first_error (check_plan_task (planningProfilesByEmployeeID (snap_DigitalEmployeePool snapshot))) (plan_Tasks plan)))"

lemma stringSetsEqual_iff: "stringSetsEqual left right \<longleftrightarrow> normalizedStringSet left = normalizedStringSet right"
proof -
  have "finite (normalizedStringSet xs)" for xs by (simp add: normalizedStringSet_def)
  then show ?thesis using card_subset_eq by (auto simp: stringSetsEqual_def Let_def)
qed

text \<open>
  Every task of an accepted plan is assigned to a member of the project's pool who is an
  active executor and has a planning profile of their own, so no other person or agent can be planned
  in.
\<close>

lemma accepted_assignments_are_active_executors:
  assumes "ValidateRouteDecisionPlan snapshot plan policy = None" "t \<in> set (plan_Tasks plan)"
  shows "task_SelectedEmployeeID t \<noteq> uuid_Nil \<and>
    (\<exists>m \<in> set (snap_DigitalEmployeePool snapshot).
      mem_PrincipalID m = task_SelectedEmployeeID t \<and> mem_ProjectRole m = ''executor'' \<and> mem_Status m = ''active'') \<and>
    (\<exists>m \<in> set (snap_DigitalEmployeePool snapshot). \<exists>p.
      mem_PrincipalID m = task_SelectedEmployeeID t \<and> mem_PlanningProfile m = Some p \<and>
      prof_DigitalEmployeeID p = task_SelectedEmployeeID t)"
proof -
  let ?pool = "snap_DigitalEmployeePool snapshot"
  have "graph_wellformed plan (activeExecutorIDs ?pool) policy"
    using assms(1) validator_iff_wellformed by (simp add: ValidateRouteDecisionPlan_def)
  then have "task_SelectedEmployeeID t \<noteq> uuid_Nil" "task_SelectedEmployeeID t \<in> set (activeExecutorIDs ?pool)"
    using assms(2) by (auto simp: graph_wellformed_def Let_def task_wellformed_def)
  moreover have "check_plan_task (planningProfilesByEmployeeID ?pool) t = None"
    using assms by (simp add: ValidateRouteDecisionPlan_def first_error_None)
  then obtain p where "planningProfilesByEmployeeID ?pool (task_SelectedEmployeeID t) = Some p"
    "prof_DigitalEmployeeID p = task_SelectedEmployeeID t"
    by (auto simp: check_plan_task_def usable_profile_def split: option.splits if_splits)
  moreover from this(1) have "\<exists>m \<in> set ?pool. mem_PrincipalID m = task_SelectedEmployeeID t \<and> mem_PlanningProfile m = Some p"
    unfolding planningProfilesByEmployeeID_def
    by (force dest!: map_of_SomeD simp: map_filter_def split: option.splits)
  ultimately show ?thesis by (auto simp: activeExecutorIDs_def)
qed

section \<open>Scores\<close>

text \<open>The hash of a profile (SHA-256 over its JSON) is a parameter.\<close>

definition scored_task :: "(DigitalEmployeePlanningProfile \<Rightarrow> string) \<Rightarrow> DigitalEmployeePlanningProfile \<Rightarrow> PlannedTask \<Rightarrow> PlannedTask" where
  "scored_task PlanningProfileSnapshotHash profile task =
     (let score = ScorePlanningProfile profile (planningTaskRequirements task) in
      task\<lparr>task_SelectionScore := ps_Score score, task_MatchedCapabilities := ps_MatchedCapabilities score,
           task_MissingCapabilities := ps_MissingCapabilities score,
           task_PlanningProfileSnapshotHash := PlanningProfileSnapshotHash profile\<rparr>)"

definition apply_profile_score ::
  "(DigitalEmployeePlanningProfile \<Rightarrow> string) \<Rightarrow> (uuid \<Rightarrow> DigitalEmployeePlanningProfile option) \<Rightarrow>
   RouteDecisionPlan \<Rightarrow> nat \<Rightarrow> RouteDecisionPlan" where
  "apply_profile_score hash profiles plan i =
     (let task = plan_Tasks plan ! i in
      case usable_profile profiles (task_SelectedEmployeeID task) of
        None \<Rightarrow> plan
      | Some profile \<Rightarrow>
          let plan1 = plan\<lparr>plan_Tasks := (plan_Tasks plan)[i := scored_task hash profile task]\<rparr> in
          if ps_HardFailures (ScorePlanningProfile profile (planningTaskRequirements task)) \<noteq> [] then
            markPlanRequiresHumanReviewPlatform
              (markTaskRequiresHumanApprovalPlatform plan1 i RiskSourcePlatformProfileScore)
              RiskSourcePlatformProfileScore
          else plan1)"

definition ApplyPlanningProfileScores ::
  "(DigitalEmployeePlanningProfile \<Rightarrow> string) \<Rightarrow> CoordinationSnapshot \<Rightarrow> RouteDecisionPlan \<Rightarrow> RouteDecisionPlan" where
  "ApplyPlanningProfileScores hash snapshot plan =
     foldl (apply_profile_score hash (planningProfilesByEmployeeID (snap_DigitalEmployeePool snapshot))) plan
       [0..<length (plan_Tasks plan)]"

lemma not_blank_constants [simp]:
  "\<not> blank RiskSignalTaskRequiresHumanApproval" "\<not> blank RiskSignalPlanRequiresHumanReview"
  "\<not> blank RiskSourcePlatformProfileScore" "\<not> blank RiskSourcePlatformTemplateGovernance"
  by code_simp+

lemma mark_plan_fields [simp]:
  "plan_Tasks (markPlanRequiresHumanReviewPlatform plan s) = plan_Tasks plan"
  "plan_RequiresHumanReview (markPlanRequiresHumanReviewPlatform plan s)"
  by (simp_all add: markPlanRequiresHumanReviewPlatform_def)

lemma mark_task_fields [simp]:
  "plan_RequiresHumanReview (markTaskRequiresHumanApprovalPlatform plan i s) = plan_RequiresHumanReview plan"
  "i < length (plan_Tasks plan) \<Longrightarrow> plan_Tasks (markTaskRequiresHumanApprovalPlatform plan i s) =
     (plan_Tasks plan)[i := (plan_Tasks plan ! i)\<lparr>task_RequiresHumanApproval := True\<rparr>]"
  by (simp_all add: markTaskRequiresHumanApprovalPlatform_def Let_def)

lemma riskAttributionSource_cong:
  "riskAttributionSource (plan\<lparr>plan_Tasks := ts\<rparr>) k t = riskAttributionSource plan k t"
  "riskAttributionSource (plan\<lparr>plan_RequiresHumanReview := b\<rparr>) k t = riskAttributionSource plan k t"
  by (simp_all add: riskAttributionSource_def)

lemma mark_plan_source:
  "\<not> blank s \<Longrightarrow> riskAttributionSource (markPlanRequiresHumanReviewPlatform plan s) k t =
     (if k = RiskSignalPlanRequiresHumanReview \<and> TrimSpace t = [] then s else riskAttributionSource plan k t)"
  by (simp add: markPlanRequiresHumanReviewPlatform_def riskAttributionSource_set riskAttributionSource_cong)

lemma mark_task_source:
  "\<not> blank s \<Longrightarrow> i < length (plan_Tasks plan) \<Longrightarrow>
   riskAttributionSource (markTaskRequiresHumanApprovalPlatform plan i s) k t =
     (if k = RiskSignalTaskRequiresHumanApproval \<and> TrimSpace t = TrimSpace (task_Key (plan_Tasks plan ! i)) then s
      else riskAttributionSource plan k t)"
  by (simp add: markTaskRequiresHumanApprovalPlatform_def Let_def riskAttributionSource_set riskAttributionSource_cong)

text \<open>The task that one step of the loop leaves behind.\<close>

definition rescored ::
  "(DigitalEmployeePlanningProfile \<Rightarrow> string) \<Rightarrow> (uuid \<Rightarrow> DigitalEmployeePlanningProfile option) \<Rightarrow> PlannedTask \<Rightarrow> PlannedTask" where
  "rescored hash profiles task =
     (case usable_profile profiles (task_SelectedEmployeeID task) of
        None \<Rightarrow> task
      | Some profile \<Rightarrow>
          if ps_HardFailures (ScorePlanningProfile profile (planningTaskRequirements task)) \<noteq> []
          then (scored_task hash profile task)\<lparr>task_RequiresHumanApproval := True\<rparr> else scored_task hash profile task)"

lemma apply_profile_score_tasks:
  assumes "i < length (plan_Tasks plan)"
  shows "plan_Tasks (apply_profile_score hash profiles plan i) =
    (plan_Tasks plan)[i := rescored hash profiles (plan_Tasks plan ! i)]"
  using assms by (simp add: apply_profile_score_def rescored_def Let_def split: option.split)

lemma scored_task_key [simp]: "task_Key (scored_task hash p t) = task_Key t"
  by (simp add: scored_task_def Let_def)

lemma rescored_key [simp]: "task_Key (rescored hash profiles t) = task_Key t"
  by (simp add: rescored_def split: option.split)

text \<open>Signals the platform has recorded for a low score stay recorded, and the review flag stays set.\<close>

definition scored_signal :: "RouteDecisionPlan \<Rightarrow> string \<Rightarrow> string \<Rightarrow> bool" where
  "scored_signal plan kind key \<longleftrightarrow> riskAttributionSource plan kind key = RiskSourcePlatformProfileScore"

lemma apply_profile_score_keeps:
  assumes "i < length (plan_Tasks plan)"
  shows "scored_signal plan k t \<Longrightarrow> scored_signal (apply_profile_score hash profiles plan i) k t"
    and "plan_RequiresHumanReview plan \<Longrightarrow> plan_RequiresHumanReview (apply_profile_score hash profiles plan i)"
  using assms
  by (simp_all add: apply_profile_score_def scored_signal_def Let_def mark_plan_source mark_task_source
      riskAttributionSource_cong split: option.split)

lemma apply_profile_score_raises:
  assumes "i < length (plan_Tasks plan)" "usable_profile profiles (task_SelectedEmployeeID (plan_Tasks plan ! i)) = Some p"
    "ps_HardFailures (ScorePlanningProfile p (planningTaskRequirements (plan_Tasks plan ! i))) \<noteq> []"
  shows "scored_signal (apply_profile_score hash profiles plan i) RiskSignalTaskRequiresHumanApproval (task_Key (plan_Tasks plan ! i)) \<and>
    scored_signal (apply_profile_score hash profiles plan i) RiskSignalPlanRequiresHumanReview [] \<and>
    plan_RequiresHumanReview (apply_profile_score hash profiles plan i)"
  using assms
  by (simp add: apply_profile_score_def scored_signal_def Let_def mark_plan_source mark_task_source)

lemma fold_tasks:
  assumes "n \<le> length (plan_Tasks plan)"
  shows "plan_Tasks (foldl (apply_profile_score hash profiles) plan [0..<n]) =
    map (rescored hash profiles) (take n (plan_Tasks plan)) @ drop n (plan_Tasks plan)"
  using assms
proof (induction n)
  case (Suc n)
  let ?f = "foldl (apply_profile_score hash profiles) plan [0..<n]"
  have IH: "plan_Tasks ?f = map (rescored hash profiles) (take n (plan_Tasks plan)) @ drop n (plan_Tasks plan)"
    using Suc by simp
  then have len: "n < length (plan_Tasks ?f)" and nth: "plan_Tasks ?f ! n = plan_Tasks plan ! n"
    using Suc.prems by (simp_all add: nth_append)
  have "plan_Tasks (foldl (apply_profile_score hash profiles) plan [0..<Suc n]) =
      (plan_Tasks ?f)[n := rescored hash profiles (plan_Tasks plan ! n)]"
    using apply_profile_score_tasks [OF len] nth by simp
  also have "\<dots> = map (rescored hash profiles) (take (Suc n) (plan_Tasks plan)) @ drop (Suc n) (plan_Tasks plan)"
    using Suc.prems unfolding IH
    by (simp add: list_update_append take_Suc_conv_app_nth Cons_nth_drop_Suc [symmetric])
  finally show ?case .
qed simp

lemma fold_keeps:
  fixes hash profiles plan
  defines "F \<equiv> \<lambda>n. foldl (apply_profile_score hash profiles) plan [0..<n]"
  assumes "m \<le> n" "n \<le> length (plan_Tasks plan)"
  shows "(scored_signal (F m) k t \<longrightarrow> scored_signal (F n) k t) \<and>
    (plan_RequiresHumanReview (F m) \<longrightarrow> plan_RequiresHumanReview (F n))"
  using assms(2,3)
proof (induction n rule: dec_induct)
  case (step n)
  have "length (plan_Tasks (F n)) = length (plan_Tasks plan)"
    using step.prems unfolding F_def by (simp add: fold_tasks)
  then have n: "n < length (plan_Tasks (F n))" using step.prems by simp
  have "F (Suc n) = apply_profile_score hash profiles (F n) n" by (simp add: F_def)
  then show ?case using step.IH step.prems apply_profile_score_keeps [OF n, where hash = hash and profiles = profiles] by auto
qed simp

text \<open>
  Scoring writes each task's own score from its employee's profile, and a task whose
  employee fails hard (for instance an unmet runtime requirement) keeps its demand for human approval,
  and the plan its demand for human review, through the final strip of the planner's own flags.
\<close>

theorem hard_failures_reach_a_human:
  assumes "i < length (plan_Tasks plan)"
    and "usable_profile (planningProfilesByEmployeeID (snap_DigitalEmployeePool snapshot))
      (task_SelectedEmployeeID (plan_Tasks plan ! i)) = Some p"
  shows "task_SelectionScore (plan_Tasks (ApplyPlanningProfileScores hash snapshot plan) ! i) =
      ps_Score (ScorePlanningProfile p (planningTaskRequirements (plan_Tasks plan ! i))) \<and>
    (ps_HardFailures (ScorePlanningProfile p (planningTaskRequirements (plan_Tasks plan ! i))) \<noteq> [] \<longrightarrow>
      task_RequiresHumanApproval (plan_Tasks (stripPlannerOnlyRiskFlags (ApplyPlanningProfileScores hash snapshot plan)) ! i) \<and>
      plan_RequiresHumanReview (stripPlannerOnlyRiskFlags (ApplyPlanningProfileScores hash snapshot plan)))"
proof -
  define profiles where "profiles = planningProfilesByEmployeeID (snap_DigitalEmployeePool snapshot)"
  define F where "F = (\<lambda>n. foldl (apply_profile_score hash profiles) plan [0..<n])"
  let ?n = "length (plan_Tasks plan)" and ?t = "plan_Tasks plan ! i"
  have A: "ApplyPlanningProfileScores hash snapshot plan = F ?n"
    by (simp add: ApplyPlanningProfileScores_def F_def profiles_def)
  have u: "usable_profile profiles (task_SelectedEmployeeID ?t) = Some p" using assms(2) by (simp add: profiles_def)
  have tasks: "plan_Tasks (F m) = map (rescored hash profiles) (take m (plan_Tasks plan)) @ drop m (plan_Tasks plan)"
    if "m \<le> ?n" for m using fold_tasks [OF that] by (simp add: F_def)
  have at: "plan_Tasks (F ?n) ! i = rescored hash profiles ?t" using tasks [of ?n] assms(1) by simp
  have score: "task_SelectionScore (plan_Tasks (F ?n) ! i) = ps_Score (ScorePlanningProfile p (planningTaskRequirements ?t))"
    unfolding at using u by (simp add: rescored_def scored_task_def Let_def)
  have strip: "task_RequiresHumanApproval (plan_Tasks (stripPlannerOnlyRiskFlags (F ?n)) ! i) \<and>
      plan_RequiresHumanReview (stripPlannerOnlyRiskFlags (F ?n))"
    if hf: "ps_HardFailures (ScorePlanningProfile p (planningTaskRequirements ?t)) \<noteq> []"
  proof -
    have before: "plan_Tasks (F i) ! i = ?t" "i < length (plan_Tasks (F i))"
      using tasks [of i] assms(1) by (simp_all add: nth_append)
    have now: "scored_signal (F (Suc i)) RiskSignalTaskRequiresHumanApproval (task_Key ?t) \<and>
        scored_signal (F (Suc i)) RiskSignalPlanRequiresHumanReview [] \<and> plan_RequiresHumanReview (F (Suc i))"
      using apply_profile_score_raises [of i "F i" profiles p hash] before u hf by (simp add: F_def)
    have end_: "scored_signal (F ?n) RiskSignalTaskRequiresHumanApproval (task_Key ?t)"
      "scored_signal (F ?n) RiskSignalPlanRequiresHumanReview []" "plan_RequiresHumanReview (F ?n)"
      using fold_keeps [of "Suc i" ?n plan] now assms(1) unfolding F_def by auto
    have "task_RequiresHumanApproval (plan_Tasks (F ?n) ! i)" "task_Key (plan_Tasks (F ?n) ! i) = task_Key ?t"
      unfolding at using u hf by (simp_all add: rescored_def)
    moreover have "i < length (plan_Tasks (F ?n))" using tasks [of ?n] assms(1) by simp
    ultimately show ?thesis using end_
      by (simp add: stripPlannerOnlyRiskFlags_def planner_only_def scored_signal_def Let_def)
  qed
  show ?thesis unfolding A using score strip by blast
qed

section \<open>Examples\<close>

definition example_tasks :: "PlannedTask list" where
  "example_tasks = [example_task ''b'' [] [''a''], example_task ''a'' [''draft''] []]"

definition example_profile :: DigitalEmployeePlanningProfile where
  "example_profile =
     \<lparr>prof_DigitalEmployeeID = 1, prof_RoleProfile = \<lparr>prp_PrimaryRole = ''writer'', prp_Description = [], prp_EmployeeType = []\<rparr>,
      prof_Capabilities = [], prof_ToolBindings = [],
      prof_RuntimeRequirements = \<lparr>rt_ProviderTypes = [], rt_ProviderStatus = ''offline'', rt_RuntimeNodeID = []\<rparr>,
      prof_Permissions = [], prof_LoadState = \<lparr>load_AvailableSlots = 1, load_InFlightTasks = 0, load_Lendable = False\<rparr>,
      prof_ReliabilitySignals = \<lparr>rel_Status = [], rel_SuccessRate = 0, rel_RecentFailureCount = 0,
        rel_RecentSuccessCount = 0, rel_RecentHumanRejectCount = 0\<rparr>,
      prof_HardFailures = []\<rparr>"

definition example_pool :: "ProjectMemberSnapshot list" where
  "example_pool = [\<lparr>mem_PrincipalID = 1, mem_ProjectRole = ''executor'', mem_Status = ''active'', mem_DisplayName = [],
     mem_PlanningProfile = Some example_profile\<rparr>]"

lemma example_graph_accepted: "ValidateRouteDecisionGraph (example_plan example_tasks [] []) [1] \<lparr>MaxTasks = 12\<rparr> = None"
  by code_simp

theorem cycle_search_is_exact_witness:
  "acyclic (depends (task_dependencies example_tasks))"
proof -
  have "hasCycle_in [''a'', ''b''] example_tasks = Some False" by code_simp
  moreover have "set [''a'', ''b''] = set (map task_Key example_tasks)" by code_simp
  ultimately show ?thesis using cycle_search_is_exact [of "[''a'', ''b'']" example_tasks] by simp
qed

theorem hard_failures_reach_a_human_witness:
  "plan_RequiresHumanReview (stripPlannerOnlyRiskFlags
     (ApplyPlanningProfileScores (\<lambda>_. ''hash'') (example_snapshot None example_pool) (example_plan example_tasks [] [])))"
proof -
  have "0 < length (plan_Tasks (example_plan example_tasks [] []))"
    "usable_profile (planningProfilesByEmployeeID (snap_DigitalEmployeePool (example_snapshot None example_pool)))
       (task_SelectedEmployeeID (plan_Tasks (example_plan example_tasks [] []) ! 0)) = Some example_profile"
    "ps_HardFailures (ScorePlanningProfile example_profile
       (planningTaskRequirements (plan_Tasks (example_plan example_tasks [] []) ! 0))) \<noteq> []"
    by code_simp+
  then show ?thesis using hard_failures_reach_a_human by blast
qed
end
