(* ===== verification/Template_Governance.thy ===== *)
theory Template_Governance
  imports Plan_Graph "HOL-Library.Multiset"
begin

text \<open>
  Governance of a plan by its scenario template, after
  \<^verbatim>\<open>workflow/projectcoordination/template_governance.go\<close>: role independence, required stages, human gates,
  collapse annotations and feasibility notes. Tasks that the code holds by pointer are positions in
  the plan's task list. Go enumerates the employees of a role in an arbitrary order; \<open>order\<close> is that
  order. An operation that may fail after it has changed the plan returns the error with the plan.
  Messages in Chinese are given by their UTF-8 bytes.
\<close>

section \<open>Tasks of skeleton steps\<close>

text \<open>The maps \<open>producedBy\<close> and \<open>taskByKey\<close>: the last entry of a name or key counts.\<close>

definition producedBy :: "PlannedTask list \<Rightarrow> string \<Rightarrow> string option" where
  "producedBy tasks = map_of (rev (concat (map (\<lambda>t. map (\<lambda>p. (p, task_Key t)) (task_Produces t)) tasks)))"

definition taskByKey :: "PlannedTask list \<Rightarrow> string \<Rightarrow> nat option" where
  "taskByKey tasks = map_of (rev (map (\<lambda>(i, t). (task_Key t, i)) (enumerate 0 tasks)))"

definition stepTask :: "PlannedTask list \<Rightarrow> SpecSkeletonStep \<Rightarrow> nat option" where
  "stepTask tasks step =
     (case ProducesDefaults step of
        [] \<Rightarrow> None
      | p # _ \<Rightarrow> (case producedBy tasks (produce_Name p) of None \<Rightarrow> None | Some key \<Rightarrow> taskByKey tasks key))"

definition byName :: "SpecSkeletonStep list \<Rightarrow> string \<Rightarrow> SpecSkeletonStep option" where
  "byName steps = map_of (rev (map (\<lambda>s. (Step s, s)) steps))"

definition roleByKey :: "SpecV2 \<Rightarrow> string \<Rightarrow> SpecRole" where
  "roleByKey spec key =
     (case map_of (rev (map (\<lambda>r. (srole_Key r, r)) (Roles spec))) key of
        None \<Rightarrow> \<lparr>srole_Key = [], srole_Title = [], srole_RequiredCapabilities = []\<rparr> | Some r \<Rightarrow> r)"

section \<open>Structural gaps\<close>

record PlanningGap =
  gap_ConstraintKind :: string
  gap_Roles :: "string list"
  gap_RequiredCapabilities :: "string list"
  gap_ActiveExecutorCount :: nat
  gap_Options :: "string list"

text \<open>The two messages of a structural gap: the pool is too small, or the casting locks both roles.\<close>

datatype gap_message = PoolTooSmall | CastLocked

datatype governance_error =
    GovSpecUnparsable spec_error
  | GovInvalidExit string spec_error
  | RolesShareEmployee "string list" uuid
  | StructuralGap gap_message PlanningGap
  | StageUnreachable string string
  | StageWithoutTask string
  | GateUnreachable string string
  | GateWithoutTask string
  | OpinionOnlyExit string string

text \<open>Which of the two sentinels an error wraps: \<^verbatim>\<open>ErrNoSuitableEmployee\<close> or \<^verbatim>\<open>ErrInvalidRouteDecision\<close>.\<close>

fun is_no_suitable_employee :: "governance_error \<Rightarrow> bool" where
  "is_no_suitable_employee (StructuralGap _ _) = True"
| "is_no_suitable_employee _ = False"

definition roleCapabilitiesFromSpec :: "SpecV2 \<Rightarrow> string \<Rightarrow> string list" where
  "roleCapabilitiesFromSpec spec key = srole_RequiredCapabilities (roleByKey spec key)"

definition add_new :: "string list \<Rightarrow> string \<Rightarrow> string list" where
  "add_new seen c = (if c \<in> set seen then seen else seen @ [c])"

definition buildRoleIndependenceGap :: "SpecConstraint \<Rightarrow> (string \<Rightarrow> string list) \<Rightarrow> nat \<Rightarrow> PlanningGap" where
  "buildRoleIndependenceGap con roleCapabilities executors =
     \<lparr>gap_ConstraintKind = con_Kind con, gap_Roles = con_Roles con,
      gap_RequiredCapabilities = foldl add_new [] (concat (map roleCapabilities (con_Roles con))),
      gap_ActiveExecutorCount = executors, gap_Options = [''restaff'', ''exempt'']\<rparr>"

definition newStructuralGapErrorWithMessage ::
  "SpecConstraint \<Rightarrow> (string \<Rightarrow> string list) \<Rightarrow> nat \<Rightarrow> gap_message \<Rightarrow> governance_error" where
  "newStructuralGapErrorWithMessage con roleCapabilities executors message =
     StructuralGap message (buildRoleIndependenceGap con roleCapabilities executors)"

definition newStructuralGapError :: "SpecConstraint \<Rightarrow> (string \<Rightarrow> string list) \<Rightarrow> nat \<Rightarrow> governance_error" where
  "newStructuralGapError con roleCapabilities executors =
     newStructuralGapErrorWithMessage con roleCapabilities executors PoolTooSmall"

section \<open>Role independence\<close>

text \<open>The pairs of positions \<open>i < j\<close> of the two nested loops.\<close>

fun role_pairs :: "string list \<Rightarrow> (string \<times> string) list" where
  "role_pairs [] = []"
| "role_pairs (r # rs) = map (Pair r) rs @ role_pairs rs"

definition check_pair ::
  "(uuid list \<Rightarrow> uuid list) \<Rightarrow> SpecConstraint \<Rightarrow> (string \<Rightarrow> uuid list) \<Rightarrow> (string \<Rightarrow> string list) \<Rightarrow> nat \<Rightarrow>
   (string \<Rightarrow> uuid option) \<Rightarrow> string \<times> string \<Rightarrow> governance_error option" where
  "check_pair order con roleEmployees roleCapabilities executors castByRole = (\<lambda>(leftRole, rightRole).
     case find (\<lambda>i. i \<in> set (roleEmployees rightRole)) (order (roleEmployees leftRole)) of
       None \<Rightarrow> None
     | Some i \<Rightarrow>
         Some (if castByRole leftRole = Some i \<and> castByRole rightRole = Some i then
                 newStructuralGapErrorWithMessage con roleCapabilities executors CastLocked
               else if executors \<ge> 2 then RolesShareEmployee (con_Roles con) i
               else newStructuralGapError con roleCapabilities executors))"

definition enforceRoleIndependence ::
  "(uuid list \<Rightarrow> uuid list) \<Rightarrow> SpecConstraint \<Rightarrow> (string \<Rightarrow> uuid list) \<Rightarrow> (string \<Rightarrow> string list) \<Rightarrow> nat \<Rightarrow>
   (string \<Rightarrow> uuid option) \<Rightarrow> governance_error option" where
  "enforceRoleIndependence order con roleEmployees roleCapabilities executors castByRole =
     first_error (check_pair order con roleEmployees roleCapabilities executors castByRole) (role_pairs (con_Roles con))"

definition roleHasReviewCapability :: "SpecRole \<Rightarrow> bool" where
  "roleHasReviewCapability role \<longleftrightarrow> list_ex (\<lambda>c. Contains (ToLower c) ''review'') (srole_RequiredCapabilities role)"

definition reviewed_for ::
  "SpecSkeletonStep list \<Rightarrow> (string \<Rightarrow> SpecRole) \<Rightarrow> string \<Rightarrow> string \<Rightarrow> SpecSkeletonStep option" where
  "reviewed_for steps roles reviewerRole reviewedRole =
     (if \<not> roleHasReviewCapability (roles reviewerRole) then None
      else
        case concat (map (\<lambda>s. List.map_filter (\<lambda>dep.
               case byName steps dep of
                 None \<Rightarrow> None
               | Some d \<Rightarrow> if step_Role d = reviewedRole then Some d else None) (DependsOn s))
             (filter (\<lambda>s. step_Role s = reviewerRole) steps)) of
          [] \<Rightarrow> None
        | d # _ \<Rightarrow> Some d)"

definition reviewedStepForIndependence ::
  "SpecConstraint \<Rightarrow> SpecSkeletonStep list \<Rightarrow> (string \<Rightarrow> SpecRole) \<Rightarrow> SpecSkeletonStep option" where
  "reviewedStepForIndependence con steps roles =
     (case con_Roles con of
        [a, b] \<Rightarrow>
          (case reviewed_for steps roles a b of
             Some reviewed \<Rightarrow> Some reviewed
           | None \<Rightarrow> reviewed_for steps roles b a)
      | _ \<Rightarrow> None)"

definition skeletonHasDedicatedReviewStep :: "SpecSkeletonStep list \<Rightarrow> (string \<Rightarrow> SpecRole) \<Rightarrow> bool" where
  "skeletonHasDedicatedReviewStep steps roles \<longleftrightarrow> list_ex (\<lambda>step. roleHasReviewCapability (roles (step_Role step))) steps"

definition add_note :: "string \<Rightarrow> string \<Rightarrow> RouteDecisionPlan \<Rightarrow> RouteDecisionPlan" where
  "add_note kind message plan =
     plan\<lparr>plan_ConstraintNotes := plan_ConstraintNotes plan @ [\<lparr>cn_Kind = kind, cn_Message = message\<rparr>]\<rparr>"

definition four_eyes_message :: "string \<Rightarrow> string" where
  "four_eyes_message step =
     byte_string [233, 170, 168, 230, 158, 182, 229, 183, 178, 230, 156, 137, 231, 139, 172, 231, 171, 139, 229, 174,
       161, 230, 159, 165, 230, 173, 165, 239, 188, 140, 229, 155, 155, 231, 156, 188, 231, 148, 177, 229, 174, 161, 230, 159, 165, 228, 187, 187, 229, 138, 161, 228, 184, 142, 32, 114, 111, 108, 101, 95, 105, 110, 100, 101, 112, 101, 110, 100, 101, 110, 99, 101, 32, 228, 191, 157, 232, 175, 129, 239, 188, 155, 228, 184, 141, 229, 156, 168, 32] @ step @
     byte_string [32, 228, 184, 138, 229, 134, 141, 230, 179, 168, 229, 133, 165, 32, 97, 100, 118, 101, 114, 115,
       97, 114, 105, 97, 108, 95, 114, 101, 118, 105, 101, 119, 239, 188, 136, 233, 129, 191, 229, 133, 141, 228, 184, 142, 228, 187, 163, 231, 160, 129, 229, 174, 161, 230, 159, 165, 47, 229, 174, 137, 229, 133, 168, 229, 174, 161, 230, 159, 165, 229, 143, 160, 229, 186, 138, 230, 158, 182, 229, 177, 139, 227, 128, 129, 229, 175, 185, 230, 138, 151, 228, 191, 174, 232, 174, 162, 229, 190, 170, 231, 142, 175, 229, 146, 140, 233, 162, 157, 229, 164, 150, 229, 136, 164, 229, 174, 152, 32, 116, 111, 107, 101, 110, 239, 188, 137]"

definition migration_message :: "string \<Rightarrow> string" where
  "migration_message step =
     byte_string [231, 139, 172, 231, 171, 139, 229, 174, 161, 230, 159, 165, 229, 183, 178, 232, 191, 129, 228, 184,
       186, 32, 97, 100, 118, 101, 114, 115, 97, 114, 105, 97, 108, 95, 114, 101, 118, 105, 101, 119, 239, 188, 136,
         232, 162, 171, 229, 174, 161, 230, 173, 165, 233, 170, 164, 32] @ step @ byte_string [239, 188, 137, 239,
           188, 140, 231, 139, 172, 231, 171, 139, 230, 128, 167, 231, 148, 177, 229, 136, 164, 229, 174, 152, 231, 187, 132, 228, 191, 157, 232, 175, 129, 239, 188, 155, 228, 184, 141, 229, 134, 141, 232, 166, 129, 230, 177, 130, 231, 139, 172, 231, 171, 139, 32, 114, 101, 118, 105, 101, 119, 101, 114, 32, 229, 145, 152, 229, 183, 165]"

definition migrateReviewerRoleToAdversarial ::
  "SpecConstraint \<Rightarrow> SpecSkeletonStep list \<Rightarrow> PlannedTask list \<Rightarrow> (string \<Rightarrow> SpecRole) \<Rightarrow> RouteDecisionPlan \<Rightarrow>
   bool \<times> RouteDecisionPlan" where
  "migrateReviewerRoleToAdversarial con steps tasks roles plan =
     (case reviewedStepForIndependence con steps roles of
        None \<Rightarrow> (False, plan)
      | Some reviewedStep \<Rightarrow>
          (case stepTask tasks reviewedStep of
             None \<Rightarrow> (False, plan)
           | Some i \<Rightarrow>
               let key = task_Key (tasks ! i) in
               if skeletonHasDedicatedReviewStep steps roles then
                 (False, add_note ''review_steps_own_four_eyes'' (four_eyes_message (Step reviewedStep)) plan)
               else if list_ex (\<lambda>c. pac_VerificationMethod c = VerificationMethodAdversarialReview \<and>
                                   containsString (pac_SatisfiedBy c) key) (plan_Criteria plan) then (True, plan)
               else
                 let entry = \<lparr>pac_ID = ''adversarial_review:'' @ key,
                       pac_Statement = byte_string [231, 139, 172, 231, 171, 139, 229, 175, 185, 230, 138, 151, 232,
                         175, 132, 229, 174, 161, 239, 188, 154] @ Step reviewedStep @ byte_string [32, 231, 154,
                           132, 228, 186, 167, 229, 135, 186, 233, 161, 187, 231, 187, 143, 229, 164, 154, 229, 136, 164, 229, 174, 152, 232, 175, 129, 228, 188, 170, 232, 175, 132, 229, 174, 161, 233, 128, 154, 232, 191, 135],
                       pac_SatisfiedBy = [key], pac_VerificationMethod = VerificationMethodAdversarialReview,
                       pac_Severity = CriterionSeverityBlocking, pac_EvidenceHint = [], pac_AmbiguityFlag = False,
                       pac_Source = CriterionSourcePlatformInjected\<rparr>
                 in (True, add_note ''adversarial_review'' (migration_message (Step reviewedStep))
                      (plan\<lparr>plan_Criteria := plan_Criteria plan @ [entry]\<rparr>))))"

definition stage_opinion_only ::
  "PlannedTask list \<Rightarrow> PlanAcceptanceCriterion list \<Rightarrow> string list \<Rightarrow> SpecSkeletonStep \<Rightarrow> governance_error option" where
  "stage_opinion_only tasks criteria humanGated step =
     (if Step step \<in> set humanGated then None
      else case stepTask tasks step of
             None \<Rightarrow> None
           | Some i \<Rightarrow>
               let key = task_Key (tasks ! i);
                   exits = filter (\<lambda>c. containsString (pac_SatisfiedBy c) key) criteria
               in fail_if (exits \<noteq> [] \<and> list_all (\<lambda>c. pac_VerificationMethod c = VerificationMethodHumanJudgment) exits)
                    (OpinionOnlyExit (Step step) key))"

definition enforceAutonomousStageExitEvidence ::
  "SpecV2 \<Rightarrow> SpecSkeletonStep list \<Rightarrow> PlannedTask list \<Rightarrow> RouteDecisionPlan \<Rightarrow> governance_error option" where
  "enforceAutonomousStageExitEvidence spec steps tasks plan =
     (let humanGated = map con_Target (filter (\<lambda>c. con_Kind c = ''human_gate'' \<and>
            ExitCondMet spec (con_When c) (plan_ExitDeliverable plan)) (Constraints spec))
      in first_error (stage_opinion_only tasks (plan_Criteria plan) humanGated) steps)"

section \<open>Exemptions and casting\<close>

definition roleSetsEqual :: "string list \<Rightarrow> string list \<Rightarrow> bool" where
  "roleSetsEqual a b = (if length a \<noteq> length b then False else sort a = sort b)"

definition demandConstraintExempted :: "DemandConstraintExemption list \<Rightarrow> SpecConstraint \<Rightarrow> bool \<times> string list" where
  "demandConstraintExempted exemptions con =
     (if list_ex (\<lambda>e. exm_ConstraintKind e = con_Kind con \<and>
            (exm_Roles e = [] \<or> roleSetsEqual (exm_Roles e) (con_Roles con))) exemptions
      then (True, con_Roles con) else (False, []))"

definition playbookCastByRole :: "PlaybookCastingAssignment list \<Rightarrow> string \<Rightarrow> uuid option" where
  "playbookCastByRole casts =
     map_of (rev (map (\<lambda>c. (TrimSpace (cast_RoleKey c), cast_DigitalEmployeeID c))
       (filter (\<lambda>c. TrimSpace (cast_RoleKey c) \<noteq> [] \<and> cast_DigitalEmployeeID c \<noteq> uuid_Nil) casts)))"

definition structuralGapForPlan :: "CoordinationSnapshot \<Rightarrow> RouteDecisionPlan \<Rightarrow> governance_error option" where
  "structuralGapForPlan snapshot plan =
     (case snap_ScenarioTemplate snapshot of
        None \<Rightarrow> None
      | Some tpl \<Rightarrow>
          (case ParseSpec (tpl_Spec tpl) of
             Inl _ \<Rightarrow> None
           | Inr spec \<Rightarrow>
               let executors = length (activeExecutorIDs (snap_DigitalEmployeePool snapshot)) in
               if Skeleton spec = [] \<or> executors \<ge> 2 then None
               else map_option (\<lambda>c. newStructuralGapError c (roleCapabilitiesFromSpec spec) executors)
                 (find (\<lambda>c. con_Kind c = ''role_independence'' \<and> length (con_Roles c) \<ge> 2 \<and>
                    ExitCondMet spec (con_When c) (plan_ExitDeliverable plan)) (Constraints spec))))"

definition roleTitleOrKey :: "SpecV2 \<Rightarrow> string \<Rightarrow> string" where
  "roleTitleOrKey spec key =
     (case map_of (rev (map (\<lambda>r. (srole_Key r, srole_Title r)) (Roles spec))) key of
        None \<Rightarrow> key | Some title \<Rightarrow> if TrimSpace title \<noteq> [] then title else key)"

section \<open>Feasibility notes\<close>

definition low_feasibility_message :: "rat \<Rightarrow> PlannedTask \<Rightarrow> string" where
  "low_feasibility_message threshold task =
     byte_string [228, 187, 187, 229, 138, 161, 32] @ task_Key task @ byte_string [32, 233, 128, 137, 232, 167, 146,
       228, 186, 139, 229, 174, 158, 230, 128, 167, 232, 175, 132, 229, 136, 134,
         32] @ Itoa (task_SelectionScore task) @ byte_string [32, 228, 189, 142, 228, 186, 142, 233, 152, 136, 229,
           128, 188, 32] @ Itoa (trunc_rat threshold) @
     (if task_MissingCapabilities task = [] then [] else byte_string [239, 188, 154, 231, 188, 186, 229, 164, 177,
       32] @ Join (task_MissingCapabilities task) (byte_string [227, 128, 129]))"

definition note_low_feasibility :: "rat \<Rightarrow> RouteDecisionPlan \<Rightarrow> PlannedTask \<Rightarrow> RouteDecisionPlan" where
  "note_low_feasibility threshold plan task =
     (if of_int (task_SelectionScore task) \<ge> threshold then plan
      else markPlanRequiresHumanReviewPlatform
             (add_note ''low_feasibility'' (low_feasibility_message threshold task) plan)
             RiskSourcePlatformTemplateGovernance)"

definition appendLowFeasibilityNotes :: "CoordinationSnapshot \<Rightarrow> RouteDecisionPlan \<Rightarrow> RouteDecisionPlan" where
  "appendLowFeasibilityNotes snapshot plan =
     foldl (note_low_feasibility (selectionScoreThreshold (snap_CoordinationPolicy snapshot))) plan (plan_Tasks plan)"

section \<open>Enforcement\<close>

definition roleEmployees :: "SpecSkeletonStep list \<Rightarrow> PlannedTask list \<Rightarrow> string \<Rightarrow> uuid list" where
  "roleEmployees steps tasks role =
     remdups (List.map_filter (\<lambda>s. map_option (\<lambda>i. task_SelectedEmployeeID (tasks ! i)) (stepTask tasks s))
       (filter (\<lambda>s. step_Role s = role) steps))"

text \<open>What the constraint loop reads and does not change.\<close>

record governance =
  gov_snapshot :: CoordinationSnapshot
  gov_template :: ScenarioTemplateSnapshot
  gov_spec :: SpecV2
  gov_steps :: "SpecSkeletonStep list"
  gov_tasks :: "PlannedTask list"

definition gate_message :: "ScenarioTemplateSnapshot \<Rightarrow> string" where
  "gate_message tpl =
     byte_string [229, 143, 145, 229, 184, 131, 228, 187, 187, 229, 138, 161, 229, 183, 178, 229, 188, 186, 229, 136,
       182, 228, 186, 186, 231, 177, 187, 229, 174, 161, 230, 137, 185, 239, 188, 154, 231, 148, 177, 32, 104, 117,
         109, 97, 110, 95, 103, 97, 116, 101, 64] @ tpl_Key tpl @ '' v'' @ Itoa (tpl_Version tpl) @ byte_string [32,
           232, 167, 166, 229, 143, 145]"

definition enforce_constraint ::
  "(uuid list \<Rightarrow> uuid list) \<Rightarrow> governance \<Rightarrow> RouteDecisionPlan \<Rightarrow> SpecConstraint \<Rightarrow>
   governance_error option \<times> RouteDecisionPlan" where
  "enforce_constraint order g plan con =
     (let spec = gov_spec g; snapshot = gov_snapshot g; steps = gov_steps g; tasks = gov_tasks g in
      if \<not> ExitCondMet spec (con_When con) (plan_ExitDeliverable plan) then (None, plan)
      else if con_Kind con = ''role_independence'' then
        (case demandConstraintExempted (snap_DemandConstraintExemptions snapshot) con of
           (True, roles) \<Rightarrow>
             (None, add_note ''exemption''
               (byte_string [231, 186, 166, 230, 157, 159, 32, 114, 111, 108, 101, 95, 105, 110, 100, 101, 112, 101,
                 110, 100, 101, 110, 99, 101, 32, 229, 183, 178, 231, 148, 177, 228, 186, 186, 231, 177, 187, 232,
                   180, 159, 232, 180, 163, 228, 186, 186, 232, 177, 129, 229, 133, 141, 239, 188, 136, 232, 167,
                     146, 232, 137, 178, 239, 188, 154] @ Join roles (byte_string [227, 128,
                       129]) @ byte_string [239, 188, 137]) plan)
         | (False, _) \<Rightarrow>
             (case migrateReviewerRoleToAdversarial con steps tasks (roleByKey spec) plan of
                (True, plan1) \<Rightarrow> (None, plan1)
              | (False, plan1) \<Rightarrow>
                  (enforceRoleIndependence order con (roleEmployees steps tasks) (roleCapabilitiesFromSpec spec)
                     (length (activeExecutorIDs (snap_DigitalEmployeePool snapshot)))
                     (playbookCastByRole (snap_PlaybookCasting snapshot)), plan1)))
      else if con_Kind con = ''stage_required'' then
        (case byName steps (con_Step con) of
           None \<Rightarrow> (Some (StageUnreachable (con_Step con) (plan_ExitDeliverable plan)), plan)
         | Some step \<Rightarrow> (fail_if (stepTask tasks step = None) (StageWithoutTask (con_Step con)), plan))
      else if con_Kind con = ''human_gate'' then
        (case byName steps (con_Target con) of
           None \<Rightarrow> (Some (GateUnreachable (con_Target con) (plan_ExitDeliverable plan)), plan)
         | Some step \<Rightarrow>
             (case stepTask tasks step of
                None \<Rightarrow> (Some (GateWithoutTask (con_Target con)), plan)
              | Some i \<Rightarrow>
                  (None, add_note ''human_gate'' (gate_message (gov_template g))
                    (markTaskRequiresHumanApprovalPlatform plan i RiskSourcePlatformTemplateGovernance))))
      else (None, plan))"

fun enforce_constraints ::
  "(uuid list \<Rightarrow> uuid list) \<Rightarrow> governance \<Rightarrow> RouteDecisionPlan \<Rightarrow> SpecConstraint list \<Rightarrow>
   governance_error option \<times> RouteDecisionPlan" where
  "enforce_constraints order g plan [] = (None, plan)"
| "enforce_constraints order g plan (c # cs) =
     (case enforce_constraint order g plan c of
        (Some err, plan1) \<Rightarrow> (Some err, plan1)
      | (None, plan1) \<Rightarrow> enforce_constraints order g plan1 cs)"

definition annotate_collapse :: "governance \<Rightarrow> RouteDecisionPlan \<Rightarrow> SpecCollapseRule \<Rightarrow> RouteDecisionPlan" where
  "annotate_collapse g plan rule =
     (case rule_Roles rule of
        [a, b] \<Rightarrow>
          (let employees = roleEmployees (gov_steps g) (gov_tasks g) in
           if \<not> list_ex (\<lambda>i. i \<in> set (employees b)) (employees a) then plan
           else add_note ''collapse''
                  (byte_string [232, 167, 146, 232, 137, 178, 230, 138, 152, 229, 143, 160, 239, 188,
                    154] @ roleTitleOrKey (gov_spec g) a @ byte_string [32, 228, 184, 142,
                      32] @ roleTitleOrKey (gov_spec g) b @
                   byte_string [32, 231, 148, 177, 229, 144, 140, 228, 184, 128, 229, 145, 152, 229, 183, 165, 230,
                     137, 191, 230, 139, 133, 239, 188, 140, 229, 183, 178, 232, 135, 170, 229, 138, 168, 230, 160, 135, 230, 179, 168, 229, 190, 133, 228, 186, 186, 229, 183, 165, 229, 164, 141, 230, 160, 184])
                  (markPlanRequiresHumanReviewPlatform plan RiskSourcePlatformTemplateGovernance))
      | _ \<Rightarrow> plan)"

definition govern_skeleton ::
  "(uuid list \<Rightarrow> uuid list) \<Rightarrow> CoordinationSnapshot \<Rightarrow> ScenarioTemplateSnapshot \<Rightarrow> SpecV2 \<Rightarrow> SpecSkeletonStep list \<Rightarrow>
   RouteDecisionPlan \<Rightarrow> governance_error option \<times> RouteDecisionPlan" where
  "govern_skeleton order snapshot tpl spec steps plan =
     (let g = \<lparr>gov_snapshot = snapshot, gov_template = tpl, gov_spec = spec, gov_steps = steps, gov_tasks = plan_Tasks plan\<rparr> in
      case enforce_constraints order g plan (Constraints spec) of
        (Some err, plan1) \<Rightarrow> (Some err, plan1)
      | (None, plan1) \<Rightarrow>
          (case enforceAutonomousStageExitEvidence spec steps (gov_tasks g) plan1 of
             Some err \<Rightarrow> (Some err, plan1)
           | None \<Rightarrow> (None, foldl (annotate_collapse g) plan1 (CollapseRules spec))))"

definition EnforceScenarioTemplateGovernance ::
  "(uuid list \<Rightarrow> uuid list) \<Rightarrow> CoordinationSnapshot \<Rightarrow> RouteDecisionPlan \<Rightarrow> governance_error option \<times> RouteDecisionPlan" where
  "EnforceScenarioTemplateGovernance order snapshot plan =
     (case snap_ScenarioTemplate snapshot of
        None \<Rightarrow>
          (None, appendLowFeasibilityNotes snapshot
            (plan\<lparr>plan_ExitDeliverable := [], plan_AvailableExits := [], plan_ConstraintNotes := [], plan_TemplateVersion := 0\<rparr>))
      | Some tpl \<Rightarrow>
          (let plan1 = appendLowFeasibilityNotes snapshot plan in
           case ParseSpec (tpl_Spec tpl) of
             Inl err \<Rightarrow> (Some (GovSpecUnparsable err), plan1)
           | Inr spec \<Rightarrow>
               let plan2 = plan1\<lparr>plan_TemplateVersion := tpl_Version tpl,
                     plan_AvailableExits := map (\<lambda>e. \<lparr>opt_Deliverable = exit_Deliverable e, opt_Label = exit_Label e\<rparr>) (Exits spec)\<rparr>
               in if Skeleton spec = [] then (None, plan2)
                  else if Exits spec \<noteq> [] then
                    (case PruneSkeletonForExit spec (plan_ExitDeliverable plan2) of
                       Inl err \<Rightarrow> (Some (GovInvalidExit (plan_ExitDeliverable plan2) err), plan2)
                     | Inr pruned \<Rightarrow> govern_skeleton order snapshot tpl spec pruned plan2)
                  else govern_skeleton order snapshot tpl spec (Skeleton spec) plan2))"

section \<open>The adversarial migration\<close>

lemma reviewed_for_review_step:
  assumes "reviewed_for steps roles a b = Some d"
  shows "skeletonHasDedicatedReviewStep steps roles"
proof -
  have cap: "roleHasReviewCapability (roles a)" using assms by (auto simp: reviewed_for_def split: if_splits)
  have "filter (\<lambda>s. step_Role s = a) steps \<noteq> []"
  proof
    assume "filter (\<lambda>s. step_Role s = a) steps = []"
    with assms show False by (simp add: reviewed_for_def split: if_splits)
  qed
  then obtain s where "s \<in> set steps" "step_Role s = a" by (auto simp: filter_empty_conv)
  with cap show ?thesis by (auto simp: skeletonHasDedicatedReviewStep_def list_ex_iff)
qed

lemma reviewedStep_review_step:
  "reviewedStepForIndependence con steps roles = Some d \<Longrightarrow> skeletonHasDedicatedReviewStep steps roles"
  by (auto simp: reviewedStepForIndependence_def reviewed_for_review_step split: list.splits option.splits)

lemma migrate_never:
  "\<exists>ns. migrateReviewerRoleToAdversarial con steps tasks roles plan =
     (False, plan\<lparr>plan_ConstraintNotes := plan_ConstraintNotes plan @ ns\<rparr>)"
proof (cases "reviewedStepForIndependence con steps roles")
  case None
  then show ?thesis by (intro exI [of _ "[]"]) (simp add: migrateReviewerRoleToAdversarial_def)
next
  case (Some d)
  note r = reviewedStep_review_step [OF Some]
  show ?thesis
  proof (cases "stepTask tasks d")
    case None
    with Some show ?thesis by (intro exI [of _ "[]"]) (simp add: migrateReviewerRoleToAdversarial_def)
  next
    case (Some i)
    with r \<open>reviewedStepForIndependence con steps roles = Some d\<close> show ?thesis
      by (intro exI [of _ "[\<lparr>cn_Kind = ''review_steps_own_four_eyes'', cn_Message = four_eyes_message (Step d)\<rparr>]"])
        (simp add: migrateReviewerRoleToAdversarial_def add_note_def Let_def)
  qed
qed

text \<open>
  The replacement of an independent reviewer by an adversarial review never happens.
  Whatever the constraint, the skeleton and the plan, the migration reports that it has not migrated
  and changes no acceptance criterion: the only way to identify a reviewed step is a step whose role
  has a review capability, and exactly then the migration declines because the skeleton has a review
  step of its own.
\<close>

theorem adversarial_migration_never_fires:
  "fst (migrateReviewerRoleToAdversarial con steps tasks roles plan) = False \<and>
   plan_Criteria (snd (migrateReviewerRoleToAdversarial con steps tasks roles plan)) = plan_Criteria plan"
  using migrate_never [of con steps tasks roles plan] by auto

section \<open>How governance changes a plan\<close>

text \<open>Keys and the exit stay; approval and review flags and governance attributions are never taken back.\<close>

definition gov_source :: "RouteDecisionPlan \<Rightarrow> string \<Rightarrow> string \<Rightarrow> bool" where
  "gov_source plan kind key \<longleftrightarrow> riskAttributionSource plan kind key = RiskSourcePlatformTemplateGovernance"

definition evolves :: "RouteDecisionPlan \<Rightarrow> RouteDecisionPlan \<Rightarrow> bool" where
  "evolves p q \<longleftrightarrow>
     plan_ExitDeliverable q = plan_ExitDeliverable p \<and> map task_Key (plan_Tasks q) = map task_Key (plan_Tasks p) \<and>
     (\<forall>i < length (plan_Tasks p). task_RequiresHumanApproval (plan_Tasks p ! i) \<longrightarrow> task_RequiresHumanApproval (plan_Tasks q ! i)) \<and>
     (plan_RequiresHumanReview p \<longrightarrow> plan_RequiresHumanReview q) \<and>
     (\<forall>k t. gov_source p k t \<longrightarrow> gov_source q k t)"

lemma evolves_refl [simp]: "evolves p p"
  by (simp add: evolves_def)

lemma evolves_length: "evolves p q \<Longrightarrow> length (plan_Tasks q) = length (plan_Tasks p)"
  unfolding evolves_def by (metis length_map)

lemma evolves_trans [trans]:
  assumes "evolves p q" "evolves q r"
  shows "evolves p r"
proof -
  have "length (plan_Tasks q) = length (plan_Tasks p)" using assms(1) by (rule evolves_length)
  with assms show ?thesis unfolding evolves_def by simp
qed

lemma evolves_note [simp]: "evolves p (add_note k m q) = evolves p q"
  by (simp add: evolves_def add_note_def gov_source_def riskAttributionSource_def)

lemma evolves_notes [simp]: "evolves p (p\<lparr>plan_ConstraintNotes := ns\<rparr>)"
  by (simp add: evolves_def gov_source_def riskAttributionSource_def)

lemma markPlan_exit [simp]: "plan_ExitDeliverable (markPlanRequiresHumanReviewPlatform p s) = plan_ExitDeliverable p"
  by (simp add: markPlanRequiresHumanReviewPlatform_def setRiskAttribution_def)

lemma markTask_exit [simp]: "plan_ExitDeliverable (markTaskRequiresHumanApprovalPlatform p i s) = plan_ExitDeliverable p"
  by (simp add: markTaskRequiresHumanApprovalPlatform_def setRiskAttribution_def Let_def)

lemma evolves_markPlan: "evolves p (markPlanRequiresHumanReviewPlatform p RiskSourcePlatformTemplateGovernance)"
  by (simp add: evolves_def gov_source_def mark_plan_source)

lemma evolves_markTask: "evolves p (markTaskRequiresHumanApprovalPlatform p i RiskSourcePlatformTemplateGovernance)"
proof (cases "i < length (plan_Tasks p)")
  case True
  then have "map task_Key ((plan_Tasks p)[i := (plan_Tasks p ! i)\<lparr>task_RequiresHumanApproval := True\<rparr>]) = map task_Key (plan_Tasks p)"
    by (simp add: map_update) (metis list_update_id nth_map)
  with True show ?thesis by (auto simp: evolves_def gov_source_def mark_task_source nth_list_update)
qed (simp add: markTaskRequiresHumanApprovalPlatform_def)

lemma evolves_constraint: "evolves plan (snd (enforce_constraint order g plan c))"
proof -
  obtain ns where m: "migrateReviewerRoleToAdversarial c (gov_steps g) (gov_tasks g) (roleByKey (gov_spec g)) plan =
      (False, plan\<lparr>plan_ConstraintNotes := plan_ConstraintNotes plan @ ns\<rparr>)" using migrate_never by blast
  show ?thesis
    by (simp add: enforce_constraint_def Let_def m evolves_markTask split: prod.split option.split bool.split)
qed

lemma evolves_constraints: "evolves plan (snd (enforce_constraints order g plan cs))"
proof (induction cs arbitrary: plan)
  case (Cons c cs)
  obtain e p1 where c: "enforce_constraint order g plan c = (e, p1)" by (cases "enforce_constraint order g plan c")
  then have "evolves plan p1" using evolves_constraint [of plan order g c] by simp
  then show ?case using Cons.IH [of p1] c by (cases e) (auto intro: evolves_trans)
qed simp

lemma foldl_evolves:
  assumes "\<And>p x. evolves p (f p x)"
  shows "evolves p (foldl f p xs)"
proof (induction xs arbitrary: p)
  case (Cons x xs)
  have "evolves p (f p x)" by (rule assms)
  also have "evolves (f p x) (foldl f (f p x) xs)" by (rule Cons.IH)
  finally show ?case by simp
qed simp

lemma evolves_collapse: "evolves p (annotate_collapse g p rule)"
  by (auto simp: annotate_collapse_def Let_def evolves_markPlan split: list.split)

lemma evolves_low: "evolves p (note_low_feasibility th p t)"
proof -
  have "evolves p (add_note k m p)" for k m by simp
  then show ?thesis
    unfolding note_low_feasibility_def using evolves_trans [OF _ evolves_markPlan] by auto
qed

text \<open>Every constraint of an accepted plan has been passed in some state of the same plan.\<close>

lemma constraints_passed:
  assumes "enforce_constraints order g plan cs = (None, plan')" "c \<in> set cs"
  shows "\<exists>p q. enforce_constraint order g p c = (None, q) \<and> evolves plan p \<and> evolves q plan'"
  using assms
proof (induction cs arbitrary: plan)
  case (Cons d cs)
  obtain p1 where d: "enforce_constraint order g plan d = (None, p1)" "enforce_constraints order g p1 cs = (None, plan')"
    using Cons.prems(1) by (auto split: prod.splits option.splits)
  have e1: "evolves plan p1" using evolves_constraint [of plan order g d] d(1) by simp
  have e2: "evolves p1 plan'" using evolves_constraints [of p1 order g cs] d(2) by simp
  show ?case
  proof (cases "c = d")
    case True
    with d e2 show ?thesis using evolves_refl by blast
  next
    case False
    with Cons.prems(2) have "c \<in> set cs" by simp
    with Cons.IH [OF d(2)] obtain p q where "enforce_constraint order g p c = (None, q)" "evolves p1 p" "evolves q plan'" by blast
    with evolves_trans [OF e1] show ?thesis by blast
  qed
qed simp

section \<open>What an accepted plan satisfies\<close>

definition governed_steps :: "SpecV2 \<Rightarrow> string \<Rightarrow> SpecSkeletonStep list option" where
  "governed_steps spec ex =
     (if Exits spec \<noteq> [] then (case PruneSkeletonForExit spec ex of Inl _ \<Rightarrow> None | Inr pruned \<Rightarrow> Some pruned)
      else Some (Skeleton spec))"

lemma appendLow_fields [simp]: "plan_Tasks (appendLowFeasibilityNotes snapshot plan) = plan_Tasks plan"
proof -
  have "plan_Tasks (foldl (note_low_feasibility th) p ts) = plan_Tasks p" for th p ts
    by (induction ts arbitrary: p) (auto simp: note_low_feasibility_def add_note_def)
  then show ?thesis by (simp add: appendLowFeasibilityNotes_def)
qed

lemma evolves_append: "evolves p (appendLowFeasibilityNotes snapshot p)"
  unfolding appendLowFeasibilityNotes_def by (rule foldl_evolves) (rule evolves_low)

lemma governance_accepts:
  assumes "EnforceScenarioTemplateGovernance order snapshot plan = (None, plan')"
    and "snap_ScenarioTemplate snapshot = Some tpl" "ParseSpec (tpl_Spec tpl) = Inr spec" "Skeleton spec \<noteq> []"
  obtains steps plan2 plan3 where
    "governed_steps spec (plan_ExitDeliverable plan) = Some steps" "plan_Tasks plan2 = plan_Tasks plan"
    "plan_ExitDeliverable plan2 = plan_ExitDeliverable plan"
    "evolves (appendLowFeasibilityNotes snapshot plan) plan2"
    "enforce_constraints order \<lparr>gov_snapshot = snapshot, gov_template = tpl, gov_spec = spec, gov_steps = steps,
       gov_tasks = plan_Tasks plan\<rparr> plan2 (Constraints spec) = (None, plan3)"
    "enforceAutonomousStageExitEvidence spec steps (plan_Tasks plan) plan3 = None" "evolves plan3 plan'"
    "plan_Criteria plan' = plan_Criteria plan3"
proof -
  let ?plan1 = "appendLowFeasibilityNotes snapshot plan"
  define plan2 where "plan2 = ?plan1\<lparr>plan_TemplateVersion := tpl_Version tpl,
    plan_AvailableExits := map (\<lambda>e. \<lparr>opt_Deliverable = exit_Deliverable e, opt_Label = exit_Label e\<rparr>) (Exits spec)\<rparr>"
  have ex: "plan_ExitDeliverable ?plan1 = plan_ExitDeliverable plan" using evolves_append [of plan snapshot] by (simp add: evolves_def)
  have p2: "plan_Tasks plan2 = plan_Tasks plan" "plan_ExitDeliverable plan2 = plan_ExitDeliverable plan" "evolves ?plan1 plan2"
    using ex by (simp_all add: plan2_def evolves_def gov_source_def riskAttributionSource_def)
  have "\<exists>steps. governed_steps spec (plan_ExitDeliverable plan) = Some steps \<and>
      govern_skeleton order snapshot tpl spec steps plan2 = (None, plan')"
    using assms p2(2)
    by (auto simp: EnforceScenarioTemplateGovernance_def Let_def plan2_def governed_steps_def
        split: if_splits sum.splits)
  then obtain steps where st: "governed_steps spec (plan_ExitDeliverable plan) = Some steps"
    "govern_skeleton order snapshot tpl spec steps plan2 = (None, plan')" by blast
  let ?g = "\<lparr>gov_snapshot = snapshot, gov_template = tpl, gov_spec = spec, gov_steps = steps, gov_tasks = plan_Tasks plan\<rparr>"
  obtain plan3 where p3: "enforce_constraints order ?g plan2 (Constraints spec) = (None, plan3)"
    "enforceAutonomousStageExitEvidence spec steps (plan_Tasks plan) plan3 = None"
    "plan' = foldl (annotate_collapse ?g) plan3 (CollapseRules spec)"
    using st(2) p2(1) by (auto simp: govern_skeleton_def Let_def split: prod.splits option.splits)
  have "evolves plan3 plan'" unfolding p3(3) by (rule foldl_evolves) (rule evolves_collapse)
  moreover have "plan_Criteria (foldl (annotate_collapse ?g) p rules) = plan_Criteria p" for p rules
    by (induction rules arbitrary: p)
      (auto simp: annotate_collapse_def add_note_def markPlanRequiresHumanReviewPlatform_def Let_def split: list.split)
  ultimately show ?thesis using that [OF st(1) p2 p3(1,2)] p3(3) by simp
qed

lemma roleEmployees_iff:
  "e \<in> set (roleEmployees steps tasks role) \<longleftrightarrow>
     (\<exists>s \<in> set steps. \<exists>i. step_Role s = role \<and> stepTask tasks s = Some i \<and> e = task_SelectedEmployeeID (tasks ! i))"
  by (force simp: roleEmployees_def map_filter_def)

lemma independence_passed:
  assumes "enforceRoleIndependence order con emps caps n cast = None" "\<forall>xs. set (order xs) = set xs"
    and "(a, b) \<in> set (role_pairs (con_Roles con))"
  shows "set (emps a) \<inter> set (emps b) = {}"
proof -
  have "check_pair order con emps caps n cast (a, b) = None"
    using assms(1,3) by (simp add: enforceRoleIndependence_def first_error_None)
  then have "find (\<lambda>i. i \<in> set (emps b)) (order (emps a)) = None"
    by (simp add: check_pair_def split: option.splits)
  with assms(2) show ?thesis by (auto simp: find_None_iff)
qed

lemma role_independence_passed:
  assumes "enforce_constraint order g p c = (None, q)" "con_Kind c = ''role_independence''"
    and "ExitCondMet (gov_spec g) (con_When c) (plan_ExitDeliverable p)"
    and "\<not> fst (demandConstraintExempted (snap_DemandConstraintExemptions (gov_snapshot g)) c)"
  shows "\<exists>caps n cast. enforceRoleIndependence order c (roleEmployees (gov_steps g) (gov_tasks g)) caps n cast = None"
proof -
  obtain ns where m: "migrateReviewerRoleToAdversarial c (gov_steps g) (gov_tasks g) (roleByKey (gov_spec g)) p =
      (False, p\<lparr>plan_ConstraintNotes := plan_ConstraintNotes p @ ns\<rparr>)" using migrate_never by blast
  obtain b rs where "demandConstraintExempted (snap_DemandConstraintExemptions (gov_snapshot g)) c = (b, rs)"
    by (cases "demandConstraintExempted (snap_DemandConstraintExemptions (gov_snapshot g)) c")
  with assms m show ?thesis by (cases b) (auto simp: enforce_constraint_def Let_def)
qed

text \<open>
  Claim C19: if governance accepts a plan, then for every role independence constraint that is in force
  for the chosen exit and not exempted, tasks of steps of two different roles of the constraint are
  assigned to different employees, whatever order the runtime enumerates employees in.
\<close>

theorem separation_of_duties:
  assumes "EnforceScenarioTemplateGovernance order snapshot plan = (None, plan')" "\<forall>xs. set (order xs) = set xs"
    and "snap_ScenarioTemplate snapshot = Some tpl" "ParseSpec (tpl_Spec tpl) = Inr spec" "Skeleton spec \<noteq> []"
    and "governed_steps spec (plan_ExitDeliverable plan) = Some steps"
    and "c \<in> set (Constraints spec)" "con_Kind c = ''role_independence''"
    and "ExitCondMet spec (con_When c) (plan_ExitDeliverable plan)"
    and "\<not> fst (demandConstraintExempted (snap_DemandConstraintExemptions snapshot) c)"
    and "(a, b) \<in> set (role_pairs (con_Roles c))"
    and "s \<in> set steps" "step_Role s = a" "stepTask (plan_Tasks plan) s = Some i"
    and "t \<in> set steps" "step_Role t = b" "stepTask (plan_Tasks plan) t = Some j"
  shows "task_SelectedEmployeeID (plan_Tasks plan ! i) \<noteq> task_SelectedEmployeeID (plan_Tasks plan ! j)"
proof -
  obtain plan2 plan3 where g: "plan_ExitDeliverable plan2 = plan_ExitDeliverable plan"
    "enforce_constraints order \<lparr>gov_snapshot = snapshot, gov_template = tpl, gov_spec = spec, gov_steps = steps,
       gov_tasks = plan_Tasks plan\<rparr> plan2 (Constraints spec) = (None, plan3)"
    using governance_accepts [OF assms(1,3-5)] assms(6) by (metis option.inject)
  let ?g = "\<lparr>gov_snapshot = snapshot, gov_template = tpl, gov_spec = spec, gov_steps = steps, gov_tasks = plan_Tasks plan\<rparr>"
  obtain p q where p: "enforce_constraint order ?g p c = (None, q)" "evolves plan2 p"
    using constraints_passed [OF g(2) assms(7)] by blast
  then have "ExitCondMet (gov_spec ?g) (con_When c) (plan_ExitDeliverable p)" using assms(9) g(1) by (simp add: evolves_def)
  from role_independence_passed [OF p(1) assms(8) this] assms(10) obtain caps n cast where
    "enforceRoleIndependence order c (roleEmployees steps (plan_Tasks plan)) caps n cast = None" by auto
  from independence_passed [OF this assms(2,11)] assms(12-17) show ?thesis
    unfolding disjoint_iff roleEmployees_iff by blast
qed

lemma gate_passed:
  assumes "enforce_constraint order g p c = (None, q)" "con_Kind c = ''human_gate''"
    and "ExitCondMet (gov_spec g) (con_When c) (plan_ExitDeliverable p)"
  obtains step i where "byName (gov_steps g) (con_Target c) = Some step" "stepTask (gov_tasks g) step = Some i"
    "q = add_note ''human_gate'' (gate_message (gov_template g))
           (markTaskRequiresHumanApprovalPlatform p i RiskSourcePlatformTemplateGovernance)"
  using assms by (auto simp: enforce_constraint_def Let_def split: option.splits)

lemma stepTask_bound:
  assumes "stepTask tasks step = Some i"
  shows "i < length tasks"
proof -
  obtain key where "taskByKey tasks key = Some i"
    using assms by (auto simp: stepTask_def split: list.splits option.splits)
  then have "(key, i) \<in> set (map (\<lambda>(i, t). (task_Key t, i)) (enumerate 0 tasks))"
    unfolding taskByKey_def by (metis map_of_SomeD set_rev)
  then show ?thesis by (auto simp: in_set_enumerate_eq)
qed

lemma gate_flag_survives:
  assumes "evolves p q" "i < length (plan_Tasks p)" "task_RequiresHumanApproval (plan_Tasks p ! i)"
    and "gov_source p RiskSignalTaskRequiresHumanApproval (task_Key (plan_Tasks p ! i))"
  shows "task_RequiresHumanApproval (plan_Tasks (stripPlannerOnlyRiskFlags q) ! i)"
proof -
  have len: "i < length (plan_Tasks q)" using evolves_length [OF assms(1)] assms(2) by simp
  have "map task_Key (plan_Tasks q) ! i = map task_Key (plan_Tasks p) ! i" using assms(1) by (simp add: evolves_def)
  then have "task_Key (plan_Tasks q ! i) = task_Key (plan_Tasks p ! i)" using len assms(2) by simp
  with assms(1,3,4) assms(2) len show ?thesis
    by (simp add: evolves_def gov_source_def stripPlannerOnlyRiskFlags_def planner_only_def Let_def)
qed

text \<open>
  If governance accepts a plan, then for every human gate in force for the chosen exit the
  target step has a task, and that task demands human approval even after the planner's own flags
  have been stripped.
\<close>

theorem human_gates_survive:
  assumes "EnforceScenarioTemplateGovernance order snapshot plan = (None, plan')"
    and "snap_ScenarioTemplate snapshot = Some tpl" "ParseSpec (tpl_Spec tpl) = Inr spec" "Skeleton spec \<noteq> []"
    and "c \<in> set (Constraints spec)" "con_Kind c = ''human_gate''"
    and "ExitCondMet spec (con_When c) (plan_ExitDeliverable plan)"
  shows "\<exists>steps step i. governed_steps spec (plan_ExitDeliverable plan) = Some steps \<and>
    byName steps (con_Target c) = Some step \<and> stepTask (plan_Tasks plan) step = Some i \<and>
    task_RequiresHumanApproval (plan_Tasks (stripPlannerOnlyRiskFlags plan') ! i)"
proof -
  obtain steps plan2 plan3 where g: "governed_steps spec (plan_ExitDeliverable plan) = Some steps"
    "plan_Tasks plan2 = plan_Tasks plan" "plan_ExitDeliverable plan2 = plan_ExitDeliverable plan"
    "enforce_constraints order \<lparr>gov_snapshot = snapshot, gov_template = tpl, gov_spec = spec, gov_steps = steps,
       gov_tasks = plan_Tasks plan\<rparr> plan2 (Constraints spec) = (None, plan3)" "evolves plan3 plan'"
    using governance_accepts [OF assms(1-4)] by metis
  let ?g = "\<lparr>gov_snapshot = snapshot, gov_template = tpl, gov_spec = spec, gov_steps = steps, gov_tasks = plan_Tasks plan\<rparr>"
  obtain p q where p: "enforce_constraint order ?g p c = (None, q)" "evolves plan2 p" "evolves q plan3"
    using constraints_passed [OF g(4) assms(5)] by blast
  have cond: "ExitCondMet (gov_spec ?g) (con_When c) (plan_ExitDeliverable p)"
    using p(2) assms(7) g(3) by (simp add: evolves_def)
  obtain step i where si: "byName steps (con_Target c) = Some step" "stepTask (plan_Tasks plan) step = Some i"
    "q = add_note ''human_gate'' (gate_message tpl)
           (markTaskRequiresHumanApprovalPlatform p i RiskSourcePlatformTemplateGovernance)"
    using gate_passed [OF p(1) assms(6) cond] by auto
  have i: "i < length (plan_Tasks p)"
    using stepTask_bound [OF si(2)] evolves_length [OF p(2)] g(2) by simp
  have q: "i < length (plan_Tasks q)" "task_RequiresHumanApproval (plan_Tasks q ! i)"
    "gov_source q RiskSignalTaskRequiresHumanApproval (task_Key (plan_Tasks q ! i))"
    using i unfolding si(3) add_note_def gov_source_def
    by (simp_all add: mark_task_source riskAttributionSource_def [of "_\<lparr>plan_ConstraintNotes := _\<rparr>"]
        riskAttributionSource_def [symmetric])
  have "evolves q plan'" using evolves_trans [OF p(3) g(5)] .
  with gate_flag_survives [OF _ q] si(1,2) g(1) show ?thesis by blast
qed

lemma low_feasibility_marks:
  assumes "t \<in> set ts" "of_int (task_SelectionScore t) < th"
  shows "plan_RequiresHumanReview (foldl (note_low_feasibility th) p ts) \<and>
    gov_source (foldl (note_low_feasibility th) p ts) RiskSignalPlanRequiresHumanReview []"
proof -
  obtain as bs where ts: "ts = as @ t # bs" using assms(1) by (meson split_list)
  let ?p = "foldl (note_low_feasibility th) p as"
  have "plan_RequiresHumanReview (note_low_feasibility th ?p t) \<and>
      gov_source (note_low_feasibility th ?p t) RiskSignalPlanRequiresHumanReview []"
    using assms(2) by (simp add: note_low_feasibility_def gov_source_def mark_plan_source)
  moreover have "evolves (note_low_feasibility th ?p t) (foldl (note_low_feasibility th) (note_low_feasibility th ?p t) bs)"
    by (rule foldl_evolves) (rule evolves_low)
  ultimately show ?thesis unfolding ts by (auto simp: evolves_def)
qed

lemma governance_evolves:
  assumes "EnforceScenarioTemplateGovernance order snapshot plan = (None, plan')"
  obtains p where "plan_Tasks p = plan_Tasks plan" "evolves (appendLowFeasibilityNotes snapshot p) plan'"
proof (cases "snap_ScenarioTemplate snapshot")
  case None
  let ?p = "plan\<lparr>plan_ExitDeliverable := [], plan_AvailableExits := [], plan_ConstraintNotes := [], plan_TemplateVersion := 0\<rparr>"
  show ?thesis
  proof (rule that [of ?p])
    show "evolves (appendLowFeasibilityNotes snapshot ?p) plan'"
      using assms None by (auto simp: EnforceScenarioTemplateGovernance_def)
  qed simp
next
  case (Some tpl)
  obtain spec where spec: "ParseSpec (tpl_Spec tpl) = Inr spec"
    using assms Some by (auto simp: EnforceScenarioTemplateGovernance_def Let_def split: sum.splits)
  show ?thesis
  proof (cases "Skeleton spec = []")
    case True
    have "plan' = (appendLowFeasibilityNotes snapshot plan)\<lparr>plan_TemplateVersion := tpl_Version tpl,
        plan_AvailableExits := map (\<lambda>e. \<lparr>opt_Deliverable = exit_Deliverable e, opt_Label = exit_Label e\<rparr>) (Exits spec)\<rparr>"
      using assms Some spec True by (simp add: EnforceScenarioTemplateGovernance_def Let_def)
    then have "evolves (appendLowFeasibilityNotes snapshot plan) plan'"
      by (simp add: evolves_def gov_source_def riskAttributionSource_def)
    then show ?thesis by (rule that [OF refl])
  next
    case False
    show ?thesis
    proof (rule governance_accepts [OF assms Some spec False])
      fix steps plan2 plan3
      assume e: "evolves (appendLowFeasibilityNotes snapshot plan) plan2" "evolves plan3 plan'"
        and c: "enforce_constraints order \<lparr>gov_snapshot = snapshot, gov_template = tpl, gov_spec = spec, gov_steps = steps,
          gov_tasks = plan_Tasks plan\<rparr> plan2 (Constraints spec) = (None, plan3)"
      have "evolves plan2 plan3" using evolves_constraints [of plan2 order] c by (metis snd_conv)
      with e show ?thesis using that [OF refl] evolves_trans by blast
    qed
  qed
qed

text \<open>
  Bound to a template or not, if governance accepts a plan in which some task's computed
  score is below the project's threshold, the plan demands human review even after the planner's own
  flags have been stripped.
\<close>

theorem weak_assignments_reach_a_human:
  assumes "EnforceScenarioTemplateGovernance order snapshot plan = (None, plan')" "t \<in> set (plan_Tasks plan)"
    and "of_int (task_SelectionScore t) < selectionScoreThreshold (snap_CoordinationPolicy snapshot)"
  shows "plan_RequiresHumanReview (stripPlannerOnlyRiskFlags plan')"
proof -
  obtain p where p: "plan_Tasks p = plan_Tasks plan" "evolves (appendLowFeasibilityNotes snapshot p) plan'"
    by (rule governance_evolves [OF assms(1)])
  have "plan_RequiresHumanReview (appendLowFeasibilityNotes snapshot p) \<and>
      gov_source (appendLowFeasibilityNotes snapshot p) RiskSignalPlanRequiresHumanReview []"
    unfolding appendLowFeasibilityNotes_def using low_feasibility_marks assms(2,3) p(1) by simp
  with p(2) show ?thesis
    by (auto simp: evolves_def gov_source_def stripPlannerOnlyRiskFlags_def planner_only_def Let_def)
qed

lemma roleSetsEqual_iff: "roleSetsEqual a b \<longleftrightarrow> mset a = mset b"
proof -
  have "sort a = sort b \<longleftrightarrow> mset a = mset b" by (metis mset_sort properties_for_sort sorted_sort)
  moreover have "mset a = mset b \<Longrightarrow> length a = length b" by (rule mset_eq_length)
  ultimately show ?thesis by (auto simp: roleSetsEqual_def)
qed

section \<open>Examples\<close>

definition example_governed_document :: gmap where
  "example_governed_document =
     [(''spec_version'', GNum 3 ''3''),
      (''roles'', GList [GMap [(''key'', GStr ''dev'')], GMap [(''key'', GStr ''ops'')]]),
      (''skeleton'', GList [
         GMap [(''step'', GStr ''build''), (''role'', GStr ''dev''), (''produces_defaults'', GList [GMap [(''name'', GStr ''binary'')]])],
         GMap [(''step'', GStr ''release''), (''role'', GStr ''ops''), (''depends_on'', GList [GStr ''build'']),
               (''produces_defaults'', GList [GMap [(''name'', GStr ''notes'')]])]]),
      (''constraints'', GList [
         GMap [(''kind'', GStr ''role_independence''), (''roles'', GList [GStr ''dev'', GStr ''ops''])],
         GMap [(''kind'', GStr ''human_gate''), (''target'', GStr ''release'')]])]"

definition example_governed_spec :: SpecV2 where
  "example_governed_spec = zero_spec\<lparr>SpecVersion := 3,
     Roles := [\<lparr>srole_Key = ''dev'', srole_Title = [], srole_RequiredCapabilities = []\<rparr>,
               \<lparr>srole_Key = ''ops'', srole_Title = [], srole_RequiredCapabilities = []\<rparr>],
     Skeleton := [example_step ''build'' ''dev'' [] ''binary'', example_step ''release'' ''ops'' [''build''] ''notes''],
     Constraints := [
       \<lparr>con_Kind = ''role_independence'', con_Roles = [''dev'', ''ops''], con_Step = [], con_Target = [], con_When = \<lparr>ExitAtOrBeyond = []\<rparr>\<rparr>,
       \<lparr>con_Kind = ''human_gate'', con_Roles = [], con_Step = [], con_Target = ''release'', con_When = \<lparr>ExitAtOrBeyond = []\<rparr>\<rparr>]\<rparr>"

lemma example_governed_parses: "ParseSpec example_governed_document = Inr example_governed_spec"
  by code_simp

definition example_governed_plan :: RouteDecisionPlan where
  "example_governed_plan = example_plan
     [example_task ''build'' [''binary''] [], (example_task ''release'' [''notes''] [''build''])\<lparr>task_SelectedEmployeeID := 2\<rparr>] [] []"

definition example_governed_snapshot :: CoordinationSnapshot where
  "example_governed_snapshot = example_snapshot (Some (example_template_snapshot example_governed_document)) []"

definition example_governed_result :: RouteDecisionPlan where
  "example_governed_result = snd (EnforceScenarioTemplateGovernance (\<lambda>xs. xs) example_governed_snapshot example_governed_plan)"

lemma example_governance:
  "EnforceScenarioTemplateGovernance (\<lambda>xs. xs) example_governed_snapshot example_governed_plan = (None, example_governed_result)"
proof -
  have "fst (EnforceScenarioTemplateGovernance (\<lambda>xs. xs) example_governed_snapshot example_governed_plan) = None" by code_simp
  then show ?thesis by (simp add: example_governed_result_def prod_eq_iff)
qed

lemma example_governed_facts:
  "snap_ScenarioTemplate example_governed_snapshot = Some (example_template_snapshot example_governed_document)"
  "ParseSpec (tpl_Spec (example_template_snapshot example_governed_document)) = Inr example_governed_spec"
  "Skeleton example_governed_spec \<noteq> []"
  by (simp_all add: example_governed_snapshot_def example_snapshot_def example_template_snapshot_def example_governed_parses)
    code_simp

theorem separation_of_duties_witness:
  "task_SelectedEmployeeID (plan_Tasks example_governed_plan ! 0) \<noteq> task_SelectedEmployeeID (plan_Tasks example_governed_plan ! 1)"
proof -
  let ?steps = "Skeleton example_governed_spec" and ?c = "hd (Constraints example_governed_spec)"
  have "governed_steps example_governed_spec (plan_ExitDeliverable example_governed_plan) = Some ?steps"
    "?c \<in> set (Constraints example_governed_spec)" "con_Kind ?c = ''role_independence''"
    "ExitCondMet example_governed_spec (con_When ?c) (plan_ExitDeliverable example_governed_plan)"
    "\<not> fst (demandConstraintExempted (snap_DemandConstraintExemptions example_governed_snapshot) ?c)"
    "(''dev'', ''ops'') \<in> set (role_pairs (con_Roles ?c))"
    "?steps ! 0 \<in> set ?steps" "step_Role (?steps ! 0) = ''dev''" "stepTask (plan_Tasks example_governed_plan) (?steps ! 0) = Some 0"
    "?steps ! 1 \<in> set ?steps" "step_Role (?steps ! 1) = ''ops''" "stepTask (plan_Tasks example_governed_plan) (?steps ! 1) = Some 1"
    by code_simp+
  from separation_of_duties [OF example_governance _ example_governed_facts this] show ?thesis by simp
qed

theorem human_gates_survive_witness:
  "\<exists>step i. byName (Skeleton example_governed_spec) ''release'' = Some step \<and>
     stepTask (plan_Tasks example_governed_plan) step = Some i \<and>
     task_RequiresHumanApproval (plan_Tasks (stripPlannerOnlyRiskFlags example_governed_result) ! i)"
proof -
  let ?c = "Constraints example_governed_spec ! 1"
  have "?c \<in> set (Constraints example_governed_spec)" "con_Kind ?c = ''human_gate''"
    "ExitCondMet example_governed_spec (con_When ?c) (plan_ExitDeliverable example_governed_plan)" by code_simp+
  note * = human_gates_survive [OF example_governance example_governed_facts this]
  have "con_Target ?c = ''release''"
    "governed_steps example_governed_spec (plan_ExitDeliverable example_governed_plan) = Some (Skeleton example_governed_spec)"
    by code_simp+
  with * show ?thesis by auto
qed

theorem weak_assignments_reach_a_human_witness:
  "plan_RequiresHumanReview (stripPlannerOnlyRiskFlags example_governed_result)"
proof (rule weak_assignments_reach_a_human [OF example_governance])
  show "hd (plan_Tasks example_governed_plan) \<in> set (plan_Tasks example_governed_plan)" by code_simp
  show "of_int (task_SelectionScore (hd (plan_Tasks example_governed_plan))) <
      selectionScoreThreshold (snap_CoordinationPolicy example_governed_snapshot)" by code_simp
qed
end
