(* ===== verification/Plan_Assignment.thy ===== *)
theory Plan_Assignment
  imports Template_Governance "HOL-Library.AList"
begin

text \<open>
  Who does a planned task and what it needs: the project's casting
  (\<^verbatim>\<open>workflow/projectcoordination/playbook_casting.go\<close>), the roles of tasks beyond the skeleton
  (\<^verbatim>\<open>extra_task_roles.go\<close>) and the defaults of a task's kind (\<^verbatim>\<open>task_type_defaults.go\<close>). Tasks held by
  pointer are positions in the plan's task list.
\<close>

section \<open>Casting\<close>

definition chosen_steps :: "SpecV2 \<Rightarrow> RouteDecisionPlan \<Rightarrow> SpecSkeletonStep list" where
  "chosen_steps spec plan =
     (if Exits spec \<noteq> [] \<and> TrimSpace (plan_ExitDeliverable plan) \<noteq> [] then
        (case PruneSkeletonForExit spec (plan_ExitDeliverable plan) of Inl _ \<Rightarrow> Skeleton spec | Inr pruned \<Rightarrow> pruned)
      else Skeleton spec)"

definition cast_roles :: "PlaybookCastingAssignment list \<Rightarrow> string list" where
  "cast_roles casts =
     map (\<lambda>c. TrimSpace (cast_RoleKey c))
       (filter (\<lambda>c. TrimSpace (cast_RoleKey c) \<noteq> [] \<and> cast_DigitalEmployeeID c \<noteq> uuid_Nil) casts)"

definition fully_cast :: "SpecV2 \<Rightarrow> string list \<Rightarrow> SpecExit \<Rightarrow> bool" where
  "fully_cast spec castRoles e =
     (case PruneSkeletonForExit spec (exit_Deliverable e) of
        Inl _ \<Rightarrow> False
      | Inr steps \<Rightarrow> list_all (\<lambda>s. TrimSpace (step_Role s) = [] \<or> TrimSpace (step_Role s) \<in> set castRoles) steps)"

definition DeepestExitDeliverableWithCasting :: "CoordinationSnapshot \<Rightarrow> string" where
  "DeepestExitDeliverableWithCasting snapshot =
     (case snap_ScenarioTemplate snapshot of
        None \<Rightarrow> []
      | Some tpl \<Rightarrow>
          if snap_PlaybookCasting snapshot = [] then []
          else case ParseSpec (tpl_Spec tpl) of
                 Inl _ \<Rightarrow> []
               | Inr spec \<Rightarrow>
                   let castRoles = cast_roles (snap_PlaybookCasting snapshot) in
                   if Exits spec = [] \<or> castRoles = [] then []
                   else foldl (\<lambda>deepest e. if fully_cast spec castRoles e then exit_Deliverable e else deepest) [] (Exits spec))"

definition cast_reason :: "string \<Rightarrow> string" where
  "cast_reason role = byte_string [229, 137, 167, 230, 156, 172, 231, 188, 150, 229, 136, 182, 230, 140, 135, 229,
    174, 154, 232, 167, 146, 232, 137, 178, 32] @ role"

text \<open>One step of the loop over skeleton steps; \<open>tasks\<close> are the tasks the lookups were built from.\<close>

definition cast_step ::
  "(string \<Rightarrow> uuid option) \<Rightarrow> PlannedTask list \<Rightarrow> PlannedTask list \<Rightarrow> SpecSkeletonStep \<Rightarrow> PlannedTask list" where
  "cast_step byRole tasks now step =
     (case byRole (TrimSpace (step_Role step)) of
        None \<Rightarrow> now
      | Some emp \<Rightarrow>
          (case stepTask tasks step of
             None \<Rightarrow> now
           | Some i \<Rightarrow> now[i := (now ! i)\<lparr>task_SelectedEmployeeID := emp,
                                     task_EmployeeSelectionReason := cast_reason (step_Role step)\<rparr>]))"

definition ApplyPlaybookCasting :: "CoordinationSnapshot \<Rightarrow> RouteDecisionPlan \<Rightarrow> RouteDecisionPlan" where
  "ApplyPlaybookCasting snapshot plan =
     (case snap_ScenarioTemplate snapshot of
        None \<Rightarrow> plan
      | Some tpl \<Rightarrow>
          if cast_roles (snap_PlaybookCasting snapshot) = [] then plan
          else case ParseSpec (tpl_Spec tpl) of
                 Inl _ \<Rightarrow> plan
               | Inr spec \<Rightarrow>
                   if Skeleton spec = [] then plan
                   else plan\<lparr>plan_Tasks :=
                     foldl (cast_step (playbookCastByRole (snap_PlaybookCasting snapshot)) (plan_Tasks plan))
                       (plan_Tasks plan) (chosen_steps spec plan)\<rparr>)"

section \<open>Roles of extra tasks\<close>

text \<open>
  The map \<open>skeletonTaskKeys\<close>: keys of tasks that fulfil a step. Its values, the roles, are written to
  the tasks and not read again.
\<close>

definition stamp_role :: "PlannedTask list \<Rightarrow> PlannedTask list \<Rightarrow> SpecSkeletonStep \<Rightarrow> PlannedTask list" where
  "stamp_role tasks now step =
     (case stepTask tasks step of
        None \<Rightarrow> now
      | Some i \<Rightarrow>
          let role = TrimSpace (step_Role step) in
          if role \<noteq> [] then now[i := (now ! i)\<lparr>task_RoleKey := role\<rparr>] else now)"

definition skeleton_steps :: "CoordinationSnapshot \<Rightarrow> RouteDecisionPlan \<Rightarrow> SpecSkeletonStep list" where
  "skeleton_steps snapshot plan =
     (case snap_ScenarioTemplate snapshot of
        None \<Rightarrow> []
      | Some tpl \<Rightarrow>
          (case ParseSpec (tpl_Spec tpl) of
             Inl _ \<Rightarrow> []
           | Inr spec \<Rightarrow> if Skeleton spec = [] then [] else chosen_steps spec plan))"

definition skeletonTaskKeys :: "PlannedTask list \<Rightarrow> SpecSkeletonStep list \<Rightarrow> string list" where
  "skeletonTaskKeys tasks steps = List.map_filter (\<lambda>s. map_option (\<lambda>i. task_Key (tasks ! i)) (stepTask tasks s)) steps"

definition missing_role_note :: "string \<Rightarrow> PlanConstraintNote" where
  "missing_role_note key =
     \<lparr>cn_Kind = ''extra_task_missing_role'', cn_Message = byte_string [233, 170, 168, 230, 158, 182, 229, 164,
       150, 228, 187, 187, 229, 138, 161, 32] @ key @ byte_string [32, 230, 156, 170, 230, 160, 135, 230, 179, 168,
         229, 183, 178, 230, 179, 168, 229, 134, 140, 232, 167, 146, 232, 137, 178]\<rparr>"

definition unknown_role_note :: "string \<Rightarrow> string \<Rightarrow> PlanConstraintNote" where
  "unknown_role_note key role =
     \<lparr>cn_Kind = ''extra_task_unknown_role'',
      cn_Message = byte_string [233, 170, 168, 230, 158, 182, 229, 164, 150, 228, 187, 187, 229, 138, 161,
        32] @ key @ byte_string [32, 231, 154, 132, 232, 167, 146, 232, 137, 178, 32] @ role @ byte_string [32, 228,
          184, 141, 229, 156, 168, 232, 175, 141, 232, 161, 168, 239, 188, 140, 229, 183, 178, 233, 153, 141, 228, 184, 186, 230, 151, 160, 232, 167, 146, 232, 137, 178]\<rparr>"

text \<open>The body of the second loop: the task it leaves and the notes it adds.\<close>

definition check_extra_role :: "string list \<Rightarrow> string list \<Rightarrow> PlannedTask \<Rightarrow> PlannedTask \<times> PlanConstraintNote list" where
  "check_extra_role allowed skeletonKeys task =
     (let roleKey = TrimSpace (task_RoleKey task) in
      if task_Key task \<in> set skeletonKeys then (task, [])
      else if roleKey = [] then (task, if allowed \<noteq> [] then [missing_role_note (task_Key task)] else [])
      else if allowed = [] then (task, [])
      else if roleKey \<notin> set allowed then (task\<lparr>task_RoleKey := []\<rparr>, [unknown_role_note (task_Key task) roleKey])
      else (task, []))"

definition vocabulary_keys :: "CoordinationSnapshot \<Rightarrow> string list" where
  "vocabulary_keys snapshot =
     filter (\<lambda>k. k \<noteq> []) (map (\<lambda>r. TrimSpace (voc_RoleKey r)) (snap_RoleVocabulary snapshot))"

definition AnnotateAndValidateExtraTaskRoles :: "CoordinationSnapshot \<Rightarrow> RouteDecisionPlan \<Rightarrow> RouteDecisionPlan" where
  "AnnotateAndValidateExtraTaskRoles snapshot plan =
     (let steps = skeleton_steps snapshot plan;
          stamped = foldl (stamp_role (plan_Tasks plan)) (plan_Tasks plan) steps;
          checked = map (check_extra_role (vocabulary_keys snapshot) (skeletonTaskKeys (plan_Tasks plan) steps)) stamped
      in plan\<lparr>plan_Tasks := map fst checked,
              plan_ConstraintNotes := plan_ConstraintNotes plan @ concat (map snd checked)\<rparr>)"

section \<open>Defaults of a task kind\<close>

definition taskTypeCapabilityDefaults :: "(string \<times> string list) list" where
  "taskTypeCapabilityDefaults =
     [(''database_analysis'', [''database.read'', ''sql.analysis'', ''data.quality.check'', ''business.metric.interpretation'']),
      (''incident_triage'', [''incident.triage'', ''log.analysis'', ''metrics.analysis'', ''code.path.tracing'', ''runtime.diagnostics'']),
      (''feature_development'', [''codebase.analysis'', ''implementation'', ''testing.verification'', ''artifact.reporting''])]"

definition taskKindAliases :: "(string \<times> string) list" where
  "taskKindAliases =
     [(''db_analysis'', ''database_analysis''), (''database_analytics'', ''database_analysis''),
      (''data_analysis'', ''database_analysis''), (''database_query'', ''database_analysis''),
      (''incident_investigation'', ''incident_triage''), (''incident_diagnosis'', ''incident_triage''),
      (''system_diagnostics'', ''incident_triage''), (''system_incident'', ''incident_triage''),
      (''incident_response'', ''incident_triage''), (''feature_implementation'', ''feature_development''),
      (''feature_dev'', ''feature_development''), (''software_development'', ''feature_development''),
      (''code_implementation'', ''feature_development'')]"

definition taskKindWorkspaceModes :: "(string \<times> string) list" where
  "taskKindWorkspaceModes =
     [(''feature_development'', ''branch''), (''feature_implementation'', ''branch''), (''feature_dev'', ''branch''),
      (''software_development'', ''branch''), (''code_implementation'', ''branch''), (''feature'', ''branch''),
      (''software'', ''branch''), (''code'', ''branch''), (''implementation'', ''branch''), (''bug_fix'', ''branch''),
      (''bugfix'', ''branch''), (''code_change'', ''branch''), (''code_review'', ''diff''), (''review'', ''diff''),
      (''pull_request_review'', ''diff''), (''diff_review'', ''diff''), (''test_verification'', ''detached_run''),
      (''testing_verification'', ''detached_run''), (''build_verification'', ''detached_run''), (''test'', ''detached_run''),
      (''testing'', ''detached_run''), (''build'', ''detached_run''), (''verification'', ''detached_run''),
      (''qa'', ''detached_run''), (''database_analysis'', ''readonly''), (''database analysis'', ''readonly''),
      (''db_analysis'', ''readonly''), (''database_analytics'', ''readonly''), (''data_analysis'', ''readonly''),
      (''database_query'', ''readonly''), (''incident_triage'', ''readonly''), (''incident'', ''readonly''),
      (''incident_investigation'', ''readonly''), (''incident_diagnosis'', ''readonly''), (''system_diagnostics'', ''readonly''),
      (''system_incident'', ''readonly''), (''incident_response'', ''readonly''), (''analysis'', ''readonly''),
      (''status_report'', ''none''), (''status'', ''none''), (''human_approval'', ''none''), (''human'', ''none''),
      (''acceptance_summary'', ''none''), (''acceptance'', ''none'')]"

definition canonicalTaskKind :: "string \<Rightarrow> string" where
  "canonicalTaskKind kind =
     (let n = normalizePlanningString kind in
      if n = [] then []
      else case map_of taskKindAliases n of
             Some canonical \<Rightarrow> canonical
           | None \<Rightarrow> if map_of taskTypeCapabilityDefaults n \<noteq> None then n else [])"

definition WorkspaceModeForTaskKind :: "string \<Rightarrow> string" where
  "WorkspaceModeForTaskKind kind =
     (let n = normalizePlanningString kind in
      if n = [] then ''none''
      else
        let canonical = canonicalTaskKind n; n' = (if canonical \<noteq> [] then canonical else n) in
        case map_of taskKindWorkspaceModes n' of Some mode \<Rightarrow> mode | None \<Rightarrow> ''none'')"

definition DefaultRequiredCapabilities :: "string \<Rightarrow> string list" where
  "DefaultRequiredCapabilities taskKind =
     (let canonical = canonicalTaskKind taskKind in
      if canonical = [] then []
      else case map_of taskTypeCapabilityDefaults canonical of
             None \<Rightarrow> []
           | Some defaults \<Rightarrow> filter (\<lambda>v. v \<noteq> []) (map normalizePlanningString defaults))"

definition with_defaults :: "PlannedTask \<Rightarrow> PlannedTask" where
  "with_defaults task =
     task\<lparr>task_RequiredCapabilities :=
       foldl appendUniqueString (task_RequiredCapabilities task) (DefaultRequiredCapabilities (task_TaskKind task))\<rparr>"

definition ApplyTaskTypeDefaults :: "RouteDecisionPlan \<Rightarrow> RouteDecisionPlan" where
  "ApplyTaskTypeDefaults plan =
     (let applied = map task_Key (filter (\<lambda>t.
            length (task_RequiredCapabilities (with_defaults t)) > length (task_RequiredCapabilities t)) (plan_Tasks plan));
          plan1 = plan\<lparr>plan_Tasks := map with_defaults (plan_Tasks plan)\<rparr>
      in if applied = [] then plan1
         else plan1\<lparr>plan_PlannerMetadata := AList.update ''task_type_defaults_applied'' (GStrs applied) (plan_PlannerMetadata plan)\<rparr>)"

section \<open>Casting decides\<close>

definition casts_task :: "(string \<Rightarrow> uuid option) \<Rightarrow> PlannedTask list \<Rightarrow> nat \<Rightarrow> SpecSkeletonStep \<Rightarrow> bool" where
  "casts_task byRole tasks i s \<longleftrightarrow> stepTask tasks s = Some i \<and> byRole (TrimSpace (step_Role s)) \<noteq> None"

lemma cast_step_length [simp]: "length (cast_step byRole tasks now s) = length now"
  by (simp add: cast_step_def split: option.split)

lemma cast_fold_length [simp]: "length (foldl (cast_step byRole tasks) now steps) = length now"
  by (induction steps arbitrary: now) simp_all

lemma nth_update: "i < length ts \<Longrightarrow> ts[j := x] ! i = (if j = i then x else ts ! i)"
  by auto

lemma cast_step_nth:
  assumes "i < length now"
  shows "task_SelectedEmployeeID (cast_step byRole tasks now s ! i) =
    (if casts_task byRole tasks i s then the (byRole (TrimSpace (step_Role s))) else task_SelectedEmployeeID (now ! i))"
  using assms by (auto simp: cast_step_def casts_task_def nth_update split: option.splits)

lemma cast_fold_nth:
  assumes "i < length now"
  shows "task_SelectedEmployeeID (foldl (cast_step byRole tasks) now steps ! i) =
    (let casting = filter (casts_task byRole tasks i) steps in
     if casting = [] then task_SelectedEmployeeID (now ! i) else the (byRole (TrimSpace (step_Role (last casting)))))"
proof (induction steps rule: rev_induct)
  case (snoc x xs)
  then show ?case using assms by (simp add: cast_step_nth Let_def)
qed simp

lemma casting_other_fields:
  assumes "i < length now"
  shows "task_Key (foldl (cast_step byRole tasks) now steps ! i) = task_Key (now ! i) \<and>
    task_SelectionScore (foldl (cast_step byRole tasks) now steps ! i) = task_SelectionScore (now ! i)"
proof (induction steps rule: rev_induct)
  case (snoc x xs)
  have "task_Key (cast_step byRole tasks ts x ! i) = task_Key (ts ! i) \<and>
      task_SelectionScore (cast_step byRole tasks ts x ! i) = task_SelectionScore (ts ! i)" if "i < length ts" for ts
    using that by (auto simp: cast_step_def nth_update split: option.split)
  then show ?case using assms snoc by simp
qed simp

text \<open>
  The project's casting is authoritative. When a task fulfils a step of the chosen exit whose
  role has been cast, the task goes to the employee cast for the last such step, whatever the planner
  proposed; every other task keeps the planner's choice. The computed score of a task is not touched.
\<close>

theorem casting_is_authoritative:
  assumes "snap_ScenarioTemplate snapshot = Some tpl" "ParseSpec (tpl_Spec tpl) = Inr spec" "Skeleton spec \<noteq> []"
    and "cast_roles (snap_PlaybookCasting snapshot) \<noteq> []" "i < length (plan_Tasks plan)"
  shows "task_SelectedEmployeeID (plan_Tasks (ApplyPlaybookCasting snapshot plan) ! i) =
      (let byRole = playbookCastByRole (snap_PlaybookCasting snapshot);
           casting = filter (casts_task byRole (plan_Tasks plan) i) (chosen_steps spec plan)
       in if casting = [] then task_SelectedEmployeeID (plan_Tasks plan ! i)
          else the (byRole (TrimSpace (step_Role (last casting))))) \<and>
    task_SelectionScore (plan_Tasks (ApplyPlaybookCasting snapshot plan) ! i) = task_SelectionScore (plan_Tasks plan ! i)"
  using assms cast_fold_nth [OF assms(5)] casting_other_fields [OF assms(5)]
  by (simp add: ApplyPlaybookCasting_def Let_def)

lemma foldl_last_filter:
  "foldl (\<lambda>d e. if P e then f e else d) d xs = (if filter P xs = [] then d else f (last (filter P xs)))"
  by (induction xs rule: rev_induct) auto

text \<open>The deepest exit with casting is the last exit of the template all of whose roles are cast.\<close>

lemma deepest_exit_last:
  assumes "snap_ScenarioTemplate snapshot = Some tpl" "ParseSpec (tpl_Spec tpl) = Inr spec"
    and "cast_roles (snap_PlaybookCasting snapshot) \<noteq> []"
  shows "DeepestExitDeliverableWithCasting snapshot =
    (let ok = filter (fully_cast spec (cast_roles (snap_PlaybookCasting snapshot))) (Exits spec)
     in if ok = [] then [] else exit_Deliverable (last ok))"
proof -
  have "snap_PlaybookCasting snapshot \<noteq> []" using assms(3) by (auto simp: cast_roles_def)
  with assms show ?thesis
    by (cases "Exits spec = []") (simp_all add: DeepestExitDeliverableWithCasting_def foldl_last_filter Let_def)
qed

section \<open>Registered roles\<close>

lemma check_extra_role_key [simp]: "task_Key (fst (check_extra_role allowed keys t)) = task_Key t"
  by (simp add: check_extra_role_def Let_def)

text \<open>
  After the annotation, a task beyond the skeleton has no role or a role of the vocabulary, when
  there is a vocabulary.
\<close>

lemma extra_roles_are_registered:
  assumes "t \<in> set (plan_Tasks (AnnotateAndValidateExtraTaskRoles snapshot plan))"
    and "task_Key t \<notin> set (skeletonTaskKeys (plan_Tasks plan) (skeleton_steps snapshot plan))"
    and "vocabulary_keys snapshot \<noteq> []"
  shows "TrimSpace (task_RoleKey t) = [] \<or> TrimSpace (task_RoleKey t) \<in> set (vocabulary_keys snapshot)"
proof -
  obtain u where u: "t = fst (check_extra_role (vocabulary_keys snapshot)
      (skeletonTaskKeys (plan_Tasks plan) (skeleton_steps snapshot plan)) u)"
    using assms(1) by (auto simp: AnnotateAndValidateExtraTaskRoles_def Let_def)
  then have "task_Key u \<notin> set (skeletonTaskKeys (plan_Tasks plan) (skeleton_steps snapshot plan))" using assms(2) by simp
  with u assms(3) show ?thesis by (auto simp: check_extra_role_def Let_def)
qed

section \<open>Defaults are a floor\<close>

lemma appendUniqueString_prefix: "prefix values (appendUniqueString values v)"
  by (simp add: appendUniqueString_def Let_def)

lemma foldl_appendUnique_prefix: "prefix values (foldl appendUniqueString values vs)"
proof (induction vs arbitrary: "values")
  case (Cons v vs)
  show ?case using prefix_order.trans [OF appendUniqueString_prefix Cons.IH] by simp
qed simp

lemma foldl_appendUnique_has:
  assumes "v \<in> set vs" "normalizePlanningString v = v" "v \<noteq> []"
  shows "v \<in> set (foldl appendUniqueString values vs)"
proof -
  obtain as bs where vs: "vs = as @ v # bs" using assms(1) by (meson split_list)
  let ?mid = "appendUniqueString (foldl appendUniqueString values as) v"
  have "v \<in> set ?mid" using assms(2,3) by (simp add: appendUniqueString_def Let_def)
  then show ?thesis using set_mono_prefix [OF foldl_appendUnique_prefix [of ?mid bs]] by (auto simp: vs)
qed

lemma defaults_normal:
  "list_all (\<lambda>(k, ds). list_all (\<lambda>d. normalizePlanningString d = d \<and> d \<noteq> []) ds) taskTypeCapabilityDefaults"
  by code_simp

lemma DefaultRequiredCapabilities_normal:
  assumes "v \<in> set (DefaultRequiredCapabilities kind)"
  shows "normalizePlanningString v = v \<and> v \<noteq> []"
proof -
  obtain ds where m: "map_of taskTypeCapabilityDefaults (canonicalTaskKind kind) = Some ds"
    and v: "v \<in> set (map normalizePlanningString ds)"
    using assms by (cases "map_of taskTypeCapabilityDefaults (canonicalTaskKind kind)")
      (auto simp: DefaultRequiredCapabilities_def Let_def split: if_splits)
  note ds = map_of_SomeD [OF m] v
  then have "list_all (\<lambda>d. normalizePlanningString d = d \<and> d \<noteq> []) ds"
    using defaults_normal by (fastforce simp: list_all_iff)
  with ds(2) show ?thesis by (auto simp: list_all_iff)
qed

text \<open>
  Every task keeps the capabilities it declared and requires at least the defaults of its kind; a
  task of an unknown kind is untouched.
\<close>

lemma defaults_are_a_floor:
  "plan_Tasks (ApplyTaskTypeDefaults plan) = map with_defaults (plan_Tasks plan)"
  "prefix (task_RequiredCapabilities t) (task_RequiredCapabilities (with_defaults t))"
  "set (DefaultRequiredCapabilities (task_TaskKind t)) \<subseteq> set (task_RequiredCapabilities (with_defaults t))"
  "canonicalTaskKind (task_TaskKind t) = [] \<Longrightarrow> with_defaults t = t"
proof -
  show "plan_Tasks (ApplyTaskTypeDefaults plan) = map with_defaults (plan_Tasks plan)"
    by (simp add: ApplyTaskTypeDefaults_def Let_def)
  show "prefix (task_RequiredCapabilities t) (task_RequiredCapabilities (with_defaults t))"
    by (simp add: with_defaults_def foldl_appendUnique_prefix)
  show "set (DefaultRequiredCapabilities (task_TaskKind t)) \<subseteq> set (task_RequiredCapabilities (with_defaults t))"
    using DefaultRequiredCapabilities_normal foldl_appendUnique_has by (auto simp: with_defaults_def)
  show "canonicalTaskKind (task_TaskKind t) = [] \<Longrightarrow> with_defaults t = t"
    by (simp add: with_defaults_def DefaultRequiredCapabilities_def)
qed

text \<open>An alias and its canonical kind get the same workspace.\<close>

lemma alias_workspace_modes:
  "list_all (\<lambda>(a, c). WorkspaceModeForTaskKind a = WorkspaceModeForTaskKind c \<and>
     map_of taskKindWorkspaceModes a = map_of taskKindWorkspaceModes c) taskKindAliases"
  by code_simp

section \<open>Examples\<close>

definition example_casting_snapshot :: CoordinationSnapshot where
  "example_casting_snapshot =
     (example_snapshot (Some (example_template_snapshot example_governed_document))
        [\<lparr>mem_PrincipalID = 1, mem_ProjectRole = ''executor'', mem_Status = ''active'', mem_DisplayName = [],
          mem_PlanningProfile = Some (example_profile\<lparr>prof_RuntimeRequirements :=
            \<lparr>rt_ProviderTypes = [], rt_ProviderStatus = ''ready'', rt_RuntimeNodeID = []\<rparr>\<rparr>)\<rparr>,
         \<lparr>mem_PrincipalID = 2, mem_ProjectRole = ''executor'', mem_Status = ''active'', mem_DisplayName = [],
          mem_PlanningProfile = Some (example_profile\<lparr>prof_DigitalEmployeeID := 2\<rparr>)\<rparr>])
       \<lparr>snap_PlaybookCasting := [\<lparr>cast_RoleKey = ''dev'', cast_DigitalEmployeeID = 2\<rparr>]\<rparr>"

theorem casting_is_authoritative_witness:
  "task_SelectedEmployeeID (plan_Tasks (ApplyPlaybookCasting example_casting_snapshot example_governed_plan) ! 0) = 2"
proof -
  have "snap_ScenarioTemplate example_casting_snapshot = Some (example_template_snapshot example_governed_document)"
    "cast_roles (snap_PlaybookCasting example_casting_snapshot) \<noteq> []" "0 < length (plan_Tasks example_governed_plan)"
    by code_simp+
  note * = casting_is_authoritative [OF this(1) example_governed_facts(2,3) this(2,3)]
  have "(let byRole = playbookCastByRole (snap_PlaybookCasting example_casting_snapshot);
           casting = filter (casts_task byRole (plan_Tasks example_governed_plan) 0) (chosen_steps example_governed_spec example_governed_plan)
       in if casting = [] then task_SelectedEmployeeID (plan_Tasks example_governed_plan ! 0)
          else the (byRole (TrimSpace (step_Role (last casting))))) = 2" by code_simp
  with * show ?thesis by simp
qed

text \<open>
  Scoring before casting leaves a stale fact. In the order in which the planner runs them,
  a task can end up assigned to an employee who fails hard (score 0) while it carries the full score
  of the employee the planner had proposed, and neither the task nor the plan asks for a human.
\<close>

theorem casting_leaves_stale_scores:
  "let plan = ApplyPlaybookCasting example_casting_snapshot
         (ApplyPlanningProfileScores (\<lambda>_. ''hash'') example_casting_snapshot
           (example_plan [example_task ''build'' [''binary''] []] [] []));
       task = plan_Tasks plan ! 0
   in task_SelectedEmployeeID task = 2 \<and> task_SelectionScore task = 100 \<and>
      \<not> task_RequiresHumanApproval task \<and> \<not> plan_RequiresHumanReview plan \<and>
      map_option (\<lambda>p. ps_Score (ScorePlanningProfile p (planningTaskRequirements task)))
        (usable_profile (planningProfilesByEmployeeID (snap_DigitalEmployeePool example_casting_snapshot)) 2) = Some 0"
  by code_simp
end
