(* ===== verification/Planner_Pipeline.thy ===== *)
theory Planner_Pipeline
  imports Plan_Assignment
begin

text \<open>
  The reasoning planner, after \<^verbatim>\<open>workflow/projectcoordination/openai_compatible_planner.go\<close>: decoding of
  the model's answer, repair, and the attempt loop of \<open>Plan\<close> with everything it applies to an answer.
  The answer is the JSON value of the response text (\<open>None\<close> when the text is not JSON), decoded as
  \<^verbatim>\<open>encoding/json\<close> does. The chat client, the observations of the request context, the enumeration order
  of a Go map and the hash of a profile are parameters. Prompt texts and the HTTP client are not
  modelled.
\<close>

section \<open>Numbers\<close>

text \<open>The JSON number grammar, for a number that is given as a string.\<close>

definition digit :: "char \<Rightarrow> bool" where
  "digit c \<longleftrightarrow> byte_in 48 57 c"

definition digits_value :: "string \<Rightarrow> nat" where
  "digits_value s = foldl (\<lambda>n c. n * 10 + (of_char c - 48)) 0 s"

definition exponent_value :: "string \<Rightarrow> rat option" where
  "exponent_value s =
     (let sgn = (case s of c # _ \<Rightarrow> if c = CHR ''-'' then - 1 else (1::int) | [] \<Rightarrow> 1);
          ds = (case s of c # r \<Rightarrow> if c = CHR ''-'' \<or> c = CHR ''+'' then r else s | [] \<Rightarrow> [])
      in if ds = [] \<or> \<not> list_all digit ds then None
         else Some (if sgn < 0 then 1 / 10 ^ digits_value ds else 10 ^ digits_value ds))"

definition json_number :: "string \<Rightarrow> rat option" where
  "json_number s0 =
     (let neg = (s0 \<noteq> [] \<and> hd s0 = CHR ''-''); s = (if neg then tl s0 else s0);
          whole = takeWhile digit s; r1 = dropWhile digit s;
          has_frac = (r1 \<noteq> [] \<and> hd r1 = CHR ''.'');
          frac = (if has_frac then takeWhile digit (tl r1) else []);
          r2 = (if has_frac then dropWhile digit (tl r1) else r1);
          ex = (case r2 of [] \<Rightarrow> Some 1 | c # r \<Rightarrow> if c = CHR ''e'' \<or> c = CHR ''E'' then exponent_value r else None)
      in if whole = [] \<or> (length whole > 1 \<and> hd whole = CHR ''0'') \<or> (has_frac \<and> frac = []) then None
         else map_option (\<lambda>m. (if neg then - 1 else 1) *
                (of_nat (digits_value whole) + of_nat (digits_value frac) / 10 ^ length frac) * m) ex)"

definition finite_float :: "rat \<Rightarrow> bool" where
  "finite_float q \<longleftrightarrow> \<bar>q\<bar> < 2 ^ 1024 - 2 ^ 970"

fun as_number :: "gval \<Rightarrow> rat option" where
  "as_number (GNum q _) = Some q"
| "as_number (GStr s) = json_number s"
| "as_number _ = None"

section \<open>Decoding the answer\<close>

definition decodePlannerSelectionScore :: "gval \<Rightarrow> int option" where
  "decodePlannerSelectionScore raw =
     (if raw = GNil then Some 0
      else case as_number raw of
             None \<Rightarrow> None
           | Some parsed \<Rightarrow>
               if \<not> finite_float parsed then None
               else if 0 \<le> parsed \<and> parsed \<le> 1 then Some 0
               else if parsed \<noteq> of_int (trunc_rat parsed) then None
               else Some (trunc_rat parsed))"

definition decodePlannerSelectionConfidence :: "gval \<Rightarrow> rat option" where
  "decodePlannerSelectionConfidence raw =
     (if raw = GNil then None
      else case as_number raw of
             None \<Rightarrow> None
           | Some parsed \<Rightarrow> if \<not> finite_float parsed \<or> parsed < 0 \<or> parsed > 1 then None else Some parsed)"

definition decodePlannerStringArray :: "gval \<Rightarrow> string list" where
  "decodePlannerStringArray raw =
     (case dec_slice dec_string raw of
        Some ss \<Rightarrow> ss
      | None \<Rightarrow>
          (case dec_string raw of
             Some single \<Rightarrow> (let trimmed = TrimSpace single in if trimmed \<noteq> [] then [trimmed] else [])
           | None \<Rightarrow> []))"

definition dec_plan_criterion :: "gmap \<Rightarrow> PlanAcceptanceCriterion option" where
  "dec_plan_criterion m =
     Option.bind (dec_string (jfield m ''id'')) (\<lambda>i.
     Option.bind (dec_string (jfield m ''statement'')) (\<lambda>st.
     Option.bind (dec_string (jfield m ''verification_method'')) (\<lambda>vm.
     Option.bind (dec_string (jfield m ''severity'')) (\<lambda>sv.
     Option.bind (dec_string (jfield m ''evidence_hint'')) (\<lambda>eh.
     Some \<lparr>pac_ID = TrimSpace i, pac_Statement = TrimSpace st,
           pac_SatisfiedBy = decodePlannerStringArray (jfield m ''satisfied_by''),
           pac_VerificationMethod = TrimSpace vm, pac_Severity = TrimSpace sv, pac_EvidenceHint = TrimSpace eh,
           pac_AmbiguityFlag = False, pac_Source = []\<rparr>)))))"

definition decodePlanAcceptanceCriteria :: "gval \<Rightarrow> PlanAcceptanceCriterion list" where
  "decodePlanAcceptanceCriteria raw =
     (case dec_slice (dec_struct dec_plan_criterion) raw of
        None \<Rightarrow> []
      | Some entries \<Rightarrow> filter (\<lambda>c. pac_Statement c \<noteq> []) entries)"

fun decodeRequiredPlannerObject :: "gval \<Rightarrow> gmap option" where
  "decodeRequiredPlannerObject GNil = None"
| "decodeRequiredPlannerObject (GMap m) = Some m"
| "decodeRequiredPlannerObject (GSMap m) = Some (map (\<lambda>(k, v). (k, GStr v)) m)"
| "decodeRequiredPlannerObject (GList vs) = Some [(''items'', GList vs)]"
| "decodeRequiredPlannerObject (GStrs ss) = Some [(''items'', GList (map GStr ss))]"
| "decodeRequiredPlannerObject (GMaps ms) = Some [(''items'', GList (map GMap ms))]"
| "decodeRequiredPlannerObject v = Some [(''value'', v)]"

fun dec_uuid :: "uuid_lib \<Rightarrow> gval \<Rightarrow> uuid option" where
  "dec_uuid U GNil = Some uuid_Nil"
| "dec_uuid U (GStr s) = uuid_Parse U s"
| "dec_uuid U _ = None"

fun dec_bool :: "gval \<Rightarrow> bool option" where
  "dec_bool GNil = Some False"
| "dec_bool (GBool b) = Some b"
| "dec_bool _ = None"

fun dec_int32_ptr :: "gval \<Rightarrow> 32 word option option" where
  "dec_int32_ptr GNil = Some None"
| "dec_int32_ptr (GNum q _) =
     (if q = of_int \<lfloor>q\<rfloor> \<and> - (2 ^ 31) \<le> \<lfloor>q\<rfloor> \<and> \<lfloor>q\<rfloor> < 2 ^ 31 then Some (Some (word_of_int \<lfloor>q\<rfloor>)) else None)"
| "dec_int32_ptr _ = None"

text \<open>\<^verbatim>\<open>plannerTask.UnmarshalJSON\<close> and the copy into a \<^verbatim>\<open>PlannedTask\<close>.\<close>

definition dec_planner_task :: "uuid_lib \<Rightarrow> gmap \<Rightarrow> PlannedTask option" where
  "dec_planner_task U m =
     Option.bind (dec_string (jfield m ''key'')) (\<lambda>key.
     Option.bind (dec_string (jfield m ''title'')) (\<lambda>title.
     Option.bind (dec_string (jfield m ''summary'')) (\<lambda>summary.
     Option.bind (dec_uuid U (jfield m ''selected_employee_id'')) (\<lambda>employee.
     Option.bind (dec_string (jfield m ''employee_selection_reason'')) (\<lambda>reason.
     Option.bind (dec_string (jfield m ''task_kind'')) (\<lambda>kind.
     Option.bind (dec_int32_ptr (jfield m ''stage_index'')) (\<lambda>stage.
     Option.bind (dec_string (jfield m ''risk_level'')) (\<lambda>risk.
     Option.bind (dec_bool (jfield m ''requires_human_approval'')) (\<lambda>approval.
     Option.bind (dec_slice dec_string (jfield m ''blocked_by_keys'')) (\<lambda>blockers.
     Option.bind (dec_string (jfield m ''role_key'')) (\<lambda>role.
     Option.bind (decodeRequiredPlannerObject (jfield m ''input_requirements'')) (\<lambda>inputs.
     Option.bind (decodeRequiredPlannerObject (jfield m ''handoff_contract'')) (\<lambda>handoff.
     Option.bind (decodePlannerSelectionScore (jfield m ''selection_score'')) (\<lambda>score.
     Option.bind (decodePlannerSelectionConfidence (jfield m ''selection_confidence'')) (\<lambda>confidence.
     let arr = (\<lambda>k. decodePlannerStringArray (jfield m k)) in
     Some \<lparr>task_Key = key, task_Title = title, task_Summary = summary, task_SelectedEmployeeID = employee,
           task_EmployeeSelectionReason = reason, task_RequiredCapabilities = arr ''required_capabilities'',
           task_MatchedCapabilities = arr ''matched_capabilities'', task_MissingCapabilities = arr ''missing_capabilities'',
           task_PermissionRequirements = arr ''permission_requirements'', task_ToolRequirements = arr ''tool_requirements'',
           task_RuntimeRequirements = arr ''runtime_requirements'', task_VerificationRequirements = arr ''verification_requirements'',
           task_SelectionScore = score, task_SelectionConfidence = confidence, task_PlanningProfileSnapshotHash = [],
           task_TaskKind = kind, task_StageIndex = stage, task_RiskLevel = risk, task_RequiresHumanApproval = approval,
           task_ExpectedOutputs = arr ''expected_outputs'', task_Produces = arr ''produces'',
           task_InputRequirements = Some inputs, task_HandoffContract = Some handoff,
           task_BlockedByKeys = blockers, task_RoleKey = TrimSpace role\<rparr>)))))))))))))))"

definition canonicalPlannerMetadataKey :: "string \<Rightarrow> string" where
  "canonicalPlannerMetadataKey key = filter (\<lambda>c. byte_in 97 122 c \<or> digit c) (ToLower key)"

definition plannerMetadataKeyDenied :: "string \<Rightarrow> bool" where
  "plannerMetadataKeyDenied key =
     list_ex (Contains (canonicalPlannerMetadataKey key))
       [''prompt'', ''rawmodel'', ''rawresponse'', ''rawcompletion'', ''rawmessage'', ''rawcontent'', ''rawoutput'', ''rawtext'']"

definition sanitizePlannerMetadata :: "gmap \<Rightarrow> gmap" where
  "sanitizePlannerMetadata metadata = filter (\<lambda>(k, _). \<not> plannerMetadataKeyDenied k) metadata"

definition decodePlannerJSON :: "uuid_lib \<Rightarrow> gval \<Rightarrow> RouteDecisionPlan option" where
  "decodePlannerJSON U content =
     dec_struct (\<lambda>m.
       Option.bind (dec_string (jfield m ''reason'')) (\<lambda>reason.
       Option.bind (dec_bool (jfield m ''requires_human_review'')) (\<lambda>review.
       Option.bind (json_map (jfield m ''budget_estimate'')) (\<lambda>budget.
       Option.bind (dec_string (jfield m ''template_key'')) (\<lambda>template.
       Option.bind (dec_string (jfield m ''exit_deliverable'')) (\<lambda>ex.
       Option.bind (json_map (jfield m ''planner_metadata'')) (\<lambda>metadata.
       Option.bind (dec_slice (dec_struct (dec_planner_task U)) (jfield m ''tasks'')) (\<lambda>tasks.
       let plan = attributePlannerSelfReportedRisk
             \<lparr>plan_Reason = reason, plan_RequiresHumanReview = review, plan_BudgetEstimate = budget,
              plan_TemplateKey = template, plan_PlannerMetadata = sanitizePlannerMetadata metadata,
              plan_Criteria = decodePlanAcceptanceCriteria (jfield m ''plan_acceptance_criteria''), plan_Tasks = tasks,
              plan_ExitDeliverable = ex, plan_TemplateVersion = 0, plan_AvailableExits = [],
              plan_ConstraintNotes = [], plan_RiskAttribution = []\<rparr>
       in Some (plan\<lparr>plan_Criteria := attributePlannerAuthoredCriteria (plan_Criteria plan)\<rparr>)))))))) ) content"

section \<open>The required-review policy\<close>

definition requiredHumanReviewPolicyEnabled :: "gmap \<Rightarrow> bool" where
  "requiredHumanReviewPolicyEnabled policy =
     (case as_bool (gget policy ''require_human_review_for_new_demands'') of None \<Rightarrow> False | Some v \<Rightarrow> v)"

definition applyRequiredHumanReviewPolicy :: "CoordinationSnapshot \<Rightarrow> RouteDecisionPlan \<Rightarrow> RouteDecisionPlan" where
  "applyRequiredHumanReviewPolicy snapshot plan =
     (if \<not> requiredHumanReviewPolicyEnabled (snap_CoordinationPolicy snapshot) then plan
      else foldl (\<lambda>p i. markTaskRequiresHumanApprovalPlatform p i RiskSourcePlatformPolicy)
             (markPlanRequiresHumanReviewPlatform plan RiskSourcePlatformPolicy) [0..<length (plan_Tasks plan)])"

definition repair_task :: "uuid_lib \<Rightarrow> CoordinationSnapshot \<Rightarrow> uuid \<Rightarrow> string \<Rightarrow> string \<Rightarrow> PlannedTask" where
  "repair_task U snapshot employee title summary =
     (let outputs = [''execution_summary'', ''evidence_refs'', ''recommended_next_action''] in
      \<lparr>task_Key = ''required_review_execute_demand'', task_Title = title, task_Summary = summary,
       task_SelectedEmployeeID = employee,
       task_EmployeeSelectionReason = byte_string [229, 141, 143, 232, 176, 131, 231, 173, 150, 231, 149, 165, 232,
         166, 129, 230, 177, 130, 228, 186, 186, 229, 183, 165, 229, 174, 161, 230, 160, 184, 239, 188, 140, 233, 128, 137, 230, 139, 169, 229, 143, 175, 230, 137, 167, 232, 161, 140, 229, 145, 152, 229, 183, 165, 230, 137, 191, 230, 142, 165, 229, 174, 161, 230, 160, 184, 229, 144, 142, 231, 154, 132, 230, 137, 167, 232, 161, 140, 228, 187, 187, 229, 138, 161],
       task_RequiredCapabilities = [''execution''], task_MatchedCapabilities = [''execution''],
       task_MissingCapabilities = [], task_PermissionRequirements = [], task_ToolRequirements = [],
       task_RuntimeRequirements = [], task_VerificationRequirements = [byte_string [229, 134, 153, 229, 155, 158, 32,
         112, 114, 111, 106, 101, 99, 116, 32, 116, 97, 115, 107, 32, 97, 116, 116, 101, 109, 112, 116, 32, 231, 187, 147, 230, 158, 156]],
       task_SelectionScore = 0, task_SelectionConfidence = selectionConfidenceThreshold (snap_CoordinationPolicy snapshot),
       task_PlanningProfileSnapshotHash = [], task_TaskKind = ''execution'', task_StageIndex = Some 0,
       task_RiskLevel = ''normal'', task_RequiresHumanApproval = True, task_ExpectedOutputs = outputs, task_Produces = [],
       task_InputRequirements = Some [(''demand_id'', GStr (uuid_String U (ds_ID (snap_Demand snapshot)))),
         (''title'', GStr title), (''content'', GStr (ds_Content (snap_Demand snapshot))), (''requires_route_review'', GBool True)],
       task_HandoffContract = Some [(''expected_outputs'', GList (map GStr outputs)),
         (''completion_path'', GStr ''project_task_attempt_writeback'')],
       task_BlockedByKeys = [], task_RoleKey = []\<rparr>)"

definition synthesizeRequiredReviewPlan ::
  "uuid_lib \<Rightarrow> CoordinationSnapshot \<Rightarrow> uuid list \<Rightarrow> RouteDecisionPlan \<Rightarrow> RouteDecisionPlan" where
  "synthesizeRequiredReviewPlan U snapshot pool source =
     (case pool of
        [] \<Rightarrow> source
      | employee # _ \<Rightarrow>
          let t0 = TrimSpace (ds_Title (snap_Demand snapshot));
              title = (if t0 = [] then byte_string [229, 164, 132, 231, 144, 134, 233, 161, 185, 231, 155, 174, 233,
                156, 128, 230, 177, 130] else t0);
              s0 = TrimSpace (ds_Content (snap_Demand snapshot));
              summary = (if s0 = [] then title else s0);
              r0 = TrimSpace (plan_Reason source);
              reason = (if r0 = [] then byte_string [229, 141, 143, 232, 176, 131, 231, 173, 150, 231, 149, 165, 232,
                166, 129, 230, 177, 130, 229, 133, 136, 232, 191, 155, 232, 161, 140, 228, 186, 186, 231, 177, 187, 229, 174, 161, 230, 160, 184, 239, 188, 140, 229, 155, 160, 230, 173, 164, 231, 148, 159, 230, 136, 144, 228, 184, 128, 228, 184, 170, 229, 190, 133, 229, 174, 161, 230, 160, 184, 231, 154, 132, 230, 137, 167, 232, 161, 140, 228, 187, 187, 229, 138, 161, 229, 155, 190] else r0);
              metadata = AList.update ''repair_reason'' (GStr ''model_output_invalid_for_required_review'')
                (AList.update ''planner_repair'' (GStr ''policy_required_human_review'') (plan_PlannerMetadata source));
              k0 = TrimSpace (plan_TemplateKey source);
              template = (if k0 = [] then ''policy.required_human_review.single_task'' else k0);
              budget = (if plan_BudgetEstimate source = [] then [(''mode'', GStr ''policy_default'')] else plan_BudgetEstimate source);
              plan = \<lparr>plan_Reason = reason, plan_RequiresHumanReview = True, plan_BudgetEstimate = budget,
                      plan_TemplateKey = template, plan_PlannerMetadata = metadata, plan_Criteria = [],
                      plan_Tasks = [repair_task U snapshot employee title summary], plan_ExitDeliverable = [],
                      plan_TemplateVersion = 0, plan_AvailableExits = [], plan_ConstraintNotes = [], plan_RiskAttribution = []\<rparr>
          in markTaskRequiresHumanApprovalPlatform (markPlanRequiresHumanReviewPlatform plan RiskSourcePlatformPolicy)
               0 RiskSourcePlatformPolicy)"

section \<open>The attempt loop\<close>

record OpenAICompatiblePlannerConfig =
  cfg_APIKey :: string
  cfg_BaseURL :: string
  cfg_Model :: string
  cfg_MaxAttempts :: int

text \<open>
  What one call of the client brings: an answer, or an error. Of an error the code observes whether the
  caller's context is done, whether it is a deadline and the request's own deadline has passed, whether
  it reports a timeout, and whether it is a cancellation.
\<close>

record chat_error =
  ce_parent_done :: bool
  ce_is_deadline :: bool
  ce_request_deadline :: bool
  ce_timeout :: bool
  ce_is_canceled :: bool

datatype chat_result = ChatContent "gval option" | ChatError chat_error

text \<open>The surroundings of a run: the client's replies by attempt, and whether the request context is
  found done at each of the four points of an attempt that look at it.\<close>

datatype ctx_point = AttemptStart | AfterReply | AfterDecodeFailure | AfterRejection

record planner_env =
  env_chat :: "nat \<Rightarrow> chat_result"
  env_done :: "nat \<Rightarrow> ctx_point \<Rightarrow> bool"
  env_done_at_entry :: bool
  env_order :: "uuid list \<Rightarrow> uuid list"
  env_hash :: "DigitalEmployeePlanningProfile \<Rightarrow> string"
  env_uuid :: uuid_lib

datatype plan_failure = FailRoute route_error | FailGovernance governance_error

datatype planner_error =
    ErrPlannerUnavailable
  | ErrContext
  | ErrPlannerRequestTimeout
  | ErrChat
  | ErrDecode
  | ErrRejected plan_failure
  | ErrInvalidRouteDecision

definition plannerContextError :: "chat_error \<Rightarrow> planner_error option \<times> bool" where
  "plannerContextError err =
     (if ce_parent_done err then (Some ErrContext, True)
      else if ce_is_deadline err \<and> ce_request_deadline err then (Some ErrPlannerRequestTimeout, True)
      else if ce_timeout err then (Some ErrPlannerRequestTimeout, True)
      else if ce_is_canceled err \<or> ce_is_deadline err then (Some ErrContext, False)
      else (None, False))"

fun no_suitable :: "plan_failure \<Rightarrow> bool" where
  "no_suitable (FailGovernance e) = is_no_suitable_employee e"
| "no_suitable (FailRoute _) = False"

definition check_and_govern ::
  "(uuid list \<Rightarrow> uuid list) \<Rightarrow> CoordinationSnapshot \<Rightarrow> RouteDecisionPlan \<Rightarrow> plan_failure option \<times> RouteDecisionPlan" where
  "check_and_govern order snapshot plan =
     (case ValidateRouteDecisionPlan snapshot plan \<lparr>MaxTasks = 12\<rparr> of
        Some e \<Rightarrow> (Some (FailRoute e), plan)
      | None \<Rightarrow>
          (case EnforceScenarioTemplateGovernance order snapshot plan of
             (Some e, p) \<Rightarrow> (Some (FailGovernance e), p)
           | (None, p) \<Rightarrow> (None, p)))"

definition prepare_answer :: "planner_env \<Rightarrow> CoordinationSnapshot \<Rightarrow> RouteDecisionPlan \<Rightarrow> RouteDecisionPlan" where
  "prepare_answer env snapshot plan =
     ApplyPlaybookCasting snapshot
       (ApplyPlanningProfileScores (env_hash env) snapshot
         (applyRequiredHumanReviewPolicy snapshot
           (ApplyTaskTypeDefaults
             (applyAcceptanceCriteriaDefaults plan (snap_CoordinationPolicy snapshot)))))"

definition prepare_repair :: "planner_env \<Rightarrow> CoordinationSnapshot \<Rightarrow> RouteDecisionPlan \<Rightarrow> RouteDecisionPlan" where
  "prepare_repair env snapshot plan =
     ApplyPlaybookCasting snapshot
       (ApplyPlanningProfileScores (env_hash env) snapshot
         (ApplyTaskTypeDefaults
           (applyAcceptanceCriteriaDefaults
             (synthesizeRequiredReviewPlan (env_uuid env) snapshot (activeExecutorIDs (snap_DigitalEmployeePool snapshot)) plan)
             (snap_CoordinationPolicy snapshot))))"

datatype outcome = Returns "planner_error + RouteDecisionPlan" | Continues planner_error | Breaks planner_error

definition gap_or :: "CoordinationSnapshot \<Rightarrow> RouteDecisionPlan \<Rightarrow> plan_failure \<Rightarrow> planner_error" where
  "gap_or snapshot plan e =
     (case structuralGapForPlan snapshot plan of
        Some gap \<Rightarrow> ErrRejected (FailGovernance gap) | None \<Rightarrow> ErrRejected e)"

definition reject :: "planner_env \<Rightarrow> CoordinationSnapshot \<Rightarrow> nat \<Rightarrow> RouteDecisionPlan \<Rightarrow> plan_failure \<Rightarrow> outcome" where
  "reject env snapshot attempt plan e =
     (if no_suitable e then Returns (Inl (gap_or snapshot plan e))
      else if env_done env attempt AfterRejection then Returns (Inl ErrContext)
      else if requiredHumanReviewPolicyEnabled (snap_CoordinationPolicy snapshot) then
        (case check_and_govern (env_order env) snapshot (prepare_repair env snapshot plan) of
           (None, repaired) \<Rightarrow>
             Returns (Inr (ensureHumanJudgmentCriterion repaired (snap_CoordinationPolicy snapshot)))
         | (Some e', repaired) \<Rightarrow>
             if no_suitable e' then Returns (Inl (gap_or snapshot repaired e')) else Continues (ErrRejected e))
      else Continues (ErrRejected e))"

definition accept :: "CoordinationSnapshot \<Rightarrow> RouteDecisionPlan \<Rightarrow> RouteDecisionPlan" where
  "accept snapshot plan =
     stripPlannerOnlyRiskFlags
       (foldTemplateAcceptanceCriteria snapshot
         (ensureHumanJudgmentCriterion (AnnotateAndValidateExtraTaskRoles snapshot plan) (snap_CoordinationPolicy snapshot)))"

definition plan_attempt :: "planner_env \<Rightarrow> CoordinationSnapshot \<Rightarrow> nat \<Rightarrow> outcome" where
  "plan_attempt env snapshot attempt =
     (if env_done env attempt AttemptStart then Returns (Inl ErrContext)
      else case env_chat env attempt of
             ChatError err \<Rightarrow>
               (case plannerContextError err of
                  (Some e, terminal) \<Rightarrow> if terminal then Returns (Inl e) else Breaks e
                | (None, _) \<Rightarrow> Continues ErrChat)
           | ChatContent text \<Rightarrow>
               if env_done env attempt AfterReply then Returns (Inl ErrContext)
               else case Option.bind text (decodePlannerJSON (env_uuid env)) of
                      None \<Rightarrow> if env_done env attempt AfterDecodeFailure then Returns (Inl ErrContext) else Continues ErrDecode
                    | Some plan \<Rightarrow>
                        (case check_and_govern (env_order env) snapshot (prepare_answer env snapshot plan) of
                           (None, plan1) \<Rightarrow> Returns (Inr (accept snapshot plan1))
                         | (Some e, plan1) \<Rightarrow> reject env snapshot attempt plan1 e))"

text \<open>The loop, with the number of attempts left.\<close>

fun plan_loop ::
  "planner_env \<Rightarrow> CoordinationSnapshot \<Rightarrow> nat \<Rightarrow> nat \<Rightarrow> planner_error \<Rightarrow> planner_error + RouteDecisionPlan" where
  "plan_loop env snapshot 0 attempt lastErr = Inl lastErr"
| "plan_loop env snapshot (Suc left) attempt lastErr =
     (case plan_attempt env snapshot attempt of
        Returns r \<Rightarrow> r
      | Breaks e \<Rightarrow> Inl e
      | Continues e \<Rightarrow> plan_loop env snapshot left (attempt + 1) e)"

definition Plan :: "planner_env \<Rightarrow> OpenAICompatiblePlannerConfig \<Rightarrow> CoordinationSnapshot \<Rightarrow> planner_error + RouteDecisionPlan" where
  "Plan env cfg snapshot =
     (if blank (cfg_APIKey cfg) \<or> blank (cfg_BaseURL cfg) \<or> blank (cfg_Model cfg) then Inl ErrPlannerUnavailable
      else if env_done_at_entry env then Inl ErrContext
      else plan_loop env snapshot (if cfg_MaxAttempts cfg \<le> 0 then 1 else nat (cfg_MaxAttempts cfg)) 0 ErrInvalidRouteDecision)"

section \<open>What the steps around validation keep\<close>

text \<open>What the executability of a route depends on, and what the attribution of its flags depends on.\<close>

definition task_work :: "PlannedTask \<Rightarrow> string \<times> uuid \<times> string list \<times> string list \<times> gmap option \<times> string list" where
  "task_work t = (task_Key t, task_SelectedEmployeeID t, task_BlockedByKeys t, task_Produces t, task_InputRequirements t,
     task_ExpectedOutputs t)"

definition work :: "RouteDecisionPlan \<Rightarrow> (string \<times> uuid \<times> string list \<times> string list \<times> gmap option \<times> string list) list" where
  "work plan = map task_work (plan_Tasks plan)"

definition task_flag :: "PlannedTask \<Rightarrow> string \<times> bool" where
  "task_flag t = (task_Key t, task_RequiresHumanApproval t)"

definition flags :: "RouteDecisionPlan \<Rightarrow> bool \<times> RiskSignalAttribution list \<times> (string \<times> bool) list" where
  "flags plan = (plan_RequiresHumanReview plan, plan_RiskAttribution plan, map task_flag (plan_Tasks plan))"

text \<open>Every raised flag is on record with an author other than the planner.\<close>

definition flags_attributed :: "RouteDecisionPlan \<Rightarrow> bool" where
  "flags_attributed plan \<longleftrightarrow>
     (plan_RequiresHumanReview plan \<longrightarrow> \<not> planner_only (riskAttributionSource plan RiskSignalPlanRequiresHumanReview [])) \<and>
     list_all (\<lambda>t. task_RequiresHumanApproval t \<longrightarrow>
       \<not> planner_only (riskAttributionSource plan RiskSignalTaskRequiresHumanApproval (task_Key t))) (plan_Tasks plan)"

text \<open>Every signal on record is the planner's own or the platform's.\<close>

definition known_source :: "string \<Rightarrow> bool" where
  "known_source s \<longleftrightarrow> s = RiskSourcePlannerSelfReported \<or> HasPrefix s ''platform_derived:''"

definition sources_known :: "RouteDecisionPlan \<Rightarrow> bool" where
  "sources_known plan \<longleftrightarrow> list_all (\<lambda>e. known_source (risk_Source e)) (plan_RiskAttribution plan)"

lemma known_sources [simp]:
  "known_source RiskSourcePlatformTemplateGovernance" "known_source RiskSourcePlatformProfileScore"
  "known_source RiskSourcePlatformPolicy" "known_source RiskSourcePlannerSelfReported"
  by code_simp+

lemma sources_known_cong: "flags p = flags q \<Longrightarrow> sources_known p = sources_known q"
  by (simp add: sources_known_def flags_def)

lemma upsert_known:
  "list_all (\<lambda>e. known_source (risk_Source e)) es \<Longrightarrow> known_source s \<Longrightarrow>
   list_all (\<lambda>e. known_source (risk_Source e)) (upsert_attribution k t s es)"
  by (induction es) auto

lemma set_known: "sources_known p \<Longrightarrow> known_source s \<Longrightarrow> sources_known (setRiskAttribution p k t s)"
  by (simp add: sources_known_def setRiskAttribution_def upsert_known)

lemma mark_known:
  assumes "sources_known p" "known_source s"
  shows "sources_known (markPlanRequiresHumanReviewPlatform p s)" "sources_known (markTaskRequiresHumanApprovalPlatform p i s)"
proof -
  have "sources_known (p\<lparr>plan_RequiresHumanReview := b\<rparr>)" "sources_known (p\<lparr>plan_Tasks := ts\<rparr>)" for b ts
    using assms(1) by (simp_all add: sources_known_def)
  with assms show "sources_known (markPlanRequiresHumanReviewPlatform p s)" "sources_known (markTaskRequiresHumanApprovalPlatform p i s)"
    by (simp_all add: markPlanRequiresHumanReviewPlatform_def markTaskRequiresHumanApprovalPlatform_def Let_def set_known)
qed

text \<open>The plan and every task of it stop for a human.\<close>

definition held :: "RouteDecisionPlan \<Rightarrow> bool" where
  "held plan \<longleftrightarrow> plan_RequiresHumanReview plan \<and> list_all task_RequiresHumanApproval (plan_Tasks plan)"

lemma held_cong:
  assumes "flags p = flags q"
  shows "held p = held q"
proof -
  have tasks: "list_all task_RequiresHumanApproval (plan_Tasks r) = list_all snd (map task_flag (plan_Tasks r))" for r
    by (simp add: list_all_iff task_flag_def)
  show ?thesis using assms unfolding held_def tasks by (simp add: flags_def)
qed

lemma flags_attributed_cong:
  assumes "flags p = flags q"
  shows "flags_attributed p = flags_attributed q"
proof -
  have src: "riskAttributionSource p k t = riskAttributionSource q k t" for k t
    using assms by (simp add: flags_def riskAttributionSource_def)
  have tasks: "list_all (\<lambda>t. task_RequiresHumanApproval t \<longrightarrow>
      \<not> planner_only (riskAttributionSource r RiskSignalTaskRequiresHumanApproval (task_Key t))) (plan_Tasks r) =
    list_all (\<lambda>(k, b). b \<longrightarrow> \<not> planner_only (riskAttributionSource r RiskSignalTaskRequiresHumanApproval k))
      (map task_flag (plan_Tasks r))" for r
    by (simp add: list_all_iff task_flag_def)
  show ?thesis using assms unfolding flags_attributed_def tasks by (simp add: src flags_def)
qed

lemma map_update_same: "(\<And>x. g (h x) = g x) \<Longrightarrow> map g (xs[i := h (xs ! i)]) = map g xs"
  by (cases "i < length xs") (metis list_update_id map_update nth_map, simp add: list_update_beyond)

lemma planner_only_platform [simp]:
  "\<not> planner_only RiskSourcePlatformTemplateGovernance" "\<not> planner_only RiskSourcePlatformProfileScore"
  "\<not> planner_only RiskSourcePlatformPolicy" "\<not> blank RiskSourcePlatformPolicy"
  by code_simp+

lemma markPlan_work [simp]: "work (markPlanRequiresHumanReviewPlatform p s) = work p"
  by (simp add: work_def)

lemma markTask_work [simp]: "work (markTaskRequiresHumanApprovalPlatform p i s) = work p"
proof (cases "i < length (plan_Tasks p)")
  case True
  then show ?thesis
    by (simp add: work_def map_update_same [where h = "\<lambda>t. t\<lparr>task_RequiresHumanApproval := True\<rparr>"] task_work_def)
qed (simp add: markTaskRequiresHumanApprovalPlatform_def)

lemma markPlan_attributed:
  assumes "flags_attributed p" "\<not> planner_only s" "\<not> blank s"
  shows "flags_attributed (markPlanRequiresHumanReviewPlatform p s)"
  using assms by (auto simp: flags_attributed_def mark_plan_source list_all_iff TrimSpace_def)

lemma markTask_attributed:
  assumes "flags_attributed p" "\<not> planner_only s" "\<not> blank s"
  shows "flags_attributed (markTaskRequiresHumanApprovalPlatform p i s)"
proof (cases "i < length (plan_Tasks p)")
  case True
  let ?src = "riskAttributionSource (markTaskRequiresHumanApprovalPlatform p i s) RiskSignalTaskRequiresHumanApproval"
  have approvals: "\<not> planner_only (?src (task_Key t))"
    if "t \<in> set ((plan_Tasks p)[i := (plan_Tasks p ! i)\<lparr>task_RequiresHumanApproval := True\<rparr>])" "task_RequiresHumanApproval t" for t
  proof -
    have "t = (plan_Tasks p ! i)\<lparr>task_RequiresHumanApproval := True\<rparr> \<or> t \<in> set (plan_Tasks p)"
      using subsetD [OF set_update_subset_insert that(1)] by simp
    moreover have src: "?src (task_Key t) = (if TrimSpace (task_Key t) = TrimSpace (task_Key (plan_Tasks p ! i)) then s
        else riskAttributionSource p RiskSignalTaskRequiresHumanApproval (task_Key t))"
      using mark_task_source [OF assms(3) True] by simp
    moreover have "\<not> planner_only (riskAttributionSource p RiskSignalTaskRequiresHumanApproval (task_Key t))"
      if "t \<in> set (plan_Tasks p)" using assms(1) that \<open>task_RequiresHumanApproval t\<close> unfolding flags_attributed_def list_all_iff by blast
    ultimately show ?thesis using assms(2) by (elim disjE) simp_all
  qed
  have review: "riskAttributionSource (markTaskRequiresHumanApprovalPlatform p i s) RiskSignalPlanRequiresHumanReview [] =
      riskAttributionSource p RiskSignalPlanRequiresHumanReview []" using True assms(3) by (simp add: mark_task_source)
  show ?thesis
    unfolding flags_attributed_def review mark_task_fields mark_task_fields(2) [OF True] list_all_iff
    using approvals assms(1) by (auto simp: flags_attributed_def)
qed (use assms in \<open>simp add: markTaskRequiresHumanApprovalPlatform_def\<close>)

lemma markPlan_held: "held p \<Longrightarrow> held (markPlanRequiresHumanReviewPlatform p s)"
  by (simp add: held_def)

lemma markTask_held: "held p \<Longrightarrow> held (markTaskRequiresHumanApprovalPlatform p i s)"
  by (cases "i < length (plan_Tasks p)")
    (auto simp: held_def list_all_iff markTaskRequiresHumanApprovalPlatform_def Let_def
      dest!: subsetD [OF set_update_subset_insert])

text \<open>
  The contract of the steps that annotate a plan: they leave the work alone, raise flags only under
  the platform's name, and take no flag back. It carries over to loops.
\<close>

locale plan_annotator =
  fixes annotate :: "RouteDecisionPlan \<Rightarrow> 'x \<Rightarrow> RouteDecisionPlan"
  assumes same_work: "work (annotate p x) = work p"
    and attributed: "flags_attributed p \<Longrightarrow> flags_attributed (annotate p x)"
    and stays_held: "held p \<Longrightarrow> held (annotate p x)"
    and stays_known: "sources_known p \<Longrightarrow> sources_known (annotate p x)"
begin

lemma loop_same_work: "work (foldl annotate p xs) = work p"
  by (induction xs arbitrary: p) (simp_all add: same_work)

lemma loop_attributed: "flags_attributed p \<Longrightarrow> flags_attributed (foldl annotate p xs)"
  by (induction xs arbitrary: p) (simp_all add: attributed)

lemma loop_held: "held p \<Longrightarrow> held (foldl annotate p xs)"
  by (induction xs arbitrary: p) (simp_all add: stays_held)

lemma loop_known: "sources_known p \<Longrightarrow> sources_known (foldl annotate p xs)"
  by (induction xs arbitrary: p) (simp_all add: stays_known)
end

lemma note_work [simp]: "work (add_note k m p) = work p" "flags (add_note k m p) = flags p"
  by (simp_all add: work_def flags_def add_note_def)

lemma note_attributed [simp]: "flags_attributed (add_note k m p) = flags_attributed p" "held (add_note k m p) = held p"
    "sources_known (add_note k m p) = sources_known p"
  by (rule flags_attributed_cong, simp) (rule held_cong, simp, rule sources_known_cong, simp)

interpretation low_feasibility: plan_annotator "note_low_feasibility th" for th
  by unfold_locales (simp_all add: note_low_feasibility_def markPlan_attributed markPlan_held mark_known)

interpretation collapse: plan_annotator "annotate_collapse g" for g
  by unfold_locales (simp_all add: annotate_collapse_def markPlan_attributed markPlan_held mark_known Let_def split: list.split)

lemma rescored_work [simp]: "task_work (rescored hash profiles t) = task_work t"
  by (simp add: rescored_def scored_task_def task_work_def Let_def split: option.split)

lemma scored_flag: "task_flag (scored_task hash p t) = task_flag t"
  by (simp add: scored_task_def task_flag_def Let_def)

interpretation scoring: plan_annotator "apply_profile_score hash profiles" for hash profiles
proof unfold_locales
  fix p i
  have tasks: "flags (p\<lparr>plan_Tasks := (plan_Tasks p)[i := scored_task hash pr (plan_Tasks p ! i)]\<rparr>) = flags p" for pr
    using map_update_same [of task_flag "scored_task hash pr"] by (simp add: flags_def scored_flag)
  show "work (apply_profile_score hash profiles p i) = work p"
  proof -
    have "work (p\<lparr>plan_Tasks := (plan_Tasks p)[i := scored_task hash pr (plan_Tasks p ! i)]\<rparr>) = work p" for pr
      using map_update_same [of task_work "scored_task hash pr"] by (simp add: work_def task_work_def scored_task_def Let_def)
    then show ?thesis by (simp add: apply_profile_score_def Let_def split: option.split)
  qed
  show "flags_attributed (apply_profile_score hash profiles p i)" if "flags_attributed p"
    using that by (simp add: apply_profile_score_def Let_def markPlan_attributed markTask_attributed
        flags_attributed_cong [OF tasks] split: option.split)
  show "held (apply_profile_score hash profiles p i)" if "held p"
    using that by (simp add: apply_profile_score_def Let_def markPlan_held markTask_held held_cong [OF tasks] split: option.split)
  show "sources_known (apply_profile_score hash profiles p i)" if "sources_known p"
    using that by (simp add: apply_profile_score_def Let_def mark_known sources_known_cong [OF tasks] split: option.split)
qed

interpretation constraint: plan_annotator "\<lambda>p c. snd (enforce_constraint order g p c)" for order g
proof unfold_locales
  fix p c
  obtain ns where m: "migrateReviewerRoleToAdversarial c (gov_steps g) (gov_tasks g) (roleByKey (gov_spec g)) p =
      (False, p\<lparr>plan_ConstraintNotes := plan_ConstraintNotes p @ ns\<rparr>)" using migrate_never by blast
  have noted: "work (p\<lparr>plan_ConstraintNotes := ms\<rparr>) = work p" "flags (p\<lparr>plan_ConstraintNotes := ms\<rparr>) = flags p" for ms
    by (simp_all add: work_def flags_def)
  show "work (snd (enforce_constraint order g p c)) = work p"
    by (simp add: enforce_constraint_def Let_def m noted split: prod.split option.split bool.split)
  show "flags_attributed (snd (enforce_constraint order g p c))" if "flags_attributed p"
    using that by (simp add: enforce_constraint_def Let_def m flags_attributed_cong [OF noted(2)] markTask_attributed
        split: prod.split option.split bool.split)
  show "held (snd (enforce_constraint order g p c))" if "held p"
    using that by (simp add: enforce_constraint_def Let_def m held_cong [OF noted(2)] markTask_held
        split: prod.split option.split bool.split)
  show "sources_known (snd (enforce_constraint order g p c))" if "sources_known p"
    using that by (simp add: enforce_constraint_def Let_def m sources_known_cong [OF noted(2)] mark_known
        split: prod.split option.split bool.split)
qed

lemma constraints_loop:
  assumes "enforce_constraints order g p cs = (None, q)"
  shows "q = foldl (\<lambda>p c. snd (enforce_constraint order g p c)) p cs"
  using assms by (induction cs arbitrary: p) (auto split: prod.splits option.splits)

definition annotated :: "RouteDecisionPlan \<Rightarrow> RouteDecisionPlan \<Rightarrow> bool" where
  "annotated p q \<longleftrightarrow> work q = work p \<and> (flags_attributed p \<longrightarrow> flags_attributed q) \<and> (held p \<longrightarrow> held q) \<and>
     (sources_known p \<longrightarrow> sources_known q)"

lemma annotated_trans: "annotated p q \<Longrightarrow> annotated q r \<Longrightarrow> annotated p r"
  by (simp add: annotated_def)

lemma annotated_same: "work q = work p \<Longrightarrow> flags q = flags p \<Longrightarrow> annotated p q"
  using flags_attributed_cong [of q p] held_cong [of q p] sources_known_cong [of q p] by (simp add: annotated_def)

lemma govern_skeleton_annotates:
  assumes "govern_skeleton order snapshot tpl spec steps p = (None, q)"
  shows "annotated p q"
proof -
  let ?g = "\<lparr>gov_snapshot = snapshot, gov_template = tpl, gov_spec = spec, gov_steps = steps, gov_tasks = plan_Tasks p\<rparr>"
  obtain r where r: "enforce_constraints order ?g p (Constraints spec) = (None, r)"
    "q = foldl (annotate_collapse ?g) r (CollapseRules spec)"
    using assms by (auto simp: govern_skeleton_def Let_def split: prod.splits option.splits)
  note r1 = constraints_loop [OF r(1)]
  show ?thesis
    unfolding annotated_def r(2) collapse.loop_same_work unfolding r1 constraint.loop_same_work
    by (intro conjI impI refl collapse.loop_attributed collapse.loop_held collapse.loop_known
        constraint.loop_attributed constraint.loop_held constraint.loop_known)
qed

lemma governance_annotates:
  assumes "EnforceScenarioTemplateGovernance order snapshot p = (None, q)"
  shows "annotated p q"
proof -
  have low: "annotated r (appendLowFeasibilityNotes snapshot r)" for r
    unfolding annotated_def appendLowFeasibilityNotes_def
    by (intro conjI impI low_feasibility.loop_same_work low_feasibility.loop_attributed low_feasibility.loop_held
        low_feasibility.loop_known)
  have reset: "annotated p (p\<lparr>plan_ExitDeliverable := [], plan_AvailableExits := [], plan_ConstraintNotes := [], plan_TemplateVersion := 0\<rparr>)"
    by (rule annotated_same) (simp_all add: work_def flags_def)
  have meta: "annotated p ((appendLowFeasibilityNotes snapshot p)\<lparr>plan_TemplateVersion := v, plan_AvailableExits := es\<rparr>)" for v es
  proof (rule annotated_trans [OF low])
    show "annotated (appendLowFeasibilityNotes snapshot p)
        ((appendLowFeasibilityNotes snapshot p)\<lparr>plan_TemplateVersion := v, plan_AvailableExits := es\<rparr>)"
      by (rule annotated_same) (simp_all add: work_def flags_def)
  qed
  show ?thesis
  proof (cases "snap_ScenarioTemplate snapshot")
    case None
    with assms annotated_trans [OF reset low] show ?thesis by (auto simp: EnforceScenarioTemplateGovernance_def)
  next
    case (Some tpl)
    with assms annotated_trans [OF meta govern_skeleton_annotates] meta show ?thesis
      by (auto simp: EnforceScenarioTemplateGovernance_def Let_def split: sum.splits if_splits)
  qed
qed

section \<open>Plans that the planner returns\<close>

lemma loop_returns:
  "plan_loop env snapshot n attempt e = Inr plan \<Longrightarrow> \<exists>k. plan_attempt env snapshot k = Returns (Inr plan)"
  by (induction n arbitrary: attempt e) (auto split: outcome.splits)

lemma check_and_govern_accepts:
  "check_and_govern order snapshot p = (None, q) \<longleftrightarrow>
     ValidateRouteDecisionPlan snapshot p \<lparr>MaxTasks = 12\<rparr> = None \<and> EnforceScenarioTemplateGovernance order snapshot p = (None, q)"
  by (auto simp: check_and_govern_def split: option.splits prod.splits)

lemma reject_returns:
  assumes "reject env snapshot k p e = Returns (Inr plan)"
  obtains q where "check_and_govern (env_order env) snapshot (prepare_repair env snapshot p) = (None, q)"
    "plan = ensureHumanJudgmentCriterion q (snap_CoordinationPolicy snapshot)"
proof -
  obtain r q where c: "check_and_govern (env_order env) snapshot (prepare_repair env snapshot p) = (r, q)"
    by (cases "check_and_govern (env_order env) snapshot (prepare_repair env snapshot p)")
  with assms have "r = None" "plan = ensureHumanJudgmentCriterion q (snap_CoordinationPolicy snapshot)"
    by (auto simp: reject_def split: if_splits option.splits)
  with c that show ?thesis by simp
qed

lemma attempt_returns:
  assumes "plan_attempt env snapshot k = Returns (Inr plan)"
  obtains (answer) v d q where "decodePlannerJSON (env_uuid env) v = Some d"
      "check_and_govern (env_order env) snapshot (prepare_answer env snapshot d) = (None, q)" "plan = accept snapshot q"
    | (repair) p q where "check_and_govern (env_order env) snapshot (prepare_repair env snapshot p) = (None, q)"
      "plan = ensureHumanJudgmentCriterion q (snap_CoordinationPolicy snapshot)"
proof -
  obtain reply where reply: "env_chat env k = ChatContent reply"
    using assms by (auto simp: plan_attempt_def split: if_splits chat_result.splits prod.splits option.splits)
  obtain d where d: "Option.bind reply (decodePlannerJSON (env_uuid env)) = Some d"
    using assms reply by (auto simp: plan_attempt_def split: if_splits option.splits)
  obtain r q where c: "check_and_govern (env_order env) snapshot (prepare_answer env snapshot d) = (r, q)"
    by (cases "check_and_govern (env_order env) snapshot (prepare_answer env snapshot d)")
  show ?thesis
  proof (cases r)
    case None
    with assms reply d c have "plan = accept snapshot q" by (auto simp: plan_attempt_def split: if_splits)
    moreover obtain v where "decodePlannerJSON (env_uuid env) v = Some d" using d by (cases reply) auto
    ultimately show ?thesis using c None answer by simp
  next
    case (Some e)
    with assms reply d c have "reject env snapshot k q e = Returns (Inr plan)"
      by (auto simp: plan_attempt_def split: if_splits)
    then show ?thesis by (rule reject_returns) (rule repair)
  qed
qed

text \<open>A returned plan is a validated and governed plan with finishing touches.\<close>

lemma Plan_returns:
  assumes "Plan env cfg snapshot = Inr plan"
  obtains (answer) v d q where "decodePlannerJSON (env_uuid env) v = Some d"
      "ValidateRouteDecisionPlan snapshot (prepare_answer env snapshot d) \<lparr>MaxTasks = 12\<rparr> = None"
      "EnforceScenarioTemplateGovernance (env_order env) snapshot (prepare_answer env snapshot d) = (None, q)"
      "plan = accept snapshot q"
    | (repair) src q where "ValidateRouteDecisionPlan snapshot (prepare_repair env snapshot src) \<lparr>MaxTasks = 12\<rparr> = None"
      "EnforceScenarioTemplateGovernance (env_order env) snapshot (prepare_repair env snapshot src) = (None, q)"
      "plan = ensureHumanJudgmentCriterion q (snap_CoordinationPolicy snapshot)"
proof -
  obtain n where "plan_loop env snapshot n 0 ErrInvalidRouteDecision = Inr plan"
    using assms unfolding Plan_def by (metis sum.distinct(1))
  then obtain k where "plan_attempt env snapshot k = Returns (Inr plan)" using loop_returns by blast
  then show ?thesis
    by (rule attempt_returns) (auto simp: check_and_govern_accepts intro: answer repair)
qed

lemma ensureHuman_kept [simp]:
  "work (ensureHumanJudgmentCriterion p policy) = work p" "flags (ensureHumanJudgmentCriterion p policy) = flags p"
  "plan_RiskAttribution (ensureHumanJudgmentCriterion p policy) = plan_RiskAttribution p"
  by (simp_all add: ensureHumanJudgmentCriterion_def work_def flags_def)

lemma foldTemplate_kept [simp]:
  "work (foldTemplateAcceptanceCriteria snapshot p) = work p" "flags (foldTemplateAcceptanceCriteria snapshot p) = flags p"
  "plan_RiskAttribution (foldTemplateAcceptanceCriteria snapshot p) = plan_RiskAttribution p"
  by (simp_all add: foldTemplateAcceptanceCriteria_def work_def flags_def Let_def split: option.split sum.split)

lemma strip_kept [simp]:
  "work (stripPlannerOnlyRiskFlags p) = work p" "plan_RiskAttribution (stripPlannerOnlyRiskFlags p) = plan_RiskAttribution p"
  "plan_Criteria (stripPlannerOnlyRiskFlags p) = plan_Criteria p"
  by (simp_all add: stripPlannerOnlyRiskFlags_def work_def task_work_def Let_def)

lemma stamp_role_work: "map task_work (stamp_role tasks now s) = map task_work now"
  by (simp add: stamp_role_def Let_def map_update_same [where h = "\<lambda>t. t\<lparr>task_RoleKey := TrimSpace (step_Role s)\<rparr>"]
      task_work_def split: option.split)

lemma stamp_roles_work: "map task_work (foldl (stamp_role tasks) now ss) = map task_work now"
  by (induction ss arbitrary: now) (simp_all add: stamp_role_work)

lemma check_extra_role_work: "task_work (fst (check_extra_role allowed ks t)) = task_work t"
  by (simp add: check_extra_role_def task_work_def Let_def)

lemma Annotate_kept [simp]: "work (AnnotateAndValidateExtraTaskRoles snapshot p) = work p"
  unfolding work_def AnnotateAndValidateExtraTaskRoles_def Let_def
  by (simp add: comp_def check_extra_role_work stamp_roles_work)

lemma accept_work [simp]: "work (accept snapshot p) = work p"
  by (simp add: accept_def)

lemma same_work_tasks:
  assumes "work p = work q" "t \<in> set (plan_Tasks p)"
  obtains u where "u \<in> set (plan_Tasks q)" "task_work u = task_work t"
proof -
  have "task_work t \<in> set (work p)" using assms(2) by (simp add: work_def)
  then have "task_work t \<in> task_work ` set (plan_Tasks q)" using assms(1) by (simp add: work_def [of q])
  then show ?thesis using that by auto
qed

lemma same_work_stuck:
  assumes "work p = work q"
    and "\<And>t. t \<in> set (plan_Tasks p) \<Longrightarrow> task_Key t \<notin> finished \<Longrightarrow>
      \<exists>u \<in> set (plan_Tasks p). task_Key u \<notin> finished \<and> set (task_BlockedByKeys u) \<subseteq> finished \<and>
        (\<forall>i \<in> set (plannerRequiredInputs (task_InputRequirements u)). \<exists>v \<in> set (plan_Tasks p).
           task_Key v \<in> finished \<and> i \<in> TrimSpace ` set (task_Produces v))"
    and "t \<in> set (plan_Tasks q)" "task_Key t \<notin> finished"
  shows "\<exists>u \<in> set (plan_Tasks q). task_Key u \<notin> finished \<and> set (task_BlockedByKeys u) \<subseteq> finished \<and>
    (\<forall>i \<in> set (plannerRequiredInputs (task_InputRequirements u)). \<exists>v \<in> set (plan_Tasks q).
       task_Key v \<in> finished \<and> i \<in> TrimSpace ` set (task_Produces v))"
proof -
  obtain t' where t': "t' \<in> set (plan_Tasks p)" "task_work t' = task_work t"
    using same_work_tasks [OF assms(1) [symmetric] assms(3)] by blast
  then have "task_Key t' \<notin> finished" using assms(4) by (simp add: task_work_def)
  then obtain u where u: "u \<in> set (plan_Tasks p)" "task_Key u \<notin> finished" "set (task_BlockedByKeys u) \<subseteq> finished"
    "\<forall>i \<in> set (plannerRequiredInputs (task_InputRequirements u)). \<exists>v \<in> set (plan_Tasks p).
       task_Key v \<in> finished \<and> i \<in> TrimSpace ` set (task_Produces v)" using assms(2) [OF t'(1)] by blast
  obtain u' where u': "u' \<in> set (plan_Tasks q)" "task_work u' = task_work u" using same_work_tasks [OF assms(1) u(1)] by blast
  have supplied: "\<exists>v' \<in> set (plan_Tasks q). task_Key v' \<in> finished \<and> i \<in> TrimSpace ` set (task_Produces v')"
    if v: "v \<in> set (plan_Tasks p)" "task_Key v \<in> finished" "i \<in> TrimSpace ` set (task_Produces v)" for i v
  proof -
    obtain v' where "v' \<in> set (plan_Tasks q)" "task_work v' = task_work v" using same_work_tasks [OF assms(1) v(1)] by blast
    with v(2,3) show ?thesis by (auto simp: task_work_def intro!: bexI [of _ v'])
  qed
  have "task_Key u' \<notin> finished" "set (task_BlockedByKeys u') \<subseteq> finished" "task_InputRequirements u' = task_InputRequirements u"
    using u'(2) u(2,3) by (simp_all add: task_work_def)
  with u'(1) u(4) supplied show ?thesis by (metis (no_types, lifting))
qed

text \<open>The validated plan behind a returned one.\<close>

lemma returned_validated:
  assumes "Plan env cfg snapshot = Inr plan"
  obtains p where "ValidateRouteDecisionPlan snapshot p \<lparr>MaxTasks = 12\<rparr> = None" "work p = work plan"
  using assms
proof (cases rule: Plan_returns)
  case (answer v d q)
  then show ?thesis using that [OF answer(2)] governance_annotates [OF answer(3)] by (simp add: annotated_def)
next
  case (repair src q)
  then show ?thesis using that [OF repair(1)] governance_annotates [OF repair(2)] by (simp add: annotated_def)
qed

lemma returned_wellformed:
  assumes "Plan env cfg snapshot = Inr plan"
  obtains p where "graph_wellformed p (activeExecutorIDs (snap_DigitalEmployeePool snapshot)) \<lparr>MaxTasks = 12\<rparr>" "work p = work plan"
  using returned_validated [OF assms] validator_iff_wellformed by (metis ValidateRouteDecisionPlan_def or_else_None)

text \<open>
  Claim C17: whatever the model answers and whichever attempt succeeds, also after a repair, a plan that
  the planner returns is a route that can be carried out: it has between one and twelve tasks with
  distinct keys; every task is assigned to an active executor of the project's pool; and whatever set
  of tasks is finished, as long as one is not, some unfinished task has all its blockers finished and
  every input it requires is produced by a finished task. Casting, scoring, governance, role
  annotation and the finishing touches never undo what the validator has established.
\<close>

theorem planned_route_is_executable:
  assumes "Plan env cfg snapshot = Inr plan"
  shows "plan_Tasks plan \<noteq> [] \<and> length (plan_Tasks plan) \<le> 12 \<and> distinct (map task_Key (plan_Tasks plan)) \<and>
    (\<forall>t \<in> set (plan_Tasks plan). task_SelectedEmployeeID t \<in> set (activeExecutorIDs (snap_DigitalEmployeePool snapshot))) \<and>
    (\<forall>t \<in> set (plan_Tasks plan). \<forall>finished. task_Key t \<notin> finished \<longrightarrow>
      (\<exists>u \<in> set (plan_Tasks plan). task_Key u \<notin> finished \<and> set (task_BlockedByKeys u) \<subseteq> finished \<and>
        (\<forall>i \<in> set (plannerRequiredInputs (task_InputRequirements u)). \<exists>v \<in> set (plan_Tasks plan).
           task_Key v \<in> finished \<and> i \<in> TrimSpace ` set (task_Produces v))))"
proof -
  obtain p where v: "ValidateRouteDecisionPlan snapshot p \<lparr>MaxTasks = 12\<rparr> = None" and w: "work p = work plan"
    by (rule returned_validated [OF assms])
  have g: "ValidateRouteDecisionGraph p (activeExecutorIDs (snap_DigitalEmployeePool snapshot)) \<lparr>MaxTasks = 12\<rparr> = None"
    using v by (simp add: ValidateRouteDecisionPlan_def)
  then have wf: "graph_wellformed p (activeExecutorIDs (snap_DigitalEmployeePool snapshot)) \<lparr>MaxTasks = 12\<rparr>"
    using validator_iff_wellformed by blast
  have len: "length (plan_Tasks plan) = length (plan_Tasks p)" using w unfolding work_def by (metis length_map)
  have keys: "map task_Key (plan_Tasks plan) = map task_Key (plan_Tasks p)"
  proof -
    have "map task_Key (plan_Tasks r) = map fst (work r)" for r by (simp add: work_def task_work_def)
    with w show ?thesis by simp
  qed
  have size: "plan_Tasks plan \<noteq> []" "length (plan_Tasks plan) \<le> 12"
    using wf len by (auto simp: graph_wellformed_def Let_def)
  have dist: "distinct (map task_Key (plan_Tasks plan))"
    using wf unfolding keys by (auto simp: graph_wellformed_def Let_def)
  have pool: "task_SelectedEmployeeID t \<in> set (activeExecutorIDs (snap_DigitalEmployeePool snapshot))"
    if t: "t \<in> set (plan_Tasks plan)" for t
  proof -
    obtain u where u: "u \<in> set (plan_Tasks p)" "task_work u = task_work t" using same_work_tasks [OF w [symmetric] t] by blast
    have "task_wellformed (activeExecutorIDs (snap_DigitalEmployeePool snapshot)) u"
      using wf u(1) by (auto simp: graph_wellformed_def Let_def)
    with u(2) show ?thesis by (simp add: task_work_def task_wellformed_def)
  qed
  have step: "\<exists>u \<in> set (plan_Tasks plan). task_Key u \<notin> finished \<and> set (task_BlockedByKeys u) \<subseteq> finished \<and>
      (\<forall>i \<in> set (plannerRequiredInputs (task_InputRequirements u)). \<exists>v \<in> set (plan_Tasks plan).
         task_Key v \<in> finished \<and> i \<in> TrimSpace ` set (task_Produces v))"
    if "t \<in> set (plan_Tasks plan)" "task_Key t \<notin> finished" for t finished
    by (rule same_work_stuck [OF w never_stuck [OF g] that])
  show ?thesis by (intro conjI ballI allI impI size dist pool step)
qed

section \<open>Human stops\<close>

text \<open>The steps before validation keep flags and their record.\<close>

lemma criteria_defaults_flags [simp]: "flags (applyAcceptanceCriteriaDefaults p policy) = flags p"
  by (simp add: applyAcceptanceCriteriaDefaults_def flags_def markAmbiguousCriteria_def collapseBlockingHumanJudgment_def
      ensureProducesDeliverableCriteria_def ensureHumanJudgmentCriterion_def Let_def split: option.split)

lemma with_defaults_flag: "task_flag (with_defaults t) = task_flag t"
  by (simp add: with_defaults_def task_flag_def)

lemma task_defaults_flags [simp]: "flags (ApplyTaskTypeDefaults p) = flags p"
  by (simp add: ApplyTaskTypeDefaults_def flags_def Let_def comp_def with_defaults_flag)

lemma cast_step_flag: "map task_flag (cast_step byRole tasks now s) = map task_flag now"
  by (simp add: cast_step_def task_flag_def map_update_same [where h = "\<lambda>t. t\<lparr>task_SelectedEmployeeID := _,
      task_EmployeeSelectionReason := cast_reason (step_Role s)\<rparr>"] split: option.split)

lemma casting_flags [simp]: "flags (ApplyPlaybookCasting snapshot p) = flags p"
proof -
  have "map task_flag (foldl (cast_step byRole tasks) now ss) = map task_flag now" for byRole tasks now ss
    by (induction ss arbitrary: now) (simp_all add: cast_step_flag)
  then show ?thesis by (simp add: ApplyPlaybookCasting_def flags_def split: option.split sum.split)
qed

lemma scores_keep:
  "flags_attributed p \<Longrightarrow> flags_attributed (ApplyPlanningProfileScores hash snapshot p)"
  "held p \<Longrightarrow> held (ApplyPlanningProfileScores hash snapshot p)"
  unfolding ApplyPlanningProfileScores_def using scoring.loop_attributed scoring.loop_held by blast+

lemma strip_source: "riskAttributionSource (stripPlannerOnlyRiskFlags p) k t = riskAttributionSource p k t"
  by (simp add: riskAttributionSource_def)

lemma strip_attributed: "flags_attributed (stripPlannerOnlyRiskFlags p)"
  unfolding flags_attributed_def strip_source
  by (auto simp: stripPlannerOnlyRiskFlags_def Let_def list_all_iff)

lemma strip_id:
  assumes "flags_attributed p"
  shows "flags (stripPlannerOnlyRiskFlags p) = flags p"
  using assms by (auto simp: stripPlannerOnlyRiskFlags_def flags_def flags_attributed_def list_all_iff task_flag_def Let_def)

lemma repaired_stops:
  assumes "activeExecutorIDs (snap_DigitalEmployeePool snapshot) = e # es"
  shows "flags_attributed (synthesizeRequiredReviewPlan U snapshot (e # es) src)"
    "held (synthesizeRequiredReviewPlan U snapshot (e # es) src)"
proof -
  show "flags_attributed (synthesizeRequiredReviewPlan U snapshot (e # es) src)"
    by (simp add: synthesizeRequiredReviewPlan_def Let_def flags_attributed_def mark_task_source mark_plan_source repair_task_def)
  show "held (synthesizeRequiredReviewPlan U snapshot (e # es) src)"
    by (simp add: synthesizeRequiredReviewPlan_def Let_def held_def)
qed

lemma prepare_repair_stops:
  assumes "activeExecutorIDs (snap_DigitalEmployeePool snapshot) = e # es"
  shows "flags_attributed (prepare_repair env snapshot src)" "held (prepare_repair env snapshot src)"
proof -
  note stops = repaired_stops [OF assms, of "env_uuid env" src]
  define p where "p = ApplyTaskTypeDefaults (applyAcceptanceCriteriaDefaults
    (synthesizeRequiredReviewPlan (env_uuid env) snapshot (e # es) src) (snap_CoordinationPolicy snapshot))"
  have "flags p = flags (synthesizeRequiredReviewPlan (env_uuid env) snapshot (e # es) src)" by (simp add: p_def)
  with stops have p: "flags_attributed p" "held p" using flags_attributed_cong held_cong by blast+
  have r: "prepare_repair env snapshot src = ApplyPlaybookCasting snapshot (ApplyPlanningProfileScores (env_hash env) snapshot p)"
    by (simp add: prepare_repair_def p_def assms)
  have c: "flags (prepare_repair env snapshot src) = flags (ApplyPlanningProfileScores (env_hash env) snapshot p)"
    by (simp add: r)
  show "flags_attributed (prepare_repair env snapshot src)" "held (prepare_repair env snapshot src)"
    using scores_keep p flags_attributed_cong [OF c] held_cong [OF c] by blast+
qed

lemma repair_needs_pool:
  assumes "ValidateRouteDecisionPlan snapshot p policy = None"
  obtains e es where "activeExecutorIDs (snap_DigitalEmployeePool snapshot) = e # es"
proof -
  have wf: "graph_wellformed p (activeExecutorIDs (snap_DigitalEmployeePool snapshot)) policy"
    using assms validator_iff_wellformed by (simp add: ValidateRouteDecisionPlan_def)
  then obtain t where "t \<in> set (plan_Tasks p)" by (cases "plan_Tasks p") (auto simp: graph_wellformed_def Let_def)
  with wf have "task_SelectedEmployeeID t \<in> set (activeExecutorIDs (snap_DigitalEmployeePool snapshot))"
    by (auto simp: graph_wellformed_def Let_def task_wellformed_def)
  then show ?thesis using that by (cases "activeExecutorIDs (snap_DigitalEmployeePool snapshot)") auto
qed

lemma returned_attributed:
  assumes "Plan env cfg snapshot = Inr plan"
  shows "flags_attributed plan"
  using assms
proof (cases rule: Plan_returns)
  case (answer v d q)
  then show ?thesis by (simp add: accept_def strip_attributed)
next
  case (repair src q)
  obtain e es where "activeExecutorIDs (snap_DigitalEmployeePool snapshot) = e # es"
    by (rule repair_needs_pool [OF repair(1)])
  then have "flags_attributed q"
    using governance_annotates [OF repair(2)] prepare_repair_stops(1) by (simp add: annotated_def)
  then show ?thesis unfolding repair(3) by (subst flags_attributed_cong [where q = q]) simp_all
qed

text \<open>
  Claim C18: in every plan that the planner returns, a demand for human review or for human approval of
  a task is one the platform itself has recorded: the model cannot make the platform stop for a human
  by saying so.
\<close>

theorem human_stops_are_the_platforms:
  assumes "Plan env cfg snapshot = Inr plan"
  shows "(plan_RequiresHumanReview plan \<longrightarrow>
      riskAttributionSource plan RiskSignalPlanRequiresHumanReview [] \<notin> {[], RiskSourcePlannerSelfReported}) \<and>
    (\<forall>t \<in> set (plan_Tasks plan). task_RequiresHumanApproval t \<longrightarrow>
      riskAttributionSource plan RiskSignalTaskRequiresHumanApproval (task_Key t) \<notin> {[], RiskSourcePlannerSelfReported})"
  using returned_attributed [OF assms] by (simp add: flags_attributed_def planner_only_def list_all_iff)

text \<open>The review policy marks the plan and each of its tasks.\<close>

lemma mark_all:
  assumes "n \<le> length (plan_Tasks p)"
  defines "F \<equiv> \<lambda>n. foldl (\<lambda>p i. markTaskRequiresHumanApprovalPlatform p i RiskSourcePlatformPolicy)
    (markPlanRequiresHumanReviewPlatform p RiskSourcePlatformPolicy) [0..<n]"
  shows "work (F n) = work p \<and> plan_RequiresHumanReview (F n) \<and>
    riskAttributionSource (F n) RiskSignalPlanRequiresHumanReview [] = RiskSourcePlatformPolicy \<and>
    (\<forall>j < n. task_RequiresHumanApproval (plan_Tasks (F n) ! j) \<and>
      riskAttributionSource (F n) RiskSignalTaskRequiresHumanApproval (task_Key (plan_Tasks (F n) ! j)) = RiskSourcePlatformPolicy)"
  using assms(1)
proof (induction n)
  case 0
  then show ?case by (simp add: F_def mark_plan_source)
next
  case (Suc n)
  let ?q = "F n"
  have IH: "work ?q = work p" "plan_RequiresHumanReview ?q"
    "riskAttributionSource ?q RiskSignalPlanRequiresHumanReview [] = RiskSourcePlatformPolicy"
    "\<And>j. j < n \<Longrightarrow> task_RequiresHumanApproval (plan_Tasks ?q ! j) \<and>
      riskAttributionSource ?q RiskSignalTaskRequiresHumanApproval (task_Key (plan_Tasks ?q ! j)) = RiskSourcePlatformPolicy"
    using Suc by simp_all
  have n: "n < length (plan_Tasks ?q)"
    using IH(1) Suc.prems unfolding work_def by (metis Suc_le_lessD length_map)
  have F: "F (Suc n) = markTaskRequiresHumanApprovalPlatform ?q n RiskSourcePlatformPolicy" by (simp add: F_def)
  have j: "task_RequiresHumanApproval (plan_Tasks (F (Suc n)) ! j) \<and>
      riskAttributionSource (F (Suc n)) RiskSignalTaskRequiresHumanApproval (task_Key (plan_Tasks (F (Suc n)) ! j)) = RiskSourcePlatformPolicy"
    if "j < Suc n" for j
  proof (cases "j = n")
    case True
    with n show ?thesis unfolding F by (simp add: mark_task_source)
  next
    case False
    with that have "j < n" by simp
    with n IH(4) [OF this] show ?thesis unfolding F by (simp add: mark_task_source)
  qed
  show ?case using IH(1-3) j n unfolding F by (simp add: mark_task_source)
qed

lemma all_nth: "(\<And>j. j < length xs \<Longrightarrow> P (xs ! j)) \<Longrightarrow> list_all P xs"
  by (simp add: list_all_length)

lemma policy_stops:
  assumes "requiredHumanReviewPolicyEnabled (snap_CoordinationPolicy snapshot)"
  shows "flags_attributed (applyRequiredHumanReviewPolicy snapshot p)" "held (applyRequiredHumanReviewPolicy snapshot p)"
proof -
  let ?q = "applyRequiredHumanReviewPolicy snapshot p"
  have q: "?q = foldl (\<lambda>p i. markTaskRequiresHumanApprovalPlatform p i RiskSourcePlatformPolicy)
      (markPlanRequiresHumanReviewPlatform p RiskSourcePlatformPolicy) [0..<length (plan_Tasks p)]"
    using assms by (simp add: applyRequiredHumanReviewPolicy_def)
  have m: "work ?q = work p" "plan_RequiresHumanReview ?q"
    "riskAttributionSource ?q RiskSignalPlanRequiresHumanReview [] = RiskSourcePlatformPolicy"
    "\<And>j. j < length (plan_Tasks p) \<Longrightarrow> task_RequiresHumanApproval (plan_Tasks ?q ! j)"
    "\<And>j. j < length (plan_Tasks p) \<Longrightarrow> riskAttributionSource ?q RiskSignalTaskRequiresHumanApproval
       (task_Key (plan_Tasks ?q ! j)) = RiskSourcePlatformPolicy"
    unfolding q using mark_all [OF order.refl, of p] by blast+
  have len: "length (plan_Tasks ?q) = length (plan_Tasks p)" using m(1) unfolding work_def by (metis length_map)
  have "list_all (\<lambda>t. task_RequiresHumanApproval t \<longrightarrow>
      \<not> planner_only (riskAttributionSource ?q RiskSignalTaskRequiresHumanApproval (task_Key t))) (plan_Tasks ?q)"
  proof (rule all_nth)
    fix j assume "j < length (plan_Tasks ?q)"
    then have "j < length (plan_Tasks p)" by (simp add: len)
    from m(5) [OF this] show "task_RequiresHumanApproval (plan_Tasks ?q ! j) \<longrightarrow>
      \<not> planner_only (riskAttributionSource ?q RiskSignalTaskRequiresHumanApproval (task_Key (plan_Tasks ?q ! j)))" by simp
  qed
  then show "flags_attributed ?q" unfolding flags_attributed_def m(3) by simp
  have "list_all task_RequiresHumanApproval (plan_Tasks ?q)" by (rule all_nth) (use m(4) len in simp)
  then show "held ?q" using m(2) by (simp add: held_def)
qed

lemma Annotate_flags [simp]: "flags (AnnotateAndValidateExtraTaskRoles snapshot p) = flags p"
proof -
  have check: "task_flag (fst (check_extra_role allowed ks t)) = task_flag t" for allowed ks t
    by (simp add: check_extra_role_def task_flag_def Let_def)
  have "map task_flag (stamp_role tasks now s) = map task_flag now" for tasks now s
    by (simp add: stamp_role_def Let_def map_update_same [where h = "\<lambda>t. t\<lparr>task_RoleKey := TrimSpace (step_Role s)\<rparr>"]
        task_flag_def split: option.split)
  then have "map task_flag (foldl (stamp_role tasks) now ss) = map task_flag now" for tasks now ss
    by (induction ss arbitrary: now) simp_all
  then show ?thesis
    unfolding flags_def AnnotateAndValidateExtraTaskRoles_def Let_def by (simp add: comp_def check)
qed

lemma prepare_answer_stops:
  assumes "requiredHumanReviewPolicyEnabled (snap_CoordinationPolicy snapshot)"
  shows "flags_attributed (prepare_answer env snapshot d)" "held (prepare_answer env snapshot d)"
proof -
  define p where "p = applyRequiredHumanReviewPolicy snapshot
    (ApplyTaskTypeDefaults (applyAcceptanceCriteriaDefaults d (snap_CoordinationPolicy snapshot)))"
  have c: "flags (prepare_answer env snapshot d) = flags (ApplyPlanningProfileScores (env_hash env) snapshot p)"
    by (simp add: prepare_answer_def p_def)
  note p = policy_stops [OF assms, of "ApplyTaskTypeDefaults (applyAcceptanceCriteriaDefaults d (snap_CoordinationPolicy snapshot))", folded p_def]
  show "flags_attributed (prepare_answer env snapshot d)" "held (prepare_answer env snapshot d)"
    using scores_keep p flags_attributed_cong [OF c] held_cong [OF c] by blast+
qed

lemma returned_held:
  assumes "Plan env cfg snapshot = Inr plan"
    and "requiredHumanReviewPolicyEnabled (snap_CoordinationPolicy snapshot)"
  shows "held plan"
  using assms(1)
proof (cases rule: Plan_returns)
    case (answer v d q)
    have q: "flags_attributed q" "held q"
      using governance_annotates [OF answer(3)] prepare_answer_stops [OF assms(2)] by (simp_all add: annotated_def)
    define r where "r = foldTemplateAcceptanceCriteria snapshot
      (ensureHumanJudgmentCriterion (AnnotateAndValidateExtraTaskRoles snapshot q) (snap_CoordinationPolicy snapshot))"
    have r: "flags r = flags q" by (simp add: r_def)
    then have "flags_attributed r" using q(1) flags_attributed_cong [OF r] by simp
    then have "flags plan = flags q" using strip_id [of r] r answer(4) by (simp add: accept_def r_def)
    then show ?thesis using q(2) held_cong by blast
  next
    case (repair src q)
    obtain e es where "activeExecutorIDs (snap_DigitalEmployeePool snapshot) = e # es"
      by (rule repair_needs_pool [OF repair(1)])
    then have "held q" using governance_annotates [OF repair(2)] prepare_repair_stops(2) by (simp add: annotated_def)
    then show ?thesis unfolding repair(3) by (subst held_cong [where q = q]) simp_all
qed

text \<open>
  When the project requires human review of new demands, every plan that the planner returns
  demands review and every task of it demands approval, on the ordinary path and on the repair path.
\<close>

theorem required_review_is_enforced:
  assumes "Plan env cfg snapshot = Inr plan"
    and "requiredHumanReviewPolicyEnabled (snap_CoordinationPolicy snapshot)"
  shows "plan_RequiresHumanReview plan \<and> (\<forall>t \<in> set (plan_Tasks plan). task_RequiresHumanApproval t)"
  using returned_held [OF assms] by (simp add: held_def list_all_iff)

lemma attribute_task_risk_known: "sources_known p \<Longrightarrow> sources_known (attribute_task_risk p t)"
  by (simp add: attribute_task_risk_def Let_def set_known)

lemma self_reported_known:
  assumes "plan_RiskAttribution p = []"
  shows "sources_known (attributePlannerSelfReportedRisk p)"
proof -
  have "sources_known (foldl attribute_task_risk q ts)" if "sources_known q" for q ts
    using that by (induction ts arbitrary: q) (simp_all add: attribute_task_risk_known)
  moreover have "sources_known p" using assms by (simp add: sources_known_def)
  ultimately show ?thesis by (simp add: attributePlannerSelfReportedRisk_def Let_def set_known)
qed

lemma self_reported_criteria_known:
  "plan_RiskAttribution p = [] \<Longrightarrow> sources_known ((attributePlannerSelfReportedRisk p)\<lparr>plan_Criteria := cs\<rparr>)"
  using self_reported_known [of p] by (simp add: sources_known_def)

lemma decoded_known: "decodePlannerJSON U v = Some d \<Longrightarrow> sources_known d"
  by (auto simp: decodePlannerJSON_def dec_struct_def Let_def bind_eq_Some_conv intro!: self_reported_criteria_known
      split: gval.splits option.splits)

lemma policy_known:
  assumes "sources_known p"
  shows "sources_known (applyRequiredHumanReviewPolicy snapshot p)"
proof -
  have "sources_known (foldl (\<lambda>p i. markTaskRequiresHumanApprovalPlatform p i RiskSourcePlatformPolicy) q is)"
    if "sources_known q" for q "is"
    using that by (induction "is" arbitrary: q) (simp_all add: mark_known)
  with assms show ?thesis by (simp add: applyRequiredHumanReviewPolicy_def mark_known)
qed

lemma returned_sources_known:
  assumes "Plan env cfg snapshot = Inr plan"
  shows "sources_known plan"
  using assms
proof (cases rule: Plan_returns)
  case (answer v d q)
  let ?p = "ApplyTaskTypeDefaults (applyAcceptanceCriteriaDefaults d (snap_CoordinationPolicy snapshot))"
  have "sources_known ?p" using decoded_known [OF answer(1)] sources_known_cong [of ?p d] by simp
  then have "sources_known (ApplyPlanningProfileScores (env_hash env) snapshot (applyRequiredHumanReviewPolicy snapshot ?p))"
    unfolding ApplyPlanningProfileScores_def by (intro scoring.loop_known policy_known)
  then have "sources_known (prepare_answer env snapshot d)"
    unfolding prepare_answer_def by (subst sources_known_cong [OF casting_flags])
  then have "sources_known q" using governance_annotates [OF answer(3)] by (simp add: annotated_def)
  then have "sources_known (AnnotateAndValidateExtraTaskRoles snapshot q)"
    by (subst sources_known_cong [OF Annotate_flags])
  then show ?thesis by (simp add: answer(4) accept_def sources_known_def)
next
  case (repair src q)
  obtain e es where pool: "activeExecutorIDs (snap_DigitalEmployeePool snapshot) = e # es"
    by (rule repair_needs_pool [OF repair(1)])
  let ?s = "synthesizeRequiredReviewPlan (env_uuid env) snapshot (e # es) src"
  let ?p = "ApplyTaskTypeDefaults (applyAcceptanceCriteriaDefaults ?s (snap_CoordinationPolicy snapshot))"
  have "sources_known ?s"
    unfolding synthesizeRequiredReviewPlan_def list.case Let_def by (intro mark_known known_sources) (simp add: sources_known_def)
  then have "sources_known ?p" using sources_known_cong [of ?p ?s] by simp
  then have "sources_known (ApplyPlanningProfileScores (env_hash env) snapshot ?p)"
    unfolding ApplyPlanningProfileScores_def by (rule scoring.loop_known)
  then have "sources_known (prepare_repair env snapshot src)"
    unfolding prepare_repair_def pool by (subst sources_known_cong [OF casting_flags])
  then have "sources_known q" using governance_annotates [OF repair(2)] by (simp add: annotated_def)
  then show ?thesis by (simp add: repair(3) sources_known_def)
qed

text \<open>A returned plan that stops for a human anywhere is one with platform-recorded risk.\<close>

lemma stops_are_high_risk:
  assumes "Plan env cfg snapshot = Inr plan"
    and "plan_RequiresHumanReview plan \<or> (\<exists>t \<in> set (plan_Tasks plan). task_RequiresHumanApproval t)"
  shows "planTouchesHighRisk plan"
proof -
  obtain k t where "\<not> planner_only (riskAttributionSource plan k t)"
    using returned_attributed [OF assms(1)] assms(2) by (auto simp: flags_attributed_def list_all_iff)
  then obtain e where "e \<in> set (plan_RiskAttribution plan)" "\<not> planner_only (risk_Source e)"
    by (auto simp: riskAttributionSource_def planner_only_def find_Some_iff split: option.splits) (metis nth_mem)
  with returned_sources_known [OF assms(1)] show ?thesis
    by (auto simp: sources_known_def known_source_def planTouchesHighRisk_def planner_only_def list_all_iff list_ex_iff)
qed

lemma ensureHuman_has:
  assumes "planTouchesHighRisk p \<or> requireHumanAcceptance policy"
  shows "list_ex is_human (plan_Criteria (ensureHumanJudgmentCriterion p policy))"
  using assms by (auto simp: ensureHumanJudgmentCriterion_def is_human_def fallback_criterion_def list_ex_iff)

lemma fold_template_human:
  "list_ex is_human cs \<Longrightarrow> list_ex is_human (foldl (fold_template_criterion spec tasks ex) cs xs)"
proof (induction xs arbitrary: cs)
  case (Cons x xs)
  have "list_ex is_human (fold_template_criterion spec tasks ex cs x)"
    using Cons.prems by (simp add: fold_template_criterion_def split: prod.split)
  then show ?case using Cons.IH by simp
qed simp

lemma foldTemplate_human:
  "list_ex is_human (plan_Criteria p) \<Longrightarrow> list_ex is_human (plan_Criteria (foldTemplateAcceptanceCriteria snapshot p))"
  by (simp add: foldTemplateAcceptanceCriteria_def fold_template_human Let_def split: option.split sum.split)

text \<open>
  A returned plan that stops for a human anywhere, or for which the platform has recorded any
  risk, or of a project that requires human acceptance, carries an acceptance criterion whose
  verification method is human judgment.
\<close>

theorem high_risk_plans_carry_a_human_criterion:
  assumes "Plan env cfg snapshot = Inr plan"
    and "plan_RequiresHumanReview plan \<or> (\<exists>t \<in> set (plan_Tasks plan). task_RequiresHumanApproval t) \<or>
      planTouchesHighRisk plan \<or> requireHumanAcceptance (snap_CoordinationPolicy snapshot)"
  shows "\<exists>c \<in> set (plan_Criteria plan). pac_VerificationMethod c = VerificationMethodHumanJudgment"
proof -
  have risk: "planTouchesHighRisk plan \<or> requireHumanAcceptance (snap_CoordinationPolicy snapshot)"
    using stops_are_high_risk [OF assms(1)] assms(2) by blast
  have "list_ex is_human (plan_Criteria plan)"
    using assms(1)
  proof (cases rule: Plan_returns)
    case (answer v d q)
    let ?a = "AnnotateAndValidateExtraTaskRoles snapshot q"
    have "plan_RiskAttribution plan = plan_RiskAttribution ?a" by (simp add: answer(4) accept_def)
    then have "planTouchesHighRisk ?a \<or> requireHumanAcceptance (snap_CoordinationPolicy snapshot)"
      using risk by (simp add: planTouchesHighRisk_def)
    then show ?thesis using ensureHuman_has foldTemplate_human by (simp add: answer(4) accept_def)
  next
    case (repair src q)
    then have "planTouchesHighRisk q \<or> requireHumanAcceptance (snap_CoordinationPolicy snapshot)"
      using risk by (simp add: planTouchesHighRisk_def)
    then show ?thesis unfolding repair(3) by (rule ensureHuman_has)
  qed
  then show ?thesis by (auto simp: list_ex_iff is_human_def)
qed

section \<open>Examples\<close>

text \<open>An answer with one task and two criteria of the planner's own, one of them a human judgment.\<close>

definition example_answer :: gval where
  "example_answer = GMap
     [(''reason'', GStr ''reason''),
      (''tasks'', GList [GMap [(''key'', GStr ''build''), (''title'', GStr ''Build''), (''summary'', GStr ''Build it''),
         (''selected_employee_id'', GStr ''1''), (''employee_selection_reason'', GStr ''fits''), (''task_kind'', GStr ''execution''),
         (''risk_level'', GStr ''normal''), (''expected_outputs'', GList [GStr ''binary'']), (''selection_confidence'', GNum 1 ''1''),
         (''input_requirements'', GMap [(''note'', GStr ''none'')]), (''handoff_contract'', GMap [(''note'', GStr ''none'')])]]),
      (''plan_acceptance_criteria'', GList [
         GMap [(''id'', GStr ''tests''), (''statement'', GStr ''all tests pass''), (''satisfied_by'', GList [GStr ''build'']),
               (''verification_method'', GStr ''automated_test'')],
         GMap [(''id'', GStr ''look''), (''statement'', GStr ''it looks right''),
               (''verification_method'', GStr ''human_judgment'')]])]"

definition example_decoded :: RouteDecisionPlan where
  "example_decoded = example_plan
     [(example_task ''build'' [] [])\<lparr>task_Title := ''Build'', task_Summary := ''Build it'', task_TaskKind := ''execution'',
        task_RiskLevel := ''normal'', task_ExpectedOutputs := [''binary''], task_SelectionConfidence := 1,
        task_InputRequirements := Some [(''note'', GStr ''none'')], task_HandoffContract := Some [(''note'', GStr ''none'')]\<rparr>]
     [\<lparr>pac_ID = ''tests'', pac_Statement = ''all tests pass'', pac_SatisfiedBy = [''build''], pac_VerificationMethod = ''automated_test'',
        pac_Severity = [], pac_EvidenceHint = [], pac_AmbiguityFlag = False, pac_Source = ''planner_authored''\<rparr>,
      \<lparr>pac_ID = ''look'', pac_Statement = ''it looks right'', pac_SatisfiedBy = [], pac_VerificationMethod = ''human_judgment'',
        pac_Severity = [], pac_EvidenceHint = [], pac_AmbiguityFlag = False, pac_Source = ''planner_authored''\<rparr>] []"

lemma example_decodes: "decodePlannerJSON decimal_uuid_lib example_answer = Some example_decoded"
  by code_simp

text \<open>The client fails once and then answers.\<close>

definition example_env :: planner_env where
  "example_env =
     \<lparr>env_chat = (\<lambda>n. if n = 0 then ChatError \<lparr>ce_parent_done = False, ce_is_deadline = False, ce_request_deadline = False,
        ce_timeout = False, ce_is_canceled = False\<rparr> else ChatContent (Some example_answer)),
      env_done = (\<lambda>_ _. False), env_done_at_entry = False, env_order = (\<lambda>xs. xs), env_hash = (\<lambda>_. ''hash''),
      env_uuid = decimal_uuid_lib\<rparr>"

definition example_config :: OpenAICompatiblePlannerConfig where
  "example_config = \<lparr>cfg_APIKey = ''key'', cfg_BaseURL = ''url'', cfg_Model = ''model'', cfg_MaxAttempts = 3\<rparr>"

definition example_review_snapshot :: CoordinationSnapshot where
  "example_review_snapshot = (example_snapshot None example_pool)
     \<lparr>snap_CoordinationPolicy := [(''require_human_review_for_new_demands'', GBool True), (''require_human_acceptance'', GBool True)]\<rparr>"

definition example_route :: RouteDecisionPlan where
  "example_route = accept example_review_snapshot (snd (check_and_govern (\<lambda>xs. xs) example_review_snapshot
     (prepare_answer example_env example_review_snapshot example_decoded)))"

lemma example_accepted:
  "fst (check_and_govern (\<lambda>xs. xs) example_review_snapshot (prepare_answer example_env example_review_snapshot example_decoded)) = None"
  by code_simp

lemma example_run: "Plan example_env example_config example_review_snapshot = Inr example_route"
proof -
  let ?p = "prepare_answer example_env example_review_snapshot example_decoded"
  have c: "check_and_govern (\<lambda>xs. xs) example_review_snapshot ?p =
      (None, snd (check_and_govern (\<lambda>xs. xs) example_review_snapshot ?p))"
    using example_accepted by (simp add: prod_eq_iff)
  have env: "env_chat example_env 0 = ChatError \<lparr>ce_parent_done = False, ce_is_deadline = False, ce_request_deadline = False,
      ce_timeout = False, ce_is_canceled = False\<rparr>" "env_chat example_env (Suc 0) = ChatContent (Some example_answer)"
    "\<And>n k. \<not> env_done example_env n k" "\<not> env_done_at_entry example_env" "env_order example_env = (\<lambda>xs. xs)"
    "env_uuid example_env = decimal_uuid_lib" by (simp_all add: example_env_def)
  have "plan_attempt example_env example_review_snapshot 0 = Continues ErrChat"
    by (simp add: plan_attempt_def env plannerContextError_def)
  moreover have "plan_attempt example_env example_review_snapshot (Suc 0) = Returns (Inr example_route)"
    unfolding plan_attempt_def env chat_result.case bind.bind_lunit example_decodes option.case example_route_def
    by (subst c) (simp add: env)
  moreover have "nat (cfg_MaxAttempts example_config) = Suc (Suc (Suc 0))" "cfg_MaxAttempts example_config > 0"
    by (simp_all add: example_config_def)
  moreover have "\<not> blank (cfg_APIKey example_config)" "\<not> blank (cfg_BaseURL example_config)" "\<not> blank (cfg_Model example_config)"
    by code_simp+
  ultimately show ?thesis by (simp add: Plan_def env)
qed

lemma example_policy:
  "requiredHumanReviewPolicyEnabled (snap_CoordinationPolicy example_review_snapshot)"
  "requireHumanAcceptance (snap_CoordinationPolicy example_review_snapshot)"
  by code_simp+

theorem planned_route_is_executable_witness:
  "plan_Tasks example_route \<noteq> [] \<and> list_all (\<lambda>t. task_SelectedEmployeeID t = 1) (plan_Tasks example_route)"
proof -
  have "set (activeExecutorIDs (snap_DigitalEmployeePool example_review_snapshot)) = {1}" by code_simp
  then show ?thesis using planned_route_is_executable [OF example_run] by (simp add: list_all_iff)
qed

theorem human_stops_are_the_platforms_witness:
  "riskAttributionSource example_route RiskSignalPlanRequiresHumanReview [] \<noteq> RiskSourcePlannerSelfReported"
proof -
  have "plan_RequiresHumanReview example_route"
    using returned_held [OF example_run example_policy(1)] by (simp add: held_def)
  then show ?thesis using human_stops_are_the_platforms [OF example_run] by simp
qed

theorem required_review_is_enforced_witness:
  "plan_RequiresHumanReview example_route \<and> list_all task_RequiresHumanApproval (plan_Tasks example_route)"
  using required_review_is_enforced [OF example_run example_policy(1)] by (simp add: list_all_iff)

theorem high_risk_plans_carry_a_human_criterion_witness:
  "\<exists>c \<in> set (plan_Criteria example_route). pac_VerificationMethod c = VerificationMethodHumanJudgment"
  using high_risk_plans_carry_a_human_criterion [OF example_run] example_policy(2) by simp
end
