(* ===== verification/Plan_Revision.thy ===== *)
theory Plan_Revision
  imports Planner_Pipeline "HOL-Library.Product_Lexorder"
begin

text \<open>
  The plan revision: the payload a human reviews, its validation, its canonical form and the status it
  is stored with, after \<^verbatim>\<open>workflow/projectcoordination/plan_revision_payload.go\<close> and \<^verbatim>\<open>PersistPlanRevision\<close>
  of \<^verbatim>\<open>project_store.go\<close>. Values are not shared, so the deep copies of maps and arrays are identities
  and left out. The digest of a canonical payload (SHA-256 over its JSON encoding, \<open>None\<close> where the
  encoding fails) is a parameter.
\<close>

section \<open>Records\<close>

record PlanRevisionTask =
  prt_PlannedTaskKey :: string
  prt_Title :: string
  prt_Objective :: string
  prt_TaskType :: string
  prt_SelectedEmployeeID :: string
  prt_EmployeeSelectionReason :: string
  prt_RequiredCapabilities :: "string list"
  prt_MatchedCapabilities :: "string list"
  prt_MissingCapabilities :: "string list"
  prt_PermissionRequirements :: "string list"
  prt_ToolRequirements :: "string list"
  prt_RuntimeRequirements :: "string list"
  prt_InputContextRefs :: "string list"
  prt_InputRequirements :: "gmap option"
  prt_Produces :: "string list"
  prt_ExpectedOutputs :: "string list"
  prt_AcceptanceCriteria :: "string list"
  prt_VerificationRequirements :: "string list"
  prt_DependsOn :: "string list"
  prt_RiskLevel :: string
  prt_HumanReviewRequired :: bool
  prt_SelectionScore :: int
  prt_SelectionConfidence :: rat
  prt_PlanningProfileSnapshotHash :: string
  prt_HandoffContract :: "gmap option"
  prt_RoleKey :: string

record PlanRevisionRiskAssessment =
  ra_HighestRiskLevel :: string
  ra_HighRiskTaskKeys :: "string list"

record PlanRevisionHumanReview =
  hr_Required :: bool
  hr_Reasons :: "string list"

record PlanRevisionPayload =
  prp_Summary :: string
  prp_TemplateKey :: string
  prp_TemplateVersion :: int
  prp_ExitDeliverable :: string
  prp_AvailableExits :: "PlanExitOption list"
  prp_ConstraintNotes :: "PlanConstraintNote list"
  prp_Assumptions :: "string list"
  prp_RiskAssessment :: PlanRevisionRiskAssessment
  prp_HumanReview :: PlanRevisionHumanReview
  prp_Tasks :: "PlanRevisionTask list"
  prp_Criteria :: "PlanAcceptanceCriterion list"
  prp_RiskAttribution :: "RiskSignalAttribution list"
  prp_RequiredSections :: "string list"

record PlanRevisionPayloadValidationResult =
  prv_Acceptable :: bool
  prv_PlanFingerprint :: string
  prv_Errors :: "string list"
  prv_Warnings :: "string list"
  prv_ReviewRequired :: bool
  prv_ReviewReasons :: "string list"

section \<open>Helpers\<close>

definition nonEmptyPlanRevisionStrings :: "string list \<Rightarrow> string list" where
  "nonEmptyPlanRevisionStrings values = filter (\<lambda>s. s \<noteq> []) (map TrimSpace values)"

fun planRevisionStringSliceFromAny :: "gval \<Rightarrow> string list" where
  "planRevisionStringSliceFromAny (GStr s) = nonEmptyPlanRevisionStrings [s]"
| "planRevisionStringSliceFromAny (GStrs ss) = nonEmptyPlanRevisionStrings ss"
| "planRevisionStringSliceFromAny (GList vs) = nonEmptyPlanRevisionStrings (List.map_filter as_str vs)"
| "planRevisionStringSliceFromAny _ = []"

definition or_outputs :: "string list \<Rightarrow> string list \<Rightarrow> string list" where
  "or_outputs criteria expectedOutputs = (if criteria \<noteq> [] then criteria else expectedOutputs)"

definition acceptanceCriteriaFromHandoffContract :: "gmap option \<Rightarrow> string list \<Rightarrow> string list" where
  "acceptanceCriteriaFromHandoffContract contract expectedOutputs =
     (case contract of
        None \<Rightarrow> expectedOutputs
      | Some m \<Rightarrow>
          (case gget m ''acceptance_criteria'' of
             GStrs ss \<Rightarrow> or_outputs (nonEmptyPlanRevisionStrings ss) expectedOutputs
           | GList vs \<Rightarrow> or_outputs (planRevisionStringSliceFromAny (GList vs)) expectedOutputs
           | GStr s \<Rightarrow> or_outputs (nonEmptyPlanRevisionStrings [s]) expectedOutputs
           | _ \<Rightarrow> expectedOutputs))"

definition inputContextRefsFromRequirements :: "gmap option \<Rightarrow> string list" where
  "inputContextRefsFromRequirements requirements =
     (case requirements of
        None \<Rightarrow> []
      | Some m \<Rightarrow> concat (map (\<lambda>k. planRevisionStringSliceFromAny (gget m k))
                    [''input_context_refs'', ''context_refs'', ''required_context'', ''required_context_refs'']))"

definition isHighRiskLevel :: "string \<Rightarrow> bool" where
  "isHighRiskLevel value \<longleftrightarrow> ToLower (TrimSpace value) \<in> {''high'', ''critical''}"

definition riskRank :: "string \<Rightarrow> int" where
  "riskRank value =
     (let v = ToLower (TrimSpace value) in
      if v = ''low'' \<or> v = ''normal'' then 1
      else if v = ''medium'' then 2
      else if v = ''high'' then 3
      else if v = ''critical'' then 4
      else 0)"

definition higherRiskLevel :: "string \<Rightarrow> string \<Rightarrow> string" where
  "higherRiskLevel left right = (if riskRank right > riskRank left then ToLower (TrimSpace right) else left)"

section \<open>Building the payload\<close>

definition revision_task :: "uuid_lib \<Rightarrow> PlannedTask \<Rightarrow> PlanRevisionTask" where
  "revision_task U task =
     \<lparr>prt_PlannedTaskKey = task_Key task, prt_Title = task_Title task, prt_Objective = task_Summary task,
      prt_TaskType = task_TaskKind task, prt_SelectedEmployeeID = uuid_String U (task_SelectedEmployeeID task),
      prt_EmployeeSelectionReason = task_EmployeeSelectionReason task,
      prt_RequiredCapabilities = task_RequiredCapabilities task, prt_MatchedCapabilities = task_MatchedCapabilities task,
      prt_MissingCapabilities = task_MissingCapabilities task, prt_PermissionRequirements = task_PermissionRequirements task,
      prt_ToolRequirements = task_ToolRequirements task, prt_RuntimeRequirements = task_RuntimeRequirements task,
      prt_InputContextRefs = inputContextRefsFromRequirements (task_InputRequirements task),
      prt_InputRequirements = task_InputRequirements task, prt_Produces = task_Produces task,
      prt_ExpectedOutputs = task_ExpectedOutputs task,
      prt_AcceptanceCriteria = acceptanceCriteriaFromHandoffContract (task_HandoffContract task) (task_ExpectedOutputs task),
      prt_VerificationRequirements = task_VerificationRequirements task, prt_DependsOn = task_BlockedByKeys task,
      prt_RiskLevel = task_RiskLevel task, prt_HumanReviewRequired = task_RequiresHumanApproval task,
      prt_SelectionScore = task_SelectionScore task, prt_SelectionConfidence = task_SelectionConfidence task,
      prt_PlanningProfileSnapshotHash = task_PlanningProfileSnapshotHash task,
      prt_HandoffContract = task_HandoffContract task, prt_RoleKey = TrimSpace (task_RoleKey task)\<rparr>"

definition note_human_review :: "PlanRevisionHumanReview \<Rightarrow> PlannedTask \<Rightarrow> PlanRevisionHumanReview" where
  "note_human_review humanReview task =
     (if task_RequiresHumanApproval task
      then \<lparr>hr_Required = True,
            hr_Reasons = appendUniqueString (hr_Reasons humanReview) (''task_requires_human_approval:'' @ task_Key task)\<rparr>
      else humanReview)"

definition assess_risk :: "PlanRevisionRiskAssessment \<Rightarrow> PlannedTask \<Rightarrow> PlanRevisionRiskAssessment" where
  "assess_risk r task =
     \<lparr>ra_HighestRiskLevel = higherRiskLevel (ra_HighestRiskLevel r) (task_RiskLevel task),
      ra_HighRiskTaskKeys = (if isHighRiskLevel (task_RiskLevel task) then ra_HighRiskTaskKeys r @ [task_Key task]
                             else ra_HighRiskTaskKeys r)\<rparr>"

definition defaultFinalSummaryRequiredSections :: "string list" where
  "defaultFinalSummaryRequiredSections = [''conclusion'', ''evidence'', ''risks'', ''next_steps'']"

definition BuildPlanRevisionPayload :: "uuid_lib \<Rightarrow> RouteDecisionPlan \<Rightarrow> PlanRevisionPayload" where
  "BuildPlanRevisionPayload U plan =
     \<lparr>prp_Summary = plan_Reason plan, prp_TemplateKey = plan_TemplateKey plan, prp_TemplateVersion = plan_TemplateVersion plan,
      prp_ExitDeliverable = plan_ExitDeliverable plan, prp_AvailableExits = plan_AvailableExits plan,
      prp_ConstraintNotes = plan_ConstraintNotes plan, prp_Assumptions = [],
      prp_RiskAssessment = foldl assess_risk \<lparr>ra_HighestRiskLevel = [], ra_HighRiskTaskKeys = []\<rparr> (plan_Tasks plan),
      prp_HumanReview = foldl note_human_review
        \<lparr>hr_Required = plan_RequiresHumanReview plan,
         hr_Reasons = (if plan_RequiresHumanReview plan then [''plan_requires_human_review''] else [])\<rparr> (plan_Tasks plan),
      prp_Tasks = map (revision_task U) (plan_Tasks plan), prp_Criteria = plan_Criteria plan,
      prp_RiskAttribution = plan_RiskAttribution plan, prp_RequiredSections = defaultFinalSummaryRequiredSections\<rparr>"

section \<open>The canonical form\<close>

text \<open>
  The in-place insertion sort of the file, on any element type: \<open>sorted_rev\<close> is the sorted prefix from
  its last element to its first.
\<close>

fun insert_from_end :: "('a \<Rightarrow> 'a \<Rightarrow> bool) \<Rightarrow> 'a \<Rightarrow> 'a list \<Rightarrow> 'a list" where
  "insert_from_end lt x [] = [x]"
| "insert_from_end lt x (y # ys) = (if lt x y then y # insert_from_end lt x ys else x # y # ys)"

definition insertion_sort :: "('a \<Rightarrow> 'a \<Rightarrow> bool) \<Rightarrow> 'a list \<Rightarrow> 'a list" where
  "insertion_sort lt xs = rev (foldl (\<lambda>sorted_rev x. insert_from_end lt x sorted_rev) [] xs)"

definition sortedPlanRevisionStrings :: "string list \<Rightarrow> string list" where
  "sortedPlanRevisionStrings values = insertion_sort (\<lambda>a b. a < b) values"

definition planRevisionTaskLess :: "PlanRevisionTask \<Rightarrow> PlanRevisionTask \<Rightarrow> bool" where
  "planRevisionTaskLess left right =
     (if prt_PlannedTaskKey left \<noteq> prt_PlannedTaskKey right then prt_PlannedTaskKey left < prt_PlannedTaskKey right
      else if prt_Title left \<noteq> prt_Title right then prt_Title left < prt_Title right
      else prt_Objective left < prt_Objective right)"

definition sortPlanRevisionTasks :: "PlanRevisionTask list \<Rightarrow> PlanRevisionTask list" where
  "sortPlanRevisionTasks tasks = insertion_sort planRevisionTaskLess tasks"

definition sortPlanAcceptanceCriteria :: "PlanAcceptanceCriterion list \<Rightarrow> PlanAcceptanceCriterion list" where
  "sortPlanAcceptanceCriteria criteria = insertion_sort (\<lambda>a b. pac_ID a < pac_ID b) criteria"

definition canonicalPlanAcceptanceCriteria :: "PlanAcceptanceCriterion list \<Rightarrow> PlanAcceptanceCriterion list" where
  "canonicalPlanAcceptanceCriteria criteria =
     sortPlanAcceptanceCriteria (map (\<lambda>c. c\<lparr>pac_SatisfiedBy := sortedPlanRevisionStrings (pac_SatisfiedBy c)\<rparr>) criteria)"

definition canonicalPlanRevisionTask :: "PlanRevisionTask \<Rightarrow> PlanRevisionTask" where
  "canonicalPlanRevisionTask task =
     \<lparr>prt_PlannedTaskKey = prt_PlannedTaskKey task, prt_Title = prt_Title task, prt_Objective = prt_Objective task,
      prt_TaskType = prt_TaskType task, prt_SelectedEmployeeID = prt_SelectedEmployeeID task,
      prt_EmployeeSelectionReason = prt_EmployeeSelectionReason task,
      prt_RequiredCapabilities = sortedPlanRevisionStrings (prt_RequiredCapabilities task),
      prt_MatchedCapabilities = sortedPlanRevisionStrings (prt_MatchedCapabilities task),
      prt_MissingCapabilities = sortedPlanRevisionStrings (prt_MissingCapabilities task),
      prt_PermissionRequirements = sortedPlanRevisionStrings (prt_PermissionRequirements task),
      prt_ToolRequirements = sortedPlanRevisionStrings (prt_ToolRequirements task),
      prt_RuntimeRequirements = sortedPlanRevisionStrings (prt_RuntimeRequirements task),
      prt_InputContextRefs = sortedPlanRevisionStrings (prt_InputContextRefs task),
      prt_InputRequirements = prt_InputRequirements task,
      prt_Produces = sortedPlanRevisionStrings (prt_Produces task),
      prt_ExpectedOutputs = sortedPlanRevisionStrings (prt_ExpectedOutputs task),
      prt_AcceptanceCriteria = sortedPlanRevisionStrings (prt_AcceptanceCriteria task),
      prt_VerificationRequirements = sortedPlanRevisionStrings (prt_VerificationRequirements task),
      prt_DependsOn = sortedPlanRevisionStrings (prt_DependsOn task),
      prt_RiskLevel = prt_RiskLevel task, prt_HumanReviewRequired = prt_HumanReviewRequired task,
      prt_SelectionScore = prt_SelectionScore task, prt_SelectionConfidence = prt_SelectionConfidence task,
      prt_PlanningProfileSnapshotHash = prt_PlanningProfileSnapshotHash task,
      prt_HandoffContract = prt_HandoffContract task, prt_RoleKey = []\<rparr>"

definition canonicalPlanRevisionPayload :: "PlanRevisionPayload \<Rightarrow> PlanRevisionPayload" where
  "canonicalPlanRevisionPayload payload =
     \<lparr>prp_Summary = prp_Summary payload, prp_TemplateKey = prp_TemplateKey payload,
      prp_TemplateVersion = prp_TemplateVersion payload, prp_ExitDeliverable = prp_ExitDeliverable payload,
      prp_AvailableExits = [], prp_ConstraintNotes = [], prp_Assumptions = sortedPlanRevisionStrings (prp_Assumptions payload),
      prp_RiskAssessment =
        \<lparr>ra_HighestRiskLevel = ra_HighestRiskLevel (prp_RiskAssessment payload),
         ra_HighRiskTaskKeys = sortedPlanRevisionStrings (ra_HighRiskTaskKeys (prp_RiskAssessment payload))\<rparr>,
      prp_HumanReview =
        \<lparr>hr_Required = hr_Required (prp_HumanReview payload),
         hr_Reasons = sortedPlanRevisionStrings (hr_Reasons (prp_HumanReview payload))\<rparr>,
      prp_Tasks = sortPlanRevisionTasks (map canonicalPlanRevisionTask (prp_Tasks payload)),
      prp_Criteria = canonicalPlanAcceptanceCriteria (prp_Criteria payload), prp_RiskAttribution = [],
      prp_RequiredSections = sortedPlanRevisionStrings (prp_RequiredSections payload)\<rparr>"

definition CanonicalPlanFingerprint :: "(PlanRevisionPayload \<Rightarrow> string option) \<Rightarrow> PlanRevisionPayload \<Rightarrow> string option" where
  "CanonicalPlanFingerprint digest payload = digest (canonicalPlanRevisionPayload payload)"

section \<open>Validation\<close>

definition payloadHasPlatformDerivedRisk :: "PlanRevisionPayload \<Rightarrow> bool" where
  "payloadHasPlatformDerivedRisk payload \<longleftrightarrow>
     list_ex (\<lambda>entry. HasPrefix (risk_Source entry) ''platform_derived:'') (prp_RiskAttribution payload)"

definition validateFinalSummaryContract :: "string list \<Rightarrow> string list" where
  "validateFinalSummaryContract requiredSections =
     map (\<lambda>required. ''missing_final_summary_required_section:'' @ required)
       (filter (\<lambda>required. required \<notin> set (nonEmptyPlanRevisionStrings requiredSections)) defaultFinalSummaryRequiredSections)"

text \<open>The body of the first loop over tasks; \<open>seen\<close> are the canonical keys counted so far.\<close>

definition key_errors :: "string list \<Rightarrow> PlanRevisionTask \<Rightarrow> string list" where
  "key_errors seen task =
     (let key = TrimSpace (prt_PlannedTaskKey task) in
      if key = [] then [''missing_planned_task_key'']
      else if key \<noteq> prt_PlannedTaskKey task then [''non_canonical_planned_task_key:'' @ key]
      else if key \<in> set seen then [''duplicate_planned_task_key:'' @ key] else [])"

definition canonical_key :: "PlanRevisionTask \<Rightarrow> bool" where
  "canonical_key task \<longleftrightarrow> prt_PlannedTaskKey task \<noteq> [] \<and> TrimSpace (prt_PlannedTaskKey task) = prt_PlannedTaskKey task"

definition revision_task_errors :: "uuid_lib \<Rightarrow> string list \<Rightarrow> PlanRevisionTask \<Rightarrow> string list" where
  "revision_task_errors U seen task =
     (let key = TrimSpace (prt_PlannedTaskKey task) in
      key_errors seen task @
      (case uuid_Parse U (TrimSpace (prt_SelectedEmployeeID task)) of
         None \<Rightarrow> [''invalid_selected_employee_id:'' @ key]
       | Some employeeID \<Rightarrow> if employeeID = uuid_Nil then [''missing_selected_employee_id:'' @ key] else []) @
      (if nonEmptyPlanRevisionStrings (prt_ExpectedOutputs task) = [] then [''missing_expected_outputs:'' @ key] else []) @
      (if nonEmptyPlanRevisionStrings (prt_AcceptanceCriteria task) = [] then [''missing_acceptance_criteria:'' @ key] else []))"

fun revision_tasks_errors :: "uuid_lib \<Rightarrow> string list \<Rightarrow> PlanRevisionTask list \<Rightarrow> string list" where
  "revision_tasks_errors U seen [] = []"
| "revision_tasks_errors U seen (t # ts) =
     revision_task_errors U seen t @
     revision_tasks_errors U (if canonical_key t then prt_PlannedTaskKey t # seen else seen) ts"

definition dependency_errors :: "string list \<Rightarrow> PlanRevisionTask \<Rightarrow> string list" where
  "dependency_errors keys task =
     (let taskKey = TrimSpace (prt_PlannedTaskKey task) in
      concat (map (\<lambda>dep.
        let depKey = TrimSpace dep in
        if depKey \<noteq> dep then [''non_canonical_dependency:'' @ taskKey @ ''->'' @ depKey]
        else if depKey \<notin> set keys then [''unknown_dependency:'' @ taskKey @ ''->'' @ depKey]
        else []) (prt_DependsOn task)))"

text \<open>
  The dependency map of the second cycle search: under trimmed, non-empty keys, the last entry of a
  key counts; dependencies are trimmed and followed only to keys of the map.
\<close>

definition revision_keys :: "PlanRevisionTask list \<Rightarrow> string list" where
  "revision_keys tasks = filter (\<lambda>k. k \<noteq> []) (map (\<lambda>t. TrimSpace (prt_PlannedTaskKey t)) tasks)"

definition revision_dependencies :: "PlanRevisionTask list \<Rightarrow> string \<Rightarrow> string list" where
  "revision_dependencies tasks key =
     (if key = [] then []
      else case map_of (rev (map (\<lambda>t. (TrimSpace (prt_PlannedTaskKey t), prt_DependsOn t)) tasks)) key of
             None \<Rightarrow> []
           | Some deps \<Rightarrow> filter (\<lambda>d. d \<in> set (revision_keys tasks)) (map TrimSpace deps))"

definition planRevisionPayloadHasCycle_in :: "string list \<Rightarrow> PlanRevisionTask list \<Rightarrow> bool option" where
  "planRevisionPayloadHasCycle_in order tasks =
     map_option fst (visit_nodes (Suc (length tasks)) (revision_dependencies tasks) order (\<lambda>_. 0))"

definition planRevisionPayloadHasCycle :: "PlanRevisionTask list \<Rightarrow> bool" where
  "planRevisionPayloadHasCycle tasks = (planRevisionPayloadHasCycle_in (remdups (revision_keys tasks)) tasks = Some True)"

definition review_reasons :: "PlanRevisionPayload \<Rightarrow> string list" where
  "review_reasons payload =
     (if payloadHasPlatformDerivedRisk payload then
        let reasons = foldl appendUniqueString [] (hr_Reasons (prp_HumanReview payload))
        in if reasons = [] then [''platform_derived_risk''] else reasons
      else [])"

definition payload_errors :: "uuid_lib \<Rightarrow> PlanRevisionPayload \<Rightarrow> string list" where
  "payload_errors U payload =
     (let tasks = prp_Tasks payload; keys = map prt_PlannedTaskKey (filter canonical_key tasks) in
      validateFinalSummaryContract (prp_RequiredSections payload) @
      (if tasks = [] then [''missing_tasks''] else []) @
      revision_tasks_errors U [] tasks @
      concat (map (dependency_errors keys) tasks) @
      (if planRevisionPayloadHasCycle tasks then [''cycle_detected''] else []))"

definition ValidatePlanRevisionPayload ::
  "(PlanRevisionPayload \<Rightarrow> string option) \<Rightarrow> uuid_lib \<Rightarrow> PlanRevisionPayload \<Rightarrow> PlanRevisionPayloadValidationResult" where
  "ValidatePlanRevisionPayload digest U payload =
     (case CanonicalPlanFingerprint digest payload of
        None \<Rightarrow> \<lparr>prv_Acceptable = False, prv_PlanFingerprint = [], prv_Errors = [''payload_not_encodable''], prv_Warnings = [],
                prv_ReviewRequired = False, prv_ReviewReasons = []\<rparr>
      | Some fingerprint \<Rightarrow>
          \<lparr>prv_Acceptable = (payload_errors U payload = []), prv_PlanFingerprint = fingerprint,
           prv_Errors = payload_errors U payload, prv_Warnings = [],
           prv_ReviewRequired = payloadHasPlatformDerivedRisk payload, prv_ReviewReasons = review_reasons payload\<rparr>)"

section \<open>Back to planned tasks\<close>

definition with_acceptance :: "string list \<Rightarrow> gmap option \<Rightarrow> gmap" where
  "with_acceptance criteria contract =
     (let m = (case contract of None \<Rightarrow> [] | Some m \<Rightarrow> m) in
      if criteria \<noteq> [] \<and> map_of m ''acceptance_criteria'' = None
      then AList.update ''acceptance_criteria'' (GStrs criteria) m else m)"

definition planned_inputs :: "PlanRevisionTask \<Rightarrow> gmap" where
  "planned_inputs task =
     (case prt_InputRequirements task of
        Some m \<Rightarrow> m
      | None \<Rightarrow> if prt_InputContextRefs task \<noteq> [] then [(''input_context_refs'', GStrs (prt_InputContextRefs task))] else [])"

definition planned_task :: "uuid_lib \<Rightarrow> PlanRevisionTask \<Rightarrow> PlannedTask" where
  "planned_task U task =
     \<lparr>task_Key = prt_PlannedTaskKey task, task_Title = prt_Title task, task_Summary = prt_Objective task,
      task_SelectedEmployeeID =
        (case uuid_Parse U (TrimSpace (prt_SelectedEmployeeID task)) of None \<Rightarrow> uuid_Nil | Some e \<Rightarrow> e),
      task_EmployeeSelectionReason = prt_EmployeeSelectionReason task,
      task_RequiredCapabilities = prt_RequiredCapabilities task, task_MatchedCapabilities = prt_MatchedCapabilities task,
      task_MissingCapabilities = prt_MissingCapabilities task, task_PermissionRequirements = prt_PermissionRequirements task,
      task_ToolRequirements = prt_ToolRequirements task, task_RuntimeRequirements = prt_RuntimeRequirements task,
      task_VerificationRequirements = prt_VerificationRequirements task, task_SelectionScore = prt_SelectionScore task,
      task_SelectionConfidence = prt_SelectionConfidence task,
      task_PlanningProfileSnapshotHash = prt_PlanningProfileSnapshotHash task, task_TaskKind = prt_TaskType task,
      task_StageIndex = None, task_RiskLevel = prt_RiskLevel task, task_RequiresHumanApproval = prt_HumanReviewRequired task,
      task_ExpectedOutputs = prt_ExpectedOutputs task, task_Produces = prt_Produces task,
      task_InputRequirements = Some (planned_inputs task),
      task_HandoffContract = Some (with_acceptance (prt_AcceptanceCriteria task) (prt_HandoffContract task)),
      task_BlockedByKeys = prt_DependsOn task, task_RoleKey = TrimSpace (prt_RoleKey task)\<rparr>"

definition PlanRevisionPayloadToPlannedTasks :: "uuid_lib \<Rightarrow> PlanRevisionPayload \<Rightarrow> PlannedTask list" where
  "PlanRevisionPayloadToPlannedTasks U payload = map (planned_task U) (prp_Tasks payload)"

section \<open>The stored status\<close>

definition isAutonomousCoordinationMode :: "string \<Rightarrow> bool" where
  "isAutonomousCoordinationMode mode \<longleftrightarrow> TrimSpace mode = ''loop'' \<or> TrimSpace mode = ''chat''"

text \<open>
  What \<^verbatim>\<open>PersistPlanRevision\<close> derives from a plan for the row it creates. Identifiers, the event and
  the supersede options are passed through and left out.
\<close>

record PersistPlanRevisionInput =
  ppi_Decision :: RouteDecisionPlan
  ppi_CoordinationMode :: string
  ppi_ForcePendingReview :: bool
  ppi_ForcePendingReviewReasons :: "string list"

record CreatePlanRevisionRequest =
  cpr_Status :: string
  cpr_Payload :: PlanRevisionPayload
  cpr_PlanFingerprint :: string
  cpr_ValidationErrors :: "string list"
  cpr_ReviewRequired :: bool
  cpr_ReviewReason :: string

definition plan_revision_request ::
  "(PlanRevisionPayload \<Rightarrow> string option) \<Rightarrow> uuid_lib \<Rightarrow> PersistPlanRevisionInput \<Rightarrow> CreatePlanRevisionRequest" where
  "plan_revision_request digest U input =
     (let decision = ppi_Decision input; payload = BuildPlanRevisionPayload U decision;
          validation = ValidatePlanRevisionPayload digest U payload;
          status = (if \<not> prv_Acceptable validation then ''validation_failed''
                    else if ppi_ForcePendingReview input then ''pending_review''
                    else if isAutonomousCoordinationMode (ppi_CoordinationMode input) then
                      (if \<not> prv_ReviewRequired validation \<and> \<not> plan_RequiresHumanReview decision
                       then ''accepted'' else ''pending_review'')
                    else ''pending_review'');
          reasons0 = prv_ReviewReasons validation;
          reasons1 = (if plan_RequiresHumanReview decision then appendUniqueString reasons0 ''plan_requires_human_review'' else reasons0);
          reasons2 = foldl appendUniqueString reasons1 (filter (\<lambda>r. TrimSpace r \<noteq> []) (ppi_ForcePendingReviewReasons input))
      in \<lparr>cpr_Status = status, cpr_Payload = payload, cpr_PlanFingerprint = prv_PlanFingerprint validation,
          cpr_ValidationErrors = prv_Errors validation,
          cpr_ReviewRequired = (prv_ReviewRequired validation \<or> plan_RequiresHumanReview decision \<or> ppi_ForcePendingReview input),
          cpr_ReviewReason = Join reasons2 ''; ''\<rparr>)"

section \<open>Sorting\<close>

lemma insert_from_end_mset: "mset (insert_from_end lt x ys) = add_mset x (mset ys)"
  by (induction ys) auto

lemma insertion_sort_mset [simp]: "mset (insertion_sort lt xs) = mset xs"
proof -
  have "mset (foldl (\<lambda>r x. insert_from_end lt x r) acc xs) = mset xs + mset acc" for acc
    by (induction xs arbitrary: acc) (simp_all add: insert_from_end_mset)
  then show ?thesis by (simp add: insertion_sort_def)
qed

lemma insert_from_end_set [simp]: "set (insert_from_end lt x ys) = insert x (set ys)"
  using arg_cong [OF insert_from_end_mset [of lt x ys], of set_mset] by simp

lemma insertion_sort_set [simp]: "set (insertion_sort lt xs) = set xs"
  by (rule mset_eq_setD) simp

text \<open>An order given by a key; what the file's sorts promise to the canonical form.\<close>

locale sort_by_key =
  fixes lt :: "'a \<Rightarrow> 'a \<Rightarrow> bool" and key :: "'a \<Rightarrow> 'k::linorder"
  assumes lt_key: "lt a b \<longleftrightarrow> key a < key b"
begin

lemma insert_sorted:
  "sorted_wrt (\<ge>) (map key ys) \<Longrightarrow> sorted_wrt (\<ge>) (map key (insert_from_end lt x ys))"
proof (induction ys)
  case (Cons y ys)
  then show ?case by (cases "lt x y") (auto simp: insert_from_end_set lt_key)
qed simp

lemma sort_sorted: "sorted (map key (insertion_sort lt xs))"
proof -
  have "sorted_wrt (\<ge>) (map key acc) \<Longrightarrow> sorted_wrt (\<ge>) (map key (foldl (\<lambda>r x. insert_from_end lt x r) acc xs))" for acc
    by (induction xs arbitrary: acc) (simp_all add: insert_sorted)
  from this [of "[]"] show ?thesis by (simp add: insertion_sort_def rev_map [symmetric] sorted_wrt_rev)
qed

lemma sort_unique:
  assumes "mset xs = mset ys" "inj_on key (set xs)"
  shows "insertion_sort lt xs = insertion_sort lt ys"
proof -
  let ?a = "insertion_sort lt xs" and ?b = "insertion_sort lt ys"
  have sets: "set ?a = set xs" "set ?b = set xs" using mset_eq_setD [OF assms(1)] by simp_all
  have "mset (map key ?a) = mset (map key ?b)" using assms(1) by simp
  then have "map key ?a = map key ?b"
    using properties_for_sort [of "map key ?a" "map key ?b"] sort_sorted [of xs] sort_sorted [of ys] by (simp add: sorted_sort_id)
  with sets assms(2) show ?thesis by (metis map_inj_on sup.idem)
qed

text \<open>Canonical copies of two lists agree up to order exactly if the lists have the same entries.\<close>

lemma sort_canonical_iff:
  assumes "\<And>x y. canon x = canon y \<longleftrightarrow> same x y" "\<And>x. key (canon x) = key x"
    and "distinct (map key xs)" "distinct (map key ys)"
  shows "insertion_sort lt (map canon xs) = insertion_sort lt (map canon ys) \<longleftrightarrow>
    length xs = length ys \<and> (\<forall>x \<in> set xs. \<exists>y \<in> set ys. same x y)"
proof
  assume "insertion_sort lt (map canon xs) = insertion_sort lt (map canon ys)"
  then have m: "mset (map canon xs) = mset (map canon ys)" using insertion_sort_mset by metis
  have "canon ` set xs = canon ` set ys" using mset_eq_setD [OF m] by simp
  have "\<exists>y \<in> set ys. same x y" if "x \<in> set xs" for x
  proof -
    have "canon x \<in> canon ` set ys" using that \<open>canon ` set xs = canon ` set ys\<close> by blast
    then show ?thesis using assms(1) by blast
  qed
  moreover have "length xs = length ys" using mset_eq_length [OF m] by simp
  ultimately show "length xs = length ys \<and> (\<forall>x \<in> set xs. \<exists>y \<in> set ys. same x y)" by blast
next
  assume r: "length xs = length ys \<and> (\<forall>x \<in> set xs. \<exists>y \<in> set ys. same x y)"
  have keys: "map key (map canon zs) = map key zs" for zs using assms(2) by simp
  have dist: "distinct (map canon xs)" "distinct (map canon ys)"
    using assms(3,4) keys by (metis distinct_map)+
  have "set (map canon xs) \<subseteq> set (map canon ys)" using r assms(1) by fastforce
  moreover have "card (set (map canon xs)) = card (set (map canon ys))"
    using r dist by (simp only: distinct_card length_map)
  ultimately have "set (map canon xs) = set (map canon ys)" by (meson card_subset_eq List.finite_set)
  then have m: "mset (map canon xs) = mset (map canon ys)" using dist set_eq_iff_mset_eq_distinct by blast
  have "inj_on key (set (map canon xs))" using assms(3) keys by (metis distinct_map)
  with m show "insertion_sort lt (map canon xs) = insertion_sort lt (map canon ys)" by (rule sort_unique)
qed
end

interpretation strings: sort_by_key "\<lambda>a b :: string. a < b" "\<lambda>s. s"
  by unfold_locales simp

definition task_order :: "PlanRevisionTask \<Rightarrow> string \<times> string \<times> string" where
  "task_order t = (prt_PlannedTaskKey t, prt_Title t, prt_Objective t)"

interpretation tasks: sort_by_key planRevisionTaskLess task_order
  by unfold_locales (auto simp: planRevisionTaskLess_def task_order_def less_prod_def)

interpretation criteria: sort_by_key "\<lambda>a b. pac_ID a < pac_ID b" pac_ID
  by unfold_locales simp

lemma sortedPlanRevisionStrings_iff: "sortedPlanRevisionStrings a = sortedPlanRevisionStrings b \<longleftrightarrow> mset a = mset b"
proof
  assume "sortedPlanRevisionStrings a = sortedPlanRevisionStrings b"
  then show "mset a = mset b" unfolding sortedPlanRevisionStrings_def using insertion_sort_mset by metis
next
  assume "mset a = mset b"
  then show "sortedPlanRevisionStrings a = sortedPlanRevisionStrings b"
    unfolding sortedPlanRevisionStrings_def by (rule strings.sort_unique) simp
qed

text \<open>It is the sorted list.\<close>

lemma sortedPlanRevisionStrings_sort: "sortedPlanRevisionStrings xs = sort xs"
  using properties_for_sort [of "sortedPlanRevisionStrings xs" xs] strings.sort_sorted [of xs]
  by (simp add: sortedPlanRevisionStrings_def)

section \<open>What the fingerprint depends on\<close>

text \<open>Two tasks with the same content: equal but for the order inside lists and the role key.\<close>

definition task_scalars :: "PlanRevisionTask \<Rightarrow> PlanRevisionTask" where
  "task_scalars t = t\<lparr>prt_RequiredCapabilities := [], prt_MatchedCapabilities := [], prt_MissingCapabilities := [],
     prt_PermissionRequirements := [], prt_ToolRequirements := [], prt_RuntimeRequirements := [], prt_InputContextRefs := [],
     prt_Produces := [], prt_ExpectedOutputs := [], prt_AcceptanceCriteria := [], prt_VerificationRequirements := [],
     prt_DependsOn := [], prt_RoleKey := []\<rparr>"

definition same_task :: "PlanRevisionTask \<Rightarrow> PlanRevisionTask \<Rightarrow> bool" where
  "same_task t u \<longleftrightarrow> task_scalars t = task_scalars u \<and>
     list_all (\<lambda>f. mset (f t) = mset (f u))
       [prt_RequiredCapabilities, prt_MatchedCapabilities, prt_MissingCapabilities, prt_PermissionRequirements,
        prt_ToolRequirements, prt_RuntimeRequirements, prt_InputContextRefs, prt_Produces, prt_ExpectedOutputs,
        prt_AcceptanceCriteria, prt_VerificationRequirements, prt_DependsOn]"

definition same_criterion :: "PlanAcceptanceCriterion \<Rightarrow> PlanAcceptanceCriterion \<Rightarrow> bool" where
  "same_criterion c d \<longleftrightarrow> c\<lparr>pac_SatisfiedBy := []\<rparr> = d\<lparr>pac_SatisfiedBy := []\<rparr> \<and> mset (pac_SatisfiedBy c) = mset (pac_SatisfiedBy d)"

text \<open>Two payloads with the same plan: annotations and order aside, nothing differs.\<close>

definition same_plan :: "PlanRevisionPayload \<Rightarrow> PlanRevisionPayload \<Rightarrow> bool" where
  "same_plan p q \<longleftrightarrow>
     prp_Summary p = prp_Summary q \<and> prp_TemplateKey p = prp_TemplateKey q \<and> prp_TemplateVersion p = prp_TemplateVersion q \<and>
     prp_ExitDeliverable p = prp_ExitDeliverable q \<and> mset (prp_Assumptions p) = mset (prp_Assumptions q) \<and>
     ra_HighestRiskLevel (prp_RiskAssessment p) = ra_HighestRiskLevel (prp_RiskAssessment q) \<and>
     mset (ra_HighRiskTaskKeys (prp_RiskAssessment p)) = mset (ra_HighRiskTaskKeys (prp_RiskAssessment q)) \<and>
     hr_Required (prp_HumanReview p) = hr_Required (prp_HumanReview q) \<and>
     mset (hr_Reasons (prp_HumanReview p)) = mset (hr_Reasons (prp_HumanReview q)) \<and>
     mset (prp_RequiredSections p) = mset (prp_RequiredSections q) \<and>
     length (prp_Tasks p) = length (prp_Tasks q) \<and> (\<forall>t \<in> set (prp_Tasks p). \<exists>u \<in> set (prp_Tasks q). same_task t u) \<and>
     length (prp_Criteria p) = length (prp_Criteria q) \<and>
     (\<forall>c \<in> set (prp_Criteria p). \<exists>d \<in> set (prp_Criteria q). same_criterion c d)"

lemma canonical_task_iff: "canonicalPlanRevisionTask t = canonicalPlanRevisionTask u \<longleftrightarrow> same_task t u"
  by (cases t; cases u)
    (simp add: canonicalPlanRevisionTask_def same_task_def task_scalars_def sortedPlanRevisionStrings_iff, blast)

lemma canonical_task_order: "task_order (canonicalPlanRevisionTask t) = task_order t"
  by (simp add: task_order_def canonicalPlanRevisionTask_def)

lemma canonical_criterion_iff:
  "c\<lparr>pac_SatisfiedBy := sortedPlanRevisionStrings (pac_SatisfiedBy c)\<rparr> =
     d\<lparr>pac_SatisfiedBy := sortedPlanRevisionStrings (pac_SatisfiedBy d)\<rparr> \<longleftrightarrow> same_criterion c d"
  by (cases c; cases d) (auto simp: same_criterion_def sortedPlanRevisionStrings_iff)

lemma distinct_task_order: "distinct (map prt_PlannedTaskKey ts) \<Longrightarrow> distinct (map task_order ts)"
  by (auto simp: distinct_map inj_on_def task_order_def)

lemma canonical_iff_same_plan:
  assumes "distinct (map prt_PlannedTaskKey (prp_Tasks p))" "distinct (map prt_PlannedTaskKey (prp_Tasks q))"
    and "distinct (map pac_ID (prp_Criteria p))" "distinct (map pac_ID (prp_Criteria q))"
  shows "canonicalPlanRevisionPayload p = canonicalPlanRevisionPayload q \<longleftrightarrow> same_plan p q"
proof -
  note tasks = tasks.sort_canonical_iff [OF canonical_task_iff canonical_task_order
      distinct_task_order [OF assms(1)] distinct_task_order [OF assms(2)]]
  have criteria: "canonicalPlanAcceptanceCriteria (prp_Criteria p) = canonicalPlanAcceptanceCriteria (prp_Criteria q) \<longleftrightarrow>
      length (prp_Criteria p) = length (prp_Criteria q) \<and>
      (\<forall>c \<in> set (prp_Criteria p). \<exists>d \<in> set (prp_Criteria q). same_criterion c d)"
    unfolding canonicalPlanAcceptanceCriteria_def sortPlanAcceptanceCriteria_def
    by (rule criteria.sort_canonical_iff [OF canonical_criterion_iff _ assms(3,4)]) simp
  show ?thesis
    unfolding canonicalPlanRevisionPayload_def PlanRevisionPayload.iffs PlanRevisionRiskAssessment.iffs
      PlanRevisionHumanReview.iffs sortPlanRevisionTasks_def tasks criteria sortedPlanRevisionStrings_iff same_plan_def
    by (simp only: conj_assoc simp_thms) blast
qed

text \<open>
  The canonical form that is fingerprinted identifies a plan. When task keys and criterion
  identifiers are distinct, two payloads have the same canonical form exactly if they agree on
  everything a reviewer approved, up to the order of tasks, criteria and list entries. Available
  exits, constraint notes, risk attribution and the role keys of tasks do not enter; everything else
  does. So equal plans have equal fingerprints, and unequal ones differ in what is hashed.
\<close>

theorem fingerprint_identifies_plan:
  assumes "distinct (map prt_PlannedTaskKey (prp_Tasks p))" "distinct (map prt_PlannedTaskKey (prp_Tasks q))"
    and "distinct (map pac_ID (prp_Criteria p))" "distinct (map pac_ID (prp_Criteria q))"
  shows "(canonicalPlanRevisionPayload p = canonicalPlanRevisionPayload q) = same_plan p q \<and>
    (same_plan p q \<longrightarrow> CanonicalPlanFingerprint digest p = CanonicalPlanFingerprint digest q)"
  using canonical_iff_same_plan [OF assms] by (auto simp: CanonicalPlanFingerprint_def)

section \<open>Plans that the planner returns make acceptable revisions\<close>

lemma covers_revision: "covers (set (revision_keys tasks)) (revision_dependencies tasks)"
proof -
  have "revision_dependencies tasks k = []" if "k \<notin> set (revision_keys tasks)" for k
  proof (cases "k = []")
    case False
    with that have "k \<notin> set (map fst (rev (map (\<lambda>t. (TrimSpace (prt_PlannedTaskKey t), prt_DependsOn t)) tasks)))"
      by (auto simp: revision_keys_def)
    then have "map_of (rev (map (\<lambda>t. (TrimSpace (prt_PlannedTaskKey t), prt_DependsOn t)) tasks)) k = None"
      by (simp add: map_of_eq_None_iff)
    then show ?thesis by (simp add: revision_dependencies_def)
  qed (simp add: revision_dependencies_def)
  then show ?thesis by (simp add: covers_def)
qed

text \<open>The second cycle search of the code base decides as well, whatever the order of keys.\<close>

lemma revision_cycle_in_iff:
  assumes "set order = set (revision_keys tasks)"
  shows "planRevisionPayloadHasCycle_in order tasks = Some (\<not> acyclic (depends (revision_dependencies tasks)))"
proof -
  have "card (set (revision_keys tasks)) \<le> length tasks"
    using card_length [of "revision_keys tasks"] length_filter_le order.trans by (fastforce simp: revision_keys_def)
  then show ?thesis unfolding planRevisionPayloadHasCycle_in_def by (rule search_decides [OF covers_revision _ assms])
qed

lemma revision_cycle_iff: "planRevisionPayloadHasCycle tasks \<longleftrightarrow> \<not> acyclic (depends (revision_dependencies tasks))"
  by (simp add: planRevisionPayloadHasCycle_def revision_cycle_in_iff)

text \<open>What a task needs for its part of the payload to be accepted.\<close>

definition sound_task :: "PlannedTask \<Rightarrow> bool" where
  "sound_task t \<longleftrightarrow> task_Key t \<noteq> [] \<and> TrimSpace (task_Key t) = task_Key t \<and> task_SelectedEmployeeID t \<noteq> uuid_Nil \<and>
     task_ExpectedOutputs t \<noteq> [] \<and> (\<forall>out \<in> set (task_ExpectedOutputs t). out \<noteq> [] \<and> TrimSpace out = out)"

lemma sound_nonEmpty: "sound_task t \<Longrightarrow> nonEmptyPlanRevisionStrings (task_ExpectedOutputs t) \<noteq> []"
  by (cases "task_ExpectedOutputs t") (auto simp: sound_task_def nonEmptyPlanRevisionStrings_def)

lemma nonEmpty_idem: "nonEmptyPlanRevisionStrings (nonEmptyPlanRevisionStrings ss) = nonEmptyPlanRevisionStrings ss"
  by (induction ss) (simp_all add: nonEmptyPlanRevisionStrings_def)

lemma or_outputs_nonEmpty:
  "nonEmptyPlanRevisionStrings outs \<noteq> [] \<Longrightarrow> nonEmptyPlanRevisionStrings (or_outputs (nonEmptyPlanRevisionStrings ss) outs) \<noteq> []"
  by (simp add: or_outputs_def nonEmpty_idem)

lemma sound_acceptance:
  assumes "sound_task t"
  shows "nonEmptyPlanRevisionStrings (acceptanceCriteriaFromHandoffContract contract (task_ExpectedOutputs t)) \<noteq> []"
  using sound_nonEmpty [OF assms] or_outputs_nonEmpty
  by (auto simp: acceptanceCriteriaFromHandoffContract_def split: option.split gval.split)

lemma revision_task_fields [simp]:
  "prt_PlannedTaskKey (revision_task U t) = task_Key t" "prt_DependsOn (revision_task U t) = task_BlockedByKeys t"
  by (simp_all add: revision_task_def)

lemma sound_task_errors:
  assumes "sound_task t" "uuid_roundtrip U" "uuid_trimmed U" "task_Key t \<notin> set seen"
  shows "revision_task_errors U seen (revision_task U t) = []"
  using assms sound_nonEmpty [OF assms(1)] sound_acceptance [OF assms(1)]
  by (simp add: revision_task_errors_def key_errors_def revision_task_def sound_task_def uuid_roundtrip_def uuid_trimmed_def Let_def)

lemma sound_tasks_errors:
  assumes "list_all sound_task ts" "uuid_roundtrip U" "uuid_trimmed U" "distinct (map task_Key ts)"
    and "set (map task_Key ts) \<inter> set seen = {}"
  shows "revision_tasks_errors U seen (map (revision_task U) ts) = []"
  using assms
proof (induction ts arbitrary: seen)
  case (Cons t ts)
  have "canonical_key (revision_task U t)" using Cons.prems(1) by (simp add: canonical_key_def sound_task_def)
  with Cons show ?case by (auto simp: sound_task_errors)
qed simp

lemma revision_dependencies_task:
  assumes "list_all sound_task ts" "\<forall>t \<in> set ts. set (task_BlockedByKeys t) \<subseteq> set (map task_Key ts)"
  shows "revision_dependencies (map (revision_task U) ts) = task_dependencies ts"
proof
  fix k
  have keys: "revision_keys (map (revision_task U) ts) = map task_Key ts"
    using assms(1) by (auto simp: revision_keys_def list_all_iff sound_task_def filter_id_conv)
  have pairs: "map (\<lambda>t. (TrimSpace (prt_PlannedTaskKey t), prt_DependsOn t)) (map (revision_task U) ts) =
      map (\<lambda>t. (task_Key t, task_BlockedByKeys t)) ts"
    using assms(1) by (auto simp: list_all_iff sound_task_def)
  have trimmed: "TrimSpace b = b" if "b \<in> set (map task_Key ts)" for b
    using that assms(1) by (auto simp: list_all_iff sound_task_def)
  have deps: "filter (\<lambda>d. d \<in> set (map task_Key ts)) (map TrimSpace bs) = bs" if "set bs \<subseteq> set (map task_Key ts)" for bs
  proof -
    have "map TrimSpace bs = bs" using that by (intro map_idI trimmed) blast
    with that show ?thesis by (simp add: filter_id_conv subset_iff)
  qed
  let ?m = "map_of (rev (map (\<lambda>t. (task_Key t, task_BlockedByKeys t)) ts))"
  show "revision_dependencies (map (revision_task U) ts) k = task_dependencies ts k"
  proof (cases "?m k")
    case None
    then show ?thesis unfolding revision_dependencies_def task_dependencies_def pairs by simp
  next
    case (Some bs)
    then have "(k, bs) \<in> set (map (\<lambda>t. (task_Key t, task_BlockedByKeys t)) ts)" by (metis map_of_SomeD set_rev)
    then obtain t where t: "t \<in> set ts" "k = task_Key t" "bs = task_BlockedByKeys t" by auto
    then have "k \<noteq> []" "set bs \<subseteq> set (map task_Key ts)" using assms by (auto simp: list_all_iff sound_task_def)
    with Some deps show ?thesis unfolding revision_dependencies_def task_dependencies_def pairs keys by simp
  qed
qed

lemma sound_payload:
  assumes "list_all sound_task (plan_Tasks plan)" "plan_Tasks plan \<noteq> []" "distinct (map task_Key (plan_Tasks plan))"
    and "\<forall>t \<in> set (plan_Tasks plan). set (task_BlockedByKeys t) \<subseteq> set (map task_Key (plan_Tasks plan))"
    and "acyclic (depends (task_dependencies (plan_Tasks plan)))" "uuid_roundtrip U" "uuid_trimmed U"
  shows "payload_errors U (BuildPlanRevisionPayload U plan) = []"
proof -
  let ?ts = "plan_Tasks plan"
  have sections: "validateFinalSummaryContract defaultFinalSummaryRequiredSections = []" by code_simp
  have keys: "map prt_PlannedTaskKey (filter canonical_key (map (revision_task U) ?ts)) = map task_Key ?ts"
  proof -
    have "filter canonical_key (map (revision_task U) ?ts) = map (revision_task U) ?ts"
      using assms(1) by (auto simp: filter_id_conv list_all_iff canonical_key_def sound_task_def)
    then show ?thesis by simp
  qed
  have trimmed: "TrimSpace b = b" if "b \<in> set (map task_Key ?ts)" for b
    using that assms(1) by (auto simp: list_all_iff sound_task_def)
  have deps: "dependency_errors (map task_Key ?ts) (revision_task U t) = []" if "t \<in> set ?ts" for t
  proof -
    have "b \<in> set (map task_Key ?ts) \<and> TrimSpace b = b" if "b \<in> set (task_BlockedByKeys t)" for b
      using assms(4) \<open>t \<in> set ?ts\<close> that trimmed by blast
    then show ?thesis by (auto simp: dependency_errors_def Let_def)
  qed
  have "\<not> planRevisionPayloadHasCycle (map (revision_task U) ?ts)"
    unfolding revision_cycle_iff revision_dependencies_task [OF assms(1,4)] using assms(5) by simp
  moreover have "revision_tasks_errors U [] (map (revision_task U) ?ts) = []"
    using sound_tasks_errors [OF assms(1,6,7,3), of "[]"] by simp
  moreover have "concat (map (dependency_errors (map task_Key ?ts)) (map (revision_task U) ?ts)) = []" using deps by simp
  ultimately show ?thesis
    unfolding payload_errors_def Let_def using assms(2) sections keys by (simp add: BuildPlanRevisionPayload_def)
qed

lemma returned_sound:
  assumes "Plan env cfg snapshot = Inr plan" "uuid_roundtrip U" "uuid_trimmed U"
  shows "payload_errors U (BuildPlanRevisionPayload U plan) = []"
proof -
  obtain p where wf: "graph_wellformed p (activeExecutorIDs (snap_DigitalEmployeePool snapshot)) \<lparr>MaxTasks = 12\<rparr>"
    and w: "work p = work plan" by (rule returned_wellformed [OF assms(1)])
  have keys: "map task_Key (plan_Tasks plan) = map task_Key (plan_Tasks p)"
  proof -
    have "map task_Key (plan_Tasks r) = map fst (work r)" for r by (simp add: work_def task_work_def)
    with w show ?thesis by simp
  qed
  have deps: "task_dependencies (plan_Tasks plan) = task_dependencies (plan_Tasks p)"
  proof -
    have "map (\<lambda>t. (task_Key t, task_BlockedByKeys t)) (plan_Tasks r) = map (\<lambda>(k, e, b, _). (k, b)) (work r)" for r
      by (simp add: work_def task_work_def)
    with w show ?thesis by (simp add: task_dependencies_def fun_eq_iff)
  qed
  have each: "sound_task t \<and> set (task_BlockedByKeys t) \<subseteq> set (map task_Key (plan_Tasks plan))"
    if t: "t \<in> set (plan_Tasks plan)" for t
  proof -
    obtain u where u: "u \<in> set (plan_Tasks p)" "task_work u = task_work t" using same_work_tasks [OF w [symmetric] t] by blast
    have "task_wellformed (activeExecutorIDs (snap_DigitalEmployeePool snapshot)) u" "blockers_wellformed (plan_Tasks p) u"
      using wf u(1) by (auto simp: graph_wellformed_def Let_def)
    with u(2) show ?thesis unfolding keys
      by (auto simp: sound_task_def task_work_def task_wellformed_def blockers_wellformed_def untrimmed_def)
  qed
  have "plan_Tasks plan \<noteq> []" using wf keys by (auto simp: graph_wellformed_def Let_def)
  moreover have "distinct (map task_Key (plan_Tasks plan))" unfolding keys using wf by (auto simp: graph_wellformed_def Let_def)
  moreover have "acyclic (depends (task_dependencies (plan_Tasks plan)))"
    unfolding deps using wf by (auto simp: graph_wellformed_def Let_def depends_distinct)
  ultimately show ?thesis using sound_payload each assms(2,3) by (simp add: list_all_iff)
qed

text \<open>
  No plan that the planner returns is refused as a revision: its payload has none of the
  validation errors, so the two validators, each with its own cycle search, never disagree about such
  a plan. The assumption on identifiers is the documented behaviour of the identifier package.
\<close>

theorem returned_plans_make_acceptable_revisions:
  assumes "Plan env cfg snapshot = Inr plan" "uuid_roundtrip U" "uuid_trimmed U"
    and "CanonicalPlanFingerprint digest (BuildPlanRevisionPayload U plan) = Some fingerprint"
  shows "prv_Acceptable (ValidatePlanRevisionPayload digest U (BuildPlanRevisionPayload U plan)) \<and>
    prv_Errors (ValidatePlanRevisionPayload digest U (BuildPlanRevisionPayload U plan)) = []"
  using returned_sound [OF assms(1-3)] assms(4) by (simp add: ValidatePlanRevisionPayload_def)

text \<open>
  Claim C20: no human stop is skipped. When a plan that the planner returned is stored, its status is
  pending review or accepted, and it is accepted only in an autonomous coordination mode, with no
  forced review, no risk on the platform's record, no demand for review and no task that demands
  approval.
\<close>

theorem no_human_stop_is_skipped:
  assumes "Plan env cfg snapshot = Inr (ppi_Decision input)" "uuid_roundtrip U" "uuid_trimmed U"
    and "CanonicalPlanFingerprint digest (BuildPlanRevisionPayload U (ppi_Decision input)) = Some fingerprint"
  shows "cpr_Status (plan_revision_request digest U input) \<in> {''pending_review'', ''accepted''} \<and>
    (cpr_Status (plan_revision_request digest U input) = ''accepted'' \<longrightarrow>
      isAutonomousCoordinationMode (ppi_CoordinationMode input) \<and> \<not> ppi_ForcePendingReview input \<and>
      \<not> planTouchesHighRisk (ppi_Decision input) \<and> \<not> plan_RequiresHumanReview (ppi_Decision input) \<and>
      (\<forall>t \<in> set (plan_Tasks (ppi_Decision input)). \<not> task_RequiresHumanApproval t))"
proof -
  let ?plan = "ppi_Decision input"
  have risk: "payloadHasPlatformDerivedRisk (BuildPlanRevisionPayload U ?plan) = planTouchesHighRisk ?plan"
    by (simp add: payloadHasPlatformDerivedRisk_def planTouchesHighRisk_def BuildPlanRevisionPayload_def)
  have v: "ValidatePlanRevisionPayload digest U (BuildPlanRevisionPayload U ?plan) =
      \<lparr>prv_Acceptable = True, prv_PlanFingerprint = fingerprint, prv_Errors = [], prv_Warnings = [],
       prv_ReviewRequired = planTouchesHighRisk ?plan, prv_ReviewReasons = review_reasons (BuildPlanRevisionPayload U ?plan)\<rparr>"
    using returned_sound [OF assms(1-3)] assms(4) by (simp add: ValidatePlanRevisionPayload_def risk)
  have status: "cpr_Status (plan_revision_request digest U input) =
      (if ppi_ForcePendingReview input then ''pending_review''
       else if isAutonomousCoordinationMode (ppi_CoordinationMode input) then
         (if \<not> planTouchesHighRisk ?plan \<and> \<not> plan_RequiresHumanReview ?plan then ''accepted'' else ''pending_review'')
       else ''pending_review'')"
    by (simp add: plan_revision_request_def Let_def v)
  show ?thesis unfolding status using stops_are_high_risk [OF assms(1)] by auto
qed

section \<open>From the payload back to planned tasks\<close>


section \<open>Examples\<close>

definition example_digest :: "PlanRevisionPayload \<Rightarrow> string option" where
  "example_digest payload = Some (prp_Summary payload)"

definition example_input :: PersistPlanRevisionInput where
  "example_input = \<lparr>ppi_Decision = example_route, ppi_CoordinationMode = ''loop'', ppi_ForcePendingReview = False,
     ppi_ForcePendingReviewReasons = []\<rparr>"

theorem fingerprint_identifies_plan_witness:
  "let p = BuildPlanRevisionPayload decimal_uuid_lib (example_plan [example_task ''a'' [] [], example_task ''b'' [] [''a'']] [] []);
       q = BuildPlanRevisionPayload decimal_uuid_lib (example_plan [example_task ''b'' [] [''a''], example_task ''a'' [] []] [] [])
   in p \<noteq> q \<and> CanonicalPlanFingerprint example_digest p = CanonicalPlanFingerprint example_digest q"
proof -
  let ?p = "BuildPlanRevisionPayload decimal_uuid_lib (example_plan [example_task ''a'' [] [], example_task ''b'' [] [''a'']] [] [])"
  let ?q = "BuildPlanRevisionPayload decimal_uuid_lib (example_plan [example_task ''b'' [] [''a''], example_task ''a'' [] []] [] [])"
  have "distinct (map prt_PlannedTaskKey (prp_Tasks ?p))" "distinct (map prt_PlannedTaskKey (prp_Tasks ?q))"
    "distinct (map pac_ID (prp_Criteria ?p))" "distinct (map pac_ID (prp_Criteria ?q))" by code_simp+
  note * = fingerprint_identifies_plan [OF this, of example_digest]
  have same: "same_plan ?p ?q"
    by (simp add: same_plan_def BuildPlanRevisionPayload_def example_plan_def revision_task_def example_task_def
        same_task_def task_scalars_def note_human_review_def assess_risk_def isHighRiskLevel_def)
  have "map prt_PlannedTaskKey (prp_Tasks ?p) \<noteq> map prt_PlannedTaskKey (prp_Tasks ?q)" by code_simp
  then have "?p \<noteq> ?q" by force
  then show ?thesis unfolding Let_def using * same by blast
qed

theorem returned_plans_make_acceptable_revisions_witness:
  "prv_Acceptable (ValidatePlanRevisionPayload example_digest decimal_uuid_lib (BuildPlanRevisionPayload decimal_uuid_lib example_route))"
proof -
  have "CanonicalPlanFingerprint example_digest (BuildPlanRevisionPayload decimal_uuid_lib example_route) = Some (plan_Reason example_route)"
    by (simp add: CanonicalPlanFingerprint_def example_digest_def canonicalPlanRevisionPayload_def BuildPlanRevisionPayload_def)
  from returned_plans_make_acceptable_revisions [OF example_run decimal_uuid_roundtrip decimal_uuid_trimmed this]
  show ?thesis by blast
qed

theorem no_human_stop_is_skipped_witness:
  "cpr_Status (plan_revision_request example_digest decimal_uuid_lib example_input) = ''pending_review''"
proof -
  have run: "Plan example_env example_config example_review_snapshot = Inr (ppi_Decision example_input)"
    by (simp add: example_input_def example_run)
  have "CanonicalPlanFingerprint example_digest (BuildPlanRevisionPayload decimal_uuid_lib (ppi_Decision example_input)) =
      Some (plan_Reason example_route)"
    by (simp add: CanonicalPlanFingerprint_def example_digest_def canonicalPlanRevisionPayload_def BuildPlanRevisionPayload_def example_input_def)
  note * = no_human_stop_is_skipped [OF run decimal_uuid_roundtrip decimal_uuid_trimmed this]
  have "plan_RequiresHumanReview (ppi_Decision example_input)"
    using returned_held [OF run example_policy(1)] by (simp add: held_def)
  with * show ?thesis by auto
qed

end
