(* ===== verification/Plan_Decomposition.thy ===== *)
theory Plan_Decomposition
  imports Plan_Revision Demand_Acceptance
begin

text \<open>
  Decomposition of an accepted revision, after \<^verbatim>\<open>DecomposeAcceptedPlanRevision\<close> of
  \<^verbatim>\<open>workflow/projectcoordination/project_store.go\<close>: the tasks of the project graph with the criteria
  injected into their handoff contracts, and the snapshot of the acceptance criteria that the demand's
  gates read (\<^verbatim>\<open>project/pg_repository.go\<close> and the SQL of \<^verbatim>\<open>demand_acceptance.sql\<close>). The rows of one
  revision are a list; the table's unique key is the criterion identifier, and there is no column for
  the source of a criterion.
\<close>

section \<open>Graph tasks\<close>

record ProjectTaskGraphCreateTask =
  gt_Key :: string
  gt_Title :: string
  gt_Summary :: string
  gt_Status :: string
  gt_AssignedDigitalEmployeeID :: uuid
  gt_TaskKind :: string
  gt_RiskLevel :: string
  gt_RequiresHumanApproval :: bool
  gt_ExpectedOutputs :: "gval list"
  gt_InputRequirements :: gmap
  gt_HandoffContract :: gmap
  gt_PlannerMetadata :: gmap
  gt_BlockedByKeys :: "string list"

definition stringsToAny :: "string list \<Rightarrow> gval list" where
  "stringsToAny values = map GStr values"

text \<open>\<open>criterionInjectionsByTaskKey\<close> at a key, in the order in which the loop appends.\<close>

definition criterion_injection :: "PlanAcceptanceCriterion \<Rightarrow> gval" where
  "criterion_injection c = GMap [(''criterion_id'', GStr (pac_ID c)), (''criterion'', GStr (pac_Statement c))]"

definition criterionInjectionsByTaskKey :: "PlanAcceptanceCriterion list \<Rightarrow> string \<Rightarrow> gval list" where
  "criterionInjectionsByTaskKey criteria key =
     concat (map (\<lambda>c. if pac_VerificationMethod c \<noteq> VerificationMethodAutomatedTest then []
                      else map (\<lambda>_. criterion_injection c) (filter (\<lambda>k. k = key) (pac_SatisfiedBy c))) criteria)"

fun appendAcceptanceCriterionInjections :: "gval \<Rightarrow> gval list \<Rightarrow> gval list" where
  "appendAcceptanceCriterionInjections (GStrs ss) injections = map GStr ss @ injections"
| "appendAcceptanceCriterionInjections (GList vs) injections = vs @ injections"
| "appendAcceptanceCriterionInjections _ injections = injections"

definition plannedTaskInputRequirements :: "gmap option \<Rightarrow> gmap \<times> gmap" where
  "plannedTaskInputRequirements requirements =
     (let m = (case requirements of None \<Rightarrow> [] | Some m \<Rightarrow> m) in
      (filter (\<lambda>(k, _). k = ''required_inputs'') m, filter (\<lambda>(k, _). k \<noteq> ''required_inputs'') m))"

definition handoff_contract :: "gval list \<Rightarrow> PlanRevisionTask \<Rightarrow> gmap" where
  "handoff_contract injections task =
     (let h0 = (case prt_HandoffContract task of None \<Rightarrow> [] | Some m \<Rightarrow> m);
          h1 = (if prt_AcceptanceCriteria task \<noteq> []
                then AList.update ''acceptance_criteria'' (GStrs (prt_AcceptanceCriteria task)) h0 else h0);
          h2 = (if injections \<noteq> []
                then AList.update ''acceptance_criteria''
                       (GList (appendAcceptanceCriterionInjections (gget h1 ''acceptance_criteria'') injections)) h1 else h1)
      in if prt_VerificationRequirements task \<noteq> []
         then AList.update ''verification_requirements'' (GStrs (prt_VerificationRequirements task)) h2 else h2)"

definition int_value :: "int \<Rightarrow> gval" where
  "int_value n = GNum (of_int n) (Itoa n)"

definition planner_metadata :: "uuid_lib \<Rightarrow> uuid \<Rightarrow> string \<Rightarrow> PlanRevisionPayload \<Rightarrow> PlanRevisionTask \<Rightarrow> gmap \<Rightarrow> gmap" where
  "planner_metadata U revisionID fingerprint payload task plannerNotes =
     [(''accepted_plan_revision_id'', GStr (uuid_String U revisionID)), (''plan_fingerprint'', GStr fingerprint),
      (''employee_selection'', GMap
        [(''reason'', GStr (prt_EmployeeSelectionReason task)),
         (''required_capabilities'', GStrs (prt_RequiredCapabilities task)),
         (''matched_capabilities'', GStrs (prt_MatchedCapabilities task)),
         (''missing_capabilities'', GStrs (prt_MissingCapabilities task)),
         (''selection_score'', int_value (prt_SelectionScore task)),
         (''planning_profile_snapshot_hash'', GStr (prt_PlanningProfileSnapshotHash task))]),
      (''acceptance_criteria'', GStrs (prt_AcceptanceCriteria task)),
      (''produces'', GList (stringsToAny (prt_Produces task))), (''planner_notes'', GMap plannerNotes)] @
     (let key = TrimSpace (prp_TemplateKey payload) in
      if key \<noteq> [] then
        (''template_key'', GStr key) #
        (if prp_TemplateVersion payload > 0 then [(''template_version'', int_value (prp_TemplateVersion payload))] else [])
      else [])"

record DecomposeAcceptedPlanRevisionInput =
  dec_PlanRevisionID :: uuid
  dec_PlanFingerprint :: string
  dec_Payload :: PlanRevisionPayload

text \<open>The body of the loop over the payload's tasks; \<open>None\<close> is the invalid-project error.\<close>

definition graph_task ::
  "uuid_lib \<Rightarrow> DecomposeAcceptedPlanRevisionInput \<Rightarrow> PlanAcceptanceCriterion list \<Rightarrow> PlanRevisionTask \<Rightarrow>
   ProjectTaskGraphCreateTask option" where
  "graph_task U input criteria task =
     (case uuid_Parse U (TrimSpace (prt_SelectedEmployeeID task)) of
        None \<Rightarrow> None
      | Some employeeID \<Rightarrow>
          let (stored, plannerNotes) = plannedTaskInputRequirements (prt_InputRequirements task);
              inputs = (if prt_InputContextRefs task \<noteq> []
                        then AList.update ''input_context_refs'' (GStrs (prt_InputContextRefs task)) stored else stored);
              injections = criterionInjectionsByTaskKey criteria (prt_PlannedTaskKey task)
          in Some \<lparr>gt_Key = prt_PlannedTaskKey task, gt_Title = prt_Title task, gt_Summary = prt_Objective task,
                   gt_Status = (if prt_DependsOn task \<noteq> [] then ''blocked'' else ''planned''),
                   gt_AssignedDigitalEmployeeID = employeeID, gt_TaskKind = prt_TaskType task,
                   gt_RiskLevel = prt_RiskLevel task, gt_RequiresHumanApproval = prt_HumanReviewRequired task,
                   gt_ExpectedOutputs = stringsToAny (prt_ExpectedOutputs task), gt_InputRequirements = inputs,
                   gt_HandoffContract = handoff_contract injections task,
                   gt_PlannerMetadata = planner_metadata U (dec_PlanRevisionID input) (dec_PlanFingerprint input)
                     (dec_Payload input) task plannerNotes,
                   gt_BlockedByKeys = prt_DependsOn task\<rparr>)"

definition normalized_criteria :: "PlanRevisionPayload \<Rightarrow> PlanAcceptanceCriterion list" where
  "normalized_criteria payload = map normalizeCriterionDefaults (prp_Criteria payload)"

definition graph_tasks :: "uuid_lib \<Rightarrow> DecomposeAcceptedPlanRevisionInput \<Rightarrow> ProjectTaskGraphCreateTask list option" where
  "graph_tasks U input =
     those (map (graph_task U input (normalized_criteria (dec_Payload input))) (prp_Tasks (dec_Payload input)))"

section \<open>The criteria snapshot\<close>

definition snapshot_request :: "PlanAcceptanceCriterion \<Rightarrow> DemandAcceptanceCriterion" where
  "snapshot_request c =
     \<lparr>dac_CriterionID = pac_ID c, dac_Statement = pac_Statement c, dac_VerificationMethod = pac_VerificationMethod c,
      dac_Severity = pac_Severity c, dac_SatisfiedBy = pac_SatisfiedBy c, dac_Source = pac_Source c\<rparr>"

text \<open>One insert: on a conflict of the identifier nothing is done; the source is not written.\<close>

definition CreateDemandAcceptanceCriterion ::
  "DemandAcceptanceCriterion list \<Rightarrow> DemandAcceptanceCriterion \<Rightarrow> DemandAcceptanceCriterion list" where
  "CreateDemandAcceptanceCriterion rows req =
     (if dac_CriterionID req \<in> set (map dac_CriterionID rows) then rows else rows @ [req\<lparr>dac_Source := []\<rparr>])"

definition CreateDemandAcceptanceCriteria ::
  "DemandAcceptanceCriterion list \<Rightarrow> DemandAcceptanceCriterion list \<Rightarrow> DemandAcceptanceCriterion list" where
  "CreateDemandAcceptanceCriteria rows reqs = foldl CreateDemandAcceptanceCriterion rows reqs"

datatype decompose_error = ErrInvalidProject | ErrDecompositionRefused | ErrSnapshotRefused

text \<open>
  The whole operation. \<open>persist\<close> is the repository call that creates the tasks, with its result or
  \<open>None\<close> for an error, and \<open>commit\<close> tells whether the transaction of the inserts is committed.
\<close>

definition DecomposeAcceptedPlanRevision ::
  "uuid_lib \<Rightarrow> (ProjectTaskGraphCreateTask list \<Rightarrow> 'r option) \<Rightarrow> bool \<Rightarrow> DecomposeAcceptedPlanRevisionInput \<Rightarrow>
   DemandAcceptanceCriterion list \<Rightarrow> (decompose_error + 'r) \<times> DemandAcceptanceCriterion list" where
  "DecomposeAcceptedPlanRevision U persist commit input rows =
     (let criteria = normalized_criteria (dec_Payload input) in
      case graph_tasks U input of
        None \<Rightarrow> (Inl ErrInvalidProject, rows)
      | Some tasks \<Rightarrow>
          (case persist tasks of
             None \<Rightarrow> (Inl ErrDecompositionRefused, rows)
           | Some results \<Rightarrow>
               if criteria = [] then (Inr results, rows)
               else if commit then (Inr results, CreateDemandAcceptanceCriteria rows (map snapshot_request criteria))
               else (Inl ErrSnapshotRefused, rows)))"

section \<open>The snapshot keeps the first criterion of each identifier\<close>

lemma find_snoc: "find P (xs @ [y]) = (case find P xs of Some x \<Rightarrow> Some x | None \<Rightarrow> if P y then Some y else None)"
  by (induction xs) auto

definition row_of :: "DemandAcceptanceCriterion list \<Rightarrow> string \<Rightarrow> DemandAcceptanceCriterion option" where
  "row_of rows i = find (\<lambda>r. dac_CriterionID r = i) rows"

lemma row_of_None: "row_of rows i = None \<longleftrightarrow> i \<notin> set (map dac_CriterionID rows)"
  by (auto simp: row_of_def find_None_iff)

lemma insert_row:
  "row_of (CreateDemandAcceptanceCriterion rows req) i =
     (case row_of rows i of
        Some r \<Rightarrow> Some r
      | None \<Rightarrow> if dac_CriterionID req = i then Some (req\<lparr>dac_Source := []\<rparr>) else None)"
proof (cases "dac_CriterionID req \<in> set (map dac_CriterionID rows)")
  case True
  then show ?thesis using row_of_None [of rows i] by (auto simp: CreateDemandAcceptanceCriterion_def split: option.split)
next
  case False
  then show ?thesis by (simp add: CreateDemandAcceptanceCriterion_def row_of_def find_snoc)
qed

lemma insert_rows:
  "row_of (CreateDemandAcceptanceCriteria rows reqs) i =
     (case row_of rows i of
        Some r \<Rightarrow> Some r
      | None \<Rightarrow> map_option (\<lambda>req. req\<lparr>dac_Source := []\<rparr>) (find (\<lambda>req. dac_CriterionID req = i) reqs))"
  unfolding CreateDemandAcceptanceCriteria_def
  by (induction reqs arbitrary: rows) (auto simp: insert_row split: option.split)

lemma insert_distinct:
  "distinct (map dac_CriterionID rows) \<Longrightarrow> distinct (map dac_CriterionID (CreateDemandAcceptanceCriteria rows reqs))"
  unfolding CreateDemandAcceptanceCriteria_def
  by (induction reqs arbitrary: rows) (simp_all add: CreateDemandAcceptanceCriterion_def)

lemma insert_known: "set (map dac_CriterionID reqs) \<subseteq> set (map dac_CriterionID rows) \<Longrightarrow> CreateDemandAcceptanceCriteria rows reqs = rows"
  unfolding CreateDemandAcceptanceCriteria_def
  by (induction reqs) (simp_all add: CreateDemandAcceptanceCriterion_def)

lemma insert_ids: "set (map dac_CriterionID (CreateDemandAcceptanceCriteria rows reqs)) = set (map dac_CriterionID rows) \<union> set (map dac_CriterionID reqs)"
  unfolding CreateDemandAcceptanceCriteria_def
  by (induction reqs arbitrary: rows) (auto simp: CreateDemandAcceptanceCriterion_def)

lemma find_map_snapshot:
  "find (\<lambda>req. dac_CriterionID req = i) (map snapshot_request cs) = map_option snapshot_request (find (\<lambda>c. pac_ID c = i) cs)"
  by (induction cs) (auto simp: snapshot_request_def)

lemma find_map_normalize:
  "find (\<lambda>c. pac_ID c = i) (map normalizeCriterionDefaults cs) = map_option normalizeCriterionDefaults (find (\<lambda>c. pac_ID c = i) cs)"
  by (induction cs) auto

text \<open>
  Decomposing a revision of a demand that has no rows yet stores, under each criterion
  identifier, the first criterion of the payload with that identifier, with its defaults filled in and
  without its source; a later criterion with the same identifier is dropped without an error. Doing it
  again changes nothing.
\<close>

theorem snapshot_keeps_first_criterion:
  assumes "DecomposeAcceptedPlanRevision U persist commit input [] = (Inr results, rows)"
  shows "distinct (map dac_CriterionID rows) \<and>
    (\<forall>i. row_of rows i = map_option (\<lambda>c. (snapshot_request (normalizeCriterionDefaults c))\<lparr>dac_Source := []\<rparr>)
      (find (\<lambda>c. pac_ID c = i) (prp_Criteria (dec_Payload input)))) \<and>
    DecomposeAcceptedPlanRevision U persist commit input rows = (Inr results, rows)"
proof -
  let ?reqs = "map snapshot_request (normalized_criteria (dec_Payload input))"
  obtain tasks where g: "graph_tasks U input = Some tasks" "persist tasks = Some results"
    and c: "commit \<or> normalized_criteria (dec_Payload input) = []" and rows: "rows = CreateDemandAcceptanceCriteria [] ?reqs"
    using assms by (auto simp: DecomposeAcceptedPlanRevision_def CreateDemandAcceptanceCriteria_def Let_def
        split: option.splits if_splits)
  have "distinct (map dac_CriterionID rows)" unfolding rows by (rule insert_distinct) simp
  moreover have "row_of rows i = map_option (\<lambda>c. (snapshot_request (normalizeCriterionDefaults c))\<lparr>dac_Source := []\<rparr>)
      (find (\<lambda>c. pac_ID c = i) (prp_Criteria (dec_Payload input)))" for i
    unfolding rows insert_rows find_map_snapshot normalized_criteria_def find_map_normalize
    by (simp add: row_of_def option.map_comp comp_def)
  moreover have "CreateDemandAcceptanceCriteria rows ?reqs = rows"
    by (rule insert_known) (simp only: rows insert_ids, blast)
  ultimately show ?thesis using g c by (auto simp: DecomposeAcceptedPlanRevision_def Let_def)
qed

section \<open>Criteria reach the tasks that satisfy them\<close>

lemma those_Some: "those (map f xs) = Some ys \<longleftrightarrow> list_all2 (\<lambda>x y. f x = Some y) xs ys"
  by (induction xs arbitrary: ys) (auto simp: list_all2_Cons1 split: option.splits)

lemma injections_have:
  assumes "c \<in> set criteria" "pac_VerificationMethod c = VerificationMethodAutomatedTest" "key \<in> set (pac_SatisfiedBy c)"
  shows "criterion_injection c \<in> set (criterionInjectionsByTaskKey criteria key)"
  using assms by (force simp: criterionInjectionsByTaskKey_def)

lemma update_gget: "gget (AList.update k v m) k' = (if k' = k then v else gget m k')"
  by (simp add: gget_def AList.update_conv')

lemma handoff_acceptance:
  assumes "injections \<noteq> []"
  shows "\<exists>own. gget (handoff_contract injections t) ''acceptance_criteria'' = GList (own @ injections) \<and>
    (prt_AcceptanceCriteria t \<noteq> [] \<longrightarrow> own = map GStr (prt_AcceptanceCriteria t))"
proof -
  have "\<exists>own. appendAcceptanceCriterionInjections v injections = own @ injections" for v
    by (cases v) auto
  with assms show ?thesis by (auto simp: handoff_contract_def Let_def update_gget)
qed

lemma graph_task_fields:
  assumes "graph_task U input cs t = Some g"
  shows "gt_Key g = prt_PlannedTaskKey t" "gt_BlockedByKeys g = prt_DependsOn t"
    "gt_ExpectedOutputs g = map GStr (prt_ExpectedOutputs t)" "gt_RequiresHumanApproval g = prt_HumanReviewRequired t"
    "gt_Status g = (if prt_DependsOn t = [] then ''planned'' else ''blocked'')"
    "gt_HandoffContract g = handoff_contract (criterionInjectionsByTaskKey cs (prt_PlannedTaskKey t)) t"
  using assms by (auto simp: graph_task_def Let_def stringsToAny_def split: option.splits prod.splits)

text \<open>
  A decomposed task keeps its key, blockers, outputs and approval demand, starts blocked
  exactly if it depends on another task, and its handoff contract lists the task's own acceptance
  criteria first and after them every machine-checked criterion of the plan that names the task.
\<close>

theorem criteria_reach_their_tasks:
  assumes "graph_tasks U input = Some tasks" "i < length (prp_Tasks (dec_Payload input))"
  shows "length tasks = length (prp_Tasks (dec_Payload input)) \<and>
    (let t = prp_Tasks (dec_Payload input) ! i; g = tasks ! i in
     gt_Key g = prt_PlannedTaskKey t \<and> gt_BlockedByKeys g = prt_DependsOn t \<and>
     gt_ExpectedOutputs g = map GStr (prt_ExpectedOutputs t) \<and> gt_RequiresHumanApproval g = prt_HumanReviewRequired t \<and>
     gt_Status g = (if prt_DependsOn t = [] then ''planned'' else ''blocked'') \<and>
     (\<forall>c \<in> set (normalized_criteria (dec_Payload input)).
        pac_VerificationMethod c = VerificationMethodAutomatedTest \<and> prt_PlannedTaskKey t \<in> set (pac_SatisfiedBy c) \<longrightarrow>
        (\<exists>own injected. gget (gt_HandoffContract g) ''acceptance_criteria'' = GList (own @ injected) \<and>
           criterion_injection c \<in> set injected \<and>
           (prt_AcceptanceCriteria t \<noteq> [] \<longrightarrow> own = map GStr (prt_AcceptanceCriteria t)))))"
proof -
  let ?ts = "prp_Tasks (dec_Payload input)" and ?cs = "normalized_criteria (dec_Payload input)"
  have all: "list_all2 (\<lambda>t g. graph_task U input ?cs t = Some g) ?ts tasks"
    using assms(1) by (auto simp: graph_tasks_def those_Some)
  then have len: "length tasks = length ?ts" by (simp add: list_all2_lengthD)
  have g: "graph_task U input ?cs (?ts ! i) = Some (tasks ! i)" using list_all2_nthD [OF all assms(2)] .
  note fields = graph_task_fields [OF g]
  have inj: "\<exists>own injected. gget (gt_HandoffContract (tasks ! i)) ''acceptance_criteria'' = GList (own @ injected) \<and>
      criterion_injection c \<in> set injected \<and> (prt_AcceptanceCriteria (?ts ! i) \<noteq> [] \<longrightarrow> own = map GStr (prt_AcceptanceCriteria (?ts ! i)))"
    if "c \<in> set ?cs" "pac_VerificationMethod c = VerificationMethodAutomatedTest \<and> prt_PlannedTaskKey (?ts ! i) \<in> set (pac_SatisfiedBy c)" for c
  proof -
    have c: "criterion_injection c \<in> set (criterionInjectionsByTaskKey ?cs (prt_PlannedTaskKey (?ts ! i)))"
      using injections_have that by blast
    then have "criterionInjectionsByTaskKey ?cs (prt_PlannedTaskKey (?ts ! i)) \<noteq> []" by auto
    from handoff_acceptance [OF this, of "?ts ! i"] c show ?thesis unfolding fields(6) by blast
  qed
  show ?thesis unfolding Let_def using len fields(1-5) inj by simp
qed

section \<open>Acceptance without a human\<close>

lemma example_route_criteria:
  "plan_Criteria example_route =
     [\<lparr>pac_ID = ''tests'', pac_Statement = ''all tests pass'', pac_SatisfiedBy = [''build''], pac_VerificationMethod = ''automated_test'',
        pac_Severity = ''blocking'', pac_EvidenceHint = [], pac_AmbiguityFlag = False, pac_Source = ''planner_authored''\<rparr>,
      \<lparr>pac_ID = ''look'', pac_Statement = ''it looks right'', pac_SatisfiedBy = [], pac_VerificationMethod = ''human_judgment'',
        pac_Severity = ''blocking'', pac_EvidenceHint = [], pac_AmbiguityFlag = False, pac_Source = ''planner_authored''\<rparr>]"
  by code_simp

definition example_verdict :: DemandCriterionVerdict where
  "example_verdict = \<lparr>dcv_CriterionID = ''tests'', dcv_Verdict = ''satisfied'', dcv_JudgeType = ''executor'', dcv_JudgeID = 1,
     dcv_Reason = [], dcv_EvidenceRefs = [''log''], dcv_ProjectTaskID = Some 1\<rparr>"

text \<open>
  A high-risk plan can be accepted without any human. The planner returns, for a project that
  requires human review and human acceptance, a plan that the platform itself has recorded as risky.
  The model has written a human judgment criterion of its own, so the platform does not inject the
  criterion that only a human can satisfy; and the demand's gates ignore a planner-written human
  judgment. With a single verdict, the executor's report on its own tests, nothing holds the demand
  and the evidence gate lets policy sign in place of a human.
\<close>

theorem high_risk_plan_accepted_without_human:
  "Plan example_env example_config example_review_snapshot = Inr example_route \<and> planTouchesHighRisk example_route \<and>
   requireHumanAcceptance (snap_CoordinationPolicy example_review_snapshot) \<and>
   (let criteria = CreateDemandAcceptanceCriteria []
          (map snapshot_request (normalized_criteria (BuildPlanRevisionPayload decimal_uuid_lib example_route)))
    in ResolveUnsatisfiedBlockingCriteria criteria [example_verdict] = [] \<and>
       EvaluateAcceptanceEvidenceGate criteria [example_verdict] = EvidencePass)"
proof (intro conjI)
  show "planTouchesHighRisk example_route"
    using stops_are_high_risk [OF example_run] returned_held [OF example_run example_policy(1)] by (simp add: held_def)
  have payload: "prp_Criteria (BuildPlanRevisionPayload decimal_uuid_lib example_route) = plan_Criteria example_route"
    by (simp add: BuildPlanRevisionPayload_def)
  have rows: "CreateDemandAcceptanceCriteria []
        (map snapshot_request (normalized_criteria (BuildPlanRevisionPayload decimal_uuid_lib example_route))) =
      [\<lparr>dac_CriterionID = ''tests'', dac_Statement = ''all tests pass'', dac_VerificationMethod = ''automated_test'',
        dac_Severity = ''blocking'', dac_SatisfiedBy = [''build''], dac_Source = []\<rparr>,
       \<lparr>dac_CriterionID = ''look'', dac_Statement = ''it looks right'', dac_VerificationMethod = ''human_judgment'',
        dac_Severity = ''blocking'', dac_SatisfiedBy = [], dac_Source = []\<rparr>]"
    unfolding normalized_criteria_def payload example_route_criteria by code_simp
  show "let criteria = CreateDemandAcceptanceCriteria []
          (map snapshot_request (normalized_criteria (BuildPlanRevisionPayload decimal_uuid_lib example_route)))
      in ResolveUnsatisfiedBlockingCriteria criteria [example_verdict] = [] \<and>
         EvaluateAcceptanceEvidenceGate criteria [example_verdict] = EvidencePass"
    unfolding rows by code_simp
qed (simp_all add: example_run example_policy)

text \<open>
  A second way: a planner criterion under the identifier of the injected human criterion is stored,
  and the injected one, which comes later, is dropped as a conflict.
\<close>

lemma forged_identifier_displaces_human_criterion:
  "let forged = \<lparr>pac_ID = fallbackHumanJudgmentCriterionID, pac_Statement = ''all tests pass'', pac_SatisfiedBy = [''build''],
         pac_VerificationMethod = ''automated_test'', pac_Severity = ''blocking'', pac_EvidenceHint = [],
         pac_AmbiguityFlag = False, pac_Source = ''planner_authored''\<rparr>;
       plan = ensureHumanJudgmentCriterion
         (example_plan [example_task ''build'' [] []] [forged] []) [(''require_human_acceptance'', GBool True)]
   in length (plan_Criteria plan) = 2 \<and>
      map dac_VerificationMethod (CreateDemandAcceptanceCriteria [] (map snapshot_request
        (normalized_criteria (BuildPlanRevisionPayload decimal_uuid_lib plan)))) = [''automated_test'']"
  by code_simp

section \<open>Examples\<close>

definition example_criterion :: "string \<Rightarrow> PlanAcceptanceCriterion" where
  "example_criterion statement = \<lparr>pac_ID = ''c'', pac_Statement = statement, pac_SatisfiedBy = [''a''],
     pac_VerificationMethod = ''automated_test'', pac_Severity = [], pac_EvidenceHint = [], pac_AmbiguityFlag = False,
     pac_Source = ''planner_authored''\<rparr>"

definition example_decomposition :: DecomposeAcceptedPlanRevisionInput where
  "example_decomposition = \<lparr>dec_PlanRevisionID = 1, dec_PlanFingerprint = ''f'', dec_Payload = BuildPlanRevisionPayload decimal_uuid_lib
     (example_plan [example_task ''a'' [] [], example_task ''b'' [] [''a'']] [example_criterion ''first'', example_criterion ''second''] [])\<rparr>"

definition example_tasks_created :: "ProjectTaskGraphCreateTask list" where
  "example_tasks_created = the (graph_tasks decimal_uuid_lib example_decomposition)"

lemma example_graph_tasks: "graph_tasks decimal_uuid_lib example_decomposition = Some example_tasks_created"
proof -
  have "graph_tasks decimal_uuid_lib example_decomposition \<noteq> None" by code_simp
  then show ?thesis by (auto simp: example_tasks_created_def)
qed

definition example_rows :: "DemandAcceptanceCriterion list" where
  "example_rows = CreateDemandAcceptanceCriteria [] (map snapshot_request (normalized_criteria (dec_Payload example_decomposition)))"

lemma example_decomposes:
  "DecomposeAcceptedPlanRevision decimal_uuid_lib (\<lambda>ts. Some (length ts)) True example_decomposition [] =
     (Inr (length example_tasks_created), example_rows)"
  by (simp add: DecomposeAcceptedPlanRevision_def example_graph_tasks example_rows_def CreateDemandAcceptanceCriteria_def Let_def)

theorem snapshot_keeps_first_criterion_witness:
  "map_option dac_Statement (row_of example_rows ''c'') = Some ''first''"
proof -
  have "find (\<lambda>c. pac_ID c = ''c'') (prp_Criteria (dec_Payload example_decomposition)) = Some (example_criterion ''first'')"
    by code_simp
  then show ?thesis using snapshot_keeps_first_criterion [OF example_decomposes]
    by (simp add: snapshot_request_def normalizeCriterionDefaults_def example_criterion_def Let_def)
qed

theorem criteria_reach_their_tasks_witness:
  "gt_Status (example_tasks_created ! 1) = ''blocked'' \<and> gt_BlockedByKeys (example_tasks_created ! 1) = [''a'']"
proof -
  have "1 < length (prp_Tasks (dec_Payload example_decomposition))" by code_simp
  note * = criteria_reach_their_tasks [OF example_graph_tasks this]
  have "prt_DependsOn (prp_Tasks (dec_Payload example_decomposition) ! 1) = [''a'']" by code_simp
  with * show ?thesis by (simp add: Let_def)
qed
end
