(* ===== verification/Result_Verdicts.thy ===== *)
theory Result_Verdicts
  imports Task_Result Plan_Decomposition
begin

text \<open>
  From a task result to the verdicts of the demand, after \<^verbatim>\<open>project/service.go\<close>: the attestations that
  have to back a claim of a green test, the verdicts an executor's result writes, and the placeholders
  that keep a demand waiting for its violation detectors. The verdict rows are those of one demand and
  plan revision, in the order of their creation. Reads of the repository are fields of \<open>result_store\<close>;
  each may fail, and so may each insert. \<open>order\<close> is the iteration order of a Go map.
\<close>

section \<open>Attestations\<close>

record ProjectTaskAttestation =
  pta_ID :: uuid
  pta_AttemptID :: uuid
  pta_RuntimeNodeID :: uuid
  pta_DigitalEmployeeID :: uuid
  pta_Status :: string
  pta_IdempotencyKey :: string

record ProjectTaskAttemptRuntimeRequest =
  par_AttemptID :: uuid
  par_ProjectTaskID :: uuid
  par_RuntimeNodeID :: uuid

record result_store =
  rs_ListDemandAcceptanceCriteria :: "uuid \<Rightarrow> uuid \<Rightarrow> string + DemandAcceptanceCriterion list"
  rs_ListProjectTaskAttestations :: "uuid \<Rightarrow> string + ProjectTaskAttestation list"
  rs_GetProjectTask :: "uuid \<Rightarrow> ProjectTask option"
  rs_refused :: "DemandCriterionVerdict \<Rightarrow> string option"

abbreviation att_succeeded :: string where "att_succeeded \<equiv> ''succeeded''"

text \<open>Appending a value that is not blank and not seen before; the seen set is the result so far.\<close>

definition add_seen :: "string list \<Rightarrow> string \<Rightarrow> string list" where
  "add_seen refs v = (if v = [] \<or> v \<in> set refs then refs else refs @ [v])"

definition attestation_ref_value :: "TaskResultRef \<Rightarrow> string" where
  "attestation_ref_value r =
     (if TrimSpace (trr_Ref r) \<noteq> [] then TrimSpace (trr_Ref r)
      else if TrimSpace (trr_ID r) \<noteq> [] then TrimSpace (trr_ID r)
      else if TrimSpace (trr_URI r) \<noteq> [] then TrimSpace (trr_URI r)
      else TrimSpace (trr_URL r))"

definition runtimeAttestationRefsFromVerifications :: "TaskResultVerification list \<Rightarrow> string list" where
  "runtimeAttestationRefsFromVerifications vs =
     foldl add_seen []
       (map attestation_ref_value
         (filter taskResultRefIsAttestation (concat (map trv_EvidenceRefs (filter (\<lambda>v. trv_Status v = ''passed'') vs)))))"

definition TrimPrefix :: "string \<Rightarrow> string \<Rightarrow> string" where
  "TrimPrefix s p = (if HasPrefix s p then drop (length p) s else s)"

definition parseRuntimeAttestationRef :: "uuid_lib \<Rightarrow> string \<Rightarrow> string \<times> uuid option" where
  "parseRuntimeAttestationRef U ref =
     (let key = TrimPrefix (TrimSpace ref) ''attestation:''; parts = Split key (CHR '':'') in
      (key, if length parts \<ge> 3 \<and> parts ! 0 = ''project-task-attempt'' then uuid_Parse U (parts ! 1) else None))"

definition findRuntimeAttestationForRef ::
  "uuid_lib \<Rightarrow> ProjectTaskAttestation list \<Rightarrow> string \<Rightarrow> ProjectTaskAttestation option" where
  "findRuntimeAttestationForRef U attestations key =
     find (\<lambda>a. TrimSpace (pta_IdempotencyKey a) = key \<or> uuid_String U (pta_ID a) = key) attestations"

definition attestationRecordRef :: "uuid_lib \<Rightarrow> ProjectTaskAttestation \<Rightarrow> string" where
  "attestationRecordRef U att =
     (let key = (if TrimSpace (pta_IdempotencyKey att) = [] then uuid_String U (pta_ID att) else TrimSpace (pta_IdempotencyKey att))
      in if HasPrefix key ''attestation:'' then key else ''attestation:'' @ key)"

text \<open>Is a reference of the result backed by a succeeded record of this attempt?\<close>

definition backed_ref :: "uuid_lib \<Rightarrow> uuid \<Rightarrow> ProjectTaskAttestation list \<Rightarrow> string \<Rightarrow> bool" where
  "backed_ref U attempt attestations ref =
     (let (key, parsed) = parseRuntimeAttestationRef U ref in
      (case parsed of Some a \<Rightarrow> a = attempt | None \<Rightarrow> True) \<and>
      (case findRuntimeAttestationForRef U attestations key of
         None \<Rightarrow> False
       | Some att \<Rightarrow> pta_AttemptID att = attempt \<and> pta_Status att = att_succeeded))"

definition server_refs ::
  "uuid_lib \<Rightarrow> uuid \<Rightarrow> TaskResultContract \<Rightarrow> ProjectTaskAttestation list \<Rightarrow> string list" where
  "server_refs U attempt contract attestations =
     (let refs = foldl add_seen [] (map TrimSpace
        (filter (backed_ref U attempt attestations) (runtimeAttestationRefsFromVerifications (trc_Verification contract)))) in
      if refs \<noteq> [] then refs
      else foldl add_seen [] (map (\<lambda>a. TrimSpace (attestationRecordRef U a))
        (filter (\<lambda>a. pta_AttemptID a = attempt \<and> pta_Status a = att_succeeded) attestations)))"

definition runtimeVerifiedAttestationRefsForAttempt ::
  "uuid_lib \<Rightarrow> result_store \<Rightarrow> ProjectTaskAttemptRuntimeRequest \<Rightarrow> TaskResultContract \<Rightarrow> string + string list" where
  "runtimeVerifiedAttestationRefsForAttempt U S rq contract =
     (case rs_ListProjectTaskAttestations S (par_ProjectTaskID rq) of
        Inl e \<Rightarrow> Inl e
      | Inr attestations \<Rightarrow> Inr (server_refs U (par_AttemptID rq) contract attestations))"

text \<open>The body of the loop of \<^verbatim>\<open>validateRuntimeAttestationRefs\<close>.\<close>

definition attestation_ref_error ::
  "uuid_lib \<Rightarrow> ProjectTask \<Rightarrow> ProjectTaskAttemptRuntimeRequest \<Rightarrow> ProjectTaskAttestation list \<Rightarrow> string \<Rightarrow> string option" where
  "attestation_ref_error U task rq attestations ref =
     (let (key, parsed) = parseRuntimeAttestationRef U ref in
      if (case parsed of Some a \<Rightarrow> a \<noteq> par_AttemptID rq | None \<Rightarrow> False) then Some ''verification_attestation_ref_wrong_attempt''
      else case findRuntimeAttestationForRef U attestations key of
          None \<Rightarrow> Some ''verification_attestation_ref_not_found''
        | Some att \<Rightarrow>
            if pta_AttemptID att \<noteq> par_AttemptID rq then Some ''verification_attestation_ref_wrong_attempt''
            else if pta_RuntimeNodeID att \<noteq> par_RuntimeNodeID rq then Some ''verification_attestation_ref_wrong_runtime_node''
            else if (case pt_AssignedDigitalEmployeeID task of Some e \<Rightarrow> pta_DigitalEmployeeID att \<noteq> e | None \<Rightarrow> False)
            then Some ''verification_attestation_ref_wrong_digital_employee''
            else if pta_Status att \<noteq> att_succeeded then Some ''verification_attestation_ref_not_succeeded''
            else None)"

definition validateRuntimeAttestationRefs ::
  "uuid_lib \<Rightarrow> result_store \<Rightarrow> ProjectTask \<Rightarrow> ProjectTaskAttemptRuntimeRequest \<Rightarrow> TaskResultContract \<Rightarrow> string + string list" where
  "validateRuntimeAttestationRefs U S task rq contract =
     (if trc_Status contract \<noteq> st_completed \<or>
         \<not> boolFromTaskContract (gget (pt_HandoffContract task) ''requires_runtime_attestation'') then Inr []
      else let refs = runtimeAttestationRefsFromVerifications (trc_Verification contract) in
      if refs = [] then Inr []
      else case rs_ListProjectTaskAttestations S (par_ProjectTaskID rq) of
          Inl e \<Rightarrow> Inl e
        | Inr attestations \<Rightarrow> Inr (List.map_filter (attestation_ref_error U task rq attestations) refs))"

section \<open>Criteria of a task\<close>

definition demandAcceptanceCriteriaSnapshot :: "result_store \<Rightarrow> ProjectTask \<Rightarrow> string + DemandAcceptanceCriterion list" where
  "demandAcceptanceCriteriaSnapshot S task =
     (case (pt_DemandID task, pt_AcceptedPlanRevisionID task) of
        (Some d, Some r) \<Rightarrow> rs_ListDemandAcceptanceCriteria S d r
      | _ \<Rightarrow> Inr [])"

definition satisfied_by_key :: "string \<Rightarrow> DemandAcceptanceCriterion \<Rightarrow> bool" where
  "satisfied_by_key key c = list_ex (\<lambda>s. TrimSpace s = key) (dac_SatisfiedBy c)"

definition criteriaSatisfiedByTask :: "DemandAcceptanceCriterion list \<Rightarrow> ProjectTask \<Rightarrow> DemandAcceptanceCriterion list" where
  "criteriaSatisfiedByTask snapshot task =
     (case pt_PlannedTaskKey task of
        None \<Rightarrow> []
      | Some k \<Rightarrow> if TrimSpace k = [] then [] else filter (satisfied_by_key (TrimSpace k)) snapshot)"

definition matchAcceptanceResultToSnapshotCriterion ::
  "TaskResultAcceptanceResult list \<Rightarrow> DemandAcceptanceCriterion \<Rightarrow> TaskResultAcceptanceResult option" where
  "matchAcceptanceResultToSnapshotCriterion results c =
     (case find (\<lambda>r. TrimSpace (tar_CriterionID r) \<noteq> [] \<and> tar_CriterionID r = dac_CriterionID c) results of
        Some r \<Rightarrow> Some r
      | None \<Rightarrow> find (\<lambda>r. matchesCriterion r (dac_Statement c)) results)"

section \<open>Green tests have to be attested\<close>

definition claims_green :: "TaskResultContract \<Rightarrow> DemandAcceptanceCriterion \<Rightarrow> bool" where
  "claims_green contract c =
     (dac_VerificationMethod c = ''automated_test'' \<and> \<not> HasPrefix (dac_CriterionID c) ''produces_delivered:'' \<and>
      (case matchAcceptanceResultToSnapshotCriterion (trc_AcceptanceResults contract) c of
         None \<Rightarrow> False
       | Some r \<Rightarrow> tar_Status r = ''passed'' \<or> tar_Status r = ''human_overridden''))"

definition consumed_ref :: "(string list \<Rightarrow> string list) \<Rightarrow> string list \<Rightarrow> TaskResultAcceptanceResult \<Rightarrow> string" where
  "consumed_ref order available r =
     (let echoed = (case find (\<lambda>ref. ref \<in> set available) (map TrimSpace (tar_EvidenceRefs r)) of Some ref \<Rightarrow> ref | None \<Rightarrow> []) in
      if echoed \<noteq> [] then echoed else case order available of [] \<Rightarrow> [] | ref # _ \<Rightarrow> ref)"

fun attestation_errors ::
  "(string list \<Rightarrow> string list) \<Rightarrow> TaskResultContract \<Rightarrow> DemandAcceptanceCriterion list \<Rightarrow> string list \<Rightarrow> string list" where
  "attestation_errors order contract [] available = []"
| "attestation_errors order contract (c # cs) available =
     (case matchAcceptanceResultToSnapshotCriterion (trc_AcceptanceResults contract) c of
        None \<Rightarrow> attestation_errors order contract cs available
      | Some r \<Rightarrow>
          let consumed = consumed_ref order available r in
          if consumed = [] then (''acceptance_result_attestation_required:'' @ dac_CriterionID c) # attestation_errors order contract cs available
          else attestation_errors order contract cs (removeAll consumed available))"

definition validateAcceptanceCriterionAttestation ::
  "uuid_lib \<Rightarrow> (string list \<Rightarrow> string list) \<Rightarrow> result_store \<Rightarrow> ProjectTask \<Rightarrow> ProjectTaskAttemptRuntimeRequest \<Rightarrow>
   TaskResultContract \<Rightarrow> string + string list" where
  "validateAcceptanceCriterionAttestation U order S task rq contract =
     (if trc_Status contract \<noteq> st_completed then Inr []
      else case demandAcceptanceCriteriaSnapshot S task of
          Inl e \<Rightarrow> Inl e
        | Inr snapshot \<Rightarrow>
            if snapshot = [] then Inr []
            else let claimed = filter (claims_green contract) (criteriaSatisfiedByTask snapshot task) in
              if claimed = [] then Inr []
              else case runtimeVerifiedAttestationRefsForAttempt U S rq contract of
                  Inl e \<Rightarrow> Inl e
                | Inr serverRefs \<Rightarrow> Inr (attestation_errors order contract claimed serverRefs))"

definition validateTaskResultContractForAttempt ::
  "uuid_lib \<Rightarrow> (string list \<Rightarrow> string list) \<Rightarrow> result_store \<Rightarrow> ProjectTask \<Rightarrow> ProjectTaskAttemptRuntimeRequest \<Rightarrow>
   TaskResultContract \<Rightarrow> TaskResultValidation \<times> string option" where
  "validateTaskResultContractForAttempt U order S task rq contract =
     (let validation = ValidateTaskResultContract task contract in
      if \<not> tvd_Valid validation then (validation, None)
      else case validateRuntimeAttestationRefs U S task rq contract of
          Inl e \<Rightarrow> (validation, Some e)
        | Inr runtimeErrors \<Rightarrow>
            (case validateAcceptanceCriterionAttestation U order S task rq contract of
               Inl e \<Rightarrow> (validation, Some e)
             | Inr acceptanceErrors \<Rightarrow>
                 if runtimeErrors @ acceptanceErrors \<noteq> [] then
                   (\<lparr>tvd_Valid = False, tvd_Decision = ValidationFailed, tvd_Errors = tvd_Errors validation @ runtimeErrors @ acceptanceErrors\<rparr>, None)
                 else (validation, None)))"

section \<open>Verdicts written for a result\<close>

definition demandCriterionVerdictValueFromResultStatus :: "string \<Rightarrow> string option" where
  "demandCriterionVerdictValueFromResultStatus status =
     (if status = ''passed'' \<or> status = ''human_overridden'' then Some v_satisfied
      else if status = ''failed'' then Some v_unsatisfied
      else if status = ''not_applicable'' then Some v_not_applicable
      else None)"

definition mergeStringRefs :: "string list \<Rightarrow> string list \<Rightarrow> string list" where
  "mergeStringRefs base extra = foldl add_seen [] (map TrimSpace (base @ extra))"

text \<open>The insert: on a second row of the same task for the criterion nothing is done.\<close>

definition CreateDemandCriterionVerdict :: "DemandCriterionVerdict list \<Rightarrow> DemandCriterionVerdict \<Rightarrow> DemandCriterionVerdict list" where
  "CreateDemandCriterionVerdict rows req =
     (if dcv_ProjectTaskID req \<noteq> None \<and>
         list_ex (\<lambda>r. dcv_CriterionID r = dcv_CriterionID req \<and> dcv_ProjectTaskID r = dcv_ProjectTaskID req) rows
      then rows else rows @ [req])"

text \<open>Both loops: skip, write or fail at each criterion; a failure keeps the rows written so far.\<close>

fun write_verdicts ::
  "result_store \<Rightarrow> (DemandAcceptanceCriterion \<Rightarrow> string + DemandCriterionVerdict option) \<Rightarrow> DemandAcceptanceCriterion list \<Rightarrow>
   DemandCriterionVerdict list \<Rightarrow> string option \<times> DemandCriterionVerdict list" where
  "write_verdicts S f [] rows = (None, rows)"
| "write_verdicts S f (c # cs) rows =
     (case f c of
        Inl e \<Rightarrow> (Some e, rows)
      | Inr None \<Rightarrow> write_verdicts S f cs rows
      | Inr (Some v) \<Rightarrow>
          (case rs_refused S v of
             Some e \<Rightarrow> (Some e, rows)
           | None \<Rightarrow> write_verdicts S f cs (CreateDemandCriterionVerdict rows v)))"

definition executor_verdict ::
  "ProjectTask \<Rightarrow> uuid \<Rightarrow> TaskResultContract \<Rightarrow> string + string list \<Rightarrow> DemandAcceptanceCriterion \<Rightarrow> string + DemandCriterionVerdict option" where
  "executor_verdict task employee contract serverRefs c =
     (case matchAcceptanceResultToSnapshotCriterion (trc_AcceptanceResults contract) c of
        None \<Rightarrow> Inr None
      | Some r \<Rightarrow>
          if dac_VerificationMethod c = ''human_judgment'' \<or> dac_VerificationMethod c = ''adversarial_review'' \<or>
             dac_VerificationMethod c = ''review_gate'' then Inr None
          else case demandCriterionVerdictValueFromResultStatus (tar_Status r) of
              None \<Rightarrow> Inr None
            | Some verdict \<Rightarrow>
                let reason = (if TrimSpace (tar_Summary r) = [] then TrimSpace (tar_HumanAcceptedReason r) else TrimSpace (tar_Summary r));
                    row = (\<lambda>refs. \<lparr>dcv_CriterionID = dac_CriterionID c, dcv_Verdict = verdict, dcv_JudgeType = judge_executor,
                      dcv_JudgeID = employee, dcv_Reason = reason, dcv_EvidenceRefs = refs, dcv_ProjectTaskID = Some (pt_ID task)\<rparr>)
                in if dac_VerificationMethod c = ''automated_test'' \<and> verdict = v_satisfied then
                     (case serverRefs of Inl e \<Rightarrow> Inl e | Inr refs \<Rightarrow> Inr (Some (row (mergeStringRefs (tar_EvidenceRefs r) refs))))
                   else Inr (Some (row (tar_EvidenceRefs r))))"

definition deliverable_verdict ::
  "ProjectTask \<Rightarrow> uuid \<Rightarrow> TaskResultContract \<Rightarrow> DemandAcceptanceCriterion \<Rightarrow> string + DemandCriterionVerdict option" where
  "deliverable_verdict task employee contract c =
     (if \<not> HasPrefix (dac_CriterionID c) ''produces_delivered:'' then Inr None
      else let plannedKey = (case pt_PlannedTaskKey task of None \<Rightarrow> [] | Some k \<Rightarrow> TrimSpace k);
               suffix = TrimPrefix (dac_CriterionID c) ''produces_delivered:'';
               name = (if plannedKey \<noteq> [] then TrimPrefix suffix (plannedKey @ '':'') else suffix)
      in if name \<notin> set (delivered_names contract) then Inr None
         else Inr (Some \<lparr>dcv_CriterionID = dac_CriterionID c, dcv_Verdict = v_satisfied, dcv_JudgeType = judge_executor,
           dcv_JudgeID = employee, dcv_Reason = byte_string [229, 185, 179, 229, 143, 176, 230, 160, 184, 229, 175,
             185, 239, 188, 154] @ ''deliverable \"'' @ name @ ''\" '' @ byte_string [229, 183, 178, 228, 186, 164,
               228, 187, 152],
           dcv_EvidenceRefs = [''platform_produces_check:'' @ name], dcv_ProjectTaskID = Some (pt_ID task)\<rparr>))"

definition projectProducesDeliverableVerdicts ::
  "result_store \<Rightarrow> ProjectTask \<Rightarrow> DemandAcceptanceCriterion list \<Rightarrow> TaskResultContract \<Rightarrow> DemandCriterionVerdict list \<Rightarrow>
   string option \<times> DemandCriterionVerdict list" where
  "projectProducesDeliverableVerdicts S task snapshot contract rows =
     (case pt_AssignedDigitalEmployeeID task of
        None \<Rightarrow> (None, rows)
      | Some employee \<Rightarrow> write_verdicts S (deliverable_verdict task employee contract) (criteriaSatisfiedByTask snapshot task) rows)"

definition projectDemandCriterionVerdicts ::
  "uuid_lib \<Rightarrow> result_store \<Rightarrow> ProjectTask \<Rightarrow> ProjectTaskAttemptRuntimeRequest \<Rightarrow> TaskResultContract \<Rightarrow>
   DemandCriterionVerdict list \<Rightarrow> string option \<times> DemandCriterionVerdict list" where
  "projectDemandCriterionVerdicts U S task rq contract rows =
     (case pt_AssignedDigitalEmployeeID task of
        None \<Rightarrow> (None, rows)
      | Some employee \<Rightarrow>
          if trc_Status contract \<noteq> st_completed then (None, rows)
          else case demandAcceptanceCriteriaSnapshot S task of
              Inl e \<Rightarrow> (Some e, rows)
            | Inr snapshot \<Rightarrow>
                if snapshot = [] then (None, rows)
                else case write_verdicts S
                    (executor_verdict task employee contract (runtimeVerifiedAttestationRefsForAttempt U S rq contract))
                    (criteriaSatisfiedByTask snapshot task) rows of
                  (Some e, rows') \<Rightarrow> (Some e, rows')
                | (None, rows') \<Rightarrow> projectProducesDeliverableVerdicts S task snapshot contract rows')"

section \<open>Placeholders of the review gate\<close>

definition criteriaSatisfiedByKey ::
  "DemandAcceptanceCriterion list \<Rightarrow> string \<Rightarrow> DemandAcceptanceCriterion list \<Rightarrow> DemandAcceptanceCriterion list" where
  "criteriaSatisfiedByKey snapshot key existing =
     filter (\<lambda>c. dac_CriterionID c \<notin> set (map dac_CriterionID existing) \<and> satisfied_by_key key c) snapshot"

definition reviewGateRevisionRootPlannedTaskKey :: "uuid_lib \<Rightarrow> result_store \<Rightarrow> ProjectTask \<Rightarrow> string" where
  "reviewGateRevisionRootPlannedTaskKey U S task =
     (let rootIDValue =
        (case as_str (gget (pt_PlannerMetadata task) ''revision_root_task_id'') of
           Some v \<Rightarrow> if TrimSpace v \<noteq> [] then TrimSpace v
                     else (case pt_RevisionOfTaskID task of Some i \<Rightarrow> if i \<noteq> uuid_Nil then uuid_String U i else [] | None \<Rightarrow> [])
         | None \<Rightarrow> (case pt_RevisionOfTaskID task of Some i \<Rightarrow> if i \<noteq> uuid_Nil then uuid_String U i else [] | None \<Rightarrow> []))
      in if rootIDValue = [] \<or> rootIDValue = uuid_String U (pt_ID task) then []
         else case uuid_Parse U rootIDValue of
             None \<Rightarrow> []
           | Some rootID \<Rightarrow>
               (case rs_GetProjectTask S rootID of
                  None \<Rightarrow> []
                | Some rootTask \<Rightarrow> (case pt_PlannedTaskKey rootTask of None \<Rightarrow> [] | Some k \<Rightarrow> TrimSpace k)))"

definition placeholder :: "DemandAcceptanceCriterion \<Rightarrow> DemandCriterionVerdict" where
  "placeholder c =
     \<lparr>dcv_CriterionID = dac_CriterionID c, dcv_Verdict = v_pending, dcv_JudgeType = judge_review_gate, dcv_JudgeID = uuid_Nil,
      dcv_Reason = byte_string [230, 163, 128, 230, 181, 139, 233, 151, 168, 229, 190, 133, 230, 137, 167, 232, 161,
        140, 239, 188, 154, 228, 187, 187, 229, 138, 161, 229, 174, 140, 230, 136, 144, 229, 183, 178, 232, 167, 166,
          229, 143, 145, 230, 163, 128, 230, 181, 139, 229, 153, 168, 239, 188, 140, 229, 141, 160, 228, 189, 141,
            228, 191, 157, 230, 140, 129, 32] @ ''HOLD '' @ byte_string [232, 135, 179, 230, 163, 128, 230, 181, 139,
              229, 153, 168, 229, 135, 186, 231, 187, 147, 232, 174, 186],
      dcv_EvidenceRefs = [], dcv_ProjectTaskID = None\<rparr>"

definition reviewGatePlaceholderVerdictRequests ::
  "uuid_lib \<Rightarrow> result_store \<Rightarrow> ProjectTask \<Rightarrow> string + DemandCriterionVerdict list" where
  "reviewGatePlaceholderVerdictRequests U S task =
     (case demandAcceptanceCriteriaSnapshot S task of
        Inl e \<Rightarrow> Inl e
      | Inr snapshot \<Rightarrow>
          let matched = criteriaSatisfiedByTask snapshot task;
              rootKey = reviewGateRevisionRootPlannedTaskKey U S task;
              all = (if rootKey \<noteq> [] then matched @ criteriaSatisfiedByKey snapshot rootKey matched else matched)
          in Inr (map placeholder (filter (\<lambda>c. dac_VerificationMethod c = ''review_gate'') all)))"

text \<open>\<open>CreateReviewGateVerdict\<close>: the aggregate row of the criterion is replaced and becomes the newest, or
  inserted.\<close>

definition CreateReviewGateVerdict :: "DemandCriterionVerdict list \<Rightarrow> DemandCriterionVerdict \<Rightarrow> DemandCriterionVerdict list" where
  "CreateReviewGateVerdict rows req =
     filter (\<lambda>r. \<not> (dcv_CriterionID r = dcv_CriterionID req \<and> dcv_ProjectTaskID r = None \<and> dcv_JudgeType r = judge_review_gate)) rows @
     [req\<lparr>dcv_JudgeType := judge_review_gate, dcv_ProjectTaskID := None\<rparr>]"

section \<open>References without repetition\<close>

lemma add_seen_set: "set (foldl add_seen acc xs) = set acc \<union> (set xs - {[]})"
  by (induction xs arbitrary: acc) (auto simp: add_seen_def)

lemma add_seen_distinct: "distinct acc \<Longrightarrow> distinct (foldl add_seen acc xs)"
  by (induction xs arbitrary: acc) (auto simp: add_seen_def)

definition backs :: "uuid_lib \<Rightarrow> ProjectTaskAttestation \<Rightarrow> string \<Rightarrow> bool" where
  "backs U att ref \<longleftrightarrow>
     ref = TrimSpace (attestationRecordRef U att) \<or>
     fst (parseRuntimeAttestationRef U ref) \<in> {TrimSpace (pta_IdempotencyKey att), uuid_String U (pta_ID att)}"

definition attested_ref :: "uuid_lib \<Rightarrow> result_store \<Rightarrow> ProjectTaskAttemptRuntimeRequest \<Rightarrow> string \<Rightarrow> bool" where
  "attested_ref U S rq ref \<longleftrightarrow>
     (\<exists>atts. \<exists>att \<in> set atts. rs_ListProjectTaskAttestations S (par_ProjectTaskID rq) = Inr atts \<and>
        pta_AttemptID att = par_AttemptID rq \<and> pta_Status att = att_succeeded \<and> backs U att ref)"

lemma parse_trimmed [simp]: "parseRuntimeAttestationRef U (TrimSpace ref) = parseRuntimeAttestationRef U ref"
  by (simp add: parseRuntimeAttestationRef_def)

lemma server_refs_shape:
  "distinct (server_refs U a contract atts)" "[] \<notin> set (server_refs U a contract atts)"
  "ref \<in> set (server_refs U a contract atts) \<Longrightarrow> TrimSpace ref = ref"
  by (auto simp: server_refs_def Let_def add_seen_set intro: add_seen_distinct split: if_splits)

lemma server_refs_backed:
  assumes "ref \<in> set (server_refs U a contract atts)"
  shows "\<exists>att \<in> set atts. pta_AttemptID att = a \<and> pta_Status att = att_succeeded \<and> backs U att ref"
proof -
  consider r where "ref = TrimSpace r" "backed_ref U a atts r"
    | att where "att \<in> set atts" "pta_AttemptID att = a" "pta_Status att = att_succeeded" "ref = TrimSpace (attestationRecordRef U att)"
    using assms by (auto simp: server_refs_def Let_def add_seen_set split: if_splits)
  then show ?thesis
  proof cases
    case 1
    then obtain att where "findRuntimeAttestationForRef U atts (fst (parseRuntimeAttestationRef U r)) = Some att"
        "pta_AttemptID att = a" "pta_Status att = att_succeeded"
      by (auto simp: backed_ref_def split: prod.splits option.splits)
    with 1 show ?thesis
      by (auto simp: findRuntimeAttestationForRef_def find_Some_iff backs_def intro!: bexI [of _ att])
  qed (auto simp: backs_def)
qed

lemma verified_refs_attested:
  assumes "runtimeVerifiedAttestationRefsForAttempt U S rq contract = Inr refs" "ref \<in> set refs"
  shows "attested_ref U S rq ref"
  using assms server_refs_backed by (fastforce simp: runtimeVerifiedAttestationRefsForAttempt_def attested_ref_def split: sum.splits)

lemma consumed_available:
  assumes "consumed_ref order av r \<noteq> []" "\<And>xs. set (order xs) = set xs"
  shows "consumed_ref order av r \<in> set av"
proof (cases "find (\<lambda>ref. ref \<in> set av) (map TrimSpace (tar_EvidenceRefs r))")
  case None
  with assms(1,2) show ?thesis
    by (auto simp: consumed_ref_def split: list.splits) (metis list.set_intros(1))
next
  case (Some x)
  then have "x \<in> set av" by (auto simp: find_Some_iff)
  then show ?thesis using Some assms(1,2) 
    by (auto simp: consumed_ref_def Let_def split: list.splits if_splits) (metis list.set_intros(1))
qed

text \<open>A run without an error gives each criterion a reference of its own.\<close>

lemma no_errors_distinct_refs:
  assumes "attestation_errors order contract cs av = []" "\<forall>c \<in> set cs. claims_green contract c"
    "\<And>xs. set (order xs) = set xs"
  shows "\<exists>refs. length refs = length cs \<and> distinct refs \<and> set refs \<subseteq> set av"
  using assms
proof (induction cs arbitrary: av)
  case (Cons c cs)
  then obtain r where r: "matchAcceptanceResultToSnapshotCriterion (trc_AcceptanceResults contract) c = Some r"
    by (auto simp: claims_green_def split: option.splits)
  let ?x = "consumed_ref order av r"
  have x: "?x \<noteq> []" and rest: "attestation_errors order contract cs (removeAll ?x av) = []"
    using Cons.prems(1) r by (auto simp: Let_def split: if_splits)
  obtain refs where "length refs = length cs" "distinct refs" "set refs \<subseteq> set (removeAll ?x av)"
    using Cons.IH [OF rest] Cons.prems(2,3) by auto
  then show ?case using consumed_available [OF x Cons.prems(3)] by (intro exI [of _ "?x # refs"]) auto
qed simp

lemma valid_for_attempt:
  assumes "validateTaskResultContractForAttempt U order S task rq contract = (v, None)" "tvd_Valid v"
  shows "v = ValidateTaskResultContract task contract" "validateRuntimeAttestationRefs U S task rq contract = Inr []"
    "validateAcceptanceCriterionAttestation U order S task rq contract = Inr []"
  using assms by (auto simp: validateTaskResultContractForAttempt_def Let_def split: if_splits sum.splits)

lemma claimed_refs:
  assumes "validateTaskResultContractForAttempt U order S task rq contract = (v, None)" "tvd_Valid v"
    "trc_Status contract = st_completed" "demandAcceptanceCriteriaSnapshot S task = Inr snapshot"
    "\<And>xs. set (order xs) = set xs" "runtimeVerifiedAttestationRefsForAttempt U S rq contract = Inr refs"
  shows "\<exists>rs. length rs = length (filter (claims_green contract) (criteriaSatisfiedByTask snapshot task)) \<and>
           distinct rs \<and> set rs \<subseteq> set refs"
proof (cases "filter (claims_green contract) (criteriaSatisfiedByTask snapshot task) = []")
  case False
  let ?cs = "filter (claims_green contract) (criteriaSatisfiedByTask snapshot task)"
  have "snapshot \<noteq> []" using False by (auto simp: criteriaSatisfiedByTask_def split: option.splits if_splits)
  then have e: "attestation_errors order contract ?cs refs = []"
    using valid_for_attempt(3) [OF assms(1,2)] assms(3,4,6) False
    by (simp add: validateAcceptanceCriterionAttestation_def Let_def)
  show ?thesis by (rule no_errors_distinct_refs [OF e _ assms(5)]) simp
qed simp

lemma claimed_needs_refs:
  assumes "validateTaskResultContractForAttempt U order S task rq contract = (v, None)" "tvd_Valid v"
    "trc_Status contract = st_completed" "demandAcceptanceCriteriaSnapshot S task = Inr snapshot"
    "filter (claims_green contract) (criteriaSatisfiedByTask snapshot task) \<noteq> []"
  shows "\<exists>refs. runtimeVerifiedAttestationRefsForAttempt U S rq contract = Inr refs"
proof -
  have "snapshot \<noteq> []" using assms(5) by (auto simp: criteriaSatisfiedByTask_def split: option.splits if_splits)
  then show ?thesis
    using valid_for_attempt(3) [OF assms(1,2)] assms(3-5)
    by (auto simp: validateAcceptanceCriterionAttestation_def Let_def split: sum.splits)
qed

lemma verified_refs_shape:
  assumes "runtimeVerifiedAttestationRefsForAttempt U S rq contract = Inr refs" "ref \<in> set refs"
  shows "TrimSpace ref = ref" "ref \<noteq> []"
  using assms server_refs_shape by (fastforce simp: runtimeVerifiedAttestationRefsForAttempt_def split: sum.splits)+

text \<open>
  Claim C24: In an accepted completion the automated tests that the executor reports green are backed one by one: there are as many
  different references as green criteria, and each belongs to a succeeded execution record that the
  runtime wrote for this very attempt. The iteration order of Go maps is arbitrary.
\<close>

theorem green_tests_are_attested:
  assumes "validateTaskResultContractForAttempt U order S task rq contract = (v, None)" "tvd_Valid v"
    "trc_Status contract = st_completed" "demandAcceptanceCriteriaSnapshot S task = Inr snapshot"
    "\<And>xs. set (order xs) = set xs"
  shows "\<exists>refs. length refs = length (filter (claims_green contract) (criteriaSatisfiedByTask snapshot task)) \<and>
           distinct refs \<and> (\<forall>ref \<in> set refs. attested_ref U S rq ref)"
proof (cases "filter (claims_green contract) (criteriaSatisfiedByTask snapshot task) = []")
  case False
  then obtain refs where refs: "runtimeVerifiedAttestationRefsForAttempt U S rq contract = Inr refs"
    using claimed_needs_refs [OF assms(1-4)] by blast
  from claimed_refs [OF assms(1-4) assms(5) refs] verified_refs_attested [OF refs] show ?thesis by (meson subsetD)
qed simp

section \<open>Verdicts written by a result\<close>

lemma insert_verdict: "set (CreateDemandCriterionVerdict rows v) \<subseteq> insert v (set rows)" "prefix rows (CreateDemandCriterionVerdict rows v)"
  by (auto simp: CreateDemandCriterionVerdict_def)

lemma write_verdicts_rows:
  "write_verdicts S f cs rows = (e, rows') \<Longrightarrow>
     prefix rows rows' \<and> (\<forall>r \<in> set rows'. r \<in> set rows \<or> (\<exists>c \<in> set cs. f c = Inr (Some r)))"
proof (induction cs arbitrary: rows)
  case (Cons c cs)
  show ?case
  proof (cases "\<exists>v. f c = Inr (Some v) \<and> rs_refused S v = None")
    case True
    then obtain v where v: "f c = Inr (Some v)" "rs_refused S v = None" by blast
    then have "write_verdicts S f cs (CreateDemandCriterionVerdict rows v) = (e, rows')" using Cons.prems by simp
    from Cons.IH [OF this] v(1) insert_verdict [of rows v] show ?thesis
      by (auto intro: prefix_order.trans)
  next
    case False
    then show ?thesis using Cons by (auto split: sum.splits option.splits)
  qed
qed simp

lemma executor_verdict_row:
  assumes "executor_verdict task employee contract refs c = Inr (Some r)"
  shows "dcv_CriterionID r = dac_CriterionID c" "dcv_JudgeType r = judge_executor" "dcv_ProjectTaskID r = Some (pt_ID task)"
    "dcv_JudgeID r = employee"
    "dac_VerificationMethod c \<notin> {''human_judgment'', ''adversarial_review'', ''review_gate''}"
  using assms by (auto simp: executor_verdict_def Let_def split: option.splits if_splits sum.splits)

lemma executor_verdict_green:
  assumes "executor_verdict task employee contract refs c = Inr (Some r)" "dcv_Verdict r = v_satisfied"
    "dac_VerificationMethod c = ''automated_test''"
  shows "(HasPrefix (dac_CriterionID c) ''produces_delivered:'' \<or> claims_green contract c) \<and>
         (\<exists>xs base. refs = Inr xs \<and> dcv_EvidenceRefs r = mergeStringRefs base xs)"
  using assms
  by (auto simp: executor_verdict_def claims_green_def demandCriterionVerdictValueFromResultStatus_def Let_def
      split: option.splits if_splits sum.splits)
    (metis DemandCriterionVerdict.select_convs(6))+

lemma deliverable_verdict_row:
  assumes "deliverable_verdict task employee contract c = Inr (Some r)"
  shows "dcv_CriterionID r = dac_CriterionID c" "dcv_JudgeType r = judge_executor" "dcv_ProjectTaskID r = Some (pt_ID task)"
    "dcv_JudgeID r = employee" "HasPrefix (dac_CriterionID c) ''produces_delivered:''"
  using assms by (auto simp: deliverable_verdict_def Let_def split: if_splits)

lemma projection_rows:
  assumes "projectDemandCriterionVerdicts U S task rq contract rows = (e, rows')"
    "demandAcceptanceCriteriaSnapshot S task = Inr snapshot"
  shows "prefix rows rows'"
    "r \<in> set rows' \<Longrightarrow> r \<in> set rows \<or>
       (\<exists>employee. \<exists>c \<in> set (criteriaSatisfiedByTask snapshot task). pt_AssignedDigitalEmployeeID task = Some employee \<and>
          (executor_verdict task employee contract (runtimeVerifiedAttestationRefsForAttempt U S rq contract) c = Inr (Some r) \<or>
           deliverable_verdict task employee contract c = Inr (Some r)))"
proof -
  have "prefix rows rows' \<and> (\<forall>r \<in> set rows'. r \<in> set rows \<or>
       (\<exists>employee. \<exists>c \<in> set (criteriaSatisfiedByTask snapshot task). pt_AssignedDigitalEmployeeID task = Some employee \<and>
          (executor_verdict task employee contract (runtimeVerifiedAttestationRefsForAttempt U S rq contract) c = Inr (Some r) \<or>
           deliverable_verdict task employee contract c = Inr (Some r))))"
  proof (cases "pt_AssignedDigitalEmployeeID task = None \<or> trc_Status contract \<noteq> st_completed \<or> snapshot = []")
    case True
    then show ?thesis using assms by (auto simp: projectDemandCriterionVerdicts_def split: option.splits if_splits)
  next
    case False
    then obtain employee where emp: "pt_AssignedDigitalEmployeeID task = Some employee" by auto
    let ?cs = "criteriaSatisfiedByTask snapshot task"
    let ?f = "executor_verdict task employee contract (runtimeVerifiedAttestationRefsForAttempt U S rq contract)"
    obtain e1 rows1 where w1: "write_verdicts S ?f ?cs rows = (e1, rows1)" by fastforce
    note r1 = write_verdicts_rows [OF w1]
    show ?thesis
    proof (cases e1)
      case None
      then have "write_verdicts S (deliverable_verdict task employee contract) ?cs rows1 = (e, rows')"
        using assms emp False w1
        by (simp add: projectDemandCriterionVerdicts_def projectProducesDeliverableVerdicts_def)
      from write_verdicts_rows [OF this] r1 emp show ?thesis
        using prefix_order.trans [of rows rows1 rows'] by metis
    next
      case (Some x)
      then have "rows' = rows1" using assms emp False w1 by (simp add: projectDemandCriterionVerdicts_def)
      with r1 emp show ?thesis by blast
    qed
  qed
  then show "prefix rows rows'" and
    "r \<in> set rows' \<Longrightarrow> r \<in> set rows \<or>
       (\<exists>employee. \<exists>c \<in> set (criteriaSatisfiedByTask snapshot task). pt_AssignedDigitalEmployeeID task = Some employee \<and>
          (executor_verdict task employee contract (runtimeVerifiedAttestationRefsForAttempt U S rq contract) c = Inr (Some r) \<or>
           deliverable_verdict task employee contract c = Inr (Some r)))"
    by blast+
qed

text \<open>
  What an executor's result adds to the verdicts of a demand stays in its own scope. Earlier rows are kept, every
  new row is an executor's verdict of this task on a criterion that names the task, and unless the
  criterion is a platform deliverable check by its identifier it is never one that a human, the
  adversarial judges or the violation detectors have to decide. A green automated test carries the
  reference of a succeeded execution of this attempt, when the result was accepted.
\<close>

theorem executor_verdicts_stay_in_scope:
  assumes "projectDemandCriterionVerdicts U S task rq contract rows = (e, rows')"
    "demandAcceptanceCriteriaSnapshot S task = Inr snapshot"
    "validateTaskResultContractForAttempt U order S task rq contract = (v, None)" "tvd_Valid v"
    "\<And>xs. set (order xs) = set xs" "r \<in> set rows' - set rows"
  shows "prefix rows rows' \<and> dcv_JudgeType r = judge_executor \<and> dcv_ProjectTaskID r = Some (pt_ID task) \<and>
    (\<exists>c \<in> set (criteriaSatisfiedByTask snapshot task). dac_CriterionID c = dcv_CriterionID r \<and>
       (HasPrefix (dac_CriterionID c) ''produces_delivered:'' \<or>
        dac_VerificationMethod c \<notin> {''human_judgment'', ''adversarial_review'', ''review_gate''} \<and>
        (dac_VerificationMethod c = ''automated_test'' \<and> dcv_Verdict r = v_satisfied \<longrightarrow>
           (\<exists>ref \<in> set (dcv_EvidenceRefs r). attested_ref U S rq ref))))"
proof -
  obtain employee c where c: "c \<in> set (criteriaSatisfiedByTask snapshot task)"
      "executor_verdict task employee contract (runtimeVerifiedAttestationRefsForAttempt U S rq contract) c = Inr (Some r) \<or>
       deliverable_verdict task employee contract c = Inr (Some r)"
      and emp: "pt_AssignedDigitalEmployeeID task = Some employee"
    using projection_rows(2) [OF assms(1,2)] assms(6) by blast
  have ids: "dcv_CriterionID r = dac_CriterionID c" "dcv_JudgeType r = judge_executor" "dcv_ProjectTaskID r = Some (pt_ID task)"
    using c(2) by (auto dest: executor_verdict_row(1-3) deliverable_verdict_row(1-3))
  have "HasPrefix (dac_CriterionID c) ''produces_delivered:'' \<or>
        dac_VerificationMethod c \<notin> {''human_judgment'', ''adversarial_review'', ''review_gate''} \<and>
        (dac_VerificationMethod c = ''automated_test'' \<and> dcv_Verdict r = v_satisfied \<longrightarrow>
           (\<exists>ref \<in> set (dcv_EvidenceRefs r). attested_ref U S rq ref))"
  proof (cases "HasPrefix (dac_CriterionID c) ''produces_delivered:''")
    case False
    then have ex: "executor_verdict task employee contract (runtimeVerifiedAttestationRefsForAttempt U S rq contract) c = Inr (Some r)"
      using c(2) deliverable_verdict_row(5) by blast
    have "\<exists>ref \<in> set (dcv_EvidenceRefs r). attested_ref U S rq ref"
      if green: "dac_VerificationMethod c = ''automated_test''" "dcv_Verdict r = v_satisfied"
    proof -
      from executor_verdict_green [OF ex green(2,1)] False obtain xs base where
        g: "claims_green contract c" "runtimeVerifiedAttestationRefsForAttempt U S rq contract = Inr xs"
           "dcv_EvidenceRefs r = mergeStringRefs base xs" by blast
      have fin: "trc_Status contract = st_completed"
        using assms(1,6) emp by (auto simp: projectDemandCriterionVerdicts_def split: if_splits)
      obtain refs where "length refs = length (filter (claims_green contract) (criteriaSatisfiedByTask snapshot task))"
          "set refs \<subseteq> set xs"
        using claimed_refs [OF assms(3,4) fin assms(2,5) g(2)] by blast
      moreover have "filter (claims_green contract) (criteriaSatisfiedByTask snapshot task) \<noteq> []"
        using g(1) c(1) by (auto simp: filter_empty_conv)
      ultimately obtain ref where "ref \<in> set xs" by (cases refs) auto
      moreover from this have "ref \<in> set (dcv_EvidenceRefs r)"
        using verified_refs_shape [OF g(2)] g(3) by (force simp: mergeStringRefs_def add_seen_set)
      ultimately show ?thesis using verified_refs_attested [OF g(2)] by blast
    qed
    then show ?thesis using executor_verdict_row(5) [OF ex] by blast
  qed simp
  then show ?thesis using projection_rows(1) [OF assms(1,2)] ids c(1) by metis
qed

section \<open>The violation detectors' placeholders\<close>

lemma acc_empty_fields: "acc_human acc_empty = None" "acc_adversarial acc_empty = None" "acc_reviewGate acc_empty = None"
  by (simp_all add: acc_empty_def)

lemma effective_review_gate:
  assumes "\<forall>r \<in> set rows. dcv_CriterionID r = i \<longrightarrow> dcv_JudgeType r \<notin> {judge_human, judge_adversarial}"
    and "\<exists>r \<in> set rows. dcv_CriterionID r = i \<and> dcv_JudgeType r = judge_review_gate"
    and "\<forall>r \<in> set rows. dcv_CriterionID r = i \<and> dcv_JudgeType r = judge_review_gate \<longrightarrow> dcv_Verdict r = w"
  shows "\<exists>refs. criterionEffectiveVerdict rows i = Some (w, judge_review_gate, refs)"
proof -
  have "acc_human (foldl (acc_step i) acc xs) = acc_human acc \<and> acc_adversarial (foldl (acc_step i) acc xs) = acc_adversarial acc \<and>
      (acc_reviewGate (foldl (acc_step i) acc xs) =
        (case rev (filter (\<lambda>r. dcv_CriterionID r = i \<and> dcv_JudgeType r = judge_review_gate) xs) of [] \<Rightarrow> acc_reviewGate acc | r # _ \<Rightarrow> Some r))"
    if "\<forall>r \<in> set xs. dcv_CriterionID r = i \<longrightarrow> dcv_JudgeType r \<notin> {judge_human, judge_adversarial}" for xs acc
    using that by (induction xs arbitrary: acc) (auto simp: acc_step_def split: list.split)
  from this [OF assms(1), of acc_empty] have acc:
    "acc_human (foldl (acc_step i) acc_empty rows) = None" "acc_adversarial (foldl (acc_step i) acc_empty rows) = None"
    "acc_reviewGate (foldl (acc_step i) acc_empty rows) =
       (case rev (filter (\<lambda>r. dcv_CriterionID r = i \<and> dcv_JudgeType r = judge_review_gate) rows) of [] \<Rightarrow> None | r # _ \<Rightarrow> Some r)"
    unfolding acc_empty_fields by blast+
  let ?ys = "rev (filter (\<lambda>r. dcv_CriterionID r = i \<and> dcv_JudgeType r = judge_review_gate) rows)"
  obtain y ys where y: "?ys = y # ys" using assms(2) by (cases ?ys) (auto simp: filter_empty_conv)
  then have "y \<in> set ?ys" by simp
  then have "dcv_Verdict y = w" using assms(3) by auto
  with acc y show ?thesis by (simp add: criterionEffectiveVerdict_def Let_def)
qed

lemma upsert_set:
  "set (CreateReviewGateVerdict rows req) =
     {r \<in> set rows. \<not> (dcv_CriterionID r = dcv_CriterionID req \<and> dcv_ProjectTaskID r = None \<and> dcv_JudgeType r = judge_review_gate)} \<union>
     {req\<lparr>dcv_JudgeType := judge_review_gate, dcv_ProjectTaskID := None\<rparr>}"
  by (auto simp: CreateReviewGateVerdict_def)

lemma upsert_rows:
  "set (foldl CreateReviewGateVerdict rows ps) \<subseteq> set rows \<union> (\<lambda>p. p\<lparr>dcv_JudgeType := judge_review_gate, dcv_ProjectTaskID := None\<rparr>) ` set ps"
  by (induction ps rule: rev_induct) (auto simp: upsert_set)

lemma upsert_newest:
  assumes "p \<in> set ps"
  shows "\<exists>q \<in> set ps. dcv_CriterionID q = dcv_CriterionID p \<and>
           q\<lparr>dcv_JudgeType := judge_review_gate, dcv_ProjectTaskID := None\<rparr> \<in> set (foldl CreateReviewGateVerdict rows ps)"
  using assms
proof (induction ps rule: rev_induct)
  case (snoc x ps)
  show ?case
  proof (cases "dcv_CriterionID x = dcv_CriterionID p")
    case False
    then have "p \<in> set ps" using snoc.prems by auto
    from snoc.IH [OF this] obtain q where "q \<in> set ps" "dcv_CriterionID q = dcv_CriterionID p"
      "q\<lparr>dcv_JudgeType := judge_review_gate, dcv_ProjectTaskID := None\<rparr> \<in> set (foldl CreateReviewGateVerdict rows ps)" by blast
    with False show ?thesis by (intro bexI [of _ q]) (auto simp: upsert_set)
  qed (auto simp: upsert_set)
qed simp

lemma upsert_replaces:
  assumes "r \<in> set (foldl CreateReviewGateVerdict rows ps)" "p \<in> set ps" "dcv_CriterionID r = dcv_CriterionID p"
    "dcv_JudgeType r = judge_review_gate" "dcv_ProjectTaskID r = None"
  shows "\<exists>q \<in> set ps. r = q\<lparr>dcv_JudgeType := judge_review_gate, dcv_ProjectTaskID := None\<rparr>"
  using assms(1,2)
proof (induction ps rule: rev_induct)
  case (snoc x ps)
  show ?case
  proof (cases "r = x\<lparr>dcv_JudgeType := judge_review_gate, dcv_ProjectTaskID := None\<rparr>")
    case False
    then have "r \<in> set (foldl CreateReviewGateVerdict rows ps)" "dcv_CriterionID x \<noteq> dcv_CriterionID p"
      using snoc.prems assms(3-5) by (auto simp: upsert_set)
    then show ?thesis using snoc by auto
  qed auto
qed simp

lemma placeholder_fields [simp]:
  "dcv_CriterionID (placeholder c) = dac_CriterionID c" "dcv_Verdict (placeholder c) = v_pending"
  "dcv_JudgeType (placeholder c) = judge_review_gate" "dcv_ProjectTaskID (placeholder c) = None"
  by (simp_all add: placeholder_def)

lemma placeholder_requested:
  assumes "reviewGatePlaceholderVerdictRequests U S task = Inr ps" "demandAcceptanceCriteriaSnapshot S task = Inr snapshot"
    "c \<in> set snapshot" "dac_VerificationMethod c = ''review_gate''"
    "c \<in> set (criteriaSatisfiedByTask snapshot task) \<or>
     reviewGateRevisionRootPlannedTaskKey U S task \<noteq> [] \<and> satisfied_by_key (reviewGateRevisionRootPlannedTaskKey U S task) c"
    "distinct (map dac_CriterionID snapshot)"
  shows "placeholder c \<in> set ps"
proof (cases "c \<in> set (criteriaSatisfiedByTask snapshot task)")
  case True
  then show ?thesis using assms(1,2,4) by (auto simp: reviewGatePlaceholderVerdictRequests_def Let_def split: if_splits)
next
  case False
  have "set (criteriaSatisfiedByTask snapshot task) \<subseteq> set snapshot"
    by (auto simp: criteriaSatisfiedByTask_def split: option.splits)
  with False assms(3,6) have "dac_CriterionID c \<notin> dac_CriterionID ` set (criteriaSatisfiedByTask snapshot task)"
    by (auto simp: distinct_map dest: inj_onD)
  with False assms show ?thesis
    by (auto simp: reviewGatePlaceholderVerdictRequests_def criteriaSatisfiedByKey_def Let_def split: if_splits)
qed

text \<open>
  A completed task never releases a criterion of the violation detectors before they have run. Once the placeholders of
  its completion are written, every blocking review-gate criterion that names the task, or the task it
  is a revision of, holds the demand, whatever verdict an earlier round or the executor has left,
  unless a human or an adversarial verdict already decides it. Aggregate rows are the detectors' own:
  review-gate verdicts carry no task.
\<close>

theorem placeholders_hold_the_demand:
  assumes "reviewGatePlaceholderVerdictRequests U S task = Inr ps" "demandAcceptanceCriteriaSnapshot S task = Inr snapshot"
    "c \<in> set snapshot" "dac_VerificationMethod c = ''review_gate''" "dac_Severity c = ''blocking''"
    "c \<in> set (criteriaSatisfiedByTask snapshot task) \<or>
     reviewGateRevisionRootPlannedTaskKey U S task \<noteq> [] \<and> satisfied_by_key (reviewGateRevisionRootPlannedTaskKey U S task) c"
    "distinct (map dac_CriterionID snapshot)"
    "\<forall>r \<in> set rows. dcv_JudgeType r = judge_review_gate \<longrightarrow> dcv_ProjectTaskID r = None"
    "\<forall>r \<in> set rows. dcv_CriterionID r = dac_CriterionID c \<longrightarrow> dcv_JudgeType r \<notin> {judge_human, judge_adversarial}"
  shows "dac_CriterionID c \<in> set (ResolveUnsatisfiedBlockingCriteria snapshot (foldl CreateReviewGateVerdict rows ps))"
proof -
  let ?rows = "foldl CreateReviewGateVerdict rows ps" and ?i = "dac_CriterionID c"
  have p: "placeholder c \<in> set ps"
    by (rule placeholder_requested [OF assms(1-4,6,7)])
  have shape: "q = placeholder d \<Longrightarrow> q\<lparr>dcv_JudgeType := judge_review_gate, dcv_ProjectTaskID := None\<rparr> = q" for q d
    by (simp add: placeholder_def)
  have ps: "\<exists>d. q = placeholder d" if "q \<in> set ps" for q
    using assms(1) that by (auto simp: reviewGatePlaceholderVerdictRequests_def Let_def split: sum.splits)
  have rows: "r \<in> set rows \<or> r \<in> set ps" if "r \<in> set ?rows" for r
    using upsert_rows [of rows ps] that ps shape by (metis (no_types, lifting) Un_iff image_iff subsetD)
  have 1: "\<forall>r \<in> set ?rows. dcv_CriterionID r = ?i \<longrightarrow> dcv_JudgeType r \<notin> {judge_human, judge_adversarial}"
    using rows assms(9) by (auto dest!: rows ps)
  have 2: "\<exists>r \<in> set ?rows. dcv_CriterionID r = ?i \<and> dcv_JudgeType r = judge_review_gate"
  proof -
    obtain q where "q \<in> set ps" "dcv_CriterionID q = ?i"
        "q\<lparr>dcv_JudgeType := judge_review_gate, dcv_ProjectTaskID := None\<rparr> \<in> set ?rows"
      using upsert_newest [OF p, of rows] by auto
    then show ?thesis by (intro bexI) auto
  qed
  have 3: "\<forall>r \<in> set ?rows. dcv_CriterionID r = ?i \<and> dcv_JudgeType r = judge_review_gate \<longrightarrow> dcv_Verdict r = v_pending"
  proof (intro ballI impI)
    fix r assume r: "r \<in> set ?rows" "dcv_CriterionID r = ?i \<and> dcv_JudgeType r = judge_review_gate"
    have "dcv_ProjectTaskID r = None" using rows [OF r(1)] r(2) assms(8) by (auto dest!: ps)
    with upsert_replaces [OF r(1) p] r(2) obtain q where "q \<in> set ps" "r = q\<lparr>dcv_JudgeType := judge_review_gate, dcv_ProjectTaskID := None\<rparr>"
      by auto
    then show "dcv_Verdict r = v_pending" by (auto dest!: ps)
  qed
  obtain refs where "criterionEffectiveVerdict ?rows ?i = Some (v_pending, judge_review_gate, refs)"
    using effective_review_gate [OF 1 2 3] by blast
  then have "criterion_pending ?rows c" using assms(4,5) by (simp add: criterion_pending_def)
  then show ?thesis using assms(3) by (auto simp: ResolveUnsatisfiedBlockingCriteria_def)
qed

section \<open>Results answer the plan\<close>

text \<open>A task is stored and read back through JSON columns, which know lists and objects only.\<close>

fun stored :: "gval \<Rightarrow> gval" where
  "stored (GStrs ss) = GList (map GStr ss)"
| "stored (GList vs) = GList (map stored vs)"
| "stored (GMap m) = GMap (map (\<lambda>(k, v). (k, stored v)) m)"
| "stored (GSMap m) = GMap (map (\<lambda>(k, s). (k, GStr s)) m)"
| "stored (GMaps ms) = GList (map (\<lambda>m. GMap (map (\<lambda>(k, v). (k, stored v)) m)) ms)"
| "stored v = v"

definition stored_map :: "gmap \<Rightarrow> gmap" where
  "stored_map m = map (\<lambda>(k, v). (k, stored v)) m"

lemma stored_gget: "gget (stored_map m) k = stored (gget m k)"
  by (induction m) (auto simp: stored_map_def gget_def)

lemma stored_injection [simp]: "stored (criterion_injection c) = criterion_injection c"
  by (simp add: criterion_injection_def)

lemma injection_required:
  assumes "\<not> blank (pac_Statement c)"
  shows "stringsFromAny (criterion_injection c) = [TrimSpace (pac_Statement c)]"
  using assms by (simp add: criterion_injection_def stringsFromCriterionMap_def criterion_keys_def stringFromMap_def gget_def blank_def)

lemma injected_criterion_required:
  assumes "graph_tasks U input = Some gs" "i < length gs" "c \<in> set (normalized_criteria (dec_Payload input))"
    "pac_VerificationMethod c = VerificationMethodAutomatedTest" "gt_Key (gs ! i) \<in> set (pac_SatisfiedBy c)"
    "\<not> blank (pac_Statement c)" "contract = stored_map (gt_HandoffContract (gs ! i))"
  shows "TrimSpace (pac_Statement c) \<in> set (requiredAcceptanceCriteria contract)"
proof -
  let ?cs = "normalized_criteria (dec_Payload input)" and ?t = "prp_Tasks (dec_Payload input) ! i"
  have all: "list_all2 (\<lambda>t g. graph_task U input ?cs t = Some g) (prp_Tasks (dec_Payload input)) gs"
    using assms(1) by (simp add: graph_tasks_def those_Some)
  have g: "graph_task U input ?cs ?t = Some (gs ! i)" using list_all2_nthD2 [OF all assms(2)] .
  have inj: "criterion_injection c \<in> set (criterionInjectionsByTaskKey ?cs (prt_PlannedTaskKey ?t))"
    using injections_have [OF assms(3,4)] assms(5) graph_task_fields(1) [OF g] by simp
  then have "criterionInjectionsByTaskKey ?cs (prt_PlannedTaskKey ?t) \<noteq> []" by auto
  from handoff_acceptance [OF this, of ?t] obtain own where
    "gget (gt_HandoffContract (gs ! i)) ''acceptance_criteria'' = GList (own @ criterionInjectionsByTaskKey ?cs (prt_PlannedTaskKey ?t))"
    using graph_task_fields(6) [OF g] by auto
  then have own: "gget contract ''acceptance_criteria'' =
      GList (map stored own @ map stored (criterionInjectionsByTaskKey ?cs (prt_PlannedTaskKey ?t)))"
    by (simp add: assms(7) stored_gget)
  moreover have "contract \<noteq> []" using own by (auto simp: gget_def)
  moreover have "criterion_injection c \<in> set (map stored (criterionInjectionsByTaskKey ?cs (prt_PlannedTaskKey ?t)))"
    using inj stored_injection by (metis image_eqI list.set_map)
  ultimately show ?thesis
    using injection_required [OF assms(6)] by (force simp: requiredAcceptanceCriteria_def)
qed

text \<open>
  Claim C23: From the plan to the result: a task that decomposition has created can only be reported completed with an answer to
  every machine-checked criterion of the plan that names it. The answer says passed, overridden by a
  human or not applicable with a reason, and carries evidence. The criteria travel from the payload of
  the accepted revision through the task's stored handoff contract to the validation of the result.
\<close>

theorem results_answer_the_plan:
  assumes "graph_tasks U input = Some gs" "i < length gs" "c \<in> set (normalized_criteria (dec_Payload input))"
    "pac_VerificationMethod c = VerificationMethodAutomatedTest" "gt_Key (gs ! i) \<in> set (pac_SatisfiedBy c)"
    "\<not> blank (pac_Statement c)" "pt_HandoffContract task = stored_map (gt_HandoffContract (gs ! i))"
    "trc_Status result = st_completed" "tvd_Valid (ValidateTaskResultContract task result)"
  shows "\<exists>r \<in> set (trc_AcceptanceResults result). matchesCriterion r (TrimSpace (pac_Statement c)) \<and> accepted_result r"
proof -
  have "complete_result task result"
    using assms(9) completed_valid_iff [OF assms(8)] by (simp add: validation_simps)
  then obtain r where "acceptanceResultForCriterion (trc_AcceptanceResults result) (TrimSpace (pac_Statement c)) = Some r" "accepted_result r"
    using injected_criterion_required [OF assms(1-7)] by (auto simp: complete_result_def)
  then show ?thesis by (auto simp: acceptanceResultForCriterion_def find_Some_iff)
qed

text \<open>Also a deliverable check, which the platform could decide by itself, has to be answered.\<close>

lemma unanswered_result_is_rejected:
  assumes "graph_tasks U input = Some gs" "i < length gs" "c \<in> set (normalized_criteria (dec_Payload input))"
    "pac_VerificationMethod c = VerificationMethodAutomatedTest" "gt_Key (gs ! i) \<in> set (pac_SatisfiedBy c)"
    "\<not> blank (pac_Statement c)" "pt_HandoffContract task = stored_map (gt_HandoffContract (gs ! i))"
    "trc_Status result = st_completed" "trc_AcceptanceResults result = []"
  shows "''acceptance_result_missing:'' @ TrimSpace (pac_Statement c) \<in> set (tvd_Errors (ValidateTaskResultContract task result))"
proof -
  have "criterion_errors result (TrimSpace (pac_Statement c)) = [''acceptance_result_missing:'' @ TrimSpace (pac_Statement c)]"
    using assms(9) by (simp add: criterion_errors_def acceptanceResultForCriterion_def)
  then have "''acceptance_result_missing:'' @ TrimSpace (pac_Statement c) \<in>
      set (concat (map (criterion_errors result) (requiredAcceptanceCriteria (pt_HandoffContract task))))"
    using injected_criterion_required [OF assms(1-7)] by force
  then show ?thesis
    unfolding validation_simps contract_errors_def status_errors_def if_P [OF assms(8)] validateCompletedTaskResult_def Let_def set_append
    by blast
qed

section \<open>Examples\<close>

definition test_criterion :: "string \<Rightarrow> DemandAcceptanceCriterion" where
  "test_criterion i = \<lparr>dac_CriterionID = i, dac_Statement = i, dac_VerificationMethod = ''automated_test'', dac_Severity = ''blocking'',
     dac_SatisfiedBy = [''build''], dac_Source = []\<rparr>"

definition run_record :: "uuid \<Rightarrow> string \<Rightarrow> ProjectTaskAttestation" where
  "run_record i key = \<lparr>pta_ID = i, pta_AttemptID = 9, pta_RuntimeNodeID = 8, pta_DigitalEmployeeID = 5, pta_Status = att_succeeded,
     pta_IdempotencyKey = key\<rparr>"

definition example_rq :: ProjectTaskAttemptRuntimeRequest where
  "example_rq = \<lparr>par_AttemptID = 9, par_ProjectTaskID = 7, par_RuntimeNodeID = 8\<rparr>"

definition example_store :: "DemandAcceptanceCriterion list \<Rightarrow> ProjectTaskAttestation list \<Rightarrow> result_store" where
  "example_store criteria atts =
     \<lparr>rs_ListDemandAcceptanceCriteria = (\<lambda>_ _. Inr criteria), rs_ListProjectTaskAttestations = (\<lambda>_. Inr atts),
      rs_GetProjectTask = (\<lambda>_. None), rs_refused = (\<lambda>_. None)\<rparr>"

definition green_result :: "TaskResultRef list \<Rightarrow> TaskResultContract" where
  "green_result refs = (result_contract st_completed ''built'')
     \<lparr>trc_AcceptanceResults := [answer ''unit'' ''passed'' [''log''], answer ''load'' ''passed'' [''log'']],
      trc_Verification := [\<lparr>trv_Status = ''passed'', trv_Type = [], trv_Ref = [], trv_Summary = [], trv_Method = [], trv_EvidenceRefs = refs\<rparr>]\<rparr>"

definition two_runs :: result_store where
  "two_runs = example_store [test_criterion ''unit'', test_criterion ''load''] [run_record 1 ''k1'', run_record 2 ''k2'']"

definition one_run :: result_store where
  "one_run = example_store [test_criterion ''unit'', test_criterion ''load''] [run_record 1 ''k1'']"

lemma two_runs_valid:
  "validateTaskResultContractForAttempt decimal_uuid_lib (\<lambda>xs. xs) two_runs plain_task example_rq (green_result []) =
     (ValidateTaskResultContract plain_task (green_result []), None)"
  "tvd_Valid (ValidateTaskResultContract plain_task (green_result []))"
  by code_simp+

lemma two_runs_snapshot:
  "demandAcceptanceCriteriaSnapshot two_runs plain_task = Inr [test_criterion ''unit'', test_criterion ''load'']"
  by (simp add: demandAcceptanceCriteriaSnapshot_def two_runs_def example_store_def plain_task_def)

lemma two_runs_claimed:
  "length (filter (claims_green (green_result [])) (criteriaSatisfiedByTask [test_criterion ''unit'', test_criterion ''load''] plain_task)) = 2"
  by code_simp

lemma green_completed: "trc_Status (green_result refs) = st_completed"
  by (simp add: green_result_def result_contract_def)

theorem green_tests_are_attested_witness:
  "\<exists>refs. length refs = 2 \<and> distinct refs \<and> list_all (attested_ref decimal_uuid_lib two_runs example_rq) refs"
  using green_tests_are_attested [OF two_runs_valid green_completed two_runs_snapshot] by (auto simp: two_runs_claimed list_all_iff)

text \<open>
  One execution can back two green tests. The attestation record of the attempt is named once by its key and once with
  the prefix; both spellings count as different references, so a result that repeats the reference in
  its own verification list is accepted with two green tests on a single execution.
\<close>

theorem one_execution_backs_two_tests:
  "let refs = [text_ref ''attestation'' ''k1'', text_ref ''attestation'' ''attestation:k1''];
       criteria = [test_criterion ''unit'', test_criterion ''load'']
   in demandAcceptanceCriteriaSnapshot one_run plain_task = Inr criteria \<and>
      rs_ListProjectTaskAttestations one_run (par_ProjectTaskID example_rq) = Inr [run_record 1 ''k1''] \<and>
      length (filter (claims_green (green_result refs)) (criteriaSatisfiedByTask criteria plain_task)) = 2 \<and>
      tvd_Decision (fst (validateTaskResultContractForAttempt decimal_uuid_lib (\<lambda>xs. xs) one_run plain_task example_rq (green_result refs))) =
        CompleteAccepted \<and>
      tvd_Decision (fst (validateTaskResultContractForAttempt decimal_uuid_lib (\<lambda>xs. xs) one_run plain_task example_rq (green_result []))) =
        ValidationFailed"
  by code_simp

definition example_row :: DemandCriterionVerdict where
  "example_row = \<lparr>dcv_CriterionID = ''unit'', dcv_Verdict = v_satisfied, dcv_JudgeType = judge_executor, dcv_JudgeID = 5, dcv_Reason = [],
     dcv_EvidenceRefs = [''log'', ''attestation:k1'', ''attestation:k2''], dcv_ProjectTaskID = Some 7\<rparr>"

lemma two_runs_projection:
  "projectDemandCriterionVerdicts decimal_uuid_lib two_runs plain_task example_rq (green_result []) [] =
     (None, [example_row, example_row\<lparr>dcv_CriterionID := ''load''\<rparr>])"
  by code_simp

theorem executor_verdicts_stay_in_scope_witness:
  "dcv_JudgeType example_row = judge_executor \<and>
   (\<exists>ref \<in> set (dcv_EvidenceRefs example_row). attested_ref decimal_uuid_lib two_runs example_rq ref)"
proof -
  have "example_row \<in> set [example_row, example_row\<lparr>dcv_CriterionID := ''load''\<rparr>] - set []" by simp
  from executor_verdicts_stay_in_scope [OF two_runs_projection two_runs_snapshot two_runs_valid _ this] show ?thesis
    by (auto simp: example_row_def criteriaSatisfiedByTask_def test_criterion_def split: option.splits if_splits)
qed

text \<open>
  A deliverable check can sign for a human. The verdicts on deliverables go by the identifier of the criterion alone:
  a blocking human judgment whose identifier reads like a deliverable check counts as the platform's
  own, so the gate waits for a human; then the completion of the task writes an executor's verdict for
  it and nothing holds the demand.
\<close>

theorem deliverable_check_signs_for_human:
  "let c = (test_criterion ''produces_delivered:build:report'')\<lparr>dac_VerificationMethod := ''human_judgment''\<rparr>;
       result = (result_contract st_completed ''built'')\<lparr>trc_Deliverables := [delivery ''report'' ''text'']\<rparr>;
       (e, rows) = projectDemandCriterionVerdicts decimal_uuid_lib (example_store [c] []) plain_task example_rq result []
   in IsDeclarativeHumanJudgment c \<and> ResolveUnsatisfiedBlockingCriteria [c] [] = [dac_CriterionID c] \<and>
      tvd_Decision (fst (validateTaskResultContractForAttempt decimal_uuid_lib (\<lambda>xs. xs) (example_store [c] []) plain_task example_rq result)) =
        CompleteAccepted \<and>
      e = None \<and> map dcv_JudgeType rows = [judge_executor] \<and> ResolveUnsatisfiedBlockingCriteria [c] rows = []"
  by code_simp

definition gate_criterion :: DemandAcceptanceCriterion where
  "gate_criterion = (test_criterion ''secrets'')\<lparr>dac_VerificationMethod := ''review_gate''\<rparr>"

lemma gate_requests:
  "reviewGatePlaceholderVerdictRequests decimal_uuid_lib (example_store [gate_criterion] []) plain_task = Inr [placeholder gate_criterion]"
  "demandAcceptanceCriteriaSnapshot (example_store [gate_criterion] []) plain_task = Inr [gate_criterion]"
  "gate_criterion \<in> set (criteriaSatisfiedByTask [gate_criterion] plain_task)"
  by code_simp+

theorem placeholders_hold_the_demand_witness:
  "''secrets'' \<in> set (ResolveUnsatisfiedBlockingCriteria [gate_criterion]
     (foldl CreateReviewGateVerdict [(placeholder gate_criterion)\<lparr>dcv_Verdict := v_satisfied\<rparr>] [placeholder gate_criterion]))"
proof -
  have "dac_CriterionID gate_criterion = ''secrets''" by (simp add: gate_criterion_def test_criterion_def)
  then show ?thesis
    using placeholders_hold_the_demand [OF gate_requests(1,2), of gate_criterion "[(placeholder gate_criterion)\<lparr>dcv_Verdict := v_satisfied\<rparr>]"] gate_requests(3)
    by (simp add: gate_criterion_def test_criterion_def placeholder_def)
qed

definition planned_a :: ProjectTask where
  "planned_a = plain_task\<lparr>pt_HandoffContract := stored_map (gt_HandoffContract (example_tasks_created ! 0))\<rparr>"

definition answering :: TaskResultContract where
  "answering = (result_contract st_completed ''done'')
     \<lparr>trc_AcceptanceResults := [answer ''out'' ''passed'' [''log''], answer ''first'' ''passed'' [''log''], answer ''second'' ''passed'' [''log'']]\<rparr>"

lemma answering_facts:
  "tvd_Valid (ValidateTaskResultContract planned_a answering)" "0 < length example_tasks_created"
  "normalizeCriterionDefaults (example_criterion ''first'') \<in> set (normalized_criteria (dec_Payload example_decomposition))"
  "gt_Key (example_tasks_created ! 0) \<in> set (pac_SatisfiedBy (normalizeCriterionDefaults (example_criterion ''first'')))"
  "pac_VerificationMethod (normalizeCriterionDefaults (example_criterion ''first'')) = VerificationMethodAutomatedTest"
  "pac_Statement (normalizeCriterionDefaults (example_criterion ''first'')) = ''first''" "TrimSpace ''first'' = ''first''"
  by code_simp+

theorem results_answer_the_plan_witness:
  "\<exists>r \<in> set (trc_AcceptanceResults answering). matchesCriterion r ''first'' \<and> accepted_result r"
  using results_answer_the_plan [OF example_graph_tasks answering_facts(2,3,5,4), of planned_a answering] answering_facts
  by (simp add: planned_a_def answering_def result_contract_def blank_def)

end
