(* ===== verification/Dispatch_Gate.thy ===== *)
theory Dispatch_Gate
  imports Task_Result "HOL-Library.Product_Lexorder"
begin

text \<open>
  The gate that a task passes before a run is started, after \<^verbatim>\<open>project/predispatch_gate.go\<close>: twelve
  checks over a snapshot of the task, its dependencies, the employee, the runtime, the budget, the
  risk and the context, each of which appends to the list of checks, may append blockers, may raise
  the status and may ask a human. The claims give the condition under which a run is created, the
  status as the worst of the blockers, the order of the blockers, and the identity of a dispatch
  (its idempotency key); one claim shows a consequence of the redaction of details that the code does
  not intend.
\<close>

section \<open>Records and vocabulary\<close>

text \<open>The further fields of a project task that dispatching reads. A point in time is an integer, with 0 for the zero
  time of Go.\<close>

record DispatchTask = ProjectTask +
  dt_ProjectID :: uuid
  dt_Title :: string
  dt_Status :: string
  dt_WaitingRequestID :: "uuid option"
  dt_LatestTaskResultID :: "uuid option"
  dt_UpdatedAt :: int

datatype gate_status = Passed | WaitingHuman | GateBlocked | RetryLater | ReplanRequired

primrec gate_status_text :: "gate_status \<Rightarrow> string" where
  "gate_status_text Passed = ''passed''"
| "gate_status_text WaitingHuman = ''waiting_human''"
| "gate_status_text GateBlocked = ''blocked''"
| "gate_status_text RetryLater = ''retry_later''"
| "gate_status_text ReplanRequired = ''replan_required''"

record PreDispatchGateInput =
  gi_ProjectID :: uuid
  gi_ProjectTaskID :: uuid
  gi_AcceptedPlanRevisionID :: "uuid option"
  gi_PlannedTaskKey :: "string option"
  gi_SelectedEmployeeID :: uuid
  gi_AttemptNo :: int
  gi_DispatchReason :: string

record PreDispatchAttemptSnapshot =
  as_ID :: uuid
  as_Status :: string

record PreDispatchDependencySnapshot =
  ds_TaskID :: uuid
  ds_Status :: string
  ds_AcceptanceSatisfied :: bool
  ds_ResultVersion :: string

record PreDispatchEmployeeSnapshot =
  es_ID :: uuid
  es_IsProjectExecutor :: bool
  es_Status :: string
  es_PolicyAllowed :: bool
  es_RequiredLoadSlots :: int
  es_AvailableLoadSlots :: int
  es_ProfileSnapshotHash :: string

record PreDispatchCapabilitySnapshot =
  cs_Required :: "string list"
  cs_Matched :: "string list"

record PreDispatchRuntimeSnapshot =
  rs_PlacementPresent :: bool
  rs_Pinned :: bool
  rs_NodeOnline :: bool
  rs_ProviderAvailable :: bool
  rs_WorkspaceReady :: bool
  rs_SlotAvailable :: bool
  rs_ContractVersionAccepted :: bool
  rs_RetryAfter :: int

record PreDispatchBudgetSnapshot =
  bs_ProjectBudgetAllowed :: bool
  bs_TaskBudgetPresent :: bool
  bs_NeedsApproval :: bool
  bs_ApprovalGranted :: bool
  bs_TokenLimit :: "int option"
  bs_ConsumedTokens :: int

record PreDispatchRiskSnapshot =
  ks_HumanApprovalRequired :: bool
  ks_HumanApprovalGranted :: bool
  ks_Reason :: string

record PreDispatchContextSnapshot =
  xs_RequiredRefsResolved :: bool
  xs_InjectionAllowed :: bool
  xs_MissingRefs :: "string list"

record PreDispatchGateSnapshot =
  gs_Task :: DispatchTask
  gs_ActiveAttempt :: "PreDispatchAttemptSnapshot option"
  gs_Dependencies :: "PreDispatchDependencySnapshot list"
  gs_Employee :: PreDispatchEmployeeSnapshot
  gs_Capabilities :: PreDispatchCapabilitySnapshot
  gs_Runtime :: PreDispatchRuntimeSnapshot
  gs_Budget :: PreDispatchBudgetSnapshot
  gs_Risk :: PreDispatchRiskSnapshot
  gs_Context :: PreDispatchContextSnapshot

record PreDispatchGateCheck =
  gc_Key :: string
  gc_Status :: string
  gc_Details :: gmap

record PreDispatchGateBlocker =
  gb_Key :: string
  gb_Severity :: string
  gb_Retryable :: bool
  gb_Details :: gmap

record PreDispatchHumanActionRequest =
  ha_Type :: string
  ha_WaitingReason :: string
  ha_DecisionType :: string
  ha_Title :: string
  ha_Summary :: string
  ha_RiskLevel :: string
  ha_Options :: "gval list"
  ha_Context :: gmap

record preDispatchGateBlockerWithStatus =
  pb_blocker :: PreDispatchGateBlocker
  pb_status :: gate_status
  pb_order :: nat

record PreDispatchGateEvaluation =
  ev_Status :: gate_status
  ev_CheckedAt :: int
  ev_Checks :: "PreDispatchGateCheck list"
  ev_Blockers :: "PreDispatchGateBlocker list"
  ev_HumanActionRequest :: "PreDispatchHumanActionRequest option"
  ev_RetryAfter :: "int option"
  ev_IdempotencyKey :: string
  ev_DispatchToken :: string
  ev_CreateRun :: bool

section \<open>Redaction\<close>

definition sensitiveGateKey :: "string \<Rightarrow> bool" where
  "sensitiveGateKey key =
     (let l = ToLower key in
      Contains l ''secret'' \<or> Contains l ''token'' \<or> Contains l ''password'' \<or> Contains l ''connection_string'')"

definition redacted :: gval where
  "redacted = GStr ''[redacted]''"

text \<open>The reflective part of the function turns every other map with string keys into a \<^verbatim>\<open>map[string]any\<close> and
  every other slice into a \<^verbatim>\<open>[]any\<close>.\<close>

fun sanitizeGateValue :: "gval \<Rightarrow> gval" where
  "sanitizeGateValue (GMap m) =
     GMap (map (\<lambda>(k, v). (k, if sensitiveGateKey k then redacted else sanitizeGateValue v)) m)"
| "sanitizeGateValue (GList vs) = GList (map sanitizeGateValue vs)"
| "sanitizeGateValue (GStrs ss) = GStrs ss"
| "sanitizeGateValue GNil = GNil"
| "sanitizeGateValue (GSMap m) = GMap (map (\<lambda>(k, s). (k, if sensitiveGateKey k then redacted else GStr s)) m)"
| "sanitizeGateValue (GMaps ms) =
     GList (map (\<lambda>m. GMap (map (\<lambda>(k, v). (k, if sensitiveGateKey k then redacted else sanitizeGateValue v)) m)) ms)"
| "sanitizeGateValue (GBool b) = GBool b"
| "sanitizeGateValue (GStr s) = GStr s"
| "sanitizeGateValue (GNum r t) = GNum r t"

definition sanitizeGateDetails :: "gmap \<Rightarrow> gmap" where
  "sanitizeGateDetails details =
     map (\<lambda>(k, v). (k, if sensitiveGateKey k then redacted else sanitizeGateValue v)) details"

definition sanitizeHumanActionRequest :: "PreDispatchHumanActionRequest \<Rightarrow> PreDispatchHumanActionRequest" where
  "sanitizeHumanActionRequest r = r\<lparr>ha_Context := sanitizeGateDetails (ha_Context r)\<rparr>"

section \<open>Priorities, texts and keys\<close>

primrec preDispatchGateStatusPriority :: "gate_status \<Rightarrow> nat" where
  "preDispatchGateStatusPriority RetryLater = 1"
| "preDispatchGateStatusPriority WaitingHuman = 2"
| "preDispatchGateStatusPriority ReplanRequired = 3"
| "preDispatchGateStatusPriority GateBlocked = 4"
| "preDispatchGateStatusPriority Passed = 0"

definition preDispatchGateBlockerSeverityPriority :: "string \<Rightarrow> nat" where
  "preDispatchGateBlockerSeverityPriority severity =
     (if severity = ''hard'' then 3 else if severity = ''human'' then 2 else if severity = ''transient'' then 1 else 0)"

definition activeAttemptStatus :: "string \<Rightarrow> bool" where
  "activeAttemptStatus status = (status = ''queued'' \<or> status = ''running'' \<or> status = ''waiting_human'')"

definition preDispatchEmployeeStatusDispatchable :: "string \<Rightarrow> bool" where
  "preDispatchEmployeeStatusDispatchable status = (status = ''ready'' \<or> status = ''active'')"

definition dispatch_reasons :: "string list" where
  "dispatch_reasons = [''root_ready'', ''dependency_unlocked'', ''human_resolved'', ''retry'', ''manual'']"

definition normalizeDispatchReason :: "string \<Rightarrow> string" where
  "normalizeDispatchReason reason =
     (let r = TrimSpace reason in if r \<in> set dispatch_reasons then r else ''root_ready'')"

definition PreDispatchGateIdempotencyKey :: "uuid_lib \<Rightarrow> PreDispatchGateInput \<Rightarrow> string" where
  "PreDispatchGateIdempotencyKey U input =
     ''project-task:'' @ uuid_String U (gi_ProjectTaskID input) @
     '':reason:'' @ normalizeDispatchReason (gi_DispatchReason input) @
     '':attempt:'' @ Itoa (gi_AttemptNo input) @
     '':employee:'' @ uuid_String U (gi_SelectedEmployeeID input)"

text \<open>\<open>sha\<close> is SHA-256 followed by the hexadecimal encoding.\<close>

definition PreDispatchGateDispatchToken :: "uuid_lib \<Rightarrow> (string \<Rightarrow> string) \<Rightarrow> PreDispatchGateInput \<Rightarrow> string" where
  "PreDispatchGateDispatchToken U sha input = sha (PreDispatchGateIdempotencyKey U input)"

definition riskReasonLabel :: "string \<Rightarrow> string" where
  "riskReasonLabel reason =
     (let r = TrimSpace reason in
      if r = [] then []
      else if r = ''task.requires_human_approval'' then (byte_string [228, 187, 187, 229, 138, 161, 232, 162, 171,
        230, 160, 135, 232, 174, 176, 228, 184, 186, 233, 156, 128, 228, 186, 186, 229, 183, 165, 229, 174, 161, 230, 137, 185])
      else r)"

definition riskApprovalSummary :: "DispatchTask \<Rightarrow> string \<Rightarrow> string" where
  "riskApprovalSummary task reason =
     (let summary = (byte_string [233, 156, 128, 232, 166, 129, 228, 186, 186, 231, 177, 187, 231, 161, 174, 232,
       174, 164, 233, 171, 152, 233, 163, 142, 233, 153, 169, 229, 138, 168, 228, 189, 156, 229, 144, 142, 230, 137, 141, 232, 131, 189, 229, 136, 134, 230, 180, 190, 228, 187, 187, 229, 138, 161]);
          title = TrimSpace (dt_Title task);
          named = (if title \<noteq> [] then summary @ (byte_string [239, 188, 154, 227, 128,
            140]) @ title @ (byte_string [227, 128, 141]) else summary);
          label = riskReasonLabel reason
      in if label \<noteq> [] then named @ (byte_string [239, 188, 136, 232, 167, 166, 229, 143, 145, 229, 142, 159,
        229, 155, 160, 239, 188, 154]) @ label @ (byte_string [239, 188, 137]) else named)"

definition humanGateRequest ::
    "string \<Rightarrow> string \<Rightarrow> string \<Rightarrow> string \<Rightarrow> string \<Rightarrow> string \<Rightarrow> PreDispatchHumanActionRequest" where
  "humanGateRequest actionType waitingReason decisionType title summary riskLevel =
     \<lparr>ha_Type = actionType, ha_WaitingReason = waitingReason, ha_DecisionType = decisionType, ha_Title = title,
      ha_Summary = summary, ha_RiskLevel = riskLevel,
      ha_Options = [GStr ''approved'', GStr ''rejected'', GStr ''needs_more_evidence'', GStr ''cancelled''],
      ha_Context = [(''source'', GStr ''predispatch_gate'')]\<rparr>"

definition act_risk_approval :: string where "act_risk_approval = ''risk_approval''"
definition act_missing_context :: string where "act_missing_context = ''missing_context''"
definition act_runtime_recovery :: string where "act_runtime_recovery = ''runtime_recovery''"
definition act_budget_approval :: string where "act_budget_approval = ''budget_approval''"

definition workspace_request :: PreDispatchHumanActionRequest where
  "workspace_request =
     humanGateRequest act_runtime_recovery ''runtime_recovery'' ''project_task_runtime_recovery''
       (byte_string [230, 137, 167, 232, 161, 140, 229, 183, 165, 228, 189, 156, 229, 140, 186, 230, 156, 170, 229,
         176, 177, 231, 187, 170]) (byte_string [233, 156, 128, 232, 166, 129, 230, 129, 162, 229, 164, 141, 32, 82,
           117, 110, 116, 105, 109, 101, 32, 229, 183, 165, 228, 189, 156, 229, 140, 186, 229, 144, 142, 230, 137, 141, 232, 131, 189, 229, 136, 134, 230, 180, 190, 228, 187, 187, 229, 138, 161]) ''medium''"

definition budget_request :: "string \<Rightarrow> string \<Rightarrow> PreDispatchHumanActionRequest" where
  "budget_request title summary =
     humanGateRequest act_budget_approval ''budget_approval'' ''project_task_budget_approval'' title summary ''medium''"

definition budget_missing_request :: PreDispatchHumanActionRequest where
  "budget_missing_request = budget_request (byte_string [228, 187, 187, 229, 138, 161, 233, 162, 132, 231, 174, 151,
    231, 188, 186, 229, 164, 177]) (byte_string [233, 156, 128, 232, 166, 129, 231, 161, 174, 232, 174, 164, 228,
      187, 187, 229, 138, 161, 233, 162, 132, 231, 174, 151, 229, 146, 140, 232, 182, 133, 230, 151, 182, 231, 173, 150, 231, 149, 165, 229, 144, 142, 230, 137, 141, 232, 131, 189, 229, 136, 134, 230, 180, 190, 228, 187, 187, 229, 138, 161])"

definition token_exhausted_request :: "int \<Rightarrow> int \<Rightarrow> PreDispatchHumanActionRequest" where
  "token_exhausted_request consumed limit =
     budget_request (byte_string [233, 161, 185, 231, 155, 174, 32, 116, 111, 107, 101, 110, 32, 233, 162, 132, 231,
       174, 151, 229, 183, 178, 232, 128, 151, 229, 176, 189])
       ((byte_string [233, 161, 185, 231, 155, 174, 32, 116, 111, 107, 101, 110, 32, 233, 162, 132, 231, 174, 151,
         229, 183, 178, 232, 128, 151, 229, 176, 189, 239, 188, 136, 229, 183, 178, 231, 148, 168,
           32]) @ Itoa consumed @ (byte_string [32, 47, 32, 228, 184, 138, 233, 153, 144,
             32]) @ Itoa limit @ (byte_string [239, 188, 137, 239, 188, 140, 230, 143, 144, 233, 171, 152, 233, 162,
               157, 229, 186, 166, 229, 144, 142, 229, 143, 175, 231, 187, 167, 231, 187, 173, 230, 180, 190, 229, 143, 145, 228, 187, 187, 229, 138, 161]))"

definition budget_approval_request :: PreDispatchHumanActionRequest where
  "budget_approval_request = budget_request (byte_string [233, 161, 185, 231, 155, 174, 233, 162, 132, 231, 174, 151,
    233, 156, 128, 232, 166, 129, 231, 161, 174, 232, 174, 164]) (byte_string [233, 156, 128, 232, 166, 129, 228,
      186, 186, 231, 177, 187, 231, 161, 174, 232, 174, 164, 233, 162, 132, 231, 174, 151, 229, 144, 142, 230, 137, 141, 232, 131, 189, 229, 136, 134, 230, 180, 190, 228, 187, 187, 229, 138, 161])"

definition risk_request :: "DispatchTask \<Rightarrow> string \<Rightarrow> PreDispatchHumanActionRequest" where
  "risk_request task reason =
     (let base = humanGateRequest act_risk_approval ''approval_required'' ''project_task_approval''
                   (byte_string [233, 171, 152, 233, 163, 142, 233, 153, 169, 229, 138, 168, 228, 189, 156, 233, 156,
                     128, 232, 166, 129, 231, 161, 174, 232, 174, 164]) (riskApprovalSummary task reason) ''high'';
          title = TrimSpace (dt_Title task);
          titled = (if title \<noteq> [] then base\<lparr>ha_Context := ha_Context base @ [(''task_title'', GStr title)]\<rparr> else base)
      in if reason \<noteq> []
         then titled\<lparr>ha_Context := ha_Context titled @
                [(''risk_reason'', GStr reason), (''risk_reason_label'', GStr (riskReasonLabel reason))]\<rparr>
         else titled)"

definition missing_context_request :: "string list \<Rightarrow> PreDispatchHumanActionRequest" where
  "missing_context_request refs =
     (let base = humanGateRequest act_missing_context ''missing_context'' ''project_task_missing_context''
                   (byte_string [228, 187, 187, 229, 138, 161, 231, 188, 186, 229, 176, 145, 229, 191, 133, 232, 166,
                     129, 228, 184, 138, 228, 184, 139, 230, 150, 135]) (byte_string [233, 156, 128, 232, 166, 129,
                       232, 161, 165, 229, 133, 133, 228, 184, 138, 228, 184, 139, 230, 150, 135, 229, 144, 142, 230, 137, 141, 232, 131, 189, 229, 136, 134, 230, 180, 190, 228, 187, 187, 229, 138, 161]) ''medium''
      in base\<lparr>ha_Context := ha_Context base @ [(''missing_refs'', GStrs refs)]\<rparr>)"

section \<open>The checks\<close>

text \<open>The local variables of the evaluation and its three closures.\<close>

record gate_acc =
  ga_Status :: gate_status
  ga_Checks :: "PreDispatchGateCheck list"
  ga_pending :: "preDispatchGateBlockerWithStatus list"
  ga_Action :: "PreDispatchHumanActionRequest option"

definition addCheck :: "string \<Rightarrow> string \<Rightarrow> gmap \<Rightarrow> gate_acc \<Rightarrow> gate_acc" where
  "addCheck key status details acc =
     acc\<lparr>ga_Checks := ga_Checks acc @ [\<lparr>gc_Key = key, gc_Status = status, gc_Details = sanitizeGateDetails details\<rparr>]\<rparr>"

definition addBlocker :: "string \<Rightarrow> gate_status \<Rightarrow> string \<Rightarrow> bool \<Rightarrow> gmap \<Rightarrow> gate_acc \<Rightarrow> gate_acc" where
  "addBlocker key status severity retryable details acc =
     acc\<lparr>ga_pending := ga_pending acc @
       [\<lparr>pb_blocker = \<lparr>gb_Key = key, gb_Severity = severity, gb_Retryable = retryable,
                       gb_Details = sanitizeGateDetails details\<rparr>,
         pb_status = status, pb_order = length (ga_pending acc)\<rparr>]\<rparr>"

definition setStatus :: "gate_status \<Rightarrow> gate_acc \<Rightarrow> gate_acc" where
  "setStatus status acc =
     (if preDispatchGateStatusPriority status \<ge> preDispatchGateStatusPriority (ga_Status acc)
      then acc\<lparr>ga_Status := status\<rparr> else acc)"

definition askHuman :: "PreDispatchHumanActionRequest \<Rightarrow> gate_acc \<Rightarrow> gate_acc" where
  "askHuman request acc = acc\<lparr>ga_Action := Some request\<rparr>"

abbreviation passed :: "string \<Rightarrow> gmap \<Rightarrow> gate_acc \<Rightarrow> gate_acc" where
  "passed key details \<equiv> addCheck key ''passed'' details"

text \<open>The pattern of a failing check: the failed check, one blocker and the status of that blocker.\<close>

definition stopped :: "string \<Rightarrow> gmap \<Rightarrow> string \<Rightarrow> gate_status \<Rightarrow> string \<Rightarrow> bool \<Rightarrow> gmap \<Rightarrow> gate_acc \<Rightarrow> gate_acc" where
  "stopped checkKey checkDetails blockerKey status severity retryable details acc =
     setStatus status (addBlocker blockerKey status severity retryable details (addCheck checkKey ''failed'' checkDetails acc))"

definition gnum :: "int \<Rightarrow> gval" where
  "gnum i = GNum (of_int i) (Itoa i)"

definition opt_text :: "('a \<Rightarrow> string) \<Rightarrow> 'a option \<Rightarrow> gval" where
  "opt_text f p = (case p of None \<Rightarrow> GNil | Some x \<Rightarrow> GStr (f x))"

definition check_identity :: "PreDispatchGateInput \<Rightarrow> PreDispatchGateSnapshot \<Rightarrow> gate_acc \<Rightarrow> gate_acc" where
  "check_identity input snapshot =
     (let task = gs_Task snapshot in
      if pt_ID task \<noteq> gi_ProjectTaskID input \<or> dt_ProjectID task \<noteq> gi_ProjectID input
      then stopped ''task.identity'' [(''reason'', GStr ''task_project_mismatch'')]
             ''task.identity_mismatch'' GateBlocked ''hard'' False []
      else passed ''task.identity'' [])"

definition check_revision :: "uuid_lib \<Rightarrow> PreDispatchGateInput \<Rightarrow> PreDispatchGateSnapshot \<Rightarrow> gate_acc \<Rightarrow> gate_acc" where
  "check_revision U input snapshot =
     (case gi_AcceptedPlanRevisionID input of
        None \<Rightarrow> (\<lambda>acc. acc)
      | Some revision \<Rightarrow>
          if pt_AcceptedPlanRevisionID (gs_Task snapshot) \<noteq> Some revision
          then stopped ''task.accepted_plan_revision''
                 [(''input_accepted_plan_revision_id'', GStr (uuid_String U revision)),
                  (''task_accepted_plan_revision_id'',
                    opt_text (uuid_String U) (pt_AcceptedPlanRevisionID (gs_Task snapshot)))]
                 ''task.accepted_plan_revision_changed'' ReplanRequired ''hard'' False []
          else passed ''task.accepted_plan_revision'' [(''accepted_plan_revision_id'', GStr (uuid_String U revision))])"

definition check_planned_key :: "PreDispatchGateInput \<Rightarrow> PreDispatchGateSnapshot \<Rightarrow> gate_acc \<Rightarrow> gate_acc" where
  "check_planned_key input snapshot =
     (case gi_PlannedTaskKey input of
        None \<Rightarrow> (\<lambda>acc. acc)
      | Some key \<Rightarrow>
          if pt_PlannedTaskKey (gs_Task snapshot) \<noteq> Some key
          then stopped ''task.planned_task_key''
                 [(''input_planned_task_key'', GStr key),
                  (''task_planned_task_key'', opt_text (\<lambda>s. s) (pt_PlannedTaskKey (gs_Task snapshot)))]
                 ''task.planned_task_key_changed'' ReplanRequired ''hard'' False []
          else passed ''task.planned_task_key'' [(''planned_task_key'', GStr key)])"

definition dispatchable_status :: "string \<Rightarrow> bool" where
  "dispatchable_status status = (status = ''planned'' \<or> status = ''waiting_human'')"

definition check_status :: "PreDispatchGateSnapshot \<Rightarrow> gate_acc \<Rightarrow> gate_acc" where
  "check_status snapshot =
     (let status = dt_Status (gs_Task snapshot); details = [(''status'', GStr status)] in
      if \<not> dispatchable_status status
      then stopped ''task.dispatchable'' details ''task.status_not_dispatchable'' GateBlocked ''hard'' False details
      else passed ''task.dispatchable'' details)"

definition check_active_attempt :: "uuid_lib \<Rightarrow> PreDispatchGateSnapshot \<Rightarrow> gate_acc \<Rightarrow> gate_acc" where
  "check_active_attempt U snapshot =
     (case gs_ActiveAttempt snapshot of
        None \<Rightarrow> passed ''task.active_attempt'' []
      | Some attempt \<Rightarrow>
          if activeAttemptStatus (as_Status attempt)
          then stopped ''task.active_attempt''
                 [(''attempt_id'', GStr (uuid_String U (as_ID attempt))), (''status'', GStr (as_Status attempt))]
                 ''task.active_attempt_exists'' GateBlocked ''hard'' False
                 [(''attempt_id'', GStr (uuid_String U (as_ID attempt)))]
          else passed ''task.active_attempt'' [])"

definition check_retry_policy :: "PreDispatchGateInput \<Rightarrow> PreDispatchGateSnapshot \<Rightarrow> gate_acc \<Rightarrow> gate_acc" where
  "check_retry_policy input snapshot =
     (case pt_MaxAttempts (gs_Task snapshot) of
        None \<Rightarrow> passed ''task.retry_policy'' [(''attempt_no'', gnum (gi_AttemptNo input))]
      | Some limit \<Rightarrow>
          if gi_AttemptNo input > limit
          then stopped ''task.retry_policy''
                 [(''attempt_no'', gnum (gi_AttemptNo input)), (''max_attempts'', gnum limit)]
                 ''task.retry_exhausted'' GateBlocked ''hard'' False []
          else passed ''task.retry_policy'' [(''attempt_no'', gnum (gi_AttemptNo input))])"

definition dependency_ready :: "PreDispatchDependencySnapshot \<Rightarrow> bool" where
  "dependency_ready dep = (ds_Status dep = ''completed'' \<and> ds_AcceptanceSatisfied dep)"

definition dependency_blocker :: "uuid_lib \<Rightarrow> gate_acc \<Rightarrow> PreDispatchDependencySnapshot \<Rightarrow> gate_acc" where
  "dependency_blocker U acc dep =
     (if dependency_ready dep then acc
      else addBlocker ''dependency.not_ready'' GateBlocked ''hard'' False
             [(''project_task_id'', GStr (uuid_String U (ds_TaskID dep))), (''status'', GStr (ds_Status dep)),
              (''acceptance_satisfied'', GBool (ds_AcceptanceSatisfied dep))] acc)"

definition check_dependencies :: "uuid_lib \<Rightarrow> PreDispatchGateSnapshot \<Rightarrow> gate_acc \<Rightarrow> gate_acc" where
  "check_dependencies U snapshot acc =
     (let acc' = foldl (dependency_blocker U) acc (gs_Dependencies snapshot) in
      if \<not> list_all dependency_ready (gs_Dependencies snapshot)
      then setStatus GateBlocked (addCheck ''dependency.ready'' ''failed'' [] acc')
      else passed ''dependency.ready'' [(''dependency_count'', gnum (int (length (gs_Dependencies snapshot))))] acc')"

definition check_employee :: "uuid_lib \<Rightarrow> PreDispatchGateInput \<Rightarrow> PreDispatchGateSnapshot \<Rightarrow> gate_acc \<Rightarrow> gate_acc" where
  "check_employee U input snapshot =
     (let employee = gs_Employee snapshot in
      if pt_AssignedDigitalEmployeeID (gs_Task snapshot) \<noteq> Some (gi_SelectedEmployeeID input)
      then stopped ''employee.selected'' [] ''employee.selection_changed'' ReplanRequired ''hard'' False []
      else if es_ID employee \<noteq> gi_SelectedEmployeeID input
      then stopped ''employee.snapshot_identity''
             [(''snapshot_employee_id'', GStr (uuid_String U (es_ID employee))),
              (''selected_employee_id'', GStr (uuid_String U (gi_SelectedEmployeeID input)))]
             ''employee.snapshot_mismatch'' ReplanRequired ''hard'' False []
      else if \<not> es_IsProjectExecutor employee \<or> \<not> preDispatchEmployeeStatusDispatchable (es_Status employee) \<or>
              \<not> es_PolicyAllowed employee
      then stopped ''employee.dispatchable''
             [(''status'', GStr (es_Status employee)), (''project_executor'', GBool (es_IsProjectExecutor employee)),
              (''policy_allowed'', GBool (es_PolicyAllowed employee))]
             ''employee.not_dispatchable'' ReplanRequired ''hard'' False []
      else if es_AvailableLoadSlots employee < es_RequiredLoadSlots employee
      then stopped ''employee.load''
             [(''available'', gnum (es_AvailableLoadSlots employee)), (''required'', gnum (es_RequiredLoadSlots employee))]
             ''employee.slot_unavailable'' RetryLater ''transient'' True []
      else passed ''employee.dispatchable'' [(''profile_snapshot_hash'', GStr (es_ProfileSnapshotHash employee))])"

definition check_runtime :: "PreDispatchGateSnapshot \<Rightarrow> gate_acc \<Rightarrow> gate_acc" where
  "check_runtime snapshot =
     (let runtime = gs_Runtime snapshot in
      if \<not> rs_PlacementPresent runtime
      then stopped ''runtime.placement'' [] ''runtime.placement_missing'' GateBlocked ''hard'' False []
      else if rs_Pinned runtime \<and> \<not> rs_NodeOnline runtime
      then stopped ''runtime.ready'' [(''node_online'', GBool False), (''pinned'', GBool True)]
             ''runtime.pinned_node_offline'' GateBlocked ''hard'' False []
      else if \<not> rs_NodeOnline runtime
      then stopped ''runtime.ready'' [(''node_online'', GBool False)]
             ''runtime.no_eligible_online_node'' RetryLater ''transient'' True []
      else if \<not> rs_ProviderAvailable runtime
      then stopped ''runtime.ready'' [(''provider_available'', GBool False)]
             ''runtime.provider_unavailable'' RetryLater ''transient'' True []
      else if \<not> rs_WorkspaceReady runtime
      then stopped ''runtime.workspace'' [] ''runtime.workspace_not_ready'' WaitingHuman ''human'' False [] \<circ>
             askHuman workspace_request
      else if \<not> rs_SlotAvailable runtime
      then stopped ''runtime.ready'' [(''slot_available'', GBool False)]
             ''runtime.slot_unavailable'' RetryLater ''transient'' True []
      else if \<not> rs_ContractVersionAccepted runtime
      then stopped ''runtime.contract'' [] ''runtime.contract_version_unsupported'' ReplanRequired ''hard'' False []
      else passed ''runtime.ready'' [])"

definition token_exhausted :: "PreDispatchBudgetSnapshot \<Rightarrow> bool" where
  "token_exhausted budget = (\<not> bs_ProjectBudgetAllowed budget \<and> bs_TokenLimit budget \<noteq> None)"

definition check_budget :: "PreDispatchGateSnapshot \<Rightarrow> gate_acc \<Rightarrow> gate_acc" where
  "check_budget snapshot =
     (let budget = gs_Budget snapshot in
      if \<not> bs_TaskBudgetPresent budget
      then stopped ''budget.ready'' [(''task_budget_present'', GBool False)]
             ''budget.task_budget_missing'' WaitingHuman ''human'' False [] \<circ> askHuman budget_missing_request
      else if token_exhausted budget
      then stopped ''budget.ready''
             [(''project_budget_allowed'', GBool False), (''token_limit'', gnum (the (bs_TokenLimit budget))),
              (''consumed_tokens'', gnum (bs_ConsumedTokens budget))]
             ''budget.token_exhausted'' WaitingHuman ''human'' False [] \<circ>
           askHuman (token_exhausted_request (bs_ConsumedTokens budget) (the (bs_TokenLimit budget)))
      else if \<not> bs_ProjectBudgetAllowed budget \<or> bs_NeedsApproval budget \<and> \<not> bs_ApprovalGranted budget
      then stopped ''budget.ready'' [(''project_budget_allowed'', GBool (bs_ProjectBudgetAllowed budget))]
             ''budget.approval_required'' WaitingHuman ''human'' False [] \<circ> askHuman budget_approval_request
      else passed ''budget.ready'' [])"

definition check_risk :: "PreDispatchGateSnapshot \<Rightarrow> gate_acc \<Rightarrow> gate_acc" where
  "check_risk snapshot =
     (let risk = gs_Risk snapshot in
      if ks_HumanApprovalRequired risk \<and> \<not> ks_HumanApprovalGranted risk
      then stopped ''risk.approval'' [(''reason'', GStr (ks_Reason risk))]
             ''risk.approval_required'' WaitingHuman ''human'' False [] \<circ>
           askHuman (risk_request (gs_Task snapshot) (ks_Reason risk))
      else passed ''risk.approval'' [])"

definition check_context :: "PreDispatchGateSnapshot \<Rightarrow> gate_acc \<Rightarrow> gate_acc" where
  "check_context snapshot =
     (let ctx = gs_Context snapshot in
      if \<not> xs_RequiredRefsResolved ctx
      then stopped ''context.ready'' [(''missing_refs'', GStrs (xs_MissingRefs ctx))]
             ''context.missing_required_refs'' WaitingHuman ''human'' False [] \<circ>
           askHuman (missing_context_request (xs_MissingRefs ctx))
      else if \<not> xs_InjectionAllowed ctx
      then stopped ''context.policy'' [] ''context.injection_denied'' GateBlocked ''hard'' False []
      else passed ''context.ready'' [])"

section \<open>The evaluation\<close>

definition gate_checks :: "uuid_lib \<Rightarrow> PreDispatchGateInput \<Rightarrow> PreDispatchGateSnapshot \<Rightarrow> (gate_acc \<Rightarrow> gate_acc) list" where
  "gate_checks U input snapshot =
     [check_identity input snapshot, check_revision U input snapshot, check_planned_key input snapshot,
      check_status snapshot, check_active_attempt U snapshot, check_retry_policy input snapshot,
      check_dependencies U snapshot, check_employee U input snapshot, check_runtime snapshot,
      check_budget snapshot, check_risk snapshot, check_context snapshot]"

definition gate_start :: gate_acc where
  "gate_start = \<lparr>ga_Status = Passed, ga_Checks = [], ga_pending = [], ga_Action = None\<rparr>"

definition run_checks :: "uuid_lib \<Rightarrow> PreDispatchGateInput \<Rightarrow> PreDispatchGateSnapshot \<Rightarrow> gate_acc" where
  "run_checks U input snapshot = foldl (\<lambda>acc check. check acc) gate_start (gate_checks U input snapshot)"

definition blocker_order :: "preDispatchGateBlockerWithStatus \<Rightarrow> nat \<times> nat \<times> nat" where
  "blocker_order p =
     (4 - preDispatchGateStatusPriority (pb_status p),
      3 - preDispatchGateBlockerSeverityPriority (gb_Severity (pb_blocker p)),
      pb_order p)"

definition EvaluatePreDispatchGate ::
    "uuid_lib \<Rightarrow> (string \<Rightarrow> string) \<Rightarrow> PreDispatchGateInput \<Rightarrow> PreDispatchGateSnapshot \<Rightarrow> int \<Rightarrow> PreDispatchGateEvaluation" where
  "EvaluatePreDispatchGate U sha input0 snapshot now =
     (let input = input0\<lparr>gi_DispatchReason := normalizeDispatchReason (gi_DispatchReason input0)\<rparr>;
          acc = run_checks U input snapshot;
          retryAfter = rs_RetryAfter (gs_Runtime snapshot)
      in \<lparr>ev_Status = ga_Status acc, ev_CheckedAt = now,
          ev_Checks = sort_key gc_Key (ga_Checks acc),
          ev_Blockers = map pb_blocker (sort_key blocker_order (ga_pending acc)),
          ev_HumanActionRequest =
            (if ga_Status acc \<noteq> WaitingHuman then None else map_option sanitizeHumanActionRequest (ga_Action acc)),
          ev_RetryAfter = (if ga_Status acc = RetryLater \<and> retryAfter \<noteq> 0 then Some retryAfter else None),
          ev_IdempotencyKey = PreDispatchGateIdempotencyKey U input,
          ev_DispatchToken = PreDispatchGateDispatchToken U sha input,
          ev_CreateRun = (ga_Status acc = Passed)\<rparr>)"

definition CheckKeys :: "PreDispatchGateEvaluation \<Rightarrow> string list" where
  "CheckKeys r = map gc_Key (ev_Checks r)"

section \<open>The status as a specification\<close>

text \<open>What holds a task back, grouped by the status it calls for.\<close>

definition blocked_reason :: "PreDispatchGateInput \<Rightarrow> PreDispatchGateSnapshot \<Rightarrow> bool" where
  "blocked_reason input s \<longleftrightarrow>
     pt_ID (gs_Task s) \<noteq> gi_ProjectTaskID input \<or> dt_ProjectID (gs_Task s) \<noteq> gi_ProjectID input \<or>
     \<not> dispatchable_status (dt_Status (gs_Task s)) \<or>
     (\<exists>a. gs_ActiveAttempt s = Some a \<and> activeAttemptStatus (as_Status a)) \<or>
     (\<exists>n. pt_MaxAttempts (gs_Task s) = Some n \<and> gi_AttemptNo input > n) \<or>
     (\<exists>d \<in> set (gs_Dependencies s). \<not> dependency_ready d) \<or>
     \<not> rs_PlacementPresent (gs_Runtime s) \<or> rs_Pinned (gs_Runtime s) \<and> \<not> rs_NodeOnline (gs_Runtime s) \<or>
     xs_RequiredRefsResolved (gs_Context s) \<and> \<not> xs_InjectionAllowed (gs_Context s)"

definition employee_matches :: "PreDispatchGateInput \<Rightarrow> PreDispatchGateSnapshot \<Rightarrow> bool" where
  "employee_matches input s \<longleftrightarrow>
     pt_AssignedDigitalEmployeeID (gs_Task s) = Some (gi_SelectedEmployeeID input) \<and>
     es_ID (gs_Employee s) = gi_SelectedEmployeeID input \<and> es_IsProjectExecutor (gs_Employee s) \<and>
     preDispatchEmployeeStatusDispatchable (es_Status (gs_Employee s)) \<and> es_PolicyAllowed (gs_Employee s)"

definition node_serves :: "PreDispatchGateSnapshot \<Rightarrow> bool" where
  "node_serves s \<longleftrightarrow>
     rs_PlacementPresent (gs_Runtime s) \<and> rs_NodeOnline (gs_Runtime s) \<and> rs_ProviderAvailable (gs_Runtime s)"

definition replan_reason :: "PreDispatchGateInput \<Rightarrow> PreDispatchGateSnapshot \<Rightarrow> bool" where
  "replan_reason input s \<longleftrightarrow>
     (\<exists>r. gi_AcceptedPlanRevisionID input = Some r \<and> pt_AcceptedPlanRevisionID (gs_Task s) \<noteq> Some r) \<or>
     (\<exists>k. gi_PlannedTaskKey input = Some k \<and> pt_PlannedTaskKey (gs_Task s) \<noteq> Some k) \<or>
     \<not> employee_matches input s \<or>
     node_serves s \<and> rs_WorkspaceReady (gs_Runtime s) \<and> rs_SlotAvailable (gs_Runtime s) \<and>
       \<not> rs_ContractVersionAccepted (gs_Runtime s)"

definition budget_reason :: "PreDispatchBudgetSnapshot \<Rightarrow> bool" where
  "budget_reason b \<longleftrightarrow>
     \<not> bs_TaskBudgetPresent b \<or> \<not> bs_ProjectBudgetAllowed b \<or> bs_NeedsApproval b \<and> \<not> bs_ApprovalGranted b"

definition risk_reason :: "PreDispatchRiskSnapshot \<Rightarrow> bool" where
  "risk_reason r \<longleftrightarrow> ks_HumanApprovalRequired r \<and> \<not> ks_HumanApprovalGranted r"

definition workspace_reason :: "PreDispatchGateSnapshot \<Rightarrow> bool" where
  "workspace_reason s \<longleftrightarrow> node_serves s \<and> \<not> rs_WorkspaceReady (gs_Runtime s)"

definition human_reason :: "PreDispatchGateSnapshot \<Rightarrow> bool" where
  "human_reason s \<longleftrightarrow>
     workspace_reason s \<or> budget_reason (gs_Budget s) \<or> risk_reason (gs_Risk s) \<or> \<not> xs_RequiredRefsResolved (gs_Context s)"

definition retry_reason :: "PreDispatchGateInput \<Rightarrow> PreDispatchGateSnapshot \<Rightarrow> bool" where
  "retry_reason input s \<longleftrightarrow>
     employee_matches input s \<and> es_AvailableLoadSlots (gs_Employee s) < es_RequiredLoadSlots (gs_Employee s) \<or>
     rs_PlacementPresent (gs_Runtime s) \<and> \<not> rs_Pinned (gs_Runtime s) \<and> \<not> rs_NodeOnline (gs_Runtime s) \<or>
     rs_PlacementPresent (gs_Runtime s) \<and> rs_NodeOnline (gs_Runtime s) \<and> \<not> rs_ProviderAvailable (gs_Runtime s) \<or>
     node_serves s \<and> rs_WorkspaceReady (gs_Runtime s) \<and> \<not> rs_SlotAvailable (gs_Runtime s)"

text \<open>The statuses of the blockers collected so far, and the worst of a set of statuses.\<close>

definition pending_statuses :: "gate_acc \<Rightarrow> gate_status set" where
  "pending_statuses acc = pb_status ` set (ga_pending acc)"

definition worst_of :: "gate_status set \<Rightarrow> gate_status" where
  "worst_of P =
     (if GateBlocked \<in> P then GateBlocked else if ReplanRequired \<in> P then ReplanRequired
      else if WaitingHuman \<in> P then WaitingHuman else if RetryLater \<in> P then RetryLater else Passed)"

lemma acc_simps [simp]:
  "pending_statuses (addCheck k st d acc) = pending_statuses acc"
  "pending_statuses (addBlocker k g sv r d acc) = insert g (pending_statuses acc)"
  "pending_statuses (setStatus g acc) = pending_statuses acc"
  "pending_statuses (askHuman q acc) = pending_statuses acc"
  "ga_Action (addCheck k st d acc) = ga_Action acc"
  "ga_Action (addBlocker k g sv r d acc) = ga_Action acc"
  "ga_Action (setStatus g acc) = ga_Action acc"
  "ga_Action (askHuman q acc) = Some q"
  "ga_Status (addCheck k st d acc) = ga_Status acc"
  "ga_Status (addBlocker k g sv r d acc) = ga_Status acc"
  "ga_Status (askHuman q acc) = ga_Status acc"
  by (auto simp: pending_statuses_def addCheck_def addBlocker_def setStatus_def askHuman_def)

lemma stopped_simps [simp]:
  "pending_statuses (stopped ck cd bk g sv r d acc) = insert g (pending_statuses acc)"
  "ga_Action (stopped ck cd bk g sv r d acc) = ga_Action acc"
  by (simp_all add: stopped_def)

lemma ga_Status_setStatus:
  "ga_Status (setStatus g acc) =
     (if preDispatchGateStatusPriority g \<ge> preDispatchGateStatusPriority (ga_Status acc) then g else ga_Status acc)"
  by (simp add: setStatus_def)

text \<open>The contract of a check: the status stays the worst of the blockers, and a wait for a human comes
  with a request.\<close>

definition status_ok :: "gate_acc \<Rightarrow> bool" where
  "status_ok acc \<longleftrightarrow> ga_Status acc = worst_of (pending_statuses acc)"

lemma status_ok_simps [simp]:
  "status_ok (addCheck k st d acc) = status_ok acc" "status_ok (askHuman q acc) = status_ok acc"
  by (simp_all add: status_ok_def)

lemma worst_insert:
  "(if preDispatchGateStatusPriority g \<ge> preDispatchGateStatusPriority (worst_of P) then g else worst_of P)
     = worst_of (insert g P)"
  by (cases g) (auto simp: worst_of_def)

lemma status_ok_setStatus:
  assumes "status_ok acc"
  shows "status_ok (setStatus g (addBlocker k g sv r d acc))"
  using assms unfolding status_ok_def by (simp only: ga_Status_setStatus acc_simps worst_insert)

lemma status_ok_stopped: "status_ok acc \<Longrightarrow> status_ok (stopped ck cd bk g sv r d acc)"
  by (simp add: stopped_def status_ok_setStatus)

locale status_checks =
  fixes checks :: "(gate_acc \<Rightarrow> gate_acc) list"
  assumes check_status_ok: "check \<in> set checks \<Longrightarrow> status_ok acc \<Longrightarrow> status_ok (check acc)"
begin

lemma run_status_ok: "status_ok acc \<Longrightarrow> set cs \<subseteq> set checks \<Longrightarrow> status_ok (foldl (\<lambda>acc check. check acc) acc cs)"
  by (induction cs arbitrary: acc) (auto intro: check_status_ok)

lemma run_status: "ga_Status (foldl (\<lambda>acc check. check acc) gate_start checks)
    = worst_of (pending_statuses (foldl (\<lambda>acc check. check acc) gate_start checks))"
proof -
  have "status_ok gate_start" by (simp add: status_ok_def gate_start_def pending_statuses_def worst_of_def)
  from run_status_ok [OF this] show ?thesis by (simp add: status_ok_def)
qed

end

lemma dependencies_pending:
  "pending_statuses (foldl (dependency_blocker U) acc ds) =
     pending_statuses acc \<union> (if list_all dependency_ready ds then {} else {GateBlocked})"
  "ga_Status (foldl (dependency_blocker U) acc ds) = ga_Status acc"
  "ga_Action (foldl (dependency_blocker U) acc ds) = ga_Action acc"
  by (induction ds arbitrary: acc) (auto simp: dependency_blocker_def)

lemma status_ok_dependencies: "status_ok acc \<Longrightarrow> status_ok (check_dependencies U s acc)"
proof (cases "list_all dependency_ready (gs_Dependencies s)")
  case False
  assume "status_ok acc"
  moreover have "preDispatchGateStatusPriority g \<le> 4" for g by (cases g) auto
  ultimately show ?thesis using False
    by (simp add: check_dependencies_def Let_def status_ok_def ga_Status_setStatus dependencies_pending worst_of_def)
qed (simp add: check_dependencies_def status_ok_def dependencies_pending)

lemmas check_defs = check_identity_def check_revision_def check_planned_key_def check_status_def
  check_active_attempt_def check_retry_policy_def check_employee_def check_runtime_def check_budget_def
  check_risk_def check_context_def

lemma status_ok_checks:
  assumes "status_ok acc"
  shows "status_ok (check_identity input s acc)"
    and "status_ok (check_revision U input s acc)"
    and "status_ok (check_planned_key input s acc)"
    and "status_ok (check_status s acc)"
    and "status_ok (check_active_attempt U s acc)"
    and "status_ok (check_retry_policy input s acc)"
    and "status_ok (check_employee U input s acc)"
    and "status_ok (check_runtime s acc)"
    and "status_ok (check_budget s acc)"
    and "status_ok (check_risk s acc)"
    and "status_ok (check_context s acc)"
  using assms by (simp_all add: check_defs Let_def status_ok_stopped split: option.split)

interpretation gate: status_checks "gate_checks U input snapshot" for U input snapshot
proof
  fix check acc
  assume "check \<in> set (gate_checks U input snapshot)" "status_ok acc"
  then show "status_ok (check acc)"
    unfolding gate_checks_def by (auto simp only: set_simps insert_iff empty_iff intro: status_ok_checks status_ok_dependencies)
qed

text \<open>The statuses that each check adds.\<close>

lemma check_statuses:
  "pending_statuses (check_identity input s acc) = pending_statuses acc \<union>
     (if pt_ID (gs_Task s) \<noteq> gi_ProjectTaskID input \<or> dt_ProjectID (gs_Task s) \<noteq> gi_ProjectID input
      then {GateBlocked} else {})"
  "pending_statuses (check_revision U input s acc) = pending_statuses acc \<union>
     (if \<exists>r. gi_AcceptedPlanRevisionID input = Some r \<and> pt_AcceptedPlanRevisionID (gs_Task s) \<noteq> Some r
      then {ReplanRequired} else {})"
  "pending_statuses (check_planned_key input s acc) = pending_statuses acc \<union>
     (if \<exists>k. gi_PlannedTaskKey input = Some k \<and> pt_PlannedTaskKey (gs_Task s) \<noteq> Some k
      then {ReplanRequired} else {})"
  "pending_statuses (check_status s acc) = pending_statuses acc \<union>
     (if \<not> dispatchable_status (dt_Status (gs_Task s)) then {GateBlocked} else {})"
  "pending_statuses (check_active_attempt U s acc) = pending_statuses acc \<union>
     (if \<exists>a. gs_ActiveAttempt s = Some a \<and> activeAttemptStatus (as_Status a) then {GateBlocked} else {})"
  "pending_statuses (check_retry_policy input s acc) = pending_statuses acc \<union>
     (if \<exists>n. pt_MaxAttempts (gs_Task s) = Some n \<and> gi_AttemptNo input > n then {GateBlocked} else {})"
  "pending_statuses (check_dependencies U s acc) = pending_statuses acc \<union>
     (if \<exists>d \<in> set (gs_Dependencies s). \<not> dependency_ready d then {GateBlocked} else {})"
  by (auto simp: check_defs check_dependencies_def Let_def dependencies_pending list_all_iff split: option.splits)

lemma check_resource_statuses:
  "pending_statuses (check_employee U input s acc) = pending_statuses acc \<union>
     (if \<not> employee_matches input s then {ReplanRequired}
      else if es_AvailableLoadSlots (gs_Employee s) < es_RequiredLoadSlots (gs_Employee s) then {RetryLater} else {})"
  "pending_statuses (check_budget s acc) = pending_statuses acc \<union>
     (if budget_reason (gs_Budget s) then {WaitingHuman} else {})"
  "pending_statuses (check_risk s acc) = pending_statuses acc \<union> (if risk_reason (gs_Risk s) then {WaitingHuman} else {})"
  "pending_statuses (check_context s acc) = pending_statuses acc \<union>
     (if \<not> xs_RequiredRefsResolved (gs_Context s) then {WaitingHuman}
      else if \<not> xs_InjectionAllowed (gs_Context s) then {GateBlocked} else {})"
  by (auto simp: check_defs Let_def employee_matches_def budget_reason_def token_exhausted_def risk_reason_def)

lemma check_runtime_statuses:
  "pending_statuses (check_runtime s acc) = pending_statuses acc \<union>
     (let r = gs_Runtime s in
      if \<not> rs_PlacementPresent r \<or> rs_Pinned r \<and> \<not> rs_NodeOnline r then {GateBlocked}
      else if \<not> rs_NodeOnline r \<or> \<not> rs_ProviderAvailable r then {RetryLater}
      else if \<not> rs_WorkspaceReady r then {WaitingHuman}
      else if \<not> rs_SlotAvailable r then {RetryLater}
      else if \<not> rs_ContractVersionAccepted r then {ReplanRequired} else {})"
  by (auto simp: check_runtime_def Let_def)

lemma gate_pending_statuses:
  defines "P \<equiv> \<lambda>U input s. pending_statuses (run_checks U input s)"
  shows "GateBlocked \<in> P U input s \<longleftrightarrow> blocked_reason input s"
    and "ReplanRequired \<in> P U input s \<longleftrightarrow> replan_reason input s"
    and "WaitingHuman \<in> P U input s \<longleftrightarrow> human_reason s"
    and "RetryLater \<in> P U input s \<longleftrightarrow> retry_reason input s"
proof -
  have start: "pending_statuses gate_start = {}" by (simp add: gate_start_def pending_statuses_def)
  have mem_if: "x \<in> (if c then A else B) \<longleftrightarrow> c \<and> x \<in> A \<or> \<not> c \<and> x \<in> B" for x :: gate_status and c A B by simp
  note unfold = P_def run_checks_def gate_checks_def start check_statuses check_resource_statuses check_runtime_statuses Let_def
    mem_if foldl.simps Un_iff empty_iff singleton_iff gate_status.distinct simp_thms
  show "GateBlocked \<in> P U input s \<longleftrightarrow> blocked_reason input s"
    by (simp only: unfold blocked_reason_def) blast
  show "ReplanRequired \<in> P U input s \<longleftrightarrow> replan_reason input s"
    by (simp only: unfold replan_reason_def node_serves_def) blast
  show "WaitingHuman \<in> P U input s \<longleftrightarrow> human_reason s"
    by (simp only: unfold human_reason_def workspace_reason_def node_serves_def) blast
  show "RetryLater \<in> P U input s \<longleftrightarrow> retry_reason input s"
    by (simp only: unfold retry_reason_def node_serves_def) blast
qed

lemma reasons_normalized [simp]:
  "blocked_reason (input\<lparr>gi_DispatchReason := r\<rparr>) s = blocked_reason input s"
  "employee_matches (input\<lparr>gi_DispatchReason := r\<rparr>) s = employee_matches input s"
  "replan_reason (input\<lparr>gi_DispatchReason := r\<rparr>) s = replan_reason input s"
  "retry_reason (input\<lparr>gi_DispatchReason := r\<rparr>) s = retry_reason input s"
  by (simp_all add: blocked_reason_def employee_matches_def replan_reason_def retry_reason_def)

definition gate_verdict :: "PreDispatchGateInput \<Rightarrow> PreDispatchGateSnapshot \<Rightarrow> gate_status" where
  "gate_verdict input s =
     (if blocked_reason input s then GateBlocked else if replan_reason input s then ReplanRequired
      else if human_reason s then WaitingHuman else if retry_reason input s then RetryLater else Passed)"

lemma gate_status_worst: "ga_Status (run_checks U input s) = gate_verdict input s"
  using gate.run_status [of U input s]
  by (simp add: run_checks_def [symmetric] worst_of_def gate_pending_statuses gate_verdict_def)

text \<open>
  Claim C25: the status of a dispatch is the worst of what holds the task back, whatever the order of the
  checks: blocked before replanning, before waiting for a human, before a later retry. A run is created
  exactly when nothing of the four kinds holds it back.
\<close>

theorem gate_status_is_the_worst_reason:
  "ev_Status (EvaluatePreDispatchGate U sha input s now) = gate_verdict input s \<and>
   (ev_CreateRun (EvaluatePreDispatchGate U sha input s now) \<longleftrightarrow>
      \<not> blocked_reason input s \<and> \<not> replan_reason input s \<and> \<not> human_reason s \<and> \<not> retry_reason input s)"
  by (simp add: EvaluatePreDispatchGate_def Let_def gate_status_worst gate_verdict_def)

section \<open>The human a task waits for\<close>

lemma check_actions:
  "ga_Action (check_identity input s acc) = ga_Action acc"
  "ga_Action (check_revision U input s acc) = ga_Action acc"
  "ga_Action (check_planned_key input s acc) = ga_Action acc"
  "ga_Action (check_status s acc) = ga_Action acc"
  "ga_Action (check_active_attempt U s acc) = ga_Action acc"
  "ga_Action (check_retry_policy input s acc) = ga_Action acc"
  "ga_Action (check_dependencies U s acc) = ga_Action acc"
  "ga_Action (check_employee U input s acc) = ga_Action acc"
  "ga_Action (check_runtime s acc) =
     (if workspace_reason s \<and> \<not> (rs_Pinned (gs_Runtime s) \<and> \<not> rs_NodeOnline (gs_Runtime s)) then Some workspace_request else ga_Action acc)"
  "ga_Action (check_risk s acc) =
     (if risk_reason (gs_Risk s) then Some (risk_request (gs_Task s) (ks_Reason (gs_Risk s))) else ga_Action acc)"
  "ga_Action (check_context s acc) =
     (if \<not> xs_RequiredRefsResolved (gs_Context s) then Some (missing_context_request (xs_MissingRefs (gs_Context s)))
      else ga_Action acc)"
  by (auto simp: check_defs check_dependencies_def Let_def dependencies_pending workspace_reason_def node_serves_def
      risk_reason_def split: option.splits)

definition asked_request :: "PreDispatchGateSnapshot \<Rightarrow> PreDispatchHumanActionRequest option" where
  "asked_request s =
     (if \<not> xs_RequiredRefsResolved (gs_Context s) then Some (missing_context_request (xs_MissingRefs (gs_Context s)))
      else if risk_reason (gs_Risk s) then Some (risk_request (gs_Task s) (ks_Reason (gs_Risk s)))
      else if \<not> bs_TaskBudgetPresent (gs_Budget s) then Some budget_missing_request
      else if token_exhausted (gs_Budget s)
      then Some (token_exhausted_request (bs_ConsumedTokens (gs_Budget s)) (the (bs_TokenLimit (gs_Budget s))))
      else if budget_reason (gs_Budget s) then Some budget_approval_request
      else if workspace_reason s then Some workspace_request else None)"

lemma budget_action:
  "ga_Action (check_budget s acc) =
     (if \<not> bs_TaskBudgetPresent (gs_Budget s) then Some budget_missing_request
      else if token_exhausted (gs_Budget s)
      then Some (token_exhausted_request (bs_ConsumedTokens (gs_Budget s)) (the (bs_TokenLimit (gs_Budget s))))
      else if budget_reason (gs_Budget s) then Some budget_approval_request else ga_Action acc)"
  by (auto simp: check_budget_def Let_def budget_reason_def token_exhausted_def)

lemma gate_action: "ga_Action (run_checks U input s) = asked_request s"
  by (auto simp: run_checks_def gate_checks_def check_actions budget_action asked_request_def gate_start_def
      workspace_reason_def node_serves_def)

lemma asked_iff: "asked_request s = None \<longleftrightarrow> \<not> human_reason s"
  by (auto simp: asked_request_def human_reason_def budget_reason_def token_exhausted_def)

lemma request_types [simp]:
  "ha_Type (missing_context_request refs) = act_missing_context"
  "ha_Type (risk_request task reason) = act_risk_approval"
  "ha_Type budget_missing_request = act_budget_approval"
  "ha_Type (token_exhausted_request c l) = act_budget_approval"
  "ha_Type budget_approval_request = act_budget_approval"
  "ha_Type workspace_request = act_runtime_recovery"
  by (simp_all add: missing_context_request_def risk_request_def budget_missing_request_def token_exhausted_request_def
      budget_approval_request_def workspace_request_def budget_request_def humanGateRequest_def Let_def)

lemma sanitized_type [simp]: "ha_Type (sanitizeHumanActionRequest r) = ha_Type r"
  by (simp add: sanitizeHumanActionRequest_def)

text \<open>
  A task waits for a human exactly when the gate hands over a request to mint, so no task waits
  with nobody asked. The request names the last of the reasons in the order of the checks: missing context
  hides a risk approval, which hides a budget approval, which hides the recovery of the workspace.
\<close>

theorem waiting_tasks_ask_a_human:
  "(ev_Status (EvaluatePreDispatchGate U sha input s now) = WaitingHuman \<longleftrightarrow>
      ev_HumanActionRequest (EvaluatePreDispatchGate U sha input s now) \<noteq> None) \<and>
   (case ev_HumanActionRequest (EvaluatePreDispatchGate U sha input s now) of
      None \<Rightarrow> True
    | Some r \<Rightarrow> ha_Type r =
        (if \<not> xs_RequiredRefsResolved (gs_Context s) then act_missing_context
         else if risk_reason (gs_Risk s) then act_risk_approval
         else if budget_reason (gs_Budget s) then act_budget_approval else act_runtime_recovery))"
proof -
  let ?input = "input\<lparr>gi_DispatchReason := normalizeDispatchReason (gi_DispatchReason input)\<rparr>"
  have waits: "gate_verdict ?input s = WaitingHuman \<Longrightarrow> human_reason s"
    by (simp add: gate_verdict_def split: if_splits)
  show ?thesis
  proof (cases "gate_verdict ?input s = WaitingHuman")
    case True
    with waits obtain r where r: "asked_request s = Some r" using asked_iff by auto
    have "ha_Type r =
        (if \<not> xs_RequiredRefsResolved (gs_Context s) then act_missing_context
         else if risk_reason (gs_Risk s) then act_risk_approval
         else if budget_reason (gs_Budget s) then act_budget_approval else act_runtime_recovery)"
      using r by (auto simp: asked_request_def budget_reason_def token_exhausted_def split: if_splits)
    with True r show ?thesis by (simp add: EvaluatePreDispatchGate_def Let_def gate_status_worst gate_action)
  qed (simp add: EvaluatePreDispatchGate_def Let_def gate_status_worst)
qed

section \<open>What the report of a gate exposes\<close>

text \<open>A value exposes a secret when, at any depth, a sensitive key carries something else than the mark of the
  redaction.\<close>

fun exposes :: "gval \<Rightarrow> bool" where
  "exposes (GMap m) = list_ex (\<lambda>(k, v). if sensitiveGateKey k then v \<noteq> redacted else exposes v) m"
| "exposes (GSMap m) = list_ex (\<lambda>(k, s). sensitiveGateKey k \<and> GStr s \<noteq> redacted) m"
| "exposes (GList vs) = list_ex exposes vs"
| "exposes (GMaps ms) = list_ex (list_ex (\<lambda>(k, v). if sensitiveGateKey k then v \<noteq> redacted else exposes v)) ms"
| "exposes _ = False"

lemma sanitized_not_exposed: "\<not> exposes (sanitizeGateValue v)"
  by (induction v rule: sanitizeGateValue.induct) (auto simp: list_ex_iff split: if_splits)

lemma sanitized_details [simp]: "\<not> exposes (GMap (sanitizeGateDetails m))"
  using sanitized_not_exposed [of "GMap m"] by (simp add: sanitizeGateDetails_def)

declare exposes.simps(1) [simp del]

text \<open>An invariant of the four updates that the checks are made of holds at the end of the checks.\<close>

locale update_invariant =
  fixes I :: "gate_acc \<Rightarrow> bool"
  assumes I_start: "I gate_start"
    and I_addCheck: "I acc \<Longrightarrow> I (addCheck key st details acc)"
    and I_addBlocker: "I acc \<Longrightarrow> I (addBlocker key g severity retryable details acc)"
    and I_setStatus: "I acc \<Longrightarrow> I (setStatus g acc)"
    and I_askHuman: "I acc \<Longrightarrow> I (askHuman request acc)"
begin

lemmas updates = I_addCheck I_addBlocker I_setStatus I_askHuman

lemma I_stopped: "I acc \<Longrightarrow> I (stopped ck cd bk g sv r d acc)"
  by (simp add: stopped_def updates)

lemma I_dependencies: "I acc \<Longrightarrow> I (foldl (dependency_blocker U) acc ds)"
  by (induction ds arbitrary: acc) (auto simp: dependency_blocker_def updates)

lemma I_checks:
  assumes "I acc"
  shows "I (check_identity input s acc)" and "I (check_revision U input s acc)" and "I (check_planned_key input s acc)"
    and "I (check_status s acc)" and "I (check_active_attempt U s acc)" and "I (check_retry_policy input s acc)"
    and "I (check_dependencies U s acc)" and "I (check_employee U input s acc)" and "I (check_runtime s acc)"
    and "I (check_budget s acc)" and "I (check_risk s acc)" and "I (check_context s acc)"
  using assms by (simp_all add: check_defs check_dependencies_def Let_def updates I_stopped I_dependencies split: option.split)

lemma I_run: "I (run_checks U input s)"
  by (simp add: run_checks_def gate_checks_def I_checks I_start)

end

definition discreet :: "gate_acc \<Rightarrow> bool" where
  "discreet acc \<longleftrightarrow>
     list_all (\<lambda>c. \<not> exposes (GMap (gc_Details c))) (ga_Checks acc) \<and>
     list_all (\<lambda>p. \<not> exposes (GMap (gb_Details (pb_blocker p)))) (ga_pending acc)"

interpretation discreet: update_invariant discreet
  by unfold_locales (auto simp: discreet_def gate_start_def addCheck_def addBlocker_def setStatus_def askHuman_def)


text \<open>The checks only ever append.\<close>

definition reports :: "PreDispatchGateCheck \<Rightarrow> gate_acc \<Rightarrow> bool" where
  "reports c acc \<longleftrightarrow> c \<in> set (ga_Checks acc)"

lemma reports_budget:
  assumes "token_exhausted (gs_Budget s)" "bs_TaskBudgetPresent (gs_Budget s)"
  shows "reports \<lparr>gc_Key = ''budget.ready'', gc_Status = ''failed'', gc_Details = sanitizeGateDetails
     [(''project_budget_allowed'', GBool False), (''token_limit'', gnum (the (bs_TokenLimit (gs_Budget s)))),
      (''consumed_tokens'', gnum (bs_ConsumedTokens (gs_Budget s)))]\<rparr> (check_budget s acc)"
  using assms by (simp add: check_budget_def Let_def stopped_def reports_def addCheck_def addBlocker_def setStatus_def)

lemma checks_stay:
  assumes "reports c acc"
  shows "reports c (check_risk s acc)" and "reports c (check_context s acc)"
  using assms
  by (simp_all add: check_risk_def check_context_def Let_def stopped_def reports_def addCheck_def addBlocker_def
      setStatus_def askHuman_def)

lemma token_keys_sensitive: "sensitiveGateKey ''token_limit''" "sensitiveGateKey ''consumed_tokens''"
    "\<not> sensitiveGateKey ''project_budget_allowed''"
  by code_simp+

text \<open>
  The redaction takes the two counters of an exhausted token budget for credentials, because their keys
  contain the word "token": the failed check that is stored and shown carries neither the limit nor the
  consumption, on which the verdict rests.
\<close>

theorem token_budget_figures_are_redacted:
  assumes "token_exhausted (gs_Budget s)" "bs_TaskBudgetPresent (gs_Budget s)"
  shows "\<exists>c \<in> set (ev_Checks (EvaluatePreDispatchGate U sha input s now)).
     gc_Key c = ''budget.ready'' \<and> gc_Status c = ''failed'' \<and>
     gc_Details c = [(''project_budget_allowed'', GBool False), (''token_limit'', redacted), (''consumed_tokens'', redacted)]"
proof -
  let ?input = "input\<lparr>gi_DispatchReason := normalizeDispatchReason (gi_DispatchReason input)\<rparr>"
  let ?c = "\<lparr>gc_Key = ''budget.ready'', gc_Status = ''failed'', gc_Details = sanitizeGateDetails
     [(''project_budget_allowed'', GBool False), (''token_limit'', gnum (the (bs_TokenLimit (gs_Budget s)))),
      (''consumed_tokens'', gnum (bs_ConsumedTokens (gs_Budget s)))]\<rparr>"
  have "reports ?c (run_checks U ?input s)"
    unfolding run_checks_def gate_checks_def foldl.simps by (intro checks_stay reports_budget assms)
  then have "?c \<in> set (ev_Checks (EvaluatePreDispatchGate U sha input s now))"
    by (simp add: EvaluatePreDispatchGate_def Let_def reports_def)
  then show ?thesis
    by (rule bexI [rotated]) (simp add: sanitizeGateDetails_def token_keys_sensitive)
qed

section \<open>The identity of a dispatch\<close>

lemma normalized_reason: "normalizeDispatchReason r \<in> set dispatch_reasons"
  by (simp add: normalizeDispatchReason_def Let_def dispatch_reasons_def)

lemma reason_no_colon: "CHR '':'' \<notin> set (normalizeDispatchReason r)"
  using normalized_reason [of r] by (auto simp: dispatch_reasons_def)

text \<open>
  Two dispatches have the same idempotency key exactly when they are the same dispatch: the same task,
  the same reason after normalisation, the same attempt and the same employee. A dispatch is therefore recorded
  once, and no two different dispatches share a record.
\<close>

theorem idempotency_key_identifies_dispatch:
  assumes "uuid_roundtrip U" "uuid_plain U"
  shows "PreDispatchGateIdempotencyKey U a = PreDispatchGateIdempotencyKey U b \<longleftrightarrow>
     gi_ProjectTaskID a = gi_ProjectTaskID b \<and>
     normalizeDispatchReason (gi_DispatchReason a) = normalizeDispatchReason (gi_DispatchReason b) \<and>
     gi_AttemptNo a = gi_AttemptNo b \<and> gi_SelectedEmployeeID a = gi_SelectedEmployeeID b"
proof -
  have colon: "x @ '':'' @ y = x' @ '':'' @ y' \<longleftrightarrow> x = x' \<and> y = y'"
    if "CHR '':'' \<notin> set x" "CHR '':'' \<notin> set x'" for x x' y y'
    using split_at_first [OF that] by simp
  have plain: "CHR '':'' \<notin> set (uuid_String U u)" for u using assms(2) by (simp add: uuid_plain_def)
  note one = colon [OF plain plain] colon [OF reason_no_colon reason_no_colon] colon [OF Itoa_no_colon Itoa_no_colon]
  show ?thesis unfolding PreDispatchGateIdempotencyKey_def
    using one [where y = "''reason:'' @ _" and y' = "''reason:'' @ _"]
    by (simp add: split_at_first plain reason_no_colon Itoa_no_colon uuid_String_eq [OF assms(1)] Itoa_eq)
qed

section \<open>Witnesses\<close>

definition example_dispatch :: PreDispatchGateInput where
  "example_dispatch =
     \<lparr>gi_ProjectID = 1, gi_ProjectTaskID = 7, gi_AcceptedPlanRevisionID = None, gi_PlannedTaskKey = None,
      gi_SelectedEmployeeID = 3, gi_AttemptNo = 1, gi_DispatchReason = ''manual''\<rparr>"

theorem idempotency_key_identifies_dispatch_witness:
  "PreDispatchGateIdempotencyKey decimal_uuid_lib example_dispatch \<noteq>
   PreDispatchGateIdempotencyKey decimal_uuid_lib (example_dispatch\<lparr>gi_AttemptNo := 2\<rparr>)"
  using idempotency_key_identifies_dispatch [OF decimal_uuid_roundtrip decimal_uuid_plain,
      of example_dispatch "example_dispatch\<lparr>gi_AttemptNo := 2\<rparr>"]
  by (simp add: example_dispatch_def)

definition example_gate_snapshot :: PreDispatchGateSnapshot where
  "example_gate_snapshot =
     \<lparr>gs_Task =
        \<lparr>pt_ID = 7, pt_DemandID = None, pt_AssignedDigitalEmployeeID = Some 3, pt_RiskLevel = None,
         pt_RequiresHumanApproval = False, pt_PlannedTaskKey = None, pt_ExpectedOutputs = [], pt_InputRequirements = [],
         pt_HandoffContract = [], pt_PlannerMetadata = [], pt_RevisionOfTaskID = None, pt_AcceptedPlanRevisionID = None,
         pt_AttemptCount = 0, pt_MaxAttempts = None, dt_ProjectID = 1, dt_Title = [], dt_Status = ''planned'',
         dt_WaitingRequestID = None, dt_LatestTaskResultID = None, dt_UpdatedAt = 0\<rparr>,
      gs_ActiveAttempt = None, gs_Dependencies = [],
      gs_Employee = \<lparr>es_ID = 3, es_IsProjectExecutor = True, es_Status = ''active'', es_PolicyAllowed = True,
        es_RequiredLoadSlots = 1, es_AvailableLoadSlots = 1, es_ProfileSnapshotHash = []\<rparr>,
      gs_Capabilities = \<lparr>cs_Required = [], cs_Matched = []\<rparr>,
      gs_Runtime = \<lparr>rs_PlacementPresent = True, rs_Pinned = False, rs_NodeOnline = True, rs_ProviderAvailable = True,
        rs_WorkspaceReady = True, rs_SlotAvailable = True, rs_ContractVersionAccepted = True, rs_RetryAfter = 0\<rparr>,
      gs_Budget = \<lparr>bs_ProjectBudgetAllowed = False, bs_TaskBudgetPresent = True, bs_NeedsApproval = False,
        bs_ApprovalGranted = True, bs_TokenLimit = Some 1000, bs_ConsumedTokens = 1000\<rparr>,
      gs_Risk = \<lparr>ks_HumanApprovalRequired = False, ks_HumanApprovalGranted = False, ks_Reason = []\<rparr>,
      gs_Context = \<lparr>xs_RequiredRefsResolved = True, xs_InjectionAllowed = True, xs_MissingRefs = []\<rparr>\<rparr>"

theorem token_budget_figures_are_redacted_witness:
  "\<exists>c \<in> set (ev_Checks (EvaluatePreDispatchGate decimal_uuid_lib (\<lambda>s. s) example_dispatch example_gate_snapshot 5)).
     gc_Key c = ''budget.ready'' \<and> gc_Status c = ''failed'' \<and>
     gc_Details c = [(''project_budget_allowed'', GBool False), (''token_limit'', redacted), (''consumed_tokens'', redacted)]"
  by (rule token_budget_figures_are_redacted) (simp_all add: example_gate_snapshot_def token_exhausted_def)

end
