(* ===== verification/Policy_Signing.thy ===== *)
theory Policy_Signing
  imports Dispatch_Gate Autonomy_Policy Scenario_Spec
begin

text \<open>
  Signatures that the coordinator gives in place of a human, after
  \<^verbatim>\<open>workflow/projectcoordination/policy_autonomy.go\<close> and \<^verbatim>\<open>auto_recheck.go\<close>: a demand that an automation
  rule or an external integration submitted carries a pre-authorisation, and where the effective tier is
  \<^verbatim>\<open>full_auto\<close> the store approves the gate itself; a gate of an external demand that policy may not
  approve is rejected instead of waiting; a periodic sweep releases recovery gates whose cause has healed.

  The repository, the template reader, the two look-ups and the resolver of decisions are interfaces of
  the store and parameters here, as functions of the state of the world (a type variable); the resolver may
  change the world. Every request sent to the resolver is logged beside the world, so that the claims can speak
  about what was signed.
\<close>

section \<open>Records and interfaces\<close>

datatype store_error =
    Backend string
  | Wrapped string store_error
  | ErrProjectNotFound
  | ErrInvalidProject
  | ErrProjectConflict
  | ErrActivityStoreRequired
  | NilDereference

record ProjectDemand =
  pd_ProjectID :: uuid
  pd_SourceType :: string
  pd_SourceRefs :: gmap
  pd_ScenarioTemplateKey :: "string option"
  pd_SubmittedByUserID :: uuid

record ProjectRecord =
  pj_CoordinationPolicy :: gmap
  pj_WorkspaceReadyStatus :: string
  pj_BudgetTokenLimit :: "int option"
  pj_HumanOwnerUserID :: uuid

record DecisionRequest =
  dr_ID :: uuid
  dr_TenantID :: uuid
  dr_ProjectID :: uuid
  dr_ApprovalRequestID :: uuid
  dr_ProjectTaskID :: "uuid option"
  dr_TargetUserID :: uuid
  dr_DecisionType :: string
  dr_TitleSnapshot :: string
  dr_SummarySnapshot :: "string option"
  dr_StatusSnapshot :: string
  dr_DispatchGateResultID :: "uuid option"

record PreDispatchGateResult =
  gr_ID :: uuid
  gr_SelectedEmployeeID :: uuid
  gr_AttemptNo :: int
  gr_DispatchReason :: string
  gr_IdempotencyKey :: string
  gr_DispatchToken :: string
  gr_Status :: gate_status
  gr_Checks :: "PreDispatchGateCheck list"
  gr_Blockers :: "PreDispatchGateBlocker list"
  gr_HumanActionRequest :: "gmap option"
  gr_RetryAfter :: "int option"
  gr_DecisionRequestID :: "uuid option"
  gr_CreatedEventID :: "uuid option"

record ResolveDecisionRequest =
  rq_TenantID :: uuid
  rq_ProjectID :: uuid
  rq_DecisionRequestID :: uuid
  rq_DecidedByUserID :: uuid
  rq_Decision :: string
  rq_Comment :: string
  rq_Payload :: gmap
  rq_Channel :: string

record 'w policy_repository =
  pr_GetProject :: "uuid \<Rightarrow> uuid \<Rightarrow> 'w \<Rightarrow> store_error + ProjectRecord"
  pr_GetProjectDemand :: "uuid \<Rightarrow> uuid \<Rightarrow> 'w \<Rightarrow> store_error + ProjectDemand"
  pr_GetProjectTask :: "uuid \<Rightarrow> uuid \<Rightarrow> 'w \<Rightarrow> store_error + DispatchTask"
  pr_ListPlanRevisionsForDemand :: "uuid \<Rightarrow> uuid \<Rightarrow> uuid \<Rightarrow> 'w \<Rightarrow> store_error + PlanRevision list"
  pr_ListDemandAcceptanceCriteria :: "uuid \<Rightarrow> uuid \<Rightarrow> uuid \<Rightarrow> 'w \<Rightarrow> store_error + DemandAcceptanceCriterion list"
  pr_ListDemandCriterionVerdicts :: "uuid \<Rightarrow> uuid \<Rightarrow> uuid \<Rightarrow> 'w \<Rightarrow> store_error + DemandCriterionVerdict list"
  pr_SumProjectConsumedTokens :: "uuid \<Rightarrow> uuid \<Rightarrow> 'w \<Rightarrow> store_error + int"
  pr_ListPendingRecoveryDecisions :: "(int \<Rightarrow> 'w \<Rightarrow> store_error + DecisionRequest list) option"

text \<open>The dependencies of the store; one that is not configured is \<^const>\<open>None\<close>.\<close>

record 'w policy_store =
  ps_repository :: "'w policy_repository option"
  ps_scenarioTemplates :: "(uuid \<Rightarrow> string \<Rightarrow> 'w \<Rightarrow> store_error + gmap) option"
  ps_autonomyLookup :: "(uuid \<Rightarrow> uuid \<Rightarrow> 'w \<Rightarrow> store_error + (string \<times> uuid)) option"
  ps_externalAutonomyLookup :: "(uuid \<Rightarrow> uuid \<Rightarrow> 'w \<Rightarrow> store_error + (string \<times> uuid)) option"
  ps_gateDecisionResolver :: "(ResolveDecisionRequest \<Rightarrow> 'w \<Rightarrow> 'w \<times> store_error option) option"

definition WithAutomationAutonomyLookup ::
    "(uuid \<Rightarrow> uuid \<Rightarrow> 'w \<Rightarrow> store_error + (string \<times> uuid)) option \<Rightarrow> 'w policy_store \<Rightarrow> 'w policy_store" where
  "WithAutomationAutonomyLookup lookup S = S\<lparr>ps_autonomyLookup := lookup\<rparr>"

definition WithExternalIntegrationAutonomyLookup ::
    "(uuid \<Rightarrow> uuid \<Rightarrow> 'w \<Rightarrow> store_error + (string \<times> uuid)) option \<Rightarrow> 'w policy_store \<Rightarrow> 'w policy_store" where
  "WithExternalIntegrationAutonomyLookup lookup S = S\<lparr>ps_externalAutonomyLookup := lookup\<rparr>"

definition WithGateDecisionResolver ::
    "(ResolveDecisionRequest \<Rightarrow> 'w \<Rightarrow> 'w \<times> store_error option) option \<Rightarrow> 'w policy_store \<Rightarrow> 'w policy_store" where
  "WithGateDecisionResolver resolver S = S\<lparr>ps_gateDecisionResolver := resolver\<rparr>"

type_synonym 'w signing = "'w \<times> ResolveDecisionRequest list"

text \<open>A call of the repository, which fails on a nil interface.\<close>

definition query :: "'w policy_store \<Rightarrow> ('w policy_repository \<Rightarrow> 'w \<Rightarrow> store_error + 'a) \<Rightarrow> 'w \<Rightarrow> store_error + 'a" where
  "query S f w = (case ps_repository S of None \<Rightarrow> Inl NilDereference | Some r \<Rightarrow> f r w)"

text \<open>A call of the resolver, with the log of the requests.\<close>

definition send :: "'w policy_store \<Rightarrow> ResolveDecisionRequest \<Rightarrow> 'w signing \<Rightarrow> 'w signing \<times> store_error option" where
  "send S q = (\<lambda>(w, sent).
     case ps_gateDecisionResolver S of
       None \<Rightarrow> ((w, sent), Some NilDereference)
     | Some resolve \<Rightarrow> (case resolve q w of (w', e) \<Rightarrow> ((w', sent @ [q]), e)))"

abbreviation src_automation :: string where "src_automation \<equiv> ''automation''"
abbreviation src_external :: string where "src_external \<equiv> ''external_integration''"
abbreviation dec_approved :: string where "dec_approved \<equiv> ''approved''"
abbreviation dec_rejected :: string where "dec_rejected \<equiv> ''rejected''"
abbreviation autonomyTierFullAuto :: string where "autonomyTierFullAuto \<equiv> ''full_auto''"

section \<open>Who pre-authorised a demand\<close>

definition predispatchGateHasBlockerKey :: "PreDispatchGateResult \<Rightarrow> string \<Rightarrow> bool" where
  "predispatchGateHasBlockerKey gate key0 =
     (let key = TrimSpace key0 in
      if key = [] then False else list_ex (\<lambda>b. TrimSpace (gb_Key b) = key) (gr_Blockers gate))"

definition policyAutoResolvablePredispatchAction :: "string \<Rightarrow> PreDispatchGateResult \<Rightarrow> bool" where
  "policyAutoResolvablePredispatchAction actionType gate =
     (if TrimSpace actionType = act_budget_approval then predispatchGateHasBlockerKey gate ''budget.token_exhausted''
      else False)"

definition sourceRefUUID :: "uuid_lib \<Rightarrow> ProjectDemand \<Rightarrow> string \<Rightarrow> uuid option" where
  "sourceRefUUID U demand key =
     (let raw = TrimSpace (case as_str (gget (pd_SourceRefs demand) key) of None \<Rightarrow> [] | Some s \<Rightarrow> s) in
      if raw = [] then None
      else case uuid_Parse U raw of
             None \<Rightarrow> None
           | Some i \<Rightarrow> if i = uuid_Nil then None else Some i)"

definition automationRuleIDFromDemand :: "uuid_lib \<Rightarrow> ProjectDemand \<Rightarrow> uuid option" where
  "automationRuleIDFromDemand U demand =
     (if pd_SourceType demand \<noteq> src_automation then None else sourceRefUUID U demand ''automation_rule_id'')"

definition externalIntegrationIDFromDemand :: "uuid_lib \<Rightarrow> ProjectDemand \<Rightarrow> uuid option" where
  "externalIntegrationIDFromDemand U demand =
     (if pd_SourceType demand \<noteq> src_external then None else sourceRefUUID U demand ''external_integration_id'')"

definition policyAutoResolveConfigured :: "'w policy_store \<Rightarrow> bool" where
  "policyAutoResolveConfigured S =
     (ps_gateDecisionResolver S \<noteq> None \<and> (ps_autonomyLookup S \<noteq> None \<or> ps_externalAutonomyLookup S \<noteq> None))"

definition ptrString :: "string option \<Rightarrow> string" where
  "ptrString p = (case p of None \<Rightarrow> [] | Some s \<Rightarrow> s)"

text \<open>The two ceilings that the source reads inline; whatever cannot be read counts as no ceiling.\<close>

definition project_ceiling :: "'w policy_store \<Rightarrow> uuid \<Rightarrow> ProjectDemand \<Rightarrow> 'w \<Rightarrow> string" where
  "project_ceiling S tenantID demand w =
     (case ps_repository S of
        None \<Rightarrow> []
      | Some r \<Rightarrow> (case pr_GetProject r tenantID (pd_ProjectID demand) w of
                     Inl _ \<Rightarrow> [] | Inr proj \<Rightarrow> CoordinationPolicyCeiling (pj_CoordinationPolicy proj)))"

definition playbook_ceiling :: "'w policy_store \<Rightarrow> uuid \<Rightarrow> ProjectDemand \<Rightarrow> 'w \<Rightarrow> string" where
  "playbook_ceiling S tenantID demand w =
     (let key = TrimSpace (ptrString (pd_ScenarioTemplateKey demand)) in
      if key = [] then []
      else case ps_scenarioTemplates S of
             None \<Rightarrow> []
           | Some get \<Rightarrow>
               (case get tenantID key w of
                  Inl _ \<Rightarrow> []
                | Inr document \<Rightarrow>
                    (case ParseSpec document of Inl _ \<Rightarrow> [] | Inr spec \<Rightarrow> TrimSpace (AutonomyCeiling spec))))"

definition effectiveAutomationAutonomy :: "'w policy_store \<Rightarrow> uuid \<Rightarrow> ProjectDemand \<Rightarrow> string \<Rightarrow> 'w \<Rightarrow> string" where
  "effectiveAutomationAutonomy S tenantID demand invokerTier w =
     Effective (playbook_ceiling S tenantID demand w) (project_ceiling S tenantID demand w) invokerTier"

definition lookupFullAutoPolicy ::
    "uuid_lib \<Rightarrow> 'w policy_store \<Rightarrow> uuid \<Rightarrow> ProjectDemand \<Rightarrow> 'w \<Rightarrow> store_error + (uuid \<times> uuid \<times> bool)" where
  "lookupFullAutoPolicy U S tenantID demand w =
     (let none = Inr (uuid_Nil, uuid_Nil, False);
          decide = (\<lambda>found lookup. case found of
            None \<Rightarrow> none
          | Some policyID \<Rightarrow>
              (case lookup tenantID policyID w of
                 Inl e \<Rightarrow> Inl e
               | Inr (tier, actor) \<Rightarrow>
                   if actor = uuid_Nil then Inr (policyID, actor, False)
                   else if effectiveAutomationAutonomy S tenantID demand tier w \<noteq> autonomyTierFullAuto
                   then Inr (policyID, actor, False)
                   else Inr (policyID, actor, True)))
      in if ps_gateDecisionResolver S = None then none
         else case (ps_autonomyLookup S, ps_externalAutonomyLookup S) of
                (Some lookup, external) \<Rightarrow>
                  if pd_SourceType demand = src_automation then decide (automationRuleIDFromDemand U demand) lookup
                  else (case external of
                          None \<Rightarrow> none
                        | Some lookup' \<Rightarrow>
                            if pd_SourceType demand = src_external
                            then decide (externalIntegrationIDFromDemand U demand) lookup' else none)
              | (None, Some lookup) \<Rightarrow>
                  if pd_SourceType demand = src_external then decide (externalIntegrationIDFromDemand U demand) lookup else none
              | (None, None) \<Rightarrow> none)"

section \<open>Signing\<close>

definition policy_request ::
    "uuid_lib \<Rightarrow> uuid \<Rightarrow> uuid \<Rightarrow> uuid \<Rightarrow> uuid \<Rightarrow> uuid \<Rightarrow> string \<Rightarrow> string \<Rightarrow> ResolveDecisionRequest" where
  "policy_request U tenantID projectID decisionID ruleID actorUserID decision autonomyTier =
     (let resolvedBy = ''policy:'' @ uuid_String U ruleID in
      \<lparr>rq_TenantID = tenantID, rq_ProjectID = projectID, rq_DecisionRequestID = decisionID,
       rq_DecidedByUserID = actorUserID, rq_Decision = decision, rq_Comment = resolvedBy,
       rq_Payload = [(''resolved_by'', GStr resolvedBy),
         (''autonomy_tier'', GStr (if TrimSpace autonomyTier = [] then autonomyTierFullAuto else autonomyTier))],
       rq_Channel = ''policy''\<rparr>)"

definition resolveDecisionAsPolicy ::
    "uuid_lib \<Rightarrow> 'w policy_store \<Rightarrow> uuid \<Rightarrow> uuid \<Rightarrow> uuid \<Rightarrow> uuid \<Rightarrow> uuid \<Rightarrow> string \<Rightarrow> string \<Rightarrow>
     'w signing \<Rightarrow> 'w signing \<times> store_error option" where
  "resolveDecisionAsPolicy U S tenantID projectID decisionID ruleID actorUserID decision autonomyTier =
     send S (policy_request U tenantID projectID decisionID ruleID actorUserID decision autonomyTier)"

definition maybeRejectExternalHumanGate ::
    "uuid_lib \<Rightarrow> 'w policy_store \<Rightarrow> uuid \<Rightarrow> uuid \<Rightarrow> uuid \<Rightarrow> ProjectDemand \<Rightarrow> uuid \<Rightarrow> uuid \<Rightarrow>
     'w signing \<Rightarrow> 'w signing \<times> store_error option" where
  "maybeRejectExternalHumanGate U S tenantID projectID decisionID demand policyID actorUserID \<sigma> =
     (if pd_SourceType demand \<noteq> src_external then (\<sigma>, None)
      else if actorUserID = uuid_Nil \<or> policyID = uuid_Nil \<or> decisionID = uuid_Nil then (\<sigma>, None)
      else resolveDecisionAsPolicy U S tenantID projectID decisionID policyID actorUserID dec_rejected ''pause_at_gate'' \<sigma>)"

definition maybePolicyAutoResolvePredispatchGate ::
    "uuid_lib \<Rightarrow> 'w policy_store \<Rightarrow> uuid \<Rightarrow> uuid \<Rightarrow> DispatchTask \<Rightarrow> PreDispatchGateResult \<Rightarrow>
     PreDispatchHumanActionRequest option \<Rightarrow> 'w signing \<Rightarrow> 'w signing \<times> store_error option" where
  "maybePolicyAutoResolvePredispatchGate U S tenantID projectID task gate action \<sigma> =
     (if \<not> policyAutoResolveConfigured S then (\<sigma>, None)
      else case (action, gr_DecisionRequestID gate, pt_DemandID task) of
        (Some a, Some decisionID, Some demandID) \<Rightarrow>
          if decisionID = uuid_Nil \<or> demandID = uuid_Nil then (\<sigma>, None)
          else (case query S (\<lambda>r. pr_GetProjectDemand r tenantID demandID) (fst \<sigma>) of
                  Inl e \<Rightarrow> (\<sigma>, Some (Wrapped ''load demand for policy autonomy'' e))
                | Inr demand \<Rightarrow>
                    (case lookupFullAutoPolicy U S tenantID demand (fst \<sigma>) of
                       Inl e \<Rightarrow> (\<sigma>, Some e)
                     | Inr (ruleID, actorID, ok) \<Rightarrow>
                         if ok \<and> policyAutoResolvablePredispatchAction (ha_Type a) gate
                         then resolveDecisionAsPolicy U S tenantID projectID decisionID ruleID actorID dec_approved
                                autonomyTierFullAuto \<sigma>
                         else maybeRejectExternalHumanGate U S tenantID projectID decisionID demand ruleID actorID \<sigma>))
      | _ \<Rightarrow> (\<sigma>, None))"

definition maybePolicyAutoResolvePlanReview ::
    "uuid_lib \<Rightarrow> 'w policy_store \<Rightarrow> uuid \<Rightarrow> uuid \<Rightarrow> uuid \<Rightarrow> uuid \<Rightarrow> 'w signing \<Rightarrow> 'w signing \<times> store_error option" where
  "maybePolicyAutoResolvePlanReview U S tenantID projectID demandID decisionID \<sigma> =
     (if \<not> policyAutoResolveConfigured S then (\<sigma>, None)
      else if decisionID = uuid_Nil then (\<sigma>, None)
      else case query S (\<lambda>r. pr_GetProjectDemand r tenantID demandID) (fst \<sigma>) of
             Inl e \<Rightarrow> (\<sigma>, Some (Wrapped ''load demand for plan_review policy autonomy'' e))
           | Inr demand \<Rightarrow>
               (case lookupFullAutoPolicy U S tenantID demand (fst \<sigma>) of
                  Inl e \<Rightarrow> (\<sigma>, Some e)
                | Inr (ruleID, actorID, ok) \<Rightarrow>
                    if ok
                    then resolveDecisionAsPolicy U S tenantID projectID decisionID ruleID actorID dec_approved
                           autonomyTierFullAuto \<sigma>
                    else maybeRejectExternalHumanGate U S tenantID projectID decisionID demand ruleID actorID \<sigma>))"

text \<open>The second half of the acceptance gate: the evidence of the effective plan revision.\<close>

definition sign_on_evidence ::
    "uuid_lib \<Rightarrow> 'w policy_store \<Rightarrow> uuid \<Rightarrow> uuid \<Rightarrow> uuid \<Rightarrow> uuid \<Rightarrow> uuid \<Rightarrow> uuid \<Rightarrow>
     'w signing \<Rightarrow> 'w signing \<times> store_error option" where
  "sign_on_evidence U S tenantID projectID demandID decisionID ruleID actorID \<sigma> =
     (case query S (\<lambda>r. pr_ListPlanRevisionsForDemand r tenantID projectID demandID) (fst \<sigma>) of
        Inl e \<Rightarrow> (\<sigma>, Some e)
      | Inr revisions \<Rightarrow>
          let revisionID = CurrentEffectivePlanRevisionID revisions in
          if revisionID = uuid_Nil then (\<sigma>, None)
          else case query S (\<lambda>r. pr_ListDemandAcceptanceCriteria r tenantID demandID revisionID) (fst \<sigma>) of
            Inl e \<Rightarrow> (\<sigma>, Some e)
          | Inr criteria \<Rightarrow>
              (case query S (\<lambda>r. pr_ListDemandCriterionVerdicts r tenantID demandID revisionID) (fst \<sigma>) of
                 Inl e \<Rightarrow> (\<sigma>, Some e)
               | Inr verdicts \<Rightarrow>
                   if EvaluateAcceptanceEvidenceGate criteria verdicts \<noteq> EvidencePass then (\<sigma>, None)
                   else resolveDecisionAsPolicy U S tenantID projectID decisionID ruleID actorID dec_approved
                          autonomyTierFullAuto \<sigma>))"

definition maybePolicyAutoResolveDemandAcceptance ::
    "uuid_lib \<Rightarrow> 'w policy_store \<Rightarrow> uuid \<Rightarrow> uuid \<Rightarrow> uuid \<Rightarrow> uuid \<Rightarrow> 'w signing \<Rightarrow> 'w signing \<times> store_error option" where
  "maybePolicyAutoResolveDemandAcceptance U S tenantID projectID demandID decisionID \<sigma> =
     (if \<not> policyAutoResolveConfigured S then (\<sigma>, None)
      else if decisionID = uuid_Nil then (\<sigma>, None)
      else case query S (\<lambda>r. pr_GetProjectDemand r tenantID demandID) (fst \<sigma>) of
        Inl e \<Rightarrow> (\<sigma>, Some (Wrapped ''load demand for demand_acceptance policy autonomy'' e))
      | Inr demand \<Rightarrow>
          (let snapshot = DemandAutonomyTierSnapshot (pd_SourceRefs demand) in
           case lookupFullAutoPolicy U S tenantID demand (fst \<sigma>) of
             Inl e \<Rightarrow> (\<sigma>, Some e)
           | Inr (ruleID, actorID, live) \<Rightarrow>
               let ok = (if snapshot \<noteq> [] \<and> snapshot \<noteq> autonomyTierFullAuto then False else live) in
               if \<not> ok then maybeRejectExternalHumanGate U S tenantID projectID decisionID demand ruleID actorID \<sigma>
               else sign_on_evidence U S tenantID projectID demandID decisionID ruleID actorID \<sigma>))"

section \<open>The recheck of recovery gates\<close>

definition probeRecoveryGateHealed :: "'w policy_store \<Rightarrow> DecisionRequest \<Rightarrow> 'w \<Rightarrow> store_error + bool" where
  "probeRecoveryGateHealed S decision w =
     (let kind = TrimSpace (dr_DecisionType decision);
          project = query S (\<lambda>r. pr_GetProject r (dr_TenantID decision) (dr_ProjectID decision)) w
      in if kind = ''project_task_runtime_recovery'' \<or> kind = ''project_task_recovery''
         then (case project of Inl e \<Rightarrow> Inl e | Inr p \<Rightarrow> Inr (pj_WorkspaceReadyStatus p = ''ready''))
         else if kind = ''project_task_budget_approval''
         then (let title = TrimSpace (dr_TitleSnapshot decision);
                   summary = (case dr_SummarySnapshot decision of None \<Rightarrow> [] | Some s \<Rightarrow> TrimSpace s);
                   blob = ToLower (title @ '' '' @ summary)
               in if \<not> Contains blob ''token'' then Inr False
                  else case project of
                    Inl e \<Rightarrow> Inl e
                  | Inr p \<Rightarrow>
                      (case pj_BudgetTokenLimit p of
                         None \<Rightarrow> Inr True
                       | Some limit \<Rightarrow>
                           if limit \<le> 0 then Inr True
                           else case query S (\<lambda>r. pr_SumProjectConsumedTokens r (dr_TenantID decision) (dr_ProjectID decision)) w of
                                  Inl e \<Rightarrow> Inl e
                                | Inr consumed \<Rightarrow> Inr (consumed < limit)))
         else Inr False)"

definition recheck_request :: "uuid_lib \<Rightarrow> uuid \<Rightarrow> uuid \<Rightarrow> uuid \<Rightarrow> uuid \<Rightarrow> uuid \<Rightarrow> ResolveDecisionRequest" where
  "recheck_request U tenantID projectID decisionID policyID actorUserID =
     (let resolvedBy = ''policy:'' @ uuid_String U policyID in
      \<lparr>rq_TenantID = tenantID, rq_ProjectID = projectID, rq_DecisionRequestID = decisionID,
       rq_DecidedByUserID = actorUserID, rq_Decision = dec_approved, rq_Comment = resolvedBy,
       rq_Payload = [(''resolved_by'', GStr resolvedBy), (''autonomy_tier'', GStr autonomyTierFullAuto),
         (''auto_recheck'', GBool True)],
       rq_Channel = ''policy''\<rparr>)"

definition resolveDecisionAsPolicyWithRecheck ::
    "uuid_lib \<Rightarrow> 'w policy_store \<Rightarrow> uuid \<Rightarrow> uuid \<Rightarrow> uuid \<Rightarrow> uuid \<Rightarrow> uuid \<Rightarrow> 'w signing \<Rightarrow> 'w signing \<times> store_error option" where
  "resolveDecisionAsPolicyWithRecheck U S tenantID projectID decisionID policyID actorUserID =
     send S (recheck_request U tenantID projectID decisionID policyID actorUserID)"

definition id_or_nil :: "uuid option \<Rightarrow> uuid" where
  "id_or_nil p = (case p of None \<Rightarrow> uuid_Nil | Some i \<Rightarrow> i)"

text \<open>The policy and the actor that a recheck signs with, or \<^const>\<open>None\<close> where it leaves the gate alone.\<close>

definition recheck_signer :: "uuid_lib \<Rightarrow> ProjectDemand \<Rightarrow> uuid \<times> uuid \<times> bool \<Rightarrow> (uuid \<times> uuid) option" where
  "recheck_signer U demand = (\<lambda>(ruleID, actorID, fullAuto).
     let snapshot = DemandAutonomyTierSnapshot (pd_SourceRefs demand) in
     if snapshot \<noteq> [] \<and> snapshot \<noteq> autonomyTierFullAuto then None
     else if fullAuto then Some (ruleID, actorID)
     else if snapshot \<noteq> autonomyTierFullAuto then None
     else Some
       (if ruleID = uuid_Nil
        then (let rule = id_or_nil (automationRuleIDFromDemand U demand) in
              if rule = uuid_Nil then id_or_nil (externalIntegrationIDFromDemand U demand) else rule)
        else ruleID,
        if actorID = uuid_Nil then pd_SubmittedByUserID demand else actorID))"

definition maybeAutoRecheckOneRecoveryDecision ::
    "uuid_lib \<Rightarrow> 'w policy_store \<Rightarrow> DecisionRequest \<Rightarrow> 'w signing \<Rightarrow> 'w signing \<times> (store_error + bool)" where
  "maybeAutoRecheckOneRecoveryDecision U S decision \<sigma> =
     (case dr_ProjectTaskID decision of
        None \<Rightarrow> (\<sigma>, Inr False)
      | Some taskID \<Rightarrow>
          if taskID = uuid_Nil then (\<sigma>, Inr False)
          else case query S (\<lambda>r. pr_GetProjectTask r (dr_TenantID decision) taskID) (fst \<sigma>) of
            Inl e \<Rightarrow> (\<sigma>, Inl e)
          | Inr task \<Rightarrow>
              (case pt_DemandID task of
                 None \<Rightarrow> (\<sigma>, Inr False)
               | Some demandID \<Rightarrow>
                   if demandID = uuid_Nil then (\<sigma>, Inr False)
                   else case query S (\<lambda>r. pr_GetProjectDemand r (dr_TenantID decision) demandID) (fst \<sigma>) of
                     Inl e \<Rightarrow> (\<sigma>, Inl e)
                   | Inr demand \<Rightarrow>
                       (case lookupFullAutoPolicy U S (dr_TenantID decision) demand (fst \<sigma>) of
                          Inl e \<Rightarrow> (\<sigma>, Inl e)
                        | Inr found \<Rightarrow>
                            (case recheck_signer U demand found of
                               None \<Rightarrow> (\<sigma>, Inr False)
                             | Some (ruleID, actorID) \<Rightarrow>
                                 (case probeRecoveryGateHealed S decision (fst \<sigma>) of
                                    Inl e \<Rightarrow> (\<sigma>, Inl e)
                                  | Inr healed \<Rightarrow>
                                      if \<not> healed then (\<sigma>, Inr False)
                                      else if ruleID = uuid_Nil \<or> actorID = uuid_Nil then (\<sigma>, Inr False)
                                      else case resolveDecisionAsPolicyWithRecheck U S (dr_TenantID decision)
                                                  (dr_ProjectID decision) (dr_ID decision) ruleID actorID \<sigma> of
                                             (\<sigma>', Some e) \<Rightarrow> (\<sigma>', Inl e)
                                           | (\<sigma>', None) \<Rightarrow> (\<sigma>', Inr True))))))"

text \<open>The loop of the sweep: an error is logged and the next decision is tried.\<close>

fun recheck_all :: "uuid_lib \<Rightarrow> 'w policy_store \<Rightarrow> DecisionRequest list \<Rightarrow> int \<Rightarrow> 'w signing \<Rightarrow> 'w signing \<times> int" where
  "recheck_all U S [] released \<sigma> = (\<sigma>, released)"
| "recheck_all U S (d # ds) released \<sigma> =
     (case maybeAutoRecheckOneRecoveryDecision U S d \<sigma> of
        (\<sigma>', Inl e) \<Rightarrow> recheck_all U S ds released \<sigma>'
      | (\<sigma>', Inr ok) \<Rightarrow> recheck_all U S ds (if ok then released + 1 else released) \<sigma>')"

definition SweepAutoRecheckRecoveryGates ::
    "uuid_lib \<Rightarrow> 'w policy_store \<Rightarrow> int \<Rightarrow> 'w signing \<Rightarrow> 'w signing \<times> (store_error + int)" where
  "SweepAutoRecheckRecoveryGates U S limit0 \<sigma> =
     (case ps_repository S of
        None \<Rightarrow> (\<sigma>, Inr 0)
      | Some r \<Rightarrow>
          if \<not> policyAutoResolveConfigured S then (\<sigma>, Inr 0)
          else case pr_ListPendingRecoveryDecisions r of
                 None \<Rightarrow> (\<sigma>, Inr 0)
               | Some list_pending \<Rightarrow>
                   let limit = (if limit0 \<le> 0 \<or> limit0 > 100 then 50 else limit0) in
                   (case list_pending limit (fst \<sigma>) of
                      Inl e \<Rightarrow> (\<sigma>, Inl e)
                    | Inr pending \<Rightarrow> (case recheck_all U S pending 0 \<sigma> of (\<sigma>', released) \<Rightarrow> (\<sigma>', Inr released))))"

section \<open>The pre-authorisation as a specification\<close>

definition permits :: "string \<Rightarrow> bool" where
  "permits c \<longleftrightarrow> blank c \<or> TrimSpace c = autonomyTierFullAuto"

text \<open>The policy and the actor that the live record of the demand's invoker names, with its tier.\<close>

definition invoked_by :: "uuid_lib \<Rightarrow> 'w policy_store \<Rightarrow> uuid \<Rightarrow> ProjectDemand \<Rightarrow> 'w \<Rightarrow> uuid \<Rightarrow> string \<Rightarrow> uuid \<Rightarrow> bool" where
  "invoked_by U S tenantID demand w policy tier actor \<longleftrightarrow>
     pd_SourceType demand = src_automation \<and>
       (\<exists>lookup. ps_autonomyLookup S = Some lookup \<and> sourceRefUUID U demand ''automation_rule_id'' = Some policy \<and>
          lookup tenantID policy w = Inr (tier, actor)) \<or>
     pd_SourceType demand = src_external \<and>
       (\<exists>lookup. ps_externalAutonomyLookup S = Some lookup \<and> sourceRefUUID U demand ''external_integration_id'' = Some policy \<and>
          lookup tenantID policy w = Inr (tier, actor))"

definition preauthorised :: "uuid_lib \<Rightarrow> 'w policy_store \<Rightarrow> uuid \<Rightarrow> ProjectDemand \<Rightarrow> 'w \<Rightarrow> uuid \<Rightarrow> uuid \<Rightarrow> bool" where
  "preauthorised U S tenantID demand w policy actor \<longleftrightarrow>
     (\<exists>tier. invoked_by U S tenantID demand w policy tier actor \<and> TrimSpace tier = autonomyTierFullAuto) \<and>
     policy \<noteq> uuid_Nil \<and> actor \<noteq> uuid_Nil \<and>
     permits (playbook_ceiling S tenantID demand w) \<and> permits (project_ceiling S tenantID demand w)"

lemma effective_full_auto:
  "effectiveAutomationAutonomy S tenantID demand tier w = autonomyTierFullAuto \<longleftrightarrow>
     TrimSpace tier = autonomyTierFullAuto \<and>
     permits (playbook_ceiling S tenantID demand w) \<and> permits (project_ceiling S tenantID demand w)"
  by (auto simp: effectiveAutomationAutonomy_def effective_tier permits_def)

lemma sourceRefUUID_nonnil: "sourceRefUUID U demand key = Some i \<Longrightarrow> i \<noteq> uuid_Nil"
  by (auto simp: sourceRefUUID_def Let_def split: if_splits option.splits)

lemma sources_differ [simp]: "src_automation \<noteq> src_external" "src_external \<noteq> src_automation"
  by simp_all

text \<open>A look-up that returns identifiers returns those of the invoker.\<close>

lemma lookup_invoker:
  assumes "lookupFullAutoPolicy U S tenantID demand w = Inr (policy, actor, ok)" "policy \<noteq> uuid_Nil"
  shows "\<exists>tier. invoked_by U S tenantID demand w policy tier actor \<and>
     (ok \<longleftrightarrow> actor \<noteq> uuid_Nil \<and> effectiveAutomationAutonomy S tenantID demand tier w = autonomyTierFullAuto)"
  using assms
  by (auto simp: lookupFullAutoPolicy_def Let_def invoked_by_def automationRuleIDFromDemand_def
      externalIntegrationIDFromDemand_def split: if_splits option.splits sum.splits)

lemma lookup_ok_policy:
  assumes "lookupFullAutoPolicy U S tenantID demand w = Inr (policy, actor, True)"
  shows "policy \<noteq> uuid_Nil"
  using assms
  by (auto simp: lookupFullAutoPolicy_def Let_def automationRuleIDFromDemand_def externalIntegrationIDFromDemand_def
      dest: sourceRefUUID_nonnil split: if_splits option.splits sum.splits)

lemma lookup_preauthorised:
  assumes "lookupFullAutoPolicy U S tenantID demand w = Inr (policy, actor, True)"
  shows "preauthorised U S tenantID demand w policy actor"
  using lookup_invoker [OF assms lookup_ok_policy [OF assms]] lookup_ok_policy [OF assms]
  by (auto simp: preauthorised_def effective_full_auto)

lemma lookup_of_invoker:
  assumes "invoked_by U S tenantID demand w policy tier actor" "ps_gateDecisionResolver S \<noteq> None" "actor \<noteq> uuid_Nil"
  shows "lookupFullAutoPolicy U S tenantID demand w =
     Inr (policy, actor, effectiveAutomationAutonomy S tenantID demand tier w = autonomyTierFullAuto)"
  using assms
  by (auto simp: lookupFullAutoPolicy_def Let_def invoked_by_def automationRuleIDFromDemand_def
      externalIntegrationIDFromDemand_def split: option.splits)

section \<open>Runs of gates\<close>

datatype gate_call =
    GatePredispatch uuid uuid DispatchTask PreDispatchGateResult "PreDispatchHumanActionRequest option"
  | GatePlanReview uuid uuid uuid uuid
  | GateAcceptance uuid uuid uuid uuid
  | GateRecheck DecisionRequest

fun run_gate :: "uuid_lib \<Rightarrow> 'w policy_store \<Rightarrow> gate_call \<Rightarrow> 'w signing \<Rightarrow> 'w signing" where
  "run_gate U S (GatePredispatch t p task gate action) \<sigma> = fst (maybePolicyAutoResolvePredispatchGate U S t p task gate action \<sigma>)"
| "run_gate U S (GatePlanReview t p demandID decisionID) \<sigma> = fst (maybePolicyAutoResolvePlanReview U S t p demandID decisionID \<sigma>)"
| "run_gate U S (GateAcceptance t p demandID decisionID) \<sigma> =
     fst (maybePolicyAutoResolveDemandAcceptance U S t p demandID decisionID \<sigma>)"
| "run_gate U S (GateRecheck decision) \<sigma> = fst (maybeAutoRecheckOneRecoveryDecision U S decision \<sigma>)"

text \<open>What justifies an approval, for each gate.\<close>

fun justified :: "uuid_lib \<Rightarrow> 'w policy_store \<Rightarrow> 'w \<Rightarrow> gate_call \<Rightarrow> ResolveDecisionRequest \<Rightarrow> bool" where
  "justified U S w (GatePredispatch t p task gate action) q \<longleftrightarrow>
     (\<exists>a demandID demand policy actor decisionID.
        action = Some a \<and> TrimSpace (ha_Type a) = act_budget_approval \<and>
        predispatchGateHasBlockerKey gate ''budget.token_exhausted'' \<and>
        gr_DecisionRequestID gate = Some decisionID \<and> pt_DemandID task = Some demandID \<and>
        query S (\<lambda>r. pr_GetProjectDemand r t demandID) w = Inr demand \<and> preauthorised U S t demand w policy actor \<and>
        q = policy_request U t p decisionID policy actor dec_approved autonomyTierFullAuto)"
| "justified U S w (GatePlanReview t p demandID decisionID) q \<longleftrightarrow>
     (\<exists>demand policy actor.
        query S (\<lambda>r. pr_GetProjectDemand r t demandID) w = Inr demand \<and> preauthorised U S t demand w policy actor \<and>
        q = policy_request U t p decisionID policy actor dec_approved autonomyTierFullAuto)"
| "justified U S w (GateAcceptance t p demandID decisionID) q \<longleftrightarrow>
     (\<exists>demand policy actor revisions criteria verdicts.
        query S (\<lambda>r. pr_GetProjectDemand r t demandID) w = Inr demand \<and> preauthorised U S t demand w policy actor \<and>
        DemandAutonomyTierSnapshot (pd_SourceRefs demand) \<in> {[], autonomyTierFullAuto} \<and>
        query S (\<lambda>r. pr_ListPlanRevisionsForDemand r t p demandID) w = Inr revisions \<and>
        CurrentEffectivePlanRevisionID revisions \<noteq> uuid_Nil \<and>
        query S (\<lambda>r. pr_ListDemandAcceptanceCriteria r t demandID (CurrentEffectivePlanRevisionID revisions)) w = Inr criteria \<and>
        query S (\<lambda>r. pr_ListDemandCriterionVerdicts r t demandID (CurrentEffectivePlanRevisionID revisions)) w = Inr verdicts \<and>
        EvaluateAcceptanceEvidenceGate criteria verdicts = EvidencePass \<and>
        q = policy_request U t p decisionID policy actor dec_approved autonomyTierFullAuto)"
| "justified U S w (GateRecheck decision) q \<longleftrightarrow>
     (\<exists>taskID task demandID demand policy actor.
        dr_ProjectTaskID decision = Some taskID \<and>
        query S (\<lambda>r. pr_GetProjectTask r (dr_TenantID decision) taskID) w = Inr task \<and> pt_DemandID task = Some demandID \<and>
        query S (\<lambda>r. pr_GetProjectDemand r (dr_TenantID decision) demandID) w = Inr demand \<and>
        (preauthorised U S (dr_TenantID decision) demand w policy actor \<or>
         DemandAutonomyTierSnapshot (pd_SourceRefs demand) = autonomyTierFullAuto) \<and>
        DemandAutonomyTierSnapshot (pd_SourceRefs demand) \<in> {[], autonomyTierFullAuto} \<and>
        probeRecoveryGateHealed S decision w = Inr True \<and> policy \<noteq> uuid_Nil \<and> actor \<noteq> uuid_Nil \<and>
        q = recheck_request U (dr_TenantID decision) (dr_ProjectID decision) (dr_ID decision) policy actor)"

text \<open>The rejections: only a gate of an external demand, in the name of its live binding.\<close>

fun rejected_gate :: "uuid_lib \<Rightarrow> 'w policy_store \<Rightarrow> 'w \<Rightarrow> gate_call \<Rightarrow> ResolveDecisionRequest \<Rightarrow> bool" where
  "rejected_gate U S w (GatePredispatch t p task gate action) q \<longleftrightarrow>
     (\<exists>demandID demand policy tier actor decisionID.
        pt_DemandID task = Some demandID \<and> query S (\<lambda>r. pr_GetProjectDemand r t demandID) w = Inr demand \<and>
        pd_SourceType demand = src_external \<and> invoked_by U S t demand w policy tier actor \<and>
        q = policy_request U t p decisionID policy actor dec_rejected ''pause_at_gate'')"
| "rejected_gate U S w (GatePlanReview t p demandID decisionID) q \<longleftrightarrow>
     (\<exists>demand policy tier actor.
        query S (\<lambda>r. pr_GetProjectDemand r t demandID) w = Inr demand \<and>
        pd_SourceType demand = src_external \<and> invoked_by U S t demand w policy tier actor \<and>
        q = policy_request U t p decisionID policy actor dec_rejected ''pause_at_gate'')"
| "rejected_gate U S w (GateAcceptance t p demandID decisionID) q \<longleftrightarrow>
     (\<exists>demand policy tier actor.
        query S (\<lambda>r. pr_GetProjectDemand r t demandID) w = Inr demand \<and>
        pd_SourceType demand = src_external \<and> invoked_by U S t demand w policy tier actor \<and>
        q = policy_request U t p decisionID policy actor dec_rejected ''pause_at_gate'')"
| "rejected_gate U S w (GateRecheck decision) q \<longleftrightarrow> False"

lemma request_decisions [simp]:
  "rq_Decision (policy_request U t p i policy actor d tier) = d"
  "rq_Decision (recheck_request U t p i policy actor) = dec_approved"
  "rq_Channel (policy_request U t p i policy actor d tier) = ''policy''"
  "rq_Channel (recheck_request U t p i policy actor) = ''policy''"
  by (simp_all add: policy_request_def recheck_request_def Let_def)

text \<open>The interface of a gate: a call leaves the log alone or adds one request that is in order in the world at the
  time of the call.\<close>

locale signing_gate =
  fixes act :: "'c \<Rightarrow> 'w signing \<Rightarrow> 'w signing"
    and in_order :: "'w \<Rightarrow> 'c \<Rightarrow> ResolveDecisionRequest \<Rightarrow> bool"
  assumes one_signature:
    "snd (act c \<sigma>) = snd \<sigma> \<or> (\<exists>q. snd (act c \<sigma>) = snd \<sigma> @ [q] \<and> in_order (fst \<sigma>) c q)"
begin

lemma log_grows: "\<exists>qs. snd (fold act cs \<sigma>) = snd \<sigma> @ qs \<and> length qs \<le> length cs"
proof (induction cs arbitrary: \<sigma>)
  case (Cons c cs)
  obtain qs where "snd (fold act cs (act c \<sigma>)) = snd (act c \<sigma>) @ qs" "length qs \<le> length cs" using Cons by blast
  with one_signature [of c \<sigma>] show ?case by auto
qed simp

lemma all_in_order:
  "q \<in> set (snd (fold act cs \<sigma>)) \<Longrightarrow>
     q \<in> set (snd \<sigma>) \<or> (\<exists>cs1 c cs2. cs = cs1 @ c # cs2 \<and> in_order (fst (fold act cs1 \<sigma>)) c q)"
proof (induction cs arbitrary: \<sigma>)
  case (Cons c cs)
  from Cons.prems have "q \<in> set (snd (fold act cs (act c \<sigma>)))" by simp
  from Cons.IH [OF this] show ?case
  proof (elim disjE exE conjE)
    assume "q \<in> set (snd (act c \<sigma>))"
    with one_signature [of c \<sigma>] have "q \<in> set (snd \<sigma>) \<or> in_order (fst \<sigma>) c q" by auto
    then show ?thesis by (metis append_Nil fold_simps(1))
  next
    fix cs1 c' cs2
    assume "cs = cs1 @ c' # cs2" "in_order (fst (fold act cs1 (act c \<sigma>))) c' q"
    then have "c # cs = (c # cs1) @ c' # cs2" "in_order (fst (fold act (c # cs1) \<sigma>)) c' q" by simp_all
    then show ?thesis by blast
  qed
qed simp

end

definition in_order :: "uuid_lib \<Rightarrow> 'w policy_store \<Rightarrow> 'w \<Rightarrow> gate_call \<Rightarrow> ResolveDecisionRequest \<Rightarrow> bool" where
  "in_order U S w c q \<longleftrightarrow>
     rq_Decision q = dec_approved \<and> justified U S w c q \<or> rq_Decision q = dec_rejected \<and> rejected_gate U S w c q"

lemma send_log:
  "snd (fst (send S q \<sigma>)) = snd \<sigma> \<or> snd (fst (send S q \<sigma>)) = snd \<sigma> @ [q]"
  by (cases \<sigma>) (auto simp: send_def split: option.splits prod.splits)

lemma reject_log:
  "snd (fst (maybeRejectExternalHumanGate U S t p i demand policy actor \<sigma>)) = snd \<sigma> \<or>
   pd_SourceType demand = src_external \<and> policy \<noteq> uuid_Nil \<and> actor \<noteq> uuid_Nil \<and>
   snd (fst (maybeRejectExternalHumanGate U S t p i demand policy actor \<sigma>)) =
     snd \<sigma> @ [policy_request U t p i policy actor dec_rejected ''pause_at_gate'']"
  using send_log [of S "policy_request U t p i policy actor dec_rejected ''pause_at_gate''" \<sigma>]
  by (auto simp: maybeRejectExternalHumanGate_def resolveDecisionAsPolicy_def)

lemma approve_log:
  "snd (fst (resolveDecisionAsPolicy U S t p i policy actor d tier \<sigma>)) = snd \<sigma> \<or>
   snd (fst (resolveDecisionAsPolicy U S t p i policy actor d tier \<sigma>)) =
     snd \<sigma> @ [policy_request U t p i policy actor d tier]"
  using send_log by (simp add: resolveDecisionAsPolicy_def)

lemma decisions_differ [simp]: "dec_approved \<noteq> dec_rejected" "dec_rejected \<noteq> dec_approved"
  by simp_all

definition signs :: "uuid_lib \<Rightarrow> 'w policy_store \<Rightarrow> gate_call \<Rightarrow> 'w signing \<Rightarrow> 'w signing \<Rightarrow> bool" where
  "signs U S c \<sigma> \<sigma>' \<longleftrightarrow> snd \<sigma>' = snd \<sigma> \<or> (\<exists>q. snd \<sigma>' = snd \<sigma> @ [q] \<and> in_order U S (fst \<sigma>) c q)"

lemma signs_refl [simp]: "signs U S c \<sigma> \<sigma>"
  by (simp add: signs_def)

lemma signs_approval:
  assumes "justified U S (fst \<sigma>) c (policy_request U t p i policy actor dec_approved autonomyTierFullAuto)"
  shows "signs U S c \<sigma> (fst (resolveDecisionAsPolicy U S t p i policy actor dec_approved autonomyTierFullAuto \<sigma>))"
proof -
  have "in_order U S (fst \<sigma>) c (policy_request U t p i policy actor dec_approved autonomyTierFullAuto)"
    using assms unfolding in_order_def by simp
  then show ?thesis
    using approve_log [of U S t p i policy actor dec_approved autonomyTierFullAuto \<sigma>] unfolding signs_def by blast
qed

lemma signs_rejection:
  assumes "policy \<noteq> uuid_Nil \<Longrightarrow> pd_SourceType demand = src_external \<Longrightarrow>
      rejected_gate U S (fst \<sigma>) c (policy_request U t p i policy actor dec_rejected ''pause_at_gate'')"
  shows "signs U S c \<sigma> (fst (maybeRejectExternalHumanGate U S t p i demand policy actor \<sigma>))"
proof -
  let ?q = "policy_request U t p i policy actor dec_rejected ''pause_at_gate''"
  have "in_order U S (fst \<sigma>) c ?q" if "policy \<noteq> uuid_Nil" "pd_SourceType demand = src_external"
    using assms [OF that] unfolding in_order_def by simp
  then show ?thesis
    using reject_log [of U S t p i demand policy actor \<sigma>] unfolding signs_def by blast
qed

lemma lookup_rejects:
  assumes "lookupFullAutoPolicy U S t demand w = Inr (policy, actor, ok)" "policy \<noteq> uuid_Nil"
  shows "\<exists>tier. invoked_by U S t demand w policy tier actor"
  using lookup_invoker [OF assms] by blast

lemma predispatch_signs: "signs U S (GatePredispatch t p task gate action) \<sigma>
    (fst (maybePolicyAutoResolvePredispatchGate U S t p task gate action \<sigma>))"
  by (auto simp: maybePolicyAutoResolvePredispatchGate_def policyAutoResolvablePredispatchAction_def
      intro!: signs_approval signs_rejection dest: lookup_preauthorised lookup_rejects split: option.splits sum.splits if_splits)
    (blast intro: lookup_preauthorised dest: lookup_rejects)+

lemma plan_review_signs: "signs U S (GatePlanReview t p d i) \<sigma> (fst (maybePolicyAutoResolvePlanReview U S t p d i \<sigma>))"
  by (auto simp: maybePolicyAutoResolvePlanReview_def intro!: signs_approval signs_rejection split: sum.splits)
    (blast intro: lookup_preauthorised dest: lookup_rejects)+

lemma evidence_signs:
  assumes "query S (\<lambda>r. pr_GetProjectDemand r t d) (fst \<sigma>) = Inr demand" "preauthorised U S t demand (fst \<sigma>) policy actor"
    "DemandAutonomyTierSnapshot (pd_SourceRefs demand) \<in> {[], autonomyTierFullAuto}"
  shows "signs U S (GateAcceptance t p d i) \<sigma> (fst (sign_on_evidence U S t p d i policy actor \<sigma>))"
  using assms by (auto simp: sign_on_evidence_def Let_def intro!: signs_approval split: sum.splits) blast+

lemma acceptance_signs: "signs U S (GateAcceptance t p d i) \<sigma> (fst (maybePolicyAutoResolveDemandAcceptance U S t p d i \<sigma>))"
  by (auto simp: maybePolicyAutoResolveDemandAcceptance_def Let_def
      intro!: signs_rejection evidence_signs intro: lookup_preauthorised split: sum.splits)
    (blast dest: lookup_rejects)+

lemma recheck_signer_grounds:
  assumes "recheck_signer U demand found = Some (policy, actor)" "lookupFullAutoPolicy U S t demand w = Inr found"
  shows "(preauthorised U S t demand w policy actor \<or> DemandAutonomyTierSnapshot (pd_SourceRefs demand) = autonomyTierFullAuto) \<and>
     DemandAutonomyTierSnapshot (pd_SourceRefs demand) \<in> {[], autonomyTierFullAuto}"
  using assms by (cases found) (auto simp: recheck_signer_def Let_def dest: lookup_preauthorised split: if_splits)

lemma signs_recheck:
  assumes "justified U S (fst \<sigma>) c (recheck_request U t p i policy actor)"
  shows "signs U S c \<sigma> (fst (resolveDecisionAsPolicyWithRecheck U S t p i policy actor \<sigma>))"
proof -
  have "in_order U S (fst \<sigma>) c (recheck_request U t p i policy actor)" using assms unfolding in_order_def by simp
  then show ?thesis
    using send_log [of S "recheck_request U t p i policy actor" \<sigma>]
    unfolding signs_def resolveDecisionAsPolicyWithRecheck_def by blast
qed

lemma fst_recheck_case [simp]:
  "fst (case x of (\<sigma>', Some e) \<Rightarrow> (\<sigma>', Inl e) | (\<sigma>', None) \<Rightarrow> (\<sigma>', Inr True)) = fst x"
  by (simp split: prod.split option.split)

lemma recheck_justified:
  assumes "dr_ProjectTaskID decision = Some taskID"
    "query S (\<lambda>r. pr_GetProjectTask r (dr_TenantID decision) taskID) w = Inr task" "pt_DemandID task = Some demandID"
    "query S (\<lambda>r. pr_GetProjectDemand r (dr_TenantID decision) demandID) w = Inr demand"
    "lookupFullAutoPolicy U S (dr_TenantID decision) demand w = Inr found" "recheck_signer U demand found = Some (policy, actor)"
    "probeRecoveryGateHealed S decision w = Inr True" "policy \<noteq> uuid_Nil" "actor \<noteq> uuid_Nil"
  shows "justified U S w (GateRecheck decision)
     (recheck_request U (dr_TenantID decision) (dr_ProjectID decision) (dr_ID decision) policy actor)"
  unfolding justified.simps
  by (intro exI [of _ taskID] exI [of _ task] exI [of _ demandID] exI [of _ demand] exI [of _ policy] exI [of _ actor])
    (use assms recheck_signer_grounds [OF assms(6,5)] in simp)

lemma recheck_signs: "signs U S (GateRecheck decision) \<sigma> (fst (maybeAutoRecheckOneRecoveryDecision U S decision \<sigma>))"
  by (auto simp: maybeAutoRecheckOneRecoveryDecision_def simp del: justified.simps
      intro!: signs_recheck recheck_justified split: option.split sum.split)

interpretation policy: signing_gate "run_gate U S" "in_order U S" for U S
proof
  fix c \<sigma>
  have "signs U S c \<sigma> (run_gate U S c \<sigma>)"
    by (cases c) (simp_all add: predispatch_signs plan_review_signs acceptance_signs recheck_signs)
  then show "snd (run_gate U S c \<sigma>) = snd \<sigma> \<or> (\<exists>q. snd (run_gate U S c \<sigma>) = snd \<sigma> @ [q] \<and> in_order U S (fst \<sigma>) c q)"
    by (simp add: signs_def)
qed


text \<open>A sweep is a run of rechecks; it counts at most the requests it sent.\<close>

lemma recheck_all_run: "fst (recheck_all U S ds n \<sigma>) = fold (run_gate U S) (map GateRecheck ds) \<sigma>"
  by (induction ds arbitrary: n \<sigma>) (auto split: prod.split sum.split)

lemma recheck_released:
  assumes "maybeAutoRecheckOneRecoveryDecision U S d \<sigma> = (\<sigma>', Inr True)"
  shows "length (snd \<sigma>') = Suc (length (snd \<sigma>))"
  using assms
  by (cases \<sigma>) (auto simp: maybeAutoRecheckOneRecoveryDecision_def resolveDecisionAsPolicyWithRecheck_def send_def
      split: option.splits sum.splits if_splits prod.splits)

lemma recheck_count:
  "snd (recheck_all U S ds n \<sigma>) + int (length (snd \<sigma>)) \<le> n + int (length (snd (fst (recheck_all U S ds n \<sigma>)))) \<and>
   n \<le> snd (recheck_all U S ds n \<sigma>)"
proof (induction ds arbitrary: n \<sigma>)
  case (Cons d ds)
  obtain \<sigma>' r where step: "maybeAutoRecheckOneRecoveryDecision U S d \<sigma> = (\<sigma>', r)" by (metis surj_pair)
  have grows: "length (snd \<sigma>) \<le> length (snd \<sigma>')"
    using policy.one_signature [of U S "GateRecheck d" \<sigma>] step by auto
  show ?case
  proof (cases r)
    case (Inl e)
    then show ?thesis using Cons [of n \<sigma>'] grows step by simp
  next
    case (Inr ok)
    have "length (snd \<sigma>') = Suc (length (snd \<sigma>))" if ok using recheck_released [of U S d \<sigma> \<sigma>'] step Inr that by simp
    then show ?thesis using Cons [of "if ok then n + 1 else n" \<sigma>'] grows step Inr by (cases ok) auto
  qed
qed simp


text \<open>
  A gate of an external demand never waits for a human at the plan review or at the dispatch gate. Where the
  demand's binding is live, exactly one request is sent: an approval where the effective tier is \<^verbatim>\<open>full_auto\<close>
  (and, at the dispatch gate, the token budget is what is missing), a rejection otherwise.
\<close>

theorem external_gates_never_park:
  assumes "pd_SourceType demand = src_external" "invoked_by U S t demand w policy tier actor" "actor \<noteq> uuid_Nil"
    "ps_gateDecisionResolver S = Some resolve" "decisionID \<noteq> uuid_Nil" "demandID \<noteq> uuid_Nil"
    "query S (\<lambda>r. pr_GetProjectDemand r t demandID) w = Inr demand"
    "pt_DemandID task = Some demandID" "gr_DecisionRequestID gate = Some decisionID"
  defines "full \<equiv> effectiveAutomationAutonomy S t demand tier w = autonomyTierFullAuto"
  shows "snd (run_gate U S (GatePlanReview t p demandID decisionID) (w, sent)) =
       sent @ [if full then policy_request U t p decisionID policy actor dec_approved autonomyTierFullAuto
              else policy_request U t p decisionID policy actor dec_rejected ''pause_at_gate''] \<and>
     snd (run_gate U S (GatePredispatch t p task gate (Some action)) (w, sent)) =
       sent @ [if full \<and> policyAutoResolvablePredispatchAction (ha_Type action) gate
              then policy_request U t p decisionID policy actor dec_approved autonomyTierFullAuto
              else policy_request U t p decisionID policy actor dec_rejected ''pause_at_gate'']"
proof -
  have found: "lookupFullAutoPolicy U S t demand w = Inr (policy, actor, full)"
    using lookup_of_invoker [OF assms(2)] assms(3,4) full_def by simp
  have configured: "policyAutoResolveConfigured S" and policy: "policy \<noteq> uuid_Nil"
    using assms(1,2,4) by (auto simp: policyAutoResolveConfigured_def invoked_by_def dest: sourceRefUUID_nonnil)
  have logged: "snd (fst (send S q (w, sent))) = sent @ [q]" for q
    using assms(4) by (simp add: send_def split: prod.split)
  have rejects: "snd (fst (maybeRejectExternalHumanGate U S t p decisionID demand policy actor (w, sent))) =
      sent @ [policy_request U t p decisionID policy actor dec_rejected ''pause_at_gate'']"
    using assms(1,3,5) policy logged by (simp add: maybeRejectExternalHumanGate_def resolveDecisionAsPolicy_def)
  show ?thesis
    using assms(5-9) configured found logged rejects
    by (simp add: maybePolicyAutoResolvePlanReview_def maybePolicyAutoResolvePredispatchGate_def resolveDecisionAsPolicy_def)
qed

section \<open>Where policy signs too much\<close>

text \<open>
  A ceiling that cannot be read does not hold. When the project cannot be loaded and the template cannot be
  loaded or parsed, a rule of tier \<^verbatim>\<open>full_auto\<close> signs as if neither had a ceiling: the errors are dropped.
\<close>

theorem unreadable_ceilings_do_not_hold:
  assumes "ps_repository S = None \<or> (\<exists>r e. ps_repository S = Some r \<and> pr_GetProject r t (pd_ProjectID demand) w = Inl e)"
    "ps_scenarioTemplates S = Some get"
    "(\<exists>e. get t (TrimSpace (ptrString (pd_ScenarioTemplateKey demand))) w = Inl e) \<or>
     (\<exists>m e. get t (TrimSpace (ptrString (pd_ScenarioTemplateKey demand))) w = Inr m \<and> ParseSpec m = Inl e)"
  shows "effectiveAutomationAutonomy S t demand tier w = autonomyTierFullAuto \<longleftrightarrow> TrimSpace tier = autonomyTierFullAuto"
proof -
  have "project_ceiling S t demand w = []" "playbook_ceiling S t demand w = []"
    using assms by (auto simp: project_ceiling_def playbook_ceiling_def Let_def)
  then show ?thesis by (simp add: effective_full_auto permits_def)
qed

text \<open>
  Withdrawing the pre-authorisation does not stop the rechecks. A demand that was created with a
  \<^verbatim>\<open>full_auto\<close> snapshot is approved at a healed recovery gate, in the name of that tier, although the live
  tier of its rule is no longer \<^verbatim>\<open>full_auto\<close> or a ceiling forbids it; the acceptance of the same demand is not
  signed.
\<close>

theorem recheck_ignores_revocation:
  assumes "DemandAutonomyTierSnapshot (pd_SourceRefs demand) = autonomyTierFullAuto"
    "pd_SourceType demand = src_automation" "invoked_by U S (dr_TenantID decision) demand w policy tier actor" "actor \<noteq> uuid_Nil"
    "effectiveAutomationAutonomy S (dr_TenantID decision) demand tier w \<noteq> autonomyTierFullAuto"
    "ps_gateDecisionResolver S = Some resolve"
    "dr_ProjectTaskID decision = Some taskID" "taskID \<noteq> uuid_Nil"
    "query S (\<lambda>r. pr_GetProjectTask r (dr_TenantID decision) taskID) w = Inr task"
    "pt_DemandID task = Some demandID" "demandID \<noteq> uuid_Nil"
    "query S (\<lambda>r. pr_GetProjectDemand r (dr_TenantID decision) demandID) w = Inr demand"
    "probeRecoveryGateHealed S decision w = Inr True"
  shows "snd (run_gate U S (GateRecheck decision) (w, sent)) =
       sent @ [recheck_request U (dr_TenantID decision) (dr_ProjectID decision) (dr_ID decision) policy actor] \<and>
     snd (run_gate U S (GateAcceptance (dr_TenantID decision) (dr_ProjectID decision) demandID decisionID) (w, sent)) = sent"
proof -
  have found: "lookupFullAutoPolicy U S (dr_TenantID decision) demand w = Inr (policy, actor, False)"
    using lookup_of_invoker [OF assms(3)] assms(4,5,6) by simp
  have policy: "policy \<noteq> uuid_Nil" using assms(3) by (auto simp: invoked_by_def dest: sourceRefUUID_nonnil)
  have signer: "recheck_signer U demand (policy, actor, False) = Some (policy, actor)"
    using assms(1,4) policy by (simp add: recheck_signer_def)
  have logged: "snd (fst (send S q (w, sent))) = sent @ [q]" for q
    using assms(6) by (simp add: send_def split: prod.split)
  have "snd (run_gate U S (GateRecheck decision) (w, sent)) =
      sent @ [recheck_request U (dr_TenantID decision) (dr_ProjectID decision) (dr_ID decision) policy actor]"
    using assms(4,7-13) policy found signer logged
    by (simp add: maybeAutoRecheckOneRecoveryDecision_def resolveDecisionAsPolicyWithRecheck_def)
  moreover have "snd (run_gate U S (GateAcceptance (dr_TenantID decision) (dr_ProjectID decision) demandID decisionID) (w, sent)) = sent"
    using assms(2,12) found by (simp add: maybePolicyAutoResolveDemandAcceptance_def maybeRejectExternalHumanGate_def Let_def)
  ultimately show ?thesis by simp
qed

section \<open>Witnesses\<close>

definition example_demand :: "string \<Rightarrow> string \<Rightarrow> ProjectDemand" where
  "example_demand source key =
     \<lparr>pd_ProjectID = 1, pd_SourceType = source,
      pd_SourceRefs = [(key, GStr ''5''), (''autonomy_tier_snapshot'', GStr ''full_auto'')],
      pd_ScenarioTemplateKey = Some ''playbook'', pd_SubmittedByUserID = 4\<rparr>"

definition example_repository :: "ProjectDemand \<Rightarrow> unit policy_repository" where
  "example_repository demand =
     \<lparr>pr_GetProject = (\<lambda>t p w. Inr \<lparr>pj_CoordinationPolicy = [], pj_WorkspaceReadyStatus = ''ready'',
        pj_BudgetTokenLimit = None, pj_HumanOwnerUserID = 4\<rparr>),
      pr_GetProjectDemand = (\<lambda>t d w. Inr demand),
      pr_GetProjectTask = (\<lambda>t i w. Inr ((gs_Task example_gate_snapshot)\<lparr>pt_DemandID := Some 2\<rparr>)),
      pr_ListPlanRevisionsForDemand = (\<lambda>t p d w. Inr []),
      pr_ListDemandAcceptanceCriteria = (\<lambda>t d r w. Inr []),
      pr_ListDemandCriterionVerdicts = (\<lambda>t d r w. Inr []),
      pr_SumProjectConsumedTokens = (\<lambda>t p w. Inr 0),
      pr_ListPendingRecoveryDecisions = Some (\<lambda>n w. Inr [])\<rparr>"

definition example_store :: "ProjectDemand \<Rightarrow> string \<Rightarrow> unit policy_store" where
  "example_store demand tier =
     \<lparr>ps_repository = Some (example_repository demand), ps_scenarioTemplates = Some (\<lambda>t k w. Inl (Backend ''down'')),
      ps_autonomyLookup = Some (\<lambda>t i w. Inr (tier, 6)), ps_externalAutonomyLookup = Some (\<lambda>t i w. Inr (tier, 6)),
      ps_gateDecisionResolver = Some (\<lambda>q w. ((), None))\<rparr>"

definition rule_demand :: ProjectDemand where
  "rule_demand = example_demand src_automation ''automation_rule_id''"

definition binding_demand :: ProjectDemand where
  "binding_demand = example_demand src_external ''external_integration_id''"

lemma example_sources:
  "sourceRefUUID decimal_uuid_lib rule_demand ''automation_rule_id'' = Some 5"
  "sourceRefUUID decimal_uuid_lib binding_demand ''external_integration_id'' = Some 5"
  "DemandAutonomyTierSnapshot (pd_SourceRefs rule_demand) = autonomyTierFullAuto"
  by code_simp+

lemma example_fields [simp]:
  "pd_SourceType rule_demand = src_automation" "pd_SourceType binding_demand = src_external"
  "ps_autonomyLookup (example_store d tier) = Some (\<lambda>t i w. Inr (tier, 6))"
  "ps_externalAutonomyLookup (example_store d tier) = Some (\<lambda>t i w. Inr (tier, 6))"
  "ps_gateDecisionResolver (example_store d tier) = Some (\<lambda>q w. ((), None))"
  "query (example_store d tier) (\<lambda>r. pr_GetProjectDemand r t i) w = Inr d"
  "query (example_store d tier) (\<lambda>r. pr_GetProjectTask r t i) w = Inr ((gs_Task example_gate_snapshot)\<lparr>pt_DemandID := Some 2\<rparr>)"
  by (simp_all add: rule_demand_def binding_demand_def example_demand_def example_store_def query_def example_repository_def)

lemma example_invokers:
  "invoked_by decimal_uuid_lib (example_store d tier) t rule_demand () 5 tier 6"
  "invoked_by decimal_uuid_lib (example_store d tier) t binding_demand () 5 tier 6"
  by (simp_all add: invoked_by_def example_sources)

definition example_recovery :: DecisionRequest where
  "example_recovery =
     \<lparr>dr_ID = 9, dr_TenantID = 1, dr_ProjectID = 1, dr_ApprovalRequestID = 8, dr_ProjectTaskID = Some 7, dr_TargetUserID = 4,
      dr_DecisionType = ''project_task_recovery'', dr_TitleSnapshot = [], dr_SummarySnapshot = None,
      dr_StatusSnapshot = ''pending'', dr_DispatchGateResultID = None\<rparr>"

lemma recovery_kind: "TrimSpace ''project_task_recovery'' = ''project_task_recovery''"
  by code_simp

lemma example_healed: "probeRecoveryGateHealed (example_store rule_demand tier) example_recovery () = Inr True"
  by (simp add: probeRecoveryGateHealed_def example_recovery_def query_def example_store_def example_repository_def Let_def
      recovery_kind)

lemma paused_tier: "TrimSpace ''pause_at_gate'' \<noteq> autonomyTierFullAuto"
  by code_simp

theorem recheck_ignores_revocation_witness:
  "snd (run_gate decimal_uuid_lib (example_store rule_demand ''pause_at_gate'') (GateRecheck example_recovery) ((), [])) =
     [recheck_request decimal_uuid_lib 1 1 9 5 6] \<and>
   snd (run_gate decimal_uuid_lib (example_store rule_demand ''pause_at_gate'') (GateAcceptance 1 1 2 3) ((), [])) = []"
  using recheck_ignores_revocation [of rule_demand decimal_uuid_lib "example_store rule_demand ''pause_at_gate''"
      example_recovery "()" 5 "''pause_at_gate''" 6 "\<lambda>q w. ((), None)" 7
      "(gs_Task example_gate_snapshot)\<lparr>pt_DemandID := Some 2\<rparr>" 2 "[]" 3]
    example_sources(3) example_invokers(1) example_healed [of "''pause_at_gate''"] paused_tier
  by (simp add: effective_full_auto example_recovery_def del: run_gate.simps tier_trimmed)

definition example_gate_result :: PreDispatchGateResult where
  "example_gate_result =
     \<lparr>gr_ID = 10, gr_SelectedEmployeeID = 3, gr_AttemptNo = 1, gr_DispatchReason = ''manual'', gr_IdempotencyKey = [],
      gr_DispatchToken = [], gr_Status = WaitingHuman, gr_Checks = [], gr_Blockers = [], gr_HumanActionRequest = None,
      gr_RetryAfter = None, gr_DecisionRequestID = Some 3, gr_CreatedEventID = None\<rparr>"

theorem external_gates_never_park_witness:
  "snd (run_gate decimal_uuid_lib (example_store binding_demand ''pause_at_gate'') (GatePlanReview 1 1 2 3) ((), [])) =
     [policy_request decimal_uuid_lib 1 1 3 5 6 dec_rejected ''pause_at_gate'']"
  using external_gates_never_park [of binding_demand decimal_uuid_lib "example_store binding_demand ''pause_at_gate''"
      1 "()" 5 "''pause_at_gate''" 6 "\<lambda>q w. ((), None)" 3 2 "(gs_Task example_gate_snapshot)\<lparr>pt_DemandID := Some 2\<rparr>"
      example_gate_result 1 "[]"]
    example_invokers(2) paused_tier
  by (simp add: effective_full_auto example_gate_result_def del: run_gate.simps tier_trimmed)


theorem unreadable_ceilings_do_not_hold_witness:
  "effectiveAutomationAutonomy (example_store rule_demand ''full_auto''\<lparr>ps_repository := None\<rparr>) 1 rule_demand ''full_auto'' ()
     = autonomyTierFullAuto"
  using unreadable_ceilings_do_not_hold [of "example_store rule_demand ''full_auto''\<lparr>ps_repository := None\<rparr>" 1 rule_demand
      "()" "\<lambda>t k w. Inl (Backend ''down'')" "''full_auto''"]
  by (simp add: example_store_def)


end
