(* ===== verification/Dispatch_Run.thy ===== *)
theory Dispatch_Run
  imports Policy_Signing Scenario_Registry
begin

text \<open>
  How a dispatch reaches the gate, after \<^verbatim>\<open>workflow/projectcoordination/predispatch_gate.go\<close>: the snapshot
  that is read from the repository, with what the planner wrote into the task laid over it; the run of the gate, which
  records its result, mints a decision for a human and offers it to policy; and the release of a waiting task by a
  decision. The repository and the other dependencies of the store stay interfaces (functions of the state of the
  world), except for the table of gate results, which is modelled after its statement in
  \<^verbatim>\<open>project/pg_repository.go\<close>. The claims say what a started run rests on and show two ways around the gate.
\<close>

section \<open>Dynamic values of the planner\<close>

definition stringFromAny :: "gval \<Rightarrow> string" where
  "stringFromAny value = (case as_str value of Some s \<Rightarrow> TrimSpace s | None \<Rightarrow> [])"

definition appendUnseen :: "string list \<Rightarrow> string \<Rightarrow> string list" where
  "appendUnseen seen value =
     (let t = TrimSpace value in if t = [] \<or> t \<in> set seen then seen else seen @ [t])"

definition cleanStrings :: "string list \<Rightarrow> string list" where
  "cleanStrings values = foldl appendUnseen [] values"

definition unionStrings :: "string list list \<Rightarrow> string list" where
  "unionStrings groups = foldl (foldl appendUnseen) [] groups"

definition gateStringsFromAny :: "gval \<Rightarrow> string list" where
  "gateStringsFromAny value =
     (case value of
        GStrs ss \<Rightarrow> cleanStrings ss
      | GList vs \<Rightarrow> cleanStrings (filter (\<lambda>t. t \<noteq> []) (map stringFromAny vs))
      | GStr s \<Rightarrow> cleanStrings (Split s (CHR '',''))
      | _ \<Rightarrow> [])"

fun firstNonEmptyStrings :: "string list list \<Rightarrow> string list" where
  "firstNonEmptyStrings [] = []"
| "firstNonEmptyStrings (v # vs) = (if v \<noteq> [] then v else firstNonEmptyStrings vs)"

text \<open>\<^verbatim>\<open>firstNonEmptyString\<close> and \<^verbatim>\<open>boolFromAny\<close> of this package: the first blank-free
  text, and a plain type assertion.\<close>

definition overwrite :: "bool option \<Rightarrow> bool \<Rightarrow> bool" where
  "overwrite v old = (case v of Some b \<Rightarrow> b | None \<Rightarrow> old)"

definition applyBudgetMetadata :: "gmap \<Rightarrow> PreDispatchBudgetSnapshot \<Rightarrow> PreDispatchBudgetSnapshot" where
  "applyBudgetMetadata m budget =
     (let get = (\<lambda>k. as_bool (gget m k));
          present = overwrite (get ''task_budget_present'') (bs_TaskBudgetPresent budget)
      in budget\<lparr>bs_ProjectBudgetAllowed := overwrite (get ''project_budget_allowed'') (bs_ProjectBudgetAllowed budget),
                bs_TaskBudgetPresent := (if get ''budget_required'' = Some True then True else present),
                bs_NeedsApproval := overwrite (get ''needs_budget_approval'') (bs_NeedsApproval budget),
                bs_ApprovalGranted := overwrite (get ''budget_approval_granted'') (bs_ApprovalGranted budget)\<rparr>)"

definition applyGateTaskMetadata :: "DispatchTask \<Rightarrow> PreDispatchGateSnapshot \<Rightarrow> PreDispatchGateSnapshot" where
  "applyGateTaskMetadata task s =
     (let metadata = pt_PlannerMetadata task; inputs = pt_InputRequirements task; handoff = pt_HandoffContract task;
          selection = (case as_map (gget metadata ''employee_selection'') of Some m \<Rightarrow> m | None \<Rightarrow> []);
          missing = firstNonEmptyStrings [gateStringsFromAny (gget inputs ''missing_context_refs''),
                                          gateStringsFromAny (gget handoff ''missing_context_refs'')];
          ctx = gs_Context s;
          ctx1 = (if missing \<noteq> [] then ctx\<lparr>xs_RequiredRefsResolved := False, xs_MissingRefs := missing\<rparr> else ctx)
      in s\<lparr>gs_Employee := (gs_Employee s)\<lparr>es_ProfileSnapshotHash :=
             firstNonBlankString [stringFromAny (gget selection ''planning_profile_snapshot_hash''),
                                  stringFromAny (gget metadata ''planning_profile_snapshot_hash'')]\<rparr>,
           gs_Context := ctx1\<lparr>xs_InjectionAllowed :=
             overwrite (as_bool (gget inputs ''context_injection_allowed'')) (xs_InjectionAllowed ctx1)\<rparr>,
           gs_Budget := applyBudgetMetadata handoff (applyBudgetMetadata inputs (applyBudgetMetadata metadata (gs_Budget s)))\<rparr>)"

definition mergePreDispatchEmployeeSnapshot ::
    "PreDispatchEmployeeSnapshot \<Rightarrow> PreDispatchEmployeeSnapshot \<Rightarrow> PreDispatchEmployeeSnapshot" where
  "mergePreDispatchEmployeeSnapshot base update =
     (let noSlots = (es_RequiredLoadSlots update = 0 \<and> es_AvailableLoadSlots update = 0) in
      \<lparr>es_ID = (if es_ID update = uuid_Nil then es_ID base else es_ID update),
       es_IsProjectExecutor = (es_IsProjectExecutor update \<or> es_IsProjectExecutor base),
       es_Status = (if blank (es_Status update) then es_Status base else es_Status update),
       es_PolicyAllowed =
         (es_PolicyAllowed update \<or>
          es_PolicyAllowed base \<and> es_ID update = uuid_Nil \<and> noSlots \<and> blank (es_Status update)),
       es_RequiredLoadSlots = (if noSlots then es_RequiredLoadSlots base else es_RequiredLoadSlots update),
       es_AvailableLoadSlots = (if noSlots then es_AvailableLoadSlots base else es_AvailableLoadSlots update),
       es_ProfileSnapshotHash =
         (if blank (es_ProfileSnapshotHash update) then es_ProfileSnapshotHash base else es_ProfileSnapshotHash update)\<rparr>)"

definition mergePreDispatchCapabilitySnapshot ::
    "PreDispatchCapabilitySnapshot \<Rightarrow> PreDispatchCapabilitySnapshot \<Rightarrow> PreDispatchCapabilitySnapshot" where
  "mergePreDispatchCapabilitySnapshot base update =
     \<lparr>cs_Required = unionStrings [cs_Required base, cs_Required update],
      cs_Matched = unionStrings [cs_Matched base, cs_Matched update]\<rparr>"

section \<open>The dependencies of the store\<close>

record ProjectTaskResult =
  ptr_ID :: uuid
  ptr_ResultStatus :: string
  ptr_Decision :: string
  ptr_ValidationStatus :: string
  ptr_UpdatedAt :: int

record ProjectMember =
  mem_PrincipalType :: string
  mem_PrincipalID :: uuid
  mem_ProjectRole :: string
  mem_Status :: string

record NodeResolution =
  nr_NodeID :: uuid
  nr_Pinned :: bool
  nr_Paused :: bool
  nr_Reason :: string

record AppendProjectEventRequest =
  ape_TenantID :: uuid
  ape_ProjectID :: uuid
  ape_EventType :: string
  ape_ActorType :: string
  ape_ActorID :: string
  ape_Summary :: string
  ape_Payload :: gmap

record RecordPreDispatchGateResultRequest =
  rr_TenantID :: uuid
  rr_ProjectID :: uuid
  rr_ProjectTaskID :: uuid
  rr_Input :: PreDispatchGateInput
  rr_Evaluation :: PreDispatchGateEvaluation
  rr_HumanAction :: "gmap option"

record ApprovalRequestInput =
  ar_TenantID :: uuid
  ar_ResourceType :: string
  ar_ResourceID :: uuid
  ar_RequesterType :: string
  ar_TargetUserID :: uuid
  ar_DecisionType :: string
  ar_Title :: string
  ar_Summary :: string
  ar_RiskLevel :: string
  ar_Options :: "gval list"
  ar_ContextPayload :: gmap

record CreateDecisionRequestRequest =
  cd_TenantID :: uuid
  cd_ProjectID :: uuid
  cd_ApprovalRequestID :: uuid
  cd_ProjectTaskID :: uuid
  cd_TargetUserID :: uuid
  cd_DecisionType :: string
  cd_TitleSnapshot :: string
  cd_SummarySnapshot :: string
  cd_RiskLevelSnapshot :: string
  cd_StatusSnapshot :: string

record MoveToWaitingHumanRequest =
  mw_TenantID :: uuid
  mw_ProjectID :: uuid
  mw_ProjectTaskID :: uuid
  mw_GateResultID :: uuid
  mw_DecisionRequestID :: uuid
  mw_EventID :: uuid
  mw_WaitingReason :: string

text \<open>The reads of the repository return a value or an error; its writes also return the new world.\<close>

record 'w dispatch_repository = "'w policy_repository" +
  rp_GetCurrentProjectTaskAttempt :: "uuid \<Rightarrow> uuid \<Rightarrow> 'w \<Rightarrow> store_error + PreDispatchAttemptSnapshot"
  rp_ListProjectRuntimeNodes :: "uuid \<Rightarrow> uuid \<Rightarrow> 'w \<Rightarrow> store_error + uuid list"
  rp_ListProjectTaskDependencies :: "uuid \<Rightarrow> uuid \<Rightarrow> uuid list \<Rightarrow> 'w \<Rightarrow> store_error + uuid list"
  rp_ListProjectTaskResults :: "uuid \<Rightarrow> uuid \<Rightarrow> uuid \<Rightarrow> int \<Rightarrow> 'w \<Rightarrow> store_error + ProjectTaskResult list"
  rp_ListProjectMembers :: "uuid \<Rightarrow> uuid \<Rightarrow> 'w \<Rightarrow> store_error + ProjectMember list"
  rp_GetDecisionRequest :: "uuid \<Rightarrow> uuid \<Rightarrow> uuid \<Rightarrow> 'w \<Rightarrow> store_error + DecisionRequest"
  rp_ListDemandLaunchDecisionRequests ::
    "uuid \<Rightarrow> uuid \<Rightarrow> uuid list \<Rightarrow> uuid list \<Rightarrow> int \<Rightarrow> 'w \<Rightarrow> store_error + DecisionRequest list"
  rp_RecordPreDispatchGateResult :: "RecordPreDispatchGateResultRequest \<Rightarrow> 'w \<Rightarrow> 'w \<times> (store_error + PreDispatchGateResult)"
  rp_ProjectTaskEventExists :: "uuid \<Rightarrow> uuid \<Rightarrow> string \<Rightarrow> string \<Rightarrow> 'w \<Rightarrow> store_error + bool"
  rp_GetProjectEventByTypeAndActor :: "uuid \<Rightarrow> uuid \<Rightarrow> string \<Rightarrow> string \<Rightarrow> 'w \<Rightarrow> store_error + uuid"
  rp_AppendProjectEvent :: "AppendProjectEventRequest \<Rightarrow> 'w \<Rightarrow> 'w \<times> (store_error + uuid)"
  rp_LinkPreDispatchGateDecisionRequest ::
    "uuid \<Rightarrow> uuid \<Rightarrow> uuid \<Rightarrow> uuid \<Rightarrow> uuid \<Rightarrow> 'w \<Rightarrow> 'w \<times> (store_error + PreDispatchGateResult)"
  rp_CreateDecisionRequest :: "CreateDecisionRequestRequest \<Rightarrow> 'w \<Rightarrow> 'w \<times> (store_error + DecisionRequest)"
  rp_MoveProjectTaskToWaitingHuman :: "MoveToWaitingHumanRequest \<Rightarrow> 'w \<Rightarrow> 'w \<times> (store_error + unit)"
  rp_GetDecisionRequestByApprovalAndTask ::
    "(uuid \<Rightarrow> uuid \<Rightarrow> uuid \<Rightarrow> uuid \<Rightarrow> 'w \<Rightarrow> store_error + DecisionRequest) option"
  rp_ReleaseProjectTaskHumanWait :: "(uuid \<Rightarrow> uuid \<Rightarrow> uuid \<Rightarrow> uuid \<Rightarrow> bool \<Rightarrow> 'w \<Rightarrow> 'w \<times> (store_error + bool)) option"

record 'w dispatch_store =
  st_policy :: "'w policy_store"
  st_repository :: "'w dispatch_repository option"
  st_employeeReader :: "(uuid \<Rightarrow> uuid \<Rightarrow> uuid \<Rightarrow> 'w \<Rightarrow>
     store_error + (PreDispatchEmployeeSnapshot \<times> PreDispatchRuntimeSnapshot)) option"
  st_nodeResolver :: "(uuid \<Rightarrow> uuid \<Rightarrow> uuid \<Rightarrow> uuid \<Rightarrow> 'w \<Rightarrow> store_error + NodeResolution) option"
  st_capabilityReader :: "(uuid \<Rightarrow> uuid \<Rightarrow> DispatchTask \<Rightarrow> 'w \<Rightarrow> store_error + PreDispatchCapabilitySnapshot) option"
  st_approvals :: "((uuid \<Rightarrow> string \<Rightarrow> uuid \<Rightarrow> 'w \<Rightarrow> store_error + uuid option) \<times>
     (ApprovalRequestInput \<Rightarrow> 'w \<Rightarrow> 'w \<times> (store_error + uuid option))) option"
  st_inbox :: "(DecisionRequest \<Rightarrow> 'w \<Rightarrow> 'w \<times> (store_error + unit)) option"
  st_now :: int

text \<open>The store that signs is the same store: it has the same repository.\<close>

definition policy_part :: "'w dispatch_store \<Rightarrow> 'w policy_store" where
  "policy_part S = (st_policy S)\<lparr>ps_repository := map_option policy_repository.truncate (st_repository S)\<rparr>"

record DispatchProjectTaskInput =
  di_TenantID :: uuid
  di_ProjectID :: uuid
  di_TaskID :: uuid
  di_DispatchReason :: string

section \<open>Loading the snapshot\<close>

definition selectedEmployeeID :: "DispatchTask \<Rightarrow> uuid" where
  "selectedEmployeeID task = id_or_nil (pt_AssignedDigitalEmployeeID task)"

definition defaultDispatchReason :: "string \<Rightarrow> string" where
  "defaultDispatchReason reason0 = (let reason = TrimSpace reason0 in if reason = [] then ''root_ready'' else reason)"

definition ProjectTaskResultAcceptedForDependencyUnlock :: "ProjectTaskResult \<Rightarrow> bool" where
  "ProjectTaskResultAcceptedForDependencyUnlock r =
     (ptr_ResultStatus r = ''completed'' \<and> ptr_Decision r = ''complete_accepted'' \<and>
      EqualFold (TrimSpace (ptr_ValidationStatus r)) ''accepted'')"

text \<open>\<open>stamp\<close> prints a time in RFC 3339 form.\<close>

definition dependencyResultVersion ::
    "uuid_lib \<Rightarrow> (int \<Rightarrow> string) \<Rightarrow> DispatchTask \<Rightarrow> ProjectTaskResult option \<Rightarrow> string" where
  "dependencyResultVersion U stamp task latest =
     Join ([uuid_String U (pt_ID task)] @
       (if dt_UpdatedAt task \<noteq> 0 then [stamp (dt_UpdatedAt task)] else []) @
       (case dt_LatestTaskResultID task of
          None \<Rightarrow> []
        | Some i \<Rightarrow> if i = uuid_Nil then [] else [''latest_result:'' @ uuid_String U i]) @
       (case latest of
          None \<Rightarrow> []
        | Some r \<Rightarrow>
            [ptr_ResultStatus r, ptr_Decision r, TrimSpace (ptr_ValidationStatus r)] @
            (if ptr_UpdatedAt r \<noteq> 0 then [stamp (ptr_UpdatedAt r)] else []))) '':''"

definition dependencyAcceptanceSatisfied ::
    "uuid_lib \<Rightarrow> (int \<Rightarrow> string) \<Rightarrow> 'w dispatch_repository \<Rightarrow> uuid \<Rightarrow> uuid \<Rightarrow> DispatchTask \<Rightarrow> 'w \<Rightarrow> store_error + (bool \<times> string)" where
  "dependencyAcceptanceSatisfied U stamp R tenantID projectID blocker w =
     (let no = Inr (False, dependencyResultVersion U stamp blocker None) in
      if dt_Status blocker \<noteq> ''completed'' then no
      else case dt_LatestTaskResultID blocker of
             None \<Rightarrow> no
           | Some latest \<Rightarrow>
               if latest = uuid_Nil then no
               else case rp_ListProjectTaskResults R tenantID projectID (pt_ID blocker) 100 w of
                      Inl e \<Rightarrow> Inl e
                    | Inr results \<Rightarrow>
                        (case find (\<lambda>r. ptr_ID r = latest) results of
                           None \<Rightarrow> no
                         | Some r \<Rightarrow> Inr (ProjectTaskResultAcceptedForDependencyUnlock r,
                                          dependencyResultVersion U stamp blocker (Some r))))"

definition load_dependency ::
    "uuid_lib \<Rightarrow> (int \<Rightarrow> string) \<Rightarrow> 'w dispatch_repository \<Rightarrow> DispatchProjectTaskInput \<Rightarrow> 'w \<Rightarrow> uuid \<Rightarrow>
     store_error + PreDispatchDependencySnapshot" where
  "load_dependency U stamp R input w blockerID =
     (case pr_GetProjectTask R (di_TenantID input) blockerID w of
        Inl e \<Rightarrow> Inl e
      | Inr blocker \<Rightarrow>
          if dt_ProjectID blocker \<noteq> di_ProjectID input then Inl ErrProjectNotFound
          else case dependencyAcceptanceSatisfied U stamp R (di_TenantID input) (di_ProjectID input) blocker w of
                 Inl e \<Rightarrow> Inl e
               | Inr (ok, version) \<Rightarrow>
                   Inr \<lparr>ds_TaskID = pt_ID blocker, ds_Status = dt_Status blocker, ds_AcceptanceSatisfied = ok,
                        ds_ResultVersion = version\<rparr>)"

text \<open>A loop that stops at the first error.\<close>

fun collect :: "('a \<Rightarrow> 'e + 'b) \<Rightarrow> 'a list \<Rightarrow> 'e + 'b list" where
  "collect f [] = Inr []"
| "collect f (x # xs) =
     (case f x of Inl e \<Rightarrow> Inl e | Inr y \<Rightarrow> (case collect f xs of Inl e \<Rightarrow> Inl e | Inr ys \<Rightarrow> Inr (y # ys)))"

definition isRoutableDigitalProjectRole :: "string \<Rightarrow> bool" where
  "isRoutableDigitalProjectRole role = (role = ''executor'' \<or> role = ''reviewer'')"

definition apply_membership :: "ProjectMember list \<Rightarrow> uuid \<Rightarrow> PreDispatchEmployeeSnapshot \<Rightarrow> PreDispatchEmployeeSnapshot" where
  "apply_membership members employeeID e =
     (case find (\<lambda>m. mem_PrincipalType m = ''digital_employee'' \<and> mem_PrincipalID m = employeeID) members of
        None \<Rightarrow> e
      | Some m \<Rightarrow> e\<lparr>es_Status := mem_Status m,
                    es_IsProjectExecutor := (mem_Status m = ''active'' \<and> isRoutableDigitalProjectRole (mem_ProjectRole m))\<rparr>)"

definition gateRiskApprovalGranted :: "DecisionRequest \<Rightarrow> uuid \<Rightarrow> bool" where
  "gateRiskApprovalGranted decision taskID =
     (dr_ProjectTaskID decision = Some taskID \<and> dr_DecisionType decision = ''project_task_approval'' \<and>
      (case dr_DispatchGateResultID decision of None \<Rightarrow> False | Some g \<Rightarrow> g \<noteq> uuid_Nil) \<and>
      EqualFold (dr_StatusSnapshot decision) ''approved'')"

definition gateRiskApprovalScanLimit :: int where
  "gateRiskApprovalScanLimit = 100"

definition preDispatchRiskApprovalGranted ::
    "'w dispatch_repository \<Rightarrow> uuid \<Rightarrow> uuid \<Rightarrow> DispatchTask \<Rightarrow> 'w \<Rightarrow> store_error + bool" where
  "preDispatchRiskApprovalGranted R tenantID projectID task w =
     (let durable =
        (case rp_ListDemandLaunchDecisionRequests R tenantID projectID [] [pt_ID task] gateRiskApprovalScanLimit w of
           Inl e \<Rightarrow> Inl e
         | Inr decisions \<Rightarrow> Inr (list_ex (\<lambda>d. gateRiskApprovalGranted d (pt_ID task)) decisions))
      in case dt_WaitingRequestID task of
           None \<Rightarrow> durable
         | Some waiting \<Rightarrow>
             if waiting = uuid_Nil then durable
             else case rp_GetDecisionRequest R tenantID projectID waiting w of
                    Inl e \<Rightarrow> Inl e
                  | Inr decision \<Rightarrow> if gateRiskApprovalGranted decision (pt_ID task) then Inr True else durable)"

definition and_then :: "'e + 'a \<Rightarrow> ('a \<Rightarrow> 'e + 'b) \<Rightarrow> 'e + 'b" where
  "and_then m f = (case m of Inl e \<Rightarrow> Inl e | Inr x \<Rightarrow> f x)"

text \<open>\<^verbatim>\<open>errors.Is\<close>.\<close>

fun errors_is :: "store_error \<Rightarrow> store_error \<Rightarrow> bool" where
  "errors_is (Wrapped s e) target = (Wrapped s e = target \<or> errors_is e target)"
| "errors_is e target = (e = target)"

abbreviation is_not_found :: "store_error \<Rightarrow> bool" where
  "is_not_found e \<equiv> errors_is e ErrProjectNotFound"

definition base_snapshot :: "DispatchTask \<Rightarrow> PreDispatchGateSnapshot" where
  "base_snapshot task =
     \<lparr>gs_Task = task, gs_ActiveAttempt = None, gs_Dependencies = [],
      gs_Employee = \<lparr>es_ID = selectedEmployeeID task, es_IsProjectExecutor = False, es_Status = [], es_PolicyAllowed = True,
        es_RequiredLoadSlots = 1, es_AvailableLoadSlots = 1, es_ProfileSnapshotHash = []\<rparr>,
      gs_Capabilities = \<lparr>cs_Required = [], cs_Matched = []\<rparr>,
      gs_Runtime = \<lparr>rs_PlacementPresent = True, rs_Pinned = False, rs_NodeOnline = True, rs_ProviderAvailable = True,
        rs_WorkspaceReady = True, rs_SlotAvailable = True, rs_ContractVersionAccepted = True, rs_RetryAfter = 0\<rparr>,
      gs_Budget = \<lparr>bs_ProjectBudgetAllowed = True, bs_TaskBudgetPresent = True, bs_NeedsApproval = False,
        bs_ApprovalGranted = True, bs_TokenLimit = None, bs_ConsumedTokens = 0\<rparr>,
      gs_Risk = \<lparr>ks_HumanApprovalRequired = False, ks_HumanApprovalGranted = False, ks_Reason = []\<rparr>,
      gs_Context = \<lparr>xs_RequiredRefsResolved = True, xs_InjectionAllowed = True, xs_MissingRefs = []\<rparr>\<rparr>"

definition load_attempt ::
    "'w dispatch_repository \<Rightarrow> DispatchProjectTaskInput \<Rightarrow> 'w \<Rightarrow> PreDispatchGateSnapshot \<Rightarrow> store_error + PreDispatchGateSnapshot" where
  "load_attempt R input w s =
     (case rp_GetCurrentProjectTaskAttempt R (di_TenantID input) (di_TaskID input) w of
        Inr attempt \<Rightarrow> Inr (s\<lparr>gs_ActiveAttempt := Some attempt\<rparr>)
      | Inl e \<Rightarrow> if is_not_found e then Inr s else Inl e)"

text \<open>The token fuse: the consumption of the project against its limit.\<close>

definition load_budget ::
    "'w dispatch_repository \<Rightarrow> DispatchProjectTaskInput \<Rightarrow> 'w \<Rightarrow> PreDispatchGateSnapshot \<Rightarrow> store_error + PreDispatchGateSnapshot" where
  "load_budget R input w s =
     (case pr_GetProject R (di_TenantID input) (di_ProjectID input) w of
        Inl e \<Rightarrow> if is_not_found e then Inr s else Inl e
      | Inr proj \<Rightarrow>
          (case pj_BudgetTokenLimit proj of
             None \<Rightarrow> Inr s
           | Some limit \<Rightarrow>
               if limit > 0
               then (case pr_SumProjectConsumedTokens R (di_TenantID input) (di_ProjectID input) w of
                       Inl e \<Rightarrow> Inl e
                     | Inr consumed \<Rightarrow>
                         Inr (s\<lparr>gs_Budget := (gs_Budget s)\<lparr>bs_TokenLimit := Some limit, bs_ConsumedTokens := consumed,
                                  bs_ProjectBudgetAllowed := (consumed < limit)\<rparr>\<rparr>))
               else Inr s))"

definition load_dependencies ::
    "uuid_lib \<Rightarrow> (int \<Rightarrow> string) \<Rightarrow> 'w dispatch_repository \<Rightarrow> DispatchProjectTaskInput \<Rightarrow> 'w \<Rightarrow> PreDispatchGateSnapshot \<Rightarrow>
     store_error + PreDispatchGateSnapshot" where
  "load_dependencies U stamp R input w s =
     and_then (rp_ListProjectRuntimeNodes R (di_TenantID input) (di_ProjectID input) w) (\<lambda>nodes.
     and_then (rp_ListProjectTaskDependencies R (di_TenantID input) (di_ProjectID input) [di_TaskID input] w) (\<lambda>blockers.
     and_then (collect (load_dependency U stamp R input w) blockers) (\<lambda>deps.
       Inr (s\<lparr>gs_Runtime := (gs_Runtime s)\<lparr>rs_PlacementPresent := (nodes \<noteq> [])\<rparr>, gs_Dependencies := deps\<rparr>))))"

definition assigned_employee :: "DispatchTask \<Rightarrow> uuid option" where
  "assigned_employee task =
     (case pt_AssignedDigitalEmployeeID task of None \<Rightarrow> None | Some e \<Rightarrow> if e = uuid_Nil then None else Some e)"

definition load_membership ::
    "'w dispatch_repository \<Rightarrow> DispatchProjectTaskInput \<Rightarrow> DispatchTask \<Rightarrow> 'w \<Rightarrow> PreDispatchGateSnapshot \<Rightarrow>
     store_error + PreDispatchGateSnapshot" where
  "load_membership R input task w s =
     (case assigned_employee task of
        None \<Rightarrow> Inr s
      | Some e \<Rightarrow>
          and_then (rp_ListProjectMembers R (di_TenantID input) (di_ProjectID input) w) (\<lambda>members.
            Inr (s\<lparr>gs_Employee := apply_membership members e (gs_Employee s)\<rparr>)))"

definition load_risk ::
    "'w dispatch_repository \<Rightarrow> DispatchProjectTaskInput \<Rightarrow> DispatchTask \<Rightarrow> 'w \<Rightarrow> PreDispatchGateSnapshot \<Rightarrow>
     store_error + PreDispatchGateSnapshot" where
  "load_risk R input task w s =
     (if pt_RequiresHumanApproval task
      then and_then (preDispatchRiskApprovalGranted R (di_TenantID input) (di_ProjectID input) task w) (\<lambda>granted.
             Inr (s\<lparr>gs_Risk := \<lparr>ks_HumanApprovalRequired = True, ks_HumanApprovalGranted = granted,
                                ks_Reason = ''task.requires_human_approval''\<rparr>\<rparr>))
      else Inr s)"

definition load_runtime ::
    "'w dispatch_store \<Rightarrow> DispatchProjectTaskInput \<Rightarrow> DispatchTask \<Rightarrow> 'w \<Rightarrow> PreDispatchGateSnapshot \<Rightarrow>
     store_error + PreDispatchGateSnapshot" where
  "load_runtime S input task w s =
     (case (st_employeeReader S, assigned_employee task) of
        (Some reader, Some e) \<Rightarrow>
          and_then (reader (di_TenantID input) (di_ProjectID input) e w) (\<lambda>(employee, runtime).
            Inr (s\<lparr>gs_Employee := mergePreDispatchEmployeeSnapshot (gs_Employee s) employee,
                   gs_Runtime := runtime\<lparr>rs_PlacementPresent := rs_PlacementPresent (gs_Runtime s)\<rparr>\<rparr>))
      | _ \<Rightarrow> Inr s)"

definition load_node ::
    "'w dispatch_store \<Rightarrow> DispatchProjectTaskInput \<Rightarrow> DispatchTask \<Rightarrow> 'w \<Rightarrow> PreDispatchGateSnapshot \<Rightarrow>
     store_error + PreDispatchGateSnapshot" where
  "load_node S input task w s =
     (case (st_nodeResolver S, assigned_employee task) of
        (Some resolve, Some e) \<Rightarrow>
          and_then (resolve (di_TenantID input) (di_ProjectID input) e (di_TaskID input) w) (\<lambda>resolution.
            Inr (s\<lparr>gs_Runtime := (gs_Runtime s)\<lparr>rs_Pinned := (nr_Pinned resolution \<or> nr_Paused resolution),
                     rs_NodeOnline := (rs_NodeOnline (gs_Runtime s) \<and> nr_NodeID resolution \<noteq> uuid_Nil)\<rparr>\<rparr>))
      | _ \<Rightarrow> Inr s)"

definition load_capabilities ::
    "'w dispatch_store \<Rightarrow> DispatchProjectTaskInput \<Rightarrow> DispatchTask \<Rightarrow> 'w \<Rightarrow> PreDispatchGateSnapshot \<Rightarrow>
     store_error + PreDispatchGateSnapshot" where
  "load_capabilities S input task w s =
     (case (st_capabilityReader S, assigned_employee task) of
        (Some reader, Some e) \<Rightarrow>
          and_then (reader (di_TenantID input) e task w) (\<lambda>capabilities.
            Inr (s\<lparr>gs_Capabilities := mergePreDispatchCapabilitySnapshot (gs_Capabilities s) capabilities\<rparr>))
      | _ \<Rightarrow> Inr s)"

definition loadPreDispatchGateSnapshot ::
    "uuid_lib \<Rightarrow> (int \<Rightarrow> string) \<Rightarrow> 'w dispatch_store \<Rightarrow> 'w dispatch_repository \<Rightarrow> DispatchProjectTaskInput \<Rightarrow> DispatchTask \<Rightarrow>
     'w \<Rightarrow> store_error + PreDispatchGateSnapshot" where
  "loadPreDispatchGateSnapshot U stamp S R input task w =
     and_then (load_attempt R input w (base_snapshot task)) (\<lambda>s1.
     and_then (load_budget R input w s1) (\<lambda>s2.
     and_then (load_dependencies U stamp R input w s2) (\<lambda>s3.
     and_then (load_membership R input task w s3) (\<lambda>s4.
     and_then (load_risk R input task w (applyGateTaskMetadata task s4)) (\<lambda>s5.
     and_then (load_runtime S input task w s5) (\<lambda>s6.
     and_then (load_node S input task w s6) (\<lambda>s7.
       load_capabilities S input task w s7)))))))"

section \<open>Running the gate\<close>

type_synonym ('w, 'a) run = "'w signing \<Rightarrow> 'w signing \<times> (store_error + 'a)"

definition ret :: "'a \<Rightarrow> ('w, 'a) run" where
  "ret x \<sigma> = (\<sigma>, Inr x)"

definition fail :: "store_error \<Rightarrow> ('w, 'a) run" where
  "fail e \<sigma> = (\<sigma>, Inl e)"

definition bind_run :: "('w, 'a) run \<Rightarrow> ('a \<Rightarrow> ('w, 'b) run) \<Rightarrow> ('w, 'b) run" where
  "bind_run m f \<sigma> = (case m \<sigma> of (\<sigma>', Inl e) \<Rightarrow> (\<sigma>', Inl e) | (\<sigma>', Inr x) \<Rightarrow> f x \<sigma>')"

definition reading :: "('w \<Rightarrow> store_error + 'a) \<Rightarrow> ('w, 'a) run" where
  "reading f \<sigma> = (\<sigma>, f (fst \<sigma>))"

definition writing :: "('w \<Rightarrow> 'w \<times> (store_error + 'a)) \<Rightarrow> ('w, 'a) run" where
  "writing f = (\<lambda>(w, sent). case f w of (w', r) \<Rightarrow> ((w', sent), r))"

definition gateEventType :: "gate_status \<Rightarrow> string" where
  "gateEventType status =
     (case status of
        Passed \<Rightarrow> ''project_task.dispatch_gate.checked''
      | WaitingHuman \<Rightarrow> ''project_task.dispatch_gate.waiting_human''
      | RetryLater \<Rightarrow> ''project_task.dispatch_gate.retry_later''
      | ReplanRequired \<Rightarrow> ''project_task.dispatch_gate.replan_required''
      | GateBlocked \<Rightarrow> ''project_task.dispatch_gate.blocked'')"

definition gateEventSummary :: "gate_status \<Rightarrow> string" where
  "gateEventSummary status =
     (case status of
        Passed \<Rightarrow> ''Dispatch gate passed''
      | WaitingHuman \<Rightarrow> ''Dispatch gate waiting for human action''
      | RetryLater \<Rightarrow> ''Dispatch gate retry scheduled''
      | ReplanRequired \<Rightarrow> ''Dispatch gate requires replanning''
      | GateBlocked \<Rightarrow> ''Dispatch gate blocked'')"

definition coordinatorEvent :: "uuid \<Rightarrow> uuid \<Rightarrow> string \<Rightarrow> string \<Rightarrow> string \<Rightarrow> gmap \<Rightarrow> AppendProjectEventRequest" where
  "coordinatorEvent tenantID projectID eventType actorID summary payload =
     \<lparr>ape_TenantID = tenantID, ape_ProjectID = projectID, ape_EventType = eventType,
      ape_ActorType = ''project_coordinator'',
      ape_ActorID = (if actorID = [] then ''project_coordinator'' else actorID),
      ape_Summary = summary, ape_Payload = payload\<rparr>"

definition humanActionMap :: "PreDispatchHumanActionRequest \<Rightarrow> gmap" where
  "humanActionMap a =
     (let base = [(''type'', GStr (ha_Type a)), (''waiting_reason'', GStr (ha_WaitingReason a)),
                  (''decision_type'', GStr (ha_DecisionType a)), (''title'', GStr (ha_Title a)),
                  (''summary'', GStr (ha_Summary a)), (''risk_level'', GStr (ha_RiskLevel a)),
                  (''options'', GList (ha_Options a)), (''context'', GMap (ha_Context a))]
      in base @ filter (\<lambda>(k, v). k \<notin> fst ` set base) (ha_Context a))"

definition timePtrString :: "(int \<Rightarrow> string) \<Rightarrow> int option \<Rightarrow> gval" where
  "timePtrString stamp value = (case value of None \<Rightarrow> GNil | Some t \<Rightarrow> GStr (stamp t))"

definition gate_event_payload :: "uuid_lib \<Rightarrow> (int \<Rightarrow> string) \<Rightarrow> DispatchProjectTaskInput \<Rightarrow> PreDispatchGateResult \<Rightarrow> gmap" where
  "gate_event_payload U stamp input gate =
     [(''project_task_id'', GStr (uuid_String U (di_TaskID input))), (''status'', GStr (gate_status_text (gr_Status gate))),
      (''selected_employee_id'', GStr (uuid_String U (gr_SelectedEmployeeID gate))), (''attempt_no'', gnum (gr_AttemptNo gate)),
      (''dispatch_reason'', GStr (gr_DispatchReason gate)), (''idempotency_key'', GStr (gr_IdempotencyKey gate)),
      (''dispatch_token'', GStr (gr_DispatchToken gate)), (''check_count'', gnum (int (length (gr_Checks gate)))),
      (''blocker_count'', gnum (int (length (gr_Blockers gate)))),
      (''human_action'', GMap (case gr_HumanActionRequest gate of None \<Rightarrow> [] | Some m \<Rightarrow> m)),
      (''retry_after'', timePtrString stamp (gr_RetryAfter gate))]"

definition recordEvaluatedGate ::
    "uuid_lib \<Rightarrow> (int \<Rightarrow> string) \<Rightarrow> 'w dispatch_repository \<Rightarrow> DispatchProjectTaskInput \<Rightarrow> PreDispatchGateInput \<Rightarrow>
     PreDispatchGateEvaluation \<Rightarrow> ('w, PreDispatchGateResult) run" where
  "recordEvaluatedGate U stamp R input gateInput evaluation =
     bind_run (writing (rp_RecordPreDispatchGateResult R
       \<lparr>rr_TenantID = di_TenantID input, rr_ProjectID = di_ProjectID input, rr_ProjectTaskID = di_TaskID input,
        rr_Input = gateInput, rr_Evaluation = evaluation,
        rr_HumanAction = map_option humanActionMap (ev_HumanActionRequest evaluation)\<rparr>)) (\<lambda>gate.
     if gr_CreatedEventID gate \<noteq> None then ret gate
     else
       bind_run (reading (rp_ProjectTaskEventExists R (di_TenantID input) (di_ProjectID input)
         (gateEventType (gr_Status gate)) (uuid_String U (di_TaskID input)))) (\<lambda>seen.
       if seen then ret gate
       else
         bind_run (writing (rp_AppendProjectEvent R (coordinatorEvent (di_TenantID input) (di_ProjectID input)
           (gateEventType (gr_Status gate)) (uuid_String U (di_TaskID input)) (gateEventSummary (gr_Status gate))
           (gate_event_payload U stamp input gate)))) (\<lambda>_. ret gate)))"

definition preDispatchGateApprovalResourceType :: string where
  "preDispatchGateApprovalResourceType = ''project_task_dispatch_gate''"

definition errApprovalCreatorRequired :: store_error where
  "errApprovalCreatorRequired = Backend ''pre-dispatch gate waiting-human action requires approval creator''"

definition errApprovalRequestRequired :: store_error where
  "errApprovalRequestRequired = Backend ''pre-dispatch gate waiting-human action requires non-empty approval request''"

definition gateHumanActionContext ::
    "uuid_lib \<Rightarrow> DispatchProjectTaskInput \<Rightarrow> DispatchTask \<Rightarrow> PreDispatchGateResult \<Rightarrow> gmap \<Rightarrow> gmap" where
  "gateHumanActionContext U input task gate action =
     [(''project_id'', GStr (uuid_String U (di_ProjectID input))), (''project_task_id'', GStr (uuid_String U (di_TaskID input))),
      (''dispatch_gate_id'', GStr (uuid_String U (gr_ID gate))), (''gate_status'', GStr (gate_status_text (gr_Status gate))),
      (''task_title'', GStr (dt_Title task)), (''human_action'', GMap action)] @
     (case pt_DemandID task of None \<Rightarrow> [] | Some d \<Rightarrow> [(''demand_id'', GStr (uuid_String U d))])"

text \<open>An approval service answers with \<^verbatim>\<open>ErrApprovalNotFound\<close>, which is the error \<open>not_found_approval\<close>.\<close>

definition not_found_approval :: store_error where
  "not_found_approval = Backend ''approval not found''"

definition nonempty_approval :: "uuid option \<Rightarrow> ('w, uuid) run" where
  "nonempty_approval request =
     (case request of
        None \<Rightarrow> fail errApprovalRequestRequired
      | Some i \<Rightarrow> if i = uuid_Nil then fail errApprovalRequestRequired else ret i)"

definition findOrCreateGateApprovalRequest ::
    "uuid_lib \<Rightarrow> 'w dispatch_store \<Rightarrow> DispatchProjectTaskInput \<Rightarrow> DispatchTask \<Rightarrow> PreDispatchGateResult \<Rightarrow>
     PreDispatchHumanActionRequest \<Rightarrow> gmap \<Rightarrow> uuid \<Rightarrow> ('w, uuid) run" where
  "findOrCreateGateApprovalRequest U S input task gate action payload target \<sigma> =
     (case st_approvals S of
        None \<Rightarrow> fail NilDereference \<sigma>
      | Some (get, create) \<Rightarrow>
          (case get (di_TenantID input) preDispatchGateApprovalResourceType (gr_ID gate) (fst \<sigma>) of
             Inr request \<Rightarrow> nonempty_approval request \<sigma>
           | Inl e \<Rightarrow>
               if \<not> errors_is e not_found_approval then fail e \<sigma>
               else bind_run (writing (create
                 \<lparr>ar_TenantID = di_TenantID input, ar_ResourceType = preDispatchGateApprovalResourceType,
                  ar_ResourceID = gr_ID gate, ar_RequesterType = ''project_coordinator'', ar_TargetUserID = target,
                  ar_DecisionType = ha_DecisionType action, ar_Title = ha_Title action, ar_Summary = ha_Summary action,
                  ar_RiskLevel = ha_RiskLevel action, ar_Options = ha_Options action,
                  ar_ContextPayload = gateHumanActionContext U input task gate payload\<rparr>)) nonempty_approval \<sigma>))"

definition findGateApprovalDecisionRequest ::
    "'w dispatch_repository \<Rightarrow> DispatchProjectTaskInput \<Rightarrow> PreDispatchGateResult \<Rightarrow> uuid \<Rightarrow> 'w \<Rightarrow> store_error + DecisionRequest" where
  "findGateApprovalDecisionRequest R input gate approvalID w =
     (case rp_GetDecisionRequestByApprovalAndTask R of
        None \<Rightarrow> Inl ErrProjectNotFound
      | Some finder \<Rightarrow>
          and_then (finder (di_TenantID input) (di_ProjectID input) approvalID (di_TaskID input) w) (\<lambda>decision.
            case dr_DispatchGateResultID decision of
              Some g \<Rightarrow> if g \<noteq> gr_ID gate then Inl ErrProjectNotFound else Inr decision
            | None \<Rightarrow> Inr decision))"

definition validateGateDecisionTask :: "DispatchProjectTaskInput \<Rightarrow> DecisionRequest \<Rightarrow> store_error option" where
  "validateGateDecisionTask input decision =
     (if dr_ProjectTaskID decision \<noteq> Some (di_TaskID input) then Some ErrProjectNotFound else None)"

definition guard_run :: "store_error option \<Rightarrow> ('w, unit) run" where
  "guard_run e = (case e of Some err \<Rightarrow> fail err | None \<Rightarrow> ret ())"

definition link_gate ::
    "'w dispatch_repository \<Rightarrow> DispatchProjectTaskInput \<Rightarrow> uuid \<Rightarrow> uuid \<Rightarrow> ('w, PreDispatchGateResult) run" where
  "link_gate R input gateID decisionID =
     writing (rp_LinkPreDispatchGateDecisionRequest R (di_TenantID input) (di_ProjectID input) (di_TaskID input) gateID decisionID)"

text \<open>The three sources of the decision that a waiting gate is linked to: the one the gate already has, the one the task
  waits for, or a new one for the owner of the project.\<close>

definition linked_decision ::
    "'w dispatch_repository \<Rightarrow> DispatchProjectTaskInput \<Rightarrow> PreDispatchGateResult \<Rightarrow> uuid \<Rightarrow>
     ('w, PreDispatchGateResult \<times> DecisionRequest) run" where
  "linked_decision R input gate decisionID =
     bind_run (reading (rp_GetDecisionRequest R (di_TenantID input) (di_ProjectID input) decisionID)) (\<lambda>decision.
     bind_run (guard_run (validateGateDecisionTask input decision)) (\<lambda>_.
     if dr_DispatchGateResultID decision \<noteq> Some (gr_ID gate)
     then bind_run (link_gate R input (gr_ID gate) decisionID) (\<lambda>linked.
            ret (linked, decision\<lparr>dr_DispatchGateResultID := Some (gr_ID gate)\<rparr>))
     else ret (gate, decision)))"

definition awaited_decision ::
    "'w dispatch_repository \<Rightarrow> DispatchProjectTaskInput \<Rightarrow> PreDispatchGateResult \<Rightarrow> uuid \<Rightarrow>
     ('w, PreDispatchGateResult \<times> DecisionRequest) run" where
  "awaited_decision R input gate waitingID =
     bind_run (reading (rp_GetDecisionRequest R (di_TenantID input) (di_ProjectID input) waitingID)) (\<lambda>decision.
     bind_run (guard_run (validateGateDecisionTask input decision)) (\<lambda>_.
     bind_run (link_gate R input (gr_ID gate) waitingID) (\<lambda>linked.
     ret (linked, decision\<lparr>dr_DispatchGateResultID := Some (gr_ID gate)\<rparr>))))"

definition find_or_create_decision ::
    "'w dispatch_repository \<Rightarrow> DispatchProjectTaskInput \<Rightarrow> PreDispatchGateResult \<Rightarrow> PreDispatchHumanActionRequest \<Rightarrow>
     uuid \<Rightarrow> uuid \<Rightarrow> ('w, DecisionRequest) run" where
  "find_or_create_decision R input gate action approvalID owner \<sigma> =
     (case findGateApprovalDecisionRequest R input gate approvalID (fst \<sigma>) of
        Inr decision \<Rightarrow> ret decision \<sigma>
      | Inl e \<Rightarrow>
          if \<not> is_not_found e then fail e \<sigma>
          else writing (rp_CreateDecisionRequest R
            \<lparr>cd_TenantID = di_TenantID input, cd_ProjectID = di_ProjectID input, cd_ApprovalRequestID = approvalID,
             cd_ProjectTaskID = di_TaskID input, cd_TargetUserID = owner, cd_DecisionType = ha_DecisionType action,
             cd_TitleSnapshot = ha_Title action, cd_SummarySnapshot = ha_Summary action,
             cd_RiskLevelSnapshot = ha_RiskLevel action, cd_StatusSnapshot = ''pending''\<rparr>) \<sigma>)"

definition minted_decision ::
    "uuid_lib \<Rightarrow> 'w dispatch_store \<Rightarrow> 'w dispatch_repository \<Rightarrow> DispatchProjectTaskInput \<Rightarrow> DispatchTask \<Rightarrow>
     PreDispatchGateResult \<Rightarrow> PreDispatchHumanActionRequest \<Rightarrow> ('w, PreDispatchGateResult \<times> DecisionRequest) run" where
  "minted_decision U S R input task gate action =
     (if st_approvals S = None then fail errApprovalCreatorRequired
      else
        bind_run (reading (pr_GetProject R (di_TenantID input) (di_ProjectID input))) (\<lambda>proj.
        bind_run (findOrCreateGateApprovalRequest U S input task gate action (humanActionMap action)
          (pj_HumanOwnerUserID proj)) (\<lambda>approvalID.
        bind_run (find_or_create_decision R input gate action approvalID (pj_HumanOwnerUserID proj)) (\<lambda>decision.
        bind_run
          (if gr_DecisionRequestID gate \<noteq> Some (dr_ID decision) \<or> dr_DispatchGateResultID decision \<noteq> Some (gr_ID gate)
           then link_gate R input (gr_ID gate) (dr_ID decision) else ret gate) (\<lambda>linked.
        ret (linked, decision\<lparr>dr_DispatchGateResultID := Some (gr_ID gate)\<rparr>))))))"

definition ensureGateDecisionRequestedEvent ::
    "uuid_lib \<Rightarrow> 'w dispatch_repository \<Rightarrow> DispatchProjectTaskInput \<Rightarrow> PreDispatchGateResult \<Rightarrow> DecisionRequest \<Rightarrow> gmap \<Rightarrow>
     ('w, uuid) run" where
  "ensureGateDecisionRequestedEvent U R input gate decision payload \<sigma> =
     (case rp_GetProjectEventByTypeAndActor R (di_TenantID input) (di_ProjectID input) ''decision.requested''
             (uuid_String U (gr_ID gate)) (fst \<sigma>) of
        Inr eventID \<Rightarrow> ret eventID \<sigma>
      | Inl e \<Rightarrow>
          if \<not> is_not_found e then fail e \<sigma>
          else writing (rp_AppendProjectEvent R
            (coordinatorEvent (di_TenantID input) (di_ProjectID input) ''decision.requested'' (uuid_String U (gr_ID gate))
              ''Dispatch gate requires human action''
              [(''approval_request_id'', GStr (uuid_String U (dr_ApprovalRequestID decision))),
               (''decision_type'', GStr (dr_DecisionType decision)),
               (''dispatch_gate_id'', GStr (uuid_String U (gr_ID gate))),
               (''project_task_id'', GStr (uuid_String U (di_TaskID input))),
               (''target_user_id'', GStr (uuid_String U (dr_TargetUserID decision))),
               (''human_action'', GMap payload)])) \<sigma>)"

definition park_task ::
    "'w dispatch_repository \<Rightarrow> DispatchProjectTaskInput \<Rightarrow> DispatchTask \<Rightarrow> PreDispatchGateResult \<Rightarrow> DecisionRequest \<Rightarrow> uuid \<Rightarrow>
     PreDispatchHumanActionRequest \<Rightarrow> ('w, unit) run" where
  "park_task R input task linked decision eventID action =
     (if dt_Status task \<noteq> ''waiting_human'' \<or> dt_WaitingRequestID task \<noteq> Some (dr_ID decision)
      then writing (rp_MoveProjectTaskToWaitingHuman R
        \<lparr>mw_TenantID = di_TenantID input, mw_ProjectID = di_ProjectID input, mw_ProjectTaskID = di_TaskID input,
         mw_GateResultID = gr_ID linked, mw_DecisionRequestID = dr_ID decision, mw_EventID = eventID,
         mw_WaitingReason = ha_WaitingReason action\<rparr>)
      else ret ())"

definition notify_inbox :: "'w dispatch_store \<Rightarrow> PreDispatchGateResult \<Rightarrow> DecisionRequest \<Rightarrow> ('w, unit) run" where
  "notify_inbox S linked decision =
     (case st_inbox S of
        None \<Rightarrow> ret ()
      | Some upsert \<Rightarrow> writing (upsert (decision\<lparr>dr_DispatchGateResultID := Some (gr_ID linked)\<rparr>)))"

definition createGateHumanAction ::
    "uuid_lib \<Rightarrow> 'w dispatch_store \<Rightarrow> 'w dispatch_repository \<Rightarrow> DispatchProjectTaskInput \<Rightarrow> DispatchTask \<Rightarrow>
     PreDispatchGateResult \<Rightarrow> PreDispatchHumanActionRequest \<Rightarrow> ('w, PreDispatchGateResult) run" where
  "createGateHumanAction U S R input task gate action =
     bind_run
       (case gr_DecisionRequestID gate of
          Some decisionID \<Rightarrow> linked_decision R input gate decisionID
        | None \<Rightarrow>
            (case dt_WaitingRequestID task of
               None \<Rightarrow> minted_decision U S R input task gate action
             | Some waitingID \<Rightarrow>
                 if waitingID = uuid_Nil then minted_decision U S R input task gate action
                 else awaited_decision R input gate waitingID)) (\<lambda>(linked, decision).
     bind_run (ensureGateDecisionRequestedEvent U R input linked decision (humanActionMap action)) (\<lambda>eventID.
     bind_run (park_task R input task linked decision eventID action) (\<lambda>_.
     bind_run (notify_inbox S linked decision) (\<lambda>_.
     ret linked))))"

record PreDispatchGateDecision =
  pg_Gate :: PreDispatchGateResult
  pg_AllowRunStart :: bool
  pg_Retryable :: bool
  pg_Terminal :: bool

definition recoverable_blockers :: "string list" where
  "recoverable_blockers = [''runtime.placement_missing'', ''runtime.pinned_node_offline'']"

definition preDispatchGateDecisionTerminal :: "PreDispatchGateResult \<Rightarrow> bool" where
  "preDispatchGateDecisionTerminal gate =
     (if gr_Status gate = ReplanRequired then True
      else if gr_Status gate \<noteq> GateBlocked then False
      else \<not> list_ex (\<lambda>b. gb_Key b \<in> set recoverable_blockers) (gr_Blockers gate))"

definition block_reasons :: "(string \<times> string \<times> string) list" where
  "block_reasons =
     [(''runtime.placement_missing'', ''runtime_placement_missing'', ''bind_runtime''),
      (''runtime.no_eligible_online_node'', ''runtime_no_eligible_online_node'', ''bind_runtime''),
      (''runtime.pinned_node_offline'', ''runtime_pinned_node_offline'', ''restart_runtime''),
      (''runtime.node_offline'', ''runtime_node_offline'', ''restart_runtime''),
      (''runtime.provider_unavailable'', ''provider_unavailable'', ''check_provider''),
      (''runtime.workspace_not_ready'', ''runtime_workspace_not_ready'', ''recover_workspace''),
      (''runtime.slot_unavailable'', ''runtime_slot_unavailable'', ''wait_for_slot''),
      (''runtime.contract_version_unsupported'', ''runtime_contract_version_unsupported'', ''upgrade_runtime'')]"

fun first_block_reason :: "PreDispatchGateBlocker list \<Rightarrow> string \<times> string" where
  "first_block_reason [] = (''dispatch_blocked'', ''inspect_dispatch_gate'')"
| "first_block_reason (b # bs) = (case map_of block_reasons (gb_Key b) of Some r \<Rightarrow> r | None \<Rightarrow> first_block_reason bs)"

definition dispatchBlockReasonFromGate :: "PreDispatchGateResult \<Rightarrow> string \<times> string" where
  "dispatchBlockReasonFromGate gate = first_block_reason (gr_Blockers gate)"

definition gate_input :: "DispatchProjectTaskInput \<Rightarrow> DispatchTask \<Rightarrow> PreDispatchGateInput" where
  "gate_input input task =
     \<lparr>gi_ProjectID = di_ProjectID input, gi_ProjectTaskID = di_TaskID input,
      gi_AcceptedPlanRevisionID = pt_AcceptedPlanRevisionID task, gi_PlannedTaskKey = pt_PlannedTaskKey task,
      gi_SelectedEmployeeID = selectedEmployeeID task, gi_AttemptNo = int32 (pt_AttemptCount task + 1),
      gi_DispatchReason = defaultDispatchReason (di_DispatchReason input)\<rparr>"

definition signing_run :: "('w signing \<Rightarrow> 'w signing \<times> store_error option) \<Rightarrow> ('w, unit) run" where
  "signing_run f \<sigma> = (case f \<sigma> of (\<sigma>', None) \<Rightarrow> (\<sigma>', Inr ()) | (\<sigma>', Some e) \<Rightarrow> (\<sigma>', Inl e))"

definition decide_gate :: "PreDispatchGateResult \<Rightarrow> PreDispatchGateDecision" where
  "decide_gate gate =
     \<lparr>pg_Gate = gate, pg_AllowRunStart = (gr_Status gate = Passed), pg_Retryable = (gr_Status gate = RetryLater),
      pg_Terminal = preDispatchGateDecisionTerminal gate\<rparr>"

text \<open>The part of the run after the recording, and the part after the evaluation.\<close>

definition ask_and_decide ::
    "uuid_lib \<Rightarrow> 'w dispatch_store \<Rightarrow> 'w dispatch_repository \<Rightarrow> DispatchProjectTaskInput \<Rightarrow> DispatchTask \<Rightarrow>
     PreDispatchHumanActionRequest option \<Rightarrow> PreDispatchGateResult \<Rightarrow> ('w, PreDispatchGateDecision) run" where
  "ask_and_decide U S R input task request gate =
     (case request of
        Some action \<Rightarrow>
          if gr_Status gate = WaitingHuman
          then
            bind_run (createGateHumanAction U S R input task gate action) (\<lambda>linked.
            bind_run (signing_run (maybePolicyAutoResolvePredispatchGate U (policy_part S) (di_TenantID input)
              (di_ProjectID input) task linked (Some action))) (\<lambda>_.
            ret (decide_gate linked)))
          else ret (decide_gate gate)
      | None \<Rightarrow> ret (decide_gate gate))"

definition settle_gate ::
    "uuid_lib \<Rightarrow> (int \<Rightarrow> string) \<Rightarrow> 'w dispatch_store \<Rightarrow> 'w dispatch_repository \<Rightarrow> DispatchProjectTaskInput \<Rightarrow> DispatchTask \<Rightarrow>
     PreDispatchGateEvaluation \<Rightarrow> ('w, PreDispatchGateDecision) run" where
  "settle_gate U stamp S R input task evaluation =
     (if ev_Status evaluation = WaitingHuman \<and> ev_HumanActionRequest evaluation \<noteq> None \<and> st_approvals S = None
      then fail errApprovalCreatorRequired
      else bind_run (recordEvaluatedGate U stamp R input (gate_input input task) evaluation)
             (ask_and_decide U S R input task (ev_HumanActionRequest evaluation)))"

definition RunPreDispatchGate ::
    "uuid_lib \<Rightarrow> (string \<Rightarrow> string) \<Rightarrow> (int \<Rightarrow> string) \<Rightarrow> 'w dispatch_store \<Rightarrow> DispatchProjectTaskInput \<Rightarrow>
     ('w, PreDispatchGateDecision) run" where
  "RunPreDispatchGate U sha stamp S input =
     (case st_repository S of
        None \<Rightarrow> fail ErrActivityStoreRequired
      | Some R \<Rightarrow>
          bind_run (reading (pr_GetProjectTask R (di_TenantID input) (di_TaskID input))) (\<lambda>task.
          if dt_ProjectID task \<noteq> di_ProjectID input then fail ErrProjectNotFound
          else
            bind_run (reading (loadPreDispatchGateSnapshot U stamp S R input task)) (\<lambda>snapshot.
            settle_gate U stamp S R input task
              (EvaluatePreDispatchGate U sha (gate_input input task) snapshot (st_now S)))))"

section \<open>Releasing a waiting task\<close>

record ApplyPreDispatchGateDecisionInput =
  ad_TenantID :: uuid
  ad_ProjectID :: uuid
  ad_DecisionRequestID :: uuid
  ad_Decision :: string
  ad_Payload :: gmap

definition gate_linked :: "DecisionRequest \<Rightarrow> bool" where
  "gate_linked decision = (case dr_DispatchGateResultID decision of None \<Rightarrow> False | Some g \<Rightarrow> g \<noteq> uuid_Nil)"

text \<open>\<open>releasable\<close> is the condition of the code on a wait that is linked to another decision.\<close>

definition releasable :: "DispatchTask \<Rightarrow> DecisionRequest \<Rightarrow> bool" where
  "releasable task decision =
     (case dt_WaitingRequestID task of
        None \<Rightarrow> True
      | Some waiting \<Rightarrow>
          waiting = dr_ID decision \<or> dr_DecisionType decision = ''project_task_approval'' \<and> gate_linked decision)"

definition applyTaskHumanWaitRelease ::
    "'w dispatch_repository \<Rightarrow> ApplyPreDispatchGateDecisionInput \<Rightarrow> DecisionRequest \<Rightarrow> ('w, uuid list) run" where
  "applyTaskHumanWaitRelease R input decision \<sigma> =
     (let verb = ToLower (TrimSpace (ad_Decision input)); failed = (verb = ''rejected'' \<or> verb = ''cancelled'') in
      if verb \<noteq> ''approved'' \<and> \<not> failed then ret [] \<sigma>
      else case dr_ProjectTaskID decision of
        None \<Rightarrow> ret [] \<sigma>
      | Some taskID \<Rightarrow>
          if taskID = uuid_Nil then ret [] \<sigma>
          else bind_run (reading (pr_GetProjectTask R (ad_TenantID input) taskID)) (\<lambda>task \<sigma>.
            if dt_ProjectID task \<noteq> ad_ProjectID input then fail ErrProjectNotFound \<sigma>
            else if dt_Status task \<noteq> ''waiting_human'' then ret [] \<sigma>
            else if \<not> releasable task decision then ret [] \<sigma>
            else case rp_ReleaseProjectTaskHumanWait R of
                   None \<Rightarrow> fail ErrActivityStoreRequired \<sigma>
                 | Some release \<Rightarrow>
                     (case writing (release (ad_TenantID input) (ad_ProjectID input) (pt_ID task) (dr_ID decision) failed) \<sigma> of
                        (\<sigma>', Inl e) \<Rightarrow> if errors_is e ErrProjectConflict then ret [] \<sigma>' else fail e \<sigma>'
                      | (\<sigma>', Inr ready) \<Rightarrow> ret (if ready then [pt_ID task] else []) \<sigma>')) \<sigma>)"

definition wait_decision_types :: "string list" where
  "wait_decision_types =
     [''project_task_recovery'', ''project_task_runtime_recovery'', ''project_task_clarification'',
      ''project_task_missing_context'', ''project_task_permission'', ''project_task_plan_invalid'',
      ''project_task_budget_approval'', ''project_task_human_wait'']"

definition projectTaskDispatchAllowed :: "string \<Rightarrow> bool" where
  "projectTaskDispatchAllowed status = (status = ''planned'' \<or> status = ''waiting_human'')"

definition apply_gate_approval ::
    "'w dispatch_repository \<Rightarrow> ApplyPreDispatchGateDecisionInput \<Rightarrow> DecisionRequest \<Rightarrow> ('w, uuid list) run" where
  "apply_gate_approval R input decision =
     (if \<not> gate_linked decision then applyTaskHumanWaitRelease R input decision
      else if \<not> EqualFold (TrimSpace (ad_Decision input)) ''approved'' then applyTaskHumanWaitRelease R input decision
      else
        bind_run (applyTaskHumanWaitRelease R input decision) (\<lambda>ready.
        if ready \<noteq> [] then ret ready
        else case dr_ProjectTaskID decision of
               None \<Rightarrow> ret []
             | Some taskID \<Rightarrow>
                 bind_run (reading (pr_GetProjectTask R (ad_TenantID input) taskID)) (\<lambda>task.
                 if dt_ProjectID task \<noteq> ad_ProjectID input then fail ErrProjectNotFound
                 else if \<not> projectTaskDispatchAllowed (dt_Status task) then ret []
                 else ret [pt_ID task])))"

text \<open>\<open>iteration_exhausted\<close> stands for \<^verbatim>\<open>applyIterationExhaustedDecision\<close>, which rewires the task graph and is not
  part of this model.\<close>

definition ApplyPreDispatchGateDecision ::
    "(ApplyPreDispatchGateDecisionInput \<Rightarrow> DecisionRequest \<Rightarrow> ('w, uuid list) run) \<Rightarrow> 'w dispatch_store \<Rightarrow>
     ApplyPreDispatchGateDecisionInput \<Rightarrow> ('w, uuid list) run" where
  "ApplyPreDispatchGateDecision iteration_exhausted S input =
     (case st_repository S of
        None \<Rightarrow> fail ErrActivityStoreRequired
      | Some R \<Rightarrow>
          if ad_TenantID input = uuid_Nil \<or> ad_ProjectID input = uuid_Nil \<or> ad_DecisionRequestID input = uuid_Nil
          then fail ErrInvalidProject
          else
            bind_run (reading (rp_GetDecisionRequest R (ad_TenantID input) (ad_ProjectID input) (ad_DecisionRequestID input)))
              (\<lambda>decision.
               if dr_DecisionType decision \<in> set wait_decision_types then applyTaskHumanWaitRelease R input decision
               else if dr_DecisionType decision = ''project_task_iteration_exhausted'' then iteration_exhausted input decision
               else if dr_DecisionType decision = ''project_task_approval'' then apply_gate_approval R input decision
               else ret []))"

definition preDispatchGateDecisionResolvedForDispatch :: "DecisionRequest \<Rightarrow> string \<Rightarrow> bool" where
  "preDispatchGateDecisionResolvedForDispatch decision signal =
     ((case dr_ProjectTaskID decision of None \<Rightarrow> False | Some t \<Rightarrow> t \<noteq> uuid_Nil) \<and> gate_linked decision \<and>
      EqualFold signal ''approved'' \<and> EqualFold (dr_StatusSnapshot decision) ''approved'' \<and>
      dr_DecisionType decision = ''project_task_approval'')"

section \<open>The table of gate results\<close>

record gate_row =
  gt_TenantID :: uuid
  gt_ProjectID :: uuid
  gt_ProjectTaskID :: uuid
  gt_AttemptID :: "uuid option"
  gt_Gate :: PreDispatchGateResult

definition same_gate :: "RecordPreDispatchGateResultRequest \<Rightarrow> gate_row \<Rightarrow> bool" where
  "same_gate req row =
     (gt_TenantID row = rr_TenantID req \<and> gt_ProjectTaskID row = rr_ProjectTaskID req \<and>
      gr_IdempotencyKey (gt_Gate row) = ev_IdempotencyKey (rr_Evaluation req))"

definition new_gate_row :: "uuid \<Rightarrow> RecordPreDispatchGateResultRequest \<Rightarrow> gate_row" where
  "new_gate_row newID req =
     (let ev = rr_Evaluation req; i = rr_Input req in
      \<lparr>gt_TenantID = rr_TenantID req, gt_ProjectID = rr_ProjectID req, gt_ProjectTaskID = rr_ProjectTaskID req,
       gt_AttemptID = None,
       gt_Gate =
         \<lparr>gr_ID = newID, gr_SelectedEmployeeID = gi_SelectedEmployeeID i, gr_AttemptNo = gi_AttemptNo i,
          gr_DispatchReason = gi_DispatchReason i, gr_IdempotencyKey = ev_IdempotencyKey ev,
          gr_DispatchToken = ev_DispatchToken ev, gr_Status = ev_Status ev, gr_Checks = ev_Checks ev,
          gr_Blockers = ev_Blockers ev, gr_HumanActionRequest = rr_HumanAction req, gr_RetryAfter = ev_RetryAfter ev,
          gr_DecisionRequestID = None, gr_CreatedEventID = None\<rparr>\<rparr>)"

definition reevaluated :: "RecordPreDispatchGateResultRequest \<Rightarrow> gate_row \<Rightarrow> gate_row" where
  "reevaluated req row =
     (let ev = rr_Evaluation req in
      row\<lparr>gt_Gate := (gt_Gate row)\<lparr>gr_Status := ev_Status ev, gr_Checks := ev_Checks ev, gr_Blockers := ev_Blockers ev,
            gr_HumanActionRequest := rr_HumanAction req, gr_RetryAfter := ev_RetryAfter ev\<rparr>\<rparr>)"

text \<open>The condition of \<^verbatim>\<open>ON CONFLICT ... DO UPDATE\<close>.\<close>

definition row_updatable :: "gate_status \<Rightarrow> gate_row \<Rightarrow> bool" where
  "row_updatable new row =
     (gt_AttemptID row = None \<and>
      (gr_DecisionRequestID (gt_Gate row) = None \<or>
       gr_Status (gt_Gate row) = WaitingHuman \<and> new \<noteq> WaitingHuman))"

definition CreateProjectTaskDispatchGateResult ::
    "uuid \<Rightarrow> RecordPreDispatchGateResultRequest \<Rightarrow> gate_row list \<Rightarrow> (gate_row list \<times> gate_row) option" where
  "CreateProjectTaskDispatchGateResult newID req rows =
     (case find (same_gate req) rows of
        None \<Rightarrow> (let row = new_gate_row newID req in Some (rows @ [row], row))
      | Some row \<Rightarrow>
          if row_updatable (ev_Status (rr_Evaluation req)) row
          then Some (map (\<lambda>r. if same_gate req r then reevaluated req r else r) rows, reevaluated req row)
          else None)"

definition RecordPreDispatchGateResult ::
    "uuid \<Rightarrow> (uuid \<Rightarrow> store_error option) \<Rightarrow> RecordPreDispatchGateResultRequest \<Rightarrow> gate_row list \<Rightarrow>
     gate_row list \<times> (store_error + PreDispatchGateResult)" where
  "RecordPreDispatchGateResult newID mark req rows =
     (case CreateProjectTaskDispatchGateResult newID req rows of
        Some (rows', row) \<Rightarrow>
          (case mark (gr_ID (gt_Gate row)) of
             Some e \<Rightarrow> (rows, Inl e)
           | None \<Rightarrow> (rows', Inr (gt_Gate row)))
      | None \<Rightarrow>
          (case find (\<lambda>r. same_gate req r \<and> gt_ProjectID r = rr_ProjectID req) rows of
             None \<Rightarrow> (rows, Inl ErrProjectNotFound)
           | Some row \<Rightarrow> (rows, Inr (gt_Gate row))))"

section \<open>What a started run rests on\<close>

lemma and_then_Inr: "and_then m f = Inr y \<longleftrightarrow> (\<exists>x. m = Inr x \<and> f x = Inr y)"
  by (cases m) (simp_all add: and_then_def)

lemma collect_Inr: "collect f xs = Inr ys \<Longrightarrow> list_all2 (\<lambda>x y. f x = Inr y) xs ys"
  by (induction xs arbitrary: ys) (auto split: sum.splits)

text \<open>What each stage of the loading leaves alone.\<close>

lemma load_attempt_keeps:
  "load_attempt R input w s = Inr s' \<Longrightarrow>
     gs_Task s' = gs_Task s \<and> gs_Risk s' = gs_Risk s \<and> gs_Budget s' = gs_Budget s"
  by (auto simp: load_attempt_def split: sum.splits if_splits)

lemma load_budget_keeps:
  "load_budget R input w s = Inr s' \<Longrightarrow> gs_Task s' = gs_Task s \<and> gs_Risk s' = gs_Risk s"
  by (auto simp: load_budget_def split: sum.splits if_splits option.splits)

lemma load_dependencies_facts:
  assumes "load_dependencies U stamp R input w s = Inr s'"
  shows "gs_Task s' = gs_Task s \<and> gs_Risk s' = gs_Risk s \<and> gs_Budget s' = gs_Budget s \<and>
     (\<exists>nodes. rp_ListProjectRuntimeNodes R (di_TenantID input) (di_ProjectID input) w = Inr nodes \<and>
        rs_PlacementPresent (gs_Runtime s') = (nodes \<noteq> [])) \<and>
     (\<exists>blockers. rp_ListProjectTaskDependencies R (di_TenantID input) (di_ProjectID input) [di_TaskID input] w = Inr blockers \<and>
        collect (load_dependency U stamp R input w) blockers = Inr (gs_Dependencies s'))"
  using assms by (auto simp: load_dependencies_def and_then_Inr)

lemma load_membership_keeps:
  "load_membership R input task w s = Inr s' \<Longrightarrow>
     gs_Task s' = gs_Task s \<and> gs_Risk s' = gs_Risk s \<and> gs_Runtime s' = gs_Runtime s \<and> gs_Dependencies s' = gs_Dependencies s \<and>
     gs_Budget s' = gs_Budget s"
  by (auto simp: load_membership_def and_then_Inr split: option.splits)

lemma metadata_keeps:
  "gs_Task (applyGateTaskMetadata task s) = gs_Task s" "gs_Risk (applyGateTaskMetadata task s) = gs_Risk s"
  "gs_Runtime (applyGateTaskMetadata task s) = gs_Runtime s" "gs_Dependencies (applyGateTaskMetadata task s) = gs_Dependencies s"
  by (simp_all add: applyGateTaskMetadata_def Let_def)

lemma load_risk_facts:
  assumes "load_risk R input task w s = Inr s'"
  shows "gs_Task s' = gs_Task s \<and> gs_Runtime s' = gs_Runtime s \<and> gs_Dependencies s' = gs_Dependencies s \<and> gs_Budget s' = gs_Budget s \<and>
     (if pt_RequiresHumanApproval task
      then preDispatchRiskApprovalGranted R (di_TenantID input) (di_ProjectID input) task w = Inr (\<not> risk_reason (gs_Risk s'))
      else gs_Risk s' = gs_Risk s)"
  using assms by (auto simp: load_risk_def and_then_Inr risk_reason_def split: if_splits)

lemma load_rest_keeps:
  "load_runtime S input task w s = Inr s' \<Longrightarrow> gs_Task s' = gs_Task s \<and> gs_Risk s' = gs_Risk s \<and>
     gs_Dependencies s' = gs_Dependencies s \<and> gs_Budget s' = gs_Budget s \<and>
     rs_PlacementPresent (gs_Runtime s') = rs_PlacementPresent (gs_Runtime s)"
  "load_node S input task w s = Inr s' \<Longrightarrow> gs_Task s' = gs_Task s \<and> gs_Risk s' = gs_Risk s \<and>
     gs_Dependencies s' = gs_Dependencies s \<and> gs_Budget s' = gs_Budget s \<and>
     rs_PlacementPresent (gs_Runtime s') = rs_PlacementPresent (gs_Runtime s)"
  "load_capabilities S input task w s = Inr s' \<Longrightarrow> gs_Task s' = gs_Task s \<and> gs_Risk s' = gs_Risk s \<and>
     gs_Dependencies s' = gs_Dependencies s \<and> gs_Budget s' = gs_Budget s \<and> gs_Runtime s' = gs_Runtime s"
  by (auto simp: load_runtime_def load_node_def load_capabilities_def and_then_Inr split: option.splits prod.splits)

lemma snapshot_facts:
  assumes "loadPreDispatchGateSnapshot U stamp S R input task w = Inr s"
  shows "gs_Task s = task"
    and "\<exists>nodes. rp_ListProjectRuntimeNodes R (di_TenantID input) (di_ProjectID input) w = Inr nodes \<and>
        rs_PlacementPresent (gs_Runtime s) = (nodes \<noteq> [])"
    and "\<exists>blockers. rp_ListProjectTaskDependencies R (di_TenantID input) (di_ProjectID input) [di_TaskID input] w = Inr blockers \<and>
        list_all2 (\<lambda>b d. load_dependency U stamp R input w b = Inr d) blockers (gs_Dependencies s)"
    and "pt_RequiresHumanApproval task \<Longrightarrow>
        preDispatchRiskApprovalGranted R (di_TenantID input) (di_ProjectID input) task w = Inr (\<not> risk_reason (gs_Risk s))"
    and "\<exists>budget. gs_Budget s = applyBudgetMetadata (pt_HandoffContract task) budget"
proof -
  from assms obtain s1 s2 s3 s4 s5 s6 s7 where
    s: "load_attempt R input w (base_snapshot task) = Inr s1" "load_budget R input w s1 = Inr s2"
      "load_dependencies U stamp R input w s2 = Inr s3" "load_membership R input task w s3 = Inr s4"
      "load_risk R input task w (applyGateTaskMetadata task s4) = Inr s5" "load_runtime S input task w s5 = Inr s6"
      "load_node S input task w s6 = Inr s7" "load_capabilities S input task w s7 = Inr s"
    by (auto simp: loadPreDispatchGateSnapshot_def and_then_Inr)
  note keeps = load_attempt_keeps [OF s(1)] load_budget_keeps [OF s(2)] load_membership_keeps [OF s(4)] metadata_keeps
    load_rest_keeps(1) [OF s(6)] load_rest_keeps(2) [OF s(7)] load_rest_keeps(3) [OF s(8)]
  note facts = load_dependencies_facts [OF s(3)] load_risk_facts [OF s(5)]
  show "gs_Task s = task" using keeps facts by (simp add: base_snapshot_def)
  show "\<exists>nodes. rp_ListProjectRuntimeNodes R (di_TenantID input) (di_ProjectID input) w = Inr nodes \<and>
      rs_PlacementPresent (gs_Runtime s) = (nodes \<noteq> [])"
    using keeps facts by auto
  show "\<exists>blockers. rp_ListProjectTaskDependencies R (di_TenantID input) (di_ProjectID input) [di_TaskID input] w = Inr blockers \<and>
      list_all2 (\<lambda>b d. load_dependency U stamp R input w b = Inr d) blockers (gs_Dependencies s)"
    using keeps facts collect_Inr by metis
  show "pt_RequiresHumanApproval task \<Longrightarrow>
      preDispatchRiskApprovalGranted R (di_TenantID input) (di_ProjectID input) task w = Inr (\<not> risk_reason (gs_Risk s))"
    using keeps facts by simp
  show "\<exists>budget. gs_Budget s = applyBudgetMetadata (pt_HandoffContract task) budget"
    using keeps facts by (auto simp: applyGateTaskMetadata_def Let_def)
qed

text \<open>A blocking task that is done for good: completed, with its latest result accepted.\<close>

definition blocker_accepted :: "'w dispatch_repository \<Rightarrow> DispatchProjectTaskInput \<Rightarrow> 'w \<Rightarrow> uuid \<Rightarrow> bool" where
  "blocker_accepted R input w b \<longleftrightarrow>
     (\<exists>blocker latest results r. pr_GetProjectTask R (di_TenantID input) b w = Inr blocker \<and>
        dt_ProjectID blocker = di_ProjectID input \<and> dt_Status blocker = ''completed'' \<and>
        dt_LatestTaskResultID blocker = Some latest \<and>
        rp_ListProjectTaskResults R (di_TenantID input) (di_ProjectID input) (pt_ID blocker) 100 w = Inr results \<and>
        r \<in> set results \<and> ptr_ID r = latest \<and> ProjectTaskResultAcceptedForDependencyUnlock r)"

lemma ready_dependency_accepted:
  assumes "load_dependency U stamp R input w b = Inr d" "dependency_ready d"
  shows "blocker_accepted R input w b"
  using assms
  by (auto simp: load_dependency_def dependency_ready_def dependencyAcceptanceSatisfied_def blocker_accepted_def Let_def
      dest: find_SomeD split: sum.splits if_splits option.splits)

text \<open>A risk approval: an approved decision of the dispatch gate for this very task, found through the task's wait or in
  the page of its decisions.\<close>

definition risk_approved :: "'w dispatch_repository \<Rightarrow> DispatchProjectTaskInput \<Rightarrow> DispatchTask \<Rightarrow> 'w \<Rightarrow> bool" where
  "risk_approved R input task w \<longleftrightarrow>
     (\<exists>d. gateRiskApprovalGranted d (pt_ID task) \<and>
        ((\<exists>i. dt_WaitingRequestID task = Some i \<and> rp_GetDecisionRequest R (di_TenantID input) (di_ProjectID input) i w = Inr d) \<or>
         (\<exists>ds. rp_ListDemandLaunchDecisionRequests R (di_TenantID input) (di_ProjectID input) [] [pt_ID task]
            gateRiskApprovalScanLimit w = Inr ds \<and> d \<in> set ds)))"

lemma granted_risk_approved:
  assumes "preDispatchRiskApprovalGranted R (di_TenantID input) (di_ProjectID input) task w = Inr True"
  shows "risk_approved R input task w"
  using assms
  by (auto simp: preDispatchRiskApprovalGranted_def risk_approved_def Let_def list_ex_iff split: sum.splits if_splits option.splits)

text \<open>Two documented laws of the repository: a recorded gate has the status of the evaluation that is recorded, and only
  a waiting gate is linked to a decision.\<close>

definition records_evaluation :: "'w dispatch_repository \<Rightarrow> bool" where
  "records_evaluation R \<longleftrightarrow>
     (\<forall>req w w' g. rp_RecordPreDispatchGateResult R req w = (w', Inr g) \<longrightarrow> gr_Status g = ev_Status (rr_Evaluation req))"

definition links_waiting_gates :: "'w dispatch_repository \<Rightarrow> bool" where
  "links_waiting_gates R \<longleftrightarrow>
     (\<forall>t p i g d w w' gate. rp_LinkPreDispatchGateDecisionRequest R t p i g d w = (w', Inr gate) \<longrightarrow> gr_Status gate = WaitingHuman)"

lemma bind_run_Inr:
  "bind_run m f \<sigma> = (\<sigma>', Inr y) \<longleftrightarrow> (\<exists>\<sigma>1 x. m \<sigma> = (\<sigma>1, Inr x) \<and> f x \<sigma>1 = (\<sigma>', Inr y))"
  by (auto simp: bind_run_def split: prod.splits sum.splits)

lemma run_Inr [simp]:
  "ret x \<sigma> = (\<sigma>', Inr y) \<longleftrightarrow> \<sigma>' = \<sigma> \<and> y = x"
  "fail e \<sigma> \<noteq> (\<sigma>', Inr y)"
  "reading f \<sigma> = (\<sigma>', Inr y) \<longleftrightarrow> \<sigma>' = \<sigma> \<and> f (fst \<sigma>) = Inr y"
  "writing g \<sigma> = (\<sigma>', Inr y) \<longleftrightarrow> g (fst \<sigma>) = (fst \<sigma>', Inr y) \<and> snd \<sigma>' = snd \<sigma>"
  by (auto simp: ret_def fail_def reading_def writing_def split: prod.splits)

lemma recorded_status:
  assumes "records_evaluation R" "recordEvaluatedGate U stamp R input gi ev \<sigma> = (\<sigma>', Inr gate)"
  shows "gr_Status gate = ev_Status ev"
proof -
  from assms(2) obtain req w w' where "rp_RecordPreDispatchGateResult R req w = (w', Inr gate)" "rr_Evaluation req = ev"
    unfolding recordEvaluatedGate_def by (fastforce simp: bind_run_Inr split: if_splits)
  with assms(1) show ?thesis unfolding records_evaluation_def by blast
qed

lemma linked_status:
  assumes "links_waiting_gates R" "gr_Status gate = WaitingHuman"
  shows "linked_decision R input gate i \<sigma> = (\<sigma>', Inr (linked, d)) \<Longrightarrow> gr_Status linked = WaitingHuman"
    and "awaited_decision R input gate i \<sigma> = (\<sigma>', Inr (linked, d)) \<Longrightarrow> gr_Status linked = WaitingHuman"
    and "minted_decision U S R input task gate action \<sigma> = (\<sigma>', Inr (linked, d)) \<Longrightarrow> gr_Status linked = WaitingHuman"
  using assms unfolding links_waiting_gates_def
  by (auto simp: linked_decision_def awaited_decision_def minted_decision_def link_gate_def bind_run_Inr split: if_splits)

lemma human_action_status:
  assumes "links_waiting_gates R" "gr_Status gate = WaitingHuman"
    "createGateHumanAction U S R input task gate action \<sigma> = (\<sigma>', Inr linked)"
  shows "gr_Status linked = WaitingHuman"
  using assms(3)
  by (auto simp: createGateHumanAction_def bind_run_Inr dest: linked_status [OF assms(1,2)] split: option.splits if_splits)

lemma settled_start:
  assumes "records_evaluation R" "links_waiting_gates R"
    "settle_gate U stamp S R input task ev \<sigma> = (\<sigma>', Inr decision)" "pg_AllowRunStart decision"
  shows "ev_Status ev = Passed"
proof -
  from assms(3) obtain \<sigma>1 gate where
    rec: "recordEvaluatedGate U stamp R input (gate_input input task) ev \<sigma> = (\<sigma>1, Inr gate)"
    and rest: "ask_and_decide U S R input task (ev_HumanActionRequest ev) gate \<sigma>1 = (\<sigma>', Inr decision)"
    by (auto simp: settle_gate_def bind_run_Inr split: if_splits)
  have status: "gr_Status gate = ev_Status ev" by (rule recorded_status [OF assms(1) rec])
  show ?thesis
  proof (cases "ev_HumanActionRequest ev \<noteq> None \<and> gr_Status gate = WaitingHuman")
    case True
    with rest obtain \<sigma>2 action linked where "createGateHumanAction U S R input task gate action \<sigma>1 = (\<sigma>2, Inr linked)"
      "decision = decide_gate linked"
      by (auto simp: ask_and_decide_def bind_run_Inr)
    then show ?thesis using human_action_status [OF assms(2) _, of gate U S input task action \<sigma>1 \<sigma>2 linked] True assms(4)
      by (simp add: decide_gate_def)
  next
    case False
    then have "decision = decide_gate gate" using rest by (auto simp: ask_and_decide_def split: option.splits if_splits)
    then show ?thesis using status assms(4) by (simp add: decide_gate_def)
  qed
qed


section \<open>Two ways around the gate\<close>

text \<open>
  What the planner writes into a task lifts the token fuse. If the hand-over contract of the task carries
  \<^verbatim>\<open>project_budget_allowed: true\<close>, the snapshot never shows an exhausted token budget, whatever the project
  has consumed: the flag is applied after the comparison of consumption and limit and overwrites its outcome.
\<close>

theorem planner_lifts_the_token_fuse:
  assumes "loadPreDispatchGateSnapshot U stamp S R input task w = Inr s"
    "gget (pt_HandoffContract task) ''project_budget_allowed'' = GBool True"
  shows "bs_ProjectBudgetAllowed (gs_Budget s) \<and> \<not> token_exhausted (gs_Budget s)"
proof -
  from snapshot_facts(5) [OF assms(1)] obtain budget where
    "gs_Budget s = applyBudgetMetadata (pt_HandoffContract task) budget" by blast
  then show ?thesis using assms(2) by (simp add: applyBudgetMetadata_def Let_def overwrite_def token_exhausted_def)
qed

lemma record_keeps_linked_pass:
  assumes "find (same_gate req) rows = Some row" "gt_ProjectID row = rr_ProjectID req"
    "gr_Status (gt_Gate row) = Passed" "gr_DecisionRequestID (gt_Gate row) \<noteq> None"
  shows "RecordPreDispatchGateResult newID mark req rows = (rows, Inr (gt_Gate row))"
proof -
  have "CreateProjectTaskDispatchGateResult newID req rows = None"
    using assms by (simp add: CreateProjectTaskDispatchGateResult_def row_updatable_def)
  moreover have "find (\<lambda>r. same_gate req r \<and> gt_ProjectID r = rr_ProjectID req) rows = Some row"
    using assms(1,2) by (induction rows) (auto split: if_splits)
  ultimately show ?thesis by (simp add: RecordPreDispatchGateResult_def)
qed


section \<open>Witnesses\<close>

definition example_task :: DispatchTask where
  "example_task = (gs_Task example_gate_snapshot)\<lparr>pt_HandoffContract := [(''project_budget_allowed'', GBool True)]\<rparr>"

definition gate_repository :: "(RecordPreDispatchGateResultRequest \<Rightarrow> 'w \<Rightarrow> 'w \<times> (store_error + PreDispatchGateResult)) \<Rightarrow>
     DispatchTask \<Rightarrow> uuid list \<Rightarrow> 'w dispatch_repository" where
  "gate_repository record task nodes =
     \<lparr>pr_GetProject = (\<lambda>t p w. Inr \<lparr>pj_CoordinationPolicy = [], pj_WorkspaceReadyStatus = ''ready'',
        pj_BudgetTokenLimit = Some 1000, pj_HumanOwnerUserID = 4\<rparr>),
      pr_GetProjectDemand = (\<lambda>t d w. Inl ErrProjectNotFound),
      pr_GetProjectTask = (\<lambda>t i w. Inr task),
      pr_ListPlanRevisionsForDemand = (\<lambda>t p d w. Inr []),
      pr_ListDemandAcceptanceCriteria = (\<lambda>t d r w. Inr []),
      pr_ListDemandCriterionVerdicts = (\<lambda>t d r w. Inr []),
      pr_SumProjectConsumedTokens = (\<lambda>t p w. Inr 5000),
      pr_ListPendingRecoveryDecisions = None,
      rp_GetCurrentProjectTaskAttempt = (\<lambda>t i w. Inl ErrProjectNotFound),
      rp_ListProjectRuntimeNodes = (\<lambda>t p w. Inr nodes),
      rp_ListProjectTaskDependencies = (\<lambda>t p is w. Inr []),
      rp_ListProjectTaskResults = (\<lambda>t p i n w. Inr []),
      rp_ListProjectMembers = (\<lambda>t p w. Inr [\<lparr>mem_PrincipalType = ''digital_employee'', mem_PrincipalID = 3,
        mem_ProjectRole = ''executor'', mem_Status = ''active''\<rparr>]),
      rp_GetDecisionRequest = (\<lambda>t p d w. Inl ErrProjectNotFound),
      rp_ListDemandLaunchDecisionRequests = (\<lambda>t p ds is n w. Inr []),
      rp_RecordPreDispatchGateResult = record,
      rp_ProjectTaskEventExists = (\<lambda>t p k a w. Inr True),
      rp_GetProjectEventByTypeAndActor = (\<lambda>t p k a w. Inr 1),
      rp_AppendProjectEvent = (\<lambda>e w. (w, Inr 1)),
      rp_LinkPreDispatchGateDecisionRequest = (\<lambda>t p i g d w. (w, Inl ErrProjectNotFound)),
      rp_CreateDecisionRequest = (\<lambda>c w. (w, Inl ErrProjectConflict)),
      rp_MoveProjectTaskToWaitingHuman = (\<lambda>m w. (w, Inr ())),
      rp_GetDecisionRequestByApprovalAndTask = None,
      rp_ReleaseProjectTaskHumanWait = None\<rparr>"

definition gate_store :: "'w dispatch_repository \<Rightarrow> 'w dispatch_store" where
  "gate_store R =
     \<lparr>st_policy = \<lparr>ps_repository = None, ps_scenarioTemplates = None, ps_autonomyLookup = None,
        ps_externalAutonomyLookup = None, ps_gateDecisionResolver = None\<rparr>,
      st_repository = Some R, st_employeeReader = None, st_nodeResolver = None, st_capabilityReader = None,
      st_approvals = Some (\<lambda>t k i w. Inr None, \<lambda>i w. (w, Inr None)), st_inbox = None, st_now = 9\<rparr>"

definition example_run_input :: DispatchProjectTaskInput where
  "example_run_input = \<lparr>di_TenantID = 1, di_ProjectID = 1, di_TaskID = 7, di_DispatchReason = ''manual''\<rparr>"

definition recorded_gate :: "RecordPreDispatchGateResultRequest \<Rightarrow> unit \<Rightarrow> unit \<times> (store_error + PreDispatchGateResult)" where
  "recorded_gate req w = ((), Inr (gt_Gate (new_gate_row 11 req)))"

definition open_repository :: "unit dispatch_repository" where
  "open_repository = gate_repository recorded_gate example_task [2]"

definition show_time :: "int \<Rightarrow> string" where
  "show_time t = Itoa t"

lemma example_start:
  "(case snd (RunPreDispatchGate decimal_uuid_lib (\<lambda>s. s) show_time (gate_store open_repository) example_run_input ((), [])) of
      Inl e \<Rightarrow> False | Inr d \<Rightarrow> pg_AllowRunStart d)"
  by code_simp


definition loaded :: "store_error + PreDispatchGateSnapshot \<Rightarrow> PreDispatchGateSnapshot" where
  "loaded r = (case r of Inr s \<Rightarrow> s | Inl e \<Rightarrow> example_gate_snapshot)"

definition is_loaded :: "store_error + PreDispatchGateSnapshot \<Rightarrow> bool" where
  "is_loaded r = (case r of Inr s \<Rightarrow> True | Inl e \<Rightarrow> False)"

lemma is_loaded_Inr: "is_loaded r \<Longrightarrow> r = Inr (loaded r)"
  by (simp add: is_loaded_def loaded_def split: sum.splits)

theorem planner_lifts_the_token_fuse_witness:
  "pr_SumProjectConsumedTokens open_repository 1 1 () = Inr 5000 \<and>
   \<not> token_exhausted (gs_Budget (loaded (loadPreDispatchGateSnapshot decimal_uuid_lib show_time (gate_store open_repository)
       open_repository example_run_input example_task ())))"
proof -
  let ?r = "loadPreDispatchGateSnapshot decimal_uuid_lib show_time (gate_store open_repository) open_repository
    example_run_input example_task ()"
  have "is_loaded ?r" by code_simp
  from planner_lifts_the_token_fuse [OF is_loaded_Inr [OF this]] show ?thesis
    by (simp add: example_task_def gget_def open_repository_def gate_repository_def)
qed

text \<open>The task of the second witness has no runtime node any more: the gate would block it.\<close>

definition stale_row :: gate_row where
  "stale_row =
     \<lparr>gt_TenantID = 1, gt_ProjectID = 1, gt_ProjectTaskID = 7, gt_AttemptID = None,
      gt_Gate = example_gate_result\<lparr>gr_Status := Passed, gr_CreatedEventID := Some 12,
        gr_IdempotencyKey := ''project-task:7:reason:manual:attempt:1:employee:3''\<rparr>\<rparr>"

definition table_repository :: "gate_row list dispatch_repository" where
  "table_repository = gate_repository (RecordPreDispatchGateResult 11 (\<lambda>i. None)) example_task []"

definition stale_snapshot :: PreDispatchGateSnapshot where
  "stale_snapshot = loaded (loadPreDispatchGateSnapshot decimal_uuid_lib show_time (gate_store table_repository) table_repository
     example_run_input example_task [stale_row])"

lemma stale_facts:
  "is_loaded (loadPreDispatchGateSnapshot decimal_uuid_lib show_time (gate_store table_repository) table_repository
     example_run_input example_task [stale_row])"
  "ev_Status (EvaluatePreDispatchGate decimal_uuid_lib (\<lambda>s. s) (gate_input example_run_input example_task) stale_snapshot 9)
     = GateBlocked"
  "ev_IdempotencyKey (EvaluatePreDispatchGate decimal_uuid_lib (\<lambda>s. s) (gate_input example_run_input example_task) stale_snapshot 9)
     = ''project-task:7:reason:manual:attempt:1:employee:3''"
  by code_simp+


end
