(* ===== verification/Violation_Detectors.thy ===== *)
theory Violation_Detectors
  imports Result_Verdicts Dispatch_Run
begin

text \<open>
  The violation detectors of the review gate, after \<^verbatim>\<open>workflow/projectcoordination/detector.go\<close>,
  \<^verbatim>\<open>detector_registry.go\<close> and \<^verbatim>\<open>review_gate.go\<close>: the artifact that is taken from a task result, the rule
  detector for leaked secrets with its four regular expressions, the detector that asks a language model, the conditions
  a project has enabled, and the outcome that the findings add up to.

  A regular expression of the source is a sequence of single characters and repetitions, and is matched as Go matches
  it, leftmost and greedy. The language model is a function that may change the world (a type variable), and the JSON
  parser is a parameter. The claims say which texts count as a leak and when a finding holds the demand.
\<close>

section \<open>Regular expressions\<close>

datatype re_item = Char1 "char \<Rightarrow> bool" | AtLeast nat "char \<Rightarrow> bool"

type_synonym regex = "re_item list"

definition lit :: "string \<Rightarrow> regex" where
  "lit s = map (\<lambda>c. Char1 ((=) c)) s"

fun first_some :: "('a \<Rightarrow> 'b option) \<Rightarrow> 'a list \<Rightarrow> 'b option" where
  "first_some f [] = None"
| "first_some f (x # xs) = (case f x of None \<Rightarrow> first_some f xs | Some y \<Rightarrow> Some y)"

lemma first_some_cong [fundef_cong]:
  "xs = ys \<Longrightarrow> (\<And>x. x \<in> set ys \<Longrightarrow> f x = g x) \<Longrightarrow> first_some f xs = first_some g ys"
  by (induction xs arbitrary: ys) (auto split: option.splits)

text \<open>The length of the match at the front of the text, a repetition trying its longest run first.\<close>

fun match_here :: "regex \<Rightarrow> string \<Rightarrow> nat option" where
  "match_here [] s = Some 0"
| "match_here (Char1 P # r) [] = None"
| "match_here (Char1 P # r) (c # s) = (if P c then map_option Suc (match_here r s) else None)"
| "match_here (AtLeast n P # r) s =
     first_some (\<lambda>k. map_option ((+) k) (match_here r (drop k s))) (rev [n..<Suc (length (takeWhile P s))])"

text \<open>The text of the leftmost match.\<close>

fun FindString :: "regex \<Rightarrow> string \<Rightarrow> string option" where
  "FindString r [] = (case match_here r [] of Some m \<Rightarrow> Some [] | None \<Rightarrow> None)"
| "FindString r (c # s) = (case match_here r (c # s) of Some m \<Rightarrow> Some (take m (c # s)) | None \<Rightarrow> FindString r s)"

definition in_range :: "char \<Rightarrow> char \<Rightarrow> char \<Rightarrow> bool" where
  "in_range lo hi c \<longleftrightarrow> (of_char lo :: nat) \<le> of_char c \<and> (of_char c :: nat) \<le> of_char hi"

definition re_upper :: "char \<Rightarrow> bool" where "re_upper = in_range (CHR ''A'') (CHR ''Z'')"
definition re_lower :: "char \<Rightarrow> bool" where "re_lower = in_range (CHR ''a'') (CHR ''z'')"
definition re_digit :: "char \<Rightarrow> bool" where "re_digit = in_range (CHR ''0'') (CHR ''9'')"
definition re_space :: "char \<Rightarrow> bool" where
  "re_space c \<longleftrightarrow> c \<in> {CHR 0x09, CHR 0x0A, CHR 0x0C, CHR 0x0D, CHR '' ''}"
definition re_quote :: "char \<Rightarrow> bool" where "re_quote c \<longleftrightarrow> c = CHR 0x22 \<or> c = CHR 0x27"

definition re_openai :: regex where
  "re_openai = lit ''sk-'' @ [AtLeast 16 (\<lambda>c. re_upper c \<or> re_lower c \<or> re_digit c)]"
definition re_aws :: regex where
  "re_aws = lit ''AKIA'' @ [AtLeast 12 (\<lambda>c. re_digit c \<or> re_upper c)]"
definition re_pem :: regex where
  "re_pem = lit ''-----BEGIN '' @ [AtLeast 0 (\<lambda>c. re_upper c \<or> c = CHR '' '')] @ lit ''PRIVATE KEY-----''"
definition re_password :: regex where
  "re_password = lit ''password'' @ [AtLeast 0 re_space, Char1 ((=) (CHR ''='')), AtLeast 0 re_space, Char1 re_quote,
     AtLeast 1 (\<lambda>c. \<not> re_quote c), Char1 re_quote]"

definition secretLeakRules :: "(string \<times> regex) list" where
  "secretLeakRules =
     [(''OpenAI-style API key (sk-...)'', re_openai), (''AWS access key ID (AKIA...)'', re_aws),
      (''PEM private key block'', re_pem), (''inline password assignment'', re_password)]"

section \<open>Artifacts and detectors\<close>

record DetectionArtifact =
  da_Summary :: string
  da_Deliverables :: "string list"
  da_EvidenceRefs :: "string list"
  da_DiffText :: string

record DetectionResult =
  dn_Detected :: bool
  dn_Severity :: string
  dn_ConditionKey :: string
  dn_Finding :: string
  dn_EvidenceRefs :: "string list"

definition not_detected :: DetectionResult where
  "not_detected = \<lparr>dn_Detected = False, dn_Severity = [], dn_ConditionKey = [], dn_Finding = [], dn_EvidenceRefs = []\<rparr>"

text \<open>The fields of a result contract that only the review reads.\<close>

record TaskResultChange =
  tch_Type :: string
  tch_Ref :: string
  tch_Summary :: string

record ReviewedContract = TaskResultContract +
  rvc_ChangesMade :: "TaskResultChange list"

fun firstNonEmptyRef :: "string list \<Rightarrow> string" where
  "firstNonEmptyRef [] = []"
| "firstNonEmptyRef (v # vs) = (if TrimSpace v \<noteq> [] then TrimSpace v else firstNonEmptyRef vs)"

definition adversarialEvidenceFromResult :: "ReviewedContract option \<Rightarrow> string \<times> string list \<times> string list" where
  "adversarialEvidenceFromResult result =
     (case result of
        None \<Rightarrow> ([], [], [])
      | Some contract \<Rightarrow>
          (trc_Summary contract,
           filter (\<lambda>name. name \<noteq> []) (map (\<lambda>d. TrimSpace (trd_Name d)) (trc_Deliverables contract)),
           filter (\<lambda>v. v \<noteq> [])
             (map (\<lambda>ref. firstNonEmptyRef [trr_Ref ref, trr_URI ref, trr_URL ref, trr_ID ref]) (trc_EvidenceRefs contract))))"

definition inlineDiffText :: "ReviewedContract \<Rightarrow> string" where
  "inlineDiffText contract =
     (let parts = filter (\<lambda>v. v \<noteq> []) (map (\<lambda>d. TrimSpace (trd_Value d)) (trc_Deliverables contract)) @
                  filter (\<lambda>v. v \<noteq> []) (map (\<lambda>c. TrimSpace (tch_Summary c)) (rvc_ChangesMade contract))
      in if parts = [] then trc_Summary contract else Join parts [CHR 0x0A])"

definition assembleDetectionArtifact :: "ReviewedContract option \<Rightarrow> DetectionArtifact" where
  "assembleDetectionArtifact result =
     (case adversarialEvidenceFromResult result of
        (summary, deliverables, evidenceRefs) \<Rightarrow>
          \<lparr>da_Summary = summary, da_Deliverables = deliverables, da_EvidenceRefs = evidenceRefs,
           da_DiffText = (case result of None \<Rightarrow> [] | Some contract \<Rightarrow> inlineDiffText contract)\<rparr>)"

definition redactSecret :: "string \<Rightarrow> string" where
  "redactSecret matched = (if length matched > 4 then take 4 matched else matched) @ ''****''"

definition scanned_texts :: "DetectionArtifact \<Rightarrow> string list" where
  "scanned_texts art = (if da_DiffText art \<noteq> [] then [da_DiffText art] else []) @ da_Deliverables art"

definition leak_finding :: "string \<Rightarrow> string \<Rightarrow> string" where
  "leak_finding label matched = (byte_string [230, 163, 128, 230, 181, 139, 229, 136, 176, 231, 150, 145, 228, 188,
    188, 229, 175, 134, 233, 146, 165, 230, 179, 132, 230, 188, 143, 239, 188, 136, 230, 168, 161, 229, 188, 143,
      239, 188, 154]) @ label @ (byte_string [239, 188, 137, 239, 188, 140, 229, 145, 189, 228, 184, 173, 231, 137,
        135, 230, 174, 181, 229, 183, 178, 232, 132, 177, 230, 149, 143, 239, 188, 154]) @ redactSecret matched"

definition RuleDetect :: "string \<Rightarrow> string \<Rightarrow> (string \<times> regex) list \<Rightarrow> DetectionArtifact \<Rightarrow> DetectionResult" where
  "RuleDetect key severity rules art =
     (case first_some (\<lambda>s. first_some (\<lambda>(label, re). map_option (Pair label) (FindString re s)) rules)
             (scanned_texts art) of
        None \<Rightarrow> not_detected
      | Some (label, matched) \<Rightarrow>
          \<lparr>dn_Detected = True, dn_Severity = severity, dn_ConditionKey = key, dn_Finding = leak_finding label matched,
           dn_EvidenceRefs = []\<rparr>)"

text \<open>The rule detector uses no state; like every detector it is a function of artifact and world.\<close>

definition newSecretLeakDetector :: "DetectionArtifact \<Rightarrow> 'w \<Rightarrow> 'w \<times> DetectionResult" where
  "newSecretLeakDetector art w = (w, RuleDetect ''secret_leak'' ''block'' secretLeakRules art)"

record OpenAICompatibleChatRequest =
  ocr_Model :: string
  ocr_System :: string
  ocr_User :: string
  ocr_MaxTokens :: int
  ocr_Temperature :: rat

type_synonym 'w chat_client = "OpenAICompatibleChatRequest \<Rightarrow> 'w \<Rightarrow> 'w \<times> (store_error + string)"

definition maxDetectorArtifactBytes :: nat where
  "maxDetectorArtifactBytes = 40000"

definition truncateForDetectorPrompt :: "string \<Rightarrow> string" where
  "truncateForDetectorPrompt txt =
     (if length txt \<le> maxDetectorArtifactBytes then txt
      else take maxDetectorArtifactBytes txt @ [CHR 0x0A] @ (byte_string [226, 128, 166, 40, 116, 114, 117, 110, 99,
        97, 116, 101, 100, 41]))"

definition buildLLMDetectorUserPrompt :: "DetectionArtifact \<Rightarrow> string" where
  "buildLLMDetectorUserPrompt art =
     (let nl = [CHR 0x0A] in
      (byte_string [228, 187, 165, 228, 184, 139, 230, 152, 175, 233, 156, 128, 232, 166, 129, 230, 163, 128, 230,
        181, 139, 231, 154, 132, 231, 156, 159, 229, 174, 158, 229, 183, 165, 228, 187, 182, 239, 188, 136, 229, 174, 158, 233, 153, 133, 228, 187, 163, 231, 160, 129, 47, 228, 186, 167, 229, 135, 186, 239, 188, 140, 228, 184, 141, 230, 152, 175, 228, 187, 187, 229, 138, 161, 230, 143, 143, 232, 191, 176, 230, 136, 150, 232, 174, 161, 229, 136, 146, 239, 188, 140, 228, 185, 159, 228, 184, 141, 230, 152, 175, 228, 187, 187, 228, 189, 149, 226, 128, 156, 229, 183, 178, 229, 174, 140, 230, 136, 144, 226, 128, 157, 231, 154, 132, 229, 143, 153, 232, 191, 176, 230, 128, 167, 229, 163, 176, 230, 152, 142, 239, 188, 137, 239, 188, 154]) @ nl @ nl @
      (if da_DiffText art \<noteq> [] then (byte_string [231, 156, 159, 229, 174, 158, 32, 100, 105, 102, 102, 239,
        188, 154]) @ nl @ truncateForDetectorPrompt (da_DiffText art) @ nl @ nl else []) @
      (if da_Deliverables art \<noteq> []
       then (byte_string [228, 186, 164, 228, 187, 152, 231, 137, 169, 230, 184, 133, 229, 141, 149, 239, 188, 154]) @ nl @
            concat (map (\<lambda>d. ''- '' @ truncateForDetectorPrompt d @ nl) (da_Deliverables art)) @ nl
       else []) @
      (if da_Summary art \<noteq> []
       then (byte_string [230, 145, 152, 232, 166, 129, 239, 188, 136, 228, 187, 133, 228, 190, 155, 229, 143, 130,
         232, 128, 131, 239, 188, 140, 229, 136, 164, 229, 174, 154, 229, 191, 133, 233, 161, 187, 229, 159, 186, 228, 186, 142, 228, 184, 138, 233, 157, 162, 231, 154, 132, 231, 156, 159, 229, 174, 158, 32, 100, 105, 102, 102, 47, 228, 186, 164, 228, 187, 152, 231, 137, 169, 239, 188, 140, 228, 184, 141, 232, 131, 189, 228, 187, 133, 229, 135, 173, 232, 191, 153, 230, 174, 181, 230, 145, 152, 232, 166, 129, 228, 184, 139, 231, 187, 147, 232, 174, 186, 239, 188, 137, 239, 188, 154]) @ nl @
            truncateForDetectorPrompt (da_Summary art) @ nl @ nl
       else []) @
      (byte_string [229, 143, 170, 232, 190, 147, 229, 135, 186, 32, 74, 83, 79, 78, 239, 188, 154, 123, 34, 100,
        101, 116, 101, 99, 116, 101, 100, 34, 58, 32, 98, 111, 111, 108, 44, 32, 34, 102, 105, 110, 100, 105, 110, 103, 34, 58, 32, 115, 116, 114, 105, 110, 103, 125]))"

text \<open>\<^verbatim>\<open>strings.TrimSuffix\<close>.\<close>

definition TrimSuffix :: "string \<Rightarrow> string \<Rightarrow> string" where
  "TrimSuffix s p = (if suffix p s then take (length s - length p) s else s)"

text \<open>Reading a boolean field into a Go \<^verbatim>\<open>bool\<close>: a missing field or null leaves it false.\<close>

fun dec_bool :: "gval \<Rightarrow> bool option" where
  "dec_bool GNil = Some False"
| "dec_bool (GBool b) = Some b"
| "dec_bool _ = None"

definition decodeLLMDetectionReply :: "(string \<Rightarrow> gval option) \<Rightarrow> string \<Rightarrow> (bool \<times> string) option" where
  "decodeLLMDetectionReply parse content =
     (let t0 = TrimSpace content;
          t1 = TrimPrefix t0 (byte_string [96, 96, 96, 106, 115, 111, 110]);
          t2 = TrimPrefix t1 (byte_string [96, 96, 96]);
          t3 = TrimSuffix t2 (byte_string [96, 96, 96])
      in case parse (TrimSpace t3) of
           None \<Rightarrow> None
         | Some GNil \<Rightarrow> Some (False, [])
         | Some (GMap m) \<Rightarrow>
             Option.bind (dec_bool (jfield m ''detected'')) (\<lambda>detected.
             Option.bind (dec_string (jfield m ''finding'')) (\<lambda>finding. Some (detected, finding)))
         | Some _ \<Rightarrow> None)"

definition LLMPromptDetect ::
    "(string \<Rightarrow> gval option) \<Rightarrow> string \<Rightarrow> string \<Rightarrow> string \<Rightarrow> string \<Rightarrow> 'w chat_client option \<Rightarrow>
     DetectionArtifact \<Rightarrow> 'w \<Rightarrow> 'w \<times> DetectionResult" where
  "LLMPromptDetect parse key severity systemPrompt model client art w =
     (case client of
        None \<Rightarrow> (w, not_detected)
      | Some chat \<Rightarrow>
          (case chat \<lparr>ocr_Model = model, ocr_System = systemPrompt, ocr_User = buildLLMDetectorUserPrompt art,
                      ocr_MaxTokens = 512, ocr_Temperature = 0\<rparr> w of
             (w', Inl _) \<Rightarrow> (w', not_detected)
           | (w', Inr content) \<Rightarrow>
               (case decodeLLMDetectionReply parse content of
                  Some (True, finding) \<Rightarrow>
                    (w', \<lparr>dn_Detected = True, dn_Severity = severity, dn_ConditionKey = key, dn_Finding = finding,
                          dn_EvidenceRefs = []\<rparr>)
                | _ \<Rightarrow> (w', not_detected))))"

definition codeReviewSystemPrompt :: string where
  "codeReviewSystemPrompt =
     Join [(byte_string [228, 189, 160, 230, 152, 175, 228, 187, 163, 231, 160, 129, 229, 174, 161, 230, 159, 165,
       232, 191, 157, 229, 143, 141, 230, 163, 128, 230, 181, 139, 229, 153, 168, 239, 188, 136, 118, 105, 111, 108, 97, 116, 105, 111, 110, 32, 100, 101, 116, 101, 99, 116, 111, 114, 239, 188, 137, 239, 188, 140, 228, 184, 141, 230, 152, 175, 230, 149, 180, 228, 189, 147, 232, 180, 168, 233, 135, 143, 232, 175, 132, 228, 188, 176, 229, 153, 168, 227, 128, 130]),
       (byte_string [228, 187, 187, 229, 138, 161, 239, 188, 154, 229, 143, 170, 229, 136, 164, 230, 150, 173, 232,
         191, 153, 228, 187, 189, 230, 148, 185, 229, 138, 168, 230, 152, 175, 229, 144, 166, 42, 42, 229, 173, 152, 229, 156, 168, 42, 42, 228, 187, 165, 228, 184, 139, 232, 191, 157, 229, 143, 141, 231, 177, 187, 229, 136, 171, 228, 185, 139, 228, 184, 128, 239, 188, 154, 230, 152, 142, 230, 152, 190, 231, 154, 132, 228, 187, 163, 231, 160, 129, 231, 188, 186, 233, 153, 183, 227, 128, 129, 233, 128, 187, 232, 190, 145, 233, 148, 153, 232, 175, 175, 227, 128, 129, 229, 174, 137, 229, 133, 168, 230, 188, 143, 230, 180, 158, 239, 188, 136, 229, 166, 130, 230, 179, 168, 229, 133, 165, 227, 128, 129, 232, 182, 138, 230, 157, 131, 227, 128, 129, 229, 175, 134, 233, 146, 165, 231, 161, 172, 231, 188, 150, 231, 160, 129, 239, 188, 137, 227, 128, 129, 228, 188, 154, 229, 175, 188, 232, 135, 180, 232, 191, 144, 232, 161, 140, 230, 151, 182, 229, 180, 169, 230, 186, 131, 230, 136, 150, 230, 149, 176, 230, 141, 174, 230, 141, 159, 229, 157, 143, 231, 154, 132, 233, 151, 174, 233, 162, 152, 227, 128, 130]),
       (byte_string [229, 143, 170, 232, 190, 147, 229, 135, 186, 32, 74, 83, 79, 78, 239, 188, 154, 123, 34, 100,
         101, 116, 101, 99, 116, 101, 100, 34, 58, 32, 98, 111, 111, 108, 44, 32, 34, 102, 105, 110, 100, 105, 110, 103, 34, 58, 32, 115, 116, 114, 105, 110, 103, 125, 227, 128, 130, 228, 184, 141, 232, 166, 129, 232, 190, 147, 229, 135, 186, 228, 187, 187, 228, 189, 149, 229, 133, 182, 228, 187, 150, 230, 150, 135, 229, 173, 151, 239, 188, 140, 228, 184, 141, 232, 166, 129, 231, 148, 168, 32, 109, 97, 114, 107, 100, 111, 119, 110, 32, 228, 187, 163, 231, 160, 129, 229, 157, 151, 229, 140, 133, 232, 163, 185, 227, 128, 130]),
       (byte_string [229, 166, 130, 230, 158, 156, 228, 184, 141, 231, 161, 174, 229, 174, 154, 227, 128, 129, 232,
         175, 129, 230, 141, 174, 228, 184, 141, 232, 182, 179, 227, 128, 129, 230, 136, 150, 230, 156, 170, 229, 143, 145, 231, 142, 176, 228, 184, 138, 232, 191, 176, 228, 187, 187, 228, 189, 149, 232, 191, 157, 229, 143, 141, 231, 177, 187, 229, 136, 171, 239, 188, 140, 232, 190, 147, 229, 135, 186, 32, 100, 101, 116, 101, 99, 116, 101, 100, 61, 102, 97, 108, 115, 101, 239, 188, 140, 102, 105, 110, 100, 105, 110, 103, 32, 231, 149, 153, 231, 169, 186, 229, 173, 151, 231, 172, 166, 228, 184, 178, 227, 128, 130]),
       (byte_string [228, 184, 141, 232, 166, 129, 232, 175, 132, 228, 187, 183, 232, 191, 153, 228, 187, 189, 230,
         148, 185, 229, 138, 168, 230, 149, 180, 228, 189, 147, 229, 165, 189, 229, 157, 143, 239, 188, 140, 228, 184, 141, 232, 166, 129, 231, 187, 153, 229, 135, 186, 230, 128, 187, 228, 189, 147, 231, 187, 147, 232, 174, 186, 239, 188, 140, 228, 184, 141, 232, 166, 129, 229, 136, 164, 230, 150, 173, 229, 174, 131, 230, 152, 175, 229, 144, 166, 226, 128, 156, 229, 129, 154, 229, 175, 185, 228, 186, 134, 226, 128, 157, 230, 136, 150, 229, 183, 178, 231, 187, 143, 232, 190, 190, 230, 136, 144, 233, 156, 128, 230, 177, 130, 226, 128, 148, 226, 128, 148, 229, 143, 170, 230, 163, 128, 230, 181, 139, 230, 152, 175, 229, 144, 166, 42, 42, 229, 173, 152, 229, 156, 168, 42, 42, 228, 184, 138, 233, 157, 162, 229, 136, 151, 229, 135, 186, 231, 154, 132, 232, 191, 157, 229, 143, 141, 231, 177, 187, 229, 136, 171, 227, 128, 130])]
       [CHR 0x0A]"

definition newCodeReviewDetector ::
    "(string \<Rightarrow> gval option) \<Rightarrow> 'w chat_client option \<Rightarrow> string \<Rightarrow> DetectionArtifact \<Rightarrow> 'w \<Rightarrow> 'w \<times> DetectionResult" where
  "newCodeReviewDetector parse client model = LLMPromptDetect parse ''code_review'' ''major'' codeReviewSystemPrompt model client"

section \<open>The conditions of a project\<close>

abbreviation reviewGateActionBlock :: string where "reviewGateActionBlock \<equiv> ''block''"
abbreviation reviewGateActionNeedHuman :: string where "reviewGateActionNeedHuman \<equiv> ''need_human''"
abbreviation reviewGateActionRecordOnly :: string where "reviewGateActionRecordOnly \<equiv> ''record_only''"
abbreviation reviewGateActionOff :: string where "reviewGateActionOff \<equiv> ''off''"

record 'w ConditionSpec =
  csp_Key :: string
  csp_Kind :: string
  csp_DefaultAction :: string
  csp_Detector :: "DetectionArtifact \<Rightarrow> 'w \<Rightarrow> 'w \<times> DetectionResult"

record 'w EnabledCondition =
  enc_Spec :: "'w ConditionSpec"
  enc_Action :: string

definition isValidReviewGateAction :: "string \<Rightarrow> bool" where
  "isValidReviewGateAction s = (s \<in> {reviewGateActionBlock, reviewGateActionNeedHuman, reviewGateActionRecordOnly})"

definition standardConditions :: "(string \<Rightarrow> gval option) \<Rightarrow> 'w chat_client option \<Rightarrow> string \<Rightarrow> 'w ConditionSpec list" where
  "standardConditions parse client model =
     [\<lparr>csp_Key = ''secret_leak'', csp_Kind = ''rule'', csp_DefaultAction = reviewGateActionBlock,
       csp_Detector = newSecretLeakDetector\<rparr>,
      \<lparr>csp_Key = ''code_review'', csp_Kind = ''llm'', csp_DefaultAction = reviewGateActionNeedHuman,
       csp_Detector = newCodeReviewDetector parse client model\<rparr>]"

definition reviewGateConditionOverrides :: "gmap \<Rightarrow> (string \<times> string) list option" where
  "reviewGateConditionOverrides policy =
     (case gget policy ''review_gate_conditions'' of
        GMap m \<Rightarrow> Some (List.map_filter (\<lambda>(k, v). case v of GStr s \<Rightarrow> Some (k, s) | _ \<Rightarrow> None) m)
      | _ \<Rightarrow> None)"

text \<open>The action of one condition, or nothing when it is turned off.\<close>

definition resolved_action :: "(string \<times> string) list option \<Rightarrow> 'w ConditionSpec \<Rightarrow> string option" where
  "resolved_action overrides spec =
     (case overrides of
        None \<Rightarrow> Some (csp_DefaultAction spec)
      | Some m \<Rightarrow>
          (case map_of m (csp_Key spec) of
             None \<Rightarrow> Some (csp_DefaultAction spec)
           | Some raw \<Rightarrow>
               if raw = reviewGateActionOff then None
               else if isValidReviewGateAction raw then Some raw
               else Some (csp_DefaultAction spec)))"

definition enabledConditions :: "gmap \<Rightarrow> 'w ConditionSpec list \<Rightarrow> 'w EnabledCondition list" where
  "enabledConditions policy specs =
     List.map_filter
       (\<lambda>spec. map_option (\<lambda>action. \<lparr>enc_Spec = spec, enc_Action = action\<rparr>)
                 (resolved_action (reviewGateConditionOverrides policy) spec)) specs"

text \<open>\<open>int32FromAny\<close> on the values that JSON decodes to: a floating point number is truncated towards zero. What Go
  makes of a number outside of the 32-bit range depends on the processor and is the parameter \<open>wide\<close>.\<close>

definition truncate_rat :: "rat \<Rightarrow> int" where
  "truncate_rat q = (if 0 \<le> q then \<lfloor>q\<rfloor> else - \<lfloor>- q\<rfloor>)"

fun int32FromAny :: "(rat \<Rightarrow> int) \<Rightarrow> gval \<Rightarrow> int option" where
  "int32FromAny wide (GNum q _) =
     Some (let i = truncate_rat q in if - (2 ^ 31) \<le> i \<and> i < 2 ^ 31 then i else int32 (wide q))"
| "int32FromAny wide _ = None"

definition reviewGateMinorTolerance :: "(rat \<Rightarrow> int) \<Rightarrow> gmap \<Rightarrow> int" where
  "reviewGateMinorTolerance wide policy =
     (case int32FromAny wide (gget policy ''review_gate_minor_tolerance'') of
        Some v \<Rightarrow> if v > 0 then v else 0 | None \<Rightarrow> 0)"

section \<open>The outcome\<close>

record ReviewGateOutcome =
  ro_Violated :: bool
  ro_Action :: string
  ro_Findings :: "DetectionResult list"

definition isHoldingAction :: "string \<Rightarrow> bool" where
  "isHoldingAction action = (action = reviewGateActionBlock \<or> action = reviewGateActionNeedHuman)"

definition stricterReviewGateAction :: "string \<Rightarrow> string \<Rightarrow> string" where
  "stricterReviewGateAction current candidate =
     (if current = reviewGateActionBlock \<or> candidate = reviewGateActionBlock then reviewGateActionBlock
      else if current = [] then candidate else current)"

text \<open>The first loop: the findings with the actions of their conditions.\<close>

fun run_detectors ::
    "DetectionArtifact \<Rightarrow> 'w EnabledCondition list \<Rightarrow> 'w \<Rightarrow> 'w \<times> (DetectionResult \<times> string) list" where
  "run_detectors art [] w = (w, [])"
| "run_detectors art (cond # conds) w =
     (case csp_Detector (enc_Spec cond) art w of
        (w1, res) \<Rightarrow>
          (case run_detectors art conds w1 of
             (w2, scored) \<Rightarrow> (w2, if dn_Detected res then (res, enc_Action cond) # scored else scored)))"

definition minor_holding :: "DetectionResult \<times> string \<Rightarrow> bool" where
  "minor_holding sf = (isHoldingAction (snd sf) \<and> dn_Severity (fst sf) = ''minor'')"

definition counts :: "bool \<Rightarrow> DetectionResult \<times> string \<Rightarrow> bool" where
  "counts minorExceeded sf =
     (isHoldingAction (snd sf) \<and> \<not> (dn_Severity (fst sf) = ''minor'' \<and> \<not> minorExceeded))"

definition review_outcome :: "(DetectionResult \<times> string) list \<Rightarrow> int \<Rightarrow> ReviewGateOutcome" where
  "review_outcome scored minorTolerance =
     (let findings = map fst scored;
          minorExceeded = (int (length (filter minor_holding scored)) > minorTolerance);
          (violated, strictest) =
            foldl (\<lambda>(violated, strictest) sf.
                if counts minorExceeded sf then (True, stricterReviewGateAction strictest (snd sf)) else (violated, strictest))
              (False, []) scored
      in if findings = [] \<or> \<not> violated then \<lparr>ro_Violated = False, ro_Action = [], ro_Findings = findings\<rparr>
         else \<lparr>ro_Violated = True, ro_Action = strictest, ro_Findings = findings\<rparr>)"

definition runReviewGate ::
    "DetectionArtifact \<Rightarrow> 'w EnabledCondition list \<Rightarrow> int \<Rightarrow> 'w \<Rightarrow> 'w \<times> ReviewGateOutcome" where
  "runReviewGate art enabled minorTolerance w =
     (case run_detectors art enabled w of (w', scored) \<Rightarrow> (w', review_outcome scored minorTolerance))"

definition finding_text :: "DetectionResult \<Rightarrow> string" where
  "finding_text f =
     (let key = (if dn_ConditionKey f = [] then ''unknown'' else dn_ConditionKey f);
          finding = TrimSpace (dn_Finding f)
      in key @ '': '' @ (if finding = [] then (byte_string [239, 188, 136, 230, 151, 160, 232, 175, 180, 230, 152,
        142, 239, 188, 137]) else finding))"

definition reviewGateOutcomeReason :: "ReviewGateOutcome \<Rightarrow> string" where
  "reviewGateOutcomeReason outcome =
     (if \<not> ro_Violated outcome
      then (if ro_Findings outcome = [] then (byte_string [230, 163, 128, 230, 181, 139, 233, 151, 168, 230, 151,
        160, 229, 145, 189, 228, 184, 173, 239, 188, 154, 233, 187, 152, 232, 174, 164, 230, 148, 190, 232, 161,
          140]) else (byte_string [230, 163, 128, 230, 181, 139, 233, 151, 168, 229, 145, 189, 228, 184, 173, 229,
            157, 135, 228, 184, 186, 232, 174, 176, 229, 189, 149, 231, 186, 167, 47, 229, 156, 168, 229, 174, 185, 229, 191, 141, 232, 140, 131, 229, 155, 180, 229, 134, 133, 239, 188, 154, 233, 187, 152, 232, 174, 164, 230, 148, 190, 232, 161, 140]))
      else (byte_string [230, 163, 128, 230, 181, 139, 233, 151, 168, 32, 72, 79, 76, 68, 239, 188, 136, 229, 138,
        168, 228, 189, 156, 230, 161, 163, 32]) @ ro_Action outcome @ (byte_string [239, 188, 137, 239, 188, 154]) @
           Join (map finding_text (ro_Findings outcome)) (byte_string [239, 188, 155]))"

definition reviewGateEvidenceRefs :: "ReviewGateOutcome \<Rightarrow> string list" where
  "reviewGateEvidenceRefs outcome = foldl add_seen [] (map TrimSpace (concat (map dn_EvidenceRefs (ro_Findings outcome))))"

text \<open>The row that \<open>projectReviewGateVerdict\<close> writes.\<close>

definition review_gate_row :: "string \<Rightarrow> ReviewGateOutcome \<Rightarrow> DemandCriterionVerdict" where
  "review_gate_row criterionID outcome =
     \<lparr>dcv_CriterionID = criterionID, dcv_Verdict = (if ro_Violated outcome then v_unsatisfied else v_satisfied),
      dcv_JudgeType = judge_review_gate, dcv_JudgeID = uuid_Nil, dcv_Reason = reviewGateOutcomeReason outcome,
      dcv_EvidenceRefs = reviewGateEvidenceRefs outcome, dcv_ProjectTaskID = None\<rparr>"

section \<open>What the regular expressions match\<close>

text \<open>The language of an expression, without reference to a strategy.\<close>

fun re_lang :: "regex \<Rightarrow> string \<Rightarrow> bool" where
  "re_lang [] w \<longleftrightarrow> w = []"
| "re_lang (Char1 P # r) w \<longleftrightarrow> (\<exists>c v. w = c # v \<and> P c \<and> re_lang r v)"
| "re_lang (AtLeast n P # r) w \<longleftrightarrow> (\<exists>u v. w = u @ v \<and> n \<le> length u \<and> list_all P u \<and> re_lang r v)"

lemma first_some_None: "first_some f xs = None \<longleftrightarrow> (\<forall>x \<in> set xs. f x = None)"
  by (induction xs) (auto split: option.splits)

lemma first_some_Some: "first_some f xs = Some y \<Longrightarrow> \<exists>x \<in> set xs. f x = Some y"
  by (induction xs) (auto split: option.splits)

lemma match_here_sound: "match_here r s = Some m \<Longrightarrow> m \<le> length s \<and> re_lang r (take m s)"
proof (induction r s arbitrary: m rule: match_here.induct)
  case (4 n P r s)
  obtain k where k: "k \<in> set (rev [n..<Suc (length (takeWhile P s))])"
      and "map_option ((+) k) (match_here r (drop k s)) = Some m"
    using first_some_Some [OF "4.prems" [unfolded match_here.simps]] by blast
  then obtain l where l: "match_here r (drop k s) = Some l" "m = k + l" by auto
  have len: "k \<le> length (takeWhile P s)" "n \<le> k" using k by auto
  have rest: "l \<le> length (drop k s) \<and> re_lang r (take l (drop k s))" using "4.IH" [OF k l(1)] .
  have "take k s = take k (takeWhile P s)"
    using len(1) by (metis min.absorb1 take_take takeWhile_eq_take)
  then have run: "list_all P (take k s)" by (auto simp: list_all_iff dest!: in_set_takeD dest: set_takeWhileD)
  have long: "length (take k s) = k" using len(1) length_takeWhile_le [of P s] by simp
  have "re_lang (AtLeast n P # r) (take k s @ take l (drop k s))"
    unfolding re_lang.simps using run rest len(2) long
    by (intro exI [of _ "take k s"] exI [of _ "take l (drop k s)"] conjI) simp_all
  moreover have "m \<le> length s" using l(2) rest long by (simp add: min_def split: if_splits)
  ultimately show ?case by (simp only: l(2) take_add)
qed (auto split: if_splits)

lemma takeWhile_run: "list_all P u \<Longrightarrow> length u \<le> length (takeWhile P (u @ t))"
  by (simp add: list_all_iff takeWhile_append)

lemma match_here_complete: "re_lang r u \<Longrightarrow> match_here r (u @ t) \<noteq> None"
proof (induction r u arbitrary: t rule: re_lang.induct)
  case (3 n P r w)
  then obtain u v where w: "w = u @ v" "n \<le> length u" "list_all P u" "re_lang r v" by auto
  have "match_here r (v @ t) \<noteq> None" using "3.IH" w(4) by blast
  then have "map_option ((+) (length u)) (match_here r (drop (length u) (w @ t))) \<noteq> None" by (simp add: w(1))
  moreover have "length u \<in> set (rev [n..<Suc (length (takeWhile P (w @ t)))])"
    using w(2) takeWhile_run [OF w(3), of "v @ t"] by (simp add: w(1)) linarith
  ultimately show ?case by (auto simp: first_some_None simp del: upt_Suc)
qed auto

lemma FindString_Some: "FindString r s = Some u \<Longrightarrow> re_lang r u \<and> sublist u s"
proof (induction r s rule: FindString.induct)
  case (1 r) then show ?case using match_here_sound [of r "[]"] by (auto split: option.splits)
next
  case (2 r c s)
  then show ?case using match_here_sound [of r "c # s"]
    by (auto split: option.splits simp: sublist_Cons_right simp del: take_Suc_Cons intro: take_is_prefix)
qed

lemma FindString_None: "FindString r s = None \<longleftrightarrow> \<not> (\<exists>u. sublist u s \<and> re_lang r u)"
proof (induction r s rule: FindString.induct)
  case (1 r)
  then show ?case using match_here_sound [of r "[]" 0] match_here_complete [of r "[]" "[]"] match_here_sound [of r "[]"]
    by (auto split: option.splits)
next
  case (2 r c s)
  show ?case
  proof (cases "match_here r (c # s)")
    case None
    then have "\<not> (prefix u (c # s) \<and> re_lang r u)" for u
      using match_here_complete [of r u] by (metis None prefix_def)
    then show ?thesis using 2 None by (auto simp: sublist_Cons_right)
  next
    case (Some m)
    then show ?thesis using match_here_sound [OF Some]
      by (auto intro!: exI [of _ "take m (c # s)"] prefix_imp_sublist [OF take_is_prefix])
  qed
qed

definition leaks :: "(string \<times> regex) list \<Rightarrow> DetectionArtifact \<Rightarrow> bool" where
  "leaks rules art \<longleftrightarrow> (\<exists>s \<in> set (scanned_texts art). \<exists>(label, re) \<in> set rules. \<exists>u. sublist u s \<and> re_lang re u)"

lemma RuleDetect_iff: "dn_Detected (RuleDetect key severity rules art) \<longleftrightarrow> leaks rules art"
  by (auto simp: RuleDetect_def leaks_def not_detected_def first_some_None FindString_None split: option.splits prod.splits)
     (force simp: FindString_None dest!: first_some_Some FindString_Some)

lemma secret_leak_detects [simp]: "dn_Detected (snd (newSecretLeakDetector art w)) \<longleftrightarrow> leaks secretLeakRules art"
  by (simp add: newSecretLeakDetector_def RuleDetect_iff)

section \<open>What a detector may say\<close>

text \<open>The contract of \<^verbatim>\<open>ConditionDetector\<close>: silence is the zero value, and a finding carries the key and the severity
  of its detector.\<close>

locale condition_detector =
  fixes detect :: "DetectionArtifact \<Rightarrow> 'w \<Rightarrow> 'w \<times> DetectionResult" and key severity :: string
  assumes silent: "\<not> dn_Detected (snd (detect art w)) \<Longrightarrow> snd (detect art w) = not_detected"
    and signed_finding: "dn_Detected (snd (detect art w)) \<Longrightarrow>
      dn_ConditionKey (snd (detect art w)) = key \<and> dn_Severity (snd (detect art w)) = severity"
begin

lemma finding_text_key:
  assumes "dn_Detected (snd (detect art w))" "key \<noteq> []"
  shows "prefix (key @ '': '') (finding_text (snd (detect art w)))"
  using signed_finding [OF assms(1)] assms(2) by (simp add: finding_text_def Let_def)

lemma not_minor: "dn_Detected (snd (detect art w)) \<Longrightarrow> severity \<noteq> ''minor'' \<Longrightarrow> dn_Severity (snd (detect art w)) \<noteq> ''minor''"
  using signed_finding by simp

end

interpretation secret_leak: condition_detector newSecretLeakDetector "''secret_leak''" "''block''"
  by unfold_locales (auto simp: newSecretLeakDetector_def RuleDetect_def not_detected_def split: option.splits prod.splits)

interpretation code_review: condition_detector "newCodeReviewDetector parse client model" "''code_review''" "''major''"
  for parse client model
  by unfold_locales
     (auto simp: newCodeReviewDetector_def LLMPromptDetect_def not_detected_def
        split: option.splits prod.splits sum.splits bool.splits)

section \<open>What holds the demand\<close>

definition exceeded :: "(DetectionResult \<times> string) list \<Rightarrow> int \<Rightarrow> bool" where
  "exceeded scored tolerance \<longleftrightarrow> int (length (filter minor_holding scored)) > tolerance"

definition holding :: "(DetectionResult \<times> string) list \<Rightarrow> int \<Rightarrow> (DetectionResult \<times> string) set" where
  "holding scored tolerance = {sf \<in> set scored. counts (exceeded scored tolerance) sf}"

definition strictest_action :: "string set \<Rightarrow> string" where
  "strictest_action actions =
     (if actions = {} then [] else if reviewGateActionBlock \<in> actions then reviewGateActionBlock else reviewGateActionNeedHuman)"

lemma outcome_fold:
  "foldl (\<lambda>(violated, strictest) sf.
       if counts b sf then (True, stricterReviewGateAction strictest (snd sf)) else (violated, strictest)) (v, s) scored =
     (v \<or> list_ex (counts b) scored, foldl stricterReviewGateAction s (map snd (filter (counts b) scored)))"
  by (induction scored arbitrary: v s) auto

lemma strictest_fold:
  "set actions \<subseteq> {reviewGateActionBlock, reviewGateActionNeedHuman} \<Longrightarrow>
   foldl stricterReviewGateAction [] actions = strictest_action (set actions)"
proof (induction actions rule: rev_induct)
  case Nil show ?case by (simp add: strictest_action_def)
next
  case (snoc a actions)
  then have "a = reviewGateActionBlock \<or> a = reviewGateActionNeedHuman" by auto
  then show ?case using snoc by (auto simp: stricterReviewGateAction_def strictest_action_def)
qed

lemma review_outcome_is:
  "review_outcome scored tolerance =
     \<lparr>ro_Violated = (holding scored tolerance \<noteq> {}), ro_Action = strictest_action (snd ` holding scored tolerance),
      ro_Findings = map fst scored\<rparr>"
proof -
  let ?b = "exceeded scored tolerance" and ?as = "map snd (filter (counts (exceeded scored tolerance)) scored)"
  have h: "set ?as = snd ` holding scored tolerance" by (auto simp: holding_def)
  have "set ?as \<subseteq> {reviewGateActionBlock, reviewGateActionNeedHuman}"
    by (auto simp: counts_def isHoldingAction_def)
  then have fold: "foldl stricterReviewGateAction [] ?as = strictest_action (snd ` holding scored tolerance)"
    using strictest_fold h by metis
  have ex: "list_ex (counts ?b) scored \<longleftrightarrow> holding scored tolerance \<noteq> {}"
    by (auto simp: list_ex_iff holding_def)
  have empty: "holding scored tolerance = {} \<Longrightarrow> strictest_action (snd ` holding scored tolerance) = []"
    by (simp add: strictest_action_def)
  show ?thesis
    using ex empty fold unfolding review_outcome_def exceeded_def [symmetric] Let_def outcome_fold
    by (cases "scored = []") (auto simp: holding_def)
qed

lemma holding_mono:
  assumes "mset scored \<subseteq># mset scored'"
  shows "holding scored tolerance \<subseteq> holding scored' tolerance"
proof -
  have "size (filter_mset minor_holding (mset scored)) \<le> size (filter_mset minor_holding (mset scored'))"
    using assms by (intro size_mset_mono multiset_filter_mono)
  then have "length (filter minor_holding scored) \<le> length (filter minor_holding scored')"
    by (simp flip: mset_filter)
  then have "exceeded scored tolerance \<Longrightarrow> exceeded scored' tolerance" by (simp add: exceeded_def)
  moreover have "set scored \<subseteq> set scored'" using set_mset_mono [OF assms] by simp
  ultimately show ?thesis by (auto simp: holding_def counts_def)
qed

definition action_rank :: "string \<Rightarrow> nat" where
  "action_rank action = (if action = reviewGateActionBlock then 2 else if action = reviewGateActionNeedHuman then 1 else 0)"

lemma strictest_mono: "actions \<subseteq> actions' \<Longrightarrow> action_rank (strictest_action actions) \<le> action_rank (strictest_action actions')"
  by (auto simp: strictest_action_def action_rank_def)

text \<open>
  Claim C31: more findings never release. If the detectors of a run report at least what those of another run
  report, in whatever order, then the gate holds whenever the other one did, with an action at least as strict; the same
  findings in another order give the same verdict and the same action. Minor findings are tolerated only together: one
  too many and all of them count.
\<close>

theorem findings_only_tighten:
  assumes "mset scored \<subseteq># mset scored'"
  shows "(ro_Violated (review_outcome scored tolerance) \<longrightarrow> ro_Violated (review_outcome scored' tolerance)) \<and>
    action_rank (ro_Action (review_outcome scored tolerance)) \<le> action_rank (ro_Action (review_outcome scored' tolerance))"
  using holding_mono [OF assms, of tolerance] strictest_mono [OF image_mono]
  by (auto simp: review_outcome_is)

theorem findings_only_tighten_witness:
  "let f = \<lparr>dn_Detected = True, dn_Severity = ''minor'', dn_ConditionKey = ''style'', dn_Finding = [], dn_EvidenceRefs = []\<rparr>
   in \<not> ro_Violated (review_outcome [(f, ''need_human'')] 1) \<and>
      ro_Violated (review_outcome [(f, ''need_human''), (f, ''block'')] 1) \<and>
      ro_Violated (review_outcome [(f, ''record_only''), (f, ''block''), (f, ''need_human'')] 1)"
proof -
  define f :: DetectionResult where
    "f = \<lparr>dn_Detected = True, dn_Severity = ''minor'', dn_ConditionKey = ''style'', dn_Finding = [], dn_EvidenceRefs = []\<rparr>"
  have 1: "\<not> ro_Violated (review_outcome [(f, ''need_human'')] 1)" "ro_Violated (review_outcome [(f, ''need_human''), (f, ''block'')] 1)"
    by (simp_all add: f_def review_outcome_def minor_holding_def counts_def isHoldingAction_def)
  have "mset [(f, ''need_human''), (f, ''block'')] \<subseteq># mset [(f, ''record_only''), (f, ''block''), (f, ''need_human'')]"
    by (simp add: add_mset_commute)
  from findings_only_tighten [OF this, of 1] 1 show ?thesis by (simp add: f_def)
qed

section \<open>The standard conditions\<close>

definition secret_rule_active :: "gmap \<Rightarrow> bool" where
  "secret_rule_active policy \<longleftrightarrow>
     (case reviewGateConditionOverrides policy of
        None \<Rightarrow> True
      | Some m \<Rightarrow> map_of m ''secret_leak'' \<notin> {Some reviewGateActionOff, Some reviewGateActionRecordOnly})"

abbreviation standard_gate ::
    "(string \<Rightarrow> gval option) \<Rightarrow> 'w chat_client option \<Rightarrow> string \<Rightarrow> gmap \<Rightarrow> int \<Rightarrow> DetectionArtifact \<Rightarrow> 'w \<Rightarrow> ReviewGateOutcome" where
  "standard_gate parse client model policy tolerance art w \<equiv>
     snd (runReviewGate art (enabledConditions policy (standardConditions parse client model)) tolerance w)"

text \<open>What the two standard detectors report.\<close>

definition scored_by :: "string option \<Rightarrow> DetectionResult \<Rightarrow> (DetectionResult \<times> string) list" where
  "scored_by action res = (case action of None \<Rightarrow> [] | Some a \<Rightarrow> if dn_Detected res then [(res, a)] else [])"

lemma standard_scores:
  "\<exists>w'. snd (run_detectors art (enabledConditions policy (standardConditions parse client model)) w) =
     scored_by (resolved_action (reviewGateConditionOverrides policy) (standardConditions parse client model ! 0))
       (snd (newSecretLeakDetector art w)) @
     scored_by (resolved_action (reviewGateConditionOverrides policy) (standardConditions parse client model ! 1))
       (snd (newCodeReviewDetector parse client model art w'))"
  by (rule exI [of _ w])
     (auto simp: enabledConditions_def standardConditions_def List.map_filter_def scored_by_def newSecretLeakDetector_def
       split: option.splits prod.splits)

lemma secret_action:
  "secret_rule_active policy \<Longrightarrow>
   \<exists>a. resolved_action (reviewGateConditionOverrides policy) (standardConditions parse client model ! 0) = Some a \<and> isHoldingAction a"
  by (auto simp: secret_rule_active_def resolved_action_def standardConditions_def isHoldingAction_def isValidReviewGateAction_def
      split: option.splits)

lemma standard_gate_violated:
  "ro_Violated (standard_gate parse client model policy tolerance art w) \<longleftrightarrow>
     holding (snd (run_detectors art (enabledConditions policy (standardConditions parse client model)) w)) tolerance \<noteq> {}"
  by (simp add: runReviewGate_def review_outcome_is split: prod.splits)

text \<open>
  Claim C32: a secret in what a task delivers holds the demand. Where the text of the change or the name of a
  deliverable contains a string of one of the four languages (an API key, an access key, a private key block, a
  password assignment), the gate is violated whatever the model says and however many minor findings are tolerated,
  unless the project has turned the rule off or to recording only. Without a model the gate is violated exactly then.
\<close>

theorem leaked_secrets_hold:
  assumes "secret_rule_active policy"
  shows "(leaks secretLeakRules art \<longrightarrow> ro_Violated (standard_gate parse client model policy tolerance art w)) \<and>
    (ro_Violated (standard_gate parse None model policy tolerance art w) \<longleftrightarrow> leaks secretLeakRules art)"
proof -
  have held: "ro_Violated (standard_gate parse cl model policy tolerance art w)" if "leaks secretLeakRules art" for cl
  proof -
    obtain a where a: "resolved_action (reviewGateConditionOverrides policy) (standardConditions parse cl model ! 0) = Some a"
        "isHoldingAction a"
      using secret_action [OF assms] by blast
    have "(snd (newSecretLeakDetector art w), a)
            \<in> set (snd (run_detectors art (enabledConditions policy (standardConditions parse cl model)) w))"
      using standard_scores [of art policy parse cl model w] a(1) that by (auto simp: scored_by_def)
    moreover have "counts b (snd (newSecretLeakDetector art w), a)" for b
      using secret_leak.not_minor [of art w] that a(2) by (simp add: counts_def)
    ultimately show ?thesis unfolding standard_gate_violated holding_def by blast
  qed
  have "\<not> ro_Violated (standard_gate parse None model policy tolerance art w)" if "\<not> leaks secretLeakRules art"
    using standard_scores [of art policy parse None model w] that unfolding standard_gate_violated
    by (auto simp: scored_by_def holding_def newCodeReviewDetector_def LLMPromptDetect_def not_detected_def split: option.splits)
  then show ?thesis using held by blast
qed

lemma example_leak:
  "leaks secretLeakRules \<lparr>da_Summary = [], da_Deliverables = [], da_EvidenceRefs = [], da_DiffText = ''key: AKIA0123456789AB''\<rparr>"
proof -
  have "dn_Detected (RuleDetect [] [] secretLeakRules
      \<lparr>da_Summary = [], da_Deliverables = [], da_EvidenceRefs = [], da_DiffText = ''key: AKIA0123456789AB''\<rparr>)"
    by code_simp
  then show ?thesis by (simp only: RuleDetect_iff)
qed

theorem leaked_secrets_hold_witness:
  "ro_Violated (standard_gate (\<lambda>_. None) (Some (\<lambda>_ w. (w, Inr ''fine''))) ''m''
     [(''review_gate_conditions'', GMap [(''secret_leak'', GStr ''need_human'')])] 100
     \<lparr>da_Summary = [], da_Deliverables = [], da_EvidenceRefs = [], da_DiffText = ''key: AKIA0123456789AB''\<rparr> ())"
proof -
  have "secret_rule_active [(''review_gate_conditions'', GMap [(''secret_leak'', GStr ''need_human'')])]"
    by (simp add: secret_rule_active_def reviewGateConditionOverrides_def gget_def List.map_filter_def)
  then show ?thesis by (rule mp [OF conjunct1 [OF leaked_secrets_hold] example_leak])
qed

text \<open>
  Claim C33: the outcome of the standard conditions is well formed: an action is named exactly when the gate is
  violated and is one of the two holding actions, and the findings are at most one per condition, each detected and
  signed with the key and the severity of its detector.
\<close>

theorem gate_outcomes_are_well_formed:
  "let outcome = standard_gate parse client model policy tolerance art w in
     (ro_Violated outcome \<longleftrightarrow> ro_Action outcome \<noteq> []) \<and>
     ro_Action outcome \<in> {[], reviewGateActionBlock, reviewGateActionNeedHuman} \<and>
     distinct (map dn_ConditionKey (ro_Findings outcome)) \<and>
     (\<forall>f \<in> set (ro_Findings outcome). dn_Detected f \<and>
        (dn_ConditionKey f, dn_Severity f) \<in> {(''secret_leak'', ''block''), (''code_review'', ''major'')})"
proof -
  let ?scored = "snd (run_detectors art (enabledConditions policy (standardConditions parse client model)) w)"
  have out: "standard_gate parse client model policy tolerance art w = review_outcome ?scored tolerance"
    by (simp add: runReviewGate_def split: prod.splits)
  obtain w' where s: "?scored =
     scored_by (resolved_action (reviewGateConditionOverrides policy) (standardConditions parse client model ! 0))
       (snd (newSecretLeakDetector art w)) @
     scored_by (resolved_action (reviewGateConditionOverrides policy) (standardConditions parse client model ! 1))
       (snd (newCodeReviewDetector parse client model art w'))"
    using standard_scores [of art policy parse client model w] by (elim exE)
  have "distinct (map dn_ConditionKey (map fst ?scored))"
    and "\<forall>f \<in> set (map fst ?scored). dn_Detected f \<and>
      (dn_ConditionKey f, dn_Severity f) \<in> {(''secret_leak'', ''block''), (''code_review'', ''major'')}"
    unfolding s using secret_leak.signed_finding [of art w] code_review.signed_finding [of parse client model art w']
    by (auto simp: scored_by_def split: option.splits)
  then show ?thesis unfolding out Let_def by (auto simp: review_outcome_is strictest_action_def)
qed

definition leaky :: DetectionArtifact where
  "leaky = \<lparr>da_Summary = [], da_Deliverables = [], da_EvidenceRefs = [], da_DiffText = ''key: AKIA0123456789AB''\<rparr>"

theorem gate_outcomes_are_well_formed_witness:
  "let outcome = standard_gate (\<lambda>_. None) None ''m'' [] 0 leaky () in
     ro_Findings outcome \<noteq> [] \<and> list_all dn_Detected (ro_Findings outcome) \<and> distinct (map dn_ConditionKey (ro_Findings outcome))"
proof -
  let ?cs = "standardConditions (\<lambda>_. None) None ''m'' :: unit ConditionSpec list"
  have "dn_Detected (snd (newSecretLeakDetector leaky ()))" using example_leak by (simp add: secret_leak_detects leaky_def)
  moreover have "resolved_action (reviewGateConditionOverrides []) (?cs ! 0) = Some ''block''"
    by (simp add: secret_action secret_rule_active_def reviewGateConditionOverrides_def gget_def standardConditions_def resolved_action_def)
  ultimately have "snd (run_detectors leaky (enabledConditions [] ?cs) ()) \<noteq> []"
    using standard_scores [of leaky "[]" "\<lambda>_. None" None "''m''" "()"] by (auto simp: scored_by_def)
  then have "ro_Findings (standard_gate (\<lambda>_. None) None ''m'' [] 0 leaky ()) \<noteq> []"
    by (auto simp: runReviewGate_def review_outcome_is split: prod.splits)
  then show ?thesis
    using gate_outcomes_are_well_formed [of leaky "[]" "\<lambda>_. None" None "''m''" 0 "()"]
    by (auto simp: Let_def list_all_iff)
qed

section \<open>What a finding discloses\<close>

text \<open>The finding of the rule detector repeats at most four characters of what it matched.\<close>

lemma leak_finding_discloses_four:
  assumes "dn_Detected (RuleDetect key severity rules art)"
  shows "\<exists>label re u. (label, re) \<in> set rules \<and> re_lang re u \<and> (\<exists>s \<in> set (scanned_texts art). sublist u s) \<and>
    dn_Finding (RuleDetect key severity rules art) = leak_finding label u \<and> redactSecret u = take 4 u @ ''****''"
  using assms
  by (auto simp: RuleDetect_def not_detected_def redactSecret_def split: option.splits prod.splits
      dest!: first_some_Some FindString_Some)

text \<open>The summary of a result is scanned only where nothing else is: one inline value or one described change, and a
  secret in the summary passes.\<close>

lemma summary_is_not_scanned:
  assumes "trd_Value d \<noteq> []" "TrimSpace (trd_Value d) = trd_Value d"
  shows "scanned_texts (assembleDetectionArtifact (Some (contract\<lparr>trc_Summary := secret, trc_Deliverables := [d], rvc_ChangesMade := []\<rparr>))) =
         scanned_texts (assembleDetectionArtifact (Some (contract\<lparr>trc_Summary := [], trc_Deliverables := [d], rvc_ChangesMade := []\<rparr>)))"
  using assms by (simp add: scanned_texts_def assembleDetectionArtifact_def adversarialEvidenceFromResult_def inlineDiffText_def Let_def)

end
