(* ===== verification/Review_Runs.thy ===== *)
theory Review_Runs
  imports Violation_Detectors
begin

text \<open>
  The two reviews of a completed task, after \<^verbatim>\<open>workflow/projectcoordination/adversarial_review.go\<close>,
  \<^verbatim>\<open>adversarial_trigger.go\<close>, \<^verbatim>\<open>review_gate_trigger.go\<close> and the activity in \<^verbatim>\<open>activities.go\<close>: judges that
  try to refute a criterion and are outvoted or not, and the violation detectors. Both find the criteria the task
  answers for, read its latest result, and write aggregate verdicts that the demand gate reads.

  The world is the verdict table, the table of single judgements and a rest (a type variable) on which the model client
  and the other tables act; an insert may fail at any point, and what was written before stays. Reading the latest
  result is a loop over pages that ends only if the pages do: it is a partial function. The claims join these
  definitions with the verdicts of the executor (\<open>Result_Verdicts\<close>) and the demand gate (\<open>Demand_Acceptance\<close>).
\<close>

section \<open>The judges\<close>

abbreviation AdversarialVerdictRefuted :: string where "AdversarialVerdictRefuted \<equiv> ''refuted''"
abbreviation AdversarialVerdictAccepted :: string where "AdversarialVerdictAccepted \<equiv> ''accepted''"
abbreviation AdversarialAggregateSatisfied :: string where "AdversarialAggregateSatisfied \<equiv> ''satisfied''"
abbreviation AdversarialAggregateUnsatisfied :: string where "AdversarialAggregateUnsatisfied \<equiv> ''unsatisfied''"
abbreviation AdversarialAggregateEscalateHuman :: string where "AdversarialAggregateEscalateHuman \<equiv> ''escalate_human''"

definition defaultAdversarialJudgeCount :: int where "defaultAdversarialJudgeCount = 3"
definition maxAdversarialJudgeCount :: int where "maxAdversarialJudgeCount = 7"

record AdversarialLens =
  al_Key :: string
  al_SystemPrompt :: string

record AdversarialJudgement =
  aj_Lens :: string
  aj_Verdict :: string
  aj_Reason :: string

record AdversarialReviewResult =
  arr_CriterionID :: string
  arr_ReviewedTaskID :: uuid
  arr_Judgements :: "AdversarialJudgement list"
  arr_Aggregate :: string
  arr_RefutedCount :: int
  arr_JudgeCount :: int

record RunAdversarialReviewInput =
  rai_TenantID :: uuid
  rai_ProjectID :: uuid
  rai_CriterionID :: string
  rai_ReviewedTaskID :: uuid
  rai_Assertion :: string
  rai_EvidenceSummary :: string
  rai_Deliverables :: "string list"
  rai_EvidenceRefs :: "string list"
  rai_JudgeCountPolicy :: int
  rai_BudgetExhausted :: bool
  rai_Model :: string

record judgePromptPayload =
  jp_Assertion :: string
  jp_EvidenceSummary :: string
  jp_Deliverables :: "string list"
  jp_EvidenceRefs :: "string list"

definition resolveJudgeCount :: "int \<Rightarrow> int" where
  "resolveJudgeCount policyValue =
     (if policyValue \<le> 0 then defaultAdversarialJudgeCount
      else if policyValue > maxAdversarialJudgeCount then maxAdversarialJudgeCount else policyValue)"

definition buildJudgeSystemPrompt :: "string \<Rightarrow> string \<Rightarrow> string" where
  "buildJudgeSystemPrompt perspective focus =
     Join [(byte_string [228, 189, 160, 230, 152, 175, 32, 83, 117, 112, 101, 114, 84, 101, 97, 109, 32, 229, 175,
       185, 230, 138, 151, 229, 188, 143, 233, 170, 140, 230, 148, 182, 229, 136, 164, 229, 174, 152, 239, 188, 140,
         232, 167, 134, 232, 167, 146, 239, 188, 154]) @ perspective @ (byte_string [227, 128, 130]),
       (byte_string [228, 189, 160, 231, 154, 132, 228, 187, 187, 229, 138, 161, 230, 152, 175, 42, 42, 232, 175,
         129, 228, 188, 170, 42, 42, 226, 128, 148, 226, 128, 148, 228, 184, 187, 229, 138, 168, 230, 137, 190, 229, 135, 186, 232, 191, 153, 228, 187, 189, 228, 186, 167, 229, 135, 186, 228, 184, 141, 230, 187, 161, 232, 182, 179, 229, 136, 164, 230, 141, 174, 231, 154, 132, 231, 144, 134, 231, 148, 177, 239, 188, 140, 232, 128, 140, 228, 184, 141, 230, 152, 175, 231, 164, 188, 232, 178, 140, 229, 156, 176, 231, 161, 174, 232, 174, 164, 229, 174, 131, 230, 187, 161, 232, 182, 179, 227, 128, 130]),
       (byte_string [233, 187, 152, 232, 174, 164, 229, 136, 164, 229, 174, 154, 228, 184, 186, 32, 114, 101, 102,
         117, 116, 101, 100, 239, 188, 140, 233, 153, 164, 233, 157, 158, 229, 183, 165, 228, 187, 182, 228, 184, 142, 232, 175, 129, 230, 141, 174, 231, 161, 174, 229, 174, 158, 232, 175, 180, 230, 156, 141, 228, 189, 160, 232, 175, 165, 229, 136, 164, 230, 141, 174, 229, 183, 178, 232, 162, 171, 230, 187, 161, 232, 182, 179, 239, 188, 140, 230, 137, 141, 229, 136, 164, 32, 97, 99, 99, 101, 112, 116, 101, 100, 227, 128, 130]),
       focus,
       (byte_string [229, 143, 170, 232, 191, 148, 229, 155, 158, 228, 184, 128, 228, 184, 170, 32, 74, 83, 79, 78,
         32, 229, 175, 185, 232, 177, 161, 239, 188, 140, 228, 184, 141, 232, 166, 129, 229, 140, 133, 232, 163, 185, 229, 156, 168, 32, 109, 97, 114, 107, 100, 111, 119, 110, 32, 228, 184, 173, 239, 188, 140, 229, 189, 162, 229, 166, 130, 32, 123, 34, 118, 101, 114, 100, 105, 99, 116, 34, 58, 34, 114, 101, 102, 117, 116, 101, 100, 124, 97, 99, 99, 101, 112, 116, 101, 100, 34, 44, 34, 114, 101, 97, 115, 111, 110, 34, 58, 34, 228, 184, 128, 229, 143, 165, 232, 175, 157, 231, 144, 134, 231, 148, 177, 34, 125, 227, 128, 130]),
       (byte_string [118, 101, 114, 100, 105, 99, 116, 32, 229, 143, 170, 232, 131, 189, 230, 152, 175, 32, 114, 101,
         102, 117, 116, 101, 100, 32, 230, 136, 150, 32, 97, 99, 99, 101, 112, 116, 101, 100, 239, 188, 155, 114, 101, 97, 115, 111, 110, 32, 231, 148, 168, 228, 184, 128, 229, 143, 165, 232, 175, 157, 231, 187, 153, 229, 135, 186, 229, 136, 164, 229, 174, 154, 228, 190, 157, 230, 141, 174, 227, 128, 130])] [CHR 0x0A]"

definition baseAdversarialLenses :: "AdversarialLens list" where
  "baseAdversarialLenses =
     [\<lparr>al_Key = ''correctness'', al_SystemPrompt = buildJudgeSystemPrompt (byte_string [230, 173, 163, 231,
       161, 174, 230, 128, 167])
        (byte_string [229, 174, 161, 230, 159, 165, 228, 186, 167, 229, 135, 186, 230, 152, 175, 229, 144, 166, 231,
          156, 159, 230, 173, 163, 230, 187, 161, 232, 182, 179, 229, 136, 164, 230, 141, 174, 230, 150, 173, 232, 168, 128, 239, 188, 154, 233, 128, 187, 232, 190, 145, 230, 152, 175, 229, 144, 166, 230, 136, 144, 231, 171, 139, 227, 128, 129, 232, 190, 185, 231, 149, 140, 228, 184, 142, 229, 188, 130, 229, 184, 184, 230, 131, 133, 229, 134, 181, 230, 152, 175, 229, 144, 166, 232, 166, 134, 231, 155, 150, 227, 128, 129, 230, 152, 175, 229, 144, 166, 229, 173, 152, 229, 156, 168, 228, 184, 142, 230, 150, 173, 232, 168, 128, 231, 155, 184, 231, 159, 155, 231, 155, 190, 231, 154, 132, 228, 186, 139, 229, 174, 158, 227, 128, 130])\<rparr>,
      \<lparr>al_Key = ''security'', al_SystemPrompt = buildJudgeSystemPrompt (byte_string [229, 174, 137, 229, 133, 168])
        (byte_string [229, 174, 161, 230, 159, 165, 228, 186, 167, 229, 135, 186, 230, 152, 175, 229, 144, 166, 229,
          188, 149, 229, 133, 165, 229, 174, 137, 229, 133, 168, 227, 128, 129, 230, 157, 131, 233, 153, 144, 230, 136, 150, 230, 149, 176, 230, 141, 174, 230, 179, 132, 230, 188, 143, 233, 151, 174, 233, 162, 152, 239, 188, 154, 232, 182, 138, 230, 157, 131, 227, 128, 129, 229, 135, 173, 230, 141, 174, 229, 164, 150, 230, 179, 132, 227, 128, 129, 230, 179, 168, 229, 133, 165, 227, 128, 129, 231, 187, 149, 232, 191, 135, 229, 174, 161, 230, 137, 185, 227, 128, 129, 231, 160, 180, 229, 157, 143, 233, 154, 148, 231, 166, 187, 231, 173, 137, 239, 188, 155, 228, 187, 187, 228, 189, 149, 230, 173, 164, 231, 177, 187, 233, 163, 142, 233, 153, 169, 233, 131, 189, 232, 182, 179, 228, 187, 165, 229, 136, 164, 229, 174, 154, 230, 156, 170, 230, 187, 161, 232, 182, 179, 227, 128, 130])\<rparr>,
      \<lparr>al_Key = ''reproducibility'', al_SystemPrompt = buildJudgeSystemPrompt (byte_string [229, 143, 175,
        229, 164, 141, 231, 142, 176, 230, 128, 167])
        (byte_string [229, 174, 161, 230, 159, 165, 231, 187, 147, 232, 174, 186, 230, 152, 175, 229, 144, 166, 230,
          156, 137, 229, 143, 175, 229, 164, 141, 231, 142, 176, 231, 154, 132, 232, 175, 129, 230, 141, 174, 230, 148, 175, 230, 146, 145, 239, 188, 154, 230, 152, 175, 229, 144, 166, 230, 156, 137, 230, 181, 139, 232, 175, 149, 227, 128, 129, 229, 145, 189, 228, 187, 164, 232, 190, 147, 229, 135, 186, 227, 128, 129, 229, 183, 165, 228, 187, 182, 230, 136, 150, 233, 147, 190, 230, 142, 165, 229, 143, 175, 230, 160, 184, 229, 175, 185, 239, 188, 140, 232, 128, 140, 233, 157, 158, 231, 169, 186, 229, 143, 163, 230, 150, 173, 232, 168, 128, 239, 188, 155, 232, 175, 129, 230, 141, 174, 231, 188, 186, 229, 164, 177, 230, 136, 150, 230, 151, 160, 230, 179, 149, 230, 160, 184, 229, 175, 185, 229, 141, 179, 229, 136, 164, 230, 156, 170, 230, 187, 161, 232, 182, 179, 227, 128, 130])\<rparr>]"

text \<open>The judges beyond the base lenses repeat them with a numbered key.\<close>

definition extra_lens :: "nat \<Rightarrow> AdversarialLens" where
  "extra_lens i =
     (let base = baseAdversarialLenses; src = base ! (i mod length base) in
      src\<lparr>al_Key := al_Key src @ ''#'' @ Itoa (int (i div length base + 1))\<rparr>)"

definition resolveAdversarialLenses :: "int \<Rightarrow> AdversarialLens list" where
  "resolveAdversarialLenses count0 =
     (let base = baseAdversarialLenses;
          count1 = (if count0 \<le> 0 then defaultAdversarialJudgeCount else count0);
          count = nat (if count1 > maxAdversarialJudgeCount then maxAdversarialJudgeCount else count1)
      in if count \<le> length base then take count base
         else base @ map extra_lens [length base..<count])"

definition buildJudgeUserPrompt :: "(judgePromptPayload \<Rightarrow> string option) \<Rightarrow> RunAdversarialReviewInput \<Rightarrow> string" where
  "buildJudgeUserPrompt marshal input =
     (byte_string [229, 136, 164, 230, 141, 174, 228, 184, 142, 232, 162, 171, 232, 175, 132, 229, 174, 161, 228,
       187, 187, 229, 138, 161, 231, 154, 132, 228, 186, 167, 229, 135, 186, 232, 175, 129, 230, 141, 174, 229, 166, 130, 228, 184, 139, 239, 188, 140, 229, 136, 164, 230, 150, 173, 232, 175, 165, 229, 136, 164, 230, 141, 174, 230, 152, 175, 229, 144, 166, 232, 162, 171, 230, 187, 161, 232, 182, 179, 227, 128, 130, 229, 143, 170, 232, 191, 148, 229, 155, 158, 32, 74, 83, 79, 78, 227, 128, 130]) @ [CHR 0x0A] @
     (case marshal \<lparr>jp_Assertion = rai_Assertion input, jp_EvidenceSummary = rai_EvidenceSummary input,
                    jp_Deliverables = rai_Deliverables input, jp_EvidenceRefs = rai_EvidenceRefs input\<rparr> of
        Some body \<Rightarrow> body | None \<Rightarrow> ''{}'')"

definition parseJudgeResponse :: "(string \<Rightarrow> gval option) \<Rightarrow> string \<Rightarrow> string \<Rightarrow> AdversarialJudgement" where
  "parseJudgeResponse parse lensKey content =
     (let decoded = (case parse (TrimSpace content) of
            Some GNil \<Rightarrow> Some ([], [])
          | Some (GMap m) \<Rightarrow>
              Option.bind (dec_string (jfield m ''verdict'')) (\<lambda>verdict.
              Option.bind (dec_string (jfield m ''reason'')) (\<lambda>reason. Some (verdict, reason)))
          | _ \<Rightarrow> None)
      in case decoded of
           None \<Rightarrow> \<lparr>aj_Lens = lensKey, aj_Verdict = AdversarialVerdictRefuted, aj_Reason = ''parse_failed''\<rparr>
         | Some (verdict, reason0) \<Rightarrow>
             let reason = TrimSpace reason0; v = ToLower (TrimSpace verdict) in
             if v = AdversarialVerdictAccepted
             then \<lparr>aj_Lens = lensKey, aj_Verdict = AdversarialVerdictAccepted, aj_Reason = reason\<rparr>
             else if v = AdversarialVerdictRefuted
             then \<lparr>aj_Lens = lensKey, aj_Verdict = AdversarialVerdictRefuted, aj_Reason = reason\<rparr>
             else \<lparr>aj_Lens = lensKey, aj_Verdict = AdversarialVerdictRefuted,
                   aj_Reason = (if reason = [] then ''parse_failed'' else reason)\<rparr>)"

definition adversarialRefuteThreshold :: "int \<Rightarrow> int" where
  "adversarialRefuteThreshold judgeCount = (judgeCount + 1) div 2"

text \<open>The loop over the lenses: \<open>ctxErr\<close> is the state of the request context, and a failing call ends the review.\<close>

fun judge_all ::
    "('x \<Rightarrow> store_error option) \<Rightarrow> (string \<Rightarrow> gval option) \<Rightarrow> 'x chat_client \<Rightarrow> string \<Rightarrow> string \<Rightarrow> AdversarialLens list \<Rightarrow>
     'x \<Rightarrow> 'x \<times> (store_error + AdversarialJudgement list)" where
  "judge_all ctxErr parse chat model user [] x = (x, Inr [])"
| "judge_all ctxErr parse chat model user (lens # lenses) x =
     (case ctxErr x of
        Some e \<Rightarrow> (x, Inl e)
      | None \<Rightarrow>
          (case chat \<lparr>ocr_Model = model, ocr_System = al_SystemPrompt lens, ocr_User = user, ocr_MaxTokens = 0,
                      ocr_Temperature = 0\<rparr> x of
             (x', Inl e) \<Rightarrow> (x', Inl (Wrapped (''adversarial judge '' @ al_Key lens @ '' call failed'') e))
           | (x', Inr content) \<Rightarrow>
               (case judge_all ctxErr parse chat model user lenses x' of
                  (x'', Inl e) \<Rightarrow> (x'', Inl e)
                | (x'', Inr js) \<Rightarrow> (x'', Inr (parseJudgeResponse parse (al_Key lens) content # js)))))"

definition refuted_count :: "AdversarialJudgement list \<Rightarrow> int" where
  "refuted_count js = int (length (filter (\<lambda>j. aj_Verdict j = AdversarialVerdictRefuted) js))"

definition runAdversarialReview ::
    "('x \<Rightarrow> store_error option) \<Rightarrow> (string \<Rightarrow> gval option) \<Rightarrow> (judgePromptPayload \<Rightarrow> string option) \<Rightarrow> 'x chat_client \<Rightarrow>
     AdversarialLens list \<Rightarrow> RunAdversarialReviewInput \<Rightarrow> 'x \<Rightarrow> 'x \<times> (store_error + AdversarialReviewResult)" where
  "runAdversarialReview ctxErr parse marshal chat lenses input x =
     (case judge_all ctxErr parse chat (rai_Model input) (buildJudgeUserPrompt marshal input) lenses x of
        (x', Inl e) \<Rightarrow> (x', Inl e)
      | (x', Inr js) \<Rightarrow>
          (x', Inr \<lparr>arr_CriterionID = rai_CriterionID input, arr_ReviewedTaskID = rai_ReviewedTaskID input,
             arr_Judgements = js,
             arr_Aggregate = (if refuted_count js \<ge> adversarialRefuteThreshold (int (length lenses))
                              then AdversarialAggregateUnsatisfied else AdversarialAggregateSatisfied),
             arr_RefutedCount = refuted_count js, arr_JudgeCount = int (length lenses)\<rparr>))"

section \<open>The store\<close>

record ReviewedTask = DispatchTask +
  rt_TenantID :: uuid
  rt_CoordinationJobID :: "uuid option"

record ReviewedResult = ProjectTaskResult +
  rvr_Contract :: ReviewedContract

record ReviewCriterion = DemandAcceptanceCriterion +
  rcr_DemandID :: uuid
  rcr_PlanRevisionID :: uuid

record CreateAdversarialJudgementRequest =
  cj_TenantID :: uuid
  cj_ProjectID :: uuid
  cj_DemandID :: uuid
  cj_PlanRevisionID :: uuid
  cj_CriterionID :: string
  cj_ReviewedTaskID :: uuid
  cj_Lens :: string
  cj_Verdict :: string
  cj_Reason :: string

text \<open>The verdict rows of a demand and plan revision of a tenant, the single judgements, and the rest of the world.\<close>

record 'x world =
  wd_verdicts :: "uuid \<Rightarrow> uuid \<Rightarrow> uuid \<Rightarrow> DemandCriterionVerdict list"
  wd_judgements :: "CreateAdversarialJudgementRequest list"
  wd_rest :: 'x

text \<open>\<open>rv_refuse_verdict\<close> and \<open>rv_refuse_judgement\<close> decide whether an insert fails.\<close>

record 'x review_repository =
  rv_GetProjectTask :: "uuid \<Rightarrow> uuid \<Rightarrow> 'x world \<Rightarrow> store_error + ReviewedTask"
  rv_GetProject :: "uuid \<Rightarrow> uuid \<Rightarrow> 'x world \<Rightarrow> store_error + ProjectRecord"
  rv_ListDemandAcceptanceCriteria :: "uuid \<Rightarrow> uuid \<Rightarrow> uuid \<Rightarrow> 'x world \<Rightarrow> store_error + ReviewCriterion list"
  rv_ListProjectTaskResults :: "uuid \<Rightarrow> uuid \<Rightarrow> uuid \<Rightarrow> int \<Rightarrow> int \<Rightarrow> 'x world \<Rightarrow> store_error + ReviewedResult list"
  rv_ListDemandLaunchProjectTasks :: "uuid \<Rightarrow> uuid \<Rightarrow> uuid \<Rightarrow> int \<Rightarrow> 'x world \<Rightarrow> store_error + ReviewedTask list"
  rv_ListProjectTasksByCoordinationJob :: "uuid \<Rightarrow> uuid \<Rightarrow> uuid \<Rightarrow> 'x world \<Rightarrow> store_error + ReviewedTask list"
  rv_refuse_verdict :: "DemandCriterionVerdict \<Rightarrow> 'x world \<Rightarrow> store_error option"
  rv_refuse_judgement :: "CreateAdversarialJudgementRequest \<Rightarrow> 'x world \<Rightarrow> store_error option"
  rv_RecomputeProjectDemandStatus :: "uuid \<Rightarrow> uuid \<Rightarrow> uuid \<Rightarrow> 'x world \<Rightarrow> 'x \<times> (store_error + unit)"

text \<open>The configuration of the activities. \<open>en_order\<close> is the order in which Go enumerates a map.\<close>

record 'x review_env =
  en_repository :: "'x review_repository option"
  en_judgeClient :: "'x chat_client option"
  en_judgeModel :: string
  en_ctxErr :: "'x \<Rightarrow> store_error option"
  en_uuid :: uuid_lib
  en_parse :: "string \<Rightarrow> gval option"
  en_marshal :: "judgePromptPayload \<Rightarrow> string option"
  en_wide :: "rat \<Rightarrow> int"
  en_order :: "uuid list \<Rightarrow> uuid list"

definition ErrJudgeClientRequired :: store_error where
  "ErrJudgeClientRequired = Backend ''project coordination adversarial judge client is required''"

definition on_rest :: "('x \<Rightarrow> 'x \<times> 'a) \<Rightarrow> 'x world \<Rightarrow> 'x world \<times> 'a" where
  "on_rest f w = (case f (wd_rest w) of (x, a) \<Rightarrow> (w\<lparr>wd_rest := x\<rparr>, a))"

definition RunAdversarialReview ::
    "'x review_env \<Rightarrow> RunAdversarialReviewInput \<Rightarrow> 'x \<Rightarrow> 'x \<times> (store_error + AdversarialReviewResult)" where
  "RunAdversarialReview E input x =
     (case en_judgeClient E of
        None \<Rightarrow> (x, Inl ErrJudgeClientRequired)
      | Some chat \<Rightarrow>
          if rai_BudgetExhausted input
          then (x, Inr \<lparr>arr_CriterionID = rai_CriterionID input, arr_ReviewedTaskID = rai_ReviewedTaskID input,
                   arr_Judgements = [], arr_Aggregate = AdversarialAggregateEscalateHuman, arr_RefutedCount = 0,
                   arr_JudgeCount = 0\<rparr>)
          else runAdversarialReview (en_ctxErr E) (en_parse E) (en_marshal E) chat
                 (resolveAdversarialLenses (resolveJudgeCount (rai_JudgeCountPolicy input))) input x)"

section \<open>The verdict rows of a review\<close>

definition update_rows ::
    "uuid \<Rightarrow> uuid \<Rightarrow> uuid \<Rightarrow> (DemandCriterionVerdict list \<Rightarrow> DemandCriterionVerdict list) \<Rightarrow> 'x world \<Rightarrow> 'x world" where
  "update_rows tenant demand revision f w =
     w\<lparr>wd_verdicts := (\<lambda>t d r. if t = tenant \<and> d = demand \<and> r = revision then f (wd_verdicts w t d r) else wd_verdicts w t d r)\<rparr>"

text \<open>The upsert of an adversarial aggregate row: the row of the criterion is replaced and becomes the newest, or
  inserted.\<close>

definition CreateAdversarialVerdict :: "DemandCriterionVerdict list \<Rightarrow> DemandCriterionVerdict \<Rightarrow> DemandCriterionVerdict list" where
  "CreateAdversarialVerdict rows req =
     filter (\<lambda>r. \<not> (dcv_CriterionID r = dcv_CriterionID req \<and> dcv_ProjectTaskID r = None \<and> dcv_JudgeType r = judge_adversarial)) rows @
     [req\<lparr>dcv_JudgeType := judge_adversarial, dcv_ProjectTaskID := None\<rparr>]"

definition CreateAdversarialJudgement ::
    "CreateAdversarialJudgementRequest list \<Rightarrow> CreateAdversarialJudgementRequest \<Rightarrow> CreateAdversarialJudgementRequest list" where
  "CreateAdversarialJudgement rows req =
     filter (\<lambda>r. \<not> (cj_TenantID r = cj_TenantID req \<and> cj_DemandID r = cj_DemandID req \<and>
                 cj_PlanRevisionID r = cj_PlanRevisionID req \<and> cj_CriterionID r = cj_CriterionID req \<and> cj_Lens r = cj_Lens req)) rows @
     [req]"

definition insert_verdict ::
    "'x review_repository \<Rightarrow> uuid \<Rightarrow> uuid \<Rightarrow> uuid \<Rightarrow> (DemandCriterionVerdict list \<Rightarrow> DemandCriterionVerdict \<Rightarrow> DemandCriterionVerdict list) \<Rightarrow>
     DemandCriterionVerdict \<Rightarrow> 'x world \<Rightarrow> 'x world \<times> (store_error + unit)" where
  "insert_verdict R tenant demand revision upsert row w =
     (case rv_refuse_verdict R row w of
        Some e \<Rightarrow> (w, Inl e)
      | None \<Rightarrow> (update_rows tenant demand revision (\<lambda>rows. upsert rows row) w, Inr ()))"

fun CreateAdversarialJudgements ::
    "'x review_repository \<Rightarrow> CreateAdversarialJudgementRequest list \<Rightarrow> 'x world \<Rightarrow> 'x world \<times> (store_error + unit)" where
  "CreateAdversarialJudgements R [] w = (w, Inr ())"
| "CreateAdversarialJudgements R (req # reqs) w =
     (case rv_refuse_judgement R req w of
        Some e \<Rightarrow> (w, Inl e)
      | None \<Rightarrow> CreateAdversarialJudgements R reqs (w\<lparr>wd_judgements := CreateAdversarialJudgement (wd_judgements w) req\<rparr>))"

record PersistAdversarialOutcomeInput =
  pa_TenantID :: uuid
  pa_ProjectID :: uuid
  pa_DemandID :: uuid
  pa_PlanRevisionID :: uuid
  pa_CriterionID :: string
  pa_ReviewedTaskID :: uuid
  pa_Aggregate :: string
  pa_Reason :: string
  pa_EvidenceRefs :: "string list"
  pa_Judgements :: "AdversarialJudgement list"

definition adversarial_row :: "PersistAdversarialOutcomeInput \<Rightarrow> DemandCriterionVerdict" where
  "adversarial_row input =
     \<lparr>dcv_CriterionID = pa_CriterionID input, dcv_Verdict = pa_Aggregate input, dcv_JudgeType = judge_adversarial,
      dcv_JudgeID = uuid_Nil, dcv_Reason = pa_Reason input, dcv_EvidenceRefs = pa_EvidenceRefs input,
      dcv_ProjectTaskID = None\<rparr>"

definition judgement_request :: "PersistAdversarialOutcomeInput \<Rightarrow> AdversarialJudgement \<Rightarrow> CreateAdversarialJudgementRequest" where
  "judgement_request input j =
     \<lparr>cj_TenantID = pa_TenantID input, cj_ProjectID = pa_ProjectID input, cj_DemandID = pa_DemandID input,
      cj_PlanRevisionID = pa_PlanRevisionID input, cj_CriterionID = pa_CriterionID input,
      cj_ReviewedTaskID = pa_ReviewedTaskID input, cj_Lens = aj_Lens j, cj_Verdict = aj_Verdict j, cj_Reason = aj_Reason j\<rparr>"

definition PersistAdversarialOutcome ::
    "'x review_env \<Rightarrow> PersistAdversarialOutcomeInput \<Rightarrow> 'x world \<Rightarrow> 'x world \<times> (store_error + unit)" where
  "PersistAdversarialOutcome E input w =
     (case en_repository E of
        None \<Rightarrow> (w, Inl ErrActivityStoreRequired)
      | Some R \<Rightarrow>
          (case insert_verdict R (pa_TenantID input) (pa_DemandID input) (pa_PlanRevisionID input) CreateAdversarialVerdict
                  (adversarial_row input) w of
             (w', Inl e) \<Rightarrow> (w', Inl e)
           | (w', Inr _) \<Rightarrow>
               if pa_Judgements input = [] then (w', Inr ())
               else CreateAdversarialJudgements R (map (judgement_request input) (pa_Judgements input)) w'))"

section \<open>The criteria and the result of a task\<close>

definition revisionRootTaskID :: "uuid_lib \<Rightarrow> 'a ProjectTask_scheme \<Rightarrow> string" where
  "revisionRootTaskID U task =
     (case as_str (gget (pt_PlannerMetadata task) ''revision_root_task_id'') of
        Some v \<Rightarrow> if TrimSpace v \<noteq> [] then TrimSpace v
                  else (case pt_RevisionOfTaskID task of
                          Some i \<Rightarrow> if i \<noteq> uuid_Nil then uuid_String U i else uuid_String U (pt_ID task)
                        | None \<Rightarrow> uuid_String U (pt_ID task))
      | None \<Rightarrow> (case pt_RevisionOfTaskID task of
                   Some i \<Rightarrow> if i \<noteq> uuid_Nil then uuid_String U i else uuid_String U (pt_ID task)
                 | None \<Rightarrow> uuid_String U (pt_ID task)))"

definition revisionRootPlannedTaskKey :: "uuid_lib \<Rightarrow> 'x review_repository \<Rightarrow> ReviewedTask \<Rightarrow> 'x world \<Rightarrow> string" where
  "revisionRootPlannedTaskKey U R task w =
     (if pt_RevisionOfTaskID task = None \<and> map_of (pt_PlannerMetadata task) ''revision_root_task_id'' = None then []
      else
        let rootIDValue = revisionRootTaskID U task in
        if rootIDValue = [] \<or> rootIDValue = uuid_String U (pt_ID task) then []
        else case uuid_Parse U rootIDValue of
               None \<Rightarrow> []
             | Some rootID \<Rightarrow>
                 (case rv_GetProjectTask R (rt_TenantID task) rootID w of
                    Inl _ \<Rightarrow> []
                  | Inr rootTask \<Rightarrow> (case pt_PlannedTaskKey rootTask of None \<Rightarrow> [] | Some k \<Rightarrow> TrimSpace k)))"

definition listCriteriaForTaskByMethod ::
    "uuid_lib \<Rightarrow> 'x review_repository \<Rightarrow> ReviewedTask \<Rightarrow> string \<Rightarrow> 'x world \<Rightarrow> store_error + ReviewCriterion list" where
  "listCriteriaForTaskByMethod U R task verification w =
     (case (pt_DemandID task, pt_AcceptedPlanRevisionID task, pt_PlannedTaskKey task) of
        (Some demand, Some revision, Some key) \<Rightarrow>
          if TrimSpace key = [] then Inr []
          else
            let rootKey = revisionRootPlannedTaskKey U R task w;
                matchKeys = TrimSpace key # (if rootKey \<noteq> [] then [rootKey] else [])
            in (case rv_ListDemandAcceptanceCriteria R (rt_TenantID task) demand revision w of
                  Inl e \<Rightarrow> Inl e
                | Inr criteria \<Rightarrow>
                    Inr (filter (\<lambda>c. dac_VerificationMethod c = verification \<and>
                                  list_ex (\<lambda>s. TrimSpace s \<in> set matchKeys) (dac_SatisfiedBy c)) criteria))
      | _ \<Rightarrow> Inr [])"

definition listAdversarialCriteriaForTask ::
    "uuid_lib \<Rightarrow> 'x review_repository \<Rightarrow> ReviewedTask \<Rightarrow> 'x world \<Rightarrow> store_error + ReviewCriterion list" where
  "listAdversarialCriteriaForTask U R task = listCriteriaForTaskByMethod U R task ''adversarial_review''"

text \<open>The loop over the pages of results; the offset is a 32-bit integer. \<open>page\<close> is the read of one page, so that every
  client of the loop can carry the fields it reads of a result.\<close>

partial_function (option) result_page ::
    "(int \<Rightarrow> store_error + 'r ProjectTaskResult_scheme list) \<Rightarrow> uuid \<Rightarrow> int \<Rightarrow>
     (store_error + 'r ProjectTaskResult_scheme option) option" where
  "result_page page latest offset =
     (case page offset of
        Inl e \<Rightarrow> Some (Inl e)
      | Inr results \<Rightarrow>
          (case find (\<lambda>r. ptr_ID r = latest) results of
             Some r \<Rightarrow> Some (Inr (Some r))
           | None \<Rightarrow> if length results < 100 then Some (Inr None)
                     else result_page page latest (int32 (offset + 100))))"

definition latest_result ::
    "(int \<Rightarrow> store_error + 'r ProjectTaskResult_scheme list) \<Rightarrow> 't DispatchTask_scheme \<Rightarrow>
     (store_error + 'r ProjectTaskResult_scheme option) option" where
  "latest_result page task =
     (case dt_LatestTaskResultID task of
        None \<Rightarrow> Some (Inr None)
      | Some latest \<Rightarrow> if latest = uuid_Nil then Some (Inr None) else result_page page latest 0)"

definition latestTaskResult ::
    "'x review_repository \<Rightarrow> ReviewedTask \<Rightarrow> 'x world \<Rightarrow> (store_error + ReviewedResult option) option" where
  "latestTaskResult R task w =
     latest_result (\<lambda>offset. rv_ListProjectTaskResults R (rt_TenantID task) (dt_ProjectID task) (pt_ID task) 100 offset w) task"

section \<open>The adversarial review of a task\<close>

definition adversarialJudgeCount :: "(rat \<Rightarrow> int) \<Rightarrow> gmap \<Rightarrow> int" where
  "adversarialJudgeCount wide policy =
     (case int32FromAny wide (gget policy ''adversarial_review_judges'') of Some v \<Rightarrow> if v > 0 then v else 0 | None \<Rightarrow> 0)"

definition revisionAttemptCount :: "(rat \<Rightarrow> int) \<Rightarrow> ReviewedTask \<Rightarrow> int" where
  "revisionAttemptCount wide task =
     (let own = (if pt_AttemptCount task > 0 then pt_AttemptCount task else 1) in
      case int32FromAny wide (gget (pt_PlannerMetadata task) ''revision_attempt_count'') of
        Some v \<Rightarrow> if v > 0 then v else own | None \<Rightarrow> own)"

definition DefaultProjectTaskMaxAttempts :: int where
  "DefaultProjectTaskMaxAttempts = 3"

definition revisionMaxAttempts :: "(rat \<Rightarrow> int) \<Rightarrow> ReviewedTask \<Rightarrow> int" where
  "revisionMaxAttempts wide task =
     (let own = (case pt_MaxAttempts task of
                   Some n \<Rightarrow> if n > 0 then n else DefaultProjectTaskMaxAttempts | None \<Rightarrow> DefaultProjectTaskMaxAttempts) in
      case int32FromAny wide (gget (pt_PlannerMetadata task) ''revision_max_attempts'') of
        Some v \<Rightarrow> if v > 0 then v else own | None \<Rightarrow> own)"

definition priorRevisionTasks ::
    "uuid_lib \<Rightarrow> 'x review_repository \<Rightarrow> uuid \<Rightarrow> uuid \<Rightarrow> ReviewedTask \<Rightarrow> string \<Rightarrow> 'x world \<Rightarrow> ReviewedTask list" where
  "priorRevisionTasks U R tenant project source iterationKey w =
     (case rt_CoordinationJobID source of
        None \<Rightarrow> []
      | Some job \<Rightarrow>
          (case rv_ListProjectTasksByCoordinationJob R tenant project job w of
             Inl _ \<Rightarrow> []
           | Inr tasks \<Rightarrow>
               let rootTaskID = revisionRootTaskID U source in
               filter (\<lambda>t. pt_ID t \<noteq> pt_ID source \<and>
                 (pt_RevisionOfTaskID t = Some (pt_ID source) \<or>
                  rootTaskID \<noteq> [] \<and> revisionRootTaskID U t = rootTaskID \<or>
                  iterationKey \<noteq> [] \<and> gget (pt_PlannerMetadata t) ''iteration_key'' = GStr iterationKey)) tasks))"

definition revisionBudgetExhausted ::
    "'x review_env \<Rightarrow> 'x review_repository \<Rightarrow> uuid \<Rightarrow> uuid \<Rightarrow> ReviewedTask \<Rightarrow> 'x world \<Rightarrow> bool" where
  "revisionBudgetExhausted E R tenant project source w =
     (let iterationKey = (case as_str (gget (pt_PlannerMetadata source) ''iteration_key'') of Some s \<Rightarrow> s | None \<Rightarrow> []);
          maxCount = foldl (\<lambda>m t. let n = revisionAttemptCount (en_wide E) t in if n > m then n else m)
            (revisionAttemptCount (en_wide E) source)
            (priorRevisionTasks (en_uuid E) R tenant project source iterationKey w)
      in maxCount \<ge> revisionMaxAttempts (en_wide E) source)"

definition dedicated_review :: "ReviewedTask \<Rightarrow> ReviewedTask \<Rightarrow> bool" where
  "dedicated_review task sibling =
     (let key = (case pt_PlannedTaskKey sibling of None \<Rightarrow> [] | Some k \<Rightarrow> ToLower (TrimSpace k)) in
      pt_ID sibling \<noteq> pt_ID task \<and> dt_Status sibling \<noteq> ''cancelled'' \<and> \<not> Contains key ''revision'' \<and>
      (Contains key ''review'' \<or> Contains key ''security'' \<or> Contains (ToLower (dt_Title sibling)) (byte_string [229, 174, 161, 230, 159, 165])))"

definition demandAlreadyHasDedicatedReviewTasks :: "'x review_repository \<Rightarrow> ReviewedTask \<Rightarrow> 'x world \<Rightarrow> bool" where
  "demandAlreadyHasDedicatedReviewTasks R task w =
     (case pt_DemandID task of
        None \<Rightarrow> False
      | Some demand \<Rightarrow>
          (case rv_ListDemandLaunchProjectTasks R (rt_TenantID task) (dt_ProjectID task) demand 200 w of
             Inl _ \<Rightarrow> False
           | Inr siblings \<Rightarrow> list_ex (dedicated_review task) siblings))"

record CompletedTaskInput =
  ct_TenantID :: uuid
  ct_ProjectID :: uuid
  ct_CompletedTaskID :: uuid

record AdversarialReviewItem =
  ari_DemandID :: uuid
  ari_PlanRevisionID :: uuid
  ari_Input :: RunAdversarialReviewInput

definition review_item ::
    "CompletedTaskInput \<Rightarrow> ReviewedTask \<Rightarrow> ReviewedContract option \<Rightarrow> int \<Rightarrow> bool \<Rightarrow> ReviewCriterion \<Rightarrow> AdversarialReviewItem" where
  "review_item input task contract judgeCountPolicy budgetExhausted c =
     (case adversarialEvidenceFromResult contract of
        (evidenceSummary, deliverables, evidenceRefs) \<Rightarrow>
          \<lparr>ari_DemandID = rcr_DemandID c, ari_PlanRevisionID = rcr_PlanRevisionID c,
           ari_Input =
             \<lparr>rai_TenantID = ct_TenantID input, rai_ProjectID = ct_ProjectID input, rai_CriterionID = dac_CriterionID c,
              rai_ReviewedTaskID = pt_ID task, rai_Assertion = dac_Statement c, rai_EvidenceSummary = evidenceSummary,
              rai_Deliverables = deliverables, rai_EvidenceRefs = evidenceRefs, rai_JudgeCountPolicy = judgeCountPolicy,
              rai_BudgetExhausted = budgetExhausted, rai_Model = []\<rparr>\<rparr>)"

text \<open>The plan is the list of its items; a plan without items is one that reviews nothing.\<close>

definition PrepareAdversarialReview ::
    "'x review_env \<Rightarrow> CompletedTaskInput \<Rightarrow> 'x world \<Rightarrow> (store_error + AdversarialReviewItem list) option" where
  "PrepareAdversarialReview E input w =
     (case en_repository E of
        None \<Rightarrow> Some (Inl ErrActivityStoreRequired)
      | Some R \<Rightarrow>
          (case rv_GetProjectTask R (ct_TenantID input) (ct_CompletedTaskID input) w of
             Inl e \<Rightarrow> Some (Inl e)
           | Inr task \<Rightarrow>
               if dt_ProjectID task \<noteq> ct_ProjectID input then Some (Inl ErrProjectNotFound)
               else case listAdversarialCriteriaForTask (en_uuid E) R task w of
                      Inl e \<Rightarrow> Some (Inl e)
                    | Inr criteria \<Rightarrow>
                        if criteria = [] \<or> demandAlreadyHasDedicatedReviewTasks R task w then Some (Inr [])
                        else case latestTaskResult R task w of
                               None \<Rightarrow> None
                             | Some (Inl e) \<Rightarrow> Some (Inl e)
                             | Some (Inr latest) \<Rightarrow>
                                 let policy = (case rv_GetProject R (ct_TenantID input) (ct_ProjectID input) w of
                                       Inr p \<Rightarrow> adversarialJudgeCount (en_wide E) (pj_CoordinationPolicy p) | Inl _ \<Rightarrow> 0);
                                     budget = revisionBudgetExhausted E R (ct_TenantID input) (ct_ProjectID input) task w
                                 in Some (Inr (map (review_item input task (map_option rvr_Contract latest) policy budget) criteria))))"

record AdversarialReviewForTaskResult =
  arf_Reviewed :: bool
  arf_AllSatisfied :: bool
  arf_AnyEscalated :: bool
  arf_ReviewedTaskID :: uuid
  arf_DemandID :: uuid
  arf_PlanRevisionID :: uuid
  arf_HeldCriteria :: "(string \<times> string) list"

definition nothing_reviewed :: AdversarialReviewForTaskResult where
  "nothing_reviewed =
     \<lparr>arf_Reviewed = False, arf_AllSatisfied = False, arf_AnyEscalated = False, arf_ReviewedTaskID = uuid_Nil,
      arf_DemandID = uuid_Nil, arf_PlanRevisionID = uuid_Nil, arf_HeldCriteria = []\<rparr>"

definition adversarialOutcomeReason :: "AdversarialReviewResult \<Rightarrow> string" where
  "adversarialOutcomeReason r =
     (if arr_Aggregate r = AdversarialAggregateEscalateHuman then (byte_string [233, 162, 132, 231, 174, 151, 232,
       167, 166, 233, 161, 182, 239, 188, 154, 232, 189, 172, 228, 186, 186, 231, 177, 187, 230, 161, 163, 51, 229, 174, 161, 230, 159, 165])
      else Itoa (arr_RefutedCount r) @ ''/'' @ Itoa (arr_JudgeCount r) @ '' '' @ (byte_string [229, 136, 164, 229,
        174, 152, 232, 175, 129, 228, 188, 170]))"

definition outcome_input ::
    "CompletedTaskInput \<Rightarrow> AdversarialReviewItem \<Rightarrow> AdversarialReviewResult \<Rightarrow> PersistAdversarialOutcomeInput" where
  "outcome_input input item review =
     \<lparr>pa_TenantID = ct_TenantID input, pa_ProjectID = ct_ProjectID input, pa_DemandID = ari_DemandID item,
      pa_PlanRevisionID = ari_PlanRevisionID item, pa_CriterionID = rai_CriterionID (ari_Input item),
      pa_ReviewedTaskID = rai_ReviewedTaskID (ari_Input item), pa_Aggregate = arr_Aggregate review,
      pa_Reason = adversarialOutcomeReason review, pa_EvidenceRefs = rai_EvidenceRefs (ari_Input item),
      pa_Judgements = arr_Judgements review\<rparr>"

definition note_outcome ::
    "AdversarialReviewItem \<Rightarrow> AdversarialReviewResult \<Rightarrow> AdversarialReviewForTaskResult \<Rightarrow> AdversarialReviewForTaskResult" where
  "note_outcome item review result =
     (let r = result\<lparr>arf_ReviewedTaskID := rai_ReviewedTaskID (ari_Input item), arf_DemandID := ari_DemandID item,
                     arf_PlanRevisionID := ari_PlanRevisionID item\<rparr> in
      if arr_Aggregate review = AdversarialAggregateSatisfied then r
      else if arr_Aggregate review = AdversarialAggregateEscalateHuman
      then r\<lparr>arf_AllSatisfied := False, arf_AnyEscalated := True\<rparr>
      else r\<lparr>arf_AllSatisfied := False,
             arf_HeldCriteria := arf_HeldCriteria r @ [(rai_CriterionID (ari_Input item), rai_Assertion (ari_Input item))]\<rparr>)"

definition judge_input :: "'x review_env \<Rightarrow> AdversarialReviewItem \<Rightarrow> RunAdversarialReviewInput" where
  "judge_input E item =
     (if rai_Model (ari_Input item) = [] then (ari_Input item)\<lparr>rai_Model := en_judgeModel E\<rparr> else ari_Input item)"

fun review_items ::
    "'x review_env \<Rightarrow> CompletedTaskInput \<Rightarrow> AdversarialReviewItem list \<Rightarrow> AdversarialReviewForTaskResult \<Rightarrow> 'x world \<Rightarrow>
     'x world \<times> (store_error + AdversarialReviewForTaskResult)" where
  "review_items E input [] result w = (w, Inr result)"
| "review_items E input (item # items) result w =
     (case on_rest (RunAdversarialReview E (judge_input E item)) w of
        (w1, Inl e) \<Rightarrow> (w1, Inl (Wrapped (''adversarial review for criterion '' @ rai_CriterionID (ari_Input item) @ '' failed'') e))
      | (w1, Inr review) \<Rightarrow>
          (case PersistAdversarialOutcome E (outcome_input input item review) w1 of
             (w2, Inl e) \<Rightarrow> (w2, Inl e)
           | (w2, Inr _) \<Rightarrow> review_items E input items (note_outcome item review result) w2))"

definition AdversarialReviewForTask ::
    "'x review_env \<Rightarrow> CompletedTaskInput \<Rightarrow> 'x world \<Rightarrow> ('x world \<times> (store_error + AdversarialReviewForTaskResult)) option" where
  "AdversarialReviewForTask E input w =
     (case PrepareAdversarialReview E input w of
        None \<Rightarrow> None
      | Some (Inl e) \<Rightarrow> Some (w, Inl e)
      | Some (Inr items) \<Rightarrow>
          if items = [] then Some (w, Inr nothing_reviewed)
          else Some (review_items E input items (nothing_reviewed\<lparr>arf_Reviewed := True, arf_AllSatisfied := True\<rparr>) w))"

section \<open>The review gate of a task\<close>

record ReviewGateItem =
  rgi_DemandID :: uuid
  rgi_PlanRevisionID :: uuid
  rgi_CriterionID :: string

definition gate_item :: "ReviewCriterion \<Rightarrow> ReviewGateItem" where
  "gate_item c = \<lparr>rgi_DemandID = rcr_DemandID c, rgi_PlanRevisionID = rcr_PlanRevisionID c, rgi_CriterionID = dac_CriterionID c\<rparr>"

record ReviewGatePlan =
  rgp_Reviewed :: bool
  rgp_Artifact :: DetectionArtifact
  rgp_Policy :: gmap
  rgp_Items :: "ReviewGateItem list"

definition no_gate_plan :: ReviewGatePlan where
  "no_gate_plan = \<lparr>rgp_Reviewed = False, rgp_Artifact = assembleDetectionArtifact None, rgp_Policy = [], rgp_Items = []\<rparr>"

definition PrepareReviewGate ::
    "'x review_env \<Rightarrow> CompletedTaskInput \<Rightarrow> 'x world \<Rightarrow> (store_error + ReviewGatePlan) option" where
  "PrepareReviewGate E input w =
     (case en_repository E of
        None \<Rightarrow> Some (Inl ErrActivityStoreRequired)
      | Some R \<Rightarrow>
          (case rv_GetProjectTask R (ct_TenantID input) (ct_CompletedTaskID input) w of
             Inl e \<Rightarrow> Some (Inl e)
           | Inr task \<Rightarrow>
               if dt_ProjectID task \<noteq> ct_ProjectID input then Some (Inl ErrProjectNotFound)
               else case listCriteriaForTaskByMethod (en_uuid E) R task ''review_gate'' w of
                      Inl e \<Rightarrow> Some (Inl e)
                    | Inr criteria \<Rightarrow>
                        if criteria = [] then Some (Inr no_gate_plan)
                        else case latestTaskResult R task w of
                               None \<Rightarrow> None
                             | Some (Inl e) \<Rightarrow> Some (Inl e)
                             | Some (Inr latest) \<Rightarrow>
                                 Some (Inr \<lparr>rgp_Reviewed = True,
                                   rgp_Artifact = assembleDetectionArtifact (map_option rvr_Contract latest),
                                   rgp_Policy = (case rv_GetProject R (ct_TenantID input) (ct_ProjectID input) w of
                                                   Inr p \<Rightarrow> pj_CoordinationPolicy p | Inl _ \<Rightarrow> []),
                                   rgp_Items = map gate_item criteria\<rparr>)))"

text \<open>\<open>PersistReviewGateOutcome\<close> calls \<open>projectReviewGateVerdict\<close>.\<close>

definition PersistReviewGateOutcome ::
    "'x review_env \<Rightarrow> CompletedTaskInput \<Rightarrow> ReviewGateOutcome \<Rightarrow> ReviewGateItem \<Rightarrow> 'x world \<Rightarrow> 'x world \<times> (store_error + unit)" where
  "PersistReviewGateOutcome E input outcome item w =
     (case en_repository E of
        None \<Rightarrow> (w, Inl ErrActivityStoreRequired)
      | Some R \<Rightarrow>
          insert_verdict R (ct_TenantID input) (rgi_DemandID item) (rgi_PlanRevisionID item) CreateReviewGateVerdict
            (review_gate_row (rgi_CriterionID item) outcome) w)"

definition RecomputeDemandStatusAfterReviewGate ::
    "'x review_env \<Rightarrow> uuid \<Rightarrow> uuid \<Rightarrow> uuid \<Rightarrow> 'x world \<Rightarrow> 'x world \<times> (store_error + unit)" where
  "RecomputeDemandStatusAfterReviewGate E tenant project demand w =
     (case en_repository E of
        None \<Rightarrow> (w, Inl ErrActivityStoreRequired)
      | Some R \<Rightarrow> (case rv_RecomputeProjectDemandStatus R tenant project demand w of (x, r) \<Rightarrow> (w\<lparr>wd_rest := x\<rparr>, r)))"

text \<open>A loop of statements that stops at the first error.\<close>

fun each :: "('a \<Rightarrow> 'w \<Rightarrow> 'w \<times> ('e + unit)) \<Rightarrow> 'a list \<Rightarrow> 'w \<Rightarrow> 'w \<times> ('e + unit)" where
  "each f [] w = (w, Inr ())"
| "each f (a # as) w = (case f a w of (w', Inl e) \<Rightarrow> (w', Inl e) | (w', Inr _) \<Rightarrow> each f as w')"

definition RunReviewGateForTask ::
    "'x review_env \<Rightarrow> CompletedTaskInput \<Rightarrow> 'x world \<Rightarrow> ('x world \<times> (store_error + bool \<times> bool)) option" where
  "RunReviewGateForTask E input w =
     (case PrepareReviewGate E input w of
        None \<Rightarrow> None
      | Some (Inl e) \<Rightarrow> Some (w, Inl e)
      | Some (Inr plan) \<Rightarrow>
          if \<not> rgp_Reviewed plan \<or> rgp_Items plan = [] then Some (w, Inr (False, False))
          else Some
            (case on_rest (runReviewGate (rgp_Artifact plan)
                    (enabledConditions (rgp_Policy plan) (standardConditions (en_parse E) (en_judgeClient E) (en_judgeModel E)))
                    (reviewGateMinorTolerance (en_wide E) (rgp_Policy plan))) w of
               (w1, outcome) \<Rightarrow>
                 (case each (PersistReviewGateOutcome E input outcome) (rgp_Items plan) w1 of
                    (w2, Inl e) \<Rightarrow> (w2, Inl e)
                  | (w2, Inr _) \<Rightarrow>
                      (case each (RecomputeDemandStatusAfterReviewGate E (ct_TenantID input) (ct_ProjectID input))
                              (en_order E (remdups (map rgi_DemandID (rgp_Items plan)))) w2 of
                         (w3, Inl e) \<Rightarrow> (w3, Inl e)
                       | (w3, Inr _) \<Rightarrow> (w3, Inr (True, ro_Violated outcome))))))"

section \<open>Aggregate rows\<close>

lemma pending_cong:
  "criterionEffectiveVerdict rows (dac_CriterionID c) = criterionEffectiveVerdict rows' (dac_CriterionID c) \<Longrightarrow>
   criterion_pending rows c = criterion_pending rows' c"
  by (simp add: criterion_pending_def)

text \<open>The contract of the two upserts: the row of a judge on a criterion becomes the newest of its kind, and no row of
  another judge, of another criterion or of an executor is touched.\<close>

locale aggregate_rows =
  fixes upsert :: "DemandCriterionVerdict list \<Rightarrow> DemandCriterionVerdict \<Rightarrow> DemandCriterionVerdict list" and judge :: string
  assumes newest: "last_by (judged i judge) (upsert rows v) =
      (if dcv_CriterionID v = i then Some (v\<lparr>dcv_JudgeType := judge, dcv_ProjectTaskID := None\<rparr>) else last_by (judged i judge) rows)"
    and other_judges: "j \<noteq> judge \<Longrightarrow> last_by (judged i j) (upsert rows v) = last_by (judged i j) rows"
    and executors: "find (\<lambda>r. self_reported i r \<and> P r) (upsert rows v) = find (\<lambda>r. self_reported i r \<and> P r) rows"
begin

lemma folded_newest:
  "last_by (judged i judge) (foldl upsert rows vs) =
     (case last_by (\<lambda>v. dcv_CriterionID v = i) vs of
        None \<Rightarrow> last_by (judged i judge) rows
      | Some v \<Rightarrow> Some (v\<lparr>dcv_JudgeType := judge, dcv_ProjectTaskID := None\<rparr>))"
  by (induction vs rule: rev_induct) (auto simp: newest)

lemma folded_judges: "j \<noteq> judge \<Longrightarrow> last_by (judged i j) (foldl upsert rows vs) = last_by (judged i j) rows"
  by (induction vs rule: rev_induct) (auto simp: other_judges)

lemma folded_executors: "find (\<lambda>r. self_reported i r \<and> P r) (foldl upsert rows vs) = find (\<lambda>r. self_reported i r \<and> P r) rows"
  by (induction vs rule: rev_induct) (auto simp: executors)

lemma effective_untouched:
  assumes "\<forall>v \<in> set vs. dcv_CriterionID v \<noteq> i"
  shows "criterionEffectiveVerdict (foldl upsert rows vs) i = criterionEffectiveVerdict rows i"
proof -
  have none: "last_by (\<lambda>v. dcv_CriterionID v = i) vs = None" using assms by (simp add: last_by_None)
  have judges: "last_by (judged i j) (foldl upsert rows vs) = last_by (judged i j) rows" for j
    by (cases "j = judge") (simp_all add: folded_newest none folded_judges)
  have reports: "find (self_reported i) (foldl upsert rows vs) = find (self_reported i) rows"
    using folded_executors [where P = "\<lambda>_. True", of i rows vs] by simp
  show ?thesis unfolding effective_verdict_unfold judges folded_executors reports ..
qed

lemma untouched_pending:
  assumes "\<forall>v \<in> set vs. dcv_CriterionID v \<noteq> dac_CriterionID c"
  shows "criterion_pending (foldl upsert rows vs) c = criterion_pending rows c"
  by (rule pending_cong [OF effective_untouched [OF assms]])

end

lemma last_by_filter: "(\<And>x. P x \<Longrightarrow> Q x) \<Longrightarrow> last_by P (filter Q xs) = last_by P xs"
proof -
  assume "\<And>x. P x \<Longrightarrow> Q x"
  then have "filter P (filter Q xs) = filter P xs" by (auto intro: filter_cong)
  then show ?thesis by (simp add: last_by_def)
qed

lemma find_filter: "(\<And>x. P x \<Longrightarrow> Q x) \<Longrightarrow> find P (filter Q xs) = find P xs"
  by (induction xs) auto

lemma find_snoc_None: "\<not> P x \<Longrightarrow> find P (xs @ [x]) = find P xs"
  by (induction xs) auto

text \<open>Both upserts are the same statement over another judge.\<close>

lemma aggregate_upsert:
  assumes "judge \<in> {judge_adversarial, judge_review_gate}"
    and "\<And>rows v. upsert rows v =
      filter (\<lambda>r. \<not> (dcv_CriterionID r = dcv_CriterionID v \<and> dcv_ProjectTaskID r = None \<and> dcv_JudgeType r = judge)) rows @
      [v\<lparr>dcv_JudgeType := judge, dcv_ProjectTaskID := None\<rparr>]"
  shows "aggregate_rows upsert judge"
proof unfold_locales
  fix i rows v
  show "last_by (judged i judge) (upsert rows v) =
      (if dcv_CriterionID v = i then Some (v\<lparr>dcv_JudgeType := judge, dcv_ProjectTaskID := None\<rparr>) else last_by (judged i judge) rows)"
    by (simp add: assms(2), auto simp: judged_def intro!: last_by_filter)
next
  fix j i rows v assume "j \<noteq> judge"
  then show "last_by (judged i j) (upsert rows v) = last_by (judged i j) rows"
    by (simp add: assms(2) judged_def) (auto simp: judged_def intro!: last_by_filter)
next
  fix i P rows v
  have "\<not> self_reported i (v\<lparr>dcv_JudgeType := judge, dcv_ProjectTaskID := None\<rparr>)"
    using assms(1) by (auto simp: self_reported_def)
  then show "find (\<lambda>r. self_reported i r \<and> P r) (upsert rows v) = find (\<lambda>r. self_reported i r \<and> P r) rows"
    using assms(1) by (simp add: assms(2) find_snoc_None) (auto simp: self_reported_def intro!: find_filter)
qed

interpretation judges: aggregate_rows CreateAdversarialVerdict judge_adversarial
  by (rule aggregate_upsert) (simp_all add: CreateAdversarialVerdict_def)

interpretation detectors: aggregate_rows CreateReviewGateVerdict judge_review_gate
  by (rule aggregate_upsert) (simp_all add: CreateReviewGateVerdict_def)

section \<open>The vote\<close>

definition accepting :: "AdversarialReviewResult \<Rightarrow> nat" where
  "accepting r = length (filter (\<lambda>j. aj_Verdict j = AdversarialVerdictAccepted) (arr_Judgements r))"

definition refuting :: "AdversarialReviewResult \<Rightarrow> nat" where
  "refuting r = length (filter (\<lambda>j. aj_Verdict j = AdversarialVerdictRefuted) (arr_Judgements r))"

lemma judge_count: "1 \<le> resolveJudgeCount n \<and> resolveJudgeCount n \<le> 7"
  by (simp add: resolveJudgeCount_def defaultAdversarialJudgeCount_def maxAdversarialJudgeCount_def)

definition base_keys :: "string list" where
  "base_keys = [''correctness'', ''security'', ''reproducibility'']"

definition lens_keys :: "nat \<Rightarrow> string list" where
  "lens_keys n = (if n \<le> 3 then take n base_keys
     else base_keys @ map (\<lambda>i. base_keys ! (i mod 3) @ ''#'' @ Itoa (int (i div 3 + 1))) [3..<n])"

lemma base_lens_keys: "map al_Key baseAdversarialLenses = base_keys" "length baseAdversarialLenses = 3"
  by (simp_all add: baseAdversarialLenses_def base_keys_def)

lemma extra_lens_key: "al_Key (extra_lens i) = base_keys ! (i mod 3) @ ''#'' @ Itoa (int (i div 3 + 1))"
  by (simp add: extra_lens_def Let_def base_lens_keys flip: base_lens_keys(1))

lemma lenses_of_count:
  assumes "1 \<le> n" "n \<le> 7"
  shows "length (resolveAdversarialLenses n) = nat n \<and> distinct (map al_Key (resolveAdversarialLenses n))"
proof -
  have "map al_Key (resolveAdversarialLenses n) = lens_keys (nat n)"
    using assms
    by (simp add: resolveAdversarialLenses_def lens_keys_def Let_def maxAdversarialJudgeCount_def base_lens_keys extra_lens_key
        flip: take_map cong: map_cong)
  moreover have "nat n \<in> {1, 2, 3, 4, 5, 6, 7}" using assms by auto
  moreover have "\<forall>m \<in> {1, 2, 3, 4, 5, 6, 7}. length (lens_keys m) = m \<and> distinct (lens_keys m)" by code_simp
  ultimately show ?thesis by (metis length_map)
qed

lemma parsed_verdict: "aj_Verdict (parseJudgeResponse parse k content) \<in> {AdversarialVerdictAccepted, AdversarialVerdictRefuted}"
  "aj_Lens (parseJudgeResponse parse k content) = k"
  by (auto simp: parseJudgeResponse_def Let_def split: option.splits prod.splits)

lemma judge_all_shape:
  "judge_all ctxErr parse chat model user lenses x = (x', Inr js) \<Longrightarrow>
     map aj_Lens js = map al_Key lenses \<and> (\<forall>j \<in> set js. aj_Verdict j \<in> {AdversarialVerdictAccepted, AdversarialVerdictRefuted})"
  using parsed_verdict
  by (induction ctxErr parse chat model user lenses x arbitrary: x' js rule: judge_all.induct)
     (fastforce split: option.splits prod.splits sum.splits)+

lemma two_verdicts:
  "\<forall>j \<in> set js. aj_Verdict j \<in> {AdversarialVerdictAccepted, AdversarialVerdictRefuted} \<Longrightarrow>
   length (filter (\<lambda>j. aj_Verdict j = AdversarialVerdictAccepted) js) +
   length (filter (\<lambda>j. aj_Verdict j = AdversarialVerdictRefuted) js) = length js"
  by (induction js) auto

lemma vote_counts:
  assumes "RunAdversarialReview E input x = (x', Inr r)"
  shows "(arr_Aggregate r = AdversarialAggregateSatisfied \<longleftrightarrow> \<not> rai_BudgetExhausted input \<and> accepting r > refuting r) \<and>
    (rai_BudgetExhausted input \<longrightarrow> x' = x \<and> arr_Aggregate r = AdversarialAggregateEscalateHuman) \<and>
    (\<not> rai_BudgetExhausted input \<longrightarrow>
       distinct (map aj_Lens (arr_Judgements r)) \<and> accepting r + refuting r = length (arr_Judgements r) \<and>
       1 \<le> length (arr_Judgements r) \<and> length (arr_Judgements r) \<le> 7)"
proof (cases "rai_BudgetExhausted input")
  case True
  then show ?thesis using assms by (auto simp: RunAdversarialReview_def split: option.splits)
next
  case False
  let ?lenses = "resolveAdversarialLenses (resolveJudgeCount (rai_JudgeCountPolicy input))"
  obtain chat js where js: "judge_all (en_ctxErr E) (en_parse E) chat (rai_Model input) (buildJudgeUserPrompt (en_marshal E) input) ?lenses x = (x', Inr js)"
      and r: "arr_Judgements r = js"
        "arr_Aggregate r = (if refuted_count js \<ge> adversarialRefuteThreshold (int (length ?lenses))
                            then AdversarialAggregateUnsatisfied else AdversarialAggregateSatisfied)"
    using assms False by (auto simp: RunAdversarialReview_def runAdversarialReview_def split: option.splits prod.splits sum.splits)
  have lens: "length ?lenses = nat (resolveJudgeCount (rai_JudgeCountPolicy input))" "distinct (map al_Key ?lenses)"
    using lenses_of_count judge_count by blast+
  have shape: "map aj_Lens js = map al_Key ?lenses"
      "\<forall>j \<in> set js. aj_Verdict j \<in> {AdversarialVerdictAccepted, AdversarialVerdictRefuted}"
    using judge_all_shape [OF js] by blast+
  have len: "length js = length ?lenses" using arg_cong [OF shape(1), of length] by simp
  have sum: "accepting r + refuting r = length js" using two_verdicts [OF shape(2)] by (simp add: accepting_def refuting_def r(1))
  have "arr_Aggregate r = AdversarialAggregateSatisfied \<longleftrightarrow> \<not> int (refuting r) \<ge> (int (length js) + 1) div 2"
    by (simp add: r(2) refuted_count_def refuting_def r(1) adversarialRefuteThreshold_def len)
  also have "\<dots> \<longleftrightarrow> accepting r > refuting r" using sum by linarith
  finally have "arr_Aggregate r = AdversarialAggregateSatisfied \<longleftrightarrow> accepting r > refuting r" .
  moreover have "1 \<le> length js" "length js \<le> 7"
    using len lens(1) judge_count [of "rai_JudgeCountPolicy input"] by auto
  moreover have "distinct (map aj_Lens js)" using shape(1) lens(2) by simp
  ultimately show ?thesis using False sum by (simp add: r(1))
qed

lemmas vote = vote_counts [THEN conjunct1, THEN iffD1, THEN conjunct2]

text \<open>
  Claim C37: a criterion under adversarial review is satisfied exactly by a majority of the judges. A review
  that comes to a result without the budget being exhausted has asked between one and seven judges, each under a key of
  its own, and each has accepted or refuted; the aggregate is "satisfied" if and only if more judges accept than refute,
  and a tie refutes. With an exhausted budget no judge is asked and the result is never "satisfied".
\<close>

theorem majority_satisfies:
  assumes "RunAdversarialReview E input x = (x', Inr r)"
  shows "(arr_Aggregate r = AdversarialAggregateSatisfied \<longleftrightarrow> \<not> rai_BudgetExhausted input \<and> accepting r > refuting r) \<and>
    (rai_BudgetExhausted input \<longrightarrow> x' = x \<and> arr_Aggregate r = AdversarialAggregateEscalateHuman) \<and>
    (\<not> rai_BudgetExhausted input \<longrightarrow>
       distinct (map aj_Lens (arr_Judgements r)) \<and> accepting r + refuting r = length (arr_Judgements r) \<and>
       1 \<le> length (arr_Judgements r) \<and> length (arr_Judgements r) \<le> 7)"
  using vote_counts [OF assms] .

section \<open>What a review writes\<close>

lemma on_rest_verdicts [simp]: "wd_verdicts (fst (on_rest f w)) = wd_verdicts w"
  by (simp add: on_rest_def split: prod.splits)

lemma judgements_keep_verdicts [simp]: "wd_verdicts (fst (CreateAdversarialJudgements R reqs w)) = wd_verdicts w"
  by (induction R reqs w rule: CreateAdversarialJudgements.induct) (auto split: option.splits)

definition rows_at :: "'x world \<Rightarrow> uuid \<times> uuid \<times> uuid \<Rightarrow> DemandCriterionVerdict list" where
  "rows_at w k = (case k of (t, d, r) \<Rightarrow> wd_verdicts w t d r)"

lemma rows_at_update [simp]:
  "rows_at (update_rows t d r f w) k = (if k = (t, d, r) then f (rows_at w k) else rows_at w k)"
  by (auto simp: rows_at_def update_rows_def split: prod.splits)

lemma rows_at_same: "wd_verdicts w' = wd_verdicts w \<Longrightarrow> rows_at w' = rows_at w"
  by (rule ext) (simp add: rows_at_def)

definition place :: "PersistAdversarialOutcomeInput \<Rightarrow> uuid \<times> uuid \<times> uuid" where
  "place input = (pa_TenantID input, pa_DemandID input, pa_PlanRevisionID input)"

lemma inserted_rows:
  assumes "insert_verdict R t d r upsert row w = (w', res)"
  shows "rows_at w' = rows_at w \<and> res \<noteq> Inr () \<or>
    rows_at w' = (rows_at w)((t, d, r) := upsert (rows_at w (t, d, r)) row) \<and> res = Inr ()"
  using assms by (auto simp: insert_verdict_def fun_eq_iff split: option.splits)

lemma persisted_rows:
  assumes "PersistAdversarialOutcome E input w = (w', res)"
  shows "rows_at w' = rows_at w \<or>
    rows_at w' = (rows_at w)(place input := CreateAdversarialVerdict (rows_at w (place input)) (adversarial_row input))"
proof (cases "en_repository E")
  case None
  then show ?thesis using assms by (simp add: PersistAdversarialOutcome_def)
next
  case (Some R)
  obtain w1 r1 where ins: "insert_verdict R (pa_TenantID input) (pa_DemandID input) (pa_PlanRevisionID input) CreateAdversarialVerdict
      (adversarial_row input) w = (w1, r1)" by fastforce
  have keep: "rows_at (fst (CreateAdversarialJudgements R reqs w1)) = rows_at w1" for reqs
    by (rule rows_at_same) simp
  have "rows_at w' = rows_at w1"
    using assms keep Some ins by (auto simp: PersistAdversarialOutcome_def split: sum.splits if_splits) (metis fst_conv)
  then show ?thesis using inserted_rows [OF ins] by (auto simp: place_def)
qed

text \<open>A row that the activity may write for an item: the aggregate of a review that came to a result.\<close>

definition reviewed_row ::
    "'x review_env \<Rightarrow> CompletedTaskInput \<Rightarrow> AdversarialReviewItem list \<Rightarrow> uuid \<times> uuid \<times> uuid \<Rightarrow> DemandCriterionVerdict \<Rightarrow> bool" where
  "reviewed_row E input items k v \<longleftrightarrow>
     (\<exists>item \<in> set items. \<exists>x x' review. RunAdversarialReview E (judge_input E item) x = (x', Inr review) \<and>
        v = adversarial_row (outcome_input input item review) \<and> k = place (outcome_input input item review))"

lemma on_rest_run: "on_rest f w = (w', r) \<Longrightarrow> f (wd_rest w) = (wd_rest w', r) \<and> rows_at w' = rows_at w"
  by (auto simp: on_rest_def rows_at_def fun_eq_iff split: prod.splits)

lemma reviewed_rows:
  "review_items E input items result w = (w', res) \<Longrightarrow>
     \<exists>vs. rows_at w' k = foldl CreateAdversarialVerdict (rows_at w k) vs \<and> (\<forall>v \<in> set vs. reviewed_row E input items k v)"
proof (induction E input items result w arbitrary: w' res rule: review_items.induct)
  case (1 E input result w)
  then show ?case by (auto intro: exI [of _ "[]"])
next
  case (2 E input item items result w)
  obtain w1 r1 where run: "on_rest (RunAdversarialReview E (judge_input E item)) w = (w1, r1)" by fastforce
  note x = on_rest_run [OF run]
  show ?case
  proof (cases r1)
    case (Inl e)
    then show ?thesis using 2(2) run x by (auto intro: exI [of _ "[]"])
  next
    case (Inr review)
    let ?out = "outcome_input input item review"
    obtain w2 r2 where per: "PersistAdversarialOutcome E ?out w1 = (w2, r2)" by fastforce
    define v0 where "v0 = (if rows_at w2 = rows_at w1 then [] else if k = place ?out then [adversarial_row ?out] else [])"
    have v0: "rows_at w2 k = foldl CreateAdversarialVerdict (rows_at w k) v0" "\<forall>v \<in> set v0. reviewed_row E input (item # items) k v"
      using persisted_rows [OF per] x Inr by (auto simp: v0_def reviewed_row_def)
    show ?thesis
    proof (cases r2)
      case (Inl e)
      then show ?thesis using 2(2) run Inr per v0 by auto
    next
      case r2: (Inr u)
      then have "review_items E input items (note_outcome item review result) w2 = (w', res)"
        using 2(2) run Inr per by simp
      from "2.IH" [OF run [symmetric] Inr per [symmetric] r2 this] obtain vs where
        vs: "rows_at w' k = foldl CreateAdversarialVerdict (rows_at w2 k) vs" "\<forall>v \<in> set vs. reviewed_row E input items k v" by blast
      show ?thesis
        using vs v0 by (intro exI [of _ "v0 @ vs"]) (auto simp: reviewed_row_def)
    qed
  qed
qed

lemma adversarial_row_fields [simp]:
  "dcv_CriterionID (adversarial_row (outcome_input input item review)) = rai_CriterionID (ari_Input item)"
  "dcv_Verdict (adversarial_row (outcome_input input item review)) = arr_Aggregate review"
  by (simp_all add: adversarial_row_def outcome_input_def)

text \<open>
  Claim C34: only a majority of judges releases. If a blocking criterion under adversarial review holds its demand
  before the review of a completed task and no longer after it, then the activity has run a review of this criterion
  for this demand and revision in which more judges accepted than refuted. In particular a review that fails (no client,
  a failing call, a refused insert, a cancelled context) or that escalates releases nothing, wherever it stops.
\<close>

theorem only_a_majority_releases:
  assumes "AdversarialReviewForTask E input w = Some (w', res)"
    and "dac_VerificationMethod c = ''adversarial_review''"
    and "criterion_pending (wd_verdicts w tenant demand revision) c" "\<not> criterion_pending (wd_verdicts w' tenant demand revision) c"
  shows "\<exists>items item x x' review. PrepareAdversarialReview E input w = Some (Inr items) \<and> item \<in> set items \<and>
    RunAdversarialReview E (judge_input E item) x = (x', Inr review) \<and>
    rai_CriterionID (ari_Input item) = dac_CriterionID c \<and> ari_DemandID item = demand \<and> ari_PlanRevisionID item = revision \<and>
    ct_TenantID input = tenant \<and> accepting review > refuting review"
proof -
  let ?k = "(tenant, demand, revision)" and ?i = "dac_CriterionID c"
  have pend: "criterion_pending (rows_at w ?k) c" "\<not> criterion_pending (rows_at w' ?k) c"
    using assms(3,4) by (simp_all add: rows_at_def)
  obtain items where items: "PrepareAdversarialReview E input w = Some (Inr items)"
      and run: "w' = w \<or> (\<exists>result. review_items E input items result w = (w', res))"
    using assms(1) pend unfolding AdversarialReviewForTask_def
    by (auto split: option.splits sum.splits if_splits)
  then obtain result where "review_items E input items result w = (w', res)" using pend by auto
  from reviewed_rows [OF this] obtain vs where
    vs: "rows_at w' ?k = foldl CreateAdversarialVerdict (rows_at w ?k) vs" "\<forall>v \<in> set vs. reviewed_row E input items ?k v" by blast
  have block: "dac_Severity c = ''blocking''" using pend(1) by (auto simp: criterion_pending_def split: if_splits)
  have human: "last_by (judged ?i judge_human) (rows_at w' ?k) = last_by (judged ?i judge_human) (rows_at w ?k)"
    unfolding vs(1) by (rule judges.folded_judges) simp
  have "last_by (\<lambda>v. dcv_CriterionID v = ?i) vs \<noteq> None"
  proof
    assume "last_by (\<lambda>v. dcv_CriterionID v = ?i) vs = None"
    then have "\<forall>v \<in> set vs. dcv_CriterionID v \<noteq> ?i" by (simp add: last_by_None)
    then show False using judges.untouched_pending [of vs c "rows_at w ?k"] pend vs(1) by simp
  qed
  then obtain v where v: "last_by (\<lambda>v. dcv_CriterionID v = ?i) vs = Some v" by blast
  then have mem: "v \<in> set vs" "dcv_CriterionID v = ?i" by (auto dest: last_by_Some)
  have newest: "last_by (judged ?i judge_adversarial) (rows_at w' ?k) = Some (v\<lparr>dcv_JudgeType := judge_adversarial, dcv_ProjectTaskID := None\<rparr>)"
    unfolding vs(1) by (simp add: judges.folded_newest v)
  have no_human: "last_by (judged ?i judge_human) (rows_at w ?k) = None"
  proof (rule ccontr)
    assume "last_by (judged ?i judge_human) (rows_at w ?k) \<noteq> None"
    then obtain h where "last_by (judged ?i judge_human) (rows_at w ?k) = Some h" by blast
    with human have "criterionEffectiveVerdict (rows_at w' ?k) ?i = criterionEffectiveVerdict (rows_at w ?k) ?i"
      by (simp add: effective_human)
    then show False using pend pending_cong by blast
  qed
  have "criterionEffectiveVerdict (rows_at w' ?k) ?i = Some (dcv_Verdict v, judge_adversarial, dcv_EvidenceRefs v)"
    using newest no_human human by (simp add: effective_verdict_unfold)
  then have sat: "dcv_Verdict v = v_satisfied" using pend(2) block assms(2) by (simp add: criterion_pending_def)
  obtain item x x' review where it: "item \<in> set items" "RunAdversarialReview E (judge_input E item) x = (x', Inr review)"
      "v = adversarial_row (outcome_input input item review)" "?k = place (outcome_input input item review)"
    using vs(2) mem(1) unfolding reviewed_row_def by blast
  have agg: "arr_Aggregate review = AdversarialAggregateSatisfied" using sat it(3) by simp
  have "accepting review > refuting review" using vote [OF it(2) agg] .
  moreover have "rai_CriterionID (ari_Input item) = ?i" using mem(2) it(3) by simp
  moreover have "ari_DemandID item = demand" "ari_PlanRevisionID item = revision" "ct_TenantID input = tenant"
    using it(4) by (simp_all add: place_def outcome_input_def)
  ultimately show ?thesis using items it(1,2) by blast
qed

section \<open>The detectors decide\<close>

definition gate_place :: "CompletedTaskInput \<Rightarrow> ReviewGateItem \<Rightarrow> uuid \<times> uuid \<times> uuid" where
  "gate_place input item = (ct_TenantID input, rgi_DemandID item, rgi_PlanRevisionID item)"

lemma persist_gate_rows:
  assumes "PersistReviewGateOutcome E input outcome item w = (w', Inr u)"
  shows "rows_at w' = (rows_at w)(gate_place input item :=
    CreateReviewGateVerdict (rows_at w (gate_place input item)) (review_gate_row (rgi_CriterionID item) outcome))"
  using assms inserted_rows
  by (fastforce simp: PersistReviewGateOutcome_def gate_place_def split: option.splits)

lemma each_gate_rows:
  "each (PersistReviewGateOutcome E input outcome) items w = (w', Inr u) \<Longrightarrow>
     rows_at w' k = foldl CreateReviewGateVerdict (rows_at w k)
       (map (\<lambda>item. review_gate_row (rgi_CriterionID item) outcome) (filter (\<lambda>item. gate_place input item = k) items))"
proof (induction items arbitrary: w)
  case (Cons item items)
  obtain w1 u1 where step: "PersistReviewGateOutcome E input outcome item w = (w1, Inr u1)"
      and rest: "each (PersistReviewGateOutcome E input outcome) items w1 = (w', Inr u)"
    using Cons.prems by (auto split: prod.splits sum.splits)
  show ?case unfolding Cons.IH [OF rest] persist_gate_rows [OF step] by simp
qed simp

lemma recompute_keeps_rows:
  "each (RecomputeDemandStatusAfterReviewGate E tenant project) demands w = (w', r) \<Longrightarrow> rows_at w' = rows_at w"
proof (induction demands arbitrary: w)
  case (Cons d demands)
  obtain w1 r1 where step: "RecomputeDemandStatusAfterReviewGate E tenant project d w = (w1, r1)" by fastforce
  then have "rows_at w1 = rows_at w"
    by (auto simp: RecomputeDemandStatusAfterReviewGate_def rows_at_def fun_eq_iff split: option.splits prod.splits)
  then show ?case using Cons step by (cases r1) auto
qed simp

lemma gate_run_rows:
  assumes "RunReviewGateForTask E input w = Some (w', Inr (True, violated))" "PrepareReviewGate E input w = Some (Inr plan)"
  shows "\<exists>outcome. ro_Violated outcome = violated \<and>
    rows_at w' k = foldl CreateReviewGateVerdict (rows_at w k)
      (map (\<lambda>item. review_gate_row (rgi_CriterionID item) outcome) (filter (\<lambda>item. gate_place input item = k) (rgp_Items plan)))"
proof -
  obtain w1 w2 outcome u1 u2 where
    run: "on_rest (runReviewGate (rgp_Artifact plan)
       (enabledConditions (rgp_Policy plan) (standardConditions (en_parse E) (en_judgeClient E) (en_judgeModel E)))
       (reviewGateMinorTolerance (en_wide E) (rgp_Policy plan))) w = (w1, outcome)"
    and per: "each (PersistReviewGateOutcome E input outcome) (rgp_Items plan) w1 = (w2, Inr u1)"
    and rec: "each (RecomputeDemandStatusAfterReviewGate E (ct_TenantID input) (ct_ProjectID input))
       (en_order E (remdups (map rgi_DemandID (rgp_Items plan)))) w2 = (w', Inr u2)"
    and v: "ro_Violated outcome = violated"
    using assms by (auto simp: RunReviewGateForTask_def split: if_splits prod.splits sum.splits)
  have same: "rows_at w1 = rows_at w" using on_rest_run [OF run] by blast
  show ?thesis
    using each_gate_rows [OF per, of k] v unfolding recompute_keeps_rows [OF rec] same by blast
qed


section \<open>Placeholders and detectors speak of the same criteria\<close>

text \<open>The service that completes a task and the activity that reviews it read the same tables.\<close>

definition reads_alike :: "'x review_repository \<Rightarrow> uuid \<Rightarrow> 'x world \<Rightarrow> result_store \<Rightarrow> bool" where
  "reads_alike R tenant w S \<longleftrightarrow>
     (\<forall>d r cs. rv_ListDemandAcceptanceCriteria R tenant d r w = Inr cs \<longrightarrow>
        rs_ListDemandAcceptanceCriteria S d r = Inr (map DemandAcceptanceCriterion.truncate cs)) \<and>
     (\<forall>i. rs_GetProjectTask S i =
        (case rv_GetProjectTask R tenant i w of Inl _ \<Rightarrow> None | Inr t \<Rightarrow> Some (ProjectTask.truncate t)))"

lemma truncated_task [simp]:
  "pt_ID (ProjectTask.truncate t) = pt_ID t" "pt_PlannedTaskKey (ProjectTask.truncate t) = pt_PlannedTaskKey t"
  "pt_PlannerMetadata (ProjectTask.truncate t) = pt_PlannerMetadata t" "pt_RevisionOfTaskID (ProjectTask.truncate t) = pt_RevisionOfTaskID t"
  "pt_DemandID (ProjectTask.truncate t) = pt_DemandID t"
  "pt_AcceptedPlanRevisionID (ProjectTask.truncate t) = pt_AcceptedPlanRevisionID t"
  by (simp_all add: ProjectTask.truncate_def)

lemma truncated_criterion [simp]:
  "dac_CriterionID (DemandAcceptanceCriterion.truncate c) = dac_CriterionID c"
  "dac_SatisfiedBy (DemandAcceptanceCriterion.truncate c) = dac_SatisfiedBy c"
  "dac_VerificationMethod (DemandAcceptanceCriterion.truncate c) = dac_VerificationMethod c"
  by (simp_all add: DemandAcceptanceCriterion.truncate_def)

lemma same_root_key:
  assumes "reads_alike R (rt_TenantID task) w S"
  shows "reviewGateRevisionRootPlannedTaskKey U S (ProjectTask.truncate task) = revisionRootPlannedTaskKey U R task w"
proof -
  define root_key where "root_key v = (if v = [] \<or> v = uuid_String U (pt_ID task) then [] else case uuid_Parse U v of
      None \<Rightarrow> [] | Some i \<Rightarrow> (case rv_GetProjectTask R (rt_TenantID task) i w of
        Inl _ \<Rightarrow> [] | Inr t \<Rightarrow> (case pt_PlannedTaskKey t of None \<Rightarrow> [] | Some k \<Rightarrow> TrimSpace k)))" for v
  have read: "(case rs_GetProjectTask S i of None \<Rightarrow> [] | Some t \<Rightarrow> (case pt_PlannedTaskKey t of None \<Rightarrow> [] | Some k \<Rightarrow> TrimSpace k)) =
      (case rv_GetProjectTask R (rt_TenantID task) i w of
         Inl _ \<Rightarrow> [] | Inr t \<Rightarrow> (case pt_PlannedTaskKey t of None \<Rightarrow> [] | Some k \<Rightarrow> TrimSpace k))" for i
    using assms by (simp add: reads_alike_def split: sum.split)
  let ?meta = "as_str (gget (pt_PlannerMetadata task) ''revision_root_task_id'')"
  have service: "reviewGateRevisionRootPlannedTaskKey U S (ProjectTask.truncate task) = root_key (case ?meta of
      Some v \<Rightarrow> if TrimSpace v \<noteq> [] then TrimSpace v
                else (case pt_RevisionOfTaskID task of Some i \<Rightarrow> if i \<noteq> uuid_Nil then uuid_String U i else [] | None \<Rightarrow> [])
    | None \<Rightarrow> (case pt_RevisionOfTaskID task of Some i \<Rightarrow> if i \<noteq> uuid_Nil then uuid_String U i else [] | None \<Rightarrow> []))"
    unfolding reviewGateRevisionRootPlannedTaskKey_def Let_def truncated_task root_key_def read ..
  have coordinator: "revisionRootPlannedTaskKey U R task w =
      (if pt_RevisionOfTaskID task = None \<and> map_of (pt_PlannerMetadata task) ''revision_root_task_id'' = None then []
       else root_key (revisionRootTaskID U task))"
    unfolding revisionRootPlannedTaskKey_def Let_def root_key_def ..
  have present: "map_of (pt_PlannerMetadata task) ''revision_root_task_id'' \<noteq> None" if "?meta = Some v" for v
    using that by (cases "map_of (pt_PlannerMetadata task) ''revision_root_task_id''") (simp_all add: gget_def)
  have own: "root_key (uuid_String U (pt_ID task)) = []" "root_key [] = []" by (simp_all add: root_key_def)
  show ?thesis
  proof (cases "\<exists>v. ?meta = Some v \<and> TrimSpace v \<noteq> []")
    case True
    then show ?thesis using present by (auto simp: service coordinator revisionRootTaskID_def)
  next
    case False
    then have "revisionRootTaskID U task = (case pt_RevisionOfTaskID task of
        Some i \<Rightarrow> if i \<noteq> uuid_Nil then uuid_String U i else uuid_String U (pt_ID task) | None \<Rightarrow> uuid_String U (pt_ID task))"
      by (auto simp: revisionRootTaskID_def split: option.splits)
    then show ?thesis using False by (cases "pt_RevisionOfTaskID task") (auto simp: service coordinator own split: option.splits)
  qed
qed

lemma placeholder_ids:
  assumes "reviewGatePlaceholderVerdictRequests U S task = Inr ps" "demandAcceptanceCriteriaSnapshot S task = Inr snapshot"
    "distinct (map dac_CriterionID snapshot)" "pt_PlannedTaskKey task = Some key" "TrimSpace key \<noteq> []"
  shows "dcv_CriterionID ` set ps = dac_CriterionID ` {c \<in> set snapshot. dac_VerificationMethod c = ''review_gate'' \<and>
    (satisfied_by_key (TrimSpace key) c \<or>
     reviewGateRevisionRootPlannedTaskKey U S task \<noteq> [] \<and> satisfied_by_key (reviewGateRevisionRootPlannedTaskKey U S task) c)}"
    (is "_ = dac_CriterionID ` ?cs")
proof -
  have "set ps = placeholder ` ?cs"
  proof
    show "set ps \<subseteq> placeholder ` ?cs"
      using assms(1,2,4,5)
      by (auto simp: reviewGatePlaceholderVerdictRequests_def criteriaSatisfiedByTask_def criteriaSatisfiedByKey_def Let_def
          split: if_splits)
    have "c \<in> set (criteriaSatisfiedByTask snapshot task)" if "c \<in> set snapshot" "satisfied_by_key (TrimSpace key) c" for c
      using that assms(4,5) by (simp add: criteriaSatisfiedByTask_def)
    then show "placeholder ` ?cs \<subseteq> set ps" using placeholder_requested [OF assms(1,2)] assms(3) by auto
  qed
  then show ?thesis by (simp add: image_image)
qed

text \<open>
  Claim C36: the placeholders that the completion of a task writes and the verdicts that its review gate writes are
  about the same criteria. The two are computed by different code in different packages (one walks the snapshot twice,
  the other once over a set of keys); on the same tables, for a task with a planned key, they name the same identifiers,
  so no placeholder waits for a detector that never comes, and no detector decides without a placeholder before it.
\<close>

theorem placeholders_match_detectors:
  assumes "reads_alike R (rt_TenantID task) w S" "pt_PlannedTaskKey task = Some key" "TrimSpace key \<noteq> []"
    and "\<forall>d r cs. rv_ListDemandAcceptanceCriteria R (rt_TenantID task) d r w = Inr cs \<longrightarrow> distinct (map dac_CriterionID cs)"
    and "reviewGatePlaceholderVerdictRequests U S (ProjectTask.truncate task) = Inr placeholders"
    and "listCriteriaForTaskByMethod U R task ''review_gate'' w = Inr criteria"
  shows "set (map dcv_CriterionID placeholders) = set (map dac_CriterionID criteria)"
proof (cases "pt_DemandID task = None \<or> pt_AcceptedPlanRevisionID task = None")
  case True
  then show ?thesis
    using assms(5,6)
    by (auto simp: reviewGatePlaceholderVerdictRequests_def listCriteriaForTaskByMethod_def demandAcceptanceCriteriaSnapshot_def
        criteriaSatisfiedByTask_def criteriaSatisfiedByKey_def Let_def split: option.splits if_splits)
next
  case False
  then obtain d r where dr: "pt_DemandID task = Some d" "pt_AcceptedPlanRevisionID task = Some r" by auto
  let ?root = "revisionRootPlannedTaskKey U R task w"
  let ?keys = "TrimSpace key # (if ?root \<noteq> [] then [?root] else [])"
  obtain cs where cs: "rv_ListDemandAcceptanceCriteria R (rt_TenantID task) d r w = Inr cs"
      "criteria = filter (\<lambda>c. dac_VerificationMethod c = ''review_gate'' \<and> list_ex (\<lambda>s. TrimSpace s \<in> set ?keys) (dac_SatisfiedBy c)) cs"
    using assms(6) dr assms(2,3)
    by (auto simp: listCriteriaForTaskByMethod_def Let_def split: sum.splits)
  have snap: "demandAcceptanceCriteriaSnapshot S (ProjectTask.truncate task) = Inr (map DemandAcceptanceCriterion.truncate cs)"
    using assms(1) cs(1) dr by (auto simp: demandAcceptanceCriteriaSnapshot_def reads_alike_def)
  have dist: "distinct (map dac_CriterionID (map DemandAcceptanceCriterion.truncate cs))"
    using assms(4) cs(1) by (simp add: comp_def)
  have "set (map dcv_CriterionID placeholders) =
      dac_CriterionID ` {c \<in> set (map DemandAcceptanceCriterion.truncate cs). dac_VerificationMethod c = ''review_gate'' \<and>
         (satisfied_by_key (TrimSpace key) c \<or> ?root \<noteq> [] \<and> satisfied_by_key ?root c)}"
    using placeholder_ids [OF assms(5) snap dist _ assms(3)] assms(2) same_root_key [OF assms(1), of U] by simp
  also have "\<dots> = set (map dac_CriterionID criteria)"
    by (force simp: cs(2) satisfied_by_key_def list_ex_iff)
  finally show ?thesis .
qed

section \<open>Reading the latest result\<close>

text \<open>What the statement behind \<open>ListProjectTaskResults\<close> does: it returns the page of a finite list.\<close>

definition pages_of :: "'x review_repository \<Rightarrow> ReviewedTask \<Rightarrow> 'x world \<Rightarrow> ReviewedResult list \<Rightarrow> bool" where
  "pages_of R task w results \<longleftrightarrow>
     (\<forall>limit offset. 0 \<le> limit \<longrightarrow> 0 \<le> offset \<longrightarrow>
        rv_ListProjectTaskResults R (rt_TenantID task) (dt_ProjectID task) (pt_ID task) limit offset w =
          Inr (take (nat limit) (drop (nat offset) results)))"

lemma find_split: "find P xs = (case find P (take n xs) of None \<Rightarrow> find P (drop n xs) | Some y \<Rightarrow> Some y)"
proof -
  have "find P (ys @ zs) = (case find P ys of None \<Rightarrow> find P zs | Some y \<Rightarrow> Some y)" for ys zs
    by (induction ys) auto
  from this [of "take n xs" "drop n xs"] show ?thesis by simp
qed

lemma result_pages:
  assumes page: "\<And>n. page (int n) = Inr (take 100 (drop n results))"
    and "length results + 100 < 2 ^ 31" "n \<le> length results"
  shows "result_page page latest (int n) = Some (Inr (find (\<lambda>r. ptr_ID r = latest) (drop n results)))"
  using assms(3)
proof (induction "length results - n" arbitrary: n rule: less_induct)
  case less
  let ?page = "take 100 (drop n results)" and ?P = "\<lambda>r. ptr_ID r = latest"
  show ?case
  proof (cases "find ?P ?page")
    case (Some r)
    then show ?thesis
      by (subst result_page.simps) (simp add: page find_split [of ?P "drop n results" 100])
  next
    case None
    show ?thesis
    proof (cases "length ?page < 100")
      case True
      then have "?page = drop n results" by simp
      with None True show ?thesis by (subst result_page.simps) (simp add: page)
    next
      case False
      then have n: "n + 100 \<le> length results" by simp
      have "int32 (int n + 100) = int (n + 100)" using n assms(2) by (simp add: int32_def)
      then have "result_page page latest (int n) = result_page page latest (int (n + 100))"
        by (subst result_page.simps) (use None False in \<open>simp add: page\<close>)
      also have "\<dots> = Some (Inr (find ?P (drop (n + 100) results)))"
        by (rule less.hyps) (use n in auto)
      finally show ?thesis using None by (simp add: find_split [of ?P "drop n results" 100] add.commute)
    qed
  qed
qed

lemma latest_result_in:
  assumes "\<And>n. page (int n) = Inr (take 100 (drop n results))" "length results + 100 < 2 ^ 31"
    and "dt_LatestTaskResultID task = Some latest" "latest \<noteq> uuid_Nil"
  shows "latest_result page task = Some (Inr (find (\<lambda>r. ptr_ID r = latest) results))"
  using result_pages [OF assms(1,2), of 0] assms(3,4) by (simp add: latest_result_def)


section \<open>Reviews that are skipped\<close>

lemma truncated_criterion_more [simp]: "dac_Severity (DemandAcceptanceCriterion.truncate c) = dac_Severity c"
  by (simp add: DemandAcceptanceCriterion.truncate_def)

text \<open>
  Claim C39: where the demand has a task that looks like a dedicated review, the judges are skipped without a verdict.
  The activity reports that nothing was to be reviewed and writes nothing, so a blocking criterion under adversarial
  review that has no verdict yet keeps holding its demand: no later step of the review decides it.
\<close>

theorem skipped_review_keeps_holding:
  assumes "en_repository E = Some R" "rv_GetProjectTask R (ct_TenantID input) (ct_CompletedTaskID input) w = Inr task"
    and "dt_ProjectID task = ct_ProjectID input" "listAdversarialCriteriaForTask (en_uuid E) R task w = Inr criteria"
    and "demandAlreadyHasDedicatedReviewTasks R task w"
    and "c \<in> set criteria" "dac_Severity c = ''blocking''"
    and "\<forall>v \<in> set (wd_verdicts w (ct_TenantID input) (rcr_DemandID c) (rcr_PlanRevisionID c)). dcv_CriterionID v \<noteq> dac_CriterionID c"
  shows "\<exists>w'. AdversarialReviewForTask E input w = Some (w', Inr nothing_reviewed) \<and>
    criterion_pending (wd_verdicts w' (ct_TenantID input) (rcr_DemandID c) (rcr_PlanRevisionID c)) (DemandAcceptanceCriterion.truncate c)"
proof -
  have "PrepareAdversarialReview E input w = Some (Inr [])"
    using assms(1-5) by (simp add: PrepareAdversarialReview_def)
  then have "AdversarialReviewForTask E input w = Some (w, Inr nothing_reviewed)"
    by (simp add: AdversarialReviewForTask_def)
  moreover have "dac_VerificationMethod c = ''adversarial_review''"
    using assms(4,6)
    by (auto simp: listAdversarialCriteriaForTask_def listCriteriaForTaskByMethod_def Let_def split: option.splits if_splits sum.splits)
  moreover have "criterionEffectiveVerdict (wd_verdicts w (ct_TenantID input) (rcr_DemandID c) (rcr_PlanRevisionID c)) (dac_CriterionID c) = None"
    using assms(8) by (simp add: effective_verdict_None)
  ultimately show ?thesis using assms(7) by (simp add: criterion_pending_def)
qed

section \<open>A concrete review\<close>

definition built_task :: ReviewedTask where
  "built_task =
     \<lparr>pt_ID = 7, pt_DemandID = Some 1, pt_AssignedDigitalEmployeeID = None, pt_RiskLevel = None, pt_RequiresHumanApproval = False,
      pt_PlannedTaskKey = Some ''build'', pt_ExpectedOutputs = [], pt_InputRequirements = [], pt_HandoffContract = [],
      pt_PlannerMetadata = [], pt_RevisionOfTaskID = None, pt_AcceptedPlanRevisionID = Some 2, pt_AttemptCount = 1,
      pt_MaxAttempts = None, dt_ProjectID = 3, dt_Title = ''Build'', dt_Status = ''completed'', dt_WaitingRequestID = None,
      dt_LatestTaskResultID = None, dt_UpdatedAt = 0, rt_TenantID = 4, rt_CoordinationJobID = None\<rparr>"

definition criterion_of :: "string \<Rightarrow> ReviewCriterion" where
  "criterion_of verification =
     \<lparr>dac_CriterionID = verification, dac_Statement = ''it holds'', dac_VerificationMethod = verification, dac_Severity = ''blocking'',
      dac_SatisfiedBy = [''build''], dac_Source = [], rcr_DemandID = 1, rcr_PlanRevisionID = 2\<rparr>"

definition small_repository :: "ReviewedTask list \<Rightarrow> nat review_repository" where
  "small_repository siblings =
     \<lparr>rv_GetProjectTask = (\<lambda>_ _ _. Inr built_task), rv_GetProject = (\<lambda>_ _ _. Inl (Backend [])),
      rv_ListDemandAcceptanceCriteria = (\<lambda>_ _ _ _. Inr [criterion_of ''adversarial_review'', criterion_of ''review_gate'']),
      rv_ListProjectTaskResults = (\<lambda>_ _ _ _ _ _. Inr []), rv_ListDemandLaunchProjectTasks = (\<lambda>_ _ _ _ _. Inr siblings),
      rv_ListProjectTasksByCoordinationJob = (\<lambda>_ _ _ _. Inr []), rv_refuse_verdict = (\<lambda>_ _. None),
      rv_refuse_judgement = (\<lambda>_ _. None), rv_RecomputeProjectDemandStatus = (\<lambda>_ _ _ w. (wd_rest w, Inr ()))\<rparr>"

definition small_env :: "ReviewedTask list \<Rightarrow> nat review_env" where
  "small_env siblings =
     \<lparr>en_repository = Some (small_repository siblings), en_judgeClient = Some (\<lambda>_ x. (x, Inr [])), en_judgeModel = ''m'',
      en_ctxErr = (\<lambda>_. None), en_uuid = decimal_uuid_lib, en_parse = (\<lambda>_. Some (GMap [(''verdict'', GStr ''accepted'')])),
      en_marshal = (\<lambda>_. None), en_wide = (\<lambda>_. 0), en_order = id\<rparr>"

definition small_input :: CompletedTaskInput where
  "small_input = \<lparr>ct_TenantID = 4, ct_ProjectID = 3, ct_CompletedTaskID = 7\<rparr>"

definition small_world :: "DemandCriterionVerdict list \<Rightarrow> nat world" where
  "small_world rows = \<lparr>wd_verdicts = (\<lambda>_ _ _. rows), wd_judgements = [], wd_rest = 0\<rparr>"

lemmas small_defs = small_env_def small_repository_def small_input_def small_world_def built_task_def criterion_of_def

lemma trims: "TrimSpace ''build'' = ''build''" "TrimSpace ''accepted'' = ''accepted''" "ToLower ''accepted'' = ''accepted''"
  by code_simp+

lemma accepted_reply: "parseJudgeResponse (en_parse (small_env s)) k content =
    \<lparr>aj_Lens = k, aj_Verdict = AdversarialVerdictAccepted, aj_Reason = []\<rparr>"
  by (simp add: parseJudgeResponse_def small_env_def jfield_def EqualFold_def trims) code_simp

lemma small_criteria:
  "listCriteriaForTaskByMethod U (small_repository s) built_task verification w =
     Inr (filter (\<lambda>c. dac_VerificationMethod c = verification) [criterion_of ''adversarial_review'', criterion_of ''review_gate''])"
  by (simp add: listCriteriaForTaskByMethod_def small_defs trims Let_def)

lemma small_plan:
  "PrepareAdversarialReview (small_env []) small_input w =
     Some (Inr [review_item small_input built_task None 0 False (criterion_of ''adversarial_review'')])"
proof -
  have 1: "listAdversarialCriteriaForTask (en_uuid (small_env [])) (small_repository []) built_task w = Inr [criterion_of ''adversarial_review'']"
    by (simp add: listAdversarialCriteriaForTask_def small_criteria) (simp add: criterion_of_def)
  have 2: "revisionBudgetExhausted (small_env []) (small_repository []) 4 3 built_task w = False"
    by (simp add: revisionBudgetExhausted_def priorRevisionTasks_def revisionAttemptCount_def revisionMaxAttempts_def built_task_def
        gget_def DefaultProjectTaskMaxAttempts_def)
  have repo: "en_repository (small_env []) = Some (small_repository [])" "rv_GetProjectTask (small_repository []) t i w = Inr built_task"
      "dt_ProjectID built_task = ct_ProjectID small_input" "ct_TenantID small_input = 4" "ct_ProjectID small_input = 3"
      "demandAlreadyHasDedicatedReviewTasks (small_repository []) built_task w = False" "latestTaskResult (small_repository []) built_task w = Some (Inr None)"
      "rv_GetProject (small_repository []) t p w = Inl (Backend [])" for t i p
    by (simp_all add: small_defs demandAlreadyHasDedicatedReviewTasks_def latestTaskResult_def latest_result_def)
  show ?thesis by (simp add: PrepareAdversarialReview_def 1 2 repo)
qed

lemma three_lenses: "resolveAdversarialLenses (resolveJudgeCount 0) = baseAdversarialLenses"
  by (simp add: resolveAdversarialLenses_def resolveJudgeCount_def defaultAdversarialJudgeCount_def maxAdversarialJudgeCount_def
      base_lens_keys Let_def)

lemma judge_all_accepted:
  "judge_all (\<lambda>_. None) (en_parse (small_env s)) (\<lambda>_ x. (x, Inr [])) model user lenses x =
     (x, Inr (map (\<lambda>l. \<lparr>aj_Lens = al_Key l, aj_Verdict = AdversarialVerdictAccepted, aj_Reason = []\<rparr>) lenses))"
  by (induction lenses) (simp_all add: accepted_reply)

lemma small_review:
  assumes "rai_JudgeCountPolicy input = 0" "\<not> rai_BudgetExhausted input"
  shows "\<exists>r. RunAdversarialReview (small_env s) input x = (x, Inr r) \<and> arr_Aggregate r = AdversarialAggregateSatisfied"
  using assms judge_all_accepted [of s "rai_Model input" _ _ x]
  by (simp add: RunAdversarialReview_def runAdversarialReview_def three_lenses refuted_count_def adversarialRefuteThreshold_def
      base_lens_keys filter_empty_conv small_env_def comp_def)

theorem majority_satisfies_witness:
  "\<exists>r. RunAdversarialReview (small_env []) (ari_Input (review_item small_input built_task None 0 False (criterion_of ''adversarial_review''))) 0 = (0, Inr r) \<and>
     accepting r > refuting r"
proof -
  let ?input = "ari_Input (review_item small_input built_task None 0 False (criterion_of ''adversarial_review''))"
  have "rai_JudgeCountPolicy ?input = 0" "\<not> rai_BudgetExhausted ?input"
    by (simp_all add: review_item_def adversarialEvidenceFromResult_def)
  from small_review [OF this] obtain r where
    r: "RunAdversarialReview (small_env []) ?input 0 = (0, Inr r)" "arr_Aggregate r = AdversarialAggregateSatisfied" by blast
  from majority_satisfies [OF r(1)] r show ?thesis by blast
qed

definition small_item :: AdversarialReviewItem where
  "small_item = review_item small_input built_task None 0 False (criterion_of ''adversarial_review'')"

lemma small_item_fields:
  "rai_CriterionID (ari_Input small_item) = ''adversarial_review''" "ari_DemandID small_item = 1" "ari_PlanRevisionID small_item = 2"
  "rai_JudgeCountPolicy (judge_input E small_item) = 0" "\<not> rai_BudgetExhausted (judge_input E small_item)"
  by (simp_all add: small_item_def review_item_def adversarialEvidenceFromResult_def judge_input_def criterion_of_def)

lemma small_run:
  "\<exists>w' res. AdversarialReviewForTask (small_env []) small_input (small_world []) = Some (w', res) \<and>
     \<not> criterion_pending (wd_verdicts w' 4 1 2) (DemandAcceptanceCriterion.truncate (criterion_of ''adversarial_review''))"
proof -
  obtain r where r: "RunAdversarialReview (small_env []) (judge_input (small_env []) small_item) 0 = (0, Inr r)"
      "arr_Aggregate r = AdversarialAggregateSatisfied"
    using small_review [OF small_item_fields(4,5)] by blast
  let ?out = "outcome_input small_input small_item r"
  let ?w1 = "update_rows (pa_TenantID ?out) (pa_DemandID ?out) (pa_PlanRevisionID ?out)
      (\<lambda>rows. CreateAdversarialVerdict rows (adversarial_row ?out)) (small_world [])"
  have run: "on_rest (RunAdversarialReview (small_env []) (judge_input (small_env []) small_item)) (small_world []) = (small_world [], Inr r)"
    using r(1) by (simp add: on_rest_def small_world_def)
  have ins: "insert_verdict (small_repository []) (pa_TenantID ?out) (pa_DemandID ?out) (pa_PlanRevisionID ?out) CreateAdversarialVerdict
      (adversarial_row ?out) (small_world []) = (?w1, Inr ())"
    by (simp add: insert_verdict_def small_repository_def)
  have js: "\<exists>v. CreateAdversarialJudgements (small_repository []) reqs w = (v, Inr ()) \<and> rows_at v = rows_at w" for reqs w
  proof (induction reqs arbitrary: w)
    case (Cons req reqs)
    let ?w = "w\<lparr>wd_judgements := CreateAdversarialJudgement (wd_judgements w) req\<rparr>"
    have "rv_refuse_judgement (small_repository []) req w = None" by (simp add: small_repository_def)
    moreover have "rows_at ?w = rows_at w" by (simp add: rows_at_def fun_eq_iff)
    ultimately show ?case using Cons.IH [of ?w] by simp
  qed simp
  have "en_repository (small_env []) = Some (small_repository [])" by (simp add: small_env_def)
  then have "PersistAdversarialOutcome (small_env []) ?out (small_world []) =
      (if pa_Judgements ?out = [] then (?w1, Inr ())
       else CreateAdversarialJudgements (small_repository []) (map (judgement_request ?out) (pa_Judgements ?out)) ?w1)"
    by (simp add: PersistAdversarialOutcome_def ins)
  then obtain w1 where w1: "PersistAdversarialOutcome (small_env []) ?out (small_world []) = (w1, Inr ())"
      "rows_at w1 = rows_at ?w1"
    using js [of "map (judgement_request ?out) (pa_Judgements ?out)" ?w1] by (metis (full_types))
  have place: "pa_TenantID ?out = 4" "pa_DemandID ?out = 1" "pa_PlanRevisionID ?out = 2"
    by (simp_all add: outcome_input_def small_item_fields small_input_def)
  have "rows_at w1 (4, 1, 2) = [(adversarial_row ?out)\<lparr>dcv_JudgeType := judge_adversarial, dcv_ProjectTaskID := None\<rparr>]"
    by (simp add: w1(2) place rows_at_def small_world_def CreateAdversarialVerdict_def update_rows_def)
  then have "\<not> criterion_pending (wd_verdicts w1 4 1 2) (DemandAcceptanceCriterion.truncate (criterion_of ''adversarial_review''))"
    using r(2) by (simp add: rows_at_def criterion_pending_def effective_verdict_unfold last_by_def judged_def criterion_of_def
        DemandAcceptanceCriterion.truncate_def small_item_fields)
  moreover have "\<exists>res. AdversarialReviewForTask (small_env []) small_input (small_world []) = Some (w1, res)"
    using run w1(1) by (simp add: AdversarialReviewForTask_def small_plan flip: small_item_def)
  ultimately show ?thesis by blast
qed

lemma small_pending: "criterion_pending [] (DemandAcceptanceCriterion.truncate (criterion_of ''adversarial_review''))"
  by code_simp

theorem only_a_majority_releases_witness:
  "\<exists>items item x x' review. PrepareAdversarialReview (small_env []) small_input (small_world []) = Some (Inr items) \<and> item \<in> set items \<and>
     RunAdversarialReview (small_env []) (judge_input (small_env []) item) x = (x', Inr review) \<and>
     rai_CriterionID (ari_Input item) = ''adversarial_review'' \<and> accepting review > refuting review"
proof -
  let ?c = "DemandAcceptanceCriterion.truncate (criterion_of ''adversarial_review'')"
  obtain w' res where "AdversarialReviewForTask (small_env []) small_input (small_world []) = Some (w', res)"
      "\<not> criterion_pending (wd_verdicts w' 4 1 2) ?c"
    using small_run by blast
  moreover have "dac_VerificationMethod ?c = ''adversarial_review''" "dac_CriterionID ?c = ''adversarial_review''"
    by (simp_all add: criterion_of_def)
  moreover have "criterion_pending (wd_verdicts (small_world []) 4 1 2) ?c" using small_pending by (simp add: small_world_def)
  ultimately obtain items item x x' review where
    "PrepareAdversarialReview (small_env []) small_input (small_world []) = Some (Inr items)" "item \<in> set items"
    "RunAdversarialReview (small_env []) (judge_input (small_env []) item) x = (x', Inr review)"
    "rai_CriterionID (ari_Input item) = dac_CriterionID ?c" "accepting review > refuting review"
    using only_a_majority_releases [of "small_env []" small_input "small_world []" w' res ?c 4 1 2] by blast
  then show ?thesis by (metis \<open>dac_CriterionID ?c = ''adversarial_review''\<close>)
qed

definition small_gate_plan :: ReviewGatePlan where
  "small_gate_plan = \<lparr>rgp_Reviewed = True, rgp_Artifact = assembleDetectionArtifact None, rgp_Policy = [],
     rgp_Items = [gate_item (criterion_of ''review_gate'')]\<rparr>"

lemma small_gate: "PrepareReviewGate (small_env []) small_input w = Some (Inr small_gate_plan)"
proof -
  have 1: "listCriteriaForTaskByMethod (en_uuid (small_env [])) (small_repository []) built_task ''review_gate'' w = Inr [criterion_of ''review_gate'']"
    by (simp add: small_criteria) (simp add: criterion_of_def)
  have repo: "en_repository (small_env []) = Some (small_repository [])" "rv_GetProjectTask (small_repository []) t i w = Inr built_task"
      "dt_ProjectID built_task = ct_ProjectID small_input" "latestTaskResult (small_repository []) built_task w = Some (Inr None)"
      "rv_GetProject (small_repository []) t p w = Inl (Backend [])" for t i p
    by (simp_all add: small_defs latestTaskResult_def latest_result_def)
  show ?thesis by (simp add: PrepareReviewGate_def 1 repo small_gate_plan_def)
qed

lemma clean_gate:
  "runReviewGate (assembleDetectionArtifact None) (enabledConditions [] (standardConditions (en_parse (small_env [])) (en_judgeClient (small_env [])) m)) 0 x =
     (x, \<lparr>ro_Violated = False, ro_Action = [], ro_Findings = []\<rparr>)"
proof -
  have "decodeLLMDetectionReply (en_parse (small_env [])) content = Some (False, [])" for content
  proof -
    have "jfield [(''verdict'', GStr ''accepted'')] ''detected'' = GNil" "jfield [(''verdict'', GStr ''accepted'')] ''finding'' = GNil"
      by code_simp+
    then show ?thesis by (simp add: decodeLLMDetectionReply_def small_env_def Let_def)
  qed
  moreover have "RuleDetect k s rules (assembleDetectionArtifact None) = not_detected" for k s rules
    by (simp add: RuleDetect_def scanned_texts_def assembleDetectionArtifact_def adversarialEvidenceFromResult_def)
  ultimately show ?thesis
    by (simp add: runReviewGate_def enabledConditions_def standardConditions_def List.map_filter_def resolved_action_def
        reviewGateConditionOverrides_def gget_def newSecretLeakDetector_def newCodeReviewDetector_def LLMPromptDetect_def
        not_detected_def review_outcome_def small_env_def)
qed


definition small_results :: result_store where
  "small_results = \<lparr>rs_ListDemandAcceptanceCriteria = (\<lambda>_ _. Inr (map DemandAcceptanceCriterion.truncate [criterion_of ''adversarial_review'', criterion_of ''review_gate''])),
     rs_ListProjectTaskAttestations = (\<lambda>_. Inr []), rs_GetProjectTask = (\<lambda>_. Some (ProjectTask.truncate built_task)), rs_refused = (\<lambda>_. None)\<rparr>"

theorem placeholders_match_detectors_witness:
  "\<exists>ps. reviewGatePlaceholderVerdictRequests decimal_uuid_lib small_results (ProjectTask.truncate built_task) = Inr ps \<and>
     set (map dcv_CriterionID ps) = {''review_gate''}"
proof -
  obtain ps where ps: "reviewGatePlaceholderVerdictRequests decimal_uuid_lib small_results (ProjectTask.truncate built_task) = Inr ps"
    by (simp add: reviewGatePlaceholderVerdictRequests_def demandAcceptanceCriteriaSnapshot_def small_results_def Let_def built_task_def)
  have "reads_alike (small_repository []) (rt_TenantID built_task) (small_world []) small_results"
    by (simp add: reads_alike_def small_repository_def small_results_def)
  moreover have "pt_PlannedTaskKey built_task = Some ''build''" "TrimSpace ''build'' \<noteq> []" by (simp_all add: built_task_def trims)
  moreover have "\<forall>d r cs. rv_ListDemandAcceptanceCriteria (small_repository []) (rt_TenantID built_task) d r (small_world []) = Inr cs \<longrightarrow>
      distinct (map dac_CriterionID cs)" by (simp add: small_repository_def criterion_of_def)
  ultimately have "set (map dcv_CriterionID ps) = set (map dac_CriterionID
      (filter (\<lambda>c. dac_VerificationMethod c = ''review_gate'') [criterion_of ''adversarial_review'', criterion_of ''review_gate'']))"
    by (rule placeholders_match_detectors [OF _ _ _ _ ps small_criteria])
  then show ?thesis using ps by (simp add: criterion_of_def)
qed


lemma small_sibling: "dedicated_review built_task (built_task\<lparr>pt_ID := 8, pt_PlannedTaskKey := Some ''code_review''\<rparr>)"
  by code_simp

theorem skipped_review_keeps_holding_witness:
  "\<exists>w'. AdversarialReviewForTask (small_env [built_task\<lparr>pt_ID := 8, pt_PlannedTaskKey := Some ''code_review''\<rparr>]) small_input (small_world []) =
      Some (w', Inr nothing_reviewed) \<and>
     criterion_pending (wd_verdicts w' 4 1 2) (DemandAcceptanceCriterion.truncate (criterion_of ''adversarial_review''))"
proof -
  let ?s = "[built_task\<lparr>pt_ID := 8, pt_PlannedTaskKey := Some ''code_review''\<rparr>]"
  have "demandAlreadyHasDedicatedReviewTasks (small_repository ?s) built_task (small_world [])"
    using small_sibling by (simp add: demandAlreadyHasDedicatedReviewTasks_def small_repository_def built_task_def)
  moreover have "listAdversarialCriteriaForTask (en_uuid (small_env ?s)) (small_repository ?s) built_task (small_world []) = Inr [criterion_of ''adversarial_review'']"
    by (simp add: listAdversarialCriteriaForTask_def small_criteria) (simp add: criterion_of_def)
  moreover have "en_repository (small_env ?s) = Some (small_repository ?s)" by (simp add: small_env_def)
  ultimately show ?thesis
    using skipped_review_keeps_holding [of "small_env ?s" "small_repository ?s" small_input "small_world []" built_task
        "[criterion_of ''adversarial_review'']" "criterion_of ''adversarial_review''"]
    by (simp add: small_repository_def built_task_def small_input_def criterion_of_def small_world_def)
qed

end
