(* ===== verification/Coordinator.thy ===== *)
theory Coordinator
  imports Review_Runs
begin

text \<open>
  The coordinator of a project, after \<^verbatim>\<open>workflow/projectcoordination/workflow.go\<close>: a long-running Temporal
  workflow that receives signals (a demand was submitted, a task ended, a human decided) and answers each of them by
  calling activities: plan, store the plan, ask a human, decompose, dispatch, review, release what depends on it.

  The Temporal library is a parameter: the record \<open>temporal\<close> has one function per activity, which gives what
  \<^verbatim>\<open>ExecuteActivity(..).Get(..)\<close> returns after the retries, over a world of any type; the versions that
  \<^verbatim>\<open>GetVersion\<close> answers (sticky for an execution, \<open>-1\<close> for a history that predates a change); and the text of an
  error. The state of an execution is the world, the history of the activities called with their answers, and
  the retries that sleep. A handler is a function from the state to the state and an error or a result.

  The loop is a step relation: signals arrive, the selector takes the oldest signal of some channel, its handler
  runs, the execution continues, stops or continues as new; sleeping retries wake between two handlers.
\<close>

section \<open>Signals\<close>

record ProjectCoordinatorInput =
  pci_TenantID :: uuid
  pci_ProjectID :: uuid
  pci_WorkflowID :: string
  pci_Generation :: int

record DemandSubmitted =
  sd_DemandID :: uuid
  sd_ProjectID :: uuid
  sd_SubmittedByUserID :: uuid
  sd_CreatedEventID :: uuid

record ProjectPolicyChanged =
  sp_ProjectID :: uuid
  sp_ConfigRevisionID :: uuid
  sp_ChangedEventID :: uuid

record ProjectMemberChanged =
  sm_ProjectID :: uuid
  sm_ChangedMemberIDs :: "uuid list"
  sm_ChangedEventID :: uuid

record EmployeeTaskCompleted =
  sc_ProjectTaskID :: uuid
  sc_ExecutionSummaryID :: uuid
  sc_CompletedEventID :: uuid

record EmployeeTaskFailed =
  sf_ProjectTaskID :: uuid
  sf_FailureSummary :: string
  sf_FailedEventID :: uuid

text \<open>Points in time are nanoseconds.\<close>

record ProjectTaskRetryScheduled =
  sr_ProjectTaskID :: uuid
  sr_RetryNotBefore :: "int option"

record EmployeeTransferRequested =
  st_ProjectTaskID :: uuid
  st_TransferRequestID :: uuid
  st_RequestedEventID :: uuid

record HumanDecisionSubmitted =
  sh_ApprovalRequestID :: uuid
  sh_DecisionRequestID :: uuid
  sh_Decision :: string
  sh_Payload :: gmap
  sh_ResolvedEventID :: uuid
  sh_TargetExitDeliverable :: string

text \<open>A signal, on the channel of its constructor.\<close>

datatype signal =
    SignalDemandSubmitted DemandSubmitted
  | SignalProjectPolicyChanged ProjectPolicyChanged
  | SignalProjectMemberChanged ProjectMemberChanged
  | SignalEmployeeTaskCompleted EmployeeTaskCompleted
  | SignalEmployeeTaskFailed EmployeeTaskFailed
  | SignalEmployeeTransferRequested EmployeeTransferRequested
  | SignalHumanDecisionSubmitted HumanDecisionSubmitted
  | SignalProjectTaskRetryScheduled ProjectTaskRetryScheduled
  | SignalShutdown

fun channel :: "signal \<Rightarrow> nat" where
  "channel (SignalDemandSubmitted _) = 0"
| "channel (SignalProjectPolicyChanged _) = 1"
| "channel (SignalProjectMemberChanged _) = 2"
| "channel (SignalEmployeeTaskCompleted _) = 3"
| "channel (SignalEmployeeTaskFailed _) = 4"
| "channel (SignalEmployeeTransferRequested _) = 5"
| "channel (SignalHumanDecisionSubmitted _) = 6"
| "channel (SignalProjectTaskRetryScheduled _) = 7"
| "channel SignalShutdown = 8"

section \<open>Errors\<close>

text \<open>
  The errors a workflow sees: an activity error wraps what the activity returned, an application error has a message,
  a type, the planning gap among its details where there is one, and a cause. \<open>OtherError\<close> stands for timeouts,
  cancellations and the like.
\<close>

datatype wf_error =
    ActivityError wf_error
  | ApplicationError string string "PlanningGap option" "wf_error option"
  | ProjectTaskDispatchError bool "wf_error option"
  | ErrProjectTaskDispatchRetryLater
  | ErrInvalidProjectValue
  | OtherError string

fun error_chain :: "wf_error \<Rightarrow> wf_error list" where
  "error_chain (ActivityError e) = ActivityError e # error_chain e"
| "error_chain (ApplicationError m t d c) = ApplicationError m t d c # (case c of None \<Rightarrow> [] | Some e \<Rightarrow> error_chain e)"
| "error_chain (ProjectTaskDispatchError r c) = ProjectTaskDispatchError r c # (case c of None \<Rightarrow> [] | Some e \<Rightarrow> error_chain e)"
| "error_chain e = [e]"

fun is_application :: "wf_error \<Rightarrow> bool" where
  "is_application (ApplicationError m t d c) = True"
| "is_application _ = False"

fun app_type :: "wf_error \<Rightarrow> string" where
  "app_type (ApplicationError m t d c) = t"
| "app_type _ = []"

fun recorded_mark :: "wf_error \<Rightarrow> bool option" where
  "recorded_mark (ProjectTaskDispatchError r c) = Some r"
| "recorded_mark (ApplicationError m t d c) = (if t = ''ProjectTaskDispatchError'' then Some True else None)"
| "recorded_mark _ = None"

definition dispatchFailureRecorded :: "wf_error \<Rightarrow> bool" where
  "dispatchFailureRecorded e = (case List.map_filter recorded_mark (error_chain e) of [] \<Rightarrow> False | r # _ \<Rightarrow> r)"

definition dispatchFailureTerminal :: "wf_error \<Rightarrow> bool" where
  "dispatchFailureTerminal e = list_ex (\<lambda>c. is_application c \<and> app_type c = ''ProjectTaskDispatchTerminal'') (error_chain e)"

text \<open>\<open>error_text\<close> is the method \<^verbatim>\<open>Error\<close> of an error value.\<close>

definition isProjectTaskDispatchRetryLater :: "(wf_error \<Rightarrow> string) \<Rightarrow> wf_error \<Rightarrow> bool" where
  "isProjectTaskDispatchRetryLater error_text e =
     (if ErrProjectTaskDispatchRetryLater \<in> set (error_chain e) then True
      else case find is_application (error_chain e) of
             None \<Rightarrow> False
           | Some a \<Rightarrow> Contains (error_text a) ''project task dispatch retry later'')"

definition errTypeNoSuitableEmployee :: string where "errTypeNoSuitableEmployee = ''NoSuitableEmployee''"

definition humanizeNoSuitableEmployeeDiagnosis :: "string \<Rightarrow> string" where
  "humanizeNoSuitableEmployeeDiagnosis message =
     (let trimmed = TrimSpace message; p = ''no suitable employee: '' in
      TrimSpace (if HasPrefix trimmed p then drop (length p) trimmed else trimmed))"

definition noSuitableEmployeeDiagnosis :: "wf_error \<Rightarrow> (string \<times> PlanningGap option) option" where
  "noSuitableEmployeeDiagnosis e =
     (case find is_application (error_chain e) of
        Some (ApplicationError message t details c) \<Rightarrow>
          if t = errTypeNoSuitableEmployee then Some (humanizeNoSuitableEmployeeDiagnosis message, details) else None
      | _ \<Rightarrow> None)"

definition truncateRunes :: "string \<Rightarrow> nat \<Rightarrow> string" where
  "truncateRunes s n = (if length (runes s) \<le> n then s else concat (take n (runes s)) @ (byte_string [226, 128, 166]))"

section \<open>Activities\<close>

text \<open>Results that hold one identifier are that identifier. Inputs with the same fields share a record.\<close>

type_synonym CoordinationJobResult = uuid
type_synonym DecisionRequestResult = uuid

record CreateCoordinationJobInput =
  cji_TenantID :: uuid
  cji_ProjectID :: uuid
  cji_WorkflowID :: string
  cji_TriggerEventID :: uuid
  cji_JobType :: string

record DemandInput =
  dmi_TenantID :: uuid
  dmi_ProjectID :: uuid
  dmi_DemandID :: uuid

type_synonym LoadSnapshotInput = DemandInput
type_synonym LoadPriorPlanPayloadInput = DemandInput
type_synonym ReopenProjectDemandForReplanningInput = DemandInput

record PersistRouteDecisionInput =
  prd_TenantID :: uuid
  prd_ProjectID :: uuid
  prd_JobID :: uuid
  prd_DemandID :: uuid
  prd_Decision :: RouteDecisionPlan

record RouteDecisionResult =
  rdr_ID :: uuid
  rdr_CreatedEventID :: uuid

record CoordinatedRevisionInput = PersistPlanRevisionInput +
  ppx_TenantID :: uuid
  ppx_ProjectID :: uuid
  ppx_DemandID :: uuid
  ppx_CoordinationJobID :: uuid
  ppx_RouteDecisionID :: uuid
  ppx_SupersedeOpen :: bool
  ppx_SupersedeReason :: "string option"

record PlanRevisionResult =
  pvr_ID :: uuid
  pvr_Status :: string
  pvr_RevisionNumber :: int
  pvr_PlanFingerprint :: string
  pvr_Payload :: PlanRevisionPayload
  pvr_ReviewRequired :: bool
  pvr_CreatedEventID :: uuid

record RequestPlanRevisionReviewInput =
  rpr_TenantID :: uuid
  rpr_ProjectID :: uuid
  rpr_CoordinationJobID :: uuid
  rpr_DemandID :: uuid
  rpr_PlanRevisionID :: uuid
  rpr_PlanFingerprint :: string
  rpr_Payload :: PlanRevisionPayload
  rpr_CreatedEventID :: uuid

text \<open>The field \<^verbatim>\<open>ActorUserID\<close> of the next record is never set.\<close>

record ResolvePlanRevisionReviewInput =
  rsv_TenantID :: uuid
  rsv_ProjectID :: uuid
  rsv_DemandID :: uuid
  rsv_CoordinationJobID :: uuid
  rsv_PlanRevisionID :: uuid
  rsv_DecisionRequestID :: uuid
  rsv_Decision :: string
  rsv_Payload :: gmap

record LoadHumanDecisionRouteInput =
  lhd_TenantID :: uuid
  lhd_ProjectID :: uuid
  lhd_DecisionRequestID :: uuid

record ProjectDecisionSnapshot =
  pds_ID :: uuid
  pds_ProjectID :: uuid
  pds_DecisionType :: string
  pds_StatusSnapshot :: string
  pds_CoordinationJobID :: uuid
  pds_ProjectTaskID :: uuid
  pds_PlanRevisionID :: uuid
  pds_DispatchGateResultID :: uuid
  pds_CreatedEventID :: uuid

record PlanReviewRoute =
  prr_ProjectID :: uuid
  prr_DemandID :: uuid
  prr_CoordinationJobID :: uuid
  prr_RouteDecisionID :: uuid
  prr_PlanRevisionID :: uuid
  prr_PlanFingerprint :: string
  prr_Payload :: PlanRevisionPayload
  prr_RouteEventID :: uuid
  prr_PlanEventID :: uuid
  prr_OutputEventIDs :: "uuid list"

record PlanningGapRoute =
  pgr_ProjectID :: uuid
  pgr_DemandID :: uuid

record CastingExpansionRoute =
  cer_ProjectID :: uuid
  cer_DemandID :: uuid
  cer_ExpansionEmployeeID :: string
  cer_ExpansionRoleKey :: string
  cer_ScenarioTemplateKey :: string

record HumanDecisionRouteResult =
  hdr_Decision :: ProjectDecisionSnapshot
  hdr_PlanReview :: "PlanReviewRoute option"
  hdr_PlanningGap :: "PlanningGapRoute option"
  hdr_CastingExpansion :: "CastingExpansionRoute option"

record DecomposeRevisionInput = DecomposeAcceptedPlanRevisionInput +
  dex_TenantID :: uuid
  dex_ProjectID :: uuid
  dex_DemandID :: uuid
  dex_CoordinationJobID :: uuid
  dex_RouteDecisionID :: uuid

record ListDispatchableTasksInput =
  ldt_TenantID :: uuid
  ldt_ProjectID :: uuid
  ldt_CoordinationJobID :: uuid

record ResolveReadyDownstreamInput =
  rrd_TenantID :: uuid
  rrd_ProjectID :: uuid
  rrd_CompletedTaskID :: uuid
  rrd_ResolveRevisionRoot :: bool

record CoordinatedBlocker = TaskResultBlocker +
  cb_MissingInputReasons :: "(string \<times> string) list"

record InspectTaskResultDecisionResult =
  itd_ResultID :: uuid
  itd_Decision :: string
  itd_Exhausted :: bool
  itd_Blocker :: "CoordinatedBlocker option"
  itd_CoordinationMode :: string

record CreateRevisionTaskForResultInput =
  crt_TenantID :: uuid
  crt_ProjectID :: uuid
  crt_SourceTaskID :: uuid
  crt_ResultID :: uuid

record FollowUpTaskResult =
  fut_TaskID :: uuid
  fut_Exhausted :: bool

record CreateReworkTaskFromAdversarialInput =
  rwi_TenantID :: uuid
  rwi_ProjectID :: uuid
  rwi_ReviewedTaskID :: uuid
  rwi_DemandID :: uuid
  rwi_PlanRevisionID :: uuid
  rwi_HeldCriteria :: "(string \<times> string) list"

record CreateUpstreamSupplementInput =
  usi_TenantID :: uuid
  usi_ProjectID :: uuid
  usi_SourceTaskID :: uuid
  usi_MissingInputs :: "string list"
  usi_MissingInputReasons :: "(string \<times> string) list"

record CreateUpstreamSupplementResult =
  usr_TaskIDs :: "uuid list"
  usr_Exhausted :: bool
  usr_EdgeExhausted :: "string list"

record RequestIterationExhaustedReviewInput =
  rie_TenantID :: uuid
  rie_ProjectID :: uuid
  rie_ProjectTaskID :: uuid
  rie_ResultID :: uuid
  rie_Reason :: string
  rie_Summary :: string
  rie_CreatedEventID :: uuid

record RequestUpstreamSupplementReviewInput =
  rus_TenantID :: uuid
  rus_ProjectID :: uuid
  rus_ProjectTaskID :: uuid
  rus_ResultID :: uuid
  rus_CompletedEventID :: uuid
  rus_MissingInputs :: "string list"
  rus_MissingInputReasons :: "(string \<times> string) list"
  rus_EdgeBudgetExhausted :: bool

text \<open>\<^verbatim>\<open>ApplyProjectAcceptanceDecisionInput\<close>, \<^verbatim>\<open>ApplyFailureRecoveryDecisionInput\<close> and
  \<^verbatim>\<open>ApplyPreDispatchGateDecisionInput\<close>.\<close>

record ApplyDecisionInput =
  adi_TenantID :: uuid
  adi_ProjectID :: uuid
  adi_DecisionRequestID :: uuid
  adi_Decision :: string
  adi_Payload :: gmap

record HoldDownstreamForFailureInput =
  hdf_TenantID :: uuid
  hdf_ProjectID :: uuid
  hdf_FailedTaskID :: uuid
  hdf_FailureSummary :: string
  hdf_FailedEventID :: uuid

record AppendProjectEventInput =
  api_TenantID :: uuid
  api_ProjectID :: uuid
  api_EventType :: string
  api_Summary :: string

record RecoverTaskDispatchFailureResult =
  rtr_Action :: string
  rtr_RetryNotBefore :: "int option"

record RejectDemandPlanningInput =
  rdp_TenantID :: uuid
  rdp_ProjectID :: uuid
  rdp_DemandID :: uuid
  rdp_CoordinationJobID :: uuid
  rdp_Diagnosis :: string
  rdp_Gap :: "PlanningGap option"
  rdp_OutputEventIDs :: "uuid list"

record MarkDemandPlanningFailedInput =
  mpf_TenantID :: uuid
  mpf_ProjectID :: uuid
  mpf_DemandID :: uuid
  mpf_CoordinationJobID :: uuid
  mpf_Diagnosis :: string
  mpf_OutputEventIDs :: "uuid list"

record FinishCoordinationJobInput =
  fcj_TenantID :: uuid
  fcj_JobID :: uuid
  fcj_Status :: string
  fcj_OutputEventIDs :: "uuid list"

record MaybeRequestCastingExpansionResult =
  mce_Requested :: bool
  mce_DecisionID :: uuid
  mce_DemandID :: uuid
  mce_SuggestedRoleKey :: string
  mce_SkippedReason :: string

text \<open>An event of the history: an activity was called with an input and gave an error or a result.\<close>

datatype event =
    CreateCoordinationJob CreateCoordinationJobInput "wf_error + CoordinationJobResult"
  | LoadProjectCoordinationSnapshot LoadSnapshotInput "wf_error + CoordinationSnapshot"
  | PlanDemandRoute CoordinationSnapshot "wf_error + RouteDecisionPlan"
  | PersistRouteDecision PersistRouteDecisionInput "wf_error + RouteDecisionResult"
  | PersistPlanRevision CoordinatedRevisionInput "wf_error + PlanRevisionResult"
  | RequestPlanRevisionReview RequestPlanRevisionReviewInput "wf_error + DecisionRequestResult"
  | ResolvePlanRevisionReview ResolvePlanRevisionReviewInput "wf_error + PlanRevisionResult"
  | LoadHumanDecisionRoute LoadHumanDecisionRouteInput "wf_error + HumanDecisionRouteResult"
  | LoadPriorPlanPayload LoadPriorPlanPayloadInput "wf_error + PlanRevisionPayload option"
  | DecomposeRevision DecomposeRevisionInput "wf_error + uuid list"
  | ListDispatchableTasks ListDispatchableTasksInput "wf_error + uuid list"
  | ResolveReadyDownstream ResolveReadyDownstreamInput "wf_error + uuid list"
  | IsProjectAcceptanceReady "uuid \<times> uuid" "wf_error + bool"
  | RequestProjectAcceptanceReview "uuid \<times> uuid" "wf_error + DecisionRequestResult"
  | RequestIterationExhaustedReview RequestIterationExhaustedReviewInput "wf_error + DecisionRequestResult"
  | RequestUpstreamSupplementReview RequestUpstreamSupplementReviewInput "wf_error + DecisionRequestResult"
  | ApplyProjectAcceptanceDecision ApplyDecisionInput "wf_error + unit"
  | HoldDownstreamForFailure HoldDownstreamForFailureInput "wf_error + DecisionRequestResult"
  | ApplyFailureRecoveryDecision ApplyDecisionInput "wf_error + uuid list"
  | ApplyPreDispatchGateDecision ApplyDecisionInput "wf_error + uuid list"
  | AppendProjectEvent AppendProjectEventInput "wf_error + uuid"
  | RejectDemandPlanning RejectDemandPlanningInput "wf_error + unit"
  | MarkDemandPlanningFailed MarkDemandPlanningFailedInput "wf_error + unit"
  | ReopenProjectDemandForReplanning ReopenProjectDemandForReplanningInput "wf_error + unit"
  | DispatchProjectTask DispatchProjectTaskInput "wf_error + unit"
  | RecoverTaskDispatchFailure CompletedTaskInput "wf_error + RecoverTaskDispatchFailureResult"
  | FinishCoordinationJob FinishCoordinationJobInput "wf_error + unit"
  | InspectTaskResultDecision CompletedTaskInput "wf_error + InspectTaskResultDecisionResult"
  | CreateRevisionTaskForResult CreateRevisionTaskForResultInput "wf_error + FollowUpTaskResult"
  | CreateReworkTaskFromAdversarial CreateReworkTaskFromAdversarialInput "wf_error + FollowUpTaskResult"
  | CreateUpstreamSupplementTasks CreateUpstreamSupplementInput "wf_error + CreateUpstreamSupplementResult"
  | EnsureDemandAcceptanceDecision CompletedTaskInput "wf_error + DecisionRequestResult"
  | MaybeRequestCastingExpansion CompletedTaskInput "wf_error + MaybeRequestCastingExpansionResult"
  | ReviewTask CompletedTaskInput "wf_error + AdversarialReviewForTaskResult"
  | RunReviewGate CompletedTaskInput "wf_error + bool \<times> bool"

type_synonym ('w, 'i, 'r) act = "'i \<Rightarrow> 'w \<Rightarrow> 'w \<times> (wf_error + 'r)"

text \<open>The library as an execution sees it.\<close>

record 'w temporal =
  tm_version :: "string \<Rightarrow> int"
  tm_error_text :: "wf_error \<Rightarrow> string"
  tm_uuid :: uuid_lib
  tm_order :: "string list \<Rightarrow> string list"
  ac_CreateCoordinationJob :: "('w, CreateCoordinationJobInput, CoordinationJobResult) act"
  ac_LoadProjectCoordinationSnapshot :: "('w, LoadSnapshotInput, CoordinationSnapshot) act"
  ac_PlanDemandRoute :: "('w, CoordinationSnapshot, RouteDecisionPlan) act"
  ac_PersistRouteDecision :: "('w, PersistRouteDecisionInput, RouteDecisionResult) act"
  ac_PersistPlanRevision :: "('w, CoordinatedRevisionInput, PlanRevisionResult) act"
  ac_RequestPlanRevisionReview :: "('w, RequestPlanRevisionReviewInput, DecisionRequestResult) act"
  ac_ResolvePlanRevisionReview :: "('w, ResolvePlanRevisionReviewInput, PlanRevisionResult) act"
  ac_LoadHumanDecisionRoute :: "('w, LoadHumanDecisionRouteInput, HumanDecisionRouteResult) act"
  ac_LoadPriorPlanPayload :: "('w, LoadPriorPlanPayloadInput, PlanRevisionPayload option) act"
  ac_DecomposeAcceptedPlanRevision :: "('w, DecomposeRevisionInput, uuid list) act"
  ac_ListDispatchableTasks :: "('w, ListDispatchableTasksInput, uuid list) act"
  ac_ResolveReadyDownstream :: "('w, ResolveReadyDownstreamInput, uuid list) act"
  ac_IsProjectAcceptanceReady :: "('w, uuid \<times> uuid, bool) act"
  ac_RequestProjectAcceptanceReview :: "('w, uuid \<times> uuid, DecisionRequestResult) act"
  ac_RequestIterationExhaustedReview :: "('w, RequestIterationExhaustedReviewInput, DecisionRequestResult) act"
  ac_RequestUpstreamSupplementReview :: "('w, RequestUpstreamSupplementReviewInput, DecisionRequestResult) act"
  ac_ApplyProjectAcceptanceDecision :: "('w, ApplyDecisionInput, unit) act"
  ac_HoldDownstreamForFailure :: "('w, HoldDownstreamForFailureInput, DecisionRequestResult) act"
  ac_ApplyFailureRecoveryDecision :: "('w, ApplyDecisionInput, uuid list) act"
  ac_ApplyPreDispatchGateDecision :: "('w, ApplyDecisionInput, uuid list) act"
  ac_AppendProjectEvent :: "('w, AppendProjectEventInput, uuid) act"
  ac_RejectDemandPlanning :: "('w, RejectDemandPlanningInput, unit) act"
  ac_MarkDemandPlanningFailed :: "('w, MarkDemandPlanningFailedInput, unit) act"
  ac_ReopenProjectDemandForReplanning :: "('w, ReopenProjectDemandForReplanningInput, unit) act"
  ac_DispatchProjectTask :: "('w, DispatchProjectTaskInput, unit) act"
  ac_RecoverTaskDispatchFailure :: "('w, CompletedTaskInput, RecoverTaskDispatchFailureResult) act"
  ac_FinishCoordinationJob :: "('w, FinishCoordinationJobInput, unit) act"
  ac_InspectTaskResultDecision :: "('w, CompletedTaskInput, InspectTaskResultDecisionResult) act"
  ac_CreateRevisionTaskForResult :: "('w, CreateRevisionTaskForResultInput, FollowUpTaskResult) act"
  ac_CreateReworkTaskFromAdversarial :: "('w, CreateReworkTaskFromAdversarialInput, FollowUpTaskResult) act"
  ac_CreateUpstreamSupplementTasks :: "('w, CreateUpstreamSupplementInput, CreateUpstreamSupplementResult) act"
  ac_EnsureDemandAcceptanceDecision :: "('w, CompletedTaskInput, DecisionRequestResult) act"
  ac_MaybeRequestCastingExpansion :: "('w, CompletedTaskInput, MaybeRequestCastingExpansionResult) act"
  ac_AdversarialReviewForTask :: "('w, CompletedTaskInput, AdversarialReviewForTaskResult) act"
  ac_RunReviewGateForTask :: "('w, CompletedTaskInput, bool \<times> bool) act"

text \<open>A retry that sleeps until its time and then dispatches one task.\<close>

record sleeping_retry =
  sl_due :: int
  sl_TenantID :: uuid
  sl_ProjectID :: uuid
  sl_TaskID :: uuid

record 'w execution =
  ex_world :: 'w
  ex_now :: int
  ex_history :: "event list"
  ex_retries :: "sleeping_retry list"

type_synonym ('w, 'a) wf = "'w execution \<Rightarrow> 'w execution \<times> (wf_error + 'a)"

definition wf_return :: "'a \<Rightarrow> ('w, 'a) wf" where
  "wf_return a s = (s, Inr a)"

definition wf_fail :: "wf_error \<Rightarrow> ('w, 'a) wf" where
  "wf_fail e s = (s, Inl e)"

definition wf_bind :: "('w, 'a) wf \<Rightarrow> ('a \<Rightarrow> ('w, 'b) wf) \<Rightarrow> ('w, 'b) wf" where
  "wf_bind m f s = (case m s of (s', Inl e) \<Rightarrow> (s', Inl e) | (s', Inr a) \<Rightarrow> f a s')"

text \<open>The error of the first argument as a value, for the places where the code looks at it or swallows it.\<close>

definition wf_catch :: "('w, 'a) wf \<Rightarrow> (wf_error + 'a \<Rightarrow> ('w, 'b) wf) \<Rightarrow> ('w, 'b) wf" where
  "wf_catch m f s = (case m s of (s', r) \<Rightarrow> f r s')"

definition activity :: "('w, 'i, 'r) act \<Rightarrow> ('i \<Rightarrow> wf_error + 'r \<Rightarrow> event) \<Rightarrow> 'i \<Rightarrow> ('w, 'r) wf" where
  "activity f note i s =
     (case f i (ex_world s) of (w, r) \<Rightarrow> (s\<lparr>ex_world := w, ex_history := ex_history s @ [note i r]\<rparr>, r))"

definition DefaultVersion :: int where "DefaultVersion = -1"

definition since :: "'w temporal \<Rightarrow> string \<Rightarrow> bool" where
  "since E change \<longleftrightarrow> tm_version E change \<noteq> DefaultVersion"

section \<open>Helpers of the handlers\<close>

record pendingPlanRevisionReview =
  ppr_DecisionRequestID :: uuid
  ppr_ProjectID :: uuid
  ppr_DemandID :: uuid
  ppr_CoordinationJobID :: uuid
  ppr_RouteDecisionID :: uuid
  ppr_PlanRevisionID :: uuid
  ppr_PlanFingerprint :: string
  ppr_Payload :: PlanRevisionPayload
  ppr_OutputEventIDs :: "uuid list"

text \<open>\<^verbatim>\<open>pendingTaskFailureRecovery\<close> and \<^verbatim>\<open>pendingProjectAcceptance\<close>: a decision and its project.\<close>

record pendingDecision =
  pnd_DecisionRequestID :: uuid
  pnd_ProjectID :: uuid

record taskCompletionPending =
  tcp_Acceptance :: "pendingDecision option"
  tcp_FailureRecovery :: "pendingDecision option"

definition nothing_pending :: taskCompletionPending where
  "nothing_pending = \<lparr>tcp_Acceptance = None, tcp_FailureRecovery = None\<rparr>"

definition appendSignalObservedEvent :: "'w temporal \<Rightarrow> uuid \<Rightarrow> uuid \<Rightarrow> string \<Rightarrow> ('w, unit) wf" where
  "appendSignalObservedEvent E tenantID projectID summary =
     wf_bind (activity (ac_AppendProjectEvent E) AppendProjectEvent
       \<lparr>api_TenantID = tenantID, api_ProjectID = projectID, api_EventType = ''workflow.signaled'', api_Summary = summary\<rparr>)
     (\<lambda>_. wf_return ())"

definition recordCoordinatorHandlerFailure :: "'w temporal \<Rightarrow> ProjectCoordinatorInput \<Rightarrow> wf_error \<Rightarrow> ('w, unit) wf" where
  "recordCoordinatorHandlerFailure E input e =
     wf_catch (activity (ac_AppendProjectEvent E) AppendProjectEvent
       \<lparr>api_TenantID = pci_TenantID input, api_ProjectID = pci_ProjectID input, api_EventType = ''workflow.signal_failed'',
        api_Summary = ''coordinator signal handler failed: '' @ tm_error_text E e\<rparr>)
     (\<lambda>_. wf_return ())"

definition finishCoordinationJob :: "'w temporal \<Rightarrow> uuid \<Rightarrow> uuid \<Rightarrow> string \<Rightarrow> uuid list \<Rightarrow> ('w, unit) wf" where
  "finishCoordinationJob E tenantID jobID status outputEventIDs =
     activity (ac_FinishCoordinationJob E) FinishCoordinationJob
       \<lparr>fcj_TenantID = tenantID, fcj_JobID = jobID, fcj_Status = status, fcj_OutputEventIDs = outputEventIDs\<rparr>"

definition rejectDemandPlanningByID ::
    "'w temporal \<Rightarrow> uuid \<Rightarrow> uuid \<Rightarrow> uuid \<Rightarrow> uuid \<Rightarrow> string \<Rightarrow> PlanningGap option \<Rightarrow> uuid list \<Rightarrow> ('w, unit) wf" where
  "rejectDemandPlanningByID E tenantID projectID demandID jobID diagnosis gap outputEventIDs =
     activity (ac_RejectDemandPlanning E) RejectDemandPlanning
       \<lparr>rdp_TenantID = tenantID, rdp_ProjectID = projectID, rdp_DemandID = demandID, rdp_CoordinationJobID = jobID,
        rdp_Diagnosis = diagnosis, rdp_Gap = gap, rdp_OutputEventIDs = outputEventIDs\<rparr>"

definition markDemandPlanningFailed ::
    "'w temporal \<Rightarrow> uuid \<Rightarrow> uuid \<Rightarrow> uuid \<Rightarrow> uuid \<Rightarrow> wf_error \<Rightarrow> uuid list \<Rightarrow> ('w, unit) wf" where
  "markDemandPlanningFailed E tenantID projectID demandID jobID planErr outputEventIDs =
     (let msg = TrimSpace (tm_error_text E planErr) in
      activity (ac_MarkDemandPlanningFailed E) MarkDemandPlanningFailed
        \<lparr>mpf_TenantID = tenantID, mpf_ProjectID = projectID, mpf_DemandID = demandID, mpf_CoordinationJobID = jobID,
         mpf_Diagnosis = (if msg \<noteq> [] then truncateRunes msg 240 else (byte_string [233, 156, 128, 230, 177,
           130, 232, 167, 132, 229, 136, 146, 229, 164, 177, 232, 180, 165])),
         mpf_OutputEventIDs = outputEventIDs\<rparr>)"

definition listDispatchableTasks :: "'w temporal \<Rightarrow> uuid \<Rightarrow> uuid \<Rightarrow> uuid \<Rightarrow> ('w, uuid list) wf" where
  "listDispatchableTasks E tenantID projectID coordinationJobID =
     activity (ac_ListDispatchableTasks E) ListDispatchableTasks
       \<lparr>ldt_TenantID = tenantID, ldt_ProjectID = projectID, ldt_CoordinationJobID = coordinationJobID\<rparr>"

definition resolveReadyDownstream :: "'w temporal \<Rightarrow> uuid \<Rightarrow> uuid \<Rightarrow> uuid \<Rightarrow> bool \<Rightarrow> ('w, uuid list) wf" where
  "resolveReadyDownstream E tenantID projectID completedTaskID resolveRevisionRoot =
     activity (ac_ResolveReadyDownstream E) ResolveReadyDownstream
       \<lparr>rrd_TenantID = tenantID, rrd_ProjectID = projectID, rrd_CompletedTaskID = completedTaskID,
        rrd_ResolveRevisionRoot = resolveRevisionRoot\<rparr>"

definition apply_decision_input :: "uuid \<Rightarrow> uuid \<Rightarrow> HumanDecisionSubmitted \<Rightarrow> ApplyDecisionInput" where
  "apply_decision_input tenantID projectID signal =
     \<lparr>adi_TenantID = tenantID, adi_ProjectID = projectID, adi_DecisionRequestID = sh_DecisionRequestID signal,
      adi_Decision = sh_Decision signal, adi_Payload = sh_Payload signal\<rparr>"

definition applyFailureRecoveryDecision :: "'w temporal \<Rightarrow> uuid \<Rightarrow> uuid \<Rightarrow> HumanDecisionSubmitted \<Rightarrow> ('w, uuid list) wf" where
  "applyFailureRecoveryDecision E tenantID projectID signal =
     activity (ac_ApplyFailureRecoveryDecision E) ApplyFailureRecoveryDecision (apply_decision_input tenantID projectID signal)"

definition applyPreDispatchGateDecision :: "'w temporal \<Rightarrow> uuid \<Rightarrow> uuid \<Rightarrow> HumanDecisionSubmitted \<Rightarrow> ('w, uuid list) wf" where
  "applyPreDispatchGateDecision E tenantID projectID signal =
     activity (ac_ApplyPreDispatchGateDecision E) ApplyPreDispatchGateDecision (apply_decision_input tenantID projectID signal)"

definition applyProjectAcceptanceDecision :: "'w temporal \<Rightarrow> uuid \<Rightarrow> uuid \<Rightarrow> HumanDecisionSubmitted \<Rightarrow> ('w, unit) wf" where
  "applyProjectAcceptanceDecision E tenantID projectID signal =
     activity (ac_ApplyProjectAcceptanceDecision E) ApplyProjectAcceptanceDecision (apply_decision_input tenantID projectID signal)"

definition loadHumanDecisionRoute :: "'w temporal \<Rightarrow> uuid \<Rightarrow> uuid \<Rightarrow> uuid \<Rightarrow> ('w, HumanDecisionRouteResult) wf" where
  "loadHumanDecisionRoute E tenantID projectID decisionRequestID =
     activity (ac_LoadHumanDecisionRoute E) LoadHumanDecisionRoute
       \<lparr>lhd_TenantID = tenantID, lhd_ProjectID = projectID, lhd_DecisionRequestID = decisionRequestID\<rparr>"

definition task_input :: "uuid \<Rightarrow> uuid \<Rightarrow> uuid \<Rightarrow> CompletedTaskInput" where
  "task_input tenantID projectID taskID = \<lparr>ct_TenantID = tenantID, ct_ProjectID = projectID, ct_CompletedTaskID = taskID\<rparr>"

definition inspectTaskResultDecision :: "'w temporal \<Rightarrow> uuid \<Rightarrow> uuid \<Rightarrow> uuid \<Rightarrow> ('w, InspectTaskResultDecisionResult) wf" where
  "inspectTaskResultDecision E tenantID projectID taskID =
     activity (ac_InspectTaskResultDecision E) InspectTaskResultDecision (task_input tenantID projectID taskID)"

definition createRevisionTaskForResult :: "'w temporal \<Rightarrow> uuid \<Rightarrow> uuid \<Rightarrow> uuid \<Rightarrow> uuid \<Rightarrow> ('w, FollowUpTaskResult) wf" where
  "createRevisionTaskForResult E tenantID projectID sourceTaskID resultID =
     activity (ac_CreateRevisionTaskForResult E) CreateRevisionTaskForResult
       \<lparr>crt_TenantID = tenantID, crt_ProjectID = projectID, crt_SourceTaskID = sourceTaskID, crt_ResultID = resultID\<rparr>"

definition createUpstreamSupplementTasks ::
    "'w temporal \<Rightarrow> uuid \<Rightarrow> uuid \<Rightarrow> uuid \<Rightarrow> string list \<Rightarrow> (string \<times> string) list \<Rightarrow> ('w, CreateUpstreamSupplementResult) wf" where
  "createUpstreamSupplementTasks E tenantID projectID sourceTaskID missingInputs missingInputReasons =
     activity (ac_CreateUpstreamSupplementTasks E) CreateUpstreamSupplementTasks
       \<lparr>usi_TenantID = tenantID, usi_ProjectID = projectID, usi_SourceTaskID = sourceTaskID,
        usi_MissingInputs = missingInputs, usi_MissingInputReasons = missingInputReasons\<rparr>"

definition requestProjectAcceptanceReview :: "'w temporal \<Rightarrow> uuid \<Rightarrow> uuid \<Rightarrow> ('w, DecisionRequestResult) wf" where
  "requestProjectAcceptanceReview E tenantID projectID =
     activity (ac_RequestProjectAcceptanceReview E) RequestProjectAcceptanceReview (tenantID, projectID)"

definition isProjectAcceptanceReady :: "'w temporal \<Rightarrow> uuid \<Rightarrow> uuid \<Rightarrow> ('w, bool) wf" where
  "isProjectAcceptanceReady E tenantID projectID =
     activity (ac_IsProjectAcceptanceReady E) IsProjectAcceptanceReady (tenantID, projectID)"

definition requestProjectTaskIterationExhaustedReview ::
    "'w temporal \<Rightarrow> uuid \<Rightarrow> uuid \<Rightarrow> uuid \<Rightarrow> uuid \<Rightarrow> uuid \<Rightarrow> ('w, DecisionRequestResult) wf" where
  "requestProjectTaskIterationExhaustedReview E tenantID projectID taskID resultID completedEventID =
     activity (ac_RequestIterationExhaustedReview E) RequestIterationExhaustedReview
       \<lparr>rie_TenantID = tenantID, rie_ProjectID = projectID, rie_ProjectTaskID = taskID, rie_ResultID = resultID,
        rie_Reason = ''iteration_exhausted'', rie_Summary = (byte_string [229, 144, 140, 228, 184, 128, 229, 164,
          177, 232, 180, 165, 233, 135, 141, 229, 164, 141, 229, 135, 186, 231, 142, 176, 239, 188, 140, 233, 156, 128, 232, 166, 129, 228, 186, 186, 231, 177, 187, 229, 136, 164, 230, 150, 173, 230, 152, 175, 229, 144, 166, 231, 187, 167, 231, 187, 173]),
        rie_CreatedEventID = completedEventID\<rparr>"

definition requestUpstreamSupplementReview ::
    "'w temporal \<Rightarrow> uuid \<Rightarrow> uuid \<Rightarrow> uuid \<Rightarrow> uuid \<Rightarrow> uuid \<Rightarrow> string list \<Rightarrow> (string \<times> string) list \<Rightarrow> bool \<Rightarrow> ('w, DecisionRequestResult) wf" where
  "requestUpstreamSupplementReview E tenantID projectID taskID resultID completedEventID missing reasons exhausted =
     activity (ac_RequestUpstreamSupplementReview E) RequestUpstreamSupplementReview
       \<lparr>rus_TenantID = tenantID, rus_ProjectID = projectID, rus_ProjectTaskID = taskID, rus_ResultID = resultID,
        rus_CompletedEventID = completedEventID, rus_MissingInputs = missing, rus_MissingInputReasons = reasons,
        rus_EdgeBudgetExhausted = exhausted\<rparr>"

definition ensureDemandAcceptanceDecisionForTask :: "'w temporal \<Rightarrow> ProjectCoordinatorInput \<Rightarrow> uuid \<Rightarrow> ('w, unit) wf" where
  "ensureDemandAcceptanceDecisionForTask E input taskID =
     (if \<not> since E ''demand-acceptance-gate'' then wf_return ()
      else if taskID = uuid_Nil then wf_return ()
      else wf_bind (activity (ac_EnsureDemandAcceptanceDecision E) EnsureDemandAcceptanceDecision
             (task_input (pci_TenantID input) (pci_ProjectID input) taskID)) (\<lambda>_. wf_return ()))"

section \<open>Dispatching\<close>

definition defaultGateRetryLaterBackoff :: int where "defaultGateRetryLaterBackoff = 120000000000"

text \<open>The new routine wakes at the given time, or at once if it has passed.\<close>

definition scheduleDispatchRetry :: "uuid \<Rightarrow> uuid \<Rightarrow> uuid \<Rightarrow> int \<Rightarrow> ('w, unit) wf" where
  "scheduleDispatchRetry tenantID projectID taskID retryAt s =
     (let delay0 = retryAt - ex_now s; delay = (if delay0 < 0 then 0 else delay0) in
      (s\<lparr>ex_retries := ex_retries s @ [\<lparr>sl_due = ex_now s + delay, sl_TenantID = tenantID, sl_ProjectID = projectID,
          sl_TaskID = taskID\<rparr>]\<rparr>, Inr ()))"

text \<open>What happens after the dispatch of one task failed: \<open>Inr ()\<close> means the batch goes on.\<close>

definition dispatch_failed :: "'w temporal \<Rightarrow> uuid \<Rightarrow> uuid \<Rightarrow> uuid \<Rightarrow> wf_error \<Rightarrow> ('w, unit) wf" where
  "dispatch_failed E tenantID projectID taskID e =
     (if isProjectTaskDispatchRetryLater (tm_error_text E) e \<and> since E ''gate-retry-later-schedule''
      then (\<lambda>s. scheduleDispatchRetry tenantID projectID taskID (ex_now s + defaultGateRetryLaterBackoff) s)
      else if \<not> dispatchFailureRecorded e
      then (if dispatchFailureTerminal e \<and> since E ''dispatch-terminal-not-batch-fatal''
            then appendSignalObservedEvent E tenantID projectID
                   (''project task dispatch terminally rejected: '' @ uuid_String (tm_uuid E) taskID)
            else wf_fail e)
      else wf_bind (activity (ac_RecoverTaskDispatchFailure E) RecoverTaskDispatchFailure (task_input tenantID projectID taskID))
        (\<lambda>recovery. case rtr_RetryNotBefore recovery of
           Some retryAt \<Rightarrow> if rtr_Action recovery = ''retry_scheduled'' then scheduleDispatchRetry tenantID projectID taskID retryAt
                           else wf_return ()
         | None \<Rightarrow> wf_return ()))"

fun dispatchProjectTasks :: "'w temporal \<Rightarrow> uuid \<Rightarrow> uuid \<Rightarrow> uuid list \<Rightarrow> string \<Rightarrow> ('w, unit) wf" where
  "dispatchProjectTasks E tenantID projectID [] dispatchReason = wf_return ()"
| "dispatchProjectTasks E tenantID projectID (taskID # taskIDs) dispatchReason =
     wf_bind (wf_catch (activity (ac_DispatchProjectTask E) DispatchProjectTask
         \<lparr>di_TenantID = tenantID, di_ProjectID = projectID, di_TaskID = taskID, di_DispatchReason = dispatchReason\<rparr>)
       (\<lambda>r. case r of Inl e \<Rightarrow> dispatch_failed E tenantID projectID taskID e | Inr _ \<Rightarrow> wf_return ()))
     (\<lambda>_. dispatchProjectTasks E tenantID projectID taskIDs dispatchReason)"

definition handleProjectTaskRetryScheduled ::
    "'w temporal \<Rightarrow> ProjectCoordinatorInput \<Rightarrow> ProjectTaskRetryScheduled \<Rightarrow> ('w, unit) wf" where
  "handleProjectTaskRetryScheduled E input signal =
     wf_bind (appendSignalObservedEvent E (pci_TenantID input) (pci_ProjectID input) ''project task retry scheduled'') (\<lambda>_ s.
       if sr_ProjectTaskID signal = uuid_Nil then wf_return () s
       else case sr_RetryNotBefore signal of
              Some t \<Rightarrow> if t > ex_now s
                        then scheduleDispatchRetry (pci_TenantID input) (pci_ProjectID input) (sr_ProjectTaskID signal) t s
                        else dispatchProjectTasks E (pci_TenantID input) (pci_ProjectID input) [sr_ProjectTaskID signal] ''retry'' s
            | None \<Rightarrow> dispatchProjectTasks E (pci_TenantID input) (pci_ProjectID input) [sr_ProjectTaskID signal] ''retry'' s)"

section \<open>Planning a demand\<close>

definition decomposeAndDispatchAcceptedPlan ::
    "'w temporal \<Rightarrow> ProjectCoordinatorInput \<Rightarrow> pendingPlanRevisionReview \<Rightarrow> string \<Rightarrow> ('w, unit) wf" where
  "decomposeAndDispatchAcceptedPlan E input pending dispatchReason =
     wf_bind (activity (ac_DecomposeAcceptedPlanRevision E) DecomposeRevision
       \<lparr>dec_PlanRevisionID = ppr_PlanRevisionID pending, dec_PlanFingerprint = ppr_PlanFingerprint pending,
        dec_Payload = ppr_Payload pending, dex_TenantID = pci_TenantID input, dex_ProjectID = ppr_ProjectID pending,
        dex_DemandID = ppr_DemandID pending, dex_CoordinationJobID = ppr_CoordinationJobID pending,
        dex_RouteDecisionID = ppr_RouteDecisionID pending\<rparr>) (\<lambda>_.
     wf_bind (listDispatchableTasks E (pci_TenantID input) (ppr_ProjectID pending) (ppr_CoordinationJobID pending)) (\<lambda>readyTaskIDs.
     wf_bind (dispatchProjectTasks E (pci_TenantID input) (ppr_ProjectID pending) readyTaskIDs dispatchReason) (\<lambda>_.
     finishCoordinationJob E (pci_TenantID input) (ppr_CoordinationJobID pending) ''completed'' (ppr_OutputEventIDs pending))))"

text \<open>The branch that all callers of the planner take when it failed.\<close>

definition planning_failed ::
    "'w temporal \<Rightarrow> uuid \<Rightarrow> uuid \<Rightarrow> uuid \<Rightarrow> uuid \<Rightarrow> wf_error \<Rightarrow> uuid list \<Rightarrow> ('w, unit) wf" where
  "planning_failed E tenantID projectID demandID jobID e outputEventIDs =
     (case noSuitableEmployeeDiagnosis e of
        Some (diagnosis, gap) \<Rightarrow> rejectDemandPlanningByID E tenantID projectID demandID jobID diagnosis gap outputEventIDs
      | None \<Rightarrow> if since E ''planning-failed-human-task''
                then markDemandPlanningFailed E tenantID projectID demandID jobID e outputEventIDs
                else wf_fail e)"

definition review_request :: "uuid \<Rightarrow> uuid \<Rightarrow> uuid \<Rightarrow> uuid \<Rightarrow> PlanRevisionResult \<Rightarrow> RequestPlanRevisionReviewInput" where
  "review_request tenantID projectID jobID demandID planRevision =
     \<lparr>rpr_TenantID = tenantID, rpr_ProjectID = projectID, rpr_CoordinationJobID = jobID, rpr_DemandID = demandID,
      rpr_PlanRevisionID = pvr_ID planRevision, rpr_PlanFingerprint = pvr_PlanFingerprint planRevision,
      rpr_Payload = pvr_Payload planRevision, rpr_CreatedEventID = pvr_CreatedEventID planRevision\<rparr>"

definition pending_review ::
    "uuid \<Rightarrow> uuid \<Rightarrow> uuid \<Rightarrow> RouteDecisionResult \<Rightarrow> PlanRevisionResult \<Rightarrow> uuid list \<Rightarrow> pendingPlanRevisionReview" where
  "pending_review projectID demandID jobID route planRevision outputEventIDs =
     \<lparr>ppr_DecisionRequestID = uuid_Nil, ppr_ProjectID = projectID, ppr_DemandID = demandID, ppr_CoordinationJobID = jobID,
      ppr_RouteDecisionID = rdr_ID route, ppr_PlanRevisionID = pvr_ID planRevision,
      ppr_PlanFingerprint = pvr_PlanFingerprint planRevision, ppr_Payload = pvr_Payload planRevision,
      ppr_OutputEventIDs = outputEventIDs\<rparr>"

definition coordinator_workflow_id :: "'w temporal \<Rightarrow> ProjectCoordinatorInput \<Rightarrow> uuid \<Rightarrow> string" where
  "coordinator_workflow_id E input projectID =
     (if pci_WorkflowID input = [] then ''project-coordinator:'' @ uuid_String (tm_uuid E) projectID else pci_WorkflowID input)"

text \<open>After the plan is stored: an accepted revision is decomposed, a pending one goes to a human, any other status
  ends the job.\<close>

definition follow_revision ::
    "'w temporal \<Rightarrow> ProjectCoordinatorInput \<Rightarrow> pendingPlanRevisionReview \<Rightarrow> PlanRevisionResult \<Rightarrow> string \<Rightarrow>
     ('w, pendingPlanRevisionReview option) wf" where
  "follow_revision E input pending planRevision dispatchReason =
     (if pvr_Status planRevision = ''accepted'' then
        wf_bind (decomposeAndDispatchAcceptedPlan E input pending dispatchReason) (\<lambda>_. wf_return None)
      else if pvr_Status planRevision = ''pending_review'' then
        wf_bind (activity (ac_RequestPlanRevisionReview E) RequestPlanRevisionReview
          (review_request (pci_TenantID input) (ppr_ProjectID pending) (ppr_CoordinationJobID pending) (ppr_DemandID pending) planRevision))
        (\<lambda>review. wf_return (Some (pending\<lparr>ppr_DecisionRequestID := review\<rparr>)))
      else wf_bind (finishCoordinationJob E (pci_TenantID input) (ppr_CoordinationJobID pending) (pvr_Status planRevision)
             (ppr_OutputEventIDs pending)) (\<lambda>_. wf_return None))"

definition handleDemandSubmitted ::
    "'w temporal \<Rightarrow> ProjectCoordinatorInput \<Rightarrow> DemandSubmitted \<Rightarrow> ('w, pendingPlanRevisionReview option) wf" where
  "handleDemandSubmitted E input signal =
     wf_bind (activity (ac_CreateCoordinationJob E) CreateCoordinationJob
       \<lparr>cji_TenantID = pci_TenantID input, cji_ProjectID = sd_ProjectID signal,
        cji_WorkflowID = coordinator_workflow_id E input (pci_ProjectID input),
        cji_TriggerEventID = sd_CreatedEventID signal, cji_JobType = ''demand_route''\<rparr>) (\<lambda>job.
     wf_bind (activity (ac_LoadProjectCoordinationSnapshot E) LoadProjectCoordinationSnapshot
       \<lparr>dmi_TenantID = pci_TenantID input, dmi_ProjectID = sd_ProjectID signal, dmi_DemandID = sd_DemandID signal\<rparr>) (\<lambda>snapshot.
     wf_catch (activity (ac_PlanDemandRoute E) PlanDemandRoute snapshot) (\<lambda>planned. case planned of
       Inl e \<Rightarrow> wf_bind (planning_failed E (pci_TenantID input) (sd_ProjectID signal) (sd_DemandID signal) job e [sd_CreatedEventID signal])
                  (\<lambda>_. wf_return None)
     | Inr decision \<Rightarrow>
     wf_bind (activity (ac_PersistRouteDecision E) PersistRouteDecision
       \<lparr>prd_TenantID = pci_TenantID input, prd_ProjectID = sd_ProjectID signal, prd_JobID = job, prd_DemandID = sd_DemandID signal,
        prd_Decision = decision\<rparr>) (\<lambda>route.
     wf_bind (activity (ac_PersistPlanRevision E) PersistPlanRevision
       \<lparr>ppi_Decision = decision, ppi_CoordinationMode = ds_CoordinationMode (snap_Demand snapshot), ppi_ForcePendingReview = False,
        ppi_ForcePendingReviewReasons = [], ppx_TenantID = pci_TenantID input, ppx_ProjectID = sd_ProjectID signal,
        ppx_DemandID = sd_DemandID signal, ppx_CoordinationJobID = job, ppx_RouteDecisionID = rdr_ID route,
        ppx_SupersedeOpen = False, ppx_SupersedeReason = None\<rparr>) (\<lambda>planRevision.
     let outputEventIDs = rdr_CreatedEventID route #
           (if pvr_CreatedEventID planRevision \<noteq> uuid_Nil \<and> pvr_CreatedEventID planRevision \<noteq> rdr_CreatedEventID route
            then [pvr_CreatedEventID planRevision] else [])
     in follow_revision E input (pending_review (sd_ProjectID signal) (sd_DemandID signal) job route planRevision outputEventIDs)
          planRevision ''root_ready'')))))"

section \<open>The decision about a plan\<close>

definition planReviewChangeReason :: "HumanDecisionSubmitted \<Rightarrow> string" where
  "planReviewChangeReason signal =
     (case List.map_filter (\<lambda>key. case as_str (gget (sh_Payload signal) key) of
                              Some v \<Rightarrow> if v \<noteq> [] then Some v else None | None \<Rightarrow> None)
             [''reason'', ''comment'', ''summary''] of
        v # _ \<Rightarrow> v
      | [] \<Rightarrow> ''human requested plan changes'')"

definition noted :: "uuid list \<Rightarrow> uuid \<Rightarrow> uuid list" where
  "noted events event = (if event \<noteq> uuid_Nil then events @ [event] else events)"

definition replanAfterPlanReviewChanges ::
    "'w temporal \<Rightarrow> ProjectCoordinatorInput \<Rightarrow> HumanDecisionSubmitted \<Rightarrow> pendingPlanRevisionReview \<Rightarrow> uuid list \<Rightarrow>
     ('w, pendingPlanRevisionReview option) wf" where
  "replanAfterPlanReviewChanges E input signal pending outputEventIDs =
     wf_bind (appendSignalObservedEvent E (pci_TenantID input) (ppr_ProjectID pending) ''human plan review requested changes'') (\<lambda>_.
     wf_bind (activity (ac_LoadProjectCoordinationSnapshot E) LoadProjectCoordinationSnapshot
       \<lparr>dmi_TenantID = pci_TenantID input, dmi_ProjectID = ppr_ProjectID pending, dmi_DemandID = ppr_DemandID pending\<rparr>) (\<lambda>snapshot0.
     let snapshot = snapshot0\<lparr>snap_PinnedExitDeliverable := TrimSpace (sh_TargetExitDeliverable signal)\<rparr> in
     wf_catch (activity (ac_PlanDemandRoute E) PlanDemandRoute snapshot) (\<lambda>planned. case planned of
       Inl e \<Rightarrow> wf_bind (planning_failed E (pci_TenantID input) (ppr_ProjectID pending) (ppr_DemandID pending)
                   (ppr_CoordinationJobID pending) e outputEventIDs) (\<lambda>_. wf_return None)
     | Inr decision \<Rightarrow>
     wf_bind (activity (ac_PersistRouteDecision E) PersistRouteDecision
       \<lparr>prd_TenantID = pci_TenantID input, prd_ProjectID = ppr_ProjectID pending, prd_JobID = ppr_CoordinationJobID pending,
        prd_DemandID = ppr_DemandID pending, prd_Decision = decision\<rparr>) (\<lambda>route.
     wf_bind (activity (ac_PersistPlanRevision E) PersistPlanRevision
       \<lparr>ppi_Decision = decision, ppi_CoordinationMode = ds_CoordinationMode (snap_Demand snapshot), ppi_ForcePendingReview = False,
        ppi_ForcePendingReviewReasons = [], ppx_TenantID = pci_TenantID input, ppx_ProjectID = ppr_ProjectID pending,
        ppx_DemandID = ppr_DemandID pending, ppx_CoordinationJobID = ppr_CoordinationJobID pending, ppx_RouteDecisionID = rdr_ID route,
        ppx_SupersedeOpen = True, ppx_SupersedeReason = Some (planReviewChangeReason signal)\<rparr>) (\<lambda>planRevision.
     let events = noted (noted outputEventIDs (rdr_CreatedEventID route)) (pvr_CreatedEventID planRevision)
     in follow_revision E input (pending_review (ppr_ProjectID pending) (ppr_DemandID pending) (ppr_CoordinationJobID pending) route
          planRevision events) planRevision ''human_resolved'')))))"

definition handlePlanReviewDecision ::
    "'w temporal \<Rightarrow> ProjectCoordinatorInput \<Rightarrow> HumanDecisionSubmitted \<Rightarrow> pendingPlanRevisionReview \<Rightarrow>
     ('w, pendingPlanRevisionReview option) wf" where
  "handlePlanReviewDecision E input signal pending0 =
     (let outputEventIDs = noted (ppr_OutputEventIDs pending0) (sh_ResolvedEventID signal) in
      wf_bind (activity (ac_ResolvePlanRevisionReview E) ResolvePlanRevisionReview
        \<lparr>rsv_TenantID = pci_TenantID input, rsv_ProjectID = ppr_ProjectID pending0, rsv_DemandID = ppr_DemandID pending0,
         rsv_CoordinationJobID = ppr_CoordinationJobID pending0, rsv_PlanRevisionID = ppr_PlanRevisionID pending0,
         rsv_DecisionRequestID = sh_DecisionRequestID signal, rsv_Decision = sh_Decision signal, rsv_Payload = sh_Payload signal\<rparr>)
      (\<lambda>resolved.
        let pending = pending0\<lparr>ppr_OutputEventIDs := outputEventIDs\<rparr> in
        if sh_Decision signal = ''approved'' then
          wf_bind (decomposeAndDispatchAcceptedPlan E input
            (if pvr_PlanFingerprint resolved \<noteq> [] then pending\<lparr>ppr_PlanFingerprint := pvr_PlanFingerprint resolved\<rparr> else pending)
            ''human_resolved'') (\<lambda>_. wf_return None)
        else if sh_Decision signal = ''request_changes'' then
          replanAfterPlanReviewChanges E input signal pending outputEventIDs
        else
          wf_bind (appendSignalObservedEvent E (pci_TenantID input) (ppr_ProjectID pending) ''human plan review rejected'') (\<lambda>_.
          wf_bind (finishCoordinationJob E (pci_TenantID input) (ppr_CoordinationJobID pending) (sh_Decision signal) outputEventIDs)
            (\<lambda>_. wf_return None))))"

section \<open>Extending the cast of a running demand\<close>

text \<open>The tasks of a plan by key: the last task of a key wins. \<open>order\<close> is the order in which Go enumerates the keys.\<close>

definition tasks_by_key :: "PlanRevisionPayload \<Rightarrow> string \<rightharpoonup> PlanRevisionTask" where
  "tasks_by_key plan = map_of (rev (map (\<lambda>t. (TrimSpace (prt_PlannedTaskKey t), t))
     (filter (\<lambda>t. TrimSpace (prt_PlannedTaskKey t) \<noteq> []) (prp_Tasks plan))))"

definition task_keys :: "PlanRevisionPayload \<Rightarrow> string list" where
  "task_keys plan = remdups (filter (\<lambda>k. k \<noteq> []) (map (\<lambda>t. TrimSpace (prt_PlannedTaskKey t)) (prp_Tasks plan)))"

definition kept_task_reasons :: "PlanRevisionPayload \<Rightarrow> PlanRevisionPayload \<Rightarrow> string \<Rightarrow> string list" where
  "kept_task_reasons oldPlan newPlan key =
     (case (tasks_by_key oldPlan key, tasks_by_key newPlan key) of
        (Some oldT, None) \<Rightarrow> [''existing_task_removed:'' @ key]
      | (Some oldT, Some newT) \<Rightarrow>
          let a = TrimSpace (prt_SelectedEmployeeID oldT); b = TrimSpace (prt_SelectedEmployeeID newT) in
          if a \<noteq> [] \<and> b \<noteq> [] \<and> a \<noteq> b then [''existing_task_reassigned:'' @ key] else []
      | _ \<Rightarrow> [])"

definition new_task_reasons :: "PlanRevisionPayload \<Rightarrow> PlanRevisionPayload \<Rightarrow> string \<Rightarrow> string \<Rightarrow> string list" where
  "new_task_reasons oldPlan newPlan employee key =
     (case (tasks_by_key oldPlan key, tasks_by_key newPlan key) of
        (None, Some newT) \<Rightarrow> if employee = [] \<or> TrimSpace (prt_SelectedEmployeeID newT) \<noteq> employee
                             then [''unrelated_new_task:'' @ key] else []
      | _ \<Rightarrow> [])"

definition EvaluateCastingExpansionPlanDiff ::
    "(string list \<Rightarrow> string list) \<Rightarrow> PlanRevisionPayload \<Rightarrow> PlanRevisionPayload \<Rightarrow> string \<Rightarrow> bool \<times> string list" where
  "EvaluateCastingExpansionPlanDiff order oldPlan newPlan expansionEmployeeID =
     (let oldExit = TrimSpace (prp_ExitDeliverable oldPlan); newExit = TrimSpace (prp_ExitDeliverable newPlan);
          reasons =
            (if oldExit \<noteq> [] \<and> newExit \<noteq> [] \<and> oldExit \<noteq> newExit then [''exit_changed:'' @ oldExit @ (byte_string [226, 134, 146]) @ newExit] else []) @
            concat (map (kept_task_reasons oldPlan newPlan) (order (task_keys oldPlan))) @
            concat (map (new_task_reasons oldPlan newPlan (TrimSpace expansionEmployeeID)) (order (task_keys newPlan)))
      in (reasons \<noteq> [], reasons))"

definition expansion_employee :: "CastingExpansionRoute \<Rightarrow> HumanDecisionSubmitted \<Rightarrow> string" where
  "expansion_employee route signal =
     (let trimmed = (\<lambda>key. case as_str (gget (sh_Payload signal) key) of Some v \<Rightarrow> TrimSpace v | None \<Rightarrow> []);
          fromRoute = TrimSpace (cer_ExpansionEmployeeID route)
      in if fromRoute \<noteq> [] then fromRoute
         else if trimmed ''digital_employee_id'' \<noteq> [] then trimmed ''digital_employee_id'' else trimmed ''employee_id'')"

definition missing_route :: "string \<Rightarrow> string \<Rightarrow> wf_error" where
  "missing_route message t = ApplicationError message t None (Some ErrInvalidProjectValue)"

text \<open>Whether the new plan has to go back to a human, with the reasons.\<close>

definition expansion_overbound ::
    "'w temporal \<Rightarrow> PlanRevisionPayload option \<Rightarrow> PlanRevisionPayload \<Rightarrow> string \<Rightarrow> string list option" where
  "expansion_overbound E prior newPayload employee =
     (case prior of
        None \<Rightarrow> None
      | Some oldPayload \<Rightarrow>
          (case EvaluateCastingExpansionPlanDiff (tm_order E) oldPayload newPayload employee of
             (overbound, reasons) \<Rightarrow> if overbound then Some (''casting_expansion_overbound'' # reasons) else None))"

definition expansion_snapshot :: "CoordinationSnapshot \<Rightarrow> CoordinationSnapshot" where
  "expansion_snapshot snapshot =
     (let pin = DeepestExitDeliverableWithCasting snapshot in
      if pin \<noteq> [] then snapshot\<lparr>snap_PinnedExitDeliverable := pin\<rparr> else snapshot)"

definition expansion_revision ::
    "ProjectCoordinatorInput \<Rightarrow> uuid \<Rightarrow> uuid \<Rightarrow> uuid \<Rightarrow> RouteDecisionResult \<Rightarrow> CoordinationSnapshot \<Rightarrow> RouteDecisionPlan \<Rightarrow>
     string list option \<Rightarrow> CoordinatedRevisionInput" where
  "expansion_revision input projectID demandID job route snapshot decision overbound =
     \<lparr>ppi_Decision = decision, ppi_CoordinationMode = ds_CoordinationMode (snap_Demand snapshot),
      ppi_ForcePendingReview = (overbound \<noteq> None),
      ppi_ForcePendingReviewReasons = (case overbound of None \<Rightarrow> [] | Some reasons \<Rightarrow> reasons),
      ppx_TenantID = pci_TenantID input, ppx_ProjectID = projectID, ppx_DemandID = demandID, ppx_CoordinationJobID = job,
      ppx_RouteDecisionID = rdr_ID route, ppx_SupersedeOpen = True, ppx_SupersedeReason = Some ''casting expansion replan''\<rparr>"

definition handleCastingExpansionDecision ::
    "'w temporal \<Rightarrow> ProjectCoordinatorInput \<Rightarrow> HumanDecisionSubmitted \<Rightarrow> HumanDecisionRouteResult \<Rightarrow> uuid \<Rightarrow> ('w, unit) wf" where
  "handleCastingExpansionDecision E input signal route projectID =
     (case hdr_CastingExpansion route of
        None \<Rightarrow> wf_fail (missing_route ''human decision route missing casting expansion'' ''HumanDecisionRouteMissingCastingExpansion'')
      | Some expansion \<Rightarrow>
     if sh_Decision signal \<noteq> ''approved''
     then appendSignalObservedEvent E (pci_TenantID input) projectID ''casting expansion rejected''
     else
     let demandID = cer_DemandID expansion;
         demand = \<lparr>dmi_TenantID = pci_TenantID input, dmi_ProjectID = projectID, dmi_DemandID = demandID\<rparr>
     in
     wf_bind (activity (ac_CreateCoordinationJob E) CreateCoordinationJob
       \<lparr>cji_TenantID = pci_TenantID input, cji_ProjectID = projectID, cji_WorkflowID = coordinator_workflow_id E input projectID,
        cji_TriggerEventID = sh_ResolvedEventID signal, cji_JobType = ''casting_expansion_replan''\<rparr>) (\<lambda>job.
     wf_bind (activity (ac_LoadPriorPlanPayload E) LoadPriorPlanPayload demand) (\<lambda>prior.
     wf_bind (activity (ac_LoadProjectCoordinationSnapshot E) LoadProjectCoordinationSnapshot demand) (\<lambda>snapshot0.
     let snapshot = expansion_snapshot snapshot0 in
     wf_catch (activity (ac_PlanDemandRoute E) PlanDemandRoute snapshot) (\<lambda>planned. case planned of
       Inl e \<Rightarrow> planning_failed E (pci_TenantID input) projectID demandID job e [sh_ResolvedEventID signal]
     | Inr decision \<Rightarrow>
     wf_bind (activity (ac_PersistRouteDecision E) PersistRouteDecision
       \<lparr>prd_TenantID = pci_TenantID input, prd_ProjectID = projectID, prd_JobID = job, prd_DemandID = demandID, prd_Decision = decision\<rparr>)
     (\<lambda>routeDecision.
     wf_bind (activity (ac_PersistPlanRevision E) PersistPlanRevision
       (expansion_revision input projectID demandID job routeDecision snapshot decision
         (expansion_overbound E prior (BuildPlanRevisionPayload (tm_uuid E) decision) (expansion_employee expansion signal))))
     (\<lambda>planRevision.
     wf_bind (follow_revision E input
       (pending_review projectID demandID job routeDecision planRevision
         (noted (noted [] (rdr_CreatedEventID routeDecision)) (pvr_CreatedEventID planRevision)))
       planRevision ''human_resolved'') (\<lambda>review.
     case review of
       None \<Rightarrow> wf_return ()
     | Some _ \<Rightarrow> appendSignalObservedEvent E (pci_TenantID input) projectID ''casting expansion replan pending human review''))))))))"

section \<open>Decisions of humans\<close>

definition reopenProjectDemandForReplanning :: "'w temporal \<Rightarrow> uuid \<Rightarrow> uuid \<Rightarrow> uuid \<Rightarrow> ('w, unit) wf" where
  "reopenProjectDemandForReplanning E tenantID projectID demandID =
     activity (ac_ReopenProjectDemandForReplanning E) ReopenProjectDemandForReplanning
       \<lparr>dmi_TenantID = tenantID, dmi_ProjectID = projectID, dmi_DemandID = demandID\<rparr>"

text \<open>The common end of the next two handlers: the demand is reopened and planned as if it had just been submitted.\<close>

definition reopen_and_replan ::
    "'w temporal \<Rightarrow> ProjectCoordinatorInput \<Rightarrow> HumanDecisionSubmitted \<Rightarrow> uuid \<Rightarrow> uuid \<Rightarrow> ('w, unit) wf" where
  "reopen_and_replan E input signal projectID demandID =
     wf_bind (reopenProjectDemandForReplanning E (pci_TenantID input) projectID demandID) (\<lambda>_.
     wf_bind (handleDemandSubmitted E
       \<lparr>pci_TenantID = pci_TenantID input, pci_ProjectID = projectID, pci_WorkflowID = pci_WorkflowID input, pci_Generation = 0\<rparr>
       \<lparr>sd_DemandID = demandID, sd_ProjectID = projectID, sd_SubmittedByUserID = uuid_Nil, sd_CreatedEventID = sh_ResolvedEventID signal\<rparr>)
     (\<lambda>_. wf_return ()))"

definition handlePlanningGapDecision ::
    "'w temporal \<Rightarrow> ProjectCoordinatorInput \<Rightarrow> HumanDecisionSubmitted \<Rightarrow> HumanDecisionRouteResult \<Rightarrow> uuid \<Rightarrow> ('w, unit) wf" where
  "handlePlanningGapDecision E input signal route projectID =
     (case hdr_PlanningGap route of
        None \<Rightarrow> wf_fail (missing_route ''human decision route missing planning gap'' ''HumanDecisionRouteMissingPlanningGap'')
      | Some gap \<Rightarrow>
          if sh_Decision signal \<notin> {''restaffed'', ''exempted''}
          then appendSignalObservedEvent E (pci_TenantID input) projectID ''planning gap decision closed''
          else reopen_and_replan E input signal projectID (pgr_DemandID gap))"

definition handlePlanningFailedDecision ::
    "'w temporal \<Rightarrow> ProjectCoordinatorInput \<Rightarrow> HumanDecisionSubmitted \<Rightarrow> HumanDecisionRouteResult \<Rightarrow> uuid \<Rightarrow> ('w, unit) wf" where
  "handlePlanningFailedDecision E input signal route projectID =
     (case hdr_PlanningGap route of
        None \<Rightarrow> wf_fail (missing_route ''human decision route missing planning failed demand'' ''HumanDecisionRouteMissingPlanningFailed'')
      | Some gap \<Rightarrow>
          if sh_Decision signal \<notin> {''retry_planning'', ''reassign''}
          then appendSignalObservedEvent E (pci_TenantID input) projectID ''planning failed decision closed''
          else reopen_and_replan E input signal projectID (pgr_DemandID gap))"

definition planReviewRouteOutputEventIDs :: "PlanReviewRoute \<Rightarrow> uuid \<Rightarrow> uuid list" where
  "planReviewRouteOutputEventIDs route decisionCreatedEventID =
     (if prr_OutputEventIDs route \<noteq> [] then prr_OutputEventIDs route
      else let planEventID = (if prr_PlanEventID route = uuid_Nil then decisionCreatedEventID else prr_PlanEventID route) in
           noted [] (prr_RouteEventID route) @
           (if planEventID \<noteq> uuid_Nil \<and> planEventID \<noteq> prr_RouteEventID route then [planEventID] else []))"

definition pending_of_route :: "HumanDecisionRouteResult \<Rightarrow> PlanReviewRoute \<Rightarrow> pendingPlanRevisionReview" where
  "pending_of_route route review =
     \<lparr>ppr_DecisionRequestID = pds_ID (hdr_Decision route), ppr_ProjectID = prr_ProjectID review, ppr_DemandID = prr_DemandID review,
      ppr_CoordinationJobID = prr_CoordinationJobID review, ppr_RouteDecisionID = prr_RouteDecisionID review,
      ppr_PlanRevisionID = prr_PlanRevisionID review, ppr_PlanFingerprint = prr_PlanFingerprint review,
      ppr_Payload = prr_Payload review,
      ppr_OutputEventIDs = planReviewRouteOutputEventIDs review (pds_CreatedEventID (hdr_Decision route))\<rparr>"

text \<open>A decision at the pre-dispatch gate, also for every type of decision without a handler of its own.\<close>

definition gate_decision :: "'w temporal \<Rightarrow> uuid \<Rightarrow> uuid \<Rightarrow> HumanDecisionSubmitted \<Rightarrow> ('w, unit) wf" where
  "gate_decision E tenantID projectID signal =
     wf_bind (applyPreDispatchGateDecision E tenantID projectID signal) (\<lambda>readyTaskIDs.
       if readyTaskIDs \<noteq> [] then dispatchProjectTasks E tenantID projectID readyTaskIDs ''human_resolved''
       else appendSignalObservedEvent E tenantID projectID ''human decision submitted'')"

definition handleHumanDecisionSubmittedFromStore ::
    "'w temporal \<Rightarrow> ProjectCoordinatorInput \<Rightarrow> HumanDecisionSubmitted \<Rightarrow> ('w, unit) wf" where
  "handleHumanDecisionSubmittedFromStore E input signal =
     wf_bind (loadHumanDecisionRoute E (pci_TenantID input) (pci_ProjectID input) (sh_DecisionRequestID signal)) (\<lambda>route.
     if pds_ID (hdr_Decision route) = uuid_Nil
     then appendSignalObservedEvent E (pci_TenantID input) (pci_ProjectID input) ''human decision submitted for unknown request''
     else
     let projectID = (if pds_ProjectID (hdr_Decision route) = uuid_Nil then pci_ProjectID input else pds_ProjectID (hdr_Decision route));
         kind = pds_DecisionType (hdr_Decision route)
     in
     if kind = ''plan_review'' then
       (case hdr_PlanReview route of
          None \<Rightarrow> wf_fail (missing_route ''human decision route missing plan review'' ''HumanDecisionRouteMissingPlanReview'')
        | Some review \<Rightarrow> wf_bind (handlePlanReviewDecision E input signal (pending_of_route route review)) (\<lambda>_. wf_return ()))
     else if kind = ''planning_gap'' then handlePlanningGapDecision E input signal route projectID
     else if kind = ''casting_expansion'' then handleCastingExpansionDecision E input signal route projectID
     else if kind = ''planning_failed'' then handlePlanningFailedDecision E input signal route projectID
     else if kind \<in> {''task_failure_recovery'', ''upstream_supplement_review''} then
       wf_bind (applyFailureRecoveryDecision E (pci_TenantID input) projectID signal) (\<lambda>readyTaskIDs.
         dispatchProjectTasks E (pci_TenantID input) projectID readyTaskIDs ''retry'')
     else if kind = ''project_acceptance'' then applyProjectAcceptanceDecision E (pci_TenantID input) projectID signal
     else gate_decision E (pci_TenantID input) projectID signal)"

text \<open>The decisions an execution remembers, by the text of their identifier.\<close>

record remembered =
  rm_Reviews :: "string \<rightharpoonup> pendingPlanRevisionReview"
  rm_FailureRecoveries :: "string \<rightharpoonup> pendingDecision"
  rm_Acceptance :: "string \<rightharpoonup> pendingDecision"

definition nothing_remembered :: remembered where
  "nothing_remembered = \<lparr>rm_Reviews = Map.empty, rm_FailureRecoveries = Map.empty, rm_Acceptance = Map.empty\<rparr>"

text \<open>The handler of older executions; it updates the maps, whether it fails or not.\<close>

definition handleHumanDecisionSubmitted ::
    "'w temporal \<Rightarrow> ProjectCoordinatorInput \<Rightarrow> HumanDecisionSubmitted \<Rightarrow> remembered \<Rightarrow> 'w execution \<Rightarrow>
     'w execution \<times> remembered \<times> (wf_error + unit)" where
  "handleHumanDecisionSubmitted E input signal known s =
     (let key = uuid_String (tm_uuid E) (sh_DecisionRequestID signal);
          keep = (\<lambda>m k. case m s of (s', r) \<Rightarrow> (s', k, r))
      in case rm_Reviews known key of
        Some pending \<Rightarrow>
          (let forgotten = known\<lparr>rm_Reviews := (rm_Reviews known)(key := None)\<rparr> in
           case handlePlanReviewDecision E input signal pending s of
             (s', Inl e) \<Rightarrow> (s', forgotten, Inl e)
           | (s', Inr None) \<Rightarrow> (s', forgotten, Inr ())
           | (s', Inr (Some nextPending)) \<Rightarrow>
               (s', forgotten\<lparr>rm_Reviews := (rm_Reviews forgotten)(uuid_String (tm_uuid E) (ppr_DecisionRequestID nextPending) \<mapsto> nextPending)\<rparr>,
                Inr ()))
      | None \<Rightarrow>
      (case rm_FailureRecoveries known key of
        Some pending \<Rightarrow>
          keep (wf_bind (applyFailureRecoveryDecision E (pci_TenantID input) (pnd_ProjectID pending) signal) (\<lambda>readyTaskIDs.
                dispatchProjectTasks E (pci_TenantID input) (pnd_ProjectID pending) readyTaskIDs ''retry''))
               (known\<lparr>rm_FailureRecoveries := (rm_FailureRecoveries known)(key := None)\<rparr>)
      | None \<Rightarrow>
      (case rm_Acceptance known key of
        Some pending \<Rightarrow>
          keep (applyProjectAcceptanceDecision E (pci_TenantID input) (pnd_ProjectID pending) signal)
               (known\<lparr>rm_Acceptance := (rm_Acceptance known)(key := None)\<rparr>)
      | None \<Rightarrow>
          keep (if since E ''human-decision-store-fallback'' then handleHumanDecisionSubmittedFromStore E input signal
                else if \<not> since E ''predispatch-gate-decision-rerun''
                then appendSignalObservedEvent E (pci_TenantID input) (pci_ProjectID input) ''human decision submitted''
                else gate_decision E (pci_TenantID input) (pci_ProjectID input) signal) known)))"

section \<open>Tasks that ended\<close>

text \<open>A review was asked for: it is remembered unless the store asked for none.\<close>

definition await_recovery :: "ProjectCoordinatorInput \<Rightarrow> ('w, DecisionRequestResult) wf \<Rightarrow> ('w, taskCompletionPending) wf" where
  "await_recovery input m =
     wf_bind m (\<lambda>decision. wf_return (if decision = uuid_Nil then nothing_pending
       else nothing_pending\<lparr>tcp_FailureRecovery := Some \<lparr>pnd_DecisionRequestID = decision, pnd_ProjectID = pci_ProjectID input\<rparr>\<rparr>))"

text \<open>What both versions of the handler do at the end: release and dispatch what waited for the task; when nothing
  did, ask for the acceptance of a project that is ready for it.\<close>

definition release_downstream ::
    "'w temporal \<Rightarrow> ProjectCoordinatorInput \<Rightarrow> uuid \<Rightarrow> bool \<Rightarrow> ('w, taskCompletionPending) wf" where
  "release_downstream E input taskID resolveRevisionRoot =
     wf_bind (resolveReadyDownstream E (pci_TenantID input) (pci_ProjectID input) taskID resolveRevisionRoot) (\<lambda>readyTaskIDs.
     wf_bind (dispatchProjectTasks E (pci_TenantID input) (pci_ProjectID input) readyTaskIDs ''dependency_unlocked'') (\<lambda>_.
     if readyTaskIDs \<noteq> [] then wf_return nothing_pending
     else wf_bind (isProjectAcceptanceReady E (pci_TenantID input) (pci_ProjectID input)) (\<lambda>ready.
       if \<not> ready then wf_return nothing_pending
       else wf_bind (requestProjectAcceptanceReview E (pci_TenantID input) (pci_ProjectID input)) (\<lambda>decision.
         wf_return (if decision = uuid_Nil then nothing_pending
           else nothing_pending\<lparr>tcp_Acceptance := Some \<lparr>pnd_DecisionRequestID = decision, pnd_ProjectID = pci_ProjectID input\<rparr>\<rparr>)))))"

definition handleEmployeeTaskCompletedLegacy ::
    "'w temporal \<Rightarrow> ProjectCoordinatorInput \<Rightarrow> EmployeeTaskCompleted \<Rightarrow> ('w, taskCompletionPending) wf" where
  "handleEmployeeTaskCompletedLegacy E input signal = release_downstream E input (sc_ProjectTaskID signal) False"

definition exhausted_review ::
    "'w temporal \<Rightarrow> ProjectCoordinatorInput \<Rightarrow> EmployeeTaskCompleted \<Rightarrow> InspectTaskResultDecisionResult \<Rightarrow> ('w, taskCompletionPending) wf" where
  "exhausted_review E input signal decision =
     await_recovery input (requestProjectTaskIterationExhaustedReview E (pci_TenantID input) (pci_ProjectID input)
       (sc_ProjectTaskID signal) (itd_ResultID decision) (sc_CompletedEventID signal))"

text \<open>The result asks for a revision: a revision task is created and dispatched, or the rounds are used up.\<close>

definition revise_task ::
    "'w temporal \<Rightarrow> ProjectCoordinatorInput \<Rightarrow> EmployeeTaskCompleted \<Rightarrow> InspectTaskResultDecisionResult \<Rightarrow> ('w, taskCompletionPending) wf" where
  "revise_task E input signal decision =
     (if \<not> itd_Exhausted decision \<and> itd_ResultID decision \<noteq> uuid_Nil
      then wf_bind (createRevisionTaskForResult E (pci_TenantID input) (pci_ProjectID input) (sc_ProjectTaskID signal) (itd_ResultID decision))
        (\<lambda>revision. if \<not> fut_Exhausted revision \<and> fut_TaskID revision \<noteq> uuid_Nil
           then wf_bind (dispatchProjectTasks E (pci_TenantID input) (pci_ProjectID input) [fut_TaskID revision] ''retry'')
                  (\<lambda>_. wf_return nothing_pending)
           else exhausted_review E input signal decision)
      else exhausted_review E input signal decision)"

definition supplement_review ::
    "'w temporal \<Rightarrow> ProjectCoordinatorInput \<Rightarrow> EmployeeTaskCompleted \<Rightarrow> InspectTaskResultDecisionResult \<Rightarrow> CoordinatedBlocker \<Rightarrow>
     string list \<Rightarrow> bool \<Rightarrow> ('w, taskCompletionPending) wf" where
  "supplement_review E input signal decision blocker missing exhausted =
     await_recovery input (requestUpstreamSupplementReview E (pci_TenantID input) (pci_ProjectID input) (sc_ProjectTaskID signal)
       (itd_ResultID decision) (sc_CompletedEventID signal) missing (cb_MissingInputReasons blocker) exhausted)"

definition dispatch_supplement ::
    "'w temporal \<Rightarrow> ProjectCoordinatorInput \<Rightarrow> EmployeeTaskCompleted \<Rightarrow> InspectTaskResultDecisionResult \<Rightarrow>
     CreateUpstreamSupplementResult \<Rightarrow> ('w, taskCompletionPending) wf" where
  "dispatch_supplement E input signal decision supplement =
     (if usr_Exhausted supplement then exhausted_review E input signal decision
      else wf_bind (dispatchProjectTasks E (pci_TenantID input) (pci_ProjectID input) (usr_TaskIDs supplement) ''retry'')
             (\<lambda>_. wf_return nothing_pending))"

text \<open>The task lacks inputs that earlier tasks can supply.\<close>

definition supplement_upstream ::
    "'w temporal \<Rightarrow> ProjectCoordinatorInput \<Rightarrow> EmployeeTaskCompleted \<Rightarrow> InspectTaskResultDecisionResult \<Rightarrow> ('w, taskCompletionPending) wf" where
  "supplement_upstream E input signal decision =
     (case itd_Blocker decision of
        None \<Rightarrow> wf_fail ErrInvalidProjectValue
      | Some blocker \<Rightarrow>
          if since E ''coordination-mode-branch'' \<and> itd_CoordinationMode decision = ''plan''
          then supplement_review E input signal decision blocker (tbl_MissingInputs blocker) False
          else if since E ''handoff-edge-budget''
          then wf_bind (createUpstreamSupplementTasks E (pci_TenantID input) (pci_ProjectID input) (sc_ProjectTaskID signal)
                 (tbl_MissingInputs blocker) (cb_MissingInputReasons blocker)) (\<lambda>supplement.
               if usr_EdgeExhausted supplement \<noteq> []
               then supplement_review E input signal decision blocker (usr_EdgeExhausted supplement) True
               else dispatch_supplement E input signal decision supplement)
          else wf_bind (createUpstreamSupplementTasks E (pci_TenantID input) (pci_ProjectID input) (sc_ProjectTaskID signal)
                 (tbl_MissingInputs blocker) []) (dispatch_supplement E input signal decision))"

definition propose_expansion :: "'w temporal \<Rightarrow> CompletedTaskInput \<Rightarrow> ('w, unit) wf" where
  "propose_expansion E task =
     (if since E ''casting-expansion-after-task''
      then wf_catch (activity (ac_MaybeRequestCastingExpansion E) MaybeRequestCastingExpansion task) (\<lambda>_. wf_return ())
      else wf_return ())"

text \<open>The judges. The result says how the handler goes on: \<open>Inl\<close> ends it with what is pending, \<open>Inr ()\<close> goes on to
  the review gate.\<close>

definition judge_task ::
    "'w temporal \<Rightarrow> ProjectCoordinatorInput \<Rightarrow> EmployeeTaskCompleted \<Rightarrow> ('w, taskCompletionPending + unit) wf" where
  "judge_task E input signal =
     (let version = tm_version E ''adversarial-review-trigger'';
          go_on = wf_return (Inr ()); hold = wf_return (Inl nothing_pending)
      in if version = DefaultVersion then go_on
      else wf_catch (activity (ac_AdversarialReviewForTask E) ReviewTask
             (task_input (pci_TenantID input) (pci_ProjectID input) (sc_ProjectTaskID signal))) (\<lambda>reviewed. case reviewed of
        Inl _ \<Rightarrow> if version = 1 then hold else go_on
      | Inr review \<Rightarrow>
          if arf_Reviewed review \<and> (\<not> arf_AllSatisfied review \<or> arf_AnyEscalated review) then
            if version = 1 then hold
            else if version \<ge> 3 \<and> arf_HeldCriteria review \<noteq> [] \<and> \<not> arf_AnyEscalated review then
              wf_catch (activity (ac_CreateReworkTaskFromAdversarial E) CreateReworkTaskFromAdversarial
                \<lparr>rwi_TenantID = pci_TenantID input, rwi_ProjectID = pci_ProjectID input, rwi_ReviewedTaskID = sc_ProjectTaskID signal,
                 rwi_DemandID = arf_DemandID review, rwi_PlanRevisionID = arf_PlanRevisionID review,
                 rwi_HeldCriteria = arf_HeldCriteria review\<rparr>) (\<lambda>reworked. case reworked of
                Inl _ \<Rightarrow> go_on
              | Inr rework \<Rightarrow>
                  if \<not> fut_Exhausted rework \<and> fut_TaskID rework \<noteq> uuid_Nil
                  then wf_bind (dispatchProjectTasks E (pci_TenantID input) (pci_ProjectID input) [fut_TaskID rework] ''retry'')
                         (\<lambda>_. hold)
                  else go_on)
            else go_on
          else go_on))"

definition gate_task :: "'w temporal \<Rightarrow> CompletedTaskInput \<Rightarrow> ('w, unit) wf" where
  "gate_task E task =
     (if since E ''review-gate-trigger''
      then wf_catch (activity (ac_RunReviewGateForTask E) RunReviewGate task) (\<lambda>_. wf_return ())
      else wf_return ())"

definition accepted_completion ::
    "'w temporal \<Rightarrow> ProjectCoordinatorInput \<Rightarrow> EmployeeTaskCompleted \<Rightarrow> ('w, taskCompletionPending) wf" where
  "accepted_completion E input signal =
     (let task = task_input (pci_TenantID input) (pci_ProjectID input) (sc_ProjectTaskID signal) in
      wf_bind (propose_expansion E task) (\<lambda>_.
      wf_bind (judge_task E input signal) (\<lambda>next. case next of
        Inl pending \<Rightarrow> wf_return pending
      | Inr _ \<Rightarrow>
          wf_bind (gate_task E task) (\<lambda>_.
          release_downstream E input (sc_ProjectTaskID signal) (tm_version E ''adversarial-review-trigger'' \<ge> 3)))))"

definition handleEmployeeTaskCompleted ::
    "'w temporal \<Rightarrow> ProjectCoordinatorInput \<Rightarrow> EmployeeTaskCompleted \<Rightarrow> ('w, taskCompletionPending) wf" where
  "handleEmployeeTaskCompleted E input signal =
     wf_bind (appendSignalObservedEvent E (pci_TenantID input) (pci_ProjectID input) ''employee task completed'') (\<lambda>_.
     if \<not> since E ''employee-task-result-decision'' then handleEmployeeTaskCompletedLegacy E input signal
     else wf_bind (inspectTaskResultDecision E (pci_TenantID input) (pci_ProjectID input) (sc_ProjectTaskID signal)) (\<lambda>decision.
       if itd_Decision decision = ''revision_attempt'' then revise_task E input signal decision
       else if itd_Decision decision = ''blocked_resolvable_upstream'' \<and> since E ''upstream-supplement-task''
       then supplement_upstream E input signal decision
       else if itd_Decision decision \<noteq> [] \<and> itd_Decision decision \<noteq> ''complete_accepted'' then wf_return nothing_pending
       else accepted_completion E input signal))"

definition handleEmployeeTaskFailed ::
    "'w temporal \<Rightarrow> ProjectCoordinatorInput \<Rightarrow> EmployeeTaskFailed \<Rightarrow> ('w, pendingDecision option) wf" where
  "handleEmployeeTaskFailed E input signal =
     wf_bind (appendSignalObservedEvent E (pci_TenantID input) (pci_ProjectID input) ''employee task failed'') (\<lambda>_.
     wf_bind (activity (ac_HoldDownstreamForFailure E) HoldDownstreamForFailure
       \<lparr>hdf_TenantID = pci_TenantID input, hdf_ProjectID = pci_ProjectID input, hdf_FailedTaskID = sf_ProjectTaskID signal,
        hdf_FailureSummary = sf_FailureSummary signal, hdf_FailedEventID = sf_FailedEventID signal\<rparr>) (\<lambda>decision.
     wf_return (if decision = uuid_Nil then None
       else Some \<lparr>pnd_DecisionRequestID = decision, pnd_ProjectID = pci_ProjectID input\<rparr>)))"

section \<open>The loop\<close>

text \<open>One case of the selector. The state of the loop is the execution and what it remembers; the result says whether
  to stop.\<close>

definition remember_decision :: "'w temporal \<Rightarrow> pendingDecision option \<Rightarrow> (string \<rightharpoonup> pendingDecision) \<Rightarrow> (string \<rightharpoonup> pendingDecision)" where
  "remember_decision E pending m =
     (case pending of None \<Rightarrow> m | Some p \<Rightarrow> m(uuid_String (tm_uuid E) (pnd_DecisionRequestID p) \<mapsto> p))"

definition observe :: "'w temporal \<Rightarrow> ProjectCoordinatorInput \<Rightarrow> string \<Rightarrow> remembered \<Rightarrow> 'w execution \<Rightarrow> 'w execution \<times> remembered \<times> (wf_error + bool)" where
  "observe E input summary known s =
     (case appendSignalObservedEvent E (pci_TenantID input) (pci_ProjectID input) summary s of
        (s', Inl e) \<Rightarrow> (s', known, Inl e) | (s', Inr _) \<Rightarrow> (s', known, Inr False))"

text \<open>After a task ended, whatever is pending is remembered and the acceptance of its demand is probed.\<close>

definition probe_acceptance ::
    "'w temporal \<Rightarrow> ProjectCoordinatorInput \<Rightarrow> uuid \<Rightarrow> remembered \<Rightarrow> 'w execution \<Rightarrow> 'w execution \<times> remembered \<times> (wf_error + bool)" where
  "probe_acceptance E input taskID known s =
     (case ensureDemandAcceptanceDecisionForTask E input taskID s of
        (s', Inl e) \<Rightarrow> (s', known, Inl e) | (s', Inr _) \<Rightarrow> (s', known, Inr False))"

fun on_signal ::
    "'w temporal \<Rightarrow> ProjectCoordinatorInput \<Rightarrow> signal \<Rightarrow> remembered \<Rightarrow> 'w execution \<Rightarrow> 'w execution \<times> remembered \<times> (wf_error + bool)" where
  "on_signal E input (SignalDemandSubmitted signal) known s =
     (case handleDemandSubmitted E input signal s of
        (s', Inl e) \<Rightarrow> (s', known, Inl e)
      | (s', Inr None) \<Rightarrow> (s', known, Inr False)
      | (s', Inr (Some p)) \<Rightarrow>
          (s', known\<lparr>rm_Reviews := (rm_Reviews known)(uuid_String (tm_uuid E) (ppr_DecisionRequestID p) \<mapsto> p)\<rparr>, Inr False))"
| "on_signal E input (SignalProjectPolicyChanged _) known s = observe E input ''project policy changed'' known s"
| "on_signal E input (SignalProjectMemberChanged _) known s = observe E input ''project member changed'' known s"
| "on_signal E input (SignalEmployeeTaskCompleted signal) known s =
     (case handleEmployeeTaskCompleted E input signal s of
        (s', Inl e) \<Rightarrow> (s', known, Inl e)
      | (s', Inr pending) \<Rightarrow>
          probe_acceptance E input (sc_ProjectTaskID signal)
            (known\<lparr>rm_Acceptance := remember_decision E (tcp_Acceptance pending) (rm_Acceptance known),
                   rm_FailureRecoveries := remember_decision E (tcp_FailureRecovery pending) (rm_FailureRecoveries known)\<rparr>) s')"
| "on_signal E input (SignalEmployeeTaskFailed signal) known s =
     (case handleEmployeeTaskFailed E input signal s of
        (s', Inl e) \<Rightarrow> (s', known, Inl e)
      | (s', Inr pending) \<Rightarrow>
          probe_acceptance E input (sf_ProjectTaskID signal)
            (known\<lparr>rm_FailureRecoveries := remember_decision E pending (rm_FailureRecoveries known)\<rparr>) s')"
| "on_signal E input (SignalEmployeeTransferRequested _) known s = observe E input ''employee transfer requested'' known s"
| "on_signal E input (SignalHumanDecisionSubmitted signal) known s =
     (if \<not> since E ''route-human-decision-from-store''
      then (case handleHumanDecisionSubmitted E input signal known s of
              (s', known', Inl e) \<Rightarrow> (s', known', Inl e) | (s', known', Inr _) \<Rightarrow> (s', known', Inr False))
      else (case handleHumanDecisionSubmittedFromStore E input signal s of
              (s', Inl e) \<Rightarrow> (s', known, Inl e) | (s', Inr _) \<Rightarrow> (s', known, Inr False)))"
| "on_signal E input (SignalProjectTaskRetryScheduled signal) known s =
     (case handleProjectTaskRetryScheduled E input signal s of
        (s', Inl e) \<Rightarrow> (s', known, Inl e) | (s', Inr _) \<Rightarrow> (s', known, Inr False))"
| "on_signal E input SignalShutdown known s = (s, known, Inr True)"

datatype run_status = Running | Stopped | Failed wf_error

text \<open>
  A coordinator over all its executions: the input and the state of the current one, the buffered signals in the order
  of their arrival, and two lists that record, for the claims only, which signals were delivered and handled.
\<close>

record 'w coordinator =
  co_input :: ProjectCoordinatorInput
  co_status :: run_status
  co_known :: remembered
  co_execution :: "'w execution"
  co_inbox :: "signal list"
  co_delivered :: "signal list"
  co_handled :: "signal list"

definition next_generation :: "ProjectCoordinatorInput \<Rightarrow> ProjectCoordinatorInput" where
  "next_generation input = input\<lparr>pci_Generation := pci_Generation input + 1\<rparr>"

text \<open>A new execution has no history, no sleeping routines, remembers nothing, and its channels are empty: what the old
  one had buffered is gone.\<close>

definition fresh_execution :: "'w execution \<Rightarrow> 'w execution" where
  "fresh_execution s = s\<lparr>ex_history := [], ex_retries := []\<rparr>"

text \<open>The end of an iteration: \<open>suggested\<close> is what \<^verbatim>\<open>GetContinueAsNewSuggested\<close> answers.\<close>

definition end_iteration :: "bool \<Rightarrow> 'w coordinator \<Rightarrow> 'w coordinator" where
  "end_iteration suggested c =
     (if suggested \<and> co_inbox c = []
      then c\<lparr>co_input := next_generation (co_input c), co_known := nothing_remembered,
             co_execution := fresh_execution (co_execution c), co_inbox := []\<rparr>
      else c)"

definition iteration :: "'w temporal \<Rightarrow> bool \<Rightarrow> signal \<Rightarrow> 'w coordinator \<Rightarrow> 'w coordinator" where
  "iteration E suggested signal c0 =
     (let c1 = c0\<lparr>co_inbox := remove1 signal (co_inbox c0), co_handled := co_handled c0 @ [signal]\<rparr> in
      case on_signal E (co_input c1) signal (co_known c1) (co_execution c1) of
        (s, known, Inl e) \<Rightarrow>
          let c2 = c1\<lparr>co_execution := s, co_known := known\<rparr> in
          if \<not> since E ''coordinator-survive-handler-error'' then c2\<lparr>co_status := Failed e\<rparr>
          else end_iteration suggested (c2\<lparr>co_execution := fst (recordCoordinatorHandlerFailure E (co_input c1) e s)\<rparr>)
      | (s, known, Inr stop) \<Rightarrow>
          let c2 = c1\<lparr>co_execution := s, co_known := known\<rparr> in
          if stop then c2\<lparr>co_status := Stopped\<rparr> else end_iteration suggested c2)"

definition wake :: "'w temporal \<Rightarrow> sleeping_retry \<Rightarrow> 'w execution \<Rightarrow> 'w execution" where
  "wake E r s =
     fst (dispatchProjectTasks E (sl_TenantID r) (sl_ProjectID r) [sl_TaskID r] ''retry''
       (s\<lparr>ex_retries := remove1 r (ex_retries s)\<rparr>))"

text \<open>
  The step relation. Handlers and woken retries run as one block, with anything that happens to the world elsewhere before
  and after it. A coordinator started by the present code answers the newest versions throughout; an older one does so
  from its next execution.
\<close>

inductive coordinator_step :: "'w temporal \<Rightarrow> 'w coordinator \<Rightarrow> 'w coordinator \<Rightarrow> bool" where
  arrive: "co_status c = Running \<Longrightarrow>
    coordinator_step E c (c\<lparr>co_inbox := co_inbox c @ [signal], co_delivered := co_delivered c @ [signal]\<rparr>)"
| handle: "\<lbrakk>co_status c = Running; co_inbox c = earlier @ signal # later; \<forall>other \<in> set earlier. channel other \<noteq> channel signal\<rbrakk> \<Longrightarrow>
    coordinator_step E c (iteration E suggested signal c)"
| retry: "\<lbrakk>co_status c = Running; r \<in> set (ex_retries (co_execution c)); sl_due r \<le> ex_now (co_execution c)\<rbrakk> \<Longrightarrow>
    coordinator_step E c (c\<lparr>co_execution := wake E r (co_execution c)\<rparr>)"
| elsewhere: "ex_now (co_execution c) \<le> now \<Longrightarrow>
    coordinator_step E c (c\<lparr>co_execution := (co_execution c)\<lparr>ex_world := w, ex_now := now\<rparr>\<rparr>)"

definition started :: "ProjectCoordinatorInput \<Rightarrow> 'w \<Rightarrow> int \<Rightarrow> 'w coordinator" where
  "started input w now =
     \<lparr>co_input = input, co_status = Running, co_known = nothing_remembered,
      co_execution = \<lparr>ex_world = w, ex_now = now, ex_history = [], ex_retries = []\<rparr>, co_inbox = [], co_delivered = [], co_handled = []\<rparr>"

inductive reachable_coordinator :: "'w temporal \<Rightarrow> ProjectCoordinatorInput \<Rightarrow> 'w coordinator \<Rightarrow> bool" for E input where
  start: "reachable_coordinator E input (started input w now)"
| step: "\<lbrakk>reachable_coordinator E input c; coordinator_step E c c'\<rbrakk> \<Longrightarrow> reachable_coordinator E input c'"

inductive_cases coordinator_stepE: "coordinator_step E c c'"

end
