(* ===== verification/Coordinator_Safety.thy ===== *)
theory Coordinator_Safety
  imports Coordinator
begin

text \<open>
  What the coordinator guarantees. The locale \<open>history_monitor\<close> is a small program logic over the histories of
  handlers: an event is allowed only after others, and a handler keeps the history allowed. It is interpreted for three
  rules: plans are decomposed only after they were accepted, dependents are released only after a result was accepted, and
  the answers in a history are those of the activities. The claims lift these rules to all reachable states of
  the loop, and add what happens to signals, to a batch of tasks, to a demand whose planning fails, and to sleeping
  retries.
\<close>

section \<open>No signal is lost\<close>

lemma remove_first_of_channel:
  assumes "\<forall>other \<in> set earlier. channel other \<noteq> channel signal"
  shows "remove1 signal (earlier @ signal # later) = earlier @ later"
proof -
  have "signal \<notin> set earlier" using assms by auto
  then show ?thesis by (simp add: remove1_append)
qed

definition accounted :: "'w coordinator \<Rightarrow> bool" where
  "accounted c \<longleftrightarrow> (\<forall>k. filter (\<lambda>s. channel s = k) (co_delivered c) =
     filter (\<lambda>s. channel s = k) (co_handled c) @ filter (\<lambda>s. channel s = k) (co_inbox c))"

definition orderly :: "'w coordinator \<Rightarrow> bool" where
  "orderly c \<longleftrightarrow> co_status c = Running \<or> co_status c = Stopped \<and> SignalShutdown \<in> set (co_handled c)"

lemma end_iteration_fields [simp]:
  "co_inbox (end_iteration b c) = co_inbox c" "co_delivered (end_iteration b c) = co_delivered c"
  "co_handled (end_iteration b c) = co_handled c" "co_status (end_iteration b c) = co_status c"
  by (simp_all add: end_iteration_def)

lemma iteration_fields [simp]:
  "co_inbox (iteration E b signal c) = remove1 signal (co_inbox c)" "co_delivered (iteration E b signal c) = co_delivered c"
  "co_handled (iteration E b signal c) = co_handled c @ [signal]"
  by (simp_all add: iteration_def Let_def split: prod.split sum.split)

lemma only_shutdown_stops: "on_signal E input signal known s = (s', known', Inr True) \<Longrightarrow> signal = SignalShutdown"
  by (cases signal)
     (auto simp: observe_def probe_acceptance_def split: prod.splits sum.splits option.splits if_splits)

lemma iteration_orderly:
  assumes "since E ''coordinator-survive-handler-error''" "co_status c = Running"
  shows "orderly (iteration E b signal c)"
  using assms only_shutdown_stops [of E "co_input c" signal "co_known c" "co_execution c"]
  by (auto simp: iteration_def orderly_def Let_def split: prod.split sum.split)

lemma step_accounted:
  assumes "coordinator_step E c c'" "accounted c"
  shows "accounted c'"
  using assms
proof (cases rule: coordinator_step.cases)
  case (handle earlier signal later suggested)
  have "remove1 signal (co_inbox c) = earlier @ later" using handle by (simp add: remove_first_of_channel)
  moreover have "filter (\<lambda>s. channel s = channel signal) earlier = []" using handle by (simp add: filter_empty_conv)
  ultimately show ?thesis using assms(2) handle by (auto simp: accounted_def)
qed (auto simp: accounted_def)

lemma step_orderly:
  assumes "coordinator_step E c c'" "since E ''coordinator-survive-handler-error''" "orderly c"
  shows "orderly c'"
  using assms
proof (cases rule: coordinator_step.cases)
  case (handle earlier signal later suggested)
  then show ?thesis using assms(2) by (simp add: iteration_orderly)
qed (auto simp: orderly_def)

text \<open>
  Claim C2: the coordinator loses no signal. In every reachable state, on every channel, the signals delivered are those
  handled followed by those still buffered, in the order of arrival, across all executions that continued as new; and
  whatever the handlers did, the coordinator runs until it has handled a shutdown.
\<close>

theorem no_signal_is_lost:
  assumes "reachable_coordinator E input c" "since E ''coordinator-survive-handler-error''"
  shows "filter (\<lambda>s. channel s = k) (co_delivered c) =
      filter (\<lambda>s. channel s = k) (co_handled c) @ filter (\<lambda>s. channel s = k) (co_inbox c) \<and>
    (co_status c = Running \<or> co_status c = Stopped \<and> SignalShutdown \<in> set (co_handled c))"
proof -
  from assms(1) have "accounted c \<and> orderly c"
  proof induction
    case (start w now)
    show ?case by (simp add: accounted_def orderly_def started_def)
  next
    case (step c c')
    then show ?case using step_accounted step_orderly assms(2) by blast
  qed
  then show ?thesis by (auto simp: accounted_def orderly_def)
qed

section \<open>Rules on histories\<close>

locale history_monitor =
  fixes ok :: "'w temporal \<Rightarrow> event list \<Rightarrow> event \<Rightarrow> bool"
  assumes ok_later: "ok E h e \<Longrightarrow> set h \<subseteq> set h' \<Longrightarrow> ok E h' e"
begin

definition monitored :: "'w temporal \<Rightarrow> event list \<Rightarrow> bool" where
  "monitored E h \<longleftrightarrow> (\<forall>before e after. h = before @ e # after \<longrightarrow> ok E before e)"

text \<open>\<open>keeps E F m\<close>: run after the events \<open>F\<close>, the handler \<open>m\<close> keeps the history monitored and only adds to it.\<close>

definition keeps :: "'w temporal \<Rightarrow> event set \<Rightarrow> ('w, 'a) wf \<Rightarrow> bool" where
  "keeps E F m \<longleftrightarrow> (\<forall>s. monitored E (ex_history s) \<longrightarrow> F \<subseteq> set (ex_history s) \<longrightarrow>
     monitored E (ex_history (fst (m s))) \<and> set (ex_history s) \<subseteq> set (ex_history (fst (m s))))"

lemma keepsD:
  assumes "keeps E F m" "monitored E (ex_history s)" "F \<subseteq> set (ex_history s)" "m s = (s', r)"
  shows "monitored E (ex_history s')" "set (ex_history s) \<subseteq> set (ex_history s')"
  using assms(1) [unfolded keeps_def, rule_format, OF assms(2,3)] assms(4) by simp_all

lemma keeps_run: "keeps E {} m \<Longrightarrow> monitored E (ex_history s) \<Longrightarrow> monitored E (ex_history (fst (m s)))"
  by (simp add: keeps_def)

lemma monitored_Nil: "monitored E []"
  by (simp add: monitored_def)

lemma monitored_snoc: "monitored E (h @ [e]) \<longleftrightarrow> monitored E h \<and> ok E h e"
proof
  assume m: "monitored E (h @ [e])"
  have "ok E before e'" if "h = before @ e' # after" for before e' after
  proof -
    have "h @ [e] = before @ e' # (after @ [e])" using that by simp
    then show ?thesis using m unfolding monitored_def by blast
  qed
  then show "monitored E h \<and> ok E h e" using m by (auto simp: monitored_def)
next
  assume m: "monitored E h \<and> ok E h e"
  show "monitored E (h @ [e])"
    unfolding monitored_def
  proof (intro allI impI)
    fix before e' after
    assume split: "h @ [e] = before @ e' # after"
    show "ok E before e'"
    proof (cases after rule: rev_cases)
      case Nil
      then show ?thesis using split m by simp
    next
      case (snoc ys y)
      then have "h = before @ e' # ys" using split by simp
      then show ?thesis using m unfolding monitored_def by blast
    qed
  qed
qed

lemma monitored_before:
  assumes "monitored E (before @ e # after)"
  shows "ok E before e"
  using assms unfolding monitored_def by blast

lemma keeps_weaken: "keeps E F m \<Longrightarrow> F \<subseteq> G \<Longrightarrow> keeps E G m"
  by (auto simp: keeps_def)

lemma keeps_silent: "(\<And>s. ex_history (fst (m s)) = ex_history s) \<Longrightarrow> keeps E F m"
  by (simp add: keeps_def)

lemma keeps_return: "keeps E F (wf_return a)" and keeps_fail: "keeps E F (wf_fail e)"
  by (simp_all add: keeps_def wf_return_def wf_fail_def)

lemma activity_history:
  "ex_history (fst (activity f note i s)) = ex_history s @ [note i (snd (activity f note i s))]"
  by (simp add: activity_def split: prod.split)

lemma keeps_activity:
  assumes "\<And>h w w' r. f i w = (w', r) \<Longrightarrow> F \<subseteq> set h \<Longrightarrow> ok E h (note i r)"
  shows "keeps E F (activity f note i)"
  unfolding keeps_def
proof (intro allI impI)
  fix s :: "'w execution" assume "monitored E (ex_history s)" "F \<subseteq> set (ex_history s)"
  then show "monitored E (ex_history (fst (activity f note i s))) \<and>
      set (ex_history s) \<subseteq> set (ex_history (fst (activity f note i s)))"
    using assms by (auto simp: activity_def monitored_snoc split: prod.split)
qed

lemma keeps_catch:
  assumes "keeps E F m" "\<And>r. keeps E F (f r)"
  shows "keeps E F (wf_catch m f)"
  unfolding keeps_def
proof (intro allI impI)
  fix s :: "'w execution" assume s: "monitored E (ex_history s)" "F \<subseteq> set (ex_history s)"
  obtain s' r where run: "m s = (s', r)" by fastforce
  note grown = keepsD [OF assms(1) s run]
  moreover from this have "F \<subseteq> set (ex_history s')" using s by blast
  ultimately show "monitored E (ex_history (fst (wf_catch m f s))) \<and> set (ex_history s) \<subseteq> set (ex_history (fst (wf_catch m f s)))"
    using assms(2) [of r] run by (fastforce simp: wf_catch_def keeps_def)
qed

lemma bind_as_catch: "wf_bind m f = wf_catch m (\<lambda>r. case r of Inl e \<Rightarrow> wf_fail e | Inr a \<Rightarrow> f a)"
  by (rule ext) (simp add: wf_bind_def wf_catch_def wf_fail_def split: prod.split sum.split)

lemma keeps_bind: "keeps E F m \<Longrightarrow> (\<And>a. keeps E F (f a)) \<Longrightarrow> keeps E F (wf_bind m f)"
  unfolding bind_as_catch by (rule keeps_catch) (auto simp: keeps_fail split: sum.split)

text \<open>After an activity, its event is known.\<close>

lemma keeps_after_catch:
  assumes "\<And>h w w' r. f i w = (w', r) \<Longrightarrow> F \<subseteq> set h \<Longrightarrow> ok E h (note i r)" "\<And>r. keeps E (insert (note i r) F) (g r)"
  shows "keeps E F (wf_catch (activity f note i) g)"
  unfolding keeps_def
proof (intro allI impI)
  fix s :: "'w execution" assume s: "monitored E (ex_history s)" "F \<subseteq> set (ex_history s)"
  obtain s' r where run: "activity f note i s = (s', r)" by fastforce
  have "keeps E F (activity f note i)" by (rule keeps_activity) (rule assms(1))
  note grown = keepsD [OF this s run]
  moreover have "insert (note i r) F \<subseteq> set (ex_history s')"
    using activity_history [of f "note" i s] run s(2) by auto
  ultimately show "monitored E (ex_history (fst (wf_catch (activity f note i) g s))) \<and>
      set (ex_history s) \<subseteq> set (ex_history (fst (wf_catch (activity f note i) g s)))"
    using assms(2) [of r] run by (fastforce simp: wf_catch_def keeps_def)
qed

lemma keeps_after:
  assumes "\<And>h w w' r. f i w = (w', r) \<Longrightarrow> F \<subseteq> set h \<Longrightarrow> ok E h (note i r)" "\<And>a. keeps E (insert (note i (Inr a)) F) (g a)"
  shows "keeps E F (wf_bind (activity f note i) g)"
  unfolding bind_as_catch using assms by (intro keeps_after_catch) (auto simp: keeps_fail split: sum.split)

lemma keeps_if: "(b \<Longrightarrow> keeps E F m) \<Longrightarrow> (\<not> b \<Longrightarrow> keeps E F n) \<Longrightarrow> keeps E F (if b then m else n)"
  by simp

lemma keeps_let: "keeps E F (f a) \<Longrightarrow> keeps E F (let x = a in f x)"
  by simp

lemma keeps_sum: "(\<And>a. x = Inl a \<Longrightarrow> keeps E F (f a)) \<Longrightarrow> (\<And>b. x = Inr b \<Longrightarrow> keeps E F (g b)) \<Longrightarrow> keeps E F (case x of Inl a \<Rightarrow> f a | Inr b \<Rightarrow> g b)"
  by (cases x) auto

lemma keeps_option: "(x = None \<Longrightarrow> keeps E F m) \<Longrightarrow> (\<And>a. x = Some a \<Longrightarrow> keeps E F (f a)) \<Longrightarrow> keeps E F (case x of None \<Rightarrow> m | Some a \<Rightarrow> f a)"
  by (cases x) auto

lemma keeps_pair: "(\<And>a b. keeps E F (f a b)) \<Longrightarrow> keeps E F (case x of (a, b) \<Rightarrow> f a b)"
  by (cases x) auto

lemma keeps_schedule: "keeps E F (scheduleDispatchRetry t p i due)"
  by (rule keeps_silent) (simp add: scheduleDispatchRetry_def Let_def)

lemma keeps_schedule_from_now: "keeps E F (\<lambda>s. scheduleDispatchRetry t p i (ex_now s + delay) s)"
  by (rule keeps_silent) (simp add: scheduleDispatchRetry_def Let_def)

lemmas keeps_rules =
  keeps_return keeps_fail keeps_schedule keeps_if keeps_let keeps_sum keeps_option keeps_pair keeps_after keeps_after_catch keeps_activity keeps_bind keeps_catch

end

text \<open>The three events that the rules are about; every other event is always allowed.\<close>

fun watched :: "event \<Rightarrow> bool" where
  "watched (DecomposeRevision i r) = True"
| "watched (ResolveReadyDownstream i r) = True"
| "watched (PersistPlanRevision i r) = True"
| "watched _ = False"

text \<open>The event accepts a plan revision: it was stored as accepted, or a human approved it.\<close>

fun accepts :: "uuid \<Rightarrow> event \<Rightarrow> bool" where
  "accepts revision (PersistPlanRevision i (Inr p)) = (pvr_ID p = revision \<and> pvr_Status p = ''accepted'')"
| "accepts revision (ResolvePlanRevisionReview i (Inr p)) = (rsv_PlanRevisionID i = revision \<and> rsv_Decision i = ''approved'')"
| "accepts revision _ = False"

text \<open>The event says that the result of a task needs no more work: it was accepted, or there is no structured result.\<close>

fun settles :: "uuid \<Rightarrow> event \<Rightarrow> bool" where
  "settles task (InspectTaskResultDecision t (Inr d)) = (ct_CompletedTaskID t = task \<and> itd_Decision d \<in> {[], ''complete_accepted''})"
| "settles task _ = False"

locale coordinator_rules = history_monitor ok
  for ok :: "'w temporal \<Rightarrow> event list \<Rightarrow> event \<Rightarrow> bool" +
  assumes other: "\<not> watched e \<Longrightarrow> ok E h e"
    and decompose: "a \<in> set h \<Longrightarrow> accepts (dec_PlanRevisionID i) a \<Longrightarrow> ok E h (DecomposeRevision i r)"
    and release: "a \<in> set h \<Longrightarrow> settles (rrd_CompletedTaskID j) a \<Longrightarrow> ok E h (ResolveReadyDownstream j l)"
    and release_unfenced: "\<not> since E ''employee-task-result-decision'' \<Longrightarrow> ok E h (ResolveReadyDownstream j l)"
    and persist: "ac_PersistPlanRevision E k w = (w', p) \<Longrightarrow> ok E h (PersistPlanRevision k p)"
begin

lemma plain [simp]: "\<not> watched e \<Longrightarrow> ok E h e"
  by (rule other)

lemma keeps_append: "keeps E F (appendSignalObservedEvent E t p summary)"
  unfolding appendSignalObservedEvent_def by (intro keeps_rules) auto

lemma keeps_dispatch_failed: "keeps E F (dispatch_failed E t p i e)"
  unfolding dispatch_failed_def
  by (intro keeps_if keeps_schedule_from_now keeps_schedule keeps_append keeps_fail keeps_after keeps_option keeps_return) auto

lemma keeps_dispatch: "keeps E F (dispatchProjectTasks E t p ids reason)"
proof (induction ids)
  case (Cons i ids)
  show ?case unfolding dispatchProjectTasks.simps
    by (intro keeps_bind keeps_after_catch keeps_sum keeps_dispatch_failed keeps_return Cons.IH) auto
qed (simp add: keeps_return)

lemma keeps_planning_failed: "keeps E F (planning_failed E t p d j e events)"
  unfolding planning_failed_def rejectDemandPlanningByID_def markDemandPlanningFailed_def
  by (intro keeps_option keeps_pair keeps_if keeps_let keeps_activity keeps_fail) auto

lemma keeps_decompose:
  assumes "a \<in> F" "accepts (ppr_PlanRevisionID pending) a"
  shows "keeps E F (decomposeAndDispatchAcceptedPlan E input pending reason)"
  unfolding decomposeAndDispatchAcceptedPlan_def listDispatchableTasks_def finishCoordinationJob_def
  using assms by (intro keeps_after keeps_bind keeps_dispatch keeps_activity) (auto intro: decompose)

lemma keeps_follow:
  assumes "PersistPlanRevision k (Inr revision) \<in> F" "pvr_ID revision = ppr_PlanRevisionID pending"
  shows "keeps E F (follow_revision E input pending revision reason)"
  unfolding follow_revision_def finishCoordinationJob_def
  using assms by (intro keeps_if keeps_bind keeps_decompose keeps_activity keeps_return) auto

lemmas keeps_steps = keeps_append keeps_dispatch keeps_planning_failed keeps_return keeps_fail keeps_if keeps_let keeps_sum keeps_option
  keeps_after_catch keeps_after keeps_activity keeps_bind

lemma keeps_demand: "keeps E F (handleDemandSubmitted E input signal)"
  unfolding handleDemandSubmitted_def
  by (intro keeps_steps keeps_follow) (auto simp: pending_review_def intro: persist)

lemma keeps_replan: "keeps E F (replanAfterPlanReviewChanges E input signal pending events)"
  unfolding replanAfterPlanReviewChanges_def
  by (intro keeps_steps keeps_follow) (auto simp: pending_review_def intro: persist)

end

context coordinator_rules
begin

lemma keeps_plan_review: "keeps E F (handlePlanReviewDecision E input signal pending)"
proof -
  let ?i = "\<lparr>rsv_TenantID = pci_TenantID input, rsv_ProjectID = ppr_ProjectID pending, rsv_DemandID = ppr_DemandID pending,
    rsv_CoordinationJobID = ppr_CoordinationJobID pending, rsv_PlanRevisionID = ppr_PlanRevisionID pending,
    rsv_DecisionRequestID = sh_DecisionRequestID signal, rsv_Decision = sh_Decision signal, rsv_Payload = sh_Payload signal\<rparr>"
  have approved: "accepts (ppr_PlanRevisionID pending) (ResolvePlanRevisionReview ?i (Inr r))" if "sh_Decision signal = ''approved''" for r
    using that by simp
  show ?thesis
    unfolding handlePlanReviewDecision_def finishCoordinationJob_def Let_def
    by (intro keeps_after keeps_if keeps_bind keeps_append keeps_activity keeps_return keeps_replan
          keeps_decompose [where a = "ResolvePlanRevisionReview ?i (Inr _)"])
       (auto simp: approved)
qed

lemma keeps_expansion: "keeps E F (handleCastingExpansionDecision E input signal route project)"
  unfolding handleCastingExpansionDecision_def
  by (intro keeps_steps keeps_follow insertI1) (auto simp: pending_review_def intro: persist)

lemma keeps_reopen: "keeps E F (reopen_and_replan E input signal project demand)"
  unfolding reopen_and_replan_def reopenProjectDemandForReplanning_def
  by (intro keeps_steps keeps_demand) auto

lemma keeps_gap: "keeps E F (handlePlanningGapDecision E input signal route project)"
  unfolding handlePlanningGapDecision_def by (intro keeps_steps keeps_reopen)

lemma keeps_failed_planning: "keeps E F (handlePlanningFailedDecision E input signal route project)"
  unfolding handlePlanningFailedDecision_def by (intro keeps_steps keeps_reopen)

lemma keeps_gate: "keeps E F (gate_decision E t p signal)"
  unfolding gate_decision_def applyPreDispatchGateDecision_def by (intro keeps_steps) auto

lemma keeps_store: "keeps E F (handleHumanDecisionSubmittedFromStore E input signal)"
  unfolding handleHumanDecisionSubmittedFromStore_def loadHumanDecisionRoute_def applyFailureRecoveryDecision_def
    applyProjectAcceptanceDecision_def
  by (intro keeps_steps keeps_plan_review keeps_gap keeps_expansion keeps_failed_planning keeps_gate) auto

lemma keeps_recovery: "keeps E F (wf_bind (applyFailureRecoveryDecision E t p signal) (\<lambda>ids. dispatchProjectTasks E t p ids reason))"
  unfolding applyFailureRecoveryDecision_def by (intro keeps_steps) auto

lemma keeps_acceptance: "keeps E F (applyProjectAcceptanceDecision E t p signal)"
  unfolding applyProjectAcceptanceDecision_def by (intro keeps_steps) auto

lemma keeps_release:
  assumes "a \<in> F \<and> settles task a \<or> \<not> since E ''employee-task-result-decision''"
  shows "keeps E F (release_downstream E input task b)"
  unfolding release_downstream_def resolveReadyDownstream_def isProjectAcceptanceReady_def requestProjectAcceptanceReview_def
  using assms by (intro keeps_steps) (auto intro: release release_unfenced)

lemma keeps_await: "keeps E F m \<Longrightarrow> keeps E F (await_recovery input m)"
  unfolding await_recovery_def by (intro keeps_bind keeps_return)

lemma keeps_exhausted: "keeps E F (exhausted_review E input signal decision)"
  unfolding exhausted_review_def requestProjectTaskIterationExhaustedReview_def by (intro keeps_await keeps_activity) auto

lemma keeps_revise: "keeps E F (revise_task E input signal decision)"
  unfolding revise_task_def createRevisionTaskForResult_def by (intro keeps_steps keeps_exhausted) auto

lemma keeps_supplement: "keeps E F (supplement_upstream E input signal decision)"
  unfolding supplement_upstream_def supplement_review_def dispatch_supplement_def requestUpstreamSupplementReview_def
    createUpstreamSupplementTasks_def
  by (intro keeps_steps keeps_await keeps_exhausted) auto

lemma keeps_judges: "keeps E F (judge_task E input signal)"
  unfolding judge_task_def Let_def by (intro keeps_steps) auto

lemma keeps_quiet_steps: "keeps E F (propose_expansion E task)" "keeps E F (gate_task E task)"
  unfolding propose_expansion_def gate_task_def by (intro keeps_steps; auto)+

lemma keeps_completed: "keeps E F (handleEmployeeTaskCompleted E input signal)"
proof -
  let ?t = "task_input (pci_TenantID input) (pci_ProjectID input) (sc_ProjectTaskID signal)"
  have legacy: "keeps E F (handleEmployeeTaskCompletedLegacy E input signal)" if "\<not> since E ''employee-task-result-decision''" for F
    unfolding handleEmployeeTaskCompletedLegacy_def using that by (intro keeps_release) simp
  have accepted: "keeps E (insert (InspectTaskResultDecision ?t (Inr d)) G) (accepted_completion E input signal)"
    if "itd_Decision d = [] \<or> itd_Decision d = ''complete_accepted''" for d G
    unfolding accepted_completion_def Let_def
    by (intro keeps_bind keeps_quiet_steps keeps_judges keeps_sum keeps_return
          keeps_release [where a = "InspectTaskResultDecision ?t (Inr d)"])
       (use that in \<open>auto simp: task_input_def\<close>)
  show ?thesis
    unfolding handleEmployeeTaskCompleted_def inspectTaskResultDecision_def
    by (intro keeps_bind [OF keeps_append] keeps_if legacy keeps_after keeps_revise keeps_supplement keeps_return accepted) auto
qed

lemma keeps_failed: "keeps E F (handleEmployeeTaskFailed E input signal)"
  unfolding handleEmployeeTaskFailed_def by (intro keeps_steps) auto

lemma keeps_probe: "keeps E F (ensureDemandAcceptanceDecisionForTask E input task)"
  unfolding ensureDemandAcceptanceDecisionForTask_def by (intro keeps_steps) auto

lemma keeps_record: "keeps E F (recordCoordinatorHandlerFailure E input e)"
  unfolding recordCoordinatorHandlerFailure_def by (intro keeps_after_catch keeps_return) auto

lemma keeps_retry: "keeps E F (handleProjectTaskRetryScheduled E input signal)"
proof -
  have "keeps E F (\<lambda>s. if sr_ProjectTaskID signal = uuid_Nil then wf_return () s
      else case sr_RetryNotBefore signal of
        Some t \<Rightarrow> if t > ex_now s then scheduleDispatchRetry a b i t s else dispatchProjectTasks E a b ids r s
      | None \<Rightarrow> dispatchProjectTasks E a b ids r s)" for F a b i ids r
    using keeps_dispatch [of E F a b ids r] keeps_schedule [of E F a b i]
    by (auto simp: keeps_def wf_return_def split: option.split)
  then show ?thesis unfolding handleProjectTaskRetryScheduled_def by (intro keeps_bind keeps_append)
qed

end

section \<open>The rules hold in every reachable state\<close>

context coordinator_rules
begin

lemma memory_monitored:
  assumes "monitored E (ex_history s)" "handleHumanDecisionSubmitted E input signal known s = (s', known', r)"
  shows "monitored E (ex_history s')"
proof -
  note runs = keepsD(1) [OF _ assms(1) empty_subsetI]
  show ?thesis
    using assms(2) runs [OF keeps_plan_review] runs [OF keeps_recovery] runs [OF keeps_acceptance] runs [OF keeps_store]
      runs [OF keeps_append] runs [OF keeps_gate]
    unfolding handleHumanDecisionSubmitted_def Let_def
    by (force split: option.splits prod.splits sum.splits if_splits)
qed

lemma probe_monitored:
  assumes "monitored E (ex_history s)" "probe_acceptance E input task known s = (s', known', r)"
  shows "monitored E (ex_history s')"
  using assms(2) keepsD(1) [OF keeps_probe assms(1) empty_subsetI] unfolding probe_acceptance_def
  by (auto split: prod.splits sum.splits)

lemma observe_monitored:
  assumes "monitored E (ex_history s)" "observe E input summary known s = (s', known', r)"
  shows "monitored E (ex_history s')"
  using assms(2) keepsD(1) [OF keeps_append assms(1) empty_subsetI] unfolding observe_def
  by (auto split: prod.splits sum.splits)

lemma signal_monitored:
  assumes "monitored E (ex_history s)" "on_signal E input signal known s = (s', known', r)"
  shows "monitored E (ex_history s')"
proof -
  note runs = keepsD(1) [OF _ assms(1) empty_subsetI]
  show ?thesis
  proof (cases signal)
    case (SignalDemandSubmitted x)
    then show ?thesis using assms(2) runs [OF keeps_demand] by (auto split: prod.splits sum.splits option.splits)
  next
    case (SignalEmployeeTaskCompleted x)
    then show ?thesis using assms(2) runs [OF keeps_completed] probe_monitored
      by (fastforce split: prod.splits sum.splits)
  next
    case (SignalEmployeeTaskFailed x)
    then show ?thesis using assms(2) runs [OF keeps_failed] probe_monitored
      by (fastforce split: prod.splits sum.splits)
  next
    case (SignalHumanDecisionSubmitted x)
    then show ?thesis using assms(2) runs [OF keeps_store] memory_monitored [OF assms(1)]
      by (fastforce split: prod.splits sum.splits if_splits)
  next
    case (SignalProjectTaskRetryScheduled x)
    then show ?thesis using assms(2) runs [OF keeps_retry] by (auto split: prod.splits sum.splits)
  qed (use assms observe_monitored in \<open>auto\<close>)
qed

lemma iteration_monitored:
  assumes "monitored E (ex_history (co_execution c))"
  shows "monitored E (ex_history (co_execution (iteration E b signal c)))"
proof -
  obtain s known r where run: "on_signal E (co_input c) signal (co_known c) (co_execution c) = (s, known, r)"
    by (metis prod_cases3)
  have s: "monitored E (ex_history s)" using signal_monitored [OF assms run] .
  have "monitored E (ex_history (fst (recordCoordinatorHandlerFailure E (co_input c) e s)))" for e
    by (rule keeps_run [OF keeps_record s])
  then show ?thesis using s run
    by (auto simp: iteration_def end_iteration_def fresh_execution_def monitored_Nil Let_def split: sum.splits)
qed

lemma wake_monitored:
  assumes "monitored E (ex_history s)"
  shows "monitored E (ex_history (wake E r s))"
proof -
  have "monitored E (ex_history (s\<lparr>ex_retries := remove1 r (ex_retries s)\<rparr>))" using assms by simp
  then show ?thesis unfolding wake_def by (rule keeps_run [OF keeps_dispatch])
qed

lemma reachable_monitored:
  assumes "reachable_coordinator E input c"
  shows "monitored E (ex_history (co_execution c))"
  using assms
proof induction
  case (start w now)
  show ?case by (simp add: started_def monitored_Nil)
next
  case (step c c')
  from step.hyps(2) step.IH show ?case
    by (cases rule: coordinator_step.cases) (simp_all add: iteration_monitored wake_monitored)
qed

end

text \<open>Plans are decomposed only after they were accepted.\<close>

fun accepted_before :: "'w temporal \<Rightarrow> event list \<Rightarrow> event \<Rightarrow> bool" where
  "accepted_before E h (DecomposeRevision i r) = (\<exists>a \<in> set h. accepts (dec_PlanRevisionID i) a)"
| "accepted_before E h _ = True"

text \<open>Dependents are released only after the result of the task was settled.\<close>

fun settled_before :: "'w temporal \<Rightarrow> event list \<Rightarrow> event \<Rightarrow> bool" where
  "settled_before E h (ResolveReadyDownstream i r) =
     (since E ''employee-task-result-decision'' \<longrightarrow> (\<exists>a \<in> set h. settles (rrd_CompletedTaskID i) a))"
| "settled_before E h _ = True"

text \<open>The history has the answers of the activity that stores plans.\<close>

fun genuine :: "'w temporal \<Rightarrow> event list \<Rightarrow> event \<Rightarrow> bool" where
  "genuine E h (PersistPlanRevision i r) = (\<exists>w w'. ac_PersistPlanRevision E i w = (w', r))"
| "genuine E h _ = True"

interpretation acceptance: coordinator_rules accepted_before
proof (unfold_locales, goal_cases)
  case (1 E h e h')
  then show ?case by (cases e) auto
next
  case (2 e E h)
  then show ?case by (cases e) auto
qed auto

interpretation settlement: coordinator_rules settled_before
proof (unfold_locales, goal_cases)
  case (1 E h e h')
  then show ?case by (cases e) auto
next
  case (2 e E h)
  then show ?case by (cases e) auto
qed auto

interpretation answers: coordinator_rules genuine
proof (unfold_locales, goal_cases)
  case (1 E h e h')
  then show ?case by (cases e) auto
next
  case (2 e E h)
  then show ?case by (cases e) auto
qed auto

section \<open>Plans and results\<close>

lemma stored_as_accepted:
  assumes "cpr_Status (plan_revision_request digest U k) = ''accepted''"
  shows "isAutonomousCoordinationMode (ppi_CoordinationMode k) \<and> \<not> ppi_ForcePendingReview k \<and>
    \<not> plan_RequiresHumanReview (ppi_Decision k) \<and> \<not> planTouchesHighRisk (ppi_Decision k)"
proof -
  let ?payload = "BuildPlanRevisionPayload U (ppi_Decision k)"
  have risk: "payloadHasPlatformDerivedRisk ?payload = planTouchesHighRisk (ppi_Decision k)"
    by (simp add: payloadHasPlatformDerivedRisk_def planTouchesHighRisk_def BuildPlanRevisionPayload_def)
  have "prv_Acceptable (ValidatePlanRevisionPayload digest U ?payload)" "\<not> prv_ReviewRequired (ValidatePlanRevisionPayload digest U ?payload)"
    using assms by (auto simp: plan_revision_request_def Let_def split: if_splits)
  then have "\<not> planTouchesHighRisk (ppi_Decision k)"
    using risk by (auto simp: ValidatePlanRevisionPayload_def Let_def split: option.splits if_splits)
  then show ?thesis using assms by (auto simp: plan_revision_request_def Let_def split: if_splits)
qed


text \<open>
  Claim C3: what depends on a task is released only when its result is settled. In every reachable state, the dependents
  of a task were resolved only after an inspection in the same execution found its result accepted, or found no
  structured result at all; a result that asks for a revision, a review, a supplement or a recovery releases nothing.
\<close>

theorem dependents_wait_for_settled_results:
  assumes "reachable_coordinator E input c" "since E ''employee-task-result-decision''"
    and "ex_history (co_execution c) = before @ ResolveReadyDownstream i r # after"
  shows "\<exists>t d. InspectTaskResultDecision t (Inr d) \<in> set before \<and> ct_CompletedTaskID t = rrd_CompletedTaskID i \<and>
    itd_Decision d \<in> {[], ''complete_accepted''}"
proof -
  have "settled_before E before (ResolveReadyDownstream i r)"
    using settlement.reachable_monitored [OF assms(1)] unfolding assms(3) by (rule settlement.monitored_before)
  then obtain a where "a \<in> set before" "settles (rrd_CompletedTaskID i) a" using assms(2) by auto
  then show ?thesis by (cases "(rrd_CompletedTaskID i, a)" rule: settles.cases) auto
qed

section \<open>A batch of tasks\<close>

lemma activity_run:
  assumes "activity f note i s = (s', r)"
  shows "ex_history s' = ex_history s @ [note i r]" "ex_retries s' = ex_retries s" "ex_now s' = ex_now s"
  using assms by (auto simp: activity_def split: prod.splits)

lemma append_run:
  assumes "appendSignalObservedEvent E t p summary s = (s', r)"
  shows "\<exists>x. ex_history s' = ex_history s @ [AppendProjectEvent
      \<lparr>api_TenantID = t, api_ProjectID = p, api_EventType = ''workflow.signaled'', api_Summary = summary\<rparr> x] \<and>
    ex_retries s' = ex_retries s \<and> (case x of Inl e \<Rightarrow> r = Inl e | Inr _ \<Rightarrow> r = Inr ())"
  using assms activity_run
  by (fastforce simp: appendSignalObservedEvent_def wf_bind_def wf_return_def split: prod.splits sum.splits)

text \<open>The tasks whose dispatch was attempted, in order.\<close>

fun dispatched_task :: "event \<Rightarrow> uuid option" where
  "dispatched_task (DispatchProjectTask i r) = Some (di_TaskID i)"
| "dispatched_task _ = None"

text \<open>How a failed dispatch is followed up: a retry sleeps, the recovery ran, or the rejection is on record.\<close>

definition followed_up :: "'w temporal \<Rightarrow> uuid \<Rightarrow> uuid \<Rightarrow> event list \<Rightarrow> sleeping_retry list \<Rightarrow> uuid \<Rightarrow> wf_error \<Rightarrow> bool" where
  "followed_up E t p evs retries task e \<longleftrightarrow>
     (\<exists>q \<in> set retries. sl_TaskID q = task \<and> sl_TenantID q = t \<and> sl_ProjectID q = p) \<or>
     (\<exists>x. RecoverTaskDispatchFailure (task_input t p task) (Inr x) \<in> set evs) \<or>
     dispatchFailureTerminal e \<and>
     (\<exists>a x. AppendProjectEvent a (Inr x) \<in> set evs \<and>
        api_Summary a = ''project task dispatch terminally rejected: '' @ uuid_String (tm_uuid E) task)"

definition stops_batch :: "'w temporal \<Rightarrow> event list \<Rightarrow> wf_error \<Rightarrow> bool" where
  "stops_batch E evs e \<longleftrightarrow>
     (\<exists>i. DispatchProjectTask i (Inl e) \<in> set evs) \<and> \<not> isProjectTaskDispatchRetryLater (tm_error_text E) e \<and>
       \<not> dispatchFailureRecorded e \<and> \<not> dispatchFailureTerminal e \<or>
     (\<exists>i. RecoverTaskDispatchFailure i (Inl e) \<in> set evs) \<or> (\<exists>a. AppendProjectEvent a (Inl e) \<in> set evs)"

lemma dispatch_failed_run:
  assumes "dispatch_failed E t p task e s = (s', r)" "since E ''gate-retry-later-schedule''" "since E ''dispatch-terminal-not-batch-fatal''"
  shows "\<exists>evs qs. ex_history s' = ex_history s @ evs \<and> ex_retries s' = ex_retries s @ qs \<and> List.map_filter dispatched_task evs = [] \<and>
    (case r of Inr _ \<Rightarrow> followed_up E t p evs qs task e
     | Inl e' \<Rightarrow> stops_batch E (evs @ [DispatchProjectTask i (Inl e)]) e')"
proof (cases "isProjectTaskDispatchRetryLater (tm_error_text E) e")
  case True
  then show ?thesis using assms
    by (auto simp: dispatch_failed_def scheduleDispatchRetry_def Let_def followed_up_def List.map_filter_def)
next
  case later: False
  show ?thesis
  proof (cases "dispatchFailureRecorded e")
    case True
    obtain s1 r1 where run: "activity (ac_RecoverTaskDispatchFailure E) RecoverTaskDispatchFailure (task_input t p task) s = (s1, r1)"
      by fastforce
    note h = activity_run [OF run]
    show ?thesis
    proof (cases r1)
      case (Inl x)
      then show ?thesis using assms(1) later True run h
        by (auto simp: dispatch_failed_def wf_bind_def stops_batch_def List.map_filter_def)
    next
      case (Inr x)
      have "\<exists>qs. ex_retries s' = ex_retries s1 @ qs" and "ex_history s' = ex_history s1" and "r = Inr ()"
        using assms(1) later True run Inr
        by (auto simp: dispatch_failed_def wf_bind_def wf_return_def scheduleDispatchRetry_def Let_def split: option.splits if_splits)
      then show ?thesis using h Inr by (auto simp: followed_up_def List.map_filter_def)
    qed
  next
    case False
    show ?thesis
    proof (cases "dispatchFailureTerminal e")
      case True
      let ?a = "\<lparr>api_TenantID = t, api_ProjectID = p, api_EventType = ''workflow.signaled'',
          api_Summary = ''project task dispatch terminally rejected: '' @ uuid_String (tm_uuid E) task\<rparr>"
      have "appendSignalObservedEvent E t p (''project task dispatch terminally rejected: '' @ uuid_String (tm_uuid E) task) s = (s', r)"
        using assms later False True by (simp add: dispatch_failed_def)
      from append_run [OF this] obtain x where x: "ex_history s' = ex_history s @ [AppendProjectEvent ?a x]"
          "ex_retries s' = ex_retries s" "case x of Inl e \<Rightarrow> r = Inl e | Inr _ \<Rightarrow> r = Inr ()" by blast
      show ?thesis
        by (rule exI [of _ "[AppendProjectEvent ?a x]"], rule exI [of _ "[]"])
           (use x True in \<open>cases x; auto simp: followed_up_def stops_batch_def List.map_filter_def\<close>)
    next
      case notTerminal: False
      then have "s' = s" "r = Inl e" using assms(1) later False by (auto simp: dispatch_failed_def wf_fail_def)
      then show ?thesis using later False notTerminal by (auto simp: stops_batch_def List.map_filter_def)
    qed
  qed
qed

lemma followed_up_more:
  "followed_up E t p evs qs task e \<Longrightarrow> set evs \<subseteq> set evs' \<Longrightarrow> set qs \<subseteq> set qs' \<Longrightarrow> followed_up E t p evs' qs' task e"
  by (fastforce simp: followed_up_def)

lemma stops_batch_more: "stops_batch E evs e \<Longrightarrow> set evs \<subseteq> set evs' \<Longrightarrow> stops_batch E evs' e"
  by (fastforce simp: stops_batch_def)

lemma map_filter_append [simp]: "List.map_filter f (xs @ ys) = List.map_filter f xs @ List.map_filter f ys"
  by (simp add: List.map_filter_def)

lemma one_dispatch_run:
  assumes "wf_catch (activity (ac_DispatchProjectTask E) DispatchProjectTask i)
      (\<lambda>r. case r of Inl e \<Rightarrow> dispatch_failed E t p task e | Inr _ \<Rightarrow> wf_return ()) s = (s', r)"
    and "since E ''gate-retry-later-schedule''" "since E ''dispatch-terminal-not-batch-fatal''" "di_TaskID i = task"
  shows "\<exists>evs qs x. ex_history s' = ex_history s @ DispatchProjectTask i x # evs \<and> ex_retries s' = ex_retries s @ qs \<and>
    List.map_filter dispatched_task evs = [] \<and>
    (case r of Inr _ \<Rightarrow> (case x of Inl e \<Rightarrow> followed_up E t p evs qs task e | Inr _ \<Rightarrow> True)
     | Inl e' \<Rightarrow> stops_batch E (DispatchProjectTask i x # evs) e')"
proof -
  obtain s1 x where run: "activity (ac_DispatchProjectTask E) DispatchProjectTask i s = (s1, x)" by fastforce
  note h = activity_run [OF run]
  show ?thesis
  proof (cases x)
    case (Inl e)
    then have "dispatch_failed E t p task e s1 = (s', r)" using assms(1) run by (simp add: wf_catch_def)
    from dispatch_failed_run [OF this assms(2,3), of i] obtain evs qs where
      d: "ex_history s' = ex_history s1 @ evs" "ex_retries s' = ex_retries s1 @ qs" "List.map_filter dispatched_task evs = []"
        "case r of Inr _ \<Rightarrow> followed_up E t p evs qs task e | Inl e' \<Rightarrow> stops_batch E (evs @ [DispatchProjectTask i (Inl e)]) e'" by blast
    have "stops_batch E (DispatchProjectTask i (Inl e) # evs) e'" if "r = Inl e'" for e'
      using d(4) that by (auto elim: stops_batch_more)
    then show ?thesis using d h Inl
      by (intro exI [of _ evs] exI [of _ qs] exI [of _ x]) (auto split: sum.splits)
  next
    case (Inr u)
    then have "s' = s1" "r = Inr ()" using assms(1) run by (auto simp: wf_catch_def wf_return_def)
    then show ?thesis using h Inr by (intro exI [of _ "[]"] exI [of _ "[]"] exI [of _ x]) (auto simp: List.map_filter_def)
  qed
qed

text \<open>
  Claim C4: no task of a batch is left behind. When a batch of tasks is dispatched and no error is returned, every
  task was attempted once, in order, and each failed attempt is followed up: a retry sleeps for the task, the recovery of
  the dispatch ran, or the terminal rejection is on record. An error is returned only for a failure that is neither of
  the known kinds, or because the recovery or the record failed.
\<close>

theorem batches_leave_no_task_behind:
  assumes "dispatchProjectTasks E t p tasks reason s = (s', r)"
    and "since E ''gate-retry-later-schedule''" "since E ''dispatch-terminal-not-batch-fatal''"
  shows "\<exists>evs retries. ex_history s' = ex_history s @ evs \<and> ex_retries s' = ex_retries s @ retries \<and>
    (case r of
       Inr _ \<Rightarrow> List.map_filter dispatched_task evs = tasks \<and>
         (\<forall>i e. DispatchProjectTask i (Inl e) \<in> set evs \<longrightarrow> followed_up E t p evs retries (di_TaskID i) e)
     | Inl e \<Rightarrow> stops_batch E evs e)"
  using assms(1)
proof (induction tasks arbitrary: s)
  case Nil
  then show ?case by (auto simp: wf_return_def List.map_filter_def)
next
  case (Cons task tasks)
  let ?i = "\<lparr>di_TenantID = t, di_ProjectID = p, di_TaskID = task, di_DispatchReason = reason\<rparr>"
  let ?m = "wf_catch (activity (ac_DispatchProjectTask E) DispatchProjectTask ?i)
      (\<lambda>r. case r of Inl e \<Rightarrow> dispatch_failed E t p task e | Inr _ \<Rightarrow> wf_return ())"
  obtain s1 r1 where one: "?m s = (s1, r1)" by fastforce
  obtain evs1 qs1 x where h1: "ex_history s1 = ex_history s @ DispatchProjectTask ?i x # evs1" "ex_retries s1 = ex_retries s @ qs1"
      "List.map_filter dispatched_task evs1 = []"
      "case r1 of Inr _ \<Rightarrow> (case x of Inl e \<Rightarrow> followed_up E t p evs1 qs1 task e | Inr _ \<Rightarrow> True)
       | Inl e' \<Rightarrow> stops_batch E (DispatchProjectTask ?i x # evs1) e'"
    using one_dispatch_run [OF one assms(2,3)] by auto
  have whole: "(case (s1, r1) of (s', Inl e) \<Rightarrow> (s', Inl e) | (s', Inr a) \<Rightarrow> dispatchProjectTasks E t p tasks reason s') = (s', r)"
    using Cons.prems unfolding dispatchProjectTasks.simps wf_bind_def one .
  show ?case
  proof (cases r1)
    case (Inl e)
    then have "s' = s1" "r = Inl e" using whole by auto
    then show ?thesis using h1 Inl by (intro exI [of _ "DispatchProjectTask ?i x # evs1"] exI [of _ qs1]) simp
  next
    case (Inr u)
    then have rest: "dispatchProjectTasks E t p tasks reason s1 = (s', r)" using whole by simp
    obtain evs qs where h: "ex_history s' = ex_history s1 @ evs" "ex_retries s' = ex_retries s1 @ qs"
        "case r of Inr _ \<Rightarrow> List.map_filter dispatched_task evs = tasks \<and>
             (\<forall>i e. DispatchProjectTask i (Inl e) \<in> set evs \<longrightarrow> followed_up E t p evs qs (di_TaskID i) e)
         | Inl e \<Rightarrow> stops_batch E evs e"
      using Cons.IH [OF rest] by blast
    have none: "DispatchProjectTask j y \<notin> set evs1" for j y
      using h1(3) by (force simp: List.map_filter_def filter_empty_conv)
    let ?all = "(DispatchProjectTask ?i x # evs1) @ evs"
    have up: "followed_up E t p ?all (qs1 @ qs) (di_TaskID j) e" if r: "r = Inr v" and in_all: "DispatchProjectTask j (Inl e) \<in> set ?all" for v j e
    proof (cases "DispatchProjectTask j (Inl e) \<in> set evs")
      case True
      then have "followed_up E t p evs qs (di_TaskID j) e" using h(3) r by simp
      then show ?thesis by (rule followed_up_more) auto
    next
      case False
      then have "j = ?i" "x = Inl e" using in_all none by auto
      then have "followed_up E t p evs1 qs1 (di_TaskID j) e" using h1(4) Inr by simp
      then show ?thesis by (rule followed_up_more) auto
    qed
    have stop: "stops_batch E ?all e" if "r = Inl e" for e
    proof -
      have "stops_batch E evs e" using h(3) that by simp
      then show ?thesis by (rule stops_batch_more) auto
    qed
    have all_tasks: "List.map_filter dispatched_task ?all = task # tasks" if "r = Inr v" for v
      using h(3) h1(3) that by (simp add: List.map_filter_simps)
    show ?thesis
      by (intro exI [of _ ?all] exI [of _ "qs1 @ qs"], cases r)
         (use h(1,2) h1(1,2) up stop all_tasks in auto)
  qed
qed

section \<open>Planning\<close>

definition error_of :: "wf_error + 'a \<Rightarrow> wf_error option" where
  "error_of r = (case r of Inl e \<Rightarrow> Some e | Inr _ \<Rightarrow> None)"

fun failure_of :: "event \<Rightarrow> wf_error option" where
  "failure_of (CreateCoordinationJob i r) = error_of r"
| "failure_of (LoadProjectCoordinationSnapshot i r) = error_of r"
| "failure_of (PlanDemandRoute i r) = error_of r"
| "failure_of (PersistRouteDecision i r) = error_of r"
| "failure_of (PersistPlanRevision i r) = error_of r"
| "failure_of (RequestPlanRevisionReview i r) = error_of r"
| "failure_of (ResolvePlanRevisionReview i r) = error_of r"
| "failure_of (LoadHumanDecisionRoute i r) = error_of r"
| "failure_of (LoadPriorPlanPayload i r) = error_of r"
| "failure_of (DecomposeRevision i r) = error_of r"
| "failure_of (ListDispatchableTasks i r) = error_of r"
| "failure_of (ResolveReadyDownstream i r) = error_of r"
| "failure_of (IsProjectAcceptanceReady i r) = error_of r"
| "failure_of (RequestProjectAcceptanceReview i r) = error_of r"
| "failure_of (RequestIterationExhaustedReview i r) = error_of r"
| "failure_of (RequestUpstreamSupplementReview i r) = error_of r"
| "failure_of (ApplyProjectAcceptanceDecision i r) = error_of r"
| "failure_of (HoldDownstreamForFailure i r) = error_of r"
| "failure_of (ApplyFailureRecoveryDecision i r) = error_of r"
| "failure_of (ApplyPreDispatchGateDecision i r) = error_of r"
| "failure_of (AppendProjectEvent i r) = error_of r"
| "failure_of (RejectDemandPlanning i r) = error_of r"
| "failure_of (MarkDemandPlanningFailed i r) = error_of r"
| "failure_of (ReopenProjectDemandForReplanning i r) = error_of r"
| "failure_of (DispatchProjectTask i r) = error_of r"
| "failure_of (RecoverTaskDispatchFailure i r) = error_of r"
| "failure_of (FinishCoordinationJob i r) = error_of r"
| "failure_of (InspectTaskResultDecision i r) = error_of r"
| "failure_of (CreateRevisionTaskForResult i r) = error_of r"
| "failure_of (CreateReworkTaskFromAdversarial i r) = error_of r"
| "failure_of (CreateUpstreamSupplementTasks i r) = error_of r"
| "failure_of (EnsureDemandAcceptanceDecision i r) = error_of r"
| "failure_of (MaybeRequestCastingExpansion i r) = error_of r"
| "failure_of (ReviewTask i r) = error_of r"
| "failure_of (RunReviewGate i r) = error_of r"

fun is_planning :: "event \<Rightarrow> bool" where
  "is_planning (PlanDemandRoute i r) = True"
| "is_planning _ = False"

text \<open>The last activity failed with this error, and it was not the planner.\<close>

definition fails_with :: "wf_error \<Rightarrow> event list \<Rightarrow> bool" where
  "fails_with e h \<longleftrightarrow> h \<noteq> [] \<and> failure_of (last h) = Some e \<and> \<not> is_planning (last h)"

text \<open>\<open>ends F m P\<close>: run after the events \<open>F\<close>, the handler ends with the error of its last activity, or with a result
  and a history of which \<open>P\<close> holds.\<close>

definition ends :: "event set \<Rightarrow> ('w, 'a) wf \<Rightarrow> ('a \<Rightarrow> event list \<Rightarrow> bool) \<Rightarrow> bool" where
  "ends F m P \<longleftrightarrow> (\<forall>s s' r. F \<subseteq> set (ex_history s) \<longrightarrow> m s = (s', r) \<longrightarrow>
     F \<subseteq> set (ex_history s') \<and> (case r of Inl e \<Rightarrow> fails_with e (ex_history s') | Inr a \<Rightarrow> P a (ex_history s')))"

lemma endsD:
  assumes "ends F m P" "F \<subseteq> set (ex_history s)" "m s = (s', r)"
  shows "F \<subseteq> set (ex_history s')" "case r of Inl e \<Rightarrow> fails_with e (ex_history s') | Inr a \<Rightarrow> P a (ex_history s')"
  using assms(1) [unfolded ends_def, rule_format, OF assms(2,3)] by simp_all

lemma ends_return: "(\<And>h. P a h) \<Longrightarrow> ends F (wf_return a) P"
  by (simp add: ends_def wf_return_def)

lemma ends_activity:
  assumes "\<And>e. failure_of (note i (Inl e)) = Some e" "\<And>e. \<not> is_planning (note i (Inl e))"
    and "\<And>a h. F \<subseteq> set h \<Longrightarrow> h \<noteq> [] \<Longrightarrow> last h = note i (Inr a) \<Longrightarrow> P a h"
  shows "ends F (activity f note i) P"
  unfolding ends_def
proof (intro allI impI)
  fix s s' r assume s: "F \<subseteq> set (ex_history s)" "activity f note i s = (s', r)"
  have h: "ex_history s' = ex_history s @ [note i r]" using activity_run(1) [OF s(2)] .
  then have "F \<subseteq> set (ex_history s')" using s(1) by auto
  then show "F \<subseteq> set (ex_history s') \<and> (case r of Inl e \<Rightarrow> fails_with e (ex_history s') | Inr a \<Rightarrow> P a (ex_history s'))"
    using assms h by (cases r) (simp_all add: fails_with_def)
qed

lemma ends_bind:
  assumes "ends F m (\<lambda>_ _. True)" "\<And>a. ends F (f a) P"
  shows "ends F (wf_bind m f) P"
  unfolding ends_def
proof (intro allI impI)
  fix s s' r assume s: "F \<subseteq> set (ex_history s)" "wf_bind m f s = (s', r)"
  obtain s1 r1 where run: "m s = (s1, r1)" by fastforce
  note one = endsD [OF assms(1) s(1) run]
  show "F \<subseteq> set (ex_history s') \<and> (case r of Inl e \<Rightarrow> fails_with e (ex_history s') | Inr a \<Rightarrow> P a (ex_history s'))"
  proof (cases r1)
    case (Inl e)
    then show ?thesis using s(2) run one by (auto simp: wf_bind_def)
  next
    case (Inr a)
    then have rest: "f a s1 = (s', r)" using s(2) run by (simp add: wf_bind_def)
    from endsD [OF assms(2) one(1) rest] show ?thesis by simp
  qed
qed

lemma ends_last: "ends F m (\<lambda>a. P (g a)) \<Longrightarrow> ends F (wf_bind m (\<lambda>a. wf_return (g a))) P"
  unfolding ends_def
proof (intro allI impI)
  fix s s' r assume m: "\<forall>s s' r. F \<subseteq> set (ex_history s) \<longrightarrow> m s = (s', r) \<longrightarrow>
      F \<subseteq> set (ex_history s') \<and> (case r of Inl e \<Rightarrow> fails_with e (ex_history s') | Inr a \<Rightarrow> P (g a) (ex_history s'))"
    and s: "F \<subseteq> set (ex_history s)" "wf_bind m (\<lambda>a. wf_return (g a)) s = (s', r)"
  obtain s1 r1 where run: "m s = (s1, r1)" by fastforce
  with m s(1) have one: "F \<subseteq> set (ex_history s1) \<and> (case r1 of Inl e \<Rightarrow> fails_with e (ex_history s1) | Inr a \<Rightarrow> P (g a) (ex_history s1))"
    by blast
  have "s' = s1 \<and> r = (case r1 of Inl e \<Rightarrow> Inl e | Inr a \<Rightarrow> Inr (g a))"
    using s(2) run by (cases r1) (simp_all add: wf_bind_def wf_return_def)
  then show "F \<subseteq> set (ex_history s') \<and> (case r of Inl e \<Rightarrow> fails_with e (ex_history s') | Inr a \<Rightarrow> P a (ex_history s'))"
    using one by (cases r1) simp_all
qed

lemma ends_after_catch:
  assumes "\<And>r. ends (insert (note i r) F) (g r) P"
  shows "ends F (wf_catch (activity f note i) g) P"
  unfolding ends_def
proof (intro allI impI)
  fix s s' r assume s: "F \<subseteq> set (ex_history s)" "wf_catch (activity f note i) g s = (s', r)"
  obtain s1 r1 where run: "activity f note i s = (s1, r1)" by fastforce
  have known: "insert (note i r1) F \<subseteq> set (ex_history s1)" using activity_run(1) [OF run] s(1) by auto
  have rest: "g r1 s1 = (s', r)" using s(2) run by (simp add: wf_catch_def)
  from endsD [OF assms known rest] show "F \<subseteq> set (ex_history s') \<and> (case r of Inl e \<Rightarrow> fails_with e (ex_history s') | Inr a \<Rightarrow> P a (ex_history s'))"
    by simp
qed

lemma ends_after:
  assumes "\<And>e. failure_of (note i (Inl e)) = Some e" "\<And>e. \<not> is_planning (note i (Inl e))"
    and "\<And>a. ends (insert (note i (Inr a)) F) (g a) P"
  shows "ends F (wf_bind (activity f note i) g) P"
  unfolding ends_def
proof (intro allI impI)
  fix s s' r assume s: "F \<subseteq> set (ex_history s)" "wf_bind (activity f note i) g s = (s', r)"
  obtain s1 r1 where run: "activity f note i s = (s1, r1)" by fastforce
  note h = activity_run [OF run]
  show "F \<subseteq> set (ex_history s') \<and> (case r of Inl e \<Rightarrow> fails_with e (ex_history s') | Inr a \<Rightarrow> P a (ex_history s'))"
  proof (cases r1)
    case (Inl e)
    then show ?thesis using s run h assms(1,2) by (auto simp: wf_bind_def fails_with_def)
  next
    case (Inr a)
    then have known: "insert (note i (Inr a)) F \<subseteq> set (ex_history s1)" and rest: "g a s1 = (s', r)"
      using s run h(1) by (auto simp: wf_bind_def)
    from endsD [OF assms(3) known rest] show ?thesis by simp
  qed
qed

lemma one_dispatch_ends:
  "ends F (wf_catch (activity (ac_DispatchProjectTask E) DispatchProjectTask i)
     (\<lambda>r. case r of Inl e \<Rightarrow> dispatch_failed E t p task e | Inr _ \<Rightarrow> wf_return ())) (\<lambda>_ _. True)"
  unfolding ends_def
proof (intro allI impI)
  fix s s' r assume s: "F \<subseteq> set (ex_history s)"
    "wf_catch (activity (ac_DispatchProjectTask E) DispatchProjectTask i)
       (\<lambda>r. case r of Inl e \<Rightarrow> dispatch_failed E t p task e | Inr _ \<Rightarrow> wf_return ()) s = (s', r)"
  obtain s1 r1 where run: "activity (ac_DispatchProjectTask E) DispatchProjectTask i s = (s1, r1)" by fastforce
  note h = activity_run [OF run]
  have F: "F \<subseteq> set (ex_history s1)" using h s(1) by auto
  have append: "ends F (appendSignalObservedEvent E t p summary) (\<lambda>_ _. True)" for summary
    unfolding appendSignalObservedEvent_def by (intro ends_after ends_return) (simp_all add: error_of_def)
  have recover: "ends F (wf_bind (activity (ac_RecoverTaskDispatchFailure E) RecoverTaskDispatchFailure k)
      (\<lambda>recovery. case rtr_RetryNotBefore recovery of
           Some retryAt \<Rightarrow> if rtr_Action recovery = ''retry_scheduled'' then scheduleDispatchRetry t p task retryAt else wf_return ()
         | None \<Rightarrow> wf_return ())) (\<lambda>_ _. True)" for k
  proof (intro ends_after)
    fix a show "ends (insert (RecoverTaskDispatchFailure k (Inr a)) F) (case rtr_RetryNotBefore a of
           Some retryAt \<Rightarrow> if rtr_Action a = ''retry_scheduled'' then scheduleDispatchRetry t p task retryAt else wf_return ()
         | None \<Rightarrow> wf_return ()) (\<lambda>_ _. True)"
      by (simp add: ends_def wf_return_def scheduleDispatchRetry_def Let_def split: option.split)
  qed (simp_all add: error_of_def)
  show "F \<subseteq> set (ex_history s') \<and> (case r of Inl e \<Rightarrow> fails_with e (ex_history s') | Inr a \<Rightarrow> True)"
  proof (cases r1)
    case (Inl e)
    then have d: "dispatch_failed E t p task e s1 = (s', r)" using s(2) run by (simp add: wf_catch_def)
    have last: "fails_with e (ex_history s1)" using h Inl by (simp add: fails_with_def error_of_def)
    show ?thesis
      using d F last endsD [OF append F] endsD [OF recover F]
      by (auto simp: dispatch_failed_def wf_fail_def scheduleDispatchRetry_def Let_def split: if_splits)
  next
    case (Inr u)
    then have "s' = s1" "r = Inr ()" using s(2) run by (auto simp: wf_catch_def wf_return_def)
    then show ?thesis using F by simp
  qed
qed

lemma dispatch_ends: "ends F (dispatchProjectTasks E t p tasks reason) (\<lambda>_ _. True)"
proof (induction tasks)
  case (Cons task tasks)
  show ?case unfolding dispatchProjectTasks.simps by (rule ends_bind [OF one_dispatch_ends Cons.IH])
qed (simp add: ends_return)

text \<open>The event closes the planning of a demand: its job is finished, or the demand is rejected or parked for a human.\<close>

fun concludes :: "uuid \<Rightarrow> event list \<Rightarrow> event \<Rightarrow> bool" where
  "concludes demand h (FinishCoordinationJob k (Inr u)) = (\<exists>c. CreateCoordinationJob c (Inr (fcj_JobID k)) \<in> set h)"
| "concludes demand h (RejectDemandPlanning k (Inr u)) = (rdp_DemandID k = demand)"
| "concludes demand h (MarkDemandPlanningFailed k (Inr u)) = (mpf_DemandID k = demand)"
| "concludes demand h _ = False"

text \<open>What a planning handler leaves: an event that concludes, or the request for the review that the pending
  value names.\<close>

definition planning_left :: "uuid \<Rightarrow> pendingPlanRevisionReview option \<Rightarrow> event list \<Rightarrow> bool" where
  "planning_left demand result h \<longleftrightarrow> h \<noteq> [] \<and>
     (case result of
        None \<Rightarrow> concludes demand h (last h)
      | Some pending \<Rightarrow> \<exists>k. last h = RequestPlanRevisionReview k (Inr (ppr_DecisionRequestID pending)) \<and>
          rpr_DemandID k = demand \<and> rpr_PlanRevisionID k = ppr_PlanRevisionID pending)"

lemma planning_failed_ends:
  assumes "since E ''planning-failed-human-task''"
  shows "ends F (wf_bind (planning_failed E t p demand j e events) (\<lambda>_. wf_return None)) (planning_left demand)"
proof (rule ends_last)
  show "ends F (planning_failed E t p demand j e events) (\<lambda>_. planning_left demand None)"
    using assms
    by (auto simp: planning_failed_def rejectDemandPlanningByID_def markDemandPlanningFailed_def Let_def planning_left_def error_of_def
        intro!: ends_activity split: option.split)
qed

lemma follow_ends:
  assumes "CreateCoordinationJob c (Inr (ppr_CoordinationJobID pending)) \<in> F" "ppr_DemandID pending = demand"
    and "pvr_ID revision = ppr_PlanRevisionID pending"
  shows "ends F (follow_revision E input pending revision reason) (planning_left demand)"
proof -
  have finish: "ends G (finishCoordinationJob E t (ppr_CoordinationJobID pending) st evs) (\<lambda>_. planning_left demand None)"
    if "F \<subseteq> G" for G t st evs
    unfolding finishCoordinationJob_def
    by (rule ends_activity) (use assms(1) that in \<open>auto simp: planning_left_def error_of_def\<close>)
  have decompose: "ends F (decomposeAndDispatchAcceptedPlan E input pending reason) (\<lambda>_. planning_left demand None)"
    unfolding decomposeAndDispatchAcceptedPlan_def listDispatchableTasks_def
    by (intro ends_after ends_bind dispatch_ends finish) (auto simp: error_of_def)
  have review: "ends F (wf_bind (activity (ac_RequestPlanRevisionReview E) RequestPlanRevisionReview
        (review_request t project j (ppr_DemandID pending) revision))
      (\<lambda>review. wf_return (Some (pending\<lparr>ppr_DecisionRequestID := review\<rparr>)))) (planning_left demand)" for t project j
    by (intro ends_last ends_activity)
       (use assms(2,3) in \<open>auto simp: error_of_def planning_left_def review_request_def\<close>)
  show ?thesis
    unfolding follow_revision_def using review by (auto intro!: ends_last decompose finish)
qed

text \<open>
  Claim C5: the planning of a submitted demand never ends silently. When the handler returns, the last thing it did was
  to finish the job it had created, to reject the demand or park it for a human, or to ask for the review it reports as
  pending. When it fails, it fails with the error of its last activity, and that is never the planner: a planner that
  fails always leads to a rejection or a parked demand.
\<close>

theorem planning_never_ends_silently:
  assumes "handleDemandSubmitted E input signal s = (s', r)" "since E ''planning-failed-human-task''"
  shows "ex_history s' \<noteq> [] \<and>
    (case r of
       Inl e \<Rightarrow> failure_of (last (ex_history s')) = Some e \<and> \<not> is_planning (last (ex_history s'))
     | Inr None \<Rightarrow> concludes (sd_DemandID signal) (ex_history s') (last (ex_history s'))
     | Inr (Some pending) \<Rightarrow> \<exists>k. last (ex_history s') = RequestPlanRevisionReview k (Inr (ppr_DecisionRequestID pending)) \<and>
         rpr_DemandID k = sd_DemandID signal \<and> rpr_PlanRevisionID k = ppr_PlanRevisionID pending)"
proof -
  let ?P = "planning_left (sd_DemandID signal)"
  have "ends {} (handleDemandSubmitted E input signal) ?P"
    unfolding handleDemandSubmitted_def
  proof (intro ends_after ends_after_catch, goal_cases)
    case (5 job snapshot planned)
    show ?case
    proof (cases planned)
      case (Inl e)
      then show ?thesis by (simp add: planning_failed_ends [OF assms(2)])
    next
      case (Inr decision)
      show ?thesis unfolding Inr sum.case Let_def
        by (intro ends_after follow_ends [where c = "\<lparr>cji_TenantID = pci_TenantID input, cji_ProjectID = sd_ProjectID signal,
              cji_WorkflowID = coordinator_workflow_id E input (pci_ProjectID input),
              cji_TriggerEventID = sd_CreatedEventID signal, cji_JobType = ''demand_route''\<rparr>"])
           (simp_all add: error_of_def pending_review_def)
    qed
  qed (simp_all add: error_of_def)
  from endsD(2) [OF this _ assms(1)] show ?thesis
    by (auto simp: planning_left_def fails_with_def split: sum.splits option.splits)
qed

section \<open>Rework\<close>

definition adds :: "(event \<Rightarrow> bool) \<Rightarrow> ('w, 'a) wf \<Rightarrow> bool" where
  "adds K m \<longleftrightarrow> (\<forall>s s' r. m s = (s', r) \<longrightarrow> (\<exists>evs. ex_history s' = ex_history s @ evs \<and> (\<forall>e \<in> set evs. K e)))"

lemma adds_return: "adds K (wf_return a)" and adds_fail: "adds K (wf_fail e)"
  by (simp_all add: adds_def wf_return_def wf_fail_def)

lemma adds_activity: "(\<And>r. K (note i r)) \<Longrightarrow> adds K (activity f note i)"
  unfolding adds_def using activity_run(1) by fastforce

lemma adds_catch:
  assumes "adds K m" "\<And>r. adds K (f r)"
  shows "adds K (wf_catch m f)"
  unfolding adds_def
proof (intro allI impI)
  fix s s' r assume run: "wf_catch m f s = (s', r)"
  obtain s1 r1 where one: "m s = (s1, r1)" by fastforce
  then have "f r1 s1 = (s', r)" using run by (simp add: wf_catch_def)
  with assms one obtain xs ys where "ex_history s1 = ex_history s @ xs" "\<forall>e \<in> set xs. K e"
      "ex_history s' = ex_history s1 @ ys" "\<forall>e \<in> set ys. K e"
    unfolding adds_def by meson
  then show "\<exists>evs. ex_history s' = ex_history s @ evs \<and> (\<forall>e \<in> set evs. K e)" by (intro exI [of _ "xs @ ys"]) auto
qed

lemma adds_bind:
  assumes "adds K m" "\<And>a. adds K (f a)"
  shows "adds K (wf_bind m f)"
  unfolding answers.bind_as_catch by (rule adds_catch) (use assms adds_fail in \<open>auto split: sum.split\<close>)

lemma adds_cases:
  "(b \<Longrightarrow> adds K m) \<Longrightarrow> (\<not> b \<Longrightarrow> adds K n) \<Longrightarrow> adds K (if b then m else n)"
  "(x = None \<Longrightarrow> adds K m) \<Longrightarrow> (\<And>a. x = Some a \<Longrightarrow> adds K (f a)) \<Longrightarrow> adds K (case x of None \<Rightarrow> m | Some a \<Rightarrow> f a)"
  "(\<And>a. y = Inl a \<Longrightarrow> adds K (g a)) \<Longrightarrow> (\<And>a. y = Inr a \<Longrightarrow> adds K (h a)) \<Longrightarrow> adds K (case y of Inl a \<Rightarrow> g a | Inr a \<Rightarrow> h a)"
  by (auto split: option.split sum.split)

lemma adds_schedule: "adds K (scheduleDispatchRetry t p i due)" "adds K (\<lambda>s. scheduleDispatchRetry t p i (ex_now s + d) s)"
  by (simp_all add: adds_def scheduleDispatchRetry_def Let_def)

lemmas adds_rules = adds_return adds_fail adds_schedule adds_cases adds_activity adds_bind adds_catch

fun dispatching :: "event \<Rightarrow> bool" where
  "dispatching (DispatchProjectTask i r) = True"
| "dispatching (RecoverTaskDispatchFailure i r) = True"
| "dispatching (AppendProjectEvent i r) = True"
| "dispatching _ = False"

lemma append_adds: "adds dispatching (appendSignalObservedEvent E t p summary)"
  unfolding appendSignalObservedEvent_def by (intro adds_rules) simp_all

lemma dispatch_adds: "adds dispatching (dispatchProjectTasks E t p tasks reason)"
proof (induction tasks)
  case (Cons task tasks)
  have "adds dispatching (dispatch_failed E t p task e)" for e
    unfolding dispatch_failed_def by (intro adds_rules append_adds) simp_all
  then show ?case unfolding dispatchProjectTasks.simps by (intro adds_rules Cons.IH) simp_all
qed (simp add: adds_return)

text \<open>A rework task was created for the judges' refutations, and it can run.\<close>

fun live_rework :: "event \<Rightarrow> bool" where
  "live_rework (CreateReworkTaskFromAdversarial i (Inr w)) = (\<not> fut_Exhausted w \<and> fut_TaskID w \<noteq> uuid_Nil)"
| "live_rework _ = False"

fun releases :: "event \<Rightarrow> bool" where
  "releases (ResolveReadyDownstream i (Inr ids)) = True"
| "releases _ = False"

fun inspects :: "event \<Rightarrow> bool" where
  "inspects (InspectTaskResultDecision t r) = True"
| "inspects _ = False"

abbreviation unrelated :: "event \<Rightarrow> bool" where
  "unrelated e \<equiv> \<not> live_rework e \<and> \<not> watched e \<and> \<not> inspects e"

lemma dispatching_unrelated: "dispatching e \<Longrightarrow> unrelated e"
  by (cases e) auto

lemma adds_weaken: "adds K m \<Longrightarrow> (\<And>e. K e \<Longrightarrow> L e) \<Longrightarrow> adds L m"
  unfolding adds_def by meson

lemma dispatch_unrelated: "adds unrelated (dispatchProjectTasks E t p tasks reason)"
  by (rule adds_weaken [OF dispatch_adds]) (rule dispatching_unrelated)

lemma releases_watched: "releases e \<Longrightarrow> watched e"
  by (cases e) auto

lemma quiet_unrelated: "adds unrelated (propose_expansion E task)" "adds unrelated (gate_task E task)"
  unfolding propose_expansion_def gate_task_def by (intro adds_rules; simp)+

lemma judges_run:
  assumes "judge_task E input signal s = (s', Inr next)" "tm_version E ''adversarial-review-trigger'' = 3"
  shows "\<exists>evs. ex_history s' = ex_history s @ evs \<and> (\<forall>e \<in> set evs. \<not> watched e \<and> \<not> inspects e) \<and>
    (next = Inr () \<or> next = Inl nothing_pending) \<and> (next = Inl nothing_pending \<longleftrightarrow> (\<exists>e \<in> set evs. live_rework e))"
proof -
  let ?t = "task_input (pci_TenantID input) (pci_ProjectID input) (sc_ProjectTaskID signal)"
  obtain s1 r1 where one: "activity (ac_AdversarialReviewForTask E) ReviewTask ?t s = (s1, r1)" by fastforce
  note h1 = activity_run(1) [OF one]
  have fence: "tm_version E ''adversarial-review-trigger'' \<noteq> DefaultVersion" using assms(2) by (simp add: DefaultVersion_def)
  show ?thesis
  proof (cases "\<exists>review. r1 = Inr review \<and> arf_Reviewed review \<and> (\<not> arf_AllSatisfied review \<or> arf_AnyEscalated review) \<and>
      arf_HeldCriteria review \<noteq> [] \<and> \<not> arf_AnyEscalated review")
    case False
    then have "s' = s1" "next = Inr ()"
      using assms one fence by (auto simp: judge_task_def Let_def wf_catch_def wf_return_def split: sum.splits if_splits)
    then show ?thesis using h1 by (intro exI [of _ "[ReviewTask ?t r1]"]) auto
  next
    case True
    then obtain review where review: "r1 = Inr review" "arf_Reviewed review" "\<not> arf_AllSatisfied review" "arf_HeldCriteria review \<noteq> []"
      "\<not> arf_AnyEscalated review" by blast
    let ?i = "\<lparr>rwi_TenantID = pci_TenantID input, rwi_ProjectID = pci_ProjectID input, rwi_ReviewedTaskID = sc_ProjectTaskID signal,
                 rwi_DemandID = arf_DemandID review, rwi_PlanRevisionID = arf_PlanRevisionID review,
                 rwi_HeldCriteria = arf_HeldCriteria review\<rparr>"
    obtain s2 r2 where two: "activity (ac_CreateReworkTaskFromAdversarial E) CreateReworkTaskFromAdversarial ?i s1 = (s2, r2)" by fastforce
    note h2 = activity_run(1) [OF two]
    have run: "(case r2 of Inl _ \<Rightarrow> wf_return (Inr ())
        | Inr rework \<Rightarrow> if \<not> fut_Exhausted rework \<and> fut_TaskID rework \<noteq> uuid_Nil
            then wf_bind (dispatchProjectTasks E (pci_TenantID input) (pci_ProjectID input) [fut_TaskID rework] ''retry'')
                   (\<lambda>_. wf_return (Inl nothing_pending))
            else wf_return (Inr ())) s2 = (s', Inr next)"
      using assms(1) one two review fence assms(2) by (simp add: judge_task_def Let_def wf_catch_def del: dispatchProjectTasks.simps)
    show ?thesis
    proof (cases "live_rework (CreateReworkTaskFromAdversarial ?i r2)")
      case True
      then obtain rework where rework: "r2 = Inr rework" "\<not> fut_Exhausted rework" "fut_TaskID rework \<noteq> uuid_Nil" by (cases r2) auto
      obtain s3 r3 where three: "dispatchProjectTasks E (pci_TenantID input) (pci_ProjectID input) [fut_TaskID rework] ''retry'' s2 = (s3, r3)"
        by fastforce
      then obtain evs where evs: "ex_history s3 = ex_history s2 @ evs" "\<forall>e \<in> set evs. unrelated e"
        using dispatch_unrelated unfolding adds_def by blast
      have "s' = s3" "next = Inl nothing_pending"
        using run three rework by (auto simp: wf_bind_def wf_return_def simp del: dispatchProjectTasks.simps split: sum.splits)
      then show ?thesis using h1 h2 evs True
        by (intro exI [of _ "ReviewTask ?t r1 # CreateReworkTaskFromAdversarial ?i r2 # evs"]) auto
    next
      case False
      then have "s' = s2" "next = Inr ()" using run by (auto simp: wf_return_def split: sum.splits if_splits)
      then show ?thesis using h1 h2 False
        by (intro exI [of _ "[ReviewTask ?t r1, CreateReworkTaskFromAdversarial ?i r2]"]) auto
    qed
  qed
qed

lemma release_run:
  assumes "release_downstream E input task b s = (s', Inr pending)"
  shows "\<exists>evs. ex_history s' = ex_history s @ evs \<and> (\<exists>e \<in> set evs. releases e) \<and> (\<forall>e \<in> set evs. \<not> live_rework e \<and> \<not> inspects e)"
proof -
  let ?i = "\<lparr>rrd_TenantID = pci_TenantID input, rrd_ProjectID = pci_ProjectID input, rrd_CompletedTaskID = task,
        rrd_ResolveRevisionRoot = b\<rparr>"
  obtain s1 r1 where one: "activity (ac_ResolveReadyDownstream E) ResolveReadyDownstream ?i s = (s1, r1)" by fastforce
  note h = activity_run(1) [OF one]
  obtain ids where ids: "r1 = Inr ids"
    using assms one by (cases r1) (auto simp: release_downstream_def resolveReadyDownstream_def wf_bind_def)
  define rest where "rest = wf_bind (dispatchProjectTasks E (pci_TenantID input) (pci_ProjectID input) ids ''dependency_unlocked'') (\<lambda>_.
     if ids \<noteq> [] then wf_return nothing_pending
     else wf_bind (isProjectAcceptanceReady E (pci_TenantID input) (pci_ProjectID input)) (\<lambda>ready.
       if \<not> ready then wf_return nothing_pending
       else wf_bind (requestProjectAcceptanceReview E (pci_TenantID input) (pci_ProjectID input)) (\<lambda>decision.
         wf_return (if decision = uuid_Nil then nothing_pending
           else nothing_pending\<lparr>tcp_Acceptance := Some \<lparr>pnd_DecisionRequestID = decision, pnd_ProjectID = pci_ProjectID input\<rparr>\<rparr>))))"
  have "rest s1 = (s', Inr pending)"
    using assms one ids by (simp add: release_downstream_def resolveReadyDownstream_def wf_bind_def [of "activity _ _ _"] rest_def)
  moreover have "adds unrelated rest"
    unfolding rest_def isProjectAcceptanceReady_def requestProjectAcceptanceReview_def
    by (intro adds_bind adds_return adds_cases adds_activity dispatch_unrelated) simp_all
  ultimately obtain evs where "ex_history s' = ex_history s1 @ evs" "\<forall>e \<in> set evs. unrelated e" unfolding adds_def by blast
  then show ?thesis using h ids by (intro exI [of _ "ResolveReadyDownstream ?i r1 # evs"]) auto
qed

lemma accepted_run:
  assumes "accepted_completion E input signal s = (s', Inr pending)" "tm_version E ''adversarial-review-trigger'' = 3"
  shows "\<exists>evs. ex_history s' = ex_history s @ evs \<and> ((\<exists>e \<in> set evs. releases e) \<longleftrightarrow> \<not> (\<exists>e \<in> set evs. live_rework e))"
proof -
  let ?t = "task_input (pci_TenantID input) (pci_ProjectID input) (sc_ProjectTaskID signal)"
  obtain s1 r1 where one: "propose_expansion E ?t s = (s1, r1)" by fastforce
  obtain u where u: "r1 = Inr u" using assms(1) one by (cases r1) (auto simp: accepted_completion_def Let_def wf_bind_def)
  obtain evs1 where h1: "ex_history s1 = ex_history s @ evs1" "\<forall>e \<in> set evs1. unrelated e"
    using quiet_unrelated(1) one unfolding adds_def by blast
  obtain s2 r2 where two: "judge_task E input signal s1 = (s2, r2)" by fastforce
  obtain way where way: "r2 = Inr way" using assms(1) one u two by (cases r2) (auto simp: accepted_completion_def Let_def wf_bind_def)
  obtain evs2 where h2: "ex_history s2 = ex_history s1 @ evs2" "\<forall>e \<in> set evs2. \<not> watched e \<and> \<not> inspects e"
      "way = Inr () \<or> way = Inl nothing_pending" "way = Inl nothing_pending \<longleftrightarrow> (\<exists>e \<in> set evs2. live_rework e)"
    using judges_run [OF _ assms(2)] two way by blast
  show ?thesis
  proof (cases "way = Inl nothing_pending")
    case True
    then have "s' = s2" using assms(1) one u two way by (auto simp: accepted_completion_def Let_def wf_bind_def wf_return_def)
    then show ?thesis using True h1 h2 releases_watched by (intro exI [of _ "evs1 @ evs2"]) auto
  next
    case False
    then have go: "way = Inr ()" using h2(3) by blast
    obtain s3 r3 where three: "gate_task E ?t s2 = (s3, r3)" by fastforce
    obtain v where v: "r3 = Inr v"
      using assms(1) one u two way go three by (cases r3) (auto simp: accepted_completion_def Let_def wf_bind_def)
    obtain evs3 where h3: "ex_history s3 = ex_history s2 @ evs3" "\<forall>e \<in> set evs3. unrelated e"
      using quiet_unrelated(2) three unfolding adds_def by blast
    have "release_downstream E input (sc_ProjectTaskID signal) (tm_version E ''adversarial-review-trigger'' \<ge> 3) s3 = (s', Inr pending)"
      using assms(1) one u two way go three v by (simp add: accepted_completion_def Let_def wf_bind_def)
    from release_run [OF this] obtain evs4 where h4: "ex_history s' = ex_history s3 @ evs4" "\<exists>e \<in> set evs4. releases e"
        "\<forall>e \<in> set evs4. \<not> live_rework e \<and> \<not> inspects e" by blast
    show ?thesis using h1 h2 h3 h4 False by (intro exI [of _ "evs1 @ evs2 @ evs3 @ evs4"]) auto
  qed
qed

text \<open>
  Claim C6: after an accepted result, either the work is redone or its dependents are released, never both and never
  neither. When the handler of a completed task returns and its inspection found the result accepted, the dependents
  were resolved exactly if no rework task that can run was created for the judges' refutations: a failed review, an
  escalation and an exhausted budget all release, and a detector or a failed proposal never holds the graph.
\<close>

theorem rework_or_release:
  assumes "handleEmployeeTaskCompleted E input signal s = (s', Inr pending)"
    and "since E ''employee-task-result-decision''" "tm_version E ''adversarial-review-trigger'' = 3"
    and "ac_InspectTaskResultDecision E (task_input (pci_TenantID input) (pci_ProjectID input) (sc_ProjectTaskID signal)) w1 = (w2, Inr decision)"
    and "ac_AppendProjectEvent E \<lparr>api_TenantID = pci_TenantID input, api_ProjectID = pci_ProjectID input,
        api_EventType = ''workflow.signaled'', api_Summary = ''employee task completed''\<rparr> (ex_world s) = (w1, Inr event)"
    and "itd_Decision decision \<in> {[], ''complete_accepted''}"
  shows "\<exists>new. ex_history s' = ex_history s @ new \<and> ((\<exists>e \<in> set new. releases e) \<longleftrightarrow> \<not> (\<exists>e \<in> set new. live_rework e))"
proof -
  let ?t = "task_input (pci_TenantID input) (pci_ProjectID input) (sc_ProjectTaskID signal)"
  let ?a = "\<lparr>api_TenantID = pci_TenantID input, api_ProjectID = pci_ProjectID input,
        api_EventType = ''workflow.signaled'', api_Summary = ''employee task completed''\<rparr>"
  let ?s1 = "s\<lparr>ex_world := w1, ex_history := ex_history s @ [AppendProjectEvent ?a (Inr event)]\<rparr>"
  let ?s2 = "?s1\<lparr>ex_world := w2, ex_history := ex_history ?s1 @ [InspectTaskResultDecision ?t (Inr decision)]\<rparr>"
  have one: "appendSignalObservedEvent E (pci_TenantID input) (pci_ProjectID input) ''employee task completed'' s = (?s1, Inr ())"
    using assms(5) by (simp add: appendSignalObservedEvent_def wf_bind_def activity_def wf_return_def)
  have two: "inspectTaskResultDecision E (pci_TenantID input) (pci_ProjectID input) (sc_ProjectTaskID signal) ?s1 = (?s2, Inr decision)"
    using assms(4) by (simp add: inspectTaskResultDecision_def activity_def)
  have "accepted_completion E input signal ?s2 = (s', Inr pending)"
    using assms(1,2,6) one two by (auto simp: handleEmployeeTaskCompleted_def wf_bind_def)
  from accepted_run [OF this assms(3)] obtain evs where
    "ex_history s' = ex_history ?s2 @ evs" "(\<exists>e \<in> set evs. releases e) \<longleftrightarrow> \<not> (\<exists>e \<in> set evs. live_rework e)" by blast
  then show ?thesis
    by (intro exI [of _ "AppendProjectEvent ?a (Inr event) # InspectTaskResultDecision ?t (Inr decision) # evs"]) auto
qed

section \<open>Remembered decisions and stored ones\<close>

text \<open>A handler does not look at the history it adds to.\<close>

definition after_history :: "event list \<Rightarrow> 'w execution \<Rightarrow> 'w execution" where
  "after_history h s = s\<lparr>ex_history := h @ ex_history s\<rparr>"

definition oblivious :: "('w, 'a) wf \<Rightarrow> bool" where
  "oblivious m \<longleftrightarrow> (\<forall>s h. m (after_history h s) = (after_history h (fst (m s)), snd (m s)))"

lemma oblivious_return: "oblivious (wf_return a)" and oblivious_fail: "oblivious (wf_fail e)"
  by (simp_all add: oblivious_def wf_return_def wf_fail_def)

lemma oblivious_activity: "oblivious (activity f note i)"
  by (simp add: oblivious_def activity_def after_history_def split: prod.split)

lemma oblivious_catch:
  assumes "oblivious m" "\<And>r. oblivious (f r)"
  shows "oblivious (wf_catch m f)"
  unfolding oblivious_def
proof (intro allI)
  fix s h
  have "m (after_history h s) = (after_history h (fst (m s)), snd (m s))" using assms(1) by (simp add: oblivious_def)
  moreover have "f (snd (m s)) (after_history h (fst (m s))) =
      (after_history h (fst (f (snd (m s)) (fst (m s)))), snd (f (snd (m s)) (fst (m s))))"
    using assms(2) [of "snd (m s)"] by (simp add: oblivious_def)
  ultimately show "wf_catch m f (after_history h s) = (after_history h (fst (wf_catch m f s)), snd (wf_catch m f s))"
    by (simp add: wf_catch_def case_prod_beta)
qed

lemma oblivious_bind: "oblivious m \<Longrightarrow> (\<And>a. oblivious (f a)) \<Longrightarrow> oblivious (wf_bind m f)"
  unfolding answers.bind_as_catch by (rule oblivious_catch) (auto simp: oblivious_fail split: sum.split)

lemma oblivious_schedule: "oblivious (scheduleDispatchRetry t p i due)" "oblivious (\<lambda>s. scheduleDispatchRetry t p i (ex_now s + d) s)"
  by (simp_all add: oblivious_def scheduleDispatchRetry_def after_history_def Let_def)

lemma oblivious_cases:
  "(b \<Longrightarrow> oblivious m) \<Longrightarrow> (\<not> b \<Longrightarrow> oblivious n) \<Longrightarrow> oblivious (if b then m else n)"
  "oblivious m \<Longrightarrow> (\<And>a. oblivious (f a)) \<Longrightarrow> oblivious (case x of None \<Rightarrow> m | Some a \<Rightarrow> f a)"
  "(\<And>a. oblivious (g a)) \<Longrightarrow> (\<And>a. oblivious (k a)) \<Longrightarrow> oblivious (case y of Inl a \<Rightarrow> g a | Inr a \<Rightarrow> k a)"
  "(\<And>a b. oblivious (l a b)) \<Longrightarrow> oblivious (case z of (a, b) \<Rightarrow> l a b)"
  by (auto split: option.split sum.split prod.split)

lemmas oblivious_rules = oblivious_return oblivious_fail oblivious_activity oblivious_schedule oblivious_cases oblivious_bind oblivious_catch

lemma oblivious_append: "oblivious (appendSignalObservedEvent E t p summary)"
  unfolding appendSignalObservedEvent_def by (intro oblivious_rules)

lemma oblivious_dispatch: "oblivious (dispatchProjectTasks E t p tasks reason)"
proof (induction tasks)
  case (Cons task tasks)
  have "oblivious (dispatch_failed E t p task e)" for e
    unfolding dispatch_failed_def by (intro oblivious_rules oblivious_append)
  then show ?case unfolding dispatchProjectTasks.simps by (intro oblivious_rules Cons.IH)
qed (simp add: oblivious_return)

lemma oblivious_decompose: "oblivious (decomposeAndDispatchAcceptedPlan E input pending reason)"
  unfolding decomposeAndDispatchAcceptedPlan_def listDispatchableTasks_def finishCoordinationJob_def
  by (intro oblivious_rules oblivious_dispatch)

lemma oblivious_follow: "oblivious (follow_revision E input pending revision reason)"
  unfolding follow_revision_def finishCoordinationJob_def by (intro oblivious_rules oblivious_decompose)

lemma oblivious_replan: "oblivious (replanAfterPlanReviewChanges E input signal pending events)"
  unfolding replanAfterPlanReviewChanges_def planning_failed_def rejectDemandPlanningByID_def markDemandPlanningFailed_def Let_def
  by (intro oblivious_rules oblivious_append oblivious_follow)

lemma oblivious_plan_review: "oblivious (handlePlanReviewDecision E input signal pending)"
  unfolding handlePlanReviewDecision_def finishCoordinationJob_def Let_def
  by (intro oblivious_rules oblivious_append oblivious_decompose oblivious_replan)


section \<open>Sleeping retries\<close>

text \<open>
  Claim C40: an execution that continues as new forgets its sleeping retries. The loop waits until no signal is
  buffered, but not until the routines that sleep have woken: after the last buffered signal is handled and a new
  execution is suggested, no retry sleeps any more, so a task whose dispatch was put off is not dispatched by
  the coordinator again until another signal names it.
\<close>

theorem continuing_forgets_retries:
  assumes "co_status c = Running" "co_inbox c = [signal]" "since E ''coordinator-survive-handler-error''" "signal \<noteq> SignalShutdown"
  shows "\<exists>c'. coordinator_step E c c' \<and> co_status c' = Running \<and>
    pci_Generation (co_input c') = pci_Generation (co_input c) + 1 \<and> ex_retries (co_execution c') = []"
proof (intro exI conjI)
  let ?c = "iteration E True signal c"
  show "coordinator_step E c ?c"
    using coordinator_step.handle [of c "[]" signal "[]" E True] assms by simp
  have "\<not> (\<exists>s known. on_signal E (co_input c) signal (co_known c) (co_execution c) = (s, known, Inr True))"
    using only_shutdown_stops assms(4) by blast
  then show "co_status ?c = Running" "pci_Generation (co_input ?c) = pci_Generation (co_input c) + 1" "ex_retries (co_execution ?c) = []"
    using assms
    by (auto simp: iteration_def end_iteration_def fresh_execution_def next_generation_def Let_def split: prod.split sum.split)
qed

section \<open>A concrete coordinator\<close>

text \<open>Every activity answers at once, except that the planner fails and that task 3 is to be dispatched later.\<close>

definition example_revision :: PlanRevisionResult where
  "example_revision =
     \<lparr>pvr_ID = 5, pvr_Status = ''accepted'', pvr_RevisionNumber = 1, pvr_PlanFingerprint = [],
      pvr_Payload = BuildPlanRevisionPayload decimal_uuid_lib example_route, pvr_ReviewRequired = False, pvr_CreatedEventID = 0\<rparr>"

definition example_review :: PlanReviewRoute where
  "example_review =
     \<lparr>prr_ProjectID = 2, prr_DemandID = 6, prr_CoordinationJobID = 7, prr_RouteDecisionID = 8, prr_PlanRevisionID = 5,
      prr_PlanFingerprint = [], prr_Payload = BuildPlanRevisionPayload decimal_uuid_lib example_route, prr_RouteEventID = 0,
      prr_PlanEventID = 0, prr_OutputEventIDs = []\<rparr>"

definition example_decision_route :: HumanDecisionRouteResult where
  "example_decision_route =
     \<lparr>hdr_Decision = \<lparr>pds_ID = 9, pds_ProjectID = 2, pds_DecisionType = ''plan_review'', pds_StatusSnapshot = [],
        pds_CoordinationJobID = 7, pds_ProjectTaskID = 0, pds_PlanRevisionID = 5, pds_DispatchGateResultID = 0, pds_CreatedEventID = 0\<rparr>,
      hdr_PlanReview = Some example_review, hdr_PlanningGap = None, hdr_CastingExpansion = None\<rparr>"

definition calm :: "nat temporal" where
  "calm =
     \<lparr>tm_version = (\<lambda>change. if change = ''adversarial-review-trigger'' then 3 else 1), tm_error_text = (\<lambda>_. ''failed''),
      tm_uuid = decimal_uuid_lib, tm_order = id,
      ac_CreateCoordinationJob = (\<lambda>_ w. (w, Inr 7)), ac_LoadProjectCoordinationSnapshot = (\<lambda>_ w. (w, Inr example_casting_snapshot)),
      ac_PlanDemandRoute = (\<lambda>_ w. (w, Inl (ActivityError (OtherError ''timeout'')))),
      ac_PersistRouteDecision = (\<lambda>_ w. (w, Inr \<lparr>rdr_ID = 8, rdr_CreatedEventID = 0\<rparr>)),
      ac_PersistPlanRevision = (\<lambda>k w. (w, Inr (example_revision\<lparr>pvr_Status :=
         cpr_Status (plan_revision_request example_digest decimal_uuid_lib (PersistPlanRevisionInput.truncate k))\<rparr>))),
      ac_RequestPlanRevisionReview = (\<lambda>_ w. (w, Inr 9)), ac_ResolvePlanRevisionReview = (\<lambda>_ w. (w, Inr example_revision)),
      ac_LoadHumanDecisionRoute = (\<lambda>_ w. (w, Inr example_decision_route)), ac_LoadPriorPlanPayload = (\<lambda>_ w. (w, Inr None)),
      ac_DecomposeAcceptedPlanRevision = (\<lambda>_ w. (w, Inr [])), ac_ListDispatchableTasks = (\<lambda>_ w. (w, Inr [])),
      ac_ResolveReadyDownstream = (\<lambda>_ w. (w, Inr [])), ac_IsProjectAcceptanceReady = (\<lambda>_ w. (w, Inr False)),
      ac_RequestProjectAcceptanceReview = (\<lambda>_ w. (w, Inr 0)), ac_RequestIterationExhaustedReview = (\<lambda>_ w. (w, Inr 0)),
      ac_RequestUpstreamSupplementReview = (\<lambda>_ w. (w, Inr 0)), ac_ApplyProjectAcceptanceDecision = (\<lambda>_ w. (w, Inr ())),
      ac_HoldDownstreamForFailure = (\<lambda>_ w. (w, Inr 0)), ac_ApplyFailureRecoveryDecision = (\<lambda>_ w. (w, Inr [])),
      ac_ApplyPreDispatchGateDecision = (\<lambda>_ w. (w, Inr [])), ac_AppendProjectEvent = (\<lambda>_ w. (w, Inr 10)),
      ac_RejectDemandPlanning = (\<lambda>_ w. (w, Inr ())), ac_MarkDemandPlanningFailed = (\<lambda>_ w. (w, Inr ())),
      ac_ReopenProjectDemandForReplanning = (\<lambda>_ w. (w, Inr ())),
      ac_DispatchProjectTask = (\<lambda>i w. (w, if di_TaskID i = 3 then Inl ErrProjectTaskDispatchRetryLater else Inr ())),
      ac_RecoverTaskDispatchFailure = (\<lambda>_ w. (w, Inr \<lparr>rtr_Action = [], rtr_RetryNotBefore = None\<rparr>)),
      ac_FinishCoordinationJob = (\<lambda>_ w. (w, Inr ())),
      ac_InspectTaskResultDecision = (\<lambda>_ w. (w, Inr \<lparr>itd_ResultID = 0, itd_Decision = [], itd_Exhausted = False, itd_Blocker = None,
         itd_CoordinationMode = []\<rparr>)),
      ac_CreateRevisionTaskForResult = (\<lambda>_ w. (w, Inr \<lparr>fut_TaskID = 0, fut_Exhausted = True\<rparr>)),
      ac_CreateReworkTaskFromAdversarial = (\<lambda>_ w. (w, Inr \<lparr>fut_TaskID = 0, fut_Exhausted = True\<rparr>)),
      ac_CreateUpstreamSupplementTasks = (\<lambda>_ w. (w, Inr \<lparr>usr_TaskIDs = [], usr_Exhausted = True, usr_EdgeExhausted = []\<rparr>)),
      ac_EnsureDemandAcceptanceDecision = (\<lambda>_ w. (w, Inr 0)),
      ac_MaybeRequestCastingExpansion = (\<lambda>_ w. (w, Inl (OtherError ''unwired''))),
      ac_AdversarialReviewForTask = (\<lambda>_ w. (w, Inr nothing_reviewed)), ac_RunReviewGateForTask = (\<lambda>_ w. (w, Inr (False, False)))\<rparr>"

definition calm_input :: ProjectCoordinatorInput where
  "calm_input = \<lparr>pci_TenantID = 1, pci_ProjectID = 2, pci_WorkflowID = ''w'', pci_Generation = 0\<rparr>"

definition calm_execution :: "nat execution" where
  "calm_execution = \<lparr>ex_world = 0, ex_now = 0, ex_history = [], ex_retries = []\<rparr>"

lemmas run_defs = calm_def calm_input_def calm_execution_def wf_bind_def wf_catch_def wf_return_def wf_fail_def activity_def since_def DefaultVersion_def

lemma calm_since [simp]: "since calm change"
  by (simp add: since_def calm_def DefaultVersion_def)

text \<open>A coordinator that got one signal and handled it.\<close>

lemma one_signal:
  "reachable_coordinator calm calm_input (iteration calm b signal
     ((started calm_input 0 0)\<lparr>co_inbox := [signal], co_delivered := [signal]\<rparr>))"
proof -
  let ?c = "(started calm_input 0 0)\<lparr>co_inbox := [signal], co_delivered := [signal]\<rparr>"
  have "reachable_coordinator calm calm_input (started calm_input 0 0)" by (rule reachable_coordinator.start)
  moreover have "coordinator_step calm (started calm_input 0 0) ?c"
    using coordinator_step.arrive [of "started calm_input 0 0" calm signal] by (simp add: started_def)
  ultimately have "reachable_coordinator calm calm_input ?c" by (rule reachable_coordinator.step)
  moreover have "coordinator_step calm ?c (iteration calm b signal ?c)"
    using coordinator_step.handle [of ?c "[]" signal "[]" calm b] by (simp add: started_def)
  ultimately show ?thesis by (rule reachable_coordinator.step)
qed

theorem no_signal_is_lost_witness:
  "\<exists>c. reachable_coordinator calm calm_input c \<and> co_delivered c = [SignalShutdown] \<and> co_inbox c = [] \<and>
     filter (\<lambda>s. channel s = 8) (co_handled c) = [SignalShutdown]"
proof (intro exI conjI)
  let ?c = "iteration calm False SignalShutdown ((started calm_input 0 0)\<lparr>co_inbox := [SignalShutdown], co_delivered := [SignalShutdown]\<rparr>)"
  show reach: "reachable_coordinator calm calm_input ?c" by (rule one_signal)
  show d: "co_delivered ?c = [SignalShutdown]" "co_inbox ?c = []" by simp_all
  show "filter (\<lambda>s. channel s = 8) (co_handled ?c) = [SignalShutdown]"
    using no_signal_is_lost [OF reach calm_since, of 8] unfolding d by simp
qed

definition approval :: HumanDecisionSubmitted where
  "approval = \<lparr>sh_ApprovalRequestID = 0, sh_DecisionRequestID = 9, sh_Decision = ''approved'', sh_Payload = [], sh_ResolvedEventID = 0,
     sh_TargetExitDeliverable = []\<rparr>"

definition decomposed_input :: DecomposeRevisionInput where
  "decomposed_input =
     \<lparr>dec_PlanRevisionID = 5, dec_PlanFingerprint = [], dec_Payload = BuildPlanRevisionPayload decimal_uuid_lib example_route,
      dex_TenantID = 1, dex_ProjectID = 2, dex_DemandID = 6, dex_CoordinationJobID = 7, dex_RouteDecisionID = 8\<rparr>"

lemma approval_run:
  "\<exists>q k after. handleHumanDecisionSubmittedFromStore calm calm_input approval calm_execution =
     (calm_execution\<lparr>ex_history := [LoadHumanDecisionRoute q (Inr example_decision_route), ResolvePlanRevisionReview k (Inr example_revision),
        DecomposeRevision decomposed_input (Inr [])] @ after\<rparr>, Inr ())"
  by (simp add: handleHumanDecisionSubmittedFromStore_def loadHumanDecisionRoute_def handlePlanReviewDecision_def
      decomposeAndDispatchAcceptedPlan_def listDispatchableTasks_def finishCoordinationJob_def run_defs approval_def
      example_decision_route_def example_review_def example_revision_def pending_of_route_def decomposed_input_def)


definition completion :: EmployeeTaskCompleted where
  "completion = \<lparr>sc_ProjectTaskID = 4, sc_ExecutionSummaryID = 0, sc_CompletedEventID = 0\<rparr>"

lemma completion_run:
  "\<exists>before j after. handleEmployeeTaskCompleted calm calm_input completion calm_execution =
     (calm_execution\<lparr>ex_history := before @ ResolveReadyDownstream j (Inr []) # after\<rparr>, Inr nothing_pending) \<and> rrd_CompletedTaskID j = 4"
proof -
  let ?r = "handleEmployeeTaskCompleted calm calm_input completion calm_execution"
  let ?j = "\<lparr>rrd_TenantID = 1, rrd_ProjectID = 2, rrd_CompletedTaskID = 4, rrd_ResolveRevisionRoot = True\<rparr>"
  have "\<exists>before. \<exists>after. ?r = (calm_execution\<lparr>ex_history := before @ ResolveReadyDownstream ?j (Inr []) # after\<rparr>, Inr nothing_pending)"
    by (simp add: handleEmployeeTaskCompleted_def appendSignalObservedEvent_def inspectTaskResultDecision_def accepted_completion_def
        propose_expansion_def judge_task_def gate_task_def release_downstream_def resolveReadyDownstream_def isProjectAcceptanceReady_def
        run_defs completion_def nothing_reviewed_def task_input_def Let_def)
       (rule exI [of _ "[_, _, _, _, _]"], simp)
  then show ?thesis by fastforce
qed

theorem dependents_wait_for_settled_results_witness:
  "\<exists>c before j r after. reachable_coordinator calm calm_input c \<and>
     ex_history (co_execution c) = before @ ResolveReadyDownstream j r # after \<and>
     (\<exists>t d. InspectTaskResultDecision t (Inr d) \<in> set before \<and> ct_CompletedTaskID t = 4 \<and> itd_Decision d \<in> {[], ''complete_accepted''})"
proof -
  let ?signal = "SignalEmployeeTaskCompleted completion"
  let ?c = "iteration calm False ?signal ((started calm_input 0 0)\<lparr>co_inbox := [?signal], co_delivered := [?signal]\<rparr>)"
  obtain before j after where run: "handleEmployeeTaskCompleted calm calm_input completion calm_execution =
      (calm_execution\<lparr>ex_history := before @ ResolveReadyDownstream j (Inr []) # after\<rparr>, Inr nothing_pending)" "rrd_CompletedTaskID j = 4"
    using completion_run by blast
  have reach: "reachable_coordinator calm calm_input ?c" by (rule one_signal)
  have start: "co_execution (started calm_input 0 0) = calm_execution" "co_input (started calm_input 0 0) = calm_input"
    by (simp_all add: started_def calm_execution_def)
  have probe: "ac_EnsureDemandAcceptanceDecision calm i w = (w, Inr 0)" for i w by (simp add: calm_def)
  have "\<exists>after. ex_history (co_execution ?c) = before @ ResolveReadyDownstream j (Inr []) # after"
    by (simp add: iteration_def Let_def start run end_iteration_def probe_acceptance_def ensureDemandAcceptanceDecisionForTask_def
        wf_bind_def wf_return_def activity_def probe)
  then obtain after' where h: "ex_history (co_execution ?c) = before @ ResolveReadyDownstream j (Inr []) # after'" by blast
  show ?thesis using dependents_wait_for_settled_results [OF reach calm_since h] reach h run(2) by metis
qed

theorem rework_or_release_witness:
  "\<exists>s' new. handleEmployeeTaskCompleted calm calm_input completion calm_execution = (s', Inr nothing_pending) \<and>
     ex_history s' = ex_history calm_execution @ new \<and> (list_ex releases new \<longleftrightarrow> \<not> list_ex live_rework new)"
proof -
  obtain s' where run: "handleEmployeeTaskCompleted calm calm_input completion calm_execution = (s', Inr nothing_pending)"
    using completion_run by blast
  have "ac_InspectTaskResultDecision calm (task_input (pci_TenantID calm_input) (pci_ProjectID calm_input) (sc_ProjectTaskID completion)) 0 =
      (0, Inr \<lparr>itd_ResultID = 0, itd_Decision = [], itd_Exhausted = False, itd_Blocker = None, itd_CoordinationMode = []\<rparr>)"
    "ac_AppendProjectEvent calm \<lparr>api_TenantID = pci_TenantID calm_input, api_ProjectID = pci_ProjectID calm_input,
        api_EventType = ''workflow.signaled'', api_Summary = ''employee task completed''\<rparr> (ex_world calm_execution) = (0, Inr 10)"
    "tm_version calm ''adversarial-review-trigger'' = 3"
    by (simp_all add: calm_def calm_execution_def)
  then show ?thesis
    using rework_or_release [OF run calm_since] run by (auto simp: list_ex_iff)
qed

theorem batches_leave_no_task_behind_witness:
  "\<exists>s'. dispatchProjectTasks calm 1 2 [3, 4] ''retry'' calm_execution = (s', Inr ()) \<and>
     List.map_filter dispatched_task (ex_history s') = [3, 4] \<and> map sl_TaskID (ex_retries s') = [3]"
proof -
  obtain s' where run: "dispatchProjectTasks calm 1 2 [3, 4] ''retry'' calm_execution = (s', Inr ())"
      and sleep: "map sl_TaskID (ex_retries s') = [3]"
    by (simp add: run_defs dispatch_failed_def isProjectTaskDispatchRetryLater_def scheduleDispatchRetry_def Let_def)
  from batches_leave_no_task_behind [OF run calm_since calm_since]
  have tried: "List.map_filter dispatched_task (ex_history s') = [3, 4]" by (auto simp: calm_execution_def)
  show ?thesis by (intro exI [of _ s'] conjI run tried sleep)
qed

definition submission :: DemandSubmitted where
  "submission = \<lparr>sd_DemandID = 6, sd_ProjectID = 2, sd_SubmittedByUserID = 0, sd_CreatedEventID = 0\<rparr>"

theorem planning_never_ends_silently_witness:
  "\<exists>s'. handleDemandSubmitted calm calm_input submission calm_execution = (s', Inr None) \<and>
     concludes 6 (ex_history s') (last (ex_history s'))"
proof -
  obtain s' where run: "handleDemandSubmitted calm calm_input submission calm_execution = (s', Inr None)"
    by (simp add: handleDemandSubmitted_def planning_failed_def noSuitableEmployeeDiagnosis_def markDemandPlanningFailed_def Let_def run_defs)
  have "sd_DemandID submission = 6" by (simp add: submission_def)
  then show ?thesis using planning_never_ends_silently [OF run calm_since] run by simp
qed


theorem continuing_forgets_retries_witness:
  "\<exists>c c'. reachable_coordinator calm calm_input c \<and> map sl_TaskID (ex_retries (co_execution c)) = [4] \<and>
     coordinator_step calm c c' \<and> ex_retries (co_execution c') = []"
proof -
  let ?retry = "SignalProjectTaskRetryScheduled \<lparr>sr_ProjectTaskID = 4, sr_RetryNotBefore = Some 60\<rparr>"
  let ?policy = "SignalProjectPolicyChanged \<lparr>sp_ProjectID = 2, sp_ConfigRevisionID = 0, sp_ChangedEventID = 0\<rparr>"
  let ?c1 = "iteration calm False ?retry ((started calm_input 0 0)\<lparr>co_inbox := [?retry], co_delivered := [?retry]\<rparr>)"
  let ?c2 = "?c1\<lparr>co_inbox := co_inbox ?c1 @ [?policy], co_delivered := co_delivered ?c1 @ [?policy]\<rparr>"
  have sleeping: "map sl_TaskID (ex_retries (co_execution ?c1)) = [4]" "co_status ?c1 = Running"
    by (simp_all add: iteration_def end_iteration_def started_def handleProjectTaskRetryScheduled_def appendSignalObservedEvent_def
        scheduleDispatchRetry_def run_defs Let_def)
  have reach: "reachable_coordinator calm calm_input ?c2"
    by (rule reachable_coordinator.step [OF one_signal coordinator_step.arrive]) (rule sleeping)
  have "co_inbox ?c2 = [?policy]" "co_status ?c2 = Running" using sleeping by simp_all
  from continuing_forgets_retries [OF this(2,1) calm_since]
  obtain c' where step: "coordinator_step calm ?c2 c'" and gone: "ex_retries (co_execution c') = []" by auto
  have "map sl_TaskID (ex_retries (co_execution ?c2)) = [4]" using sleeping by simp
  then show ?thesis by (intro exI [of _ ?c2] exI [of _ c'] conjI reach step gone)
qed

end
