(* ===== verification/Spec2Isabelle.thy ===== *)
theory Spec2Isabelle
  imports Authz_OpenFGA Scenario_History Coordinator_Safety
begin

text \<open>
  \<^bold>\<open>The program.\<close> SuperTeam runs teams of digital employees. Its control plane
  (\<^verbatim>\<open>src/apps/control-plane/internal\<close>, the directory all paths below are relative to) is a Go server. It
  decides who may do what (\<^verbatim>\<open>authz\<close>), keeps the scenario templates that describe how a kind of work is
  done (\<^verbatim>\<open>scenariotemplate\<close>), has a language model plan each demand and checks the plan
  (\<^verbatim>\<open>workflow/projectcoordination\<close>), stores the plan for review, turns it into tasks, and holds a demand
  until its acceptance criteria are met (\<^verbatim>\<open>project\<close>). The model, the executors and the reviewers are
  not trusted: the rules between them are, and these rules are what the development verifies.

  \<^bold>\<open>Theories.\<close> Every definition is a HOL function with the name of the Go function it translates, where
  HOL allows the name. Go errors are values of an error datatype per component, a call that may fail
  returns \<open>error + result\<close>, and code that writes to the database is a function from the store to the
  result and the new store.

  \<^item> \<open>Go_Base\<close>: what the code uses of Go and its library: byte strings, \<open>TrimSpace\<close>, \<open>Join\<close>, decimal
    printing, JSON values (\<open>gval\<close>), ordered string maps, UUID parsing, and shared lemmas.
  \<^item> \<open>Authz_Types\<close>, \<open>Authz_Repository\<close>, \<open>Authz_DB\<close>, \<open>Authz_Safety\<close>, \<open>Authz_OpenFGA\<close>: \<^verbatim>\<open>authz\<close>. The
    membership and project tables are a record of lists, the SQL statements are functions on it, and
    \<open>Check\<close> and \<open>CheckBulkTeamActions\<close> are the database authorizer with its audit log. \<open>Authz_OpenFGA\<close>
    has the second engine, the tuple synchronisation and the shadow authorizer that compares both.
    Shown: an allowance rests on a row of the request's own tenant, privileged roles are not granted
    without approval, errors deny, denials are audited, the bulk check equals the single checks,
    synchronisation keeps the tuples equal to the current memberships, the shadow only observes.
  \<^item> \<open>Autonomy_Policy\<close>: \<^verbatim>\<open>autonomypolicy/tier.go\<close>, the meet of the autonomy ceilings.
  \<^item> \<open>Scenario_Spec\<close>, \<open>Scenario_Exits\<close>, \<open>Scenario_Registry\<close>, \<open>Scenario_History\<close>: \<^verbatim>\<open>scenariotemplate\<close>. The
    specification with its JSON decoder, clean-up and validators; the exits of a template and what they
    prune; the registry service over its two tables, where each statement may fail; the version log.
    Shown: the parser accepts exactly the well-formed documents, pruning is reachability, any history
    of calls keeps the tables consistent and the version log append-only, and what partial writes do.
  \<^item> \<open>Planning_Profile\<close>, \<open>Plan_Model\<close>, \<open>Acceptance_Criteria\<close>, \<open>Plan_Graph\<close>, \<open>Template_Governance\<close>,
    \<open>Plan_Assignment\<close>, \<open>Planner_Pipeline\<close>: the planner, \<^verbatim>\<open>planning_profile.go\<close>, \<^verbatim>\<open>planner.go\<close>,
    \<^verbatim>\<open>risk_attribution.go\<close>, \<^verbatim>\<open>acceptance_criteria.go\<close>, \<^verbatim>\<open>graph_validation.go\<close>, \<^verbatim>\<open>template_governance.go\<close>,
    \<^verbatim>\<open>playbook_casting.go\<close>, \<^verbatim>\<open>extra_task_roles.go\<close>, \<^verbatim>\<open>task_type_defaults.go\<close> and
    \<^verbatim>\<open>openai_compatible_planner.go\<close>. \<open>Plan\<close> is the whole loop: ask the model, decode, apply defaults,
    casting, scores and policy, validate, govern, repair once, annotate and strip. Shown of every plan
    it returns, on every path: it is executable and never stuck, its human stops are exactly those the
    platform has recorded, required review holds, separation of duties and human gates survive.
  \<^item> \<open>Plan_Revision\<close>: \<^verbatim>\<open>plan_revision_payload.go\<close> and the row that \<open>PersistPlanRevision\<close> of
    \<^verbatim>\<open>project_store.go\<close> stores. Shown: returned plans pass the revision validator, nothing with a human
    stop is accepted automatically, the canonical form identifies a plan up to order, tasks read back
    are the tasks planned.
  \<^item> \<open>Plan_Decomposition\<close>: \<open>DecomposeAcceptedPlanRevision\<close> of \<^verbatim>\<open>project_store.go\<close> and
    \<open>CreateDemandAcceptanceCriteria\<close> of \<^verbatim>\<open>project/pg_repository.go\<close>. Shown: the snapshot keeps the first
    criterion of each identifier and is idempotent, and each task receives the criteria that name it.
  \<^item> \<open>Demand_Acceptance\<close>: \<^verbatim>\<open>project/demand_acceptance_gate.go\<close> and the evidence gate. Shown: a human's
    verdict is final, release needs a satisfied verdict of an admissible judge, and when the evidence
    gate passes.
  \<^item> \<open>Task_Result\<close>, \<open>Result_Verdicts\<close>: \<^verbatim>\<open>project/task_result_contract.go\<close> and the part of \<^verbatim>\<open>project/service.go\<close>
    from an accepted result to the verdict rows of the demand. Shown: when a result is accepted without a
    review, that its deliverables answer the plan, that a test counts as green only when the runtime attested it,
    that an executor only speaks of criteria of its own task, and that a placeholder holds the demand.
  \<^item> \<open>Dispatch_Gate\<close>, \<open>Policy_Signing\<close>, \<open>Dispatch_Run\<close>: \<^verbatim>\<open>project/predispatch_gate.go\<close>,
    \<^verbatim>\<open>policy_autonomy.go\<close>, \<^verbatim>\<open>auto_recheck.go\<close> and \<^verbatim>\<open>predispatch_gate.go\<close> of the coordinator with the table of
    gate results. The evaluation is twelve checks on a snapshot; the coordinator may sign a human gate itself; a run
    of the gate loads the snapshot, records the evaluation, asks a human and applies the answer. Shown: the status is
    the worst reason, no secret is reported, nothing is signed beyond the live policy and its ceilings, the sweep
    is bounded, and a run starts only for a task that is cleared.
  \<^item> \<open>Violation_Detectors\<close>, \<open>Review_Runs\<close>: \<^verbatim>\<open>detector.go\<close>, \<^verbatim>\<open>detector_registry.go\<close>, \<^verbatim>\<open>review_gate.go\<close>,
    \<^verbatim>\<open>adversarial_review.go\<close>, \<^verbatim>\<open>adversarial_trigger.go\<close>, \<^verbatim>\<open>review_gate_trigger.go\<close>. The detectors with their
    regular expressions, the judges with their votes, and the two activities that choose the criteria of a completed
    task and write aggregate verdicts. Shown: findings only tighten the outcome, a leaked secret holds, only a
    majority of judges releases a criterion, the detectors decide exactly the criteria the completion put on hold.
  \<^item> \<open>Coordinator\<close>, \<open>Coordinator_Safety\<close>: \<^verbatim>\<open>workflow.go\<close>, \<^verbatim>\<open>casting_expansion_plan_diff.go\<close> and the workflow types of
    \<^verbatim>\<open>types.go\<close>. The state of a workflow run is a record, each handler of a signal is a function in a state monad that
    keeps the history of activity calls, and the loop (receive a signal or a fired timer, handle it, perhaps continue
    as new) is a step relation. Handlers run as one block, because Temporal delivers signals to a channel that only the
    loop reads. Shown: no signal is lost, also when a run is continued as new; nothing is decomposed that was not
    accepted; dependents are released only after the result was settled; a batch dispatch leaves no task
    behind; planning never ends silently; an accepted result leads to rework or to the release of dependents; the stored and the in-memory
    graph decide alike; and that continuing as new forgets the retries that were waiting for a timer.

  \<^bold>\<open>Interfaces.\<close> \<open>authz_repository\<close> and \<open>tenant_directory\<close> (laws of the authorization store, for
  \<open>PgRepository\<close>), \<open>authorizer\<close> and \<open>shadowed\<close> (well-formed verdicts, for both engines and the shadow),
  \<open>version_log\<close> (for the version table), \<open>plan_annotator\<close> (steps that leave the work of a plan alone and
  only add attributed human stops, for the four annotating steps of the planner), \<open>sort_by_key\<close> (for
  the three sorts of the canonical form), \<open>status_checks\<close> (checks that record a reason and raise the status, for the
  gate's checks), \<open>update_invariant\<close> (what every record update keeps, for the redaction), \<open>signing_gate\<close>
  (operations whose requests to the resolver are all in order, for the gates of the coordinator),
  \<open>condition_detector\<close> (a detector signs its own findings, for both standard conditions), \<open>aggregate_rows\<close> (an
  upsert that replaces the row of one judge, for the verdicts of judges and detectors), \<open>history_monitor\<close> (a rule on
  histories of calls, with the program logic for the monad) and, extending it, \<open>coordinator_rules\<close> (what the
  handlers need of such a rule; interpreted for the acceptance, the settlement and the answer rule).

  \<^bold>\<open>Parameters.\<close> The UUID library (\<open>uuid_lib\<close>), the language model's answers (a chat function that may change the
  world and fail), the JSON parser and printer, the iteration order of Go maps (a function that permutes its
  argument), the SHA-256 digest over the JSON encoding, what Go's conversion of an out-of-range float gives (\<open>wide\<close>),
  the OpenFGA server, statement failures and generated identifiers of the database, the transaction that stores a task
  graph, the resolver of decisions, the Temporal library with the activities after their retries, its workflow versions and the
  text of errors (the record \<open>temporal\<close>), and the repository and store interfaces, which are records of functions. Where
  a claim depends on one of them, what it needs is a named hypothesis with a concrete instance in the witness.

  \<^bold>\<open>Bounds.\<close> The two depth-first searches for cycles take fuel, one more than the number of tasks;
  that this is enough, and that the answer is exact, is proved for any enumeration of the tasks. The
  planner's loop makes the configured number of attempts, at least one, as in the code. Scores are in
  0 to 100. Version numbers are unbounded integers with the column's bound as an explicit failure. Reading the latest
  result is a loop over pages with a 32-bit offset, a partial function that is proved to return for every finite
  table below that bound.

  \<^bold>\<open>Not modelled.\<close> The Temporal library and the wrappers of \<^verbatim>\<open>activities.go\<close> that only pass a call on to the store; the rest of
  \<^verbatim>\<open>project_store.go\<close> (handoff packages, recovery, follow-ups, and \<open>applyIterationExhaustedDecision\<close>, a parameter of
  \<open>Dispatch_Run\<close>); the rest of the project service, and the employee, runtime, tenant and user services, mostly SQL
  orchestration and assembly of views; the JSON decoders of \<^verbatim>\<open>task_result_contract.go\<close>, which keep raw
  text; template instantiation, automation, retention and inbox; generated code, HTTP handlers, the planner's prompt
  and external channels, which are input and output; the web application and the Rust runtime agent. Deep copies of Go
  maps are identities on values and have no definition. The assembly of an employee's planning profile from
  its configuration is left out of an otherwise modelled file.

  \<^bold>\<open>What is left.\<close> Template instantiation and the casting gaps, the resolution of runtime nodes, handoff packages and
  recovery, and the run life cycle.
\<close>

end
